(* ===== verification/Py_Prelude.thy ===== *)
theory Py_Prelude
  imports Main "HOL-Library.Char_ord" "HOL-Library.List_Lexorder" "HOL-Library.Product_Lexorder"
begin

section \<open>Python text and the effect of raising and writing\<close>

text \<open>
  What every component shares: the Python string operations the sources call, on
  strings whose characters are code points below 256; ordered de-duplication; and the
  monad of an operation that reads and writes a state and may raise. A raise keeps the
  state written so far, as an exception does. The collection \<open>op_simps\<close> unfolds an
  operation into its runs, \<open>op_rules\<close> are the rules of the triples over operations.
\<close>

named_theorems op_simps "equations that unfold an operation into its runs"
named_theorems op_rules "introduction rules for triples over operations"

subsection \<open>Strings\<close>

definition py_space :: "char \<Rightarrow> bool" where
  "py_space c \<longleftrightarrow> c \<in> set [CHR '' '', CHR 0x09, CHR 0x0A, CHR 0x0B, CHR 0x0C, CHR 0x0D,
     CHR 0x1C, CHR 0x1D, CHR 0x1E, CHR 0x1F, CHR 0x85, CHR 0xA0]"

definition py_strip :: "string \<Rightarrow> string" where
  "py_strip s = rev (dropWhile py_space (rev (dropWhile py_space s)))"

definition rstrip_char :: "char \<Rightarrow> string \<Rightarrow> string" where
  "rstrip_char d s = rev (dropWhile (\<lambda>c. c = d) (rev s))"

definition lower_char :: "char \<Rightarrow> char" where
  "lower_char c =
     (let n = (of_char c :: nat) in
      if (65 \<le> n \<and> n \<le> 90) \<or> (192 \<le> n \<and> n \<le> 222 \<and> n \<noteq> 215) then char_of (n + 32) else c)"

definition py_lower :: "string \<Rightarrow> string" where
  "py_lower s = map lower_char s"

definition starts_with :: "string \<Rightarrow> string \<Rightarrow> bool" where
  "starts_with s p \<longleftrightarrow> take (length p) s = p"

definition ends_with :: "string \<Rightarrow> string \<Rightarrow> bool" where
  "ends_with s p \<longleftrightarrow> length p \<le> length s \<and> drop (length s - length p) s = p"

fun py_in :: "string \<Rightarrow> string \<Rightarrow> bool" where
  "py_in p [] \<longleftrightarrow> p = []"
| "py_in p (c # cs) \<longleftrightarrow> starts_with (c # cs) p \<or> py_in p cs"

fun py_split :: "char \<Rightarrow> string \<Rightarrow> string list" where
  "py_split d [] = [[]]"
| "py_split d (c # cs) =
     (if c = d then [] # py_split d cs
      else (case py_split d cs of [] \<Rightarrow> [[c]] | w # ws \<Rightarrow> (c # w) # ws))"

fun py_join :: "string \<Rightarrow> string list \<Rightarrow> string" where
  "py_join sep [] = []"
| "py_join sep [w] = w"
| "py_join sep (w # v # ws) = w @ sep @ py_join sep (v # ws)"

definition hex_chars :: string where
  "hex_chars = ''0123456789abcdef''"

definition digit_chars :: string where
  "digit_chars = ''0123456789''"

text \<open>Iteration order of \<open>dict.fromkeys\<close>: the first occurrence of each element.\<close>

fun uniq_from :: "'a list \<Rightarrow> 'a list \<Rightarrow> 'a list" where
  "uniq_from seen [] = []"
| "uniq_from seen (x # xs) =
     (if x \<in> set seen then uniq_from seen xs else x # uniq_from (x # seen) xs)"

abbreviation uniq :: "'a list \<Rightarrow> 'a list" where
  "uniq xs \<equiv> uniq_from [] xs"

subsection \<open>Laws of the string operations\<close>

lemma dropWhile_idem [simp]: "dropWhile P (dropWhile P xs) = dropWhile P xs"
  by (induction xs) auto

lemma dropWhile_rev_dropWhile:
  assumes "dropWhile P xs = xs"
  shows "dropWhile P (rev (dropWhile P (rev xs))) = rev (dropWhile P (rev xs))"
proof (cases "rev (dropWhile P (rev xs)) = []")
  case True
  then show ?thesis by (simp only: dropWhile.simps)
next
  case False
  then obtain y ys where Cons: "rev (dropWhile P (rev xs)) = y # ys"
    by (cases "rev (dropWhile P (rev xs))") simp_all
  have "rev (dropWhile P (rev xs)) @ rev (takeWhile P (rev xs)) = xs"
    by (metis rev_append rev_rev_ident takeWhile_dropWhile_id)
  with Cons have "xs = y # ys @ rev (takeWhile P (rev xs))" by simp
  with assms have "\<not> P y"
    by (metis dropWhile.simps(2) dropWhile_eq_self_iff list.distinct(1) list.sel(1))
  with Cons show ?thesis by simp
qed

lemma py_strip_idem [simp]: "py_strip (py_strip s) = py_strip s"
  by (simp add: py_strip_def dropWhile_rev_dropWhile)

lemma py_strip_Nil [simp]: "py_strip [] = []"
  by (simp add: py_strip_def)

lemma py_strip_fix:
  assumes "s \<noteq> []" and "\<not> py_space (hd s)" and "\<not> py_space (last s)"
  shows "py_strip s = s"
proof -
  from assms have "dropWhile py_space s = s" by (cases s) auto
  moreover from assms have "dropWhile py_space (rev s) = rev s"
    by (cases s rule: rev_cases) auto
  ultimately show ?thesis by (simp add: py_strip_def)
qed

lemma py_strip_no_space: "\<forall>c \<in> set s. \<not> py_space c \<Longrightarrow> py_strip s = s"
  by (cases "s = []") (auto intro!: py_strip_fix)

lemma set_py_strip: "set (py_strip s) \<subseteq> set s"
  by (auto simp: py_strip_def dest!: set_dropWhileD)

lemma py_join_Cons: "ws \<noteq> [] \<Longrightarrow> py_join sep (w # ws) = w @ sep @ py_join sep ws"
  by (cases ws) auto

lemma py_join_push: "py_join sep ((c # w) # ws) = c # py_join sep (w # ws)"
  by (cases ws) auto

lemma py_split_neq_Nil [simp]: "py_split d s \<noteq> []"
  by (cases s) (auto split: list.splits)

lemma py_join_split: "py_join [d] (py_split d s) = s"
  by (induction s) (auto split: list.splits simp: py_join_Cons py_join_push)

lemma py_split_single: "d \<notin> set w \<Longrightarrow> py_split d w = [w]"
  by (induction w) auto

lemma py_split_append:
  "d \<notin> set w \<Longrightarrow> py_split d (w @ d # r) = w # py_split d r"
  by (induction w) auto

lemma py_split_join:
  assumes "ws \<noteq> []" and "\<forall>w \<in> set ws. d \<notin> set w"
  shows "py_split d (py_join [d] ws) = ws"
  using assms
proof (induction "[d]" ws rule: py_join.induct)
  case 1
  then show ?case by simp
next
  case (2 w)
  then show ?case by (simp add: py_split_single)
next
  case (3 w v ws)
  then show ?case by (simp add: py_split_append)
qed

lemma set_py_split: "w \<in> set (py_split d s) \<Longrightarrow> set w \<subseteq> set s - {d}"
proof (induction s arbitrary: w)
  case Nil
  then show ?case by simp
next
  case (Cons c cs)
  then show ?case
    by (cases "py_split d cs") (fastforce split: if_splits)+
qed

lemma set_uniq_from: "set (uniq_from seen xs) = set xs - set seen"
  by (induction seen xs rule: uniq_from.induct) auto

lemma distinct_uniq_from: "distinct (uniq_from seen xs)"
  by (induction seen xs rule: uniq_from.induct) (auto simp: set_uniq_from)

lemma uniq_from_id: "distinct xs \<Longrightarrow> set seen \<inter> set xs = {} \<Longrightarrow> uniq_from seen xs = xs"
  by (induction seen xs rule: uniq_from.induct) auto

lemma starts_with_append [simp]: "starts_with (p @ s) p"
  by (simp add: starts_with_def)

lemma starts_with_iff: "starts_with s p \<longleftrightarrow> (\<exists>r. s = p @ r)"
  by (metis append_take_drop_id starts_with_append starts_with_def)

lemma ends_with_iff: "ends_with s p \<longleftrightarrow> (\<exists>r. s = r @ p)"
  by (metis append_eq_conv_conj append_take_drop_id diff_add_inverse2 ends_with_def le_add2
      length_append)

subsection \<open>Operations that read and write a state and may raise\<close>

type_synonym ('s, 'e, 'a) op = "'s \<Rightarrow> ('e + 'a) \<times> 's"

definition ret :: "'a \<Rightarrow> ('s, 'e, 'a) op" where
  "ret a s = (Inr a, s)"

definition throw :: "'e \<Rightarrow> ('s, 'e, 'a) op" where
  "throw e s = (Inl e, s)"

definition bindM :: "('s, 'e, 'a) op \<Rightarrow> ('a \<Rightarrow> ('s, 'e, 'b) op) \<Rightarrow> ('s, 'e, 'b) op" where
  "bindM m f s = (case m s of (Inl e, s') \<Rightarrow> (Inl e, s') | (Inr a, s') \<Rightarrow> f a s')"

text \<open>\<open>try: m except E as e: h e\<close>: the handler runs in the state the body left.\<close>

definition catchM :: "('s, 'e, 'a) op \<Rightarrow> ('e \<Rightarrow> ('s, 'e, 'a) op option) \<Rightarrow> ('s, 'e, 'a) op" where
  "catchM m h s =
     (case m s of
        (Inl e, s') \<Rightarrow> (case h e of None \<Rightarrow> (Inl e, s') | Some k \<Rightarrow> k s')
      | (Inr a, s') \<Rightarrow> (Inr a, s'))"

definition lift_res :: "'e + 'a \<Rightarrow> ('s, 'e, 'a) op" where
  "lift_res r s = (r, s)"

definition raise_if :: "bool \<Rightarrow> 'e \<Rightarrow> ('s, 'e, unit) op" where
  "raise_if b e = (if b then throw e else ret ())"

definition reads :: "('s \<Rightarrow> 'a) \<Rightarrow> ('s, 'e, 'a) op" where
  "reads f s = (Inr (f s), s)"

definition writes :: "('s \<Rightarrow> 's) \<Rightarrow> ('s, 'e, unit) op" where
  "writes f s = (Inr (), f s)"

fun foldM_op :: "('x \<Rightarrow> 'a \<Rightarrow> ('s, 'e, 'a) op) \<Rightarrow> 'x list \<Rightarrow> 'a \<Rightarrow> ('s, 'e, 'a) op" where
  "foldM_op f [] a = ret a"
| "foldM_op f (x # xs) a = bindM (f x a) (\<lambda>b. foldM_op f xs b)"

text \<open>Pure fallible code: the same sequencing without a state.\<close>

definition bindR :: "'e + 'a \<Rightarrow> ('a \<Rightarrow> 'e + 'b) \<Rightarrow> 'e + 'b" where
  "bindR r f = (case r of Inl e \<Rightarrow> Inl e | Inr a \<Rightarrow> f a)"

definition check :: "bool \<Rightarrow> 'e \<Rightarrow> 'e + unit" where
  "check bad e = (if bad then Inl e else Inr ())"

fun mapR :: "('x \<Rightarrow> 'e + 'a) \<Rightarrow> 'x list \<Rightarrow> 'e + 'a list" where
  "mapR f [] = Inr []"
| "mapR f (x # xs) = bindR (f x) (\<lambda>y. bindR (mapR f xs) (\<lambda>ys. Inr (y # ys)))"

lemma bindR_simps [simp]: "bindR (Inl e) f = Inl e" "bindR (Inr a) f = f a"
  by (simp_all add: bindR_def)

lemma bindR_Inr_iff: "bindR r f = Inr b \<longleftrightarrow> (\<exists>a. r = Inr a \<and> f a = Inr b)"
  by (cases r) auto

lemma bindR_Inl_iff: "bindR r f = Inl e \<longleftrightarrow> r = Inl e \<or> (\<exists>a. r = Inr a \<and> f a = Inl e)"
  by (cases r) auto

lemma check_Inr_iff [simp]: "check bad e = Inr u \<longleftrightarrow> \<not> bad"
  by (simp add: check_def)

lemma check_Inl_iff [simp]: "check bad e = Inl x \<longleftrightarrow> bad \<and> x = e"
  by (auto simp: check_def)

lemma bindR_check: "bindR (check bad e) f = (if bad then Inl e else f ())"
  by (simp add: check_def)

lemma mapR_Inr_iff:
  "mapR f xs = Inr ys \<longleftrightarrow> list_all2 (\<lambda>x y. f x = Inr y) xs ys"
  by (induction xs arbitrary: ys) (auto simp: bindR_Inr_iff list_all2_Cons1)

subsection \<open>Runs\<close>

lemma bindM_Inr_iff [op_simps]:
  "bindM m f s = (Inr b, t) \<longleftrightarrow> (\<exists>a s'. m s = (Inr a, s') \<and> f a s' = (Inr b, t))"
  by (auto simp: bindM_def split: prod.splits sum.splits)

lemma bindM_Inl_iff [op_simps]:
  "bindM m f s = (Inl e, t) \<longleftrightarrow>
     m s = (Inl e, t) \<or> (\<exists>a s'. m s = (Inr a, s') \<and> f a s' = (Inl e, t))"
  by (auto simp: bindM_def split: prod.splits sum.splits)

lemma ret_iff [op_simps]: "ret a s = (r, t) \<longleftrightarrow> r = Inr a \<and> t = s"
  by (auto simp: ret_def)

lemma throw_iff [op_simps]: "throw e s = (r, t) \<longleftrightarrow> r = Inl e \<and> t = s"
  by (auto simp: throw_def)

lemma lift_res_iff [op_simps]: "lift_res x s = (r, t) \<longleftrightarrow> x = r \<and> t = s"
  by (auto simp: lift_res_def)

lemma raise_if_iff [op_simps]:
  "raise_if b e s = (r, t) \<longleftrightarrow> t = s \<and> r = (if b then Inl e else Inr ())"
  by (auto simp: raise_if_def op_simps)

lemma reads_iff [op_simps]: "reads f s = (r, t) \<longleftrightarrow> r = Inr (f s) \<and> t = s"
  by (auto simp: reads_def)

lemma writes_iff [op_simps]: "writes f s = (r, t) \<longleftrightarrow> r = Inr () \<and> t = f s"
  by (auto simp: writes_def)

text \<open>Evaluation of a run whose first step is known.\<close>

lemma bindM_run:
  "m s = (Inr a, s') \<Longrightarrow> bindM m f s = f a s'"
  "m s = (Inl e, s') \<Longrightarrow> bindM m f s = (Inl e, s')"
  by (simp_all add: bindM_def)

lemma bindM_basic [simp]:
  "bindM (ret a) f = f a"
  "bindM (throw e) g = throw e"
  "bindM (raise_if b e) h = (if b then throw e else h ())"
  by (auto simp: fun_eq_iff bindM_def ret_def throw_def raise_if_def)

lemma bindM_lift [simp]:
  "bindM (lift_res (Inr a)) f = f a" "bindM (lift_res (Inl e)) g = throw e"
  by (auto simp: fun_eq_iff bindM_def throw_def lift_res_def)

subsection \<open>Triples\<close>

text \<open>
  \<open>triple P m Q X\<close>: from a state satisfying \<open>P\<close>, a normal return satisfies \<open>Q\<close> and a
  raise satisfies \<open>X\<close>. The state is constrained on both ways out.
\<close>

definition triple ::
  "('s \<Rightarrow> bool) \<Rightarrow> ('s, 'e, 'a) op \<Rightarrow> ('a \<Rightarrow> 's \<Rightarrow> bool) \<Rightarrow> ('e \<Rightarrow> 's \<Rightarrow> bool) \<Rightarrow> bool" where
  "triple P m Q X \<longleftrightarrow>
     (\<forall>s. P s \<longrightarrow> (case m s of (Inr a, s') \<Rightarrow> Q a s' | (Inl e, s') \<Rightarrow> X e s'))"

lemma triple_iff:
  "triple P m Q X \<longleftrightarrow>
     (\<forall>s r t. P s \<longrightarrow> m s = (r, t) \<longrightarrow>
        (\<forall>a. r = Inr a \<longrightarrow> Q a t) \<and> (\<forall>e. r = Inl e \<longrightarrow> X e t))"
  by (force simp: triple_def split: prod.splits sum.splits)

lemma tripleI:
  assumes "\<And>s a s'. P s \<Longrightarrow> m s = (Inr a, s') \<Longrightarrow> Q a s'"
    and "\<And>s e s'. P s \<Longrightarrow> m s = (Inl e, s') \<Longrightarrow> X e s'"
  shows "triple P m Q X"
  using assms by (auto simp: triple_iff)

lemma triple_Inr: "triple P m Q X \<Longrightarrow> P s \<Longrightarrow> m s = (Inr a, s') \<Longrightarrow> Q a s'"
  by (simp add: triple_iff)

lemma triple_Inl: "triple P m Q X \<Longrightarrow> P s \<Longrightarrow> m s = (Inl e, s') \<Longrightarrow> X e s'"
  by (simp add: triple_iff)

lemma triple_conseq:
  assumes "triple P' m Q' X'"
    and "\<And>s. P s \<Longrightarrow> P' s" and "\<And>a s. Q' a s \<Longrightarrow> Q a s" and "\<And>e s. X' e s \<Longrightarrow> X e s"
  shows "triple P m Q X"
proof (rule tripleI)
  fix s a s'
  assume "P s" "m s = (Inr a, s')"
  with assms show "Q a s'" by (metis triple_Inr)
next
  fix s e s'
  assume "P s" "m s = (Inl e, s')"
  with assms show "X e s'" by (metis triple_Inl)
qed

lemma triple_ret [op_rules]: "(\<And>s. P s \<Longrightarrow> Q a s) \<Longrightarrow> triple P (ret a) Q X"
  by (simp add: triple_def ret_def)

lemma triple_throw [op_rules]: "(\<And>s. P s \<Longrightarrow> X e s) \<Longrightarrow> triple P (throw e) Q X"
  by (simp add: triple_def throw_def)

lemma triple_lift_res [op_rules]:
  "(\<And>s a. P s \<Longrightarrow> r = Inr a \<Longrightarrow> Q a s) \<Longrightarrow> (\<And>s e. P s \<Longrightarrow> r = Inl e \<Longrightarrow> X e s) \<Longrightarrow>
   triple P (lift_res r) Q X"
  by (auto simp: triple_def lift_res_def split: sum.splits)

lemma triple_bind:
  "triple P m R X \<Longrightarrow> (\<And>a. triple (R a) (f a) Q X) \<Longrightarrow> triple P (bindM m f) Q X"
  by (fastforce simp: triple_def bindM_def split: prod.splits sum.splits)

lemma triple_catch:
  assumes "triple P m Q Y"
    and "\<And>e k. h e = Some k \<Longrightarrow> triple (Y e) k Q X"
    and "\<And>e s. h e = None \<Longrightarrow> Y e s \<Longrightarrow> X e s"
  shows "triple P (catchM m h) Q X"
proof (rule tripleI)
  fix s a s'
  assume "P s" "catchM m h s = (Inr a, s')"
  then show "Q a s'"
    using triple_Inr [OF assms(1)] triple_Inl [OF assms(1)] triple_Inr [OF assms(2)]
    by (fastforce simp: catchM_def split: prod.splits sum.splits option.splits)
next
  fix s e s'
  assume "P s" "catchM m h s = (Inl e, s')"
  then show "X e s'"
    using triple_Inl [OF assms(1)] triple_Inl [OF assms(2)] assms(3)
    by (fastforce simp: catchM_def split: prod.splits sum.splits option.splits)
qed

subsection \<open>What every way out of an operation keeps\<close>

text \<open>
  \<open>keeps R m\<close>: whatever \<open>m\<close> returns or raises, the state it leaves is related to the
  state it found. For a reflexive and transitive \<open>R\<close> it follows the structure of \<open>m\<close>.
\<close>

definition keeps :: "('s \<Rightarrow> 's \<Rightarrow> bool) \<Rightarrow> ('s, 'e, 'a) op \<Rightarrow> bool" where
  "keeps R m \<longleftrightarrow> (\<forall>s. R s (snd (m s)))"

lemma keepsI: "(\<And>s r t. m s = (r, t) \<Longrightarrow> R s t) \<Longrightarrow> keeps R m"
  by (metis keeps_def prod.collapse)

lemma keepsD: "keeps R m \<Longrightarrow> m s = (r, t) \<Longrightarrow> R s t"
  by (metis keeps_def snd_conv)

definition stays :: "('s \<Rightarrow> 's \<Rightarrow> bool) \<Rightarrow> ('s, 'e, 'a) op \<Rightarrow> 's \<Rightarrow> bool" where
  "stays R m s \<longleftrightarrow> R s (snd (m s))"

locale state_order =
  fixes R :: "'s \<Rightarrow> 's \<Rightarrow> bool"
  assumes order_refl: "R s s"
    and order_trans: "R s t \<Longrightarrow> R t u \<Longrightarrow> R s u"
begin

lemma keeps_ret: "keeps R (ret a)"
  by (simp add: keeps_def ret_def order_refl)

lemma keeps_throw: "keeps R (throw e)"
  by (simp add: keeps_def throw_def order_refl)

lemma keeps_lift_res: "keeps R (lift_res r)"
  by (simp add: keeps_def lift_res_def order_refl)

lemma keeps_raise_if: "keeps R (raise_if b e)"
  by (simp add: raise_if_def keeps_throw keeps_ret)

lemma keeps_reads: "keeps R (reads f)"
  by (simp add: keeps_def reads_def order_refl)

lemma keeps_bind: "keeps R m \<Longrightarrow> (\<And>a. keeps R (f a)) \<Longrightarrow> keeps R (bindM m f)"
  by (auto simp: keeps_def bindM_def split: prod.splits sum.splits)
    (metis order_trans snd_conv)+

lemma keeps_catch:
  assumes "keeps R m" and "\<And>e k. h e = Some k \<Longrightarrow> keeps R k"
  shows "keeps R (catchM m h)"
proof (rule keepsI)
  fix s r t
  assume "catchM m h s = (r, t)"
  then show "R s t"
    using assms(1)[THEN keepsD, of s] assms(2)[THEN keepsD] order_trans
    by (fastforce simp: catchM_def split: prod.splits sum.splits option.splits)
qed

lemma keeps_foldM: "(\<And>x a. keeps R (f x a)) \<Longrightarrow> keeps R (foldM_op f xs a)"
  by (induction xs arbitrary: a) (auto intro: keeps_ret keeps_bind)

text \<open>
  The same from one state: the continuation may use what the first step returned, and from where.
\<close>

lemma stays_keeps: "keeps R m \<Longrightarrow> stays R m s"
  by (simp add: keeps_def stays_def)

lemma stays_basic:
  "stays R (ret a) s" "stays R (throw e) s" "stays R (lift_res r) s" "stays R (raise_if b e) s" "stays R (reads f) s"
  by (rule stays_keeps, rule keeps_ret keeps_throw keeps_lift_res keeps_raise_if keeps_reads)+

lemma stays_bind:
  assumes "stays R m s" "\<And>a s1. m s = (Inr a, s1) \<Longrightarrow> stays R (f a) s1"
  shows "stays R (bindM m f) s"
  using assms order_trans by (auto simp: stays_def bindM_def split: prod.splits sum.splits)

lemma stays_catch:
  assumes "stays R m s" "\<And>e k s1. m s = (Inl e, s1) \<Longrightarrow> h e = Some k \<Longrightarrow> stays R k s1"
  shows "stays R (catchM m h) s"
  using assms order_trans by (auto simp: stays_def catchM_def split: prod.splits sum.splits option.splits)

lemma stays_all: "(\<And>s. stays R m s) \<Longrightarrow> keeps R m"
  by (simp add: keeps_def stays_def)

lemmas keeps_rules =
  keeps_ret keeps_throw keeps_lift_res keeps_raise_if keeps_reads keeps_bind keeps_foldM

end

end
