(* ===== verification/Py_Json.thy ===== *)
theory Py_Json
  imports Py_Prelude
begin

section \<open>JSON values as Python sees them\<close>

text \<open>
  The values \<open>json.loads\<close> returns, with the Python operations the sources apply to them:
  truth value, \<open>str\<close>, \<open>dict.get\<close>, comparison with 1, and \<open>json.dumps\<close> with sorted
  keys, compact separators and ASCII escapes. A float is its \<open>repr\<close> text. A record file
  is the value its text parses to, so writing and reading a file is the identity on values.
\<close>

datatype json =
    JNull
  | JBool bool
  | JInt int
  | JFloat string
  | JStr string
  | JArr "json list"
  | JObj "(string \<times> json) list"

fun truthy :: "json \<Rightarrow> bool" where
  "truthy JNull = False"
| "truthy (JBool b) = b"
| "truthy (JInt i) = (i \<noteq> 0)"
| "truthy (JFloat r) = (r \<noteq> ''0.0'' \<and> r \<noteq> ''-0.0'')"
| "truthy (JStr s) = (s \<noteq> [])"
| "truthy (JArr xs) = (xs \<noteq> [])"
| "truthy (JObj kvs) = (kvs \<noteq> [])"

definition jget :: "(string \<times> json) list \<Rightarrow> string \<Rightarrow> json" where
  "jget kvs k = (case map_of kvs k of None \<Rightarrow> JNull | Some v \<Rightarrow> v)"

text \<open>\<open>x == 1\<close> in Python: also true of \<open>True\<close> and \<open>1.0\<close>.\<close>

definition is_one :: "json \<Rightarrow> bool" where
  "is_one j \<longleftrightarrow> j = JInt 1 \<or> j = JBool True \<or> j = JFloat ''1.0''"

subsection \<open>Decimal and hexadecimal digits\<close>

definition digit_char :: "nat \<Rightarrow> char" where
  "digit_char d = char_of (48 + d)"

fun nat_digits :: "nat \<Rightarrow> string" where
  "nat_digits n = (if n < 10 then [digit_char n] else nat_digits (n div 10) @ [digit_char (n mod 10)])"

declare nat_digits.simps [simp del]

definition int_str :: "int \<Rightarrow> string" where
  "int_str i = (if i < 0 then CHR ''-'' # nat_digits (nat (- i)) else nat_digits (nat i))"

definition hex_char :: "nat \<Rightarrow> char" where
  "hex_char d = (if d < 10 then char_of (48 + d) else char_of (87 + d))"

definition hex_val :: "char \<Rightarrow> nat" where
  "hex_val c = (let n = (of_char c :: nat) in if n < 58 then n - 48 else n - 87)"

definition hex2 :: "char \<Rightarrow> string" where
  "hex2 c = (let n = (of_char c :: nat) in [hex_char (n div 16), hex_char (n mod 16)])"

subsection \<open>repr and str\<close>

definition repr_char :: "char \<Rightarrow> char \<Rightarrow> string" where
  "repr_char q c =
     (let n = (of_char c :: nat) in
      if c = q \<or> c = CHR 0x5C then [CHR 0x5C, c]
      else if c = CHR 0x0A then [CHR 0x5C, CHR ''n'']
      else if c = CHR 0x0D then [CHR 0x5C, CHR ''r'']
      else if c = CHR 0x09 then [CHR 0x5C, CHR ''t'']
      else if n < 32 \<or> (127 \<le> n \<and> n \<le> 160) \<or> n = 173 then [CHR 0x5C, CHR ''x''] @ hex2 c
      else [c])"

definition repr_str :: "string \<Rightarrow> string" where
  "repr_str s =
     (let q = (if CHR 0x27 \<in> set s \<and> CHR 0x22 \<notin> set s then CHR 0x22 else CHR 0x27)
      in [q] @ concat (map (repr_char q) s) @ [q])"

fun py_repr :: "json \<Rightarrow> string" and repr_items :: "json list \<Rightarrow> string list"
  and repr_fields :: "(string \<times> json) list \<Rightarrow> string list" where
  "py_repr JNull = ''None''"
| "py_repr (JBool b) = (if b then ''True'' else ''False'')"
| "py_repr (JInt i) = int_str i"
| "py_repr (JFloat r) = r"
| "py_repr (JStr s) = repr_str s"
| "py_repr (JArr xs) = ''['' @ py_join '', '' (repr_items xs) @ '']''"
| "py_repr (JObj kvs) = ''{'' @ py_join '', '' (repr_fields kvs) @ ''}''"
| "repr_items [] = []"
| "repr_items (x # xs) = py_repr x # repr_items xs"
| "repr_fields [] = []"
| "repr_fields ((k, v) # kvs) = (repr_str k @ '': '' @ py_repr v) # repr_fields kvs"

fun py_str :: "json \<Rightarrow> string" where
  "py_str (JStr s) = s"
| "py_str j = py_repr j"

text \<open>\<open>str(x or "")\<close> and \<open>str(record.get(k) or "").strip()\<close>.\<close>

definition str_or_empty :: "json \<Rightarrow> string" where
  "str_or_empty j = (if truthy j then py_str j else [])"

definition text_field :: "(string \<times> json) list \<Rightarrow> string \<Rightarrow> string" where
  "text_field kvs k = py_strip (str_or_empty (jget kvs k))"

lemma str_or_empty_JStr [simp]: "str_or_empty (JStr s) = s"
  by (simp add: str_or_empty_def)

lemma str_or_empty_JNull [simp]: "str_or_empty JNull = []"
  by (simp add: str_or_empty_def)

lemma jget_simps [simp]:
  "jget [] k = JNull"
  "jget ((k', v) # kvs) k = (if k' = k then v else jget kvs k)"
  by (auto simp: jget_def)

lemma text_field_strip [simp]: "py_strip (text_field kvs k) = text_field kvs k"
  by (simp add: text_field_def)

subsection \<open>Canonical JSON text\<close>

definition esc_char :: "char \<Rightarrow> string" where
  "esc_char c =
     (let n = (of_char c :: nat) in
      if c = CHR 0x22 \<or> c = CHR 0x5C then [CHR 0x5C, c]
      else if c = CHR 0x0A then [CHR 0x5C, CHR ''n'']
      else if c = CHR 0x0D then [CHR 0x5C, CHR ''r'']
      else if c = CHR 0x09 then [CHR 0x5C, CHR ''t'']
      else if c = CHR 0x08 then [CHR 0x5C, CHR ''b'']
      else if c = CHR 0x0C then [CHR 0x5C, CHR ''f'']
      else if 32 \<le> n \<and> n \<le> 126 then [c]
      else [CHR 0x5C, CHR ''u'', CHR ''0'', CHR ''0''] @ hex2 c)"

definition dumps_str :: "string \<Rightarrow> string" where
  "dumps_str s = CHR 0x22 # concat (map esc_char s) @ [CHR 0x22]"

definition dumps_float :: "string \<Rightarrow> string" where
  "dumps_float r =
     (if r = ''nan'' then ''NaN'' else if r = ''inf'' then ''Infinity''
      else if r = ''-inf'' then ''-Infinity'' else r)"

fun dumps :: "json \<Rightarrow> string" and dumps_items :: "json list \<Rightarrow> string list"
  and dumps_fields :: "(string \<times> json) list \<Rightarrow> (string \<times> string) list" where
  "dumps JNull = ''null''"
| "dumps (JBool b) = (if b then ''true'' else ''false'')"
| "dumps (JInt i) = int_str i"
| "dumps (JFloat r) = dumps_float r"
| "dumps (JStr s) = dumps_str s"
| "dumps (JArr xs) = ''['' @ py_join '','' (dumps_items xs) @ '']''"
| "dumps (JObj kvs) =
     ''{'' @ py_join '',''
        (map (\<lambda>(k, t). dumps_str k @ '':'' @ t) (sort_key fst (dumps_fields kvs))) @ ''}''"
| "dumps_items [] = []"
| "dumps_items (x # xs) = dumps x # dumps_items xs"
| "dumps_fields [] = []"
| "dumps_fields ((k, v) # kvs) = (k, dumps v) # dumps_fields kvs"

subsection \<open>The escape is uniquely decodable\<close>

fun unesc :: "string \<Rightarrow> (char \<times> string) option" where
  "unesc [] = None"
| "unesc (c # r) =
     (if c = CHR 0x5C then
        (case r of
           [] \<Rightarrow> None
         | x # r' \<Rightarrow>
             if x = CHR ''n'' then Some (CHR 0x0A, r')
             else if x = CHR ''r'' then Some (CHR 0x0D, r')
             else if x = CHR ''t'' then Some (CHR 0x09, r')
             else if x = CHR ''b'' then Some (CHR 0x08, r')
             else if x = CHR ''f'' then Some (CHR 0x0C, r')
             else if x = CHR ''u'' then
               Some (char_of (16 * hex_val (r' ! 2) + hex_val (r' ! 3)), drop 4 r')
             else Some (x, r'))
      else Some (c, r))"

lemma hex_val_char: "d < 16 \<Longrightarrow> hex_val (hex_char d) = d"
  by (simp add: hex_val_def hex_char_def Let_def)

lemma of_char_lt_256: "(of_char c :: nat) < 256"
  by (metis char_of_def nat_of_char_less_256)

lemma hex2_val:
  "hex2 c = [a, b] \<Longrightarrow> char_of (16 * hex_val a + hex_val b) = c"
proof -
  assume "hex2 c = [a, b]"
  then have "a = hex_char (of_char c div 16)" "b = hex_char (of_char c mod 16)"
    by (auto simp: hex2_def Let_def)
  moreover have "(of_char c :: nat) div 16 < 16" "(of_char c :: nat) mod 16 < 16"
    by (auto simp: of_char_lt_256 less_mult_imp_div_less)
  ultimately have "16 * hex_val a + hex_val b = of_char c"
    by (simp add: hex_val_char)
  then show ?thesis by simp
qed

lemma unesc_esc_char: "unesc (esc_char c @ r) = Some (c, r)"
proof (cases "esc_char c = [CHR 0x5C, CHR ''u'', CHR ''0'', CHR ''0''] @ hex2 c")
  case True
  obtain a b where ab: "hex2 c = [a, b]" by (auto simp: hex2_def Let_def)
  with True show ?thesis by (simp add: hex2_val [OF ab] nth_Cons')
next
  case False
  then show ?thesis
    by (auto simp: esc_char_def Let_def split: if_splits)
qed

lemma esc_char_hd: "esc_char c \<noteq> []" "hd (esc_char c @ r) \<noteq> CHR 0x22"
  by (auto simp: esc_char_def Let_def)

lemma dumps_str_unique:
  assumes "dumps_str s @ r = dumps_str t @ u"
  shows "s = t \<and> r = u"
proof -
  have "concat (map esc_char s) @ CHR 0x22 # r = concat (map esc_char t) @ CHR 0x22 # u \<Longrightarrow>
    s = t \<and> r = u" for r u
  proof (induction s arbitrary: t)
    case Nil
    then show ?case
      using esc_char_hd(2) by (cases t) (auto, metis list.sel(1))
  next
    case (Cons c s)
    show ?case
    proof (cases t)
      case Nil
      with Cons.prems have "hd (esc_char c @ concat (map esc_char s) @ CHR 0x22 # r) = CHR 0x22"
        by simp
      then show ?thesis by (simp only: esc_char_hd)
    next
      case (Cons d t')
      with Cons.prems have "esc_char c @ (concat (map esc_char s) @ CHR 0x22 # r) =
          esc_char d @ (concat (map esc_char t') @ CHR 0x22 # u)" by simp
      then have "c = d"
        and "concat (map esc_char s) @ CHR 0x22 # r = concat (map esc_char t') @ CHR 0x22 # u"
        by (metis unesc_esc_char option.inject prod.inject)+
      with Cons.IH [of t'] Cons show ?thesis by simp
    qed
  qed
  with assms show ?thesis by (simp add: dumps_str_def)
qed

lemma dumps_str_not_close: "dumps_str s @ r \<noteq> CHR '']'' # u"
  by (simp add: dumps_str_def)

lemma dumps_items_JStr: "dumps_items (map JStr xs) = map dumps_str xs"
  by (induction xs) auto

lemma dumps_strs_unique_aux:
  "xs \<noteq> [] \<Longrightarrow> ys \<noteq> [] \<Longrightarrow>
   py_join '','' (map dumps_str xs) @ CHR '']'' # r = py_join '','' (map dumps_str ys) @ CHR '']'' # u \<Longrightarrow>
   xs = ys \<and> r = u"
proof (induction xs arbitrary: ys)
  case Nil
  then show ?case by simp
next
  case (Cons x xs)
  obtain y ys' where ys: "ys = y # ys'" using Cons.prems(2) by (cases ys) auto
  have tail: "py_join '','' (map dumps_str (z # zs)) @ CHR '']'' # v =
      dumps_str z @ (if zs = [] then CHR '']'' # v
        else CHR '','' # py_join '','' (map dumps_str zs) @ CHR '']'' # v)" for z zs v
    by (simp add: py_join_Cons)
  from Cons.prems(3) [unfolded ys tail] have "x = y" and
    rest: "(if xs = [] then CHR '']'' # r
        else CHR '','' # py_join '','' (map dumps_str xs) @ CHR '']'' # r) =
      (if ys' = [] then CHR '']'' # u
        else CHR '','' # py_join '','' (map dumps_str ys') @ CHR '']'' # u)"
    by (blast dest: dumps_str_unique)+
  from rest Cons.IH [of ys'] \<open>x = y\<close> show ?case
    unfolding ys by (auto split: if_splits)
qed

lemma dumps_strs_unique:
  assumes "dumps (JArr (map JStr xs)) @ r = dumps (JArr (map JStr ys)) @ u"
  shows "xs = ys \<and> r = u"
proof (cases "xs = [] \<or> ys = []")
  case True
  have ne: "py_join '','' (dumps_str z # zs) @ v \<noteq> CHR '']'' # w"
    "CHR '']'' # w \<noteq> py_join '','' (dumps_str z # zs) @ v" for z zs v w
    by (cases zs; auto simp: dumps_str_def)+
  from True assms ne show ?thesis
    by (cases xs; cases ys) (auto simp: dumps_items_JStr)
next
  case False
  with assms dumps_strs_unique_aux [of xs ys r u] show ?thesis by (simp add: dumps_items_JStr)
qed

lemma dumps_bool_unique:
  "dumps (JBool a) @ r = dumps (JBool b) @ u \<Longrightarrow> a = b \<and> r = u"
  by (cases a; cases b) auto

end
