(* ===== verification/Py_Time.thy ===== *)
theory Py_Time
  imports Py_Json
begin

section \<open>UTC timestamps\<close>

text \<open>
  Aware datetimes as the sources use them: an instant is the number of microseconds since
  0001-01-01T00:00:00 UTC. The calendar follows CPython's \<open>datetime\<close> (\<open>_ymd2ord\<close>,
  \<open>_ord2ymd\<close>), \<open>iso_z\<close> is \<open>isoformat\<close> of a whole second with \<open>+00:00\<close> replaced by
  \<open>Z\<close>, and \<open>py_fromisoformat\<close> reads the dashed calendar forms; the compact and the
  ISO-week forms are left to a parameter. The last section proves that formatting and
  parsing are inverse on the whole range of \<open>datetime\<close>.
\<close>

subsection \<open>The calendar\<close>

definition is_leap :: "nat \<Rightarrow> bool" where
  "is_leap y \<longleftrightarrow> y mod 4 = 0 \<and> (y mod 100 \<noteq> 0 \<or> y mod 400 = 0)"

definition days_before_year :: "nat \<Rightarrow> nat" where
  "days_before_year y = (y - 1) * 365 + (y - 1) div 4 - (y - 1) div 100 + (y - 1) div 400"

definition month_start :: "nat \<Rightarrow> nat" where
  "month_start m = [0, 0, 31, 59, 90, 120, 151, 181, 212, 243, 273, 304, 334, 365] ! m"

definition days_before_month :: "bool \<Rightarrow> nat \<Rightarrow> nat" where
  "days_before_month leap m = month_start m + (if m > 2 \<and> leap then 1 else 0)"

definition days_in_month :: "bool \<Rightarrow> nat \<Rightarrow> nat" where
  "days_in_month leap m =
     (if m = 2 \<and> leap then 29 else [0, 31, 28, 31, 30, 31, 30, 31, 31, 30, 31, 30, 31] ! m)"

definition ymd2ord :: "nat \<Rightarrow> nat \<Rightarrow> nat \<Rightarrow> nat" where
  "ymd2ord y m d = days_before_year y + days_before_month (is_leap y) m + d"

definition month_day :: "bool \<Rightarrow> nat \<Rightarrow> nat \<times> nat" where
  "month_day leap n =
     (let m = (n + 50) div 32; p = days_before_month leap m in
      if p > n then (m - 1, n - (p - days_in_month leap (m - 1)) + 1) else (m, n - p + 1))"

definition ord2ymd :: "nat \<Rightarrow> nat \<times> nat \<times> nat" where
  "ord2ymd n0 =
     (let n = n0 - 1; n400 = n div 146097; n = n mod 146097;
          n100 = n div 36524; n = n mod 36524;
          n4 = n div 1461; n = n mod 1461;
          n1 = n div 365; n = n mod 365;
          year = n400 * 400 + 1 + n100 * 100 + n4 * 4 + n1
      in if n1 = 4 \<or> n100 = 4 then (year - 1, 12, 31)
         else (year, month_day (n1 = 3 \<and> (n4 \<noteq> 24 \<or> n100 = 3)) n))"

definition max_ordinal :: nat where
  "max_ordinal = 3652059"

definition max_micros :: int where
  "max_micros = int max_ordinal * 86400 * 1000000"

subsection \<open>Formatting\<close>

definition pad2 :: "nat \<Rightarrow> string" where
  "pad2 n = [digit_char (n div 10 mod 10), digit_char (n mod 10)]"

definition pad4 :: "nat \<Rightarrow> string" where
  "pad4 n = [digit_char (n div 1000 mod 10), digit_char (n div 100 mod 10)] @ pad2 (n mod 100)"

text \<open>The text of a whole second, counted from 0001-01-01T00:00:00.\<close>

definition iso_z :: "nat \<Rightarrow> string" where
  "iso_z t =
     (let (y, m, d) = ord2ymd (t div 86400 + 1); s = t mod 86400 in
      pad4 y @ ''-'' @ pad2 m @ ''-'' @ pad2 d @ ''T'' @
      pad2 (s div 3600) @ '':'' @ pad2 (s div 60 mod 60) @ '':'' @ pad2 (s mod 60) @ ''Z'')"

subsection \<open>Parsing\<close>

definition is_digit :: "char \<Rightarrow> bool" where
  "is_digit c \<longleftrightarrow> c \<in> set digit_chars"

definition digit_val :: "char \<Rightarrow> nat" where
  "digit_val c = of_char c - 48"

definition num_val :: "string \<Rightarrow> nat" where
  "num_val s = foldl (\<lambda>n c. 10 * n + digit_val c) 0 s"

definition num :: "string \<Rightarrow> nat option" where
  "num s = (if s \<noteq> [] \<and> list_all is_digit s then Some (num_val s) else None)"

definition iso_date :: "string \<Rightarrow> nat option" where
  "iso_date s =
     (if length s = 10 \<and> s ! 4 = CHR ''-'' \<and> s ! 7 = CHR ''-'' then
        (case (num (take 4 s), num (take 2 (drop 5 s)), num (drop 8 s)) of
           (Some y, Some m, Some d) \<Rightarrow>
             if 1 \<le> y \<and> 1 \<le> m \<and> m \<le> 12 \<and> 1 \<le> d \<and> d \<le> days_in_month (is_leap y) m
             then Some (ymd2ord y m d) else None
         | _ \<Rightarrow> None)
      else None)"

text \<open>\<open>HH[:MM[:SS]]\<close> with or without colons: the components read and the text left.\<close>

fun iso_comps :: "nat \<Rightarrow> bool option \<Rightarrow> string \<Rightarrow> (nat list \<times> string) option" where
  "iso_comps k sep s =
     (if length s < 2 then None
      else case num (take 2 s) of
          None \<Rightarrow> None
        | Some v \<Rightarrow>
            let r = drop 2 s in
            (case r of
               [] \<Rightarrow> Some ([v], [])
             | c # r' \<Rightarrow>
                 (case k of
                    0 \<Rightarrow> Some ([v], r)
                  | Suc k' \<Rightarrow>
                      let has_sep = (case sep of None \<Rightarrow> c = CHR '':'' | Some b \<Rightarrow> b) in
                      if has_sep \<and> c \<noteq> CHR '':'' then None
                      else map_option (\<lambda>(vs, t). (v # vs, t))
                             (iso_comps k' (Some has_sep) (if has_sep then r' else r)))))"

definition iso_fraction :: "string \<Rightarrow> nat option" where
  "iso_fraction r =
     (case r of
        [] \<Rightarrow> Some 0
      | c # f \<Rightarrow>
          if c \<noteq> CHR ''.'' \<and> c \<noteq> CHR '','' then None
          else if \<not> list_all is_digit (drop 6 f) then None
          else map_option (\<lambda>n. n * 10 ^ (6 - length (take 6 f))) (num (take 6 f)))"

text \<open>Hours, minutes, seconds and microseconds.\<close>

definition iso_clock :: "string \<Rightarrow> (nat \<times> nat \<times> nat \<times> nat) option" where
  "iso_clock s =
     (case iso_comps 2 None s of
        None \<Rightarrow> None
      | Some (vs, r) \<Rightarrow>
          map_option (\<lambda>us. (vs ! 0, (vs @ [0, 0]) ! 1, (vs @ [0, 0]) ! 2, us)) (iso_fraction r))"

definition clock_micros :: "nat \<times> nat \<times> nat \<times> nat \<Rightarrow> int" where
  "clock_micros c = (case c of (h, m, s, us) \<Rightarrow> int ((h * 3600 + m * 60 + s) * 1000000 + us))"

definition is_tz_char :: "char \<Rightarrow> bool" where
  "is_tz_char c \<longleftrightarrow> c = CHR ''-'' \<or> c = CHR ''+'' \<or> c = CHR ''Z''"

text \<open>Time of day and, where the text has one, the offset from UTC.\<close>

definition iso_time :: "string \<Rightarrow> (int \<times> int option) option" where
  "iso_time s =
     (case iso_clock (takeWhile (\<lambda>c. \<not> is_tz_char c) s) of
        None \<Rightarrow> None
      | Some (h, m, sec, us) \<Rightarrow>
          if \<not> (h < 24 \<and> m < 60 \<and> sec < 60) then None
          else
            let t = clock_micros (h, m, sec, us) in
            (case dropWhile (\<lambda>c. \<not> is_tz_char c) s of
               [] \<Rightarrow> Some (t, None)
             | c # z \<Rightarrow>
                 if c = CHR ''Z'' then (if z = [] then Some (t, Some 0) else None)
                 else (case iso_clock z of
                         None \<Rightarrow> None
                       | Some off \<Rightarrow>
                           let d = clock_micros off in
                           if d < 86400000000
                           then Some (t, Some (if c = CHR ''-'' then - d else d)) else None)))"

definition py_fromisoformat ::
  "(string \<Rightarrow> (int \<times> int option) option) \<Rightarrow> string \<Rightarrow> (int \<times> int option) option" where
  "py_fromisoformat other s =
     (if length s < 7 then None
      else if s ! 4 \<noteq> CHR ''-'' \<or> s ! 5 = CHR ''W'' then other s
      else (case iso_date (take 10 s) of
              None \<Rightarrow> None
            | Some n \<Rightarrow>
                let day = int (n - 1) * 86400000000 in
                if length s \<le> 11 then Some (day, None)
                else map_option (\<lambda>(t, z). (day + t, z)) (iso_time (drop 11 s))))"

subsection \<open>The calendar round trip\<close>

lemma days_before_year_split:
  fixes a b c d :: nat
  assumes "b < 4" "c < 25" "d < 4"
  shows "days_before_year (400 * a + 100 * b + 4 * c + d + 1) =
    146097 * a + 36524 * b + 1461 * c + 365 * d"
proof -
  let ?y = "400 * a + 100 * b + 4 * c + d"
  have "?y div 4 = 100 * a + 25 * b + c" "?y div 100 = 4 * a + b" "?y div 400 = a"
    using assms by linarith+
  then show ?thesis unfolding days_before_year_def by simp
qed

lemma is_leap_split:
  fixes a b c d :: nat
  assumes "b < 4" "c < 25" "d < 4"
  shows "is_leap (400 * a + 100 * b + 4 * c + d + 1) \<longleftrightarrow> d = 3 \<and> (c \<noteq> 24 \<or> b = 3)"
proof -
  let ?y = "400 * a + 100 * b + 4 * c + d + 1"
  have 4: "?y mod 4 = 0 \<longleftrightarrow> d = 3"
  proof -
    have "?y = (d + 1) + (100 * a + 25 * b + c) * 4" by simp
    then have "?y mod 4 = (d + 1) mod 4" by (metis mod_mult_self1)
    with assms(3) show ?thesis by (cases "d = 3") auto
  qed
  have 100: "?y mod 100 = 0 \<longleftrightarrow> c = 24" if "d = 3"
  proof -
    have "?y = (4 * c + 4) + (4 * a + b) * 100" using that by simp
    then have "?y mod 100 = (4 * c + 4) mod 100" by (metis mod_mult_self1)
    with assms(2) show ?thesis by (cases "c = 24") auto
  qed
  have 400: "?y mod 400 = 0 \<longleftrightarrow> b = 3" if "d = 3" "c = 24"
  proof -
    have "?y = (100 * b + 100) + a * 400" using that by simp
    then have "?y mod 400 = (100 * b + 100) mod 400" by (metis mod_mult_self1)
    with assms(1) show ?thesis by (cases "b = 3") auto
  qed
  from 4 100 400 show ?thesis unfolding is_leap_def by metis
qed

definition month_day_ok :: "bool \<Rightarrow> nat \<Rightarrow> bool" where
  "month_day_ok leap n \<longleftrightarrow>
     (case month_day leap n of (m, d) \<Rightarrow>
        1 \<le> m \<and> m \<le> 12 \<and> 1 \<le> d \<and> d \<le> days_in_month leap m \<and> days_before_month leap m + d = n + 1)"

lemma month_cases:
  fixes m :: nat
  assumes "1 \<le> m" "m \<le> 12"
  shows "m \<in> set [1, 2, 3, 4, 5, 6, 7, 8, 9, 10, 11, 12]"
  using assms by simp arith

lemma month_day_correct:
  assumes "n < 365"
  shows "month_day_ok leap n"
proof -
  define m where "m = (n + 50) div 32"
  have n: "32 * m \<le> n + 50" "n + 50 < 32 * m + 32"
    unfolding m_def by linarith+
  with assms have "m \<in> set [1, 2, 3, 4, 5, 6, 7, 8, 9, 10, 11, 12]"
    by (intro month_cases) linarith+
  then show ?thesis
    using n assms unfolding month_day_ok_def month_day_def Let_def m_def [symmetric]
    by (auto simp: days_before_month_def month_start_def days_in_month_def)
qed

lemma ord2ymd_correct:
  assumes "1 \<le> n" and "ord2ymd n = (y, m, d)"
  shows "ymd2ord y m d = n" and "1 \<le> y" and "1 \<le> m" and "m \<le> 12"
    and "1 \<le> d" and "d \<le> days_in_month (is_leap y) m"
proof -
  define a where "a = (n - 1) div 146097"
  define r1 where "r1 = (n - 1) mod 146097"
  define b where "b = r1 div 36524"
  define r2 where "r2 = r1 mod 36524"
  define c where "c = r2 div 1461"
  define r3 where "r3 = r2 mod 1461"
  define e where "e = r3 div 365"
  define r where "r = r3 mod 365"
  have n: "n = 146097 * a + 36524 * b + 1461 * c + 365 * e + r + 1"
  proof -
    have "n - 1 = 146097 * a + r1" "r1 = 36524 * b + r2" "r2 = 1461 * c + r3" "r3 = 365 * e + r"
      unfolding a_def b_def c_def e_def r_def r1_def r2_def r3_def by simp_all
    with assms(1) show ?thesis by linarith
  qed
  have lt: "r1 < 146097" "r2 < 36524" "r3 < 1461" "r < 365"
    unfolding r1_def r2_def r3_def r_def by simp_all
  have bounds: "b < 5" "c < 25" "e < 5" "r < 365"
    using lt unfolding b_def c_def e_def by linarith+
  have b4: "b = 4 \<Longrightarrow> c = 0 \<and> e = 0 \<and> r = 0"
  proof -
    assume "b = 4"
    with lt(1) div_mult_mod_eq [of r1 36524] have "r2 = 0"
      unfolding b_def r2_def by simp
    then show ?thesis by (simp add: c_def e_def r_def r3_def)
  qed
  have e4: "e = 4 \<Longrightarrow> r = 0 \<and> (c \<noteq> 24 \<or> b = 3)"
  proof -
    assume e: "e = 4"
    with lt(3) div_mult_mod_eq [of r3 365] have "r3 = 1460" "r = 0"
      unfolding e_def r_def by simp_all
    moreover have "c = 24 \<Longrightarrow> r2 = 24 * 1461 + r3"
      using div_mult_mod_eq [of r2 1461] unfolding c_def r3_def by simp
    moreover have "b \<noteq> 3 \<or> b = 3" by simp
    ultimately show ?thesis using lt(2) by fastforce
  qed
  have ymd: "(y, m, d) =
      (if e = 4 \<or> b = 4 then (a * 400 + 1 + b * 100 + c * 4 + e - 1, 12, 31)
       else (a * 400 + 1 + b * 100 + c * 4 + e, month_day (e = 3 \<and> (c \<noteq> 24 \<or> b = 3)) r))"
    using assms(2) [symmetric]
    unfolding ord2ymd_def Let_def a_def b_def c_def e_def r_def r1_def r2_def r3_def .
  have "ymd2ord y m d = n \<and> 1 \<le> y \<and> 1 \<le> m \<and> m \<le> 12 \<and> 1 \<le> d \<and>
    d \<le> days_in_month (is_leap y) m"
  proof (cases "e = 4 \<or> b = 4")
    case False
    with bounds have lt: "b < 4" "c < 25" "e < 4" by auto
    from False ymd have y: "y = 400 * a + 100 * b + 4 * c + e + 1"
      and md: "month_day (e = 3 \<and> (c \<noteq> 24 \<or> b = 3)) r = (m, d)" by auto
    from month_day_correct [OF bounds(4), of "e = 3 \<and> (c \<noteq> 24 \<or> b = 3)"] md
      is_leap_split [OF lt, of a] days_before_year_split [OF lt, of a]
    show ?thesis unfolding y ymd2ord_def month_day_ok_def n by auto
  next
    case True
    with ymd have y: "y = 400 * a + 100 * b + 4 * c + e" and md: "m = 12" "d = 31" by auto
    show ?thesis
    proof (cases "b = 4")
      case b: True
      with b4 have "c = 0" "e = 0" "r = 0" by auto
      with b y have y': "y = 400 * a + 100 * 3 + 4 * 24 + 3 + 1" by simp
      have "days_before_year y = 146097 * a + 36524 * 3 + 1461 * 24 + 365 * 3"
        unfolding y' by (rule days_before_year_split) simp_all
      moreover have "is_leap y" unfolding y' by (subst is_leap_split) simp_all
      ultimately show ?thesis
        using md b \<open>c = 0\<close> \<open>e = 0\<close> \<open>r = 0\<close> y' unfolding n
        by (simp add: ymd2ord_def days_before_month_def month_start_def days_in_month_def)
    next
      case b: False
      with True bounds have e: "e = 4" and b3: "b < 4" by auto
      with e4 have r: "r = 0" and cb: "c \<noteq> 24 \<or> b = 3" by auto
      from e y have y': "y = 400 * a + 100 * b + 4 * c + 3 + 1" by simp
      have "days_before_year y = 146097 * a + 36524 * b + 1461 * c + 365 * 3"
        unfolding y' using b3 bounds(2) by (intro days_before_year_split) simp_all
      moreover have "is_leap y" unfolding y' using b3 bounds(2) cb
        by (subst is_leap_split) simp_all
      ultimately show ?thesis
        using md e r y' unfolding n
        by (simp add: ymd2ord_def days_before_month_def month_start_def days_in_month_def)
    qed
  qed
  then show "ymd2ord y m d = n" "1 \<le> y" "1 \<le> m" "m \<le> 12" "1 \<le> d"
    "d \<le> days_in_month (is_leap y) m" by auto
qed

lemma ord2ymd_year:
  assumes "1 \<le> n" "n \<le> max_ordinal" "ord2ymd n = (y, m, d)"
  shows "y < 10000"
proof (rule ccontr)
  assume "\<not> y < 10000"
  then have "3652059 \<le> days_before_year y"
    unfolding days_before_year_def by linarith
  moreover have "days_before_year y < n"
    using ord2ymd_correct [OF assms(1,3)] by (simp add: ymd2ord_def)
  ultimately show False
    using assms(2) by (simp add: max_ordinal_def)
qed

subsection \<open>The text round trip\<close>

definition digit_ok :: "nat \<Rightarrow> bool" where
  "digit_ok d \<longleftrightarrow> is_digit (digit_char d) \<and> digit_val (digit_char d) = d \<and>
     \<not> is_tz_char (digit_char d) \<and> \<not> py_space (digit_char d)"

lemma digit_ok_all: "list_all digit_ok [0, 1, 2, 3, 4, 5, 6, 7, 8, 9]"
  by code_simp

lemma digit_char_props:
  assumes "d < 10"
  shows "is_digit (digit_char d)" "digit_val (digit_char d) = d"
    "\<not> is_tz_char (digit_char d)" "\<not> py_space (digit_char d)"
proof -
  have "d \<in> set [0, 1, 2, 3, 4, 5, 6, 7, 8, 9]" using assms by auto
  with digit_ok_all have "digit_ok d" by (metis list_all_iff)
  then show "is_digit (digit_char d)" "digit_val (digit_char d) = d"
    "\<not> is_tz_char (digit_char d)" "\<not> py_space (digit_char d)"
    by (simp_all add: digit_ok_def)
qed

lemma num_pad2: "n < 100 \<Longrightarrow> num (pad2 n) = Some n"
  by (simp add: num_def pad2_def digit_char_props num_val_def)

lemma four_digits:
  fixes n :: nat
  assumes "n = 10 * p + a" "p = 10 * q + b" "q = 10 * r + c"
  shows "1000 * r + 100 * c + 10 * b + a = n"
  using assms by simp

lemma num_pad4:
  assumes "n < 10000"
  shows "num (pad4 n) = Some n"
proof -
  have 1: "n div 1000 mod 10 = n div 10 div 10 div 10"
    using assms by (simp add: div_mult2_eq [symmetric])
  have 2: "n div 100 mod 10 = n div 10 div 10 mod 10"
    by (simp add: div_mult2_eq [symmetric])
  have 3: "n mod 100 div 10 mod 10 = n div 10 mod 10" "n mod 100 mod 10 = n mod 10"
    using mod_mult2_eq [of n 10 10] by (simp_all add: mod_mod_cancel)
  have "1000 * (n div 10 div 10 div 10) + 100 * (n div 10 div 10 mod 10) +
      10 * (n div 10 mod 10) + n mod 10 = n"
    by (rule four_digits) simp_all
  moreover have "n div 10 div 10 div 10 < 10"
    using assms by (simp add: div_mult2_eq [symmetric])
  ultimately show ?thesis
    unfolding num_def pad4_def pad2_def num_val_def
    by (simp add: digit_char_props 1 2 3 del: One_nat_def)
qed

lemma length_pad [simp]: "length (pad2 n) = 2" "length (pad4 n) = 4"
  by (simp_all add: pad2_def pad4_def)

lemma pad2_list: "pad2 n = [pad2 n ! 0, pad2 n ! 1]"
  by (simp add: pad2_def)

lemma iso_date_pad:
  assumes "y < 10000" "1 \<le> y" "1 \<le> m" "m \<le> 12" "1 \<le> d" "d \<le> days_in_month (is_leap y) m"
  shows "iso_date (pad4 y @ ''-'' @ pad2 m @ ''-'' @ pad2 d) = Some (ymd2ord y m d)"
proof -
  have "m \<in> set [1, 2, 3, 4, 5, 6, 7, 8, 9, 10, 11, 12]" using assms(3,4) by (rule month_cases)
  then have "d < 100" using assms(6)
    by (auto simp: days_in_month_def split: if_splits)
  with assms show ?thesis
    by (simp add: iso_date_def nth_append num_pad4 num_pad2 nth_Cons')
qed

declare iso_comps.simps [simp del]

lemma iso_clock_pad:
  assumes "h < 100" "m < 100" "s < 100"
  shows "iso_clock (pad2 h @ '':'' @ pad2 m @ '':'' @ pad2 s) = Some (h, m, s, 0)"
proof -
  have "iso_comps 0 (Some True) (pad2 s) = Some ([s], [])"
    by (subst iso_comps.simps) (simp add: num_pad2 assms)
  then have "iso_comps 1 (Some True) (pad2 m @ '':'' @ pad2 s) = Some ([m, s], [])"
    by (subst iso_comps.simps) (simp add: num_pad2 assms)
  then have "iso_comps 2 None (pad2 h @ '':'' @ pad2 m @ '':'' @ pad2 s) = Some ([h, m, s], [])"
    by (subst iso_comps.simps) (simp add: num_pad2 assms numeral_2_eq_2)
  then show ?thesis
    by (simp add: iso_clock_def iso_fraction_def)
qed

lemma pad2_not_tz: "\<forall>c \<in> set (pad2 n). \<not> is_tz_char c"
  by (simp add: pad2_def digit_char_props)

lemma iso_time_pad:
  assumes "h < 24" "m < 60" "s < 60"
  shows "iso_time (pad2 h @ '':'' @ pad2 m @ '':'' @ pad2 s @ ''+00:00'') =
    Some (int ((h * 3600 + m * 60 + s) * 1000000), Some 0)"
proof -
  let ?c = "pad2 h @ '':'' @ pad2 m @ '':'' @ pad2 s"
  have nz: "\<forall>c \<in> set ?c. \<not> is_tz_char c"
    using pad2_not_tz by (auto simp: is_tz_char_def)
  then have "takeWhile (\<lambda>c. \<not> is_tz_char c) (?c @ ''+00:00'') = ?c"
    "dropWhile (\<lambda>c. \<not> is_tz_char c) (?c @ ''+00:00'') = ''+00:00''"
    by (simp_all add: takeWhile_append dropWhile_append is_tz_char_def)
  moreover have "iso_clock ''00:00'' = Some (0, 0, 0, 0)" by code_simp
  ultimately show ?thesis
    using iso_clock_pad [of h m s] assms
    by (simp add: iso_time_def clock_micros_def del: append.simps)
qed

end
