(* ===== verification/Faults.thy ===== *)
theory Faults
  imports Py_Time
begin

section \<open>Exceptions of the write-scope modules\<close>

text \<open>
  One constructor per \<open>raise\<close> statement, grouped by exception class, with the text
  \<open>str(exc)\<close> gives: \<open>WriteScopeProposalError\<close>, \<open>WriteScopeApprovalError\<close>,
  \<open>WriteScopeBindingError\<close>, \<open>WriteScopeEnforcementError\<close>,
  \<open>WriteScopeRecoveryError\<close> and \<open>WriteScopeAuditError\<close>. The last constructors of \<open>exn\<close> are the built-in exceptions the modules let through.
\<close>

datatype (plugins only: code size) proposal_fault =
    P_invalid_body
  | P_missing_run
  | P_not_object
  | P_kind
  | P_schema
  | P_status string
  | P_body_invalid
  | P_hash string
  | P_id string string
  | P_collision string
  | P_ref_required
  | P_not_found string
  | P_corrupt string

primrec proposal_text :: "proposal_fault \<Rightarrow> string" where
  "proposal_text P_invalid_body = ''invalid write scope body''"
| "proposal_text P_missing_run = ''missing parent run_id''"
| "proposal_text P_not_object = ''proposal record is not an object''"
| "proposal_text P_kind = ''proposal kind mismatch''"
| "proposal_text P_schema = ''unsupported proposal schema_version''"
| "proposal_text (P_status s) = ''unsupported proposal status: '' @ s"
| "proposal_text P_body_invalid = ''stored proposal body is invalid''"
| "proposal_text (P_hash i) = ''body_hash mismatch for '' @ i @ '': stored body was mutated''"
| "proposal_text (P_id e g) = ''proposal_id mismatch: expected '' @ e @ '', got '' @ g"
| "proposal_text (P_collision i) = ''proposal_id collision with different content: '' @ i"
| "proposal_text P_ref_required = ''proposal_id is required''"
| "proposal_text (P_not_found r) = ''proposal not found: '' @ r"
| "proposal_text (P_corrupt r) = ''corrupt proposal record: '' @ r"

datatype (plugins only: code size) approval_fault =
    A_ttl_required
  | A_ttl_bare
  | A_ttl_invalid string
  | A_ttl_amount string
  | A_ttl_repeat string string
  | A_ttl_order string
  | A_ttl_positive string
  | A_ts_required
  | A_ts_invalid string
  | A_transition string string
  | A_identity_required string
  | A_identity_worker string string
  | A_identity_source string string
  | A_provenance string
  | A_body_normal
  | A_roots_empty
  | A_docs_only "string list"
  | A_source string
  | A_hash_vs_proposal string string
  | A_expires_order
  | A_not_object
  | A_kind
  | A_schema
  | A_status string
  | A_identity_fields
  | A_times
  | A_hash string
  | A_id string string
  | A_no_revocation_id
  | A_initial_status string
  | A_collision string
  | A_ref_required
  | A_not_found string
  | A_corrupt string
  | A_text string
  | A_immediate_expiry
  | R_not_object
  | R_kind
  | R_schema
  | R_incomplete
  | R_id string string
  | R_ref_required
  | R_not_found string
  | R_corrupt string
  | R_reason_required
  | A_terminal string
  | A_unknown_target string
  | A_consumed_reserved
  | A_use_revoke
  | A_force_expire
  | A_reactivate
  | A_worker_mint

primrec approval_text :: "approval_fault \<Rightarrow> string" where
  "approval_text A_ttl_required = ''TTL is required''"
| "approval_text A_ttl_bare = ''TTL must include a unit suffix (s/m/h/d); bare seconds are rejected''"
| "approval_text (A_ttl_invalid v) = ''invalid TTL duration: '' @ repr_str v"
| "approval_text (A_ttl_amount v) = ''TTL unit amount must be >= 1: '' @ repr_str v"
| "approval_text (A_ttl_repeat u v) = ''TTL repeats unit '' @ repr_str u @ '': '' @ repr_str v"
| "approval_text (A_ttl_order v) = ''TTL units must be in descending order (d>h>m>s): '' @ repr_str v"
| "approval_text (A_ttl_positive v) = ''TTL must be positive: '' @ repr_str v"
| "approval_text A_ts_required = ''timestamp is required''"
| "approval_text (A_ts_invalid v) = ''invalid ISO timestamp: '' @ repr_str v"
| "approval_text (A_transition f t) =
     ''illegal lifecycle transition: '' @ repr_str f @ '' -> '' @ repr_str t"
| "approval_text (A_identity_required f) = f @ '' is required (operator identity)''"
| "approval_text (A_identity_worker f v) =
     f @ '' rejects worker/self-approval identity: '' @ repr_str v"
| "approval_text (A_identity_source f v) =
     f @ '' rejects non-operator approval source: '' @ repr_str v"
| "approval_text (A_provenance v) =
     ''provenance must be '' @ repr_str ''operator_asserted'' @ ''; got '' @ repr_str v"
| "approval_text A_body_normal = ''approval body failed WriteScopeBody normalization '' @
     ''(empty roots, wildcards, path traversal, or hostile claims rejected)''"
| "approval_text A_roots_empty = ''allowed_roots must be non-empty''"
| "approval_text (A_docs_only bad) =
     ''docs_only=true requires every allowed_roots entry under docs/; conflicts: '' @
     py_repr (JArr (map JStr bad))"
| "approval_text (A_source s) = ''unsupported approval_source: '' @ repr_str s"
| "approval_text (A_hash_vs_proposal p c) =
     ''body_hash mismatch vs stored proposal: proposal='' @ p @ '' computed='' @ c"
| "approval_text A_expires_order =
     ''expires_at must be strictly after approved_at (TTL must be positive)''"
| "approval_text A_not_object = ''approval record is not an object''"
| "approval_text A_kind = ''approval kind mismatch''"
| "approval_text A_schema = ''unsupported approval schema_version''"
| "approval_text (A_status s) = ''unsupported approval status: '' @ repr_str s"
| "approval_text A_identity_fields = ''approval identity fields are required''"
| "approval_text A_times = ''approved_at and expires_at are required''"
| "approval_text (A_hash i) = ''body_hash mismatch for '' @ i @ '': stored body was mutated''"
| "approval_text (A_id e g) = ''approval_id mismatch: expected '' @ e @ '', got '' @ g"
| "approval_text A_no_revocation_id = ''revoked approval missing revocation_id''"
| "approval_text (A_initial_status s) = ''cannot persist non-approved initial status: '' @ s"
| "approval_text (A_collision i) = ''approval_id collision with different content: '' @ i"
| "approval_text A_ref_required = ''approval_id is required''"
| "approval_text (A_not_found r) = ''approval not found: '' @ r"
| "approval_text (A_corrupt r) = ''corrupt approval record: '' @ r"
| "approval_text (A_text t) = t"
| "approval_text A_immediate_expiry =
     ''approval would be expired at grant time; refuse immediate expiry grant''"
| "approval_text R_not_object = ''revocation record is not an object''"
| "approval_text R_kind = ''revocation kind mismatch''"
| "approval_text R_schema = ''unsupported revocation schema_version''"
| "approval_text R_incomplete = ''revocation fields are incomplete''"
| "approval_text (R_id e g) = ''revocation_id mismatch: expected '' @ e @ '', got '' @ g"
| "approval_text R_ref_required = ''revocation_id is required''"
| "approval_text (R_not_found r) = ''revocation not found: '' @ r"
| "approval_text (R_corrupt r) = ''corrupt revocation record: '' @ r"
| "approval_text R_reason_required = ''revoke reason is required (non-authoritative)''"
| "approval_text (A_terminal s) = ''cannot revoke approval in terminal status '' @ repr_str s"
| "approval_text (A_unknown_target s) = ''unknown target status: '' @ repr_str s"
| "approval_text A_consumed_reserved =
     ''transition to consumed is reserved for Wave 3/4 binding completion''"
| "approval_text A_use_revoke = ''use revoke_approval for revoked transitions''"
| "approval_text A_force_expire =
     ''cannot force expire before expires_at; lazy TTL evaluation only''"
| "approval_text A_reactivate =
     ''illegal lifecycle transition: cannot re-activate to approved''"
| "approval_text A_worker_mint = ''workers cannot mint WriteScopeApproval records; '' @
     ''operator approve_proposal is the sole grant path''"

datatype (plugins only: code size) binding_fault =
    B_transition string string
  | B_not_dir string
  | B_git_os string string
  | B_git_failed string string
  | B_git_sha string
  | B_roots_empty string
  | B_root_entry string
  | B_root_absolute string string
  | B_root_traversal string string
  | B_root_escape string string
  | B_target_required
  | B_workspace_ambiguous string
  | B_workspace_unresolved string
  | B_not_object
  | B_kind
  | B_schema
  | B_identity_fields
  | B_bound_at
  | B_status string
  | B_hash string
  | B_sha string
  | B_workspace_required
  | B_writable_empty
  | B_writable_absolute string
  | B_denied_list
  | B_denied_absolute string
  | B_id string string
  | B_ref_required
  | B_not_found string
  | B_corrupt string
  | B_collision string
  | B_approval_required
  | B_run_required
  | B_text string
  | B_expired string
  | B_revoked string
  | B_consumed string
  | B_inactive string string
  | B_hash_integrity string
  | B_exec_target_required
  | B_target_mismatch string string
  | B_base_sha string string
  | B_bounded_write
  | B_already_bound string string string
  | B_target_busy string string
  | B_mixed_authority

primrec binding_text :: "binding_fault \<Rightarrow> string" where
  "binding_text (B_transition f t) =
     ''illegal binding lifecycle transition: '' @ repr_str f @ '' -> '' @ repr_str t"
| "binding_text (B_not_dir p) = ''workspace_root is not a directory: '' @ p"
| "binding_text (B_git_os p e) = ''git rev-parse failed for workspace '' @ p @ '': '' @ e"
| "binding_text (B_git_failed p d) =
     ''git rev-parse HEAD failed in '' @ p @ '': '' @ (if d = [] then ''unknown error'' else d)"
| "binding_text (B_git_sha s) = ''git rev-parse HEAD returned non-40-hex value: '' @ repr_str s"
| "binding_text (B_roots_empty f) = f @ '' must be non-empty for bind''"
| "binding_text (B_root_entry f) = f @ '' entry must be non-empty''"
| "binding_text (B_root_absolute f r) =
     f @ '' must be repo-relative at bind time; got '' @ repr_str r"
| "binding_text (B_root_traversal f r) = f @ '' path traversal rejected: '' @ repr_str r"
| "binding_text (B_root_escape f r) = f @ '' escape workspace_root: '' @ repr_str r"
| "binding_text B_target_required = ''target_id is required''"
| "binding_text (B_workspace_ambiguous t) = ''ambiguous workspace for target_id '' @ repr_str t"
| "binding_text (B_workspace_unresolved t) =
     ''cannot resolve workspace for target_id '' @ repr_str t @
     ''; pass workspace_root or a manifest repo with matching target_id''"
| "binding_text B_not_object = ''binding record is not an object''"
| "binding_text B_kind = ''binding kind mismatch''"
| "binding_text B_schema = ''unsupported binding schema_version''"
| "binding_text B_identity_fields = ''binding identity fields are required''"
| "binding_text B_bound_at = ''bound_at is required''"
| "binding_text (B_status s) = ''unsupported binding status: '' @ repr_str s"
| "binding_text (B_hash h) = ''invalid body_hash: '' @ repr_str h"
| "binding_text (B_sha s) = ''invalid base_sha: '' @ repr_str s"
| "binding_text B_workspace_required = ''workspace_root is required''"
| "binding_text B_writable_empty = ''writable_roots must be a non-empty list''"
| "binding_text (B_writable_absolute t) =
     ''writable_roots must be absolute paths; got '' @ repr_str t"
| "binding_text B_denied_list = ''denied_roots must be a list''"
| "binding_text (B_denied_absolute t) = ''denied_roots must be absolute paths; got '' @ repr_str t"
| "binding_text (B_id e g) = ''binding_id mismatch: expected '' @ e @ '', got '' @ g"
| "binding_text B_ref_required = ''binding_id is required''"
| "binding_text (B_not_found r) = ''binding not found: '' @ r"
| "binding_text (B_corrupt r) = ''corrupt binding record: '' @ r"
| "binding_text (B_collision i) = ''binding_id collision with different content: '' @ i"
| "binding_text B_approval_required = ''approval_id is required''"
| "binding_text B_run_required = ''run_id is required''"
| "binding_text (B_text t) = t"
| "binding_text (B_expired r) = ''approval expired; cannot bind: '' @ r"
| "binding_text (B_revoked r) = ''approval revoked; cannot bind: '' @ r"
| "binding_text (B_consumed r) = ''approval consumed; cannot bind: '' @ r"
| "binding_text (B_inactive r s) = ''approval is not active for bind: '' @ r @ '' status='' @ s"
| "binding_text (B_hash_integrity r) = ''approval body_hash integrity failure: '' @ r"
| "binding_text B_exec_target_required = ''execution target_id is required''"
| "binding_text (B_target_mismatch a e) =
     ''target_id mismatch: approval='' @ repr_str a @ '' execution='' @ repr_str e"
| "binding_text (B_base_sha a h) =
     ''base_sha mismatch: approval='' @ a @ '' workspace_head='' @ h @ '' (no silent retarget)''"
| "binding_text B_bounded_write =
     ''bounded_write capability approval is required to bind a mutating write scope''"
| "binding_text (B_already_bound s a b) =
     ''approval already bound ('' @ s @ ''): approval_id='' @ a @ '' binding_id='' @ b"
| "binding_text (B_target_busy t b) =
     ''active mutating binding already exists for target_id='' @ repr_str t @
     '': binding_id='' @ b"
| "binding_text B_mixed_authority =
     ''refuse mixed authority: pass --write-scope-approval OR --approve-writable-root, not both''"

datatype (plugins only: code size) enforcement_fault =
    E_text string
  | E_not_object
  | E_kind
  | E_schema
  | E_identity_fields
  | E_metadata_fields
  | E_compliance string
  | E_sha string
  | E_id string string
  | E_list string
  | E_ref_required
  | E_not_found string
  | E_corrupt string
  | E_result_dict

primrec enforcement_text :: "enforcement_fault \<Rightarrow> string" where
  "enforcement_text (E_text t) = t"
| "enforcement_text E_not_object = ''mutation receipt is not an object''"
| "enforcement_text E_kind = ''mutation receipt kind mismatch''"
| "enforcement_text E_schema = ''unsupported mutation receipt schema_version''"
| "enforcement_text E_identity_fields = ''mutation receipt identity fields required''"
| "enforcement_text E_metadata_fields = ''mutation receipt metadata fields required''"
| "enforcement_text (E_compliance c) = ''unsupported compliance: '' @ repr_str c"
| "enforcement_text (E_sha s) = ''invalid base_sha: '' @ repr_str s"
| "enforcement_text (E_id e g) = ''receipt_id mismatch: expected '' @ e @ '', got '' @ g"
| "enforcement_text (E_list k) = k @ '' must be a list''"
| "enforcement_text E_ref_required = ''receipt_id is required''"
| "enforcement_text (E_not_found r) = ''mutation receipt not found: '' @ r"
| "enforcement_text (E_corrupt r) = ''corrupt mutation receipt: '' @ r"
| "enforcement_text E_result_dict = ''result must be a dict''"

datatype (plugins only: code size) recovery_fault =
    V_text string
  | V_missing_workspace string
  | V_git_status string
  | V_completed
  | V_decision string

primrec recovery_text :: "recovery_fault \<Rightarrow> string" where
  "recovery_text (V_text t) = t"
| "recovery_text (V_missing_workspace p) = ''workspace_root missing: '' @ p"
| "recovery_text (V_git_status d) = ''cannot inspect workspace dirty state: '' @ d"
| "recovery_text V_completed =
     ''refuse to recover a completed binding into a new success state''"
| "recovery_text (V_decision d) = ''unsupported recovery decision: '' @ repr_str d"

datatype (plugins only: code size) audit_fault =
    U_text string
  | U_id_required
  | U_not_found string "string list"

primrec audit_text :: "audit_fault \<Rightarrow> string" where
  "audit_text (U_text t) = t"
| "audit_text U_id_required = ''id is required (proposal_id, approval_id, binding_id, or run_id)''"
| "audit_text (U_not_found t es) = ''scope audit target not found: '' @ t @
     (if es = [] then [] else '' ('' @ py_join ''; '' es @ '')'')"

datatype (plugins only: code size) exn =
    ProposalError proposal_fault
  | ApprovalError approval_fault
  | BindingError binding_fault
  | EnforcementError enforcement_fault
  | RecoveryError recovery_fault
  | AuditError audit_fault
  | OverflowErr
  | ValueErr string
  | RuntimeErr string
  | OtherErr string

primrec exn_text :: "exn \<Rightarrow> string" where
  "exn_text (ProposalError f) = proposal_text f"
| "exn_text (ApprovalError f) = approval_text f"
| "exn_text (BindingError f) = binding_text f"
| "exn_text (EnforcementError f) = enforcement_text f"
| "exn_text (RecoveryError f) = recovery_text f"
| "exn_text (AuditError f) = audit_text f"
| "exn_text OverflowErr = ''date value out of range''"
| "exn_text (ValueErr t) = t"
| "exn_text (RuntimeErr t) = t"
| "exn_text (OtherErr t) = t"

text \<open>The classes named in \<open>except\<close> clauses.\<close>

definition is_proposal_error :: "exn \<Rightarrow> bool" where
  "is_proposal_error e \<longleftrightarrow> (case e of ProposalError _ \<Rightarrow> True | _ \<Rightarrow> False)"

definition is_approval_error :: "exn \<Rightarrow> bool" where
  "is_approval_error e \<longleftrightarrow> (case e of ApprovalError _ \<Rightarrow> True | _ \<Rightarrow> False)"

definition is_binding_error :: "exn \<Rightarrow> bool" where
  "is_binding_error e \<longleftrightarrow> (case e of BindingError _ \<Rightarrow> True | _ \<Rightarrow> False)"

definition is_enforcement_error :: "exn \<Rightarrow> bool" where
  "is_enforcement_error e \<longleftrightarrow> (case e of EnforcementError _ \<Rightarrow> True | _ \<Rightarrow> False)"

definition is_recovery_error :: "exn \<Rightarrow> bool" where
  "is_recovery_error e \<longleftrightarrow> (case e of RecoveryError _ \<Rightarrow> True | _ \<Rightarrow> False)"

lemma error_class_simps [simp]:
  "is_proposal_error (ProposalError p)" "\<not> is_proposal_error (ApprovalError a)"
  "is_approval_error (ApprovalError a)" "\<not> is_approval_error (BindingError b)"
  "is_binding_error (BindingError b)" "\<not> is_binding_error (ApprovalError a)"
  "\<not> is_approval_error OverflowErr" "\<not> is_binding_error OverflowErr"
  "is_enforcement_error (EnforcementError f)" "\<not> is_enforcement_error (ApprovalError a)"
  "is_recovery_error (RecoveryError v)"
  by (simp_all add: is_proposal_error_def is_approval_error_def is_binding_error_def
      is_enforcement_error_def is_recovery_error_def)

end
