(* ===== verification/Host.thy ===== *)
theory Host
  imports Faults "HOL-Library.AList" "HOL-Library.Word"
begin

section \<open>The host: record files, clock, paths, events\<close>

text \<open>
  What the modules use of the machine they run on. A \<open>cfg\<close> is fixed for an installation:
  the app-data directories of \<open>app_paths.py\<close> and SHA-256. An \<open>env\<close> is what one call may
  observe: clock readings (one per reading, in order, under no assumption), git, symbolic
  links, home directories, and the directories of runs in the order \<open>rglob\<close> yields them
  (\<open>run_logs\<close> those with an \<open>events.jsonl\<close>, \<open>run_dirs\<close> all of them). A \<open>world\<close> is what calls write: record files, the event log,
  the restore actions applied to a worktree, the warnings printed, and the number of clock
  readings made.
\<close>

type_synonym path = "string list"
type_synonym ppath = "string \<times> string list"

record cfg =
  proposals_dir :: path
  approvals_dir :: path
  revocations_dir :: path
  bindings_dir :: path
  receipts_dir :: path
  sha256 :: "string \<Rightarrow> 256 word"
  iso_other :: "string \<Rightarrow> (int \<times> int option) option"

datatype proc = ProcOSError string | Proc int string string

datatype rec_file = Corrupt | Parsed json

text \<open>
  Reading a text file of another program, and a directory below the runs directory: its
  \<open>parts\<close>, the text of \<open>events.jsonl\<close> in it, and the files of a run result.
\<close>

datatype 'a reading = Not_a_file | Os_error | Not_utf8 | Content 'a

record session_dir =
  sd_parts :: "string list"
  sd_events :: "string reading"
  sd_result :: "string \<Rightarrow> rec_file reading"

text \<open>
  What a restoration does to the worktree: \<open>git restore\<close> in a directory with a text git takes for
  a pathspec, and the removal of a file or of a tree at a path.
\<close>

datatype restore_act = Git_restore ppath string | Unlink ppath | Rmtree ppath

record env =
  cfg_of :: cfg
  clock :: "nat \<Rightarrow> int"
  home_of :: "string \<Rightarrow> ppath option"
  realpath :: "ppath \<Rightarrow> ppath option"
  is_dir :: "ppath \<Rightarrow> bool"
  is_link :: "ppath \<Rightarrow> bool"
  is_regular :: "ppath \<Rightarrow> bool"
  rev_parse :: "ppath \<Rightarrow> proc"
  git_porcelain :: "ppath \<Rightarrow> proc"
  git_tracked :: "restore_act list \<Rightarrow> ppath \<Rightarrow> string \<Rightarrow> bool"
  git_dirty :: "restore_act list \<Rightarrow> ppath \<Rightarrow> string \<Rightarrow> bool"
  restore_exc :: "string \<Rightarrow> string option"
  run_logs :: "session_dir list"
  run_dirs :: "session_dir list"

record world =
  files :: "(path \<times> rec_file) list"
  events :: "json list"
  restores :: "restore_act list"
  warnings :: "string list"
  tick :: nat

type_synonym 'a run = "(world, exn, 'a) op"

subsection \<open>Digests\<close>

definition hexdigest :: "cfg \<Rightarrow> string \<Rightarrow> string" where
  "hexdigest C s =
     map (\<lambda>i. hex_char (unat (drop_bit (252 - 4 * i) (sha256 C s)) mod 16)) [0..<64]"

definition short_id :: "cfg \<Rightarrow> string \<Rightarrow> string \<Rightarrow> string" where
  "short_id C prefix material = prefix @ take 24 (hexdigest C material)"

definition hex_char_ok :: "nat \<Rightarrow> bool" where
  "hex_char_ok d \<longleftrightarrow> hex_char d \<in> set hex_chars \<and> hex_char d \<noteq> CHR ''/'' \<and> \<not> py_space (hex_char d)"

lemma hex_char_ok_all: "list_all hex_char_ok [0, 1, 2, 3, 4, 5, 6, 7, 8, 9, 10, 11, 12, 13, 14, 15]"
  by code_simp

lemma hex_char_props:
  assumes "d < 16"
  shows "hex_char d \<in> set hex_chars" "hex_char d \<noteq> CHR ''/''" "\<not> py_space (hex_char d)"
proof -
  have "d \<in> set [0, 1, 2, 3, 4, 5, 6, 7, 8, 9, 10, 11, 12, 13, 14, 15]"
    using assms by simp arith
  with hex_char_ok_all have "hex_char_ok d" by (metis list_all_iff)
  then show "hex_char d \<in> set hex_chars" "hex_char d \<noteq> CHR ''/''" "\<not> py_space (hex_char d)"
    by (simp_all add: hex_char_ok_def)
qed

lemma length_hexdigest [simp]: "length (hexdigest C s) = 64"
  by (simp add: hexdigest_def)

lemma hexdigest_hex: "set (hexdigest C s) \<subseteq> set hex_chars"
  by (auto simp: hexdigest_def hex_char_props)

lemma hexdigest_clean:
  "c \<in> set (hexdigest C s) \<Longrightarrow> c \<noteq> CHR ''/'' \<and> \<not> py_space c"
  by (auto simp: hexdigest_def hex_char_props)

lemma short_id_clean:
  assumes "CHR ''/'' \<notin> set p" "\<forall>c \<in> set p. \<not> py_space c"
  shows "CHR ''/'' \<notin> set (short_id C p m)" "py_strip (short_id C p m) = short_id C p m"
proof -
  have h: "\<forall>c \<in> set (short_id C p m). c \<noteq> CHR ''/'' \<and> \<not> py_space c"
    using assms hexdigest_clean [of _ C m] by (auto simp: short_id_def dest!: in_set_takeD)
  from h show "CHR ''/'' \<notin> set (short_id C p m)" by blast
  from h show "py_strip (short_id C p m) = short_id C p m"
    by (intro py_strip_no_space) blast
qed

lemma short_id_prefix: "starts_with (short_id C p m) p"
  by (simp only: short_id_def starts_with_append)

lemma short_id_neq_Nil: "short_id C p m \<noteq> []"
proof -
  have "length (short_id C p m) \<ge> 24" by (simp add: short_id_def)
  then show ?thesis by auto
qed

subsection \<open>Clock and event log\<close>

definition now_utc :: "env \<Rightarrow> int run" where
  "now_utc E w = (Inr (clock E (tick w)), w\<lparr>tick := Suc (tick w)\<rparr>)"

text \<open>\<open>now if now is not None else datetime.now(timezone.utc)\<close>.\<close>

definition given_or_now :: "env \<Rightarrow> int option \<Rightarrow> int run" where
  "given_or_now E now = (case now of Some t \<Rightarrow> ret t | None \<Rightarrow> now_utc E)"

definition stamp :: "int \<Rightarrow> string" where
  "stamp t = iso_z (nat (t div 1000000))"

definition utc_now_iso :: "env \<Rightarrow> string run" where
  "utc_now_iso E = bindM (now_utc E) (\<lambda>t. ret (stamp t))"

text \<open>\<open>at or utc_now_iso()\<close>.\<close>

definition text_or_now :: "env \<Rightarrow> string option \<Rightarrow> string run" where
  "text_or_now E at =
     (case at of Some t \<Rightarrow> if t \<noteq> [] then ret t else utc_now_iso E | None \<Rightarrow> utc_now_iso E)"

definition dict_update :: "(string \<times> json) list \<Rightarrow> (string \<times> json) list \<Rightarrow> (string \<times> json) list" where
  "dict_update d e = foldl (\<lambda>acc (k, v). AList.update k v acc) d e"

definition log_event :: "json \<Rightarrow> world \<Rightarrow> world" where
  "log_event j w = w\<lparr>events := events w @ [j]\<rparr>"

definition append_scope_event ::
  "env \<Rightarrow> string \<Rightarrow> (string \<times> json) list \<Rightarrow> string option \<Rightarrow> json run" where
  "append_scope_event E ty payload at =
     bindM (text_or_now E at) (\<lambda>t.
     let event = JObj (dict_update [(''event_type'', JStr ty), (''at'', JStr t)] payload) in
     bindM (writes (log_event event)) (\<lambda>_. ret event))"

subsection \<open>Record files\<close>

text \<open>
  A file is found by the lexical path that \<open>root / f"{ref}.json"\<close> denotes: \<open>pathlib\<close>
  drops empty and \<open>.\<close> components and lets an absolute reference replace the root; the
  operating system takes \<open>..\<close> to the parent.
\<close>

definition path_parts :: "string \<Rightarrow> string list" where
  "path_parts s = filter (\<lambda>c. c \<noteq> [] \<and> c \<noteq> ''.'') (py_split CHR ''/'' s)"

definition walk :: "path \<Rightarrow> string list \<Rightarrow> path" where
  "walk d cs = foldl (\<lambda>acc c. if c = ''..'' then butlast acc else acc @ [c]) d cs"

definition record_path :: "path \<Rightarrow> string \<Rightarrow> path" where
  "record_path d ref =
     walk (if starts_with ref ''/'' then [] else d) (path_parts (ref @ ''.json''))"

definition plain_ref :: "string \<Rightarrow> bool" where
  "plain_ref ref \<longleftrightarrow> CHR ''/'' \<notin> set ref"

lemma record_path_plain [simp]: "plain_ref ref \<Longrightarrow> record_path d ref = d @ [ref @ ''.json'']"
  by (cases ref)
    (auto simp: record_path_def plain_ref_def path_parts_def walk_def py_split_single starts_with_def)

definition write_file :: "path \<Rightarrow> json \<Rightarrow> world \<Rightarrow> world" where
  "write_file p j w = w\<lparr>files := AList.update p (Parsed j) (files w)\<rparr>"

definition file_at :: "world \<Rightarrow> path \<Rightarrow> rec_file option" where
  "file_at w p = map_of (files w) p"

lemma file_at_write: "file_at (write_file p j w) q = (if q = p then Some (Parsed j) else file_at w q)"
  by (simp add: file_at_def write_file_def update_conv')

lemma file_at_frame [simp]:
  "file_at (w\<lparr>events := es\<rparr>) p = file_at w p"
  "file_at (w\<lparr>restores := rs\<rparr>) p = file_at w p"
  "file_at (w\<lparr>tick := n\<rparr>) p = file_at w p"
  "file_at (log_event j w) p = file_at w p"
  by (simp_all add: file_at_def log_event_def)

text \<open>\<open>is_file\<close>, \<open>read_text\<close> and \<open>json.loads\<close>, with the exceptions the caller raises.\<close>

definition read_json :: "path \<Rightarrow> exn \<Rightarrow> exn \<Rightarrow> json run" where
  "read_json p not_found corrupt =
     bindM (reads (\<lambda>w. file_at w p)) (\<lambda>f.
     case f of None \<Rightarrow> throw not_found | Some Corrupt \<Rightarrow> throw corrupt | Some (Parsed j) \<Rightarrow> ret j)"

text \<open>\<open>_atomic_write_json\<close>: the temporary file is gone when it returns.\<close>

definition atomic_write_json :: "path \<Rightarrow> json \<Rightarrow> unit run" where
  "atomic_write_json p j = writes (write_file p j)"

text \<open>\<open>sorted(root.glob(prefix*.json))\<close>: the names in the directory, in order.\<close>

definition glob_names :: "path \<Rightarrow> string \<Rightarrow> world \<Rightarrow> string list" where
  "glob_names d prefix w =
     sort (remdups [last p. p \<leftarrow> map fst (files w), p \<noteq> [] \<and> butlast p = d \<and>
       starts_with (last p) prefix \<and> ends_with (last p) ''.json'' \<and>
       length prefix + 5 \<le> length (last p)])"

definition stem :: "string \<Rightarrow> string" where
  "stem name = take (length name - 5) name"

lemma stem_json [simp]: "stem (n @ ''.json'') = n"
  by (simp add: stem_def)

subsection \<open>Paths of the worktree\<close>

text \<open>A \<open>pathlib\<close> path is its root (empty, one or two slashes) and its components.\<close>

definition py_path :: "string \<Rightarrow> ppath" where
  "py_path s =
     ((if starts_with s ''//'' \<and> \<not> starts_with s ''///'' then ''//''
       else if starts_with s ''/'' then ''/'' else []), path_parts s)"

definition path_str :: "ppath \<Rightarrow> string" where
  "path_str p = (if fst p = [] \<and> snd p = [] then ''.'' else fst p @ py_join ''/'' (snd p))"

definition path_join :: "ppath \<Rightarrow> ppath \<Rightarrow> ppath" where
  "path_join root rel = (if fst rel \<noteq> [] then rel else (fst root, snd root @ snd rel))"

definition relative_to :: "ppath \<Rightarrow> ppath \<Rightarrow> ppath option" where
  "relative_to p root =
     (if fst p = fst root \<and> take (length (snd root)) (snd p) = snd root
      then Some ([], drop (length (snd root)) (snd p)) else None)"

text \<open>A path with no real path raises: on a null character before the file system is asked.\<close>

definition unresolved :: "ppath \<Rightarrow> exn" where
  "unresolved p =
     (if list_ex (\<lambda>c. CHR 0x00 \<in> set c) (snd p) then OtherErr ''ValueError: embedded null byte''
      else RuntimeErr ''Symlink loop'')"

definition resolve_path :: "env \<Rightarrow> ppath \<Rightarrow> exn + ppath" where
  "resolve_path E p = (case realpath E p of None \<Rightarrow> Inl (unresolved p) | Some q \<Rightarrow> Inr q)"

definition expanduser :: "env \<Rightarrow> ppath \<Rightarrow> exn + ppath" where
  "expanduser E p =
     (case p of (a, cs) \<Rightarrow>
        (case cs of
           c # cs' \<Rightarrow>
             if a = [] \<and> starts_with c ''~'' then
               (case home_of E c of
                  None \<Rightarrow> Inl (RuntimeErr ''Could not determine home directory.'')
                | Some (ha, hs) \<Rightarrow> Inr (ha, hs @ cs'))
             else Inr p
         | [] \<Rightarrow> Inr p))"

text \<open>\<open>Path(p).expanduser().resolve(strict=False)\<close>.\<close>

definition full_path :: "env \<Rightarrow> ppath \<Rightarrow> exn + ppath" where
  "full_path E p = bindR (expanduser E p) (resolve_path E)"

text \<open>A path-prefix: same root and the other's components first.\<close>

definition under :: "ppath \<Rightarrow> ppath \<Rightarrow> bool" where
  "under p root \<longleftrightarrow> fst p = fst root \<and> (\<exists>rest. snd p = snd root @ rest)"

lemma relative_to_Some:
  "relative_to p root = Some r \<longleftrightarrow>
     under p root \<and> r = ([], drop (length (snd root)) (snd p))"
  by (auto simp: relative_to_def under_def) (metis append_take_drop_id)

lemma relative_to_None: "relative_to p root = None \<longleftrightarrow> \<not> under p root"
  by (auto simp: relative_to_def under_def) (metis append_take_drop_id)

text \<open>It is computed by comparing prefixes.\<close>

lemma under_code [code]: "under p root \<longleftrightarrow> fst p = fst root \<and> take (length (snd root)) (snd p) = snd root"
  unfolding under_def by (metis append_eq_conv_conj append_take_drop_id)

lemma under_refl [simp]: "under p p"
  by (simp add: under_def)

lemma under_trans: "under p q \<Longrightarrow> under q r \<Longrightarrow> under p r"
  by (auto simp: under_def)

subsection \<open>What is read back from a record directory\<close>

text \<open>The record that verifies at path \<open>p\<close>, if there is one.\<close>

definition stored :: "(cfg \<Rightarrow> json \<Rightarrow> 'e + 'r) \<Rightarrow> cfg \<Rightarrow> world \<Rightarrow> path \<Rightarrow> 'r option" where
  "stored verify C w p =
     (case file_at w p of
        Some (Parsed j) \<Rightarrow> (case verify C j of Inr r \<Rightarrow> Some r | Inl _ \<Rightarrow> None)
      | _ \<Rightarrow> None)"

lemma stored_frame [simp]:
  "stored v C (w\<lparr>events := es\<rparr>) p = stored v C w p"
  "stored v C (w\<lparr>restores := rs\<rparr>) p = stored v C w p"
  "stored v C (w\<lparr>tick := n\<rparr>) p = stored v C w p"
  "stored v C (log_event j w) p = stored v C w p"
  by (simp_all add: stored_def)

lemma stored_write:
  "stored v C (write_file p j w) q =
     (if q = p then (case v C j of Inr r \<Rightarrow> Some r | Inl _ \<Rightarrow> None) else stored v C w q)"
  by (simp add: stored_def file_at_write)

text \<open>
  A record store: \<open>verify\<close> reads a JSON value, \<open>enc\<close> is the value written for a record,
  \<open>rid\<close> its identifier. The contract is that what was accepted once is accepted again
  after it is written, and that identifiers stay inside the directory.
\<close>

locale record_store =
  fixes verify :: "cfg \<Rightarrow> json \<Rightarrow> exn + 'r"
    and enc :: "'r \<Rightarrow> json"
    and rid :: "'r \<Rightarrow> string"
    and dir :: "cfg \<Rightarrow> path"
  assumes reverify: "verify C j = Inr r \<Longrightarrow> verify C (enc r) = Inr r"
    and plain_id: "verify C j = Inr r \<Longrightarrow> plain_ref (rid r)"
begin

lemma stored_verified: "stored verify C w p = Some r \<Longrightarrow> verify C (enc r) = Inr r"
  by (auto simp: stored_def split: option.splits rec_file.splits sum.splits intro: reverify)

lemma stored_plain: "stored verify C w p = Some r \<Longrightarrow> plain_ref (rid r)"
  by (auto simp: stored_def split: option.splits rec_file.splits sum.splits intro: plain_id)

lemma record_path_id:
  "verify C j = Inr r \<Longrightarrow> record_path (dir C) (rid r) = dir C @ [rid r @ ''.json'']"
  by (simp add: plain_id)

lemma read_back:
  "verify C j = Inr r \<Longrightarrow>
   stored verify C (write_file (record_path (dir C) (rid r)) (enc r) w)
     (record_path (dir C) (rid r)) = Some r"
  by (simp add: stored_write reverify)

lemma read_other:
  "verify C j = Inr r \<Longrightarrow> q \<noteq> dir C @ [rid r @ ''.json''] \<Longrightarrow>
   stored v C (write_file (record_path (dir C) (rid r)) x w) q = stored v C w q"
  by (simp add: stored_write record_path_id)

end

end
