(* ===== verification/Stores.thy ===== *)
theory Stores
  imports Host
begin

section \<open>Record stores that evolve\<close>

text \<open>
  The contract the record directories share: a file that verifies as a record of a store lies
  at the path of its identifier, a stored record is only ever replaced by one that may follow
  it, and records of other kinds do not interfere. It is stated as a relation between the
  world an operation finds and the world it leaves.
\<close>

subsection \<open>Operations that leave the files alone\<close>

definition same_files :: "world \<Rightarrow> world \<Rightarrow> bool" where
  "same_files w w' \<longleftrightarrow> files w' = files w"

interpretation quiet: state_order same_files
  by unfold_locales (auto simp: same_files_def)

lemma quiet_now: "keeps same_files (now_utc E)"
  by (rule keepsI) (auto simp: now_utc_def same_files_def)

lemma quiet_given_or_now: "keeps same_files (given_or_now E now)"
  by (auto simp: given_or_now_def split: option.splits intro: quiet.keeps_ret quiet_now)

lemma quiet_utc_now_iso: "keeps same_files (utc_now_iso E)"
  unfolding utc_now_iso_def by (intro quiet.keeps_rules quiet_now)

lemma quiet_text_or_now: "keeps same_files (text_or_now E at)"
  by (auto simp: text_or_now_def split: option.splits intro: quiet.keeps_ret quiet_utc_now_iso)

lemma quiet_log: "keeps same_files (writes (log_event j))"
  by (rule keepsI) (auto simp: writes_iff same_files_def log_event_def)

lemma quiet_event: "keeps same_files (append_scope_event E ty payload at)"
  unfolding append_scope_event_def Let_def
  by (intro quiet.keeps_rules quiet_text_or_now quiet_log)

lemma quiet_read_json: "keeps same_files (read_json p a b)"
  unfolding read_json_def
  by (auto intro!: quiet.keeps_rules split: option.splits rec_file.splits)

lemmas quiet_rules = quiet.keeps_rules quiet_now quiet_given_or_now quiet_utc_now_iso
  quiet_text_or_now quiet_log quiet_event quiet_read_json

lemma same_files_at: "same_files w w' \<Longrightarrow> file_at w' p = file_at w p"
  by (simp add: same_files_def file_at_def)

lemma same_files_stored: "same_files w w' \<Longrightarrow> stored v C w' p = stored v C w p"
  by (simp add: stored_def same_files_at)

lemma same_files_write: "same_files w w' \<Longrightarrow> same_files (write_file p j w) (write_file p j w')"
  by (simp add: same_files_def write_file_def)

subsection \<open>Evolution of a store\<close>

definition in_place ::
  "(cfg \<Rightarrow> json \<Rightarrow> exn + 'r) \<Rightarrow> ('r \<Rightarrow> string) \<Rightarrow> (cfg \<Rightarrow> path) \<Rightarrow> cfg \<Rightarrow> world \<Rightarrow> bool" where
  "in_place verify rid dir C w \<longleftrightarrow>
     (\<forall>p s. stored verify C w p = Some s \<longrightarrow> p = dir C @ [rid s @ ''.json''])"

text \<open>With \<open>mint\<close> new records may appear; without it none does.\<close>

definition evolves ::
  "(cfg \<Rightarrow> json \<Rightarrow> exn + 'r) \<Rightarrow> ('r \<Rightarrow> string) \<Rightarrow> (cfg \<Rightarrow> path) \<Rightarrow> ('r \<Rightarrow> 'r \<Rightarrow> bool) \<Rightarrow> bool \<Rightarrow>
   cfg \<Rightarrow> world \<Rightarrow> world \<Rightarrow> bool" where
  "evolves verify rid dir follows mint C w w' \<longleftrightarrow>
     (in_place verify rid dir C w \<longrightarrow>
        in_place verify rid dir C w' \<and>
        (\<forall>p r. stored verify C w p = Some r \<longrightarrow> (\<exists>r'. stored verify C w' p = Some r' \<and> follows r r')) \<and>
        (mint \<or> (\<forall>p. stored verify C w p = None \<longrightarrow> stored verify C w' p = None)))"

locale evolving_store = record_store verify enc rid dir
  for verify :: "cfg \<Rightarrow> json \<Rightarrow> exn + 'r" and enc rid dir +
  fixes follows :: "'r \<Rightarrow> 'r \<Rightarrow> bool"
    and pre :: string
    and kind :: string
  assumes follows_refl: "follows r r"
    and follows_trans: "follows r s \<Longrightarrow> follows s t \<Longrightarrow> follows r t"
    and id_prefix: "verify C j = Inr r \<Longrightarrow> starts_with (rid r) pre"
    and of_kind: "verify C (JObj kvs) = Inr r \<Longrightarrow> jget kvs ''kind'' = JStr kind"
begin

lemma evolve_refl: "evolves verify rid dir follows mint C w w"
  by (auto simp: evolves_def follows_refl)

lemma evolve_trans:
  assumes "evolves verify rid dir follows mint C w w1" "evolves verify rid dir follows mint C w1 w2"
  shows "evolves verify rid dir follows mint C w w2"
  using assms unfolding evolves_def by (meson follows_trans)

lemma evolve_may_mint:
  "evolves verify rid dir follows False C w w' \<Longrightarrow> evolves verify rid dir follows mint C w w'"
  by (simp add: evolves_def)

lemma evolve_quiet: "same_files w w' \<Longrightarrow> evolves verify rid dir follows mint C w w'"
  by (auto simp: evolves_def same_files_stored in_place_def follows_refl)

lemma stored_name:
  assumes "in_place verify rid dir C w" "stored verify C w p = Some r"
  shows "p = dir C @ [rid r @ ''.json'']" "starts_with (last p) pre"
proof -
  from assms show p: "p = dir C @ [rid r @ ''.json'']" by (simp add: in_place_def)
  from stored_verified [OF assms(2)] have "starts_with (rid r) pre" by (rule id_prefix)
  then show "starts_with (last p) pre" unfolding p by (auto simp: starts_with_iff)
qed

lemma stored_put:
  "verify C (enc s) = Inr s \<Longrightarrow>
   stored verify C (write_file p (enc s) w) q = (if q = p then Some s else stored verify C w q)"
  by (simp add: stored_write)

text \<open>A record is put at its path: a new one, or one that follows the record there.\<close>

lemma evolve_put:
  assumes "p = dir C @ [rid s @ ''.json'']" "verify C (enc s) = Inr s"
    and "\<And>r. stored verify C w p = Some r \<Longrightarrow> follows r s"
    and "mint \<or> stored verify C w p \<noteq> None"
  shows "evolves verify rid dir follows mint C w (write_file p (enc s) w)"
  unfolding evolves_def in_place_def stored_put [OF assms(2)]
  using assms(1,3,4) follows_refl by (auto split: if_splits)

lemma keeps_quiet: "keeps same_files m \<Longrightarrow> keeps (evolves verify rid dir follows mint C) m"
  by (auto simp: keeps_def evolve_quiet)

lemma keeps_may_mint:
  "keeps (evolves verify rid dir follows False C) m \<Longrightarrow> keeps (evolves verify rid dir follows mint C) m"
  by (auto simp: keeps_def evolve_may_mint)

lemma evolve_in_place:
  "evolves verify rid dir follows mint C w w' \<Longrightarrow> in_place verify rid dir C w \<Longrightarrow> in_place verify rid dir C w'"
  by (simp add: evolves_def)

lemma evolve_stored:
  "evolves verify rid dir follows mint C w w' \<Longrightarrow> in_place verify rid dir C w \<Longrightarrow>
   stored verify C w p = Some r \<Longrightarrow> \<exists>r'. stored verify C w' p = Some r' \<and> follows r r'"
  by (simp add: evolves_def)

lemma evolve_back:
  "evolves verify rid dir follows False C w w' \<Longrightarrow> in_place verify rid dir C w \<Longrightarrow>
   stored verify C w' p = Some r' \<Longrightarrow> \<exists>r. stored verify C w p = Some r \<and> follows r r'"
  by (metis evolves_def not_None_eq option.inject)

end

sublocale evolving_store \<subseteq> evo: state_order "evolves verify rid dir follows mint C" for mint C
  by unfold_locales (auto intro: evolve_refl evolve_trans)

subsection \<open>The kinds of records an operation writes\<close>

text \<open>Every file that changed is a record of one of the kinds, under that kind's prefix.\<close>

definition writes_only :: "(string \<times> string) list \<Rightarrow> world \<Rightarrow> world \<Rightarrow> bool" where
  "writes_only ks w w' \<longleftrightarrow>
     (\<forall>p. file_at w' p = file_at w p \<or>
        (\<exists>pre k kvs. (pre, k) \<in> set ks \<and> starts_with (last p) pre \<and>
           file_at w' p = Some (Parsed (JObj kvs)) \<and> jget kvs ''kind'' = JStr k))"

interpretation wo: state_order "writes_only ks" for ks
  by unfold_locales (auto simp: writes_only_def, metis)

lemma writes_only_quiet: "same_files w w' \<Longrightarrow> writes_only ks w w'"
  by (simp add: writes_only_def same_files_at)

lemma keeps_writes_only_quiet: "keeps same_files m \<Longrightarrow> keeps (writes_only ks) m"
  by (auto simp: keeps_def writes_only_quiet)

lemma writes_only_put:
  "(pre, k) \<in> set ks \<Longrightarrow> starts_with (last p) pre \<Longrightarrow> jget kvs ''kind'' = JStr k \<Longrightarrow>
   writes_only ks w (write_file p (JObj kvs) w)"
  by (auto simp: writes_only_def file_at_write)

text \<open>Two prefixes of one length that differ never start one name.\<close>

definition apart :: "string \<Rightarrow> string \<Rightarrow> bool" where
  "apart p q \<longleftrightarrow> length p = length q \<and> p \<noteq> q"

lemma apart_names: "apart p q \<Longrightarrow> starts_with s p \<Longrightarrow> \<not> starts_with s q"
  by (auto simp: apart_def starts_with_iff)

context evolving_store
begin

lemma stored_other_kinds:
  assumes wr: "writes_only ks w w'" and ks: "\<And>q k. (q, k) \<in> set ks \<Longrightarrow> apart q pre \<and> k \<noteq> kind"
    and pl: "in_place verify rid dir C w"
  shows "stored verify C w' p = stored verify C w p"
proof (cases "file_at w' p = file_at w p")
  case False
  with wr obtain q k kvs where q: "(q, k) \<in> set ks" "starts_with (last p) q"
    "file_at w' p = Some (Parsed (JObj kvs))" "jget kvs ''kind'' = JStr k"
    unfolding writes_only_def by blast
  from ks [OF q(1)] q(4) of_kind [of C kvs] have "stored verify C w' p = None"
    by (cases "verify C (JObj kvs)") (auto simp: stored_def q(3))
  moreover have "stored verify C w p = None"
    using stored_name(2) [OF pl, of p] apart_names [OF conjunct1 [OF ks [OF q(1)]] q(2)]
    by (cases "stored verify C w p") auto
  ultimately show ?thesis by simp
qed (simp add: stored_def)

lemma evolve_other_kinds:
  assumes wr: "writes_only ks w w'" and ks: "\<And>q k. (q, k) \<in> set ks \<Longrightarrow> apart q pre \<and> k \<noteq> kind"
  shows "evolves verify rid dir follows mint C w w'"
  unfolding evolves_def using follows_refl stored_other_kinds [OF wr ks] by (auto simp: in_place_def)

lemma keeps_other_kinds:
  "keeps (writes_only ks) m \<Longrightarrow> (\<And>q k. (q, k) \<in> set ks \<Longrightarrow> apart q pre \<and> k \<noteq> kind) \<Longrightarrow>
   keeps (evolves verify rid dir follows mint C) m"
  unfolding keeps_def by (blast intro: evolve_other_kinds)

end

end
