(* ===== verification/Proposals.thy ===== *)
theory Proposals
  imports Stores
begin

section \<open>Write-scope proposals\<close>

text \<open>
  \<open>write_scope_proposals.py\<close>: classification of repository-relative paths, the frozen
  body of a write scope, its hash, proposal records and their store.
\<close>

subsection \<open>Repository-relative paths\<close>

datatype path_class = FILE_OR_DIRECTORY_RELATIVE | EXPLICIT_REPOSITORY_ROOT | MISSING_OR_INVALID

record path_classification =
  path_class :: path_class
  path_normalized :: "string option"
  path_detail :: string
  path_raw :: json

definition invalid_path :: "json \<Rightarrow> string \<Rightarrow> path_classification" where
  "invalid_path raw d =
     \<lparr>path_class = MISSING_OR_INVALID, path_normalized = None, path_detail = d, path_raw = raw\<rparr>"

definition wild_char :: "char \<Rightarrow> bool" where
  "wild_char c \<longleftrightarrow> c \<in> set ''*?{}''"

definition classify_path_text :: "string \<Rightarrow> path_classification" where
  "classify_path_text value =
     (let path = py_strip value in
      if path = [] then invalid_path (JStr value) ''empty_path''
      else if path = ''.'' \<or> path = ''./'' then
        \<lparr>path_class = EXPLICIT_REPOSITORY_ROOT, path_normalized = None,
         path_detail = ''explicit_repository_root_marker'', path_raw = JStr value\<rparr>
      else if CHR 0x00 \<in> set path \<or> CHR 0x5C \<in> set path \<or> starts_with path ''/'' \<or>
              list_ex wild_char path then
        invalid_path (JStr value) (if starts_with path ''/'' then ''absolute_path'' else ''invalid_path_characters'')
      else
        let parts = py_split CHR ''/'' (rstrip_char CHR ''/'' path) in
        if list_ex (\<lambda>part. part = []) parts then invalid_path (JStr value) ''empty_path_segment''
        else if list_ex (\<lambda>part. part = ''..'') parts then invalid_path (JStr value) ''traversal_segment''
        else if list_ex (\<lambda>part. part = ''.'') parts then invalid_path (JStr value) ''invalid_dot_segment''
        else
          \<lparr>path_class = FILE_OR_DIRECTORY_RELATIVE,
           path_normalized = Some (py_join ''/'' parts @ (if ends_with path ''/'' then ''/'' else [])),
           path_detail = ''ok'', path_raw = JStr value\<rparr>)"

definition classify_repository_relative_scope_path :: "json \<Rightarrow> bool \<Rightarrow> path_classification" where
  "classify_repository_relative_scope_path value missing =
     (if missing \<or> value = JNull then invalid_path value ''missing_path''
      else case value of JStr s \<Rightarrow> classify_path_text s | _ \<Rightarrow> invalid_path value ''non_string_path'')"

definition normalize_scope_path :: "string \<Rightarrow> string option" where
  "normalize_scope_path value =
     (let c = classify_repository_relative_scope_path (JStr value) False in
      if path_class c \<noteq> FILE_OR_DIRECTORY_RELATIVE then None else path_normalized c)"

subsection \<open>Hostile approval claims\<close>

definition hostile_keys :: "string list" where
  "hostile_keys = [''approved_write_scope'', ''write_scope_approval'', ''write_scope_approval_id'',
     ''approval_id'', ''approved_by'', ''approved_at'']"

fun contains_hostile_approval_claim :: "json \<Rightarrow> bool"
  and hostile_items :: "json list \<Rightarrow> bool"
  and hostile_fields :: "(string \<times> json) list \<Rightarrow> bool" where
  "contains_hostile_approval_claim (JObj kvs) = hostile_fields kvs"
| "contains_hostile_approval_claim (JArr xs) = hostile_items xs"
| "contains_hostile_approval_claim _ = False"
| "hostile_items [] = False"
| "hostile_items (x # xs) = (contains_hostile_approval_claim x \<or> hostile_items xs)"
| "hostile_fields [] = False"
| "hostile_fields ((k, v) # kvs) =
     (k \<in> set hostile_keys \<or> contains_hostile_approval_claim v \<or> hostile_fields kvs)"

subsection \<open>The frozen body\<close>

record scope_body =
  target_id :: string
  base_sha :: string
  allowed_roots :: "string list"
  denied_roots :: "string list"
  reason :: string
  expected_checks :: "string list"
  docs_only :: bool
  source_mutation :: bool

definition body_fields :: "string list" where
  "body_fields = [''target_id'', ''base_sha'', ''allowed_roots'', ''denied_roots'', ''reason'',
     ''expected_checks'', ''docs_only'', ''source_mutation'']"

definition is_sha40 :: "string \<Rightarrow> bool" where
  "is_sha40 s \<longleftrightarrow> length s = 40 \<and> list_all (\<lambda>c. c \<in> set hex_chars) s"

definition is_JStr :: "json \<Rightarrow> bool" where
  "is_JStr j \<longleftrightarrow> (case j of JStr _ \<Rightarrow> True | _ \<Rightarrow> False)"

definition body_string_list :: "(string \<times> json) list \<Rightarrow> string \<Rightarrow> string list option" where
  "body_string_list kvs name =
     (case jget kvs name of
        JArr raw \<Rightarrow>
          if list_ex (\<lambda>item. \<not> is_JStr item) raw then None
          else
            let values = map (\<lambda>item. py_strip (py_str item)) raw in
            if list_ex (\<lambda>item. item = []) values then None else Some values
      | _ \<Rightarrow> None)"

definition normalize_roots :: "string list \<Rightarrow> string list option" where
  "normalize_roots raw =
     (let roots = map normalize_scope_path raw in
      if list_ex (\<lambda>r. r = None) roots then None else Some (map the roots))"

definition normalize_write_scope_body :: "json \<Rightarrow> scope_body option" where
  "normalize_write_scope_body value =
     (case value of
        JObj kvs \<Rightarrow>
          if contains_hostile_approval_claim value then None
          else if \<not> list_all (\<lambda>f. f \<in> set (map fst kvs)) body_fields then None
          else
            let target = text_field kvs ''target_id''; sha = py_lower (text_field kvs ''base_sha'');
                why = text_field kvs ''reason'' in
            if target = [] \<or> \<not> is_sha40 sha \<or> why = [] then None
            else
              (case (body_string_list kvs ''allowed_roots'', body_string_list kvs ''denied_roots'',
                     body_string_list kvs ''expected_checks'') of
                 (Some raw_allowed, Some raw_denied, Some checks) \<Rightarrow>
                   if raw_allowed = [] then None
                   else
                     (case (normalize_roots raw_allowed, normalize_roots raw_denied,
                            jget kvs ''docs_only'', jget kvs ''source_mutation'') of
                        (Some allowed, Some denied, JBool docs, JBool src) \<Rightarrow>
                          Some \<lparr>target_id = target, base_sha = sha, allowed_roots = allowed,
                            denied_roots = denied, reason = why, expected_checks = checks,
                            docs_only = docs, source_mutation = src\<rparr>
                      | _ \<Rightarrow> None)
               | _ \<Rightarrow> None)
      | _ \<Rightarrow> None)"

definition body_json :: "scope_body \<Rightarrow> json" where
  "body_json b = JObj
     [(''target_id'', JStr (target_id b)), (''base_sha'', JStr (base_sha b)),
      (''allowed_roots'', JArr (map JStr (allowed_roots b))),
      (''denied_roots'', JArr (map JStr (denied_roots b))),
      (''reason'', JStr (reason b)),
      (''expected_checks'', JArr (map JStr (expected_checks b))),
      (''docs_only'', JBool (docs_only b)), (''source_mutation'', JBool (source_mutation b))]"

text \<open>The authority-relevant fields, in the order \<open>BODY_HASH_FIELDS\<close> lists them.\<close>

definition body_payload :: "scope_body \<Rightarrow> json" where
  "body_payload b = JObj
     [(''target_id'', JStr (target_id b)), (''base_sha'', JStr (base_sha b)),
      (''allowed_roots'', JArr (map JStr (allowed_roots b))),
      (''denied_roots'', JArr (map JStr (denied_roots b))),
      (''expected_checks'', JArr (map JStr (expected_checks b))),
      (''docs_only'', JBool (docs_only b)), (''source_mutation'', JBool (source_mutation b))]"

definition compute_body_hash :: "cfg \<Rightarrow> scope_body \<Rightarrow> string" where
  "compute_body_hash C b = ''sha256:'' @ hexdigest C (dumps (body_payload b))"

definition compute_proposal_id :: "cfg \<Rightarrow> string \<Rightarrow> string \<Rightarrow> string" where
  "compute_proposal_id C run_id hash = short_id C ''wsp-'' (run_id @ '':'' @ hash)"

subsection \<open>Proposal records\<close>

record proposal =
  wp_id :: string
  wp_run :: string
  wp_body :: scope_body
  wp_hash :: string
  wp_created :: string

definition proposal_json :: "proposal \<Rightarrow> json" where
  "proposal_json p = JObj
     [(''kind'', JStr ''write_scope_proposal''), (''schema_version'', JInt 1),
      (''proposal_id'', JStr (wp_id p)), (''run_id'', JStr (wp_run p)),
      (''body'', body_json (wp_body p)), (''body_hash'', JStr (wp_hash p)),
      (''created_at'', JStr (wp_created p)), (''status'', JStr ''proposed'')]"

definition build_proposal_record :: "env \<Rightarrow> string \<Rightarrow> json \<Rightarrow> string option \<Rightarrow> proposal run" where
  "build_proposal_record E run_id body created_at =
     (case normalize_write_scope_body body of
        None \<Rightarrow> throw (ProposalError P_invalid_body)
      | Some frozen \<Rightarrow>
          let parent = py_strip run_id in
          bindM (raise_if (parent = []) (ProposalError P_missing_run)) (\<lambda>_.
          let h = compute_body_hash (cfg_of E) frozen in
          bindM (text_or_now E created_at) (\<lambda>t.
          ret \<lparr>wp_id = compute_proposal_id (cfg_of E) parent h, wp_run = parent,
               wp_body = frozen, wp_hash = h, wp_created = t\<rparr>)))"

definition verify_proposal_record :: "cfg \<Rightarrow> json \<Rightarrow> exn + proposal" where
  "verify_proposal_record C record =
     (case record of
        JObj r \<Rightarrow>
          bindR (check (jget r ''kind'' \<noteq> JStr ''write_scope_proposal'') (ProposalError P_kind)) (\<lambda>_.
          bindR (check (\<not> is_one (jget r ''schema_version'')) (ProposalError P_schema)) (\<lambda>_.
          bindR (check (jget r ''status'' \<noteq> JStr ''proposed'')
                   (ProposalError (P_status (py_str (jget r ''status''))))) (\<lambda>_.
          let run_id = text_field r ''run_id''; pid = text_field r ''proposal_id'';
              stored_hash = text_field r ''body_hash'' in
          case normalize_write_scope_body (jget r ''body'') of
            None \<Rightarrow> Inl (ProposalError P_body_invalid)
          | Some frozen \<Rightarrow>
              let expected_hash = compute_body_hash C frozen in
              bindR (check (stored_hash \<noteq> expected_hash) (ProposalError (P_hash pid))) (\<lambda>_.
              let expected_id = compute_proposal_id C run_id expected_hash in
              bindR (check (pid \<noteq> expected_id) (ProposalError (P_id expected_id pid))) (\<lambda>_.
              Inr \<lparr>wp_id = pid, wp_run = run_id, wp_body = frozen, wp_hash = expected_hash,
                   wp_created = str_or_empty (jget r ''created_at'')\<rparr>)))))
      | _ \<Rightarrow> Inl (ProposalError P_not_object))"

definition load_proposal :: "env \<Rightarrow> string \<Rightarrow> proposal run" where
  "load_proposal E pid =
     (let ref = py_strip pid; C = cfg_of E in
      bindM (raise_if (ref = []) (ProposalError P_ref_required)) (\<lambda>_.
      bindM (read_json (record_path (proposals_dir C) ref)
               (ProposalError (P_not_found ref)) (ProposalError (P_corrupt ref))) (\<lambda>raw.
      lift_res (verify_proposal_record C raw))))"

definition save_proposal :: "env \<Rightarrow> json \<Rightarrow> proposal run" where
  "save_proposal E record =
     (let C = cfg_of E in
      bindM (lift_res (verify_proposal_record C record)) (\<lambda>verified.
      let path = record_path (proposals_dir C) (wp_id verified) in
      bindM (reads (\<lambda>w. file_at w path)) (\<lambda>present.
      if present \<noteq> None then
        bindM (load_proposal E (wp_id verified)) (\<lambda>existing.
        if wp_hash existing = wp_hash verified \<and> wp_run existing = wp_run verified
        then ret existing
        else throw (ProposalError (P_collision (wp_id verified))))
      else
        bindM (atomic_write_json path (proposal_json verified)) (\<lambda>_. ret verified))))"

subsection \<open>Listing\<close>

text \<open>A listed entry: a verified record, or a corrupt file with the reason.\<close>

datatype listed_proposal = Listed proposal | Listed_corrupt string string

fun listed_key :: "listed_proposal \<Rightarrow> string \<times> string" where
  "listed_key (Listed p) = (wp_created p, wp_id p)"
| "listed_key (Listed_corrupt i e) = ([], i)"

definition list_entry ::
  "cfg \<Rightarrow> string option \<Rightarrow> string option \<Rightarrow> world \<Rightarrow> string \<Rightarrow> listed_proposal list" where
  "list_entry C run_id status w name =
     (let r = (case file_at w (proposals_dir C @ [name]) of
                 Some (Parsed j) \<Rightarrow> verify_proposal_record C j
               | _ \<Rightarrow> Inl (ValueErr ''not JSON'')) in
      case r of
        Inl e \<Rightarrow> [Listed_corrupt (stem name) (exn_text e)]
      | Inr p \<Rightarrow>
          if run_id \<noteq> None \<and> run_id \<noteq> Some (wp_run p) then []
          else if status \<noteq> None \<and> status \<noteq> Some ''proposed'' then []
          else [Listed p])"

definition list_proposals ::
  "env \<Rightarrow> string option \<Rightarrow> string option \<Rightarrow> listed_proposal list run" where
  "list_proposals E run_id status =
     (let C = cfg_of E in
      reads (\<lambda>w. sort_key listed_key
        (concat (map (list_entry C run_id status w) (glob_names (proposals_dir C) ''wsp-'' w)))))"

subsection \<open>Proposals from a worker result\<close>

datatype rejection =
    Result_not_object
  | Untrusted_write_scope_claim
  | Untrusted_approval_claim string
  | Hostile_candidate nat
  | Malformed_proposal nat
  | Persist_failed nat string
  | Missing_parent_run

record persist_outcome =
  persisted :: "proposal list"
  rejected :: "rejection list"
  skipped_prose_only :: bool

definition collect_candidate_bodies :: "json \<Rightarrow> json list \<times> rejection list" where
  "collect_candidate_bodies result =
     (case result of
        JObj kvs \<Rightarrow>
          let keys = map fst kvs;
              r1 = (if contains_hostile_approval_claim (jget kvs ''approved_write_scope'') \<or>
                       ''approved_write_scope'' \<in> set keys
                    then [Untrusted_write_scope_claim] else []);
              r2 = map Untrusted_approval_claim
                     (filter (\<lambda>k. k \<in> set keys \<and> k \<noteq> ''approved_write_scope'') hostile_keys);
              plural = jget kvs ''write_scope_proposals'';
              singular = jget kvs ''write_scope_proposal'';
              candidates =
                (case plural of
                   JArr (x # xs) \<Rightarrow> x # xs
                 | _ \<Rightarrow> if singular \<noteq> JNull then [singular] else [])
          in (candidates, r1 @ r2)
      | _ \<Rightarrow> ([], [Result_not_object]))"

text \<open>One turn of the loop over the candidates; the accumulator is (rejected, persisted).\<close>

definition persist_candidate ::
  "env \<Rightarrow> string \<Rightarrow> string option \<Rightarrow> nat \<times> json \<Rightarrow> rejection list \<times> proposal list \<Rightarrow>
   (rejection list \<times> proposal list) run" where
  "persist_candidate E parent created_at ic acc =
     (case ic of (i, candidate) \<Rightarrow> case acc of (rej, per) \<Rightarrow>
        if contains_hostile_approval_claim candidate then ret (rej @ [Hostile_candidate i], per)
        else case normalize_write_scope_body candidate of
            None \<Rightarrow> ret (rej @ [Malformed_proposal i], per)
          | Some frozen \<Rightarrow>
              catchM
                (bindM (build_proposal_record E parent (body_json frozen) created_at) (\<lambda>record.
                 bindM (save_proposal E (proposal_json record)) (\<lambda>saved.
                 if wp_id saved \<in> set (map wp_id per) then ret (rej, per)
                 else ret (rej, per @ [saved]))))
                (\<lambda>e. if is_proposal_error e
                      then Some (ret (rej @ [Persist_failed i (exn_text e)], per)) else None))"

definition persist_write_scope_proposals_from_result ::
  "env \<Rightarrow> json \<Rightarrow> string option \<Rightarrow> string option \<Rightarrow> persist_outcome run" where
  "persist_write_scope_proposals_from_result E result run_id created_at =
     (case result of
        JObj kvs \<Rightarrow>
          let parent = py_strip
                (case run_id of
                   Some (c # cs) \<Rightarrow> c # cs
                 | _ \<Rightarrow> if truthy (jget kvs ''session_id'') then py_str (jget kvs ''session_id'')
                        else str_or_empty (jget kvs ''run_id''));
              (candidates, rej) = collect_candidate_bodies result in
          if parent = [] then
            ret \<lparr>persisted = [],
                 rejected = (if candidates \<noteq> [] then rej @ [Missing_parent_run] else rej),
                 skipped_prose_only = (candidates = [])\<rparr>
          else if candidates = [] then
            ret \<lparr>persisted = [], rejected = rej, skipped_prose_only = True\<rparr>
          else
            bindM (foldM_op (persist_candidate E parent created_at)
                     (List.enumerate 0 candidates) (rej, [])) (\<lambda>(rej', per).
            ret \<lparr>persisted = per, rejected = rej', skipped_prose_only = False\<rparr>)
      | _ \<Rightarrow> ret \<lparr>persisted = [], rejected = [Result_not_object], skipped_prose_only = True\<rparr>)"

subsection \<open>Normalized scope paths\<close>

text \<open>A stored root: what a normalized path looks like.\<close>

definition safe_scope_path :: "string \<Rightarrow> bool" where
  "safe_scope_path n \<longleftrightarrow>
     n \<noteq> [] \<and> \<not> starts_with n ''/'' \<and> CHR 0x00 \<notin> set n \<and> CHR 0x5C \<notin> set n \<and>
     \<not> list_ex wild_char n \<and>
     list_all (\<lambda>part. part \<noteq> [] \<and> part \<noteq> ''.'' \<and> part \<noteq> ''..'')
       (py_split CHR ''/'' (rstrip_char CHR ''/'' n))"

lemma rstrip_char_split:
  obtains k where "s = rstrip_char d s @ replicate k d"
proof -
  have "s = rstrip_char d s @ rev (takeWhile (\<lambda>c. c = d) (rev s))"
    unfolding rstrip_char_def by (metis rev_append rev_rev_ident takeWhile_dropWhile_id)
  moreover have "rev (takeWhile (\<lambda>c. c = d) (rev s)) =
      replicate (length (takeWhile (\<lambda>c. c = d) (rev s))) d"
    by (metis (mono_tags, lifting) length_rev replicate_length_same set_rev set_takeWhileD)
  ultimately show ?thesis using that by metis
qed

lemma rstrip_char_add: "rstrip_char d (rstrip_char d s @ [d]) = rstrip_char d s"
  by (simp add: rstrip_char_def)

lemma rstrip_char_rstrip [simp]: "rstrip_char d (rstrip_char d s) = rstrip_char d s"
  by (simp add: rstrip_char_def)

lemma set_rstrip_char: "set (rstrip_char d s) \<subseteq> set s"
  by (auto simp: rstrip_char_def dest!: set_dropWhileD)

lemma starts_with_rstrip:
  "rstrip_char d s \<noteq> [] \<Longrightarrow> starts_with (rstrip_char d s @ u) [c] \<longleftrightarrow> starts_with s [c]"
proof -
  assume ne: "rstrip_char d s \<noteq> []"
  obtain k where "s = rstrip_char d s @ replicate k d" by (rule rstrip_char_split)
  then have "hd s = hd (rstrip_char d s)" "s \<noteq> []" using ne by (metis hd_append2, auto)
  then show ?thesis using ne by (cases s; cases "rstrip_char d s") (auto simp: starts_with_def)
qed

lemma ends_with_snoc: "ends_with (s @ [c]) [d] \<longleftrightarrow> c = d"
  by (auto simp: ends_with_iff)

lemma not_ends_rstrip: "\<not> ends_with s [d] \<Longrightarrow> rstrip_char d s = s"
  by (cases s rule: rev_cases) (auto simp: rstrip_char_def ends_with_snoc)

lemma not_ends_with_rstrip: "\<not> ends_with (rstrip_char d s) [d]"
proof
  assume "ends_with (rstrip_char d s) [d]"
  then obtain t where "rstrip_char d s = t @ [d]" by (auto simp: ends_with_iff)
  then have "dropWhile (\<lambda>c. c = d) (rev s) = d # rev t"
    unfolding rstrip_char_def by (metis rev.simps(2) rev_rev_ident rev_swap)
  then show False by (metis (mono_tags, lifting) dropWhile_eq_Cons_conv)
qed

text \<open>The text a relative path is normalized to.\<close>

definition trimmed :: "string \<Rightarrow> string" where
  "trimmed p = rstrip_char CHR ''/'' p @ (if ends_with p ''/'' then ''/'' else [])"

lemma trimmed_facts:
  assumes "rstrip_char CHR ''/'' p \<noteq> []"
  shows "rstrip_char CHR ''/'' (trimmed p) = rstrip_char CHR ''/'' p"
    and "ends_with (trimmed p) ''/'' \<longleftrightarrow> ends_with p ''/''"
    and "starts_with (trimmed p) [c] \<longleftrightarrow> starts_with p [c]"
    and "set (trimmed p) = set p" and "trimmed p \<noteq> []"
proof -
  show "rstrip_char CHR ''/'' (trimmed p) = rstrip_char CHR ''/'' p"
    by (simp add: trimmed_def rstrip_char_add)
  show "ends_with (trimmed p) ''/'' \<longleftrightarrow> ends_with p ''/''"
    by (simp add: trimmed_def ends_with_snoc not_ends_with_rstrip)
  show "starts_with (trimmed p) [c] \<longleftrightarrow> starts_with p [c]"
    using assms by (simp add: trimmed_def starts_with_rstrip)
  obtain k where k: "p = rstrip_char CHR ''/'' p @ replicate k CHR ''/''" by (rule rstrip_char_split)
  show "set (trimmed p) = set p"
  proof (cases "ends_with p ''/''")
    case True
    have "k \<noteq> 0"
      using True k not_ends_with_rstrip [of "CHR ''/''" p] by (metis append.right_neutral replicate_0)
    then have "set p = insert CHR ''/'' (set (rstrip_char CHR ''/'' p))"
      using arg_cong [OF k, of set] by (simp add: set_replicate_conv_if)
    with True show ?thesis by (simp add: trimmed_def)
  next
    case False
    then show ?thesis by (simp add: trimmed_def not_ends_rstrip)
  qed
  show "trimmed p \<noteq> []" using assms by (simp add: trimmed_def)
qed

lemma normalize_scope_path_eq:
  "normalize_scope_path s = Some n \<longleftrightarrow>
     n = trimmed (py_strip s) \<and> py_strip s \<noteq> [] \<and> safe_scope_path (py_strip s)"
  (is "?l \<longleftrightarrow> ?r")
proof -
  let ?p = "py_strip s"
  have special: "\<not> safe_scope_path ''.''" "\<not> safe_scope_path ''./''"
    by (simp_all add: safe_scope_path_def rstrip_char_def)
  have parts: "(list_all (\<lambda>part. part \<noteq> [] \<and> part \<noteq> ''.'' \<and> part \<noteq> ''..'') ws) =
      (\<not> list_ex (\<lambda>part. part = []) ws \<and> \<not> list_ex (\<lambda>part. part = ''..'') ws \<and>
       \<not> list_ex (\<lambda>part. part = ''.'') ws)" for ws
    by (auto simp: list_all_iff list_ex_iff)
  show ?thesis
    using special
    by (auto simp: normalize_scope_path_def classify_repository_relative_scope_path_def
        classify_path_text_def invalid_path_def Let_def py_join_split trimmed_def
        safe_scope_path_def parts)
qed

lemma safe_rstrip_neq_Nil:
  "safe_scope_path p \<Longrightarrow> rstrip_char CHR ''/'' p \<noteq> []"
  by (auto simp: safe_scope_path_def)

lemma safe_trimmed: "safe_scope_path p \<Longrightarrow> safe_scope_path (trimmed p)"
  using trimmed_facts [OF safe_rstrip_neq_Nil [of p]]
  unfolding safe_scope_path_def by (simp add: list_ex_iff)

lemma normalize_scope_path_safe:
  "normalize_scope_path s = Some n \<Longrightarrow> safe_scope_path n"
  by (auto simp: normalize_scope_path_eq safe_trimmed)

lemma py_strip_ends:
  assumes "py_strip s = p" and "p \<noteq> []"
  shows "\<not> py_space (hd p)" "\<not> py_space (last p)"
proof -
  let ?q = "dropWhile py_space s"
  have p: "p = rev (dropWhile py_space (rev ?q))" using assms(1) by (simp add: py_strip_def)
  with assms(2) have "dropWhile py_space (rev ?q) \<noteq> []" by auto
  then show "\<not> py_space (last p)"
    unfolding p by (metis hd_dropWhile last_rev)
  have "dropWhile py_space (py_strip s) = py_strip s"
    unfolding py_strip_def by (rule dropWhile_rev_dropWhile) simp
  with assms show "\<not> py_space (hd p)"
    by (metis dropWhile_eq_self_iff)
qed

lemma strip_trimmed:
  assumes "py_strip s = p" and "rstrip_char CHR ''/'' p \<noteq> []"
  shows "py_strip (trimmed p) = trimmed p"
proof (rule py_strip_fix)
  obtain k where k: "p = rstrip_char CHR ''/'' p @ replicate k CHR ''/''" by (rule rstrip_char_split)
  from assms(2) k have "p \<noteq> []" by auto
  note e = py_strip_ends [OF assms(1) this]
  show "trimmed p \<noteq> []" using assms(2) by (simp add: trimmed_def)
  have "hd (trimmed p) = hd p"
    using assms(2) by (subst (2) k) (simp add: trimmed_def)
  with e show "\<not> py_space (hd (trimmed p))" by simp
  show "\<not> py_space (last (trimmed p))"
  proof (cases "ends_with p ''/''")
    case True
    then show ?thesis by (simp add: trimmed_def py_space_def)
  next
    case False
    with e show ?thesis by (simp add: trimmed_def not_ends_rstrip)
  qed
qed

lemma normalize_scope_path_idem:
  assumes "normalize_scope_path s = Some n"
  shows "normalize_scope_path n = Some n"
proof -
  let ?p = "py_strip s"
  from assms have n: "n = trimmed ?p" and safe: "safe_scope_path ?p"
    by (auto simp: normalize_scope_path_eq)
  note ne = safe_rstrip_neq_Nil [OF safe]
  note f = trimmed_facts [OF ne]
  have "py_strip n = n" unfolding n by (rule strip_trimmed [OF refl ne])
  moreover have "trimmed n = n"
    unfolding n by (simp add: trimmed_def [of "trimmed ?p"] f) (simp add: trimmed_def)
  ultimately show ?thesis
    using safe_trimmed [OF safe] f(5) n by (simp add: normalize_scope_path_eq)
qed

subsection \<open>Frozen bodies\<close>

lemma hostile_items_JStr [simp]: "\<not> hostile_items (map JStr xs)"
  by (induction xs) auto

lemma body_json_not_hostile [simp]: "\<not> contains_hostile_approval_claim (body_json b)"
  by (simp add: body_json_def hostile_keys_def)

lemma body_string_list_stripped:
  "body_string_list kvs f = Some xs \<Longrightarrow> list_all (\<lambda>x. x \<noteq> [] \<and> py_strip x = x) xs"
  by (auto simp: body_string_list_def Let_def list_all_iff list_ex_iff split: json.splits if_splits)

lemma normalize_roots_map:
  "normalize_roots raw = Some rs \<longleftrightarrow> map normalize_scope_path raw = map Some rs"
proof (induction raw arbitrary: rs)
  case Nil
  then show ?case by (auto simp: normalize_roots_def)
next
  case (Cons x raw)
  have "normalize_roots (x # raw) =
      (case normalize_scope_path x of None \<Rightarrow> None
       | Some n \<Rightarrow> map_option ((#) n) (normalize_roots raw))"
    by (auto simp: normalize_roots_def Let_def split: option.splits)
  with Cons.IH show ?case
    by (auto simp: Cons_eq_map_conv split: option.splits)
qed

lemma normalize_roots_fixed:
  "normalize_roots rs = Some rs \<longleftrightarrow> (\<forall>x \<in> set rs. normalize_scope_path x = Some x)"
  by (simp add: normalize_roots_map)

lemma normalize_roots_idem:
  assumes "normalize_roots raw = Some rs"
  shows "normalize_roots rs = Some rs"
  unfolding normalize_roots_fixed
proof
  fix x
  assume "x \<in> set rs"
  then have "Some x \<in> set (map normalize_scope_path raw)"
    using assms unfolding normalize_roots_map by simp
  then show "normalize_scope_path x = Some x"
    by (metis (mono_tags) ex_map_conv imageE list.set_map normalize_scope_path_idem)
qed

text \<open>A frozen body is one that normalization leaves as it is.\<close>

definition frozen :: "scope_body \<Rightarrow> bool" where
  "frozen b \<longleftrightarrow>
     target_id b \<noteq> [] \<and> py_strip (target_id b) = target_id b \<and>
     is_sha40 (base_sha b) \<and> reason b \<noteq> [] \<and> py_strip (reason b) = reason b \<and>
     allowed_roots b \<noteq> [] \<and> normalize_roots (allowed_roots b) = Some (allowed_roots b) \<and>
     normalize_roots (denied_roots b) = Some (denied_roots b) \<and>
     list_all (\<lambda>x. x \<noteq> [] \<and> py_strip x = x) (expected_checks b)"

lemma normalize_frozen:
  assumes "normalize_write_scope_body v = Some b"
  shows "frozen b"
proof -
  from assms obtain kvs where v: "v = JObj kvs"
    by (auto simp: normalize_write_scope_body_def split: json.splits)
  from assms obtain ra rd where
    l: "body_string_list kvs ''allowed_roots'' = Some ra" "ra \<noteq> []"
       "body_string_list kvs ''denied_roots'' = Some rd"
       "body_string_list kvs ''expected_checks'' = Some (expected_checks b)"
    and r: "normalize_roots ra = Some (allowed_roots b)" "normalize_roots rd = Some (denied_roots b)"
    and t: "target_id b = text_field kvs ''target_id''" "reason b = text_field kvs ''reason''"
       "target_id b \<noteq> []" "reason b \<noteq> []" "is_sha40 (base_sha b)"
    unfolding v normalize_write_scope_body_def Let_def
    by (auto split: if_splits option.splits json.splits)
  from l(2) r(1) have "allowed_roots b \<noteq> []"
    by (auto simp: normalize_roots_map)
  with l r t show ?thesis
    by (simp add: frozen_def normalize_roots_idem [OF r(1)] normalize_roots_idem [OF r(2)]
        body_string_list_stripped)
qed

lemma hex_not_space: "list_all (\<lambda>c. c \<in> set hex_chars \<longrightarrow> \<not> py_space c \<and> lower_char c = c) hex_chars"
  by code_simp

lemma sha40_stable:
  assumes "is_sha40 s"
  shows "py_strip s = s" "py_lower s = s"
  using assms hex_not_space
  by (auto simp: is_sha40_def list_all_iff py_lower_def intro!: py_strip_no_space map_idI)

lemma root_stripped: "normalize_scope_path x = Some x \<Longrightarrow> x \<noteq> [] \<and> py_strip x = x"
  by (auto simp: normalize_scope_path_eq)
    (metis normalize_scope_path_eq safe_rstrip_neq_Nil strip_trimmed)+

lemma body_string_list_map:
  "list_all (\<lambda>x. x \<noteq> [] \<and> py_strip x = x) xs \<Longrightarrow> jget kvs f = JArr (map JStr xs) \<Longrightarrow>
   body_string_list kvs f = Some xs"
  by (auto simp: body_string_list_def Let_def list_ex_iff list_all_iff is_JStr_def intro!: map_idI)

lemma roots_stripped:
  "normalize_roots rs = Some rs \<Longrightarrow> list_all (\<lambda>x. x \<noteq> [] \<and> py_strip x = x) rs"
  by (simp add: normalize_roots_fixed list_all_iff root_stripped)

lemma frozen_normalize:
  assumes "frozen b"
  shows "normalize_write_scope_body (body_json b) = Some b"
proof -
  from assms have f: "target_id b \<noteq> []" "py_strip (target_id b) = target_id b" "is_sha40 (base_sha b)"
    "reason b \<noteq> []" "py_strip (reason b) = reason b" "allowed_roots b \<noteq> []"
    "normalize_roots (allowed_roots b) = Some (allowed_roots b)"
    "normalize_roots (denied_roots b) = Some (denied_roots b)"
    "list_all (\<lambda>x. x \<noteq> [] \<and> py_strip x = x) (expected_checks b)"
    by (simp_all add: frozen_def)
  obtain kvs where kvs: "body_json b = JObj kvs" and
    k: "kvs = [(''target_id'', JStr (target_id b)), (''base_sha'', JStr (base_sha b)),
      (''allowed_roots'', JArr (map JStr (allowed_roots b))),
      (''denied_roots'', JArr (map JStr (denied_roots b))),
      (''reason'', JStr (reason b)),
      (''expected_checks'', JArr (map JStr (expected_checks b))),
      (''docs_only'', JBool (docs_only b)), (''source_mutation'', JBool (source_mutation b))]"
    by (simp add: body_json_def)
  have "body_string_list kvs ''allowed_roots'' = Some (allowed_roots b)"
    "body_string_list kvs ''denied_roots'' = Some (denied_roots b)"
    "body_string_list kvs ''expected_checks'' = Some (expected_checks b)"
    using roots_stripped [OF f(7)] roots_stripped [OF f(8)] f(9)
    by (auto intro!: body_string_list_map simp: k)
  moreover have "text_field kvs ''target_id'' = target_id b" "text_field kvs ''reason'' = reason b"
    "text_field kvs ''base_sha'' = base_sha b"
    using f sha40_stable [OF f(3)] by (simp_all add: text_field_def k)
  moreover have "list_all (\<lambda>f. f \<in> set (map fst kvs)) body_fields"
    "jget kvs ''docs_only'' = JBool (docs_only b)"
    "jget kvs ''source_mutation'' = JBool (source_mutation b)"
    by (simp_all add: k body_fields_def)
  moreover have "\<not> contains_hostile_approval_claim (JObj kvs)"
    using body_json_not_hostile [of b] kvs by simp
  ultimately show ?thesis
    using f sha40_stable [OF f(3)] unfolding kvs
    by (simp add: normalize_write_scope_body_def Let_def del: contains_hostile_approval_claim.simps)
qed

lemma normalize_idem:
  "normalize_write_scope_body v = Some b \<Longrightarrow> normalize_write_scope_body (body_json b) = Some b"
  by (intro frozen_normalize normalize_frozen)

subsection \<open>The body hash\<close>

lemma sorted_payload:
  "sort_key fst [(''target_id'', t1), (''base_sha'', t2), (''allowed_roots'', t3), (''denied_roots'', t4),
     (''expected_checks'', t5), (''docs_only'', t6), (''source_mutation'', t7)] =
   [(''allowed_roots'', t3), (''base_sha'', t2), (''denied_roots'', t4), (''docs_only'', t6),
    (''expected_checks'', t5), (''source_mutation'', t7), (''target_id'', t1 :: string)]"
  by code_simp

lemma dumps_payload:
  "dumps (body_payload b) =
     ''{'' @ dumps_str ''allowed_roots'' @ '':'' @ dumps (JArr (map JStr (allowed_roots b))) @
     '','' @ dumps_str ''base_sha'' @ '':'' @ dumps_str (base_sha b) @
     '','' @ dumps_str ''denied_roots'' @ '':'' @ dumps (JArr (map JStr (denied_roots b))) @
     '','' @ dumps_str ''docs_only'' @ '':'' @ dumps (JBool (docs_only b)) @
     '','' @ dumps_str ''expected_checks'' @ '':'' @ dumps (JArr (map JStr (expected_checks b))) @
     '','' @ dumps_str ''source_mutation'' @ '':'' @ dumps (JBool (source_mutation b)) @
     '','' @ dumps_str ''target_id'' @ '':'' @ dumps_str (target_id b) @ ''}''"
  unfolding body_payload_def dumps.simps(7) dumps_fields.simps sorted_payload
  by (simp only: list.map prod.case py_join.simps dumps.simps(5) append_assoc)

lemma dumps_str_inj [simp]: "dumps_str s = dumps_str t \<longleftrightarrow> s = t"
  using dumps_str_unique [of s "[]" t "[]"] by auto

text \<open>Two bodies with one canonical text agree on every authority-relevant field.\<close>

lemma dumps_payload_inj:
  assumes "dumps (body_payload a) = dumps (body_payload b)"
  shows "a\<lparr>reason := r\<rparr> = b\<lparr>reason := r\<rparr>"
  using assms unfolding dumps_payload same_append_eq
  by (auto dest!: dumps_strs_unique dumps_str_unique dumps_bool_unique intro!: scope_body.equality
      simp del: dumps.simps append.simps simp: append_Cons)

lemma body_hash_form:
  "starts_with (compute_body_hash C b) ''sha256:''" "length (compute_body_hash C b) = 71"
  by (simp_all add: compute_body_hash_def starts_with_def)

lemma body_hash_strip [simp]: "py_strip (compute_body_hash C b) = compute_body_hash C b"
proof (rule py_strip_no_space)
  show "\<forall>c \<in> set (compute_body_hash C b). \<not> py_space c"
    using hexdigest_clean [of _ C "dumps (body_payload b)"]
    by (auto simp: compute_body_hash_def py_space_def)
qed

lemma body_hash_reason [simp]: "compute_body_hash C (b\<lparr>reason := r\<rparr>) = compute_body_hash C b"
  by (simp add: compute_body_hash_def body_payload_def)

subsection \<open>The proposal store\<close>

lemma verify_proposal_Inr:
  assumes "verify_proposal_record C j = Inr p"
  shows "frozen (wp_body p)" "wp_hash p = compute_body_hash C (wp_body p)"
    "wp_id p = compute_proposal_id C (wp_run p) (wp_hash p)" "py_strip (wp_run p) = wp_run p"
  using assms
  by (auto simp: verify_proposal_record_def Let_def bindR_Inr_iff normalize_frozen
      split: json.splits option.splits)

lemma proposal_id_clean:
  "plain_ref (compute_proposal_id C r h)" "py_strip (compute_proposal_id C r h) = compute_proposal_id C r h"
  "compute_proposal_id C r h \<noteq> []"
  unfolding compute_proposal_id_def plain_ref_def
  by (auto intro!: short_id_clean simp: short_id_neq_Nil py_space_def short_id_clean)

lemma verify_proposal_json:
  assumes "frozen (wp_body p)" "wp_hash p = compute_body_hash C (wp_body p)"
    "wp_id p = compute_proposal_id C (wp_run p) (wp_hash p)" "py_strip (wp_run p) = wp_run p"
  shows "verify_proposal_record C (proposal_json p) = Inr p"
  using assms proposal_id_clean [of C "wp_run p" "wp_hash p"]
  by (simp add: verify_proposal_record_def proposal_json_def Let_def bindR_check is_one_def
      text_field_def frozen_normalize)

lemma proposal_id_prefix: "starts_with (compute_proposal_id C r h) ''wsp-''"
  unfolding compute_proposal_id_def by (rule short_id_prefix)

text \<open>A stored proposal never changes.\<close>

interpretation ps: evolving_store verify_proposal_record proposal_json wp_id proposals_dir
  "(=)" "''wsp-''" "''write_scope_proposal''"
proof unfold_locales
  fix C j kvs and p :: proposal
  assume v: "verify_proposal_record C j = Inr p"
  show "verify_proposal_record C (proposal_json p) = Inr p"
    using verify_proposal_Inr [OF v] by (intro verify_proposal_json) auto
  show "plain_ref (wp_id p)" "starts_with (wp_id p) ''wsp-''"
    using verify_proposal_Inr(3) [OF v] proposal_id_clean(1) proposal_id_prefix by simp_all
next
  fix C kvs and p :: proposal
  assume "verify_proposal_record C (JObj kvs) = Inr p"
  then show "jget kvs ''kind'' = JStr ''write_scope_proposal''"
    by (auto simp: verify_proposal_record_def bindR_Inr_iff)
qed auto

subsection \<open>What persistence keeps\<close>

text \<open>Files are added, never changed; the event log is not touched.\<close>

definition only_adds :: "world \<Rightarrow> world \<Rightarrow> bool" where
  "only_adds w w' \<longleftrightarrow>
     (\<forall>p f. file_at w p = Some f \<longrightarrow> file_at w' p = Some f) \<and>
     events w' = events w \<and> restores w' = restores w"

interpretation adds: state_order only_adds
  by unfold_locales (auto simp: only_adds_def)

lemma adds_clock: "keeps only_adds (now_utc E)"
  by (rule keepsI) (auto simp: now_utc_def only_adds_def)

lemma adds_text_or_now: "keeps only_adds (text_or_now E at)"
  by (auto simp: text_or_now_def utc_now_iso_def split: option.splits
      intro!: adds.keeps_rules adds_clock)

lemma adds_build_proposal: "keeps only_adds (build_proposal_record E r b c)"
  by (auto simp: build_proposal_record_def Let_def split: option.splits
      intro!: adds.keeps_rules adds_text_or_now)

lemma load_proposal_run:
  "load_proposal E pid w = (r, w') \<Longrightarrow> w' = w"
  by (cases r)
    (auto simp: load_proposal_def Let_def read_json_def op_simps split: if_splits option.splits rec_file.splits)

lemma load_proposal_Inr:
  "load_proposal E pid w = (Inr p, w') \<longleftrightarrow>
     w' = w \<and> py_strip pid \<noteq> [] \<and>
     stored verify_proposal_record (cfg_of E) w (record_path (proposals_dir (cfg_of E)) (py_strip pid)) = Some p"
  by (auto simp: load_proposal_def Let_def read_json_def op_simps stored_def
      split: if_splits option.splits rec_file.splits sum.splits)

text \<open>The three outcomes of a save that returns.\<close>

lemma save_proposal_Inr:
  assumes "save_proposal E j w = (Inr q, w')"
  obtains (fresh) "verify_proposal_record (cfg_of E) j = Inr q"
      "file_at w (record_path (proposals_dir (cfg_of E)) (wp_id q)) = None"
      "w' = write_file (record_path (proposals_dir (cfg_of E)) (wp_id q)) (proposal_json q) w"
    | (known) v where "verify_proposal_record (cfg_of E) j = Inr v" "w' = w"
      "stored verify_proposal_record (cfg_of E) w
         (record_path (proposals_dir (cfg_of E)) (wp_id v)) = Some q"
      "wp_hash q = wp_hash v" "wp_run q = wp_run v"
proof -
  from assms obtain v where v: "verify_proposal_record (cfg_of E) j = Inr v"
    by (auto simp: save_proposal_def Let_def op_simps)
  have id: "py_strip (wp_id v) = wp_id v"
    using verify_proposal_Inr(3) [OF v] proposal_id_clean(2) by simp
  show thesis
  proof (cases "file_at w (record_path (proposals_dir (cfg_of E)) (wp_id v))")
    case None
    with assms v show thesis
      by (intro fresh) (auto simp: save_proposal_def Let_def op_simps atomic_write_json_def)
  next
    case (Some f)
    with assms v id show thesis
      by (intro known [of v])
        (auto simp: save_proposal_def Let_def op_simps load_proposal_Inr split: if_splits)
  qed
qed

lemma save_proposal_Inl: "save_proposal E j w = (Inl e, w') \<Longrightarrow> w' = w"
  by (auto simp: save_proposal_def Let_def op_simps atomic_write_json_def
      dest: load_proposal_run split: if_splits)

lemma adds_save_proposal: "keeps only_adds (save_proposal E j)"
proof (rule keepsI)
  fix w r w'
  assume run: "save_proposal E j w = (r, w')"
  show "only_adds w w'"
  proof (cases r)
    case (Inl e)
    with run show ?thesis by (auto dest!: save_proposal_Inl simp: adds.order_refl)
  next
    case (Inr q)
    from run [unfolded Inr] show ?thesis
      by (cases rule: save_proposal_Inr)
        (auto simp: only_adds_def file_at_write, simp_all add: write_file_def)
  qed
qed

lemma save_proposal_same_id:
  assumes "save_proposal E j w = (Inr q, w')"
  shows "\<exists>v. verify_proposal_record (cfg_of E) j = Inr v \<and> wp_id q = wp_id v \<and>
    wp_hash q = wp_hash v \<and> wp_run q = wp_run v \<and>
    verify_proposal_record (cfg_of E) (proposal_json q) = Inr q"
  using assms
proof (cases rule: save_proposal_Inr)
  case fresh
  then show ?thesis using ps.reverify by blast
next
  case (known v)
  have "verify_proposal_record (cfg_of E) (proposal_json q) = Inr q"
    using known(3) by (rule ps.stored_verified)
  moreover have "wp_id q = wp_id v"
    using verify_proposal_Inr(3) [OF known(1)] verify_proposal_Inr(3) [OF calculation] known(4,5)
    by simp
  ultimately show ?thesis using known by blast
qed

lemma save_proposal_stored:
  assumes "save_proposal E j w = (Inr q, w')"
  shows "stored verify_proposal_record (cfg_of E) w'
    (record_path (proposals_dir (cfg_of E)) (wp_id q)) = Some q"
  using assms
proof (cases rule: save_proposal_Inr)
  case fresh
  then show ?thesis using ps.read_back [OF fresh(1)] by simp
next
  case (known v)
  have "wp_id q = wp_id v"
    using save_proposal_same_id [OF assms] known(1) by auto
  with known show ?thesis by simp
qed

lemma adds_persist_candidate: "keeps only_adds (persist_candidate E parent c ic acc)"
  unfolding persist_candidate_def
  by (cases ic; cases acc)
    (auto split: option.splits if_splits
      intro!: adds.keeps_rules adds.keeps_catch adds_build_proposal adds_save_proposal)

lemma adds_persist:
  "keeps only_adds (persist_write_scope_proposals_from_result E result run_id created_at)"
  unfolding persist_write_scope_proposals_from_result_def Let_def
  by (auto split: json.splits prod.splits option.splits list.splits if_splits
      intro!: adds.keeps_rules adds_persist_candidate)

text \<open>The accumulated list of a persist loop: verified records of the parent, distinct.\<close>

definition persisted_ok :: "cfg \<Rightarrow> string \<Rightarrow> rejection list \<times> proposal list \<Rightarrow> bool" where
  "persisted_ok C parent acc \<longleftrightarrow>
     distinct (map wp_id (snd acc)) \<and>
     (\<forall>p \<in> set (snd acc). wp_run p = parent \<and> verify_proposal_record C (proposal_json p) = Inr p)"

lemma build_proposal_Inr:
  assumes "build_proposal_record E run_id body c w = (Inr p, w')"
  shows "wp_run p = py_strip run_id"
    and "normalize_write_scope_body body = Some (wp_body p)"
    and "verify_proposal_record (cfg_of E) (proposal_json p) = Inr p"
proof -
  from assms show "wp_run p = py_strip run_id" "normalize_write_scope_body body = Some (wp_body p)"
    by (auto simp: build_proposal_record_def Let_def op_simps split: option.splits if_splits)
  from assms show "verify_proposal_record (cfg_of E) (proposal_json p) = Inr p"
    by (intro verify_proposal_json)
      (auto simp: build_proposal_record_def Let_def op_simps normalize_frozen
        split: option.splits if_splits)
qed

lemma persist_candidate_ok:
  assumes "persist_candidate E parent c ic acc w = (Inr acc', w')"
    and "persisted_ok (cfg_of E) parent acc" and "py_strip parent = parent"
  shows "persisted_ok (cfg_of E) parent acc'"
proof -
  obtain i v rej per where eq: "ic = (i, v)" "acc = (rej, per)" by (cases ic; cases acc)
  show ?thesis
  proof (cases "acc' = (fst acc', per)")
    case True
    with assms(2) eq show ?thesis by (metis persisted_ok_def snd_conv)
  next
    case False
    with assms(1) eq obtain fb rc saved w1 w2 where
      b: "build_proposal_record E parent (body_json fb) c w = (Inr rc, w1)"
      and s: "save_proposal E (proposal_json rc) w1 = (Inr saved, w2)"
      and a: "wp_id saved \<notin> set (map wp_id per)" "acc' = (rej, per @ [saved])"
      by (auto simp: persist_candidate_def catchM_def op_simps
          split: if_splits option.splits prod.splits sum.splits) metis
    from build_proposal_Inr [OF b] save_proposal_same_id [OF s] assms(3)
    have "wp_run saved = parent" "verify_proposal_record (cfg_of E) (proposal_json saved) = Inr saved"
      by auto
    with a eq assms(2) show ?thesis by (auto simp: persisted_ok_def)
  qed
qed

lemma persist_fold_ok:
  "foldM_op (persist_candidate E parent c) xs acc w = (Inr acc', w') \<Longrightarrow>
   persisted_ok (cfg_of E) parent acc \<Longrightarrow> py_strip parent = parent \<Longrightarrow>
   persisted_ok (cfg_of E) parent acc'"
  by (induction xs arbitrary: acc w) (auto simp: op_simps dest: persist_candidate_ok)

end
