(* ===== verification/Approvals.thy ===== *)
theory Approvals
  imports Proposals
begin

section \<open>Write-scope approvals and revocations\<close>

text \<open>
  \<open>write_scope_approvals.py\<close>: the lifetime of a grant, operator identity, approval and
  revocation records, lazy expiry, and the operations that mint, load, revoke and consume
  approvals. Records are files of the world; every raise keeps what was written before it.
\<close>

subsection \<open>Statuses and transitions\<close>

datatype approval_status = Approved | Revoked | Expired | Consumed

fun approval_status_text :: "approval_status \<Rightarrow> string" where
  "approval_status_text Approved = ''approved''"
| "approval_status_text Revoked = ''revoked''"
| "approval_status_text Expired = ''expired''"
| "approval_status_text Consumed = ''consumed''"

definition approval_status_of :: "string \<Rightarrow> approval_status option" where
  "approval_status_of s =
     (if s = ''approved'' then Some Approved else if s = ''revoked'' then Some Revoked
      else if s = ''expired'' then Some Expired else if s = ''consumed'' then Some Consumed
      else None)"

fun approval_transitions :: "approval_status option \<Rightarrow> approval_status list" where
  "approval_transitions None = [Approved]"
| "approval_transitions (Some Approved) = [Revoked, Expired, Consumed]"
| "approval_transitions (Some Revoked) = []"
| "approval_transitions (Some Expired) = []"
| "approval_transitions (Some Consumed) = []"

definition approval_terminal :: "approval_status \<Rightarrow> bool" where
  "approval_terminal s \<longleftrightarrow> s \<in> set [Revoked, Expired, Consumed]"

definition assert_transition :: "approval_status option \<Rightarrow> approval_status \<Rightarrow> exn + unit" where
  "assert_transition from_status to_status =
     check (to_status \<notin> set (approval_transitions from_status))
       (ApprovalError (A_transition
          (case from_status of None \<Rightarrow> ''None'' | Some s \<Rightarrow> approval_status_text s)
          (approval_status_text to_status)))"

text \<open>
  A lifecycle: which statuses may follow a status, and which are final. Along any chain of
  allowed steps a final status stays.
\<close>

locale lifecycle =
  fixes next_of :: "'s option \<Rightarrow> 's list"
    and final :: "'s \<Rightarrow> bool"
    and initial :: "'s"
  assumes mint: "next_of None = [initial]"
    and final_stuck: "final s \<Longrightarrow> next_of (Some s) = []"
    and never_again: "initial \<notin> set (next_of (Some s))"
begin

lemma final_stays:
  "rtranclp (\<lambda>s t. t \<in> set (next_of (Some s))) s t \<Longrightarrow> final s \<Longrightarrow> t = s"
  by (induction rule: rtranclp_induct) (auto simp: final_stuck)

lemma initial_once:
  "rtranclp (\<lambda>s t. t \<in> set (next_of (Some s))) s initial \<Longrightarrow> s = initial"
  by (auto elim: rtranclp.cases simp: never_again)

end

interpretation approval_life: lifecycle approval_transitions approval_terminal Approved
proof unfold_locales
  fix s
  show "approval_terminal s \<Longrightarrow> approval_transitions (Some s) = []"
    by (cases s) (simp_all add: approval_terminal_def)
  show "Approved \<notin> set (approval_transitions (Some s))"
    by (cases s) simp_all
qed simp

subsection \<open>Time to live\<close>

datatype ttl_unit = Day | Hour | Minute | Second

fun ttl_index :: "ttl_unit \<Rightarrow> nat" where
  "ttl_index Day = 0"
| "ttl_index Hour = 1"
| "ttl_index Minute = 2"
| "ttl_index Second = 3"

text \<open>The order of \<open>_TTL_UNIT_ORDER\<close>: days first.\<close>

instantiation ttl_unit :: linorder
begin

definition less_eq_ttl_unit :: "ttl_unit \<Rightarrow> ttl_unit \<Rightarrow> bool" where
  "less_eq_ttl_unit u v \<longleftrightarrow> ttl_index u \<le> ttl_index v"

definition less_ttl_unit :: "ttl_unit \<Rightarrow> ttl_unit \<Rightarrow> bool" where
  "less_ttl_unit u v \<longleftrightarrow> ttl_index u < ttl_index v"

instance
proof
  fix u v w :: ttl_unit
  show "u \<le> v \<Longrightarrow> v \<le> u \<Longrightarrow> u = v"
    by (cases u; cases v) (simp_all add: less_eq_ttl_unit_def)
qed (auto simp: less_eq_ttl_unit_def less_ttl_unit_def)

end

fun ttl_seconds :: "ttl_unit \<Rightarrow> nat" where
  "ttl_seconds Day = 86400"
| "ttl_seconds Hour = 3600"
| "ttl_seconds Minute = 60"
| "ttl_seconds Second = 1"

fun ttl_char :: "ttl_unit \<Rightarrow> char" where
  "ttl_char Day = CHR ''d''"
| "ttl_char Hour = CHR ''h''"
| "ttl_char Minute = CHR ''m''"
| "ttl_char Second = CHR ''s''"

definition ttl_unit_of :: "char \<Rightarrow> ttl_unit option" where
  "ttl_unit_of c =
     (if c = CHR ''d'' then Some Day else if c = CHR ''h'' then Some Hour
      else if c = CHR ''m'' then Some Minute else if c = CHR ''s'' then Some Second else None)"

definition py_isdigit :: "string \<Rightarrow> bool" where
  "py_isdigit s \<longleftrightarrow> s \<noteq> [] \<and>
     list_all (\<lambda>c. is_digit c \<or> c \<in> set [CHR 0xB2, CHR 0xB3, CHR 0xB9]) s"

lemma ttl_loop_shrinks:
  "s \<noteq> [] \<Longrightarrow> length (dropWhile is_digit s) - Suc 0 < length s"
  using length_dropWhile_le [of is_digit s] by (cases s) (auto split: if_splits)

text \<open>The \<open>while remaining\<close> loop; \<open>seen\<close> holds the units read, the last one last.\<close>

function ttl_loop :: "string \<Rightarrow> ttl_unit list \<Rightarrow> nat \<Rightarrow> string \<Rightarrow> exn + nat" where
  "ttl_loop v seen secs remaining =
     (if remaining = [] then Inr secs
      else
        let ds = takeWhile is_digit remaining; r = dropWhile is_digit remaining in
        if ds = [] \<or> r = [] \<or> ttl_unit_of (hd r) = None then Inl (ApprovalError (A_ttl_invalid v))
        else if 4300 < length ds then Inl (ValueErr ''Exceeds the limit for integer string conversion'')
        else
          let unit = the (ttl_unit_of (hd r)) in
          if num_val ds = 0 then Inl (ApprovalError (A_ttl_amount v))
          else if unit \<in> set seen then Inl (ApprovalError (A_ttl_repeat [ttl_char unit] v))
          else if seen \<noteq> [] \<and> unit \<le> last seen then Inl (ApprovalError (A_ttl_order v))
          else ttl_loop v (seen @ [unit]) (secs + num_val ds * ttl_seconds unit) (tl r))"
  by pat_completeness auto

termination
  by (relation "measure (\<lambda>(v, seen, secs, r). length r)") (auto simp: ttl_loop_shrinks)

declare ttl_loop.simps [simp del]

definition max_delta_seconds :: nat where
  "max_delta_seconds = 86400 * 10 ^ 9"

definition parse_ttl_duration :: "string \<Rightarrow> exn + nat" where
  "parse_ttl_duration value =
     (let text = py_lower (py_strip value) in
      if text = [] then Inl (ApprovalError A_ttl_required)
      else if py_isdigit text then Inl (ApprovalError A_ttl_bare)
      else bindR (ttl_loop value [] 0 text) (\<lambda>secs.
        if secs = 0 then Inl (ApprovalError (A_ttl_positive value))
        else if max_delta_seconds \<le> secs then Inl OverflowErr
        else Inr secs))"

subsection \<open>Timestamps\<close>

definition parse_iso_utc :: "cfg \<Rightarrow> string \<Rightarrow> exn + int" where
  "parse_iso_utc C value =
     (let text = py_strip value in
      if text = [] then Inl (ApprovalError A_ts_required)
      else
        let text' = (if ends_with text ''Z'' then butlast text @ ''+00:00'' else text) in
        (case py_fromisoformat (iso_other C) text' of
           None \<Rightarrow> Inl (ApprovalError (A_ts_invalid value))
         | Some (t, offset) \<Rightarrow>
             let u = t - (case offset of None \<Rightarrow> 0 | Some d \<Rightarrow> d) in
             if 0 \<le> u \<and> u < max_micros then Inr u else Inl OverflowErr))"

subsection \<open>Operator identity\<close>

definition worker_markers :: "string list" where
  "worker_markers = [''worker'', ''agent'', ''hermes'', ''claude'', ''backend'', ''runner'',
     ''self'', ''model'']"

definition assert_operator_identity :: "string \<Rightarrow> string \<Rightarrow> exn + string" where
  "assert_operator_identity identity field =
     (let value = py_strip identity; lowered = py_lower value in
      if value = [] then Inl (ApprovalError (A_identity_required field))
      else if lowered \<in> set worker_markers \<or> starts_with lowered ''worker:''
        then Inl (ApprovalError (A_identity_worker field value))
      else if lowered \<in> set [''prose'', ''transcript'', ''memory'']
        then Inl (ApprovalError (A_identity_source field value))
      else Inr value)"

definition assert_operator_provenance :: "string \<Rightarrow> exn + string" where
  "assert_operator_provenance provenance =
     (let value = py_strip provenance in
      bindR (check (value \<noteq> ''operator_asserted'') (ApprovalError (A_provenance value))) (\<lambda>_.
      Inr value))"

definition path_is_under_docs :: "string \<Rightarrow> bool" where
  "path_is_under_docs path =
     (let n = py_strip path in
      if n = [] then False
      else if n = ''docs'' \<or> n = ''docs/'' then True
      else starts_with n ''docs/'')"

definition validate_approval_body :: "json \<Rightarrow> exn + scope_body" where
  "validate_approval_body body =
     (case normalize_write_scope_body body of
        None \<Rightarrow> Inl (ApprovalError A_body_normal)
      | Some b \<Rightarrow>
          if allowed_roots b = [] then Inl (ApprovalError A_roots_empty)
          else if docs_only b \<and> filter (\<lambda>r. \<not> path_is_under_docs r) (allowed_roots b) \<noteq> []
            then Inl (ApprovalError (A_docs_only
                   (filter (\<lambda>r. \<not> path_is_under_docs r) (allowed_roots b))))
          else Inr b)"

subsection \<open>Identifiers and records\<close>

definition compute_approval_id ::
  "cfg \<Rightarrow> string \<Rightarrow> string \<Rightarrow> string \<Rightarrow> string \<Rightarrow> string \<Rightarrow> string" where
  "compute_approval_id C proposal_id approved_at approved_by expires_at hash =
     short_id C ''wsa-'' (proposal_id @ '':'' @ approved_at @ '':'' @ approved_by @ '':'' @
       expires_at @ '':'' @ hash)"

definition compute_revocation_id :: "cfg \<Rightarrow> string \<Rightarrow> string" where
  "compute_revocation_id C approval_id = short_id C ''wsr-'' approval_id"

record approval =
  wa_id :: string
  wa_proposal :: string
  wa_run :: string
  wa_body :: scope_body
  wa_hash :: string
  wa_by :: string
  wa_at :: string
  wa_expires :: string
  wa_status :: approval_status
  wa_source :: string
  wa_revocation :: "string option"

record revocation =
  wr_id :: string
  wr_approval :: string
  wr_by :: string
  wr_at :: string
  wr_reason :: string

definition opt_field :: "string \<Rightarrow> string option \<Rightarrow> (string \<times> json) list" where
  "opt_field k v = (case v of None \<Rightarrow> [] | Some s \<Rightarrow> [(k, JStr s)])"

definition approval_json :: "approval \<Rightarrow> json" where
  "approval_json a = JObj
     ([(''kind'', JStr ''write_scope_approval''), (''schema_version'', JInt 1),
       (''approval_id'', JStr (wa_id a)), (''proposal_id'', JStr (wa_proposal a)),
       (''run_id'', JStr (wa_run a)), (''body'', body_json (wa_body a)),
       (''body_hash'', JStr (wa_hash a)), (''approved_by'', JStr (wa_by a)),
       (''approved_at'', JStr (wa_at a)), (''expires_at'', JStr (wa_expires a)),
       (''status'', JStr (approval_status_text (wa_status a))),
       (''approval_source'', JStr (wa_source a)), (''provenance'', JStr ''operator_asserted'')]
      @ opt_field ''revocation_id'' (wa_revocation a))"

definition revocation_json :: "revocation \<Rightarrow> json" where
  "revocation_json r = JObj
     [(''kind'', JStr ''write_scope_revocation''), (''schema_version'', JInt 1),
      (''revocation_id'', JStr (wr_id r)), (''approval_id'', JStr (wr_approval r)),
      (''revoked_by'', JStr (wr_by r)), (''revoked_at'', JStr (wr_at r)),
      (''reason'', JStr (wr_reason r)), (''provenance'', JStr ''operator_asserted'')]"

definition source_ok :: "string \<Rightarrow> bool" where
  "source_ok s \<longleftrightarrow> s \<in> set [''cli'', ''api'']"

definition build_approval_record ::
  "env \<Rightarrow> json \<Rightarrow> string \<Rightarrow> string \<Rightarrow> string option \<Rightarrow> string \<Rightarrow> string \<Rightarrow> approval run" where
  "build_approval_record E proposal approved_by expires_at approved_at source provenance =
     (let C = cfg_of E in
      bindM (lift_res (verify_proposal_record C proposal)) (\<lambda>p.
      bindM (lift_res (assert_operator_identity approved_by ''approved_by'')) (\<lambda>operator.
      bindM (lift_res (assert_operator_provenance provenance)) (\<lambda>_.
      bindM (raise_if (\<not> source_ok (py_strip source))
               (ApprovalError (A_source (py_strip source)))) (\<lambda>_.
      bindM (lift_res (validate_approval_body (body_json (wp_body p)))) (\<lambda>body.
      let h = compute_body_hash C body in
      bindM (raise_if (h \<noteq> wp_hash p) (ApprovalError (A_hash_vs_proposal (wp_hash p) h))) (\<lambda>_.
      bindM (text_or_now E approved_at) (\<lambda>approved_ts.
      bindM (lift_res (parse_iso_utc C approved_ts)) (\<lambda>approved_dt.
      bindM (lift_res (parse_iso_utc C expires_at)) (\<lambda>expires_dt.
      bindM (raise_if (expires_dt \<le> approved_dt) (ApprovalError A_expires_order)) (\<lambda>_.
      bindM (lift_res (assert_transition None Approved)) (\<lambda>_.
      ret \<lparr>wa_id = compute_approval_id C (wp_id p) approved_ts operator expires_at h,
           wa_proposal = wp_id p, wa_run = wp_run p, wa_body = body, wa_hash = h,
           wa_by = operator, wa_at = approved_ts, wa_expires = expires_at,
           wa_status = Approved, wa_source = py_strip source, wa_revocation = None\<rparr>))))))))))))"

subsection \<open>Lazy expiry\<close>

definition evaluate_expiry :: "env \<Rightarrow> int option \<Rightarrow> bool \<Rightarrow> approval \<Rightarrow> approval run" where
  "evaluate_expiry E now persist rec =
     (let C = cfg_of E in
      if wa_status rec \<noteq> Approved then ret rec
      else
        bindM (lift_res (parse_iso_utc C (wa_expires rec))) (\<lambda>expires_dt.
        bindM (given_or_now E now) (\<lambda>current.
        if current < expires_dt then ret rec
        else
          bindM (lift_res (assert_transition (Some Approved) Expired)) (\<lambda>_.
          let updated = rec\<lparr>wa_status := Expired\<rparr> in
          if persist then
            bindM (atomic_write_json (record_path (approvals_dir C) (wa_id updated))
                     (approval_json updated)) (\<lambda>_.
            bindM (case now of None \<Rightarrow> utc_now_iso E | Some _ \<Rightarrow> ret (stamp current)) (\<lambda>at.
            bindM (append_scope_event E ''write_scope.expired''
                     [(''approval_id'', JStr (wa_id updated)),
                      (''proposal_id'', JStr (wa_proposal updated)),
                      (''expires_at'', JStr (wa_expires updated))] (Some at)) (\<lambda>_.
            ret updated)))
          else ret updated))))"

text \<open>\<open>verify_approval_record(record, evaluate_ttl=False)\<close>.\<close>

definition verify_approval_base :: "cfg \<Rightarrow> json \<Rightarrow> exn + approval" where
  "verify_approval_base C record =
     (case record of
        JObj r \<Rightarrow>
          bindR (check (jget r ''kind'' \<noteq> JStr ''write_scope_approval'') (ApprovalError A_kind)) (\<lambda>_.
          bindR (check (\<not> is_one (jget r ''schema_version'')) (ApprovalError A_schema)) (\<lambda>_.
          case approval_status_of (str_or_empty (jget r ''status'')) of
            None \<Rightarrow> Inl (ApprovalError (A_status (str_or_empty (jget r ''status''))))
          | Some status \<Rightarrow>
          bindR (assert_operator_provenance (str_or_empty (jget r ''provenance''))) (\<lambda>_.
          let aid = text_field r ''approval_id''; pid = text_field r ''proposal_id'';
              run_id = text_field r ''run_id''; stored_hash = text_field r ''body_hash'' in
          bindR (assert_operator_identity (str_or_empty (jget r ''approved_by'')) ''approved_by'') (\<lambda>approved_by.
          let approved_at = text_field r ''approved_at''; expires_at = text_field r ''expires_at'' in
          bindR (check (aid = [] \<or> pid = [] \<or> run_id = []) (ApprovalError A_identity_fields)) (\<lambda>_.
          bindR (check (approved_at = [] \<or> expires_at = []) (ApprovalError A_times)) (\<lambda>_.
          bindR (validate_approval_body (jget r ''body'')) (\<lambda>body.
          let expected_hash = compute_body_hash C body in
          bindR (check (stored_hash \<noteq> expected_hash) (ApprovalError (A_hash aid))) (\<lambda>_.
          let expected_id = compute_approval_id C pid approved_at approved_by expires_at expected_hash in
          bindR (check (aid \<noteq> expected_id) (ApprovalError (A_id expected_id aid))) (\<lambda>_.
          let source = text_field r ''approval_source'' in
          bindR (check (\<not> source_ok source) (ApprovalError (A_source source))) (\<lambda>_.
          let rev = (if jget r ''revocation_id'' = JNull then None
                     else Some (py_str (jget r ''revocation_id''))) in
          bindR (check (status = Revoked \<and> (rev = None \<or> rev = Some []))
                   (ApprovalError A_no_revocation_id)) (\<lambda>_.
          Inr \<lparr>wa_id = aid, wa_proposal = pid, wa_run = run_id, wa_body = body,
               wa_hash = expected_hash, wa_by = approved_by, wa_at = approved_at,
               wa_expires = expires_at, wa_status = status, wa_source = source,
               wa_revocation = rev\<rparr>)))))))))))
      | _ \<Rightarrow> Inl (ApprovalError A_not_object))"

definition verify_approval_record :: "env \<Rightarrow> json \<Rightarrow> int option \<Rightarrow> bool \<Rightarrow> approval run" where
  "verify_approval_record E record now evaluate_ttl =
     bindM (lift_res (verify_approval_base (cfg_of E) record)) (\<lambda>a.
     if evaluate_ttl then evaluate_expiry E now False a else ret a)"

definition is_approval_active :: "env \<Rightarrow> json \<Rightarrow> int option \<Rightarrow> bool run" where
  "is_approval_active E record now =
     bindM (verify_approval_record E record now True) (\<lambda>a. ret (wa_status a = Approved))"

subsection \<open>The approval store\<close>

definition load_approval :: "env \<Rightarrow> string \<Rightarrow> int option \<Rightarrow> bool \<Rightarrow> bool \<Rightarrow> approval run" where
  "load_approval E approval_id now evaluate_ttl persist_expiry =
     (let ref = py_strip approval_id; C = cfg_of E in
      bindM (raise_if (ref = []) (ApprovalError A_ref_required)) (\<lambda>_.
      bindM (read_json (record_path (approvals_dir C) ref)
               (ApprovalError (A_not_found ref)) (ApprovalError (A_corrupt ref))) (\<lambda>raw.
      bindM (verify_approval_record E raw now False) (\<lambda>a.
      if evaluate_ttl then evaluate_expiry E now persist_expiry a else ret a))))"

definition save_approval :: "env \<Rightarrow> json \<Rightarrow> bool \<Rightarrow> approval run" where
  "save_approval E record emit_event =
     (let C = cfg_of E in
      bindM (verify_approval_record E record None False) (\<lambda>v.
      bindM (raise_if (wa_status v \<noteq> Approved)
               (ApprovalError (A_initial_status (approval_status_text (wa_status v))))) (\<lambda>_.
      let path = record_path (approvals_dir C) (wa_id v) in
      bindM (reads (\<lambda>w. file_at w path)) (\<lambda>present.
      if present \<noteq> None then
        bindM (load_approval E (wa_id v) None False True) (\<lambda>existing.
        if wa_proposal existing = wa_proposal v \<and> wa_hash existing = wa_hash v \<and>
           wa_at existing = wa_at v \<and> wa_expires existing = wa_expires v \<and> wa_by existing = wa_by v
        then ret existing
        else throw (ApprovalError (A_collision (wa_id v))))
      else
        bindM (atomic_write_json path (approval_json v)) (\<lambda>_.
        bindM (if emit_event then
                 append_scope_event E ''write_scope.approved''
                   [(''approval_id'', JStr (wa_id v)), (''proposal_id'', JStr (wa_proposal v)),
                    (''approved_by'', JStr (wa_by v)), (''expires_at'', JStr (wa_expires v)),
                    (''body_hash'', JStr (wa_hash v))] (Some (wa_at v))
               else ret JNull) (\<lambda>_.
        ret v))))))"

text \<open>One turn of the listing loop: unreadable approvals are skipped.\<close>

definition list_approval ::
  "env \<Rightarrow> string option \<Rightarrow> string option \<Rightarrow> string option \<Rightarrow> int option \<Rightarrow> string \<Rightarrow>
   approval list \<Rightarrow> approval list run" where
  "list_approval E run_id status proposal_id now name acc =
     catchM
       (bindM (load_approval E (stem name) now True True) (\<lambda>a.
        if run_id \<noteq> None \<and> run_id \<noteq> Some (wa_run a) then ret acc
        else if proposal_id \<noteq> None \<and> proposal_id \<noteq> Some (wa_proposal a) then ret acc
        else if status \<noteq> None \<and> status \<noteq> Some (approval_status_text (wa_status a)) then ret acc
        else ret (acc @ [a])))
       (\<lambda>e. if is_approval_error e then Some (ret acc) else None)"

definition list_approvals ::
  "env \<Rightarrow> string option \<Rightarrow> string option \<Rightarrow> string option \<Rightarrow> int option \<Rightarrow> approval list run" where
  "list_approvals E run_id status proposal_id now =
     bindM (reads (glob_names (approvals_dir (cfg_of E)) ''wsa-'')) (\<lambda>names.
     bindM (foldM_op (list_approval E run_id status proposal_id now) names []) (\<lambda>items.
     ret (sort_key (\<lambda>a. (wa_at a, wa_id a)) items)))"

subsection \<open>Granting\<close>

definition approve_proposal ::
  "env \<Rightarrow> string \<Rightarrow> string \<Rightarrow> string \<Rightarrow> string \<Rightarrow> string \<Rightarrow> string option \<Rightarrow> int option \<Rightarrow> approval run" where
  "approve_proposal E proposal_id ttl approved_by source provenance approved_at now =
     (let C = cfg_of E in
      bindM (lift_res (assert_operator_provenance provenance)) (\<lambda>_.
      bindM (lift_res (assert_operator_identity approved_by ''approved_by'')) (\<lambda>operator.
      bindM (lift_res (parse_ttl_duration ttl)) (\<lambda>duration.
      bindM (catchM (load_proposal E proposal_id)
               (\<lambda>e. if is_proposal_error e then Some (throw (ApprovalError (A_text (exn_text e))))
                     else None)) (\<lambda>proposal.
      bindM (given_or_now E now) (\<lambda>current.
      let approved_ts = (case approved_at of
                           Some (c # cs) \<Rightarrow> c # cs | _ \<Rightarrow> stamp current) in
      bindM (lift_res (parse_iso_utc C approved_ts)) (\<lambda>base.
      let expires_dt = base + int duration * 1000000 in
      bindM (raise_if (max_micros \<le> expires_dt) OverflowErr) (\<lambda>_.
      let expires_at = stamp expires_dt in
      bindM (build_approval_record E (proposal_json proposal) operator expires_at
               (Some approved_ts) source provenance) (\<lambda>rec.
      bindM (lift_res (parse_iso_utc C expires_at)) (\<lambda>exp.
      bindM (raise_if (exp \<le> current) (ApprovalError A_immediate_expiry)) (\<lambda>_.
      save_approval E (approval_json rec) True)))))))))))"

subsection \<open>Revocation\<close>

definition verify_revocation_record :: "cfg \<Rightarrow> json \<Rightarrow> exn + revocation" where
  "verify_revocation_record C record =
     (case record of
        JObj r \<Rightarrow>
          bindR (check (jget r ''kind'' \<noteq> JStr ''write_scope_revocation'') (ApprovalError R_kind)) (\<lambda>_.
          bindR (check (\<not> is_one (jget r ''schema_version'')) (ApprovalError R_schema)) (\<lambda>_.
          bindR (assert_operator_provenance (str_or_empty (jget r ''provenance''))) (\<lambda>_.
          let rid = text_field r ''revocation_id''; aid = text_field r ''approval_id'' in
          bindR (assert_operator_identity (str_or_empty (jget r ''revoked_by'')) ''revoked_by'') (\<lambda>by_whom.
          let at = text_field r ''revoked_at''; why = text_field r ''reason'' in
          bindR (check (rid = [] \<or> aid = [] \<or> at = [] \<or> why = []) (ApprovalError R_incomplete)) (\<lambda>_.
          bindR (check (rid \<noteq> compute_revocation_id C aid)
                   (ApprovalError (R_id (compute_revocation_id C aid) rid))) (\<lambda>_.
          Inr \<lparr>wr_id = rid, wr_approval = aid, wr_by = by_whom, wr_at = at, wr_reason = why\<rparr>))))))
      | _ \<Rightarrow> Inl (ApprovalError R_not_object))"

definition load_revocation :: "env \<Rightarrow> string \<Rightarrow> revocation run" where
  "load_revocation E revocation_id =
     (let ref = py_strip revocation_id; C = cfg_of E in
      bindM (raise_if (ref = []) (ApprovalError R_ref_required)) (\<lambda>_.
      bindM (read_json (record_path (revocations_dir C) ref)
               (ApprovalError (R_not_found ref)) (ApprovalError (R_corrupt ref))) (\<lambda>raw.
      lift_res (verify_revocation_record C raw))))"

text \<open>The revocation of an approval that is revoked already.\<close>

definition revoke_again :: "env \<Rightarrow> approval \<Rightarrow> string \<Rightarrow> string \<Rightarrow> (approval \<times> revocation \<times> bool) run" where
  "revoke_again E a operator reason_text =
     bindM (load_revocation E (case wa_revocation a of None \<Rightarrow> [] | Some i \<Rightarrow> i)) (\<lambda>existing.
     bindM (append_scope_event E ''write_scope.revoke_idempotent''
              [(''approval_id'', JStr (wa_id a)), (''revocation_id'', JStr (wr_id existing)),
               (''revoked_by'', JStr operator), (''reason'', JStr reason_text),
               (''note'', JStr ''already revoked; original revocation retained'')] None) (\<lambda>_.
     ret (a, existing, True)))"

text \<open>The revocation of an approved approval.\<close>

definition revoke_now ::
  "env \<Rightarrow> approval \<Rightarrow> string \<Rightarrow> string \<Rightarrow> string option \<Rightarrow> (approval \<times> revocation \<times> bool) run" where
  "revoke_now E a operator reason_text revoked_at =
     (let C = cfg_of E in
      bindM (lift_res (assert_transition (Some Approved) Revoked)) (\<lambda>_.
      bindM (text_or_now E revoked_at) (\<lambda>revoked_ts.
      bindM (lift_res (verify_revocation_record C (revocation_json
               \<lparr>wr_id = compute_revocation_id C (wa_id a), wr_approval = wa_id a,
                wr_by = operator, wr_at = revoked_ts, wr_reason = reason_text\<rparr>))) (\<lambda>rev.
      let updated = a\<lparr>wa_status := Revoked, wa_revocation := Some (wr_id rev)\<rparr> in
      bindM (atomic_write_json (record_path (revocations_dir C) (wr_id rev)) (revocation_json rev)) (\<lambda>_.
      bindM (atomic_write_json (record_path (approvals_dir C) (wa_id updated)) (approval_json updated)) (\<lambda>_.
      bindM (append_scope_event E ''write_scope.revoked''
               [(''approval_id'', JStr (wa_id updated)), (''revocation_id'', JStr (wr_id rev)),
                (''revoked_by'', JStr operator), (''reason'', JStr reason_text)] (Some revoked_ts)) (\<lambda>_.
      ret (updated, rev, False))))))))"

definition revoke_approval ::
  "env \<Rightarrow> string \<Rightarrow> string \<Rightarrow> string \<Rightarrow> string \<Rightarrow> string option \<Rightarrow> int option \<Rightarrow>
   (approval \<times> revocation \<times> bool) run" where
  "revoke_approval E approval_id why revoked_by provenance revoked_at now =
     bindM (lift_res (assert_operator_provenance provenance)) (\<lambda>_.
     bindM (lift_res (assert_operator_identity revoked_by ''revoked_by'')) (\<lambda>operator.
     let reason_text = py_strip why in
     bindM (raise_if (reason_text = []) (ApprovalError R_reason_required)) (\<lambda>_.
     bindM (load_approval E approval_id now True True) (\<lambda>a.
     if wa_status a = Revoked then revoke_again E a operator reason_text
     else if approval_terminal (wa_status a)
       then throw (ApprovalError (A_terminal (approval_status_text (wa_status a))))
     else revoke_now E a operator reason_text revoked_at))))"

subsection \<open>Explicit transitions\<close>

definition transition_approval_status ::
  "env \<Rightarrow> string \<Rightarrow> string \<Rightarrow> int option \<Rightarrow> bool \<Rightarrow> approval run" where
  "transition_approval_status E approval_id to_status now allow_consumed =
     (let target = py_strip to_status; C = cfg_of E in
      case approval_status_of target of
        None \<Rightarrow> throw (ApprovalError (A_unknown_target target))
      | Some t \<Rightarrow>
          if t = Consumed \<and> \<not> allow_consumed then throw (ApprovalError A_consumed_reserved)
          else if t = Revoked then throw (ApprovalError A_use_revoke)
          else if t = Expired then
            bindM (load_approval E approval_id now True True) (\<lambda>a.
            bindM (raise_if (wa_status a \<noteq> Expired) (ApprovalError A_force_expire)) (\<lambda>_. ret a))
          else if t = Approved then throw (ApprovalError A_reactivate)
          else
            bindM (load_approval E approval_id now True True) (\<lambda>a.
            bindM (lift_res (assert_transition (Some (wa_status a)) t)) (\<lambda>_.
            let updated = a\<lparr>wa_status := t\<rparr> in
            bindM (atomic_write_json (record_path (approvals_dir C) (wa_id updated))
                     (approval_json updated)) (\<lambda>_.
            bindM (append_scope_event E ''write_scope.status_transition''
                     [(''approval_id'', JStr (wa_id updated)),
                      (''from_status'', JStr (approval_status_text (wa_status a))),
                      (''to_status'', JStr (approval_status_text t))] None) (\<lambda>_.
            ret updated)))))"

definition reject_worker_minted_approval :: "json \<Rightarrow> unit run" where
  "reject_worker_minted_approval payload = throw (ApprovalError A_worker_mint)"

subsection \<open>The record stores\<close>

lemma approval_status_of_text [simp]: "approval_status_of (approval_status_text s) = Some s"
  by (cases s) (simp_all add: approval_status_of_def)

lemma approval_status_text_of: "approval_status_of t = Some s \<Longrightarrow> t = approval_status_text s"
  by (auto simp: approval_status_of_def split: if_splits)

lemma approval_status_text_inj [simp]: "approval_status_text s = approval_status_text t \<longleftrightarrow> s = t"
  by (metis approval_status_of_text option.inject)

lemma operator_identity_Inr:
  "assert_operator_identity i f = Inr v \<Longrightarrow> v = py_strip i \<and> assert_operator_identity v g = Inr v"
  by (auto simp: assert_operator_identity_def Let_def split: if_splits)

lemma validate_body_Inr:
  "validate_approval_body j = Inr b \<Longrightarrow> frozen b \<and> validate_approval_body (body_json b) = Inr b"
  by (auto simp: validate_approval_body_def normalize_frozen frozen_normalize split: option.splits if_splits)

text \<open>What a verified approval satisfies; it is also all that verification asks.\<close>

definition approval_ok :: "cfg \<Rightarrow> approval \<Rightarrow> bool" where
  "approval_ok C a \<longleftrightarrow>
     wa_id a = compute_approval_id C (wa_proposal a) (wa_at a) (wa_by a) (wa_expires a) (wa_hash a) \<and>
     wa_hash a = compute_body_hash C (wa_body a) \<and>
     validate_approval_body (body_json (wa_body a)) = Inr (wa_body a) \<and>
     assert_operator_identity (wa_by a) ''approved_by'' = Inr (wa_by a) \<and>
     wa_proposal a \<noteq> [] \<and> wa_run a \<noteq> [] \<and> wa_at a \<noteq> [] \<and> wa_expires a \<noteq> [] \<and>
     py_strip (wa_proposal a) = wa_proposal a \<and> py_strip (wa_run a) = wa_run a \<and>
     py_strip (wa_at a) = wa_at a \<and> py_strip (wa_expires a) = wa_expires a \<and>
     source_ok (wa_source a) \<and>
     (wa_status a = Revoked \<longrightarrow> wa_revocation a \<noteq> None \<and> wa_revocation a \<noteq> Some [])"

lemma verify_approval_ok:
  assumes "verify_approval_base C j = Inr a"
  shows "approval_ok C a"
proof -
  from assms obtain r where "assert_operator_identity (str_or_empty (jget r ''approved_by'')) ''approved_by'' = Inr (wa_by a)"
    "validate_approval_body (jget r ''body'') = Inr (wa_body a)"
    by (auto simp: verify_approval_base_def Let_def bindR_Inr_iff
        split: json.splits option.splits)
  then have "assert_operator_identity (wa_by a) ''approved_by'' = Inr (wa_by a)"
    "validate_approval_body (body_json (wa_body a)) = Inr (wa_body a)"
    using operator_identity_Inr validate_body_Inr by blast+
  with assms show ?thesis
    unfolding approval_ok_def verify_approval_base_def Let_def
    by (auto simp: bindR_Inr_iff split: json.splits option.splits)
qed

lemma approval_id_clean:
  "plain_ref (compute_approval_id C p t b x h)"
  "py_strip (compute_approval_id C p t b x h) = compute_approval_id C p t b x h"
  "compute_approval_id C p t b x h \<noteq> []"
  unfolding compute_approval_id_def plain_ref_def
  by (auto intro!: short_id_clean simp: short_id_neq_Nil py_space_def short_id_clean)

lemma source_ok_strip: "source_ok s \<Longrightarrow> py_strip s = s"
  by (auto simp: source_ok_def intro!: py_strip_no_space simp: py_space_def)

lemma operator_identity_strip: "assert_operator_identity i f = Inr i \<Longrightarrow> py_strip i = i \<and> i \<noteq> []"
  by (auto simp: assert_operator_identity_def Let_def split: if_splits)

lemma status_text_strip [simp]: "py_strip (approval_status_text s) = approval_status_text s"
  by (cases s) (simp_all add: py_strip_no_space py_space_def)

lemma operator_asserted_provenance:
  "assert_operator_provenance ''operator_asserted'' = Inr ''operator_asserted''"
  by code_simp

lemma verify_approval_json:
  assumes "approval_ok C a"
  shows "verify_approval_base C (approval_json a) = Inr a"
proof -
  from assms have f: "wa_id a = compute_approval_id C (wa_proposal a) (wa_at a) (wa_by a) (wa_expires a) (wa_hash a)"
    "wa_hash a = compute_body_hash C (wa_body a)"
    "validate_approval_body (body_json (wa_body a)) = Inr (wa_body a)"
    "assert_operator_identity (wa_by a) ''approved_by'' = Inr (wa_by a)"
    "wa_proposal a \<noteq> []" "wa_run a \<noteq> []" "wa_at a \<noteq> []" "wa_expires a \<noteq> []"
    "py_strip (wa_proposal a) = wa_proposal a" "py_strip (wa_run a) = wa_run a"
    "py_strip (wa_at a) = wa_at a" "py_strip (wa_expires a) = wa_expires a" "source_ok (wa_source a)"
    "wa_status a = Revoked \<Longrightarrow> wa_revocation a \<noteq> None \<and> wa_revocation a \<noteq> Some []"
    by (auto simp: approval_ok_def)
  note id = approval_id_clean [of C "wa_proposal a" "wa_at a" "wa_by a" "wa_expires a" "wa_hash a"]
  have t: "(if v = [] then [] else v) = v" for v :: string by simp
  have "approval_status_text (wa_status a) \<noteq> []" by (cases "wa_status a") simp_all
  moreover have "wa_hash a \<noteq> []" "py_strip (wa_hash a) = wa_hash a"
    using f(2) body_hash_form(2) [of C "wa_body a"] by (auto simp del: body_hash_form)
  ultimately show ?thesis
    using f id source_ok_strip [OF f(13)] operator_identity_strip [OF f(4)]
    by (cases "wa_revocation a")
      (auto simp: verify_approval_base_def approval_json_def Let_def bindR_check is_one_def
        text_field_def opt_field_def operator_asserted_provenance)
qed

text \<open>
  What may replace a stored approval: the approval itself, or, for an approved one, the same
  grant in a terminal status. Only a revocation sets the revocation identifier.
\<close>

definition approval_follows :: "approval \<Rightarrow> approval \<Rightarrow> bool" where
  "approval_follows a b \<longleftrightarrow> b = a \<or>
     wa_status a = Approved \<and>
     (\<exists>st rev. b = a\<lparr>wa_status := st, wa_revocation := rev\<rparr> \<and> approval_terminal st \<and>
        (st \<noteq> Revoked \<longrightarrow> rev = wa_revocation a))"

lemma approval_terminal_simps [simp]:
  "approval_terminal Revoked" "approval_terminal Expired" "approval_terminal Consumed"
  "\<not> approval_terminal Approved"
  by (simp_all add: approval_terminal_def)

lemma approval_follows_terminal:
  "approval_follows a b \<Longrightarrow> approval_terminal (wa_status a) \<Longrightarrow> b = a"
  by (auto simp: approval_follows_def)

lemma approval_follows_id: "approval_follows a b \<Longrightarrow> wa_id b = wa_id a"
  by (auto simp: approval_follows_def)

lemma approval_follows_trans:
  assumes "approval_follows a b" "approval_follows b c"
  shows "approval_follows a c"
proof (cases "b = a")
  case False
  with assms(1) have "approval_terminal (wa_status b)" by (auto simp: approval_follows_def)
  with assms show ?thesis by (metis approval_follows_terminal)
qed (use assms in simp)

interpretation approvals: evolving_store verify_approval_base approval_json wa_id approvals_dir
  approval_follows "''wsa-''" "''write_scope_approval''"
proof unfold_locales
  fix C j and a :: approval
  assume v: "verify_approval_base C j = Inr a"
  then have ok: "approval_ok C a" by (rule verify_approval_ok)
  then show "verify_approval_base C (approval_json a) = Inr a" by (rule verify_approval_json)
  from ok have "wa_id a = compute_approval_id C (wa_proposal a) (wa_at a) (wa_by a) (wa_expires a) (wa_hash a)"
    by (simp add: approval_ok_def)
  then show "plain_ref (wa_id a)" "starts_with (wa_id a) ''wsa-''"
    using approval_id_clean(1) short_id_prefix by (metis, metis compute_approval_id_def)
next
  fix C kvs and a :: approval
  assume "verify_approval_base C (JObj kvs) = Inr a"
  then show "jget kvs ''kind'' = JStr ''write_scope_approval''"
    by (auto simp: verify_approval_base_def bindR_Inr_iff)
qed (auto intro: approval_follows_trans, simp add: approval_follows_def)

subsection \<open>The TTL grammar\<close>

text \<open>
  A duration is a sequence of tokens, each a positive decimal amount and a unit, the units
  strictly descending.
\<close>

definition ttl_token_ok :: "string \<times> ttl_unit \<Rightarrow> bool" where
  "ttl_token_ok tok \<longleftrightarrow> fst tok \<noteq> [] \<and> list_all is_digit (fst tok) \<and>
     length (fst tok) \<le> 4300 \<and> 0 < num_val (fst tok)"

definition ttl_text :: "(string \<times> ttl_unit) list \<Rightarrow> string" where
  "ttl_text toks = concat (map (\<lambda>(ds, u). ds @ [ttl_char u]) toks)"

definition ttl_sum :: "(string \<times> ttl_unit) list \<Rightarrow> nat" where
  "ttl_sum toks = sum_list (map (\<lambda>(ds, u). num_val ds * ttl_seconds u) toks)"

lemma ttl_token_simps [simp]:
  "ttl_text [] = []" "ttl_text ((ds, u) # toks) = ds @ ttl_char u # ttl_text toks"
  "ttl_sum [] = 0" "ttl_sum ((ds, u) # toks) = num_val ds * ttl_seconds u + ttl_sum toks"
  by (simp_all add: ttl_text_def ttl_sum_def)

lemma ttl_unit_of_char [simp]: "ttl_unit_of (ttl_char u) = Some u"
  by (cases u) (simp_all add: ttl_unit_of_def)

lemma ttl_unit_of_Some: "ttl_unit_of c = Some u \<longleftrightarrow> c = ttl_char u"
proof
  show "c = ttl_char u" if "ttl_unit_of c = Some u"
    using that by (cases u) (simp_all add: ttl_unit_of_def split: if_splits)
qed simp

lemma ttl_char_not_digit [simp]: "\<not> is_digit (ttl_char u)"
  by (cases u) (simp_all add: is_digit_def digit_chars_def)

lemma ttl_char_not_isdigit:
  assumes "ttl_char u \<in> set s"
  shows "\<not> py_isdigit s"
proof
  assume "py_isdigit s"
  with assms have "ttl_char u \<in> set [CHR 0xB2, CHR 0xB3, CHR 0xB9]"
    unfolding py_isdigit_def list_all_iff using ttl_char_not_digit [of u] by blast
  then show False by (cases u) simp_all
qed

lemma ttl_loop_sound:
  "ttl_loop v seen secs r = Inr t \<Longrightarrow> sorted_wrt (<) seen \<Longrightarrow>
   \<exists>toks. r = ttl_text toks \<and> list_all ttl_token_ok toks \<and>
     sorted_wrt (<) (seen @ map snd toks) \<and> t = secs + ttl_sum toks"
proof (induction v seen secs r rule: ttl_loop.induct)
  case (1 v seen secs r)
  show ?case
  proof (cases "r = []")
    case True
    with 1 show ?thesis by (intro exI [of _ "[]"]) (simp add: ttl_loop.simps)
  next
    case False
    define ds where "ds = takeWhile is_digit r"
    define r1 where "r1 = dropWhile is_digit r"
    from False 1(2) obtain u where u: "ttl_unit_of (hd r1) = Some u" "ds \<noteq> []" "r1 \<noteq> []"
      "length ds \<le> 4300" "num_val ds \<noteq> 0" "u \<notin> set seen" "seen = [] \<or> \<not> u \<le> last seen"
      and rec: "ttl_loop v (seen @ [u]) (secs + num_val ds * ttl_seconds u) (tl r1) = Inr t"
      by (subst (asm) ttl_loop.simps)
        (auto simp: Let_def ds_def r1_def split: if_splits)
    have lt: "\<forall>x \<in> set seen. x < u"
    proof (cases "seen = []")
      case False
      with 1(3) have "\<forall>x \<in> set seen. x \<le> last seen"
        by (cases seen rule: rev_cases) (auto simp: sorted_wrt_append)
      with u(7) False show ?thesis by fastforce
    qed simp
    with 1(3) have s: "sorted_wrt (<) (seen @ [u])" by (simp add: sorted_wrt_append)
    have "\<exists>toks. tl r1 = ttl_text toks \<and> list_all ttl_token_ok toks \<and>
        sorted_wrt (<) ((seen @ [u]) @ map snd toks) \<and>
        t = secs + num_val ds * ttl_seconds u + ttl_sum toks"
      by (rule 1(1) [OF False refl refl, unfolded ds_def[symmetric] r1_def[symmetric]])
        (use u rec s in \<open>simp_all add: ttl_loop.simps\<close>)
    then obtain toks where t: "tl r1 = ttl_text toks" "list_all ttl_token_ok toks"
      "sorted_wrt (<) ((seen @ [u]) @ map snd toks)"
      "t = secs + num_val ds * ttl_seconds u + ttl_sum toks" by blast
    have "r = ds @ ttl_char u # tl r1"
      using u(1,3) takeWhile_dropWhile_id [of is_digit r]
      by (metis ds_def r1_def list.collapse ttl_unit_of_Some)
    moreover have "ttl_token_ok (ds, u)"
      using u by (auto simp: ttl_token_ok_def ds_def list_all_iff dest: set_takeWhileD)
    ultimately show ?thesis
      using t by (intro exI [of _ "(ds, u) # toks"]) simp
  qed
qed

lemma ttl_loop_complete:
  "list_all ttl_token_ok toks \<Longrightarrow> sorted_wrt (<) (seen @ map snd toks) \<Longrightarrow>
   ttl_loop v seen secs (ttl_text toks) = Inr (secs + ttl_sum toks)"
proof (induction toks arbitrary: seen secs)
  case Nil
  then show ?case by (simp add: ttl_loop.simps)
next
  case (Cons tok toks)
  obtain ds u where tok: "tok = (ds, u)" by (cases tok)
  from Cons.prems(1) tok have ok: "ds \<noteq> []" "\<forall>c \<in> set ds. is_digit c" "length ds \<le> 4300" "0 < num_val ds"
    by (simp_all add: ttl_token_ok_def list_all_iff)
  have w: "takeWhile is_digit (ds @ ttl_char u # ttl_text toks) = ds"
    "dropWhile is_digit (ds @ ttl_char u # ttl_text toks) = ttl_char u # ttl_text toks"
    using ok(2) by (simp_all add: takeWhile_append dropWhile_append)
  from Cons.prems(2) tok have "\<forall>x \<in> set seen. x < u"
    by (simp add: sorted_wrt_append)
  then have "u \<notin> set seen" "seen = [] \<or> \<not> u \<le> last seen"
    by (cases "seen = []"; auto simp: not_le)+
  with ok Cons.prems Cons.IH [of "seen @ [u]"] show ?case
    unfolding tok by (subst ttl_loop.simps) (simp add: w Let_def add.assoc)
qed

lemma ttl_text_not_isdigit:
  assumes "toks \<noteq> []" shows "\<not> py_isdigit (ttl_text toks)"
proof -
  from assms have "ttl_char (snd (hd toks)) \<in> set (ttl_text toks)"
    by (cases toks) auto
  then show ?thesis by (rule ttl_char_not_isdigit)
qed

lemma ttl_sum_pos: "toks \<noteq> [] \<Longrightarrow> list_all ttl_token_ok toks \<Longrightarrow> 0 < ttl_sum toks"
proof (cases toks)
  case (Cons a list)
  moreover assume "list_all ttl_token_ok toks"
  moreover have "0 < ttl_seconds u" for u by (cases u) simp_all
  ultimately show ?thesis by (cases a) (simp add: ttl_token_ok_def)
qed simp

lemma parse_ttl_iff:
  "parse_ttl_duration v = Inr t \<longleftrightarrow>
     (\<exists>toks. py_lower (py_strip v) = ttl_text toks \<and> toks \<noteq> [] \<and> list_all ttl_token_ok toks \<and>
       sorted_wrt (<) (map snd toks) \<and> t = ttl_sum toks \<and> t < max_delta_seconds)"
proof
  assume "parse_ttl_duration v = Inr t"
  then have l: "ttl_loop v [] 0 (py_lower (py_strip v)) = Inr t" "py_lower (py_strip v) \<noteq> []"
    "t < max_delta_seconds"
    by (auto simp: parse_ttl_duration_def Let_def bindR_Inr_iff split: if_splits)
  with ttl_loop_sound [OF l(1)] show "\<exists>toks. py_lower (py_strip v) = ttl_text toks \<and> toks \<noteq> [] \<and>
      list_all ttl_token_ok toks \<and> sorted_wrt (<) (map snd toks) \<and> t = ttl_sum toks \<and>
      t < max_delta_seconds" by fastforce
next
  assume "\<exists>toks. py_lower (py_strip v) = ttl_text toks \<and> toks \<noteq> [] \<and>
      list_all ttl_token_ok toks \<and> sorted_wrt (<) (map snd toks) \<and> t = ttl_sum toks \<and>
      t < max_delta_seconds"
  then obtain toks where t: "py_lower (py_strip v) = ttl_text toks" "toks \<noteq> []"
    "list_all ttl_token_ok toks" "sorted_wrt (<) (map snd toks)" "t = ttl_sum toks"
    "t < max_delta_seconds" by blast
  moreover have "ttl_text toks \<noteq> []" using t(2) by (cases toks) auto
  ultimately show "parse_ttl_duration v = Inr t"
    using ttl_loop_complete [OF t(3), of "[]" v 0] ttl_sum_pos [OF t(2,3)] ttl_text_not_isdigit [OF t(2)]
    by (simp add: parse_ttl_duration_def Let_def)
qed

subsection \<open>Time stamps read back\<close>

lemma iso_z_parse:
  assumes "t < 86400 * max_ordinal"
  shows "py_fromisoformat other (butlast (iso_z t) @ ''+00:00'') = Some (int t * 1000000, Some 0)"
    and "iso_z t \<noteq> []" "py_strip (iso_z t) = iso_z t" "ends_with (iso_z t) ''Z''"
proof -
  define n where "n = t div 86400 + 1"
  define s where "s = t mod 86400"
  obtain y m d where ymd: "ord2ymd n = (y, m, d)" by (cases "ord2ymd n")
  have n: "1 \<le> n" "n \<le> max_ordinal" using assms unfolding n_def by linarith+
  note o = ord2ymd_correct [OF n(1) ymd] ord2ymd_year [OF n ymd]
  define h mi sec where "h = s div 3600" and "mi = s div 60 mod 60" and "sec = s mod 60"
  have hms: "h < 24" "mi < 60" "sec < 60" "h * 3600 + mi * 60 + sec = s"
  proof -
    have "s < 86400" by (simp add: s_def)
    then show "h < 24" "mi < 60" "sec < 60" unfolding h_def mi_def sec_def by linarith+
    have a: "s div 60 * 60 + s mod 60 = s" "s div 60 div 60 * 60 + s div 60 mod 60 = s div 60"
      by (rule div_mult_mod_eq)+
    have "s div 3600 = s div 60 div 60" using div_mult2_eq [of s 60 60] by simp
    then show "h * 3600 + mi * 60 + sec = s" unfolding h_def mi_def sec_def using a by linarith
  qed
  let ?d = "pad4 y @ ''-'' @ pad2 m @ ''-'' @ pad2 d"
  let ?c = "pad2 h @ '':'' @ pad2 mi @ '':'' @ pad2 sec"
  have z: "iso_z t = ?d @ ''T'' @ ?c @ ''Z''"
    unfolding iso_z_def Let_def n_def [symmetric] ymd s_def [symmetric] h_def mi_def sec_def by simp
  have b: "butlast (iso_z t) @ ''+00:00'' = ?d @ CHR ''T'' # ?c @ ''+00:00''"
    unfolding z by (simp add: butlast_append)
  have "int (n - 1) * 86400000000 + int ((h * 3600 + mi * 60 + sec) * 1000000) = int t * 1000000"
  proof -
    have "t = (n - 1) * 86400 + s" by (simp add: n_def s_def)
    then show ?thesis by (simp add: hms(4))
  qed
  moreover have "(?d @ CHR ''T'' # ?c @ ''+00:00'') ! 4 = CHR ''-''"
    by (simp add: nth_append)
  moreover have "(?d @ CHR ''T'' # ?c @ ''+00:00'') ! 5 \<noteq> CHR ''W''"
  proof -
    have "(?d @ CHR ''T'' # ?c @ ''+00:00'') ! 5 = digit_char (m div 10 mod 10)"
      by (simp add: nth_append pad2_def)
    then show ?thesis using digit_char_props(1) [of "m div 10 mod 10"]
      by (auto simp: is_digit_def digit_chars_def)
  qed
  ultimately show "py_fromisoformat other (butlast (iso_z t) @ ''+00:00'') = Some (int t * 1000000, Some 0)"
    using iso_date_pad [of y m d] iso_time_pad [OF hms(1-3)] o unfolding b
    by (simp add: py_fromisoformat_def Let_def)
  show "iso_z t \<noteq> []" by (simp add: z)
  show "ends_with (iso_z t) ''Z''" unfolding ends_with_iff z by (metis append_assoc)
  have "hd (iso_z t) = digit_char (y div 1000 mod 10)" by (simp add: z pad4_def)
  moreover have "last (iso_z t) = CHR ''Z''" by (simp add: z)
  ultimately show "py_strip (iso_z t) = iso_z t"
    using digit_char_props(4) [of "y div 1000 mod 10"]
    by (intro py_strip_fix) (simp_all add: z py_space_def)
qed

lemma stamp_props:
  assumes "0 \<le> t" "t < max_micros"
  shows "stamp t \<noteq> []" "py_strip (stamp t) = stamp t"
    "parse_iso_utc C (stamp t) = Inr (t div 1000000 * 1000000)"
proof -
  have lt: "nat (t div 1000000) < 86400 * max_ordinal"
    using assms by (simp add: max_micros_def max_ordinal_def nat_less_iff)
  note z = iso_z_parse(1) [OF lt, of "iso_other C"] iso_z_parse(2-4) [OF lt]
  show "stamp t \<noteq> []" "py_strip (stamp t) = stamp t" using z(2,3) by (simp_all add: stamp_def)
  have "int (nat (t div 1000000)) = t div 1000000" using assms(1) by (simp add: pos_imp_zdiv_nonneg_iff)
  moreover have "0 \<le> t div 1000000 * 1000000" "t div 1000000 * 1000000 < max_micros"
    using assms by (simp_all add: pos_imp_zdiv_nonneg_iff)
  ultimately show "parse_iso_utc C (stamp t) = Inr (t div 1000000 * 1000000)"
    using z by (simp add: parse_iso_utc_def stamp_def Let_def)
qed

subsection \<open>The revocation store\<close>

lemma verify_revocation_Inr:
  assumes "verify_revocation_record C j = Inr r"
  shows "wr_id r = compute_revocation_id C (wr_approval r)"
    "assert_operator_identity (wr_by r) ''revoked_by'' = Inr (wr_by r)"
    "py_strip (wr_approval r) = wr_approval r" "wr_approval r \<noteq> []"
    "py_strip (wr_at r) = wr_at r" "wr_at r \<noteq> []"
    "py_strip (wr_reason r) = wr_reason r" "wr_reason r \<noteq> []"
proof -
  from assms obtain f where "assert_operator_identity (str_or_empty (jget f ''revoked_by'')) ''revoked_by'' = Inr (wr_by r)"
    by (auto simp: verify_revocation_record_def Let_def bindR_Inr_iff split: json.splits)
  then show "assert_operator_identity (wr_by r) ''revoked_by'' = Inr (wr_by r)"
    using operator_identity_Inr by blast
qed (use assms in \<open>auto simp: verify_revocation_record_def Let_def bindR_Inr_iff split: json.splits\<close>)

lemma revocation_id_clean:
  "plain_ref (compute_revocation_id C a)"
  "py_strip (compute_revocation_id C a) = compute_revocation_id C a"
  "compute_revocation_id C a \<noteq> []"
  unfolding compute_revocation_id_def plain_ref_def
  by (auto intro!: short_id_clean simp: short_id_neq_Nil py_space_def short_id_clean)

lemma verify_revocation_json:
  assumes "wr_id r = compute_revocation_id C (wr_approval r)"
    "assert_operator_identity (wr_by r) ''revoked_by'' = Inr (wr_by r)"
    "py_strip (wr_approval r) = wr_approval r" "wr_approval r \<noteq> []"
    "py_strip (wr_at r) = wr_at r" "wr_at r \<noteq> []"
    "py_strip (wr_reason r) = wr_reason r" "wr_reason r \<noteq> []"
  shows "verify_revocation_record C (revocation_json r) = Inr r"
  using assms revocation_id_clean [of C "wr_approval r"] operator_identity_strip [OF assms(2)]
  by (simp add: verify_revocation_record_def revocation_json_def Let_def bindR_check is_one_def
      text_field_def operator_asserted_provenance)

interpretation revocations: evolving_store verify_revocation_record revocation_json wr_id
  revocations_dir "\<lambda>r s. wr_id s = wr_id r" "''wsr-''" "''write_scope_revocation''"
proof unfold_locales
  fix C j and r :: revocation
  assume v: "verify_revocation_record C j = Inr r"
  show "verify_revocation_record C (revocation_json r) = Inr r"
    using verify_revocation_Inr [OF v] by (intro verify_revocation_json)
  show "plain_ref (wr_id r)" "starts_with (wr_id r) ''wsr-''"
    using verify_revocation_Inr(1) [OF v] revocation_id_clean(1) short_id_prefix
    by (metis, metis compute_revocation_id_def)
next
  fix C kvs and r :: revocation
  assume "verify_revocation_record C (JObj kvs) = Inr r"
  then show "jget kvs ''kind'' = JStr ''write_scope_revocation''"
    by (auto simp: verify_revocation_record_def bindR_Inr_iff)
qed auto

end
