(* ===== verification/Approval_Laws.thy ===== *)
theory Approval_Laws
  imports Approvals
begin

section \<open>Laws of the approval operations\<close>

text \<open>
  Every operation of \<open>write_scope_approvals.py\<close> evolves the approval store: a stored grant
  is never changed but in its status, a terminal status stays, and only granting adds an
  approval. The last part states what granting and revoking write.
\<close>

abbreviation approval_at :: "cfg \<Rightarrow> world \<Rightarrow> path \<Rightarrow> approval option" where
  "approval_at C w p \<equiv> stored verify_approval_base C w p"

abbreviation approvals_placed :: "cfg \<Rightarrow> world \<Rightarrow> bool" where
  "approvals_placed C w \<equiv> in_place verify_approval_base wa_id approvals_dir C w"

abbreviation approvals_evolve :: "bool \<Rightarrow> cfg \<Rightarrow> world \<Rightarrow> world \<Rightarrow> bool" where
  "approvals_evolve \<equiv> evolves verify_approval_base wa_id approvals_dir approval_follows"

abbreviation approval_path :: "cfg \<Rightarrow> string \<Rightarrow> path" where
  "approval_path C i \<equiv> approvals_dir C @ [i @ ''.json'']"

subsection \<open>Loading\<close>

lemma load_approval_Inr:
  "load_approval E ref now ttl persist w = (Inr a, w') \<longleftrightarrow>
     py_strip ref \<noteq> [] \<and>
     (\<exists>a0. approval_at (cfg_of E) w (record_path (approvals_dir (cfg_of E)) (py_strip ref)) = Some a0 \<and>
        (if ttl then evaluate_expiry E now persist a0 w = (Inr a, w') else a = a0 \<and> w' = w))"
  by (auto simp: load_approval_def verify_approval_record_def Let_def read_json_def op_simps stored_def
      split: if_splits option.splits rec_file.splits sum.splits)

lemma load_approval_Inl:
  "load_approval E ref now ttl persist w = (Inl e, w') \<Longrightarrow>
     w' = w \<or>
     (\<exists>a0. approval_at (cfg_of E) w (record_path (approvals_dir (cfg_of E)) (py_strip ref)) = Some a0 \<and>
        evaluate_expiry E now persist a0 w = (Inl e, w'))"
  by (auto simp: load_approval_def verify_approval_record_def Let_def read_json_def op_simps stored_def
      split: if_splits option.splits rec_file.splits sum.splits)

text \<open>The three ways out of lazy expiry.\<close>

lemma evaluate_expiry_cases:
  assumes "evaluate_expiry E now persist a w = (r, w')"
  obtains (final) "wa_status a \<noteq> Approved" "r = Inr a" "w' = w"
    | (live) t x where "wa_status a = Approved" "parse_iso_utc (cfg_of E) (wa_expires a) = Inr x"
        "given_or_now E now w = (Inr t, w')" "t < x" "r = Inr a"
    | (fault) e where "r = Inl e" "same_files w w'"
    | (lapsed) t x where "wa_status a = Approved" "parse_iso_utc (cfg_of E) (wa_expires a) = Inr x"
        "x \<le> t" "now = None \<or> now = Some t"
        "r = Inr (a\<lparr>wa_status := Expired\<rparr>)"
        "same_files (if persist
           then write_file (record_path (approvals_dir (cfg_of E)) (wa_id a))
                  (approval_json (a\<lparr>wa_status := Expired\<rparr>)) w
           else w) w'"
proof (cases "wa_status a = Approved")
  case False
  with assms show thesis by (intro final) (auto simp: evaluate_expiry_def ret_iff)
next
  case st: True
  show thesis
  proof (cases "parse_iso_utc (cfg_of E) (wa_expires a)")
    case (Inl e)
    with assms st show thesis
      by (intro fault [of e]) (auto simp: evaluate_expiry_def Let_def throw_def same_files_def)
  next
    case (Inr x)
    obtain t w1 where t: "given_or_now E now w = (Inr t, w1)" "now = None \<or> now = Some t"
      by (cases now) (auto simp: given_or_now_def now_utc_def ret_def)
    have q: "same_files w w1" using quiet_given_or_now t(1) by (rule keepsD)
    show thesis
    proof (cases "t < x")
      case True
      with assms st Inr t show thesis
        by (intro live [of x t]) (auto simp: evaluate_expiry_def Let_def bindM_def lift_res_def ret_def)
    next
      case False
      let ?u = "a\<lparr>wa_status := Expired\<rparr>"
      let ?p = "record_path (approvals_dir (cfg_of E)) (wa_id a)"
      have tr: "assert_transition (Some Approved) Expired = Inr ()" by code_simp
      show thesis
      proof (cases persist)
        case p: False
        with assms st Inr t False tr have "r = Inr ?u" "w' = w1"
          by (auto simp: evaluate_expiry_def Let_def bindM_def lift_res_def ret_def)
        with st Inr False t q p show thesis by (intro lapsed [of x t]) auto
      next
        case True
        with assms st Inr t False tr
        have run: "bindM (case now of None \<Rightarrow> utc_now_iso E | Some _ \<Rightarrow> ret (stamp t)) (\<lambda>at.
            bindM (append_scope_event E ''write_scope.expired''
                     [(''approval_id'', JStr (wa_id a)), (''proposal_id'', JStr (wa_proposal a)),
                      (''expires_at'', JStr (wa_expires a))] (Some at)) (\<lambda>_. ret ?u))
            (write_file ?p (approval_json ?u) w1) = (r, w')"
          by (auto simp: evaluate_expiry_def Let_def bindM_def lift_res_def atomic_write_json_def writes_def
              cong: option.case_cong)
        then have "same_files (write_file ?p (approval_json ?u) w1) w'"
          by (rule keepsD [rotated]) (auto intro!: quiet_rules split: option.splits)
        then have "same_files (write_file ?p (approval_json ?u) w) w'"
          using same_files_write [OF q] by (rule quiet.order_trans [rotated])
        moreover from run have "r = Inr ?u"
          by (cases r) (auto simp: op_simps append_scope_event_def Let_def utc_now_iso_def now_utc_def
              text_or_now_def split: option.splits if_splits)
        ultimately show thesis using st Inr False t True by (intro lapsed [of x t]) auto
      qed
    qed
  qed
qed

lemma expired_ok: "approval_ok C a \<Longrightarrow> approval_ok C (a\<lparr>wa_status := Expired\<rparr>)"
  by (simp add: approval_ok_def)

lemma consumed_ok: "approval_ok C a \<Longrightarrow> approval_ok C (a\<lparr>wa_status := Consumed\<rparr>)"
  by (simp add: approval_ok_def)

lemma follows_terminal:
  assumes "wa_status a = Approved"
  shows "approval_follows a (a\<lparr>wa_status := Expired\<rparr>)" "approval_follows a (a\<lparr>wa_status := Consumed\<rparr>)"
    "approval_follows a (a\<lparr>wa_status := Revoked, wa_revocation := v\<rparr>)"
  unfolding approval_follows_def using assms
  by (intro disjI2 conjI exI [of _ Expired] exI [of _ Consumed] exI [of _ Revoked]
      exI [of _ "wa_revocation a"] exI [of _ v]; simp)+

lemma revoked_ok:
  "approval_ok C a \<Longrightarrow> rid \<noteq> [] \<Longrightarrow> approval_ok C (a\<lparr>wa_status := Revoked, wa_revocation := Some rid\<rparr>)"
  by (simp add: approval_ok_def)

lemma approval_at_ok: "approval_at C w p = Some a \<Longrightarrow> approval_ok C a"
  by (auto dest!: approvals.stored_verified verify_approval_ok)

lemma approval_at_plain:
  "approval_at C w p = Some a \<Longrightarrow> record_path (approvals_dir C) (wa_id a) = approval_path C (wa_id a)"
  by (simp add: approvals.stored_plain)

text \<open>A stored approval is replaced by one that follows it.\<close>

lemma replace_approval:
  assumes "approvals_placed C w" "approval_at C w p = Some a" "approval_follows a b" "approval_ok C b"
  shows "approvals_evolve mint C w (write_file (record_path (approvals_dir C) (wa_id a)) (approval_json b) w)"
    and "approval_at C (write_file (record_path (approvals_dir C) (wa_id a)) (approval_json b) w)
           (approval_path C (wa_id a)) = Some b"
    and "p = approval_path C (wa_id a)"
proof -
  from assms(1,2) show p: "p = approval_path C (wa_id a)" by (rule approvals.stored_name)
  note v = verify_approval_json [OF assms(4)]
  from v show "approval_at C (write_file (record_path (approvals_dir C) (wa_id a)) (approval_json b) w)
      (approval_path C (wa_id a)) = Some b"
    by (simp add: approval_at_plain [OF assms(2)] stored_write)
  show "approvals_evolve mint C w (write_file (record_path (approvals_dir C) (wa_id a)) (approval_json b) w)"
    unfolding approval_at_plain [OF assms(2)]
    using assms v p approval_follows_id [OF assms(3)] by (intro approvals.evolve_put) auto
qed

lemma expiry_evolves:
  assumes run: "evaluate_expiry E now persist a w = (r, w')"
    and pl: "approvals_placed (cfg_of E) w" and at: "approval_at (cfg_of E) w p = Some a"
  shows "approvals_evolve mint (cfg_of E) w w'"
    and "r = Inr b \<Longrightarrow> approval_follows a b"
    and "r = Inr b \<Longrightarrow> persist \<Longrightarrow> approval_at (cfg_of E) w' p = Some b"
proof -
  note f = follows_terminal(1) [of a]
  note rep = replace_approval [OF pl at f expired_ok [OF approval_at_ok [OF at]]]
  from run show "approvals_evolve mint (cfg_of E) w w'"
  proof (cases rule: evaluate_expiry_cases)
    case lapsed
    then show ?thesis
      using rep(1) by (auto intro: approvals.evolve_trans approvals.evolve_quiet split: if_splits)
  qed (auto intro: approvals.evolve_refl approvals.evolve_quiet keepsD [OF quiet_given_or_now])
  from run show "r = Inr b \<Longrightarrow> approval_follows a b"
    by (cases rule: evaluate_expiry_cases) (auto simp: f approvals.follows_refl)
  from run show "r = Inr b \<Longrightarrow> persist \<Longrightarrow> approval_at (cfg_of E) w' p = Some b"
  proof (cases rule: evaluate_expiry_cases)
    case lapsed
    then show "r = Inr b \<Longrightarrow> persist \<Longrightarrow> approval_at (cfg_of E) w' p = Some b"
      using rep(2,3) by (auto simp: same_files_stored)
  qed (use at in \<open>auto simp: same_files_stored dest: keepsD [OF quiet_given_or_now]\<close>)
qed

lemma evolve_load_approval:
  "keeps (approvals_evolve mint (cfg_of E)) (load_approval E ref now ttl persist)"
proof (rule keepsI)
  fix w r w'
  assume run: "load_approval E ref now ttl persist w = (r, w')"
  show "approvals_evolve mint (cfg_of E) w w'"
  proof (cases "approvals_placed (cfg_of E) w")
    case True
    show ?thesis
    proof (cases r)
      case (Inl e)
      from load_approval_Inl [OF run [unfolded Inl]] True show ?thesis
        by (auto intro: approvals.evolve_refl expiry_evolves(1))
    next
      case (Inr a)
      from run [unfolded Inr load_approval_Inr] True show ?thesis
        by (auto intro: approvals.evolve_refl expiry_evolves(1) split: if_splits)
    qed
  qed (simp add: evolves_def)
qed

text \<open>What a load with expiry returns is what the store holds then.\<close>

lemma load_approval_stored:
  assumes "load_approval E ref now True True w = (Inr a, w')" "approvals_placed (cfg_of E) w"
  shows "approval_at (cfg_of E) w' (approval_path (cfg_of E) (wa_id a)) = Some a"
    and "approvals_placed (cfg_of E) w'" "approval_ok (cfg_of E) a"
    and "record_path (approvals_dir (cfg_of E)) (wa_id a) = approval_path (cfg_of E) (wa_id a)"
    and "\<exists>a0. approval_at (cfg_of E) w (approval_path (cfg_of E) (wa_id a)) = Some a0 \<and> approval_follows a0 a"
    and "record_path (approvals_dir (cfg_of E)) (py_strip ref) = approval_path (cfg_of E) (wa_id a)"
proof -
  from assms(1) obtain a0 where a0: "approval_at (cfg_of E) w (record_path (approvals_dir (cfg_of E)) (py_strip ref)) = Some a0"
    and ev: "evaluate_expiry E now True a0 w = (Inr a, w')"
    by (auto simp: load_approval_Inr)
  have p: "record_path (approvals_dir (cfg_of E)) (py_strip ref) = approval_path (cfg_of E) (wa_id a0)"
    using assms(2) a0 by (rule approvals.stored_name)
  have f: "approval_follows a0 a" using expiry_evolves(2) [OF ev assms(2) a0] by simp
  have "wa_id a0 = wa_id a" using approval_follows_id [OF f] by simp
  with p show "record_path (approvals_dir (cfg_of E)) (py_strip ref) = approval_path (cfg_of E) (wa_id a)"
    by simp
  with a0 p f show "\<exists>a0. approval_at (cfg_of E) w (approval_path (cfg_of E) (wa_id a)) = Some a0 \<and> approval_follows a0 a"
    by auto
  show at: "approval_at (cfg_of E) w' (approval_path (cfg_of E) (wa_id a)) = Some a"
    using expiry_evolves(3) [OF ev assms(2) a0, of a] p \<open>wa_id a0 = wa_id a\<close> by simp
  then show "approval_ok (cfg_of E) a" by (rule approval_at_ok)
  from at show "record_path (approvals_dir (cfg_of E)) (wa_id a) = approval_path (cfg_of E) (wa_id a)"
    by (rule approval_at_plain)
  show "approvals_placed (cfg_of E) w'"
    using expiry_evolves(1) [OF ev assms(2) a0] assms(2) by (rule approvals.evolve_in_place)
qed

lemma evolve_list_approvals:
  "keeps (approvals_evolve mint (cfg_of E)) (list_approvals E run_id status pid now)"
  unfolding list_approvals_def list_approval_def
  by (auto intro!: approvals.evo.keeps_rules approvals.evo.keeps_catch evolve_load_approval
      split: if_splits)

text \<open>Approval operations write approvals and revocations, nothing else.\<close>

abbreviation grant_kinds :: "(string \<times> string) list" where
  "grant_kinds \<equiv> [(''wsa-'', ''write_scope_approval''), (''wsr-'', ''write_scope_revocation'')]"

lemma writes_approval:
  "approval_ok C a \<Longrightarrow>
   writes_only grant_kinds w (write_file (record_path (approvals_dir C) (wa_id a)) (approval_json a) w)"
proof -
  assume "approval_ok C a"
  then have v: "verify_approval_base C (approval_json a) = Inr a" by (rule verify_approval_json)
  have "starts_with (last (record_path (approvals_dir C) (wa_id a))) ''wsa-''"
    using approvals.id_prefix [OF v] by (auto simp: approvals.record_path_id [OF v] starts_with_iff)
  then show ?thesis
    unfolding approval_json_def by (intro writes_only_put) auto
qed

lemma writes_revocation:
  assumes "verify_revocation_record C j = Inr r"
  shows "writes_only [(''wsr-'', ''write_scope_revocation'')] w
    (write_file (record_path (revocations_dir C) (wr_id r)) (revocation_json r) w)"
proof -
  have "starts_with (last (record_path (revocations_dir C) (wr_id r))) ''wsr-''"
    using revocations.id_prefix [OF assms]
    by (auto simp: revocations.record_path_id [OF assms] starts_with_iff)
  then show ?thesis
    unfolding revocation_json_def by (intro writes_only_put) auto
qed

lemma writes_only_mono: "writes_only ks w w' \<Longrightarrow> set ks \<subseteq> set ls \<Longrightarrow> writes_only ls w w'"
  unfolding writes_only_def by (meson subsetD)

lemma load_approval_ok:
  assumes "load_approval E ref now ttl persist w = (Inr a, w')"
  shows "approval_ok (cfg_of E) a"
proof -
  from assms obtain a0 where "approval_ok (cfg_of E) a0"
    and "a = a0 \<or> evaluate_expiry E now persist a0 w = (Inr a, w')"
    by (auto simp: load_approval_Inr dest: approval_at_ok split: if_splits)
  then show ?thesis by (auto elim!: evaluate_expiry_cases intro: expired_ok)
qed

lemma writes_evaluate_expiry:
  assumes "evaluate_expiry E now persist a w = (r, w')" "approval_ok (cfg_of E) a"
  shows "writes_only grant_kinds w w'"
  using assms(1)
proof (cases rule: evaluate_expiry_cases)
  case lapsed
  then show ?thesis
    using writes_approval [OF expired_ok [OF assms(2)], of w]
    by (auto intro: wo.order_trans writes_only_quiet split: if_splits)
qed (auto intro: wo.order_refl writes_only_quiet keepsD [OF quiet_given_or_now])

lemma writes_load_approval: "keeps (writes_only grant_kinds) (load_approval E ref now ttl persist)"
proof (rule keepsI)
  fix w r w'
  assume run: "load_approval E ref now ttl persist w = (r, w')"
  show "writes_only grant_kinds w w'"
  proof (cases r)
    case (Inl e)
    from load_approval_Inl [OF run [unfolded Inl]] show ?thesis
      by (auto intro: wo.order_refl writes_evaluate_expiry approval_at_ok)
  next
    case (Inr a)
    from run [unfolded Inr load_approval_Inr] show ?thesis
      by (auto intro: wo.order_refl writes_evaluate_expiry approval_at_ok split: if_splits)
  qed
qed

subsection \<open>Saving and granting\<close>

text \<open>A save that returns found the same grant or wrote a new approved one.\<close>

lemma save_approval_Inr:
  assumes "save_approval E j emit w = (Inr a, w')"
  obtains (fresh) "verify_approval_base (cfg_of E) j = Inr a" "wa_status a = Approved"
      "file_at w (approval_path (cfg_of E) (wa_id a)) = None"
      "same_files (write_file (approval_path (cfg_of E) (wa_id a)) (approval_json a) w) w'"
    | (known) v where "verify_approval_base (cfg_of E) j = Inr v" "w' = w"
      "approval_at (cfg_of E) w (approval_path (cfg_of E) (wa_id v)) = Some a"
      "wa_proposal a = wa_proposal v" "wa_hash a = wa_hash v" "wa_at a = wa_at v"
      "wa_expires a = wa_expires v" "wa_by a = wa_by v"
proof -
  from assms obtain v where v: "verify_approval_base (cfg_of E) j = Inr v" "wa_status v = Approved"
    by (auto simp: save_approval_def verify_approval_record_def Let_def op_simps split: if_splits)
  note p = approvals.record_path_id [OF v(1)] approvals.plain_id [OF v(1)]
  have id: "py_strip (wa_id v) = wa_id v"
    using verify_approval_ok [OF v(1)] by (simp add: approval_ok_def approval_id_clean)
  show thesis
  proof (cases "file_at w (approval_path (cfg_of E) (wa_id v))")
    case None
    with assms v p have "a = v" and run: "keeps same_files
        (if emit then append_scope_event E ''write_scope.approved''
                   [(''approval_id'', JStr (wa_id v)), (''proposal_id'', JStr (wa_proposal v)),
                    (''approved_by'', JStr (wa_by v)), (''expires_at'', JStr (wa_expires v)),
                    (''body_hash'', JStr (wa_hash v))] (Some (wa_at v)) else ret JNull) \<Longrightarrow>
       same_files (write_file (approval_path (cfg_of E) (wa_id v)) (approval_json v) w) w'"
      by (auto simp: save_approval_def verify_approval_record_def Let_def op_simps atomic_write_json_def
          dest: keepsD split: if_splits)
    have "same_files (write_file (approval_path (cfg_of E) (wa_id v)) (approval_json v) w) w'"
      by (rule run) (auto intro: quiet_rules)
    with None v \<open>a = v\<close> show thesis by (intro fresh) auto
  next
    case (Some f)
    with assms v p id show thesis
      by (intro known [of v])
        (auto simp: save_approval_def verify_approval_record_def Let_def op_simps load_approval_Inr
          split: if_splits)
  qed
qed

lemma save_approval_Inl:
  assumes "save_approval E j emit w = (Inl e, w')"
  shows "w' = w"
proof -
  have "append_scope_event E ty pl at w1 \<noteq> (Inl e, w2)" for ty pl at w1 w2
    by (auto simp: op_simps append_scope_event_def Let_def utc_now_iso_def now_utc_def
        text_or_now_def split: option.splits if_splits)
  with assms show ?thesis
    by (auto simp: save_approval_def verify_approval_record_def Let_def op_simps atomic_write_json_def
        dest: load_approval_Inl split: if_splits)
      (auto simp: load_approval_def Let_def op_simps verify_approval_record_def read_json_def
        split: if_splits option.splits rec_file.splits)
qed

lemma save_approval_effect:
  assumes run: "save_approval E j emit w = (r, w')"
  shows "approvals_evolve True (cfg_of E) w w'" and "writes_only grant_kinds w w'"
proof -
  have "approvals_evolve True (cfg_of E) w w' \<and> writes_only grant_kinds w w'"
  proof (cases r)
    case (Inl e)
    with save_approval_Inl run have "w' = w" by blast
    then show ?thesis by (auto intro: approvals.evolve_refl wo.order_refl)
  next
    case (Inr a)
    from run [unfolded Inr] show ?thesis
    proof (cases rule: save_approval_Inr)
      case fresh
      have v: "verify_approval_base (cfg_of E) (approval_json a) = Inr a"
        using fresh(1) by (rule approvals.reverify)
      have "approvals_evolve True (cfg_of E) w
          (write_file (approval_path (cfg_of E) (wa_id a)) (approval_json a) w)"
        using fresh(3) v by (intro approvals.evolve_put) (auto simp: stored_def)
      moreover have "writes_only grant_kinds w
          (write_file (approval_path (cfg_of E) (wa_id a)) (approval_json a) w)"
        using writes_approval [OF verify_approval_ok [OF v]] by (simp add: approvals.record_path_id [OF v])
      ultimately show ?thesis using fresh(4)
        by (blast intro: approvals.evolve_trans approvals.evolve_quiet wo.order_trans writes_only_quiet)
    qed (auto intro: approvals.evolve_refl wo.order_refl)
  qed
  then show "approvals_evolve True (cfg_of E) w w'" "writes_only grant_kinds w w'" by auto
qed

lemma quiet_load_proposal: "keeps same_files (load_proposal E pid)"
  by (rule keepsI) (auto dest: load_proposal_run simp: same_files_def)

lemma quiet_build_approval: "keeps same_files (build_approval_record E p b x at src prov)"
  unfolding build_approval_record_def Let_def by (intro quiet_rules)

lemma approve_proposal_effect:
  assumes E: "C = cfg_of E"
  shows "keeps (approvals_evolve True C) (approve_proposal E pid ttl who src prov at now)"
    and "keeps (writes_only grant_kinds) (approve_proposal E pid ttl who src prov at now)"
proof -
  have q: "keeps same_files (catchM (load_proposal E pid)
     (\<lambda>e. if is_proposal_error e then Some (throw (ApprovalError (A_text (exn_text e)))) else None))"
    by (rule quiet.keeps_catch [OF quiet_load_proposal]) (auto intro: quiet_rules split: if_splits)
  have s: "keeps (approvals_evolve True C) (save_approval E j True)"
    "keeps (writes_only grant_kinds) (save_approval E j True)" for j
    using save_approval_effect by (auto intro!: keepsI simp: E)
  show "keeps (approvals_evolve True C) (approve_proposal E pid ttl who src prov at now)"
    unfolding approve_proposal_def Let_def
    by (intro approvals.evo.keeps_rules s approvals.keeps_quiet [OF q]
        approvals.keeps_quiet [OF quiet_given_or_now] approvals.keeps_quiet [OF quiet_build_approval])
  show "keeps (writes_only grant_kinds) (approve_proposal E pid ttl who src prov at now)"
    unfolding approve_proposal_def Let_def
    by (intro wo.keeps_rules s keeps_writes_only_quiet [OF q]
        keeps_writes_only_quiet [OF quiet_given_or_now] keeps_writes_only_quiet [OF quiet_build_approval])
qed

subsection \<open>Revoking\<close>

lemma event_returns: "append_scope_event E ty pl at w \<noteq> (Inl e, w')"
  by (auto simp: op_simps append_scope_event_def Let_def utc_now_iso_def now_utc_def
      text_or_now_def split: option.splits if_splits)

lemma quiet_load_revocation: "keeps same_files (load_revocation E i)"
  unfolding load_revocation_def Let_def by (intro quiet_rules)

lemma quiet_revoke_again: "keeps same_files (revoke_again E a o' t)"
  unfolding revoke_again_def by (intro quiet_rules quiet_load_revocation)

text \<open>A revocation raises before it writes, finds the approval revoked, or writes both records.\<close>

lemma revoke_approval_cases:
  assumes run: "revoke_approval E ref why who prov at now w = (r, w')"
  obtains (fault) e where "r = Inl e" "w' = w"
    | (fault_load) e where "r = Inl e" "load_approval E ref now True True w = (Inl e, w')"
    | (fault_late) e a w1 where "r = Inl e" "load_approval E ref now True True w = (Inr a, w1)"
        "same_files w1 w'"
    | (again) a w1 v where "load_approval E ref now True True w = (Inr a, w1)" "wa_status a = Revoked"
        "revoke_again E a (py_strip who) (py_strip why) w1 = (Inr v, w')" "r = Inr v"
    | (revoked) a w1 rev where "load_approval E ref now True True w = (Inr a, w1)" "wa_status a = Approved"
        "verify_revocation_record (cfg_of E) (revocation_json rev) = Inr rev"
        "wr_id rev = compute_revocation_id (cfg_of E) (wa_id a)" "wr_approval rev = wa_id a"
        "wr_reason rev = py_strip why" "wr_by rev = py_strip who"
        "r = Inr (a\<lparr>wa_status := Revoked, wa_revocation := Some (wr_id rev)\<rparr>, rev, False)"
        "same_files
           (write_file (record_path (approvals_dir (cfg_of E)) (wa_id a))
              (approval_json (a\<lparr>wa_status := Revoked, wa_revocation := Some (wr_id rev)\<rparr>))
              (write_file (record_path (revocations_dir (cfg_of E)) (wr_id rev)) (revocation_json rev) w1)) w'"
proof -
  let ?C = "cfg_of E"
  let ?reason = "py_strip why"
  show thesis
  proof (cases "\<exists>e. r = Inl e \<and> w' = w")
    case True
    then show thesis using fault by blast
  next
    case nf: False
    from run nf obtain operator where
      op: "assert_operator_identity who ''revoked_by'' = Inr operator" and
      l: "bindM (load_approval E ref now True True) (\<lambda>a.
        if wa_status a = Revoked then revoke_again E a operator ?reason
        else if approval_terminal (wa_status a)
          then throw (ApprovalError (A_terminal (approval_status_text (wa_status a))))
        else revoke_now E a operator ?reason at) w = (r, w')"
      unfolding revoke_approval_def Let_def
      by (cases "assert_operator_provenance prov"; cases "assert_operator_identity who ''revoked_by''";
          cases "?reason = []") (auto simp: throw_def)
    from op have who: "operator = py_strip who" using operator_identity_Inr by blast
    show thesis
    proof (cases "load_approval E ref now True True w")
      case (Pair r1 w1)
      show thesis
      proof (cases r1)
        case (Inl e)
        with l Pair show thesis by (intro fault_load [of e]) (auto simp: bindM_def)
      next
        case (Inr a)
        with l Pair have l1: "(if wa_status a = Revoked then revoke_again E a operator ?reason
          else if approval_terminal (wa_status a)
            then throw (ApprovalError (A_terminal (approval_status_text (wa_status a))))
          else revoke_now E a operator ?reason at) w1 = (r, w')" by (simp add: bindM_def)
        note ld = Pair [unfolded Inr]
        show thesis
        proof (cases "wa_status a")
          case Approved
          with l1 have rst: "revoke_now E a operator ?reason at w1 = (r, w')" by simp
          show thesis
          proof (cases r)
            case (Inl e)
            with rst have "same_files w1 w'"
              by (auto simp: revoke_now_def Let_def op_simps event_returns atomic_write_json_def same_files_def
                  dest!: keepsD [OF quiet_text_or_now])
            with Inl ld show thesis by (intro fault_late)
          next
            case (Inr v)
            from rst [unfolded revoke_now_def Let_def Inr] obtain ts w2 rev where
              t: "text_or_now E at w1 = (Inr ts, w2)" and
              rev: "verify_revocation_record ?C (revocation_json
                 \<lparr>wr_id = compute_revocation_id ?C (wa_id a), wr_approval = wa_id a,
                  wr_by = operator, wr_at = ts, wr_reason = ?reason\<rparr>) = Inr rev" and
              v: "v = (a\<lparr>wa_status := Revoked, wa_revocation := Some (wr_id rev)\<rparr>, rev, False)" and
              w': "same_files (write_file (record_path (approvals_dir ?C) (wa_id a))
                (approval_json (a\<lparr>wa_status := Revoked, wa_revocation := Some (wr_id rev)\<rparr>))
                (write_file (record_path (revocations_dir ?C) (wr_id rev)) (revocation_json rev) w2)) w'"
              by (auto simp: op_simps atomic_write_json_def dest!: keepsD [OF quiet_event])
            have "same_files w1 w2" using quiet_text_or_now t by (rule keepsD)
            then have "same_files (write_file (record_path (approvals_dir ?C) (wa_id a))
                (approval_json (a\<lparr>wa_status := Revoked, wa_revocation := Some (wr_id rev)\<rparr>))
                (write_file (record_path (revocations_dir ?C) (wr_id rev)) (revocation_json rev) w1)) w'"
              by (intro quiet.order_trans [OF same_files_write [OF same_files_write] w'])
            moreover have "py_strip (wa_id a) = wa_id a"
              using load_approval_ok [OF ld] by (simp add: approval_ok_def approval_id_clean)
            then have "wr_id rev = compute_revocation_id ?C (wa_id a)" "wr_approval rev = wa_id a"
              "wr_reason rev = ?reason" "wr_by rev = py_strip who"
              using rev operator_identity_strip [OF operator_identity_Inr [OF op, THEN conjunct2, of "''x''"]]
              by (auto simp: verify_revocation_record_def revocation_json_def Let_def bindR_Inr_iff
                  text_field_def assert_operator_identity_def who split: if_splits)
            ultimately show thesis
              using ld Approved revocations.reverify [OF rev] v Inr by (intro revoked) auto
          qed
        next
          case Revoked
          with l1 have ag: "revoke_again E a (py_strip who) ?reason w1 = (r, w')" by (simp add: who)
          show thesis
          proof (cases r)
            case (Inl e)
            with ag ld show thesis by (intro fault_late keepsD [OF quiet_revoke_again]) auto
          next
            case (Inr v)
            with ag ld Revoked show thesis by (intro again) auto
          qed
        qed (use l1 ld in \<open>auto simp: throw_def same_files_def intro!: fault_late\<close>)
      qed
    qed
  qed
qed

lemma revocation_id_nonempty: "verify_revocation_record C j = Inr r \<Longrightarrow> wr_id r \<noteq> []"
  using verify_revocation_Inr(1) revocation_id_clean(3) by metis

lemma writes_revoke_approval:
  "keeps (writes_only grant_kinds) (revoke_approval E ref why who prov at now)"
proof (rule keepsI)
  fix w r w'
  assume "revoke_approval E ref why who prov at now w = (r, w')"
  then show "writes_only grant_kinds w w'"
  proof (cases rule: revoke_approval_cases)
    case (again a w1 v)
    then show ?thesis
      by (blast intro: wo.order_trans keepsD [OF writes_load_approval]
          writes_only_quiet keepsD [OF quiet_revoke_again])
  next
    case (revoked a w1 rev)
    let ?w2 = "write_file (record_path (revocations_dir (cfg_of E)) (wr_id rev)) (revocation_json rev) w1"
    have "writes_only grant_kinds w w1" using writes_load_approval revoked(1) by (rule keepsD)
    moreover have "writes_only grant_kinds w1 ?w2"
      by (rule writes_only_mono [OF writes_revocation [OF revoked(3)]]) simp
    moreover have "writes_only grant_kinds ?w2 w'"
      using writes_approval [OF revoked_ok [OF load_approval_ok [OF revoked(1)] revocation_id_nonempty [OF revoked(3)]], of ?w2]
        revoked(9) by (auto intro: wo.order_trans writes_only_quiet)
    ultimately show ?thesis by (blast intro: wo.order_trans)
  qed (blast intro: wo.order_refl wo.order_trans writes_only_quiet keepsD [OF writes_load_approval])+
qed

lemma evolve_by_other:
  "writes_only [(''wsr-'', ''write_scope_revocation'')] w w' \<Longrightarrow> approvals_evolve mint C w w'"
  by (rule approvals.evolve_other_kinds) (auto simp: apart_def)

lemma revoke_effect:
  assumes ld: "load_approval E ref now True True w = (Inr a, w1)"
    and pl: "approvals_placed (cfg_of E) w" and st: "wa_status a = Approved"
    and rv: "verify_revocation_record (cfg_of E) (revocation_json rv) = Inr rv"
  defines "b \<equiv> a\<lparr>wa_status := Revoked, wa_revocation := Some (wr_id rv)\<rparr>"
  defines "w2 \<equiv> write_file (record_path (revocations_dir (cfg_of E)) (wr_id rv)) (revocation_json rv) w1"
  defines "w3 \<equiv> write_file (record_path (approvals_dir (cfg_of E)) (wa_id a)) (approval_json b) w2"
  shows "approvals_evolve mint (cfg_of E) w w3"
    and "approval_at (cfg_of E) w3 (approval_path (cfg_of E) (wa_id a)) = Some b"
    and "stored verify_revocation_record (cfg_of E) w3
           (revocations_dir (cfg_of E) @ [wr_id rv @ ''.json'']) = Some rv"
proof -
  note l = load_approval_stored [OF ld pl]
  have e1: "approvals_evolve mint (cfg_of E) w w1" using evolve_load_approval ld by (rule keepsD)
  have e2: "approvals_evolve mint (cfg_of E) w1 w2" for mint
    unfolding w2_def by (rule evolve_by_other [OF writes_revocation [OF rv]])
  have nr: "approval_path (cfg_of E) (wa_id a) \<noteq> revocations_dir (cfg_of E) @ [wr_id rv @ ''.json'']"
    using approvals.id_prefix [OF verify_approval_json [OF l(3)]] revocations.id_prefix [OF rv]
    by (auto simp: starts_with_iff)
  have at2: "approval_at (cfg_of E) w2 (approval_path (cfg_of E) (wa_id a)) = Some a"
    unfolding w2_def using l(1) nr by (simp add: revocations.read_other [OF rv])
  have b: "approval_follows a b" "approval_ok (cfg_of E) b"
    using follows_terminal(3) [OF st] revoked_ok [OF l(3) revocation_id_nonempty [OF rv]]
    by (simp_all add: b_def)
  note r = replace_approval [OF approvals.evolve_in_place [OF e2 l(2)] at2 b]
  show "approvals_evolve mint (cfg_of E) w w3"
    using e1 e2 r(1) unfolding w3_def by (blast intro: approvals.evolve_trans)
  show "approval_at (cfg_of E) w3 (approval_path (cfg_of E) (wa_id a)) = Some b"
    using r(2) unfolding w3_def .
  show "stored verify_revocation_record (cfg_of E) w3
      (revocations_dir (cfg_of E) @ [wr_id rv @ ''.json'']) = Some rv"
    using nr revocations.read_back [OF rv, of w1] unfolding w3_def w2_def l(4)
    by (auto simp: stored_write revocations.record_path_id [OF rv] simp del: append_same_eq)
qed

lemma evolve_revoke_approval:
  "keeps (approvals_evolve mint (cfg_of E)) (revoke_approval E ref why who prov at now)"
proof (rule keepsI)
  fix w r w'
  assume run: "revoke_approval E ref why who prov at now w = (r, w')"
  show "approvals_evolve mint (cfg_of E) w w'"
  proof (cases "approvals_placed (cfg_of E) w")
    case True
    from run show ?thesis
    proof (cases rule: revoke_approval_cases)
      case (again a w1 v)
      then show ?thesis
        by (blast intro: approvals.evolve_trans keepsD [OF evolve_load_approval]
            approvals.evolve_quiet keepsD [OF quiet_revoke_again])
    next
      case (revoked a w1 rev)
      then show ?thesis
        using revoke_effect(1) [OF revoked(1) True revoked(2,3)]
        by (blast intro: approvals.evolve_trans approvals.evolve_quiet)
    qed (blast intro: approvals.evolve_refl approvals.evolve_trans approvals.evolve_quiet
        keepsD [OF evolve_load_approval])+
  qed (simp add: evolves_def)
qed

subsection \<open>Explicit transitions\<close>

text \<open>Only consumption writes; it needs an approved approval.\<close>

lemma transition_approval_cases:
  assumes "transition_approval_status E ref to now allow w = (r, w')"
  obtains (fault) e where "r = Inl e" "w' = w"
    | (loaded) ra where "load_approval E ref now True True w = (ra, w')"
        "\<And>b. r = Inr b \<Longrightarrow> ra = Inr b \<and> wa_status b = Expired"
    | (consumed) a w1 where "load_approval E ref now True True w = (Inr a, w1)"
        "wa_status a = Approved" "allow" "py_strip to = ''consumed''"
        "r = Inr (a\<lparr>wa_status := Consumed\<rparr>)"
        "same_files (write_file (record_path (approvals_dir (cfg_of E)) (wa_id a))
           (approval_json (a\<lparr>wa_status := Consumed\<rparr>)) w1) w'"
proof -
  obtain ra w1 where ld: "load_approval E ref now True True w = (ra, w1)" by fastforce
  show thesis
  proof (cases "approval_status_of (py_strip to)")
    case None
    with assms show thesis
      by (intro fault) (auto simp: transition_approval_status_def throw_def)
  next
    case (Some t)
    show thesis
    proof (cases t)
      case Expired
      with assms Some ld show thesis
        by (intro loaded [of ra])
          (auto simp: transition_approval_status_def Let_def bindM_def throw_def ret_def
            split: sum.splits if_splits)
    next
      case Consumed
      show thesis
      proof (cases "allow \<and> (\<exists>a. ra = Inr a \<and> wa_status a = Approved)")
        case True
        then obtain a where a: "ra = Inr a" "wa_status a = Approved" by blast
        have tr: "assert_transition (Some Approved) Consumed = Inr ()" by code_simp
        from assms Some Consumed ld a True
        have "\<exists>x. append_scope_event E ''write_scope.status_transition''
                     [(''approval_id'', JStr (wa_id a)), (''from_status'', JStr ''approved''),
                      (''to_status'', JStr ''consumed'')] None
            (write_file (record_path (approvals_dir (cfg_of E)) (wa_id a))
               (approval_json (a\<lparr>wa_status := Consumed\<rparr>)) w1) = (x, w')"
          and "r = Inr (a\<lparr>wa_status := Consumed\<rparr>)"
          by (auto simp: transition_approval_status_def Let_def bindM_run(1) [where m = "load_approval E ref now True True", OF ld [unfolded a(1)]] tr
              atomic_write_json_def bindM_def [of "writes f" for f] writes_def
              bindM_def [of "append_scope_event E ty pl None" for ty pl] ret_def event_returns
              split: prod.splits sum.splits)
        with ld a True Some Consumed approval_status_text_of [OF Some] show thesis
          by (intro consumed [of a w1]) (auto dest: keepsD [OF quiet_event])
      next
        case False
        show thesis
        proof (cases allow)
          case True
          with assms Some Consumed ld False show thesis
            by (intro loaded [of ra])
              (cases "case ra of Inr a \<Rightarrow> wa_status a | Inl _ \<Rightarrow> Approved";
               auto simp: transition_approval_status_def Let_def bindM_def throw_def lift_res_def
                assert_transition_def check_def split: sum.splits if_splits)+
        qed (use assms Some Consumed in
          \<open>auto simp: transition_approval_status_def throw_def intro: fault\<close>)
      qed
    qed (use assms Some in \<open>auto simp: transition_approval_status_def throw_def intro: fault\<close>)
  qed
qed

lemma transition_effect:
  assumes run: "transition_approval_status E ref to now allow w = (r, w')"
  shows "approvals_evolve mint (cfg_of E) w w'" and "writes_only grant_kinds w w'"
proof -
  have "(approvals_placed (cfg_of E) w \<longrightarrow> approvals_evolve mint (cfg_of E) w w') \<and> writes_only grant_kinds w w'"
    using run
  proof (cases rule: transition_approval_cases)
    case (consumed a w1)
    note f = follows_terminal(2) [OF consumed(2)]
    note ok = consumed_ok [OF load_approval_ok [OF consumed(1)]]
    have "approvals_placed (cfg_of E) w \<Longrightarrow> approvals_evolve mint (cfg_of E) w w'"
      using replace_approval(1) [OF load_approval_stored(2,1) [OF consumed(1)] f ok] consumed(6)
        keepsD [OF evolve_load_approval consumed(1)]
      by (blast intro: approvals.evolve_trans approvals.evolve_quiet)
    moreover have "writes_only grant_kinds w w'"
      using writes_approval [OF ok, of w1] consumed(6) keepsD [OF writes_load_approval consumed(1)]
      by (auto intro: wo.order_trans writes_only_quiet)
    ultimately show ?thesis by blast
  qed (blast intro: approvals.evolve_refl wo.order_refl keepsD [OF evolve_load_approval]
      keepsD [OF writes_load_approval])+
  then show "approvals_evolve mint (cfg_of E) w w'" "writes_only grant_kinds w w'"
    by (auto simp: evolves_def)
qed

lemma transition_rules:
  "keeps (approvals_evolve mint (cfg_of E)) (transition_approval_status E ref to now allow)"
  "keeps (writes_only grant_kinds) (transition_approval_status E ref to now allow)"
  using transition_effect by (auto intro: keepsI)

lemma writes_list_approvals: "keeps (writes_only grant_kinds) (list_approvals E run_id status pid now)"
  unfolding list_approvals_def list_approval_def
  by (auto intro!: wo.keeps_rules wo.keeps_catch writes_load_approval split: if_splits)

end
