(* ===== verification/Bindings.thy ===== *)
theory Bindings
  imports Approval_Laws
begin

section \<open>Write-scope bindings\<close>

text \<open>
  \<open>write_scope_bindings.py\<close>: one approval is bound to one execution attempt. Statuses and
  their transitions, binding records and their store, the roots of a scope resolved inside a
  workspace, and the gate \<open>create_binding\<close>, split into the stages of its body.
\<close>

subsection \<open>Statuses and transitions\<close>

datatype binding_status = Active | Completed | Failed | Binding_revoked | Suspended

fun binding_status_text :: "binding_status \<Rightarrow> string" where
  "binding_status_text Active = ''active''"
| "binding_status_text Completed = ''completed''"
| "binding_status_text Failed = ''failed''"
| "binding_status_text Binding_revoked = ''revoked''"
| "binding_status_text Suspended = ''suspended''"

definition binding_status_of :: "string \<Rightarrow> binding_status option" where
  "binding_status_of s =
     (if s = ''active'' then Some Active else if s = ''completed'' then Some Completed
      else if s = ''failed'' then Some Failed else if s = ''revoked'' then Some Binding_revoked
      else if s = ''suspended'' then Some Suspended else None)"

fun binding_transitions :: "binding_status option \<Rightarrow> binding_status list" where
  "binding_transitions None = [Active]"
| "binding_transitions (Some Active) = [Completed, Failed, Binding_revoked, Suspended]"
| "binding_transitions (Some Suspended) = [Completed, Failed, Binding_revoked]"
| "binding_transitions (Some Completed) = []"
| "binding_transitions (Some Failed) = []"
| "binding_transitions (Some Binding_revoked) = []"

definition binding_terminal :: "binding_status \<Rightarrow> bool" where
  "binding_terminal s \<longleftrightarrow> s \<in> set [Completed, Failed, Binding_revoked]"

definition approval_blocking :: "binding_status \<Rightarrow> bool" where
  "approval_blocking s \<longleftrightarrow> s \<in> set [Active, Completed, Suspended]"

definition assert_binding_transition :: "binding_status option \<Rightarrow> binding_status \<Rightarrow> exn + unit" where
  "assert_binding_transition from_status to_status =
     check (to_status \<notin> set (binding_transitions from_status))
       (BindingError (B_transition
          (case from_status of None \<Rightarrow> ''None'' | Some s \<Rightarrow> binding_status_text s)
          (binding_status_text to_status)))"

interpretation binding_life: lifecycle binding_transitions binding_terminal Active
proof unfold_locales
  fix s
  show "binding_terminal s \<Longrightarrow> binding_transitions (Some s) = []"
    by (cases s) (simp_all add: binding_terminal_def)
  show "Active \<notin> set (binding_transitions (Some s))"
    by (cases s) simp_all
qed simp

subsection \<open>Workspaces and roots\<close>

definition git_rev_parse_head :: "env \<Rightarrow> ppath \<Rightarrow> exn + string" where
  "git_rev_parse_head E workspace_root =
     bindR (full_path E workspace_root) (\<lambda>root.
     bindR (check (\<not> is_dir E root) (BindingError (B_not_dir (path_str root)))) (\<lambda>_.
     case rev_parse E root of
       ProcOSError e \<Rightarrow> Inl (BindingError (B_git_os (path_str root) e))
     | Proc rc out err \<Rightarrow>
         if rc \<noteq> 0 then
           Inl (BindingError (B_git_failed (path_str root) (py_strip (if err \<noteq> [] then err else out))))
         else
           let sha = py_lower (py_strip out) in
           if is_sha40 sha then Inr sha else Inl (BindingError (B_git_sha sha))))"

definition resolve_repo_relative_root :: "env \<Rightarrow> ppath \<Rightarrow> string \<Rightarrow> string \<Rightarrow> exn + string" where
  "resolve_repo_relative_root E root field_name raw =
     (let rel = py_strip raw in
      bindR (check (rel = []) (BindingError (B_root_entry field_name))) (\<lambda>_.
      bindR (check (starts_with rel ''/'' \<or> starts_with rel ''~'')
               (BindingError (B_root_absolute field_name rel))) (\<lambda>_.
      bindR (check (''..'' \<in> set (snd (py_path rel))) (BindingError (B_root_traversal field_name rel))) (\<lambda>_.
      bindR (resolve_path E (path_join root (py_path rel))) (\<lambda>absolute.
      bindR (check (relative_to absolute root = None) (BindingError (B_root_escape field_name rel))) (\<lambda>_.
      Inr (path_str absolute)))))))"

definition resolve_repo_relative_roots ::
  "env \<Rightarrow> string list \<Rightarrow> ppath \<Rightarrow> string \<Rightarrow> bool \<Rightarrow> exn + string list" where
  "resolve_repo_relative_roots E roots workspace_root field_name require_non_empty =
     bindR (full_path E workspace_root) (\<lambda>root.
     bindR (check (\<not> is_dir E root) (BindingError (B_not_dir (path_str root)))) (\<lambda>_.
     bindR (check (require_non_empty \<and> roots = []) (BindingError (B_roots_empty field_name))) (\<lambda>_.
     mapR (resolve_repo_relative_root E root field_name) roots)))"

definition resolve_writable_roots :: "env \<Rightarrow> string list \<Rightarrow> ppath \<Rightarrow> exn + string list" where
  "resolve_writable_roots E roots workspace_root =
     resolve_repo_relative_roots E roots workspace_root ''allowed_roots'' True"

definition resolve_denied_roots :: "env \<Rightarrow> string list \<Rightarrow> ppath \<Rightarrow> exn + string list" where
  "resolve_denied_roots E roots workspace_root =
     resolve_repo_relative_roots E roots workspace_root ''denied_roots'' False"

text \<open>The paths of the manifest's repositories of this target.\<close>

definition manifest_matches :: "json \<Rightarrow> string \<Rightarrow> string list" where
  "manifest_matches manifest wanted =
     (case manifest of
        JObj m \<Rightarrow>
          (case jget m ''repos'' of
             JArr repos \<Rightarrow>
               concat (map (\<lambda>repo. case repo of
                   JObj r \<Rightarrow>
                     if text_field r ''target_id'' \<noteq> wanted \<or> text_field r ''path'' = [] then []
                     else [text_field r ''path'']
                 | _ \<Rightarrow> []) repos)
           | _ \<Rightarrow> [])
      | _ \<Rightarrow> [])"

definition resolve_workspace_for_target ::
  "env \<Rightarrow> string \<Rightarrow> ppath option \<Rightarrow> json \<Rightarrow> exn + ppath" where
  "resolve_workspace_for_target E target workspace_root manifest =
     (let wanted = py_strip target in
      bindR (check (wanted = []) (BindingError B_target_required)) (\<lambda>_.
      bindR (mapR (\<lambda>t. full_path E (py_path t)) (manifest_matches manifest wanted)) (\<lambda>matches.
      case matches of
        [m] \<Rightarrow> Inr m
      | _ # _ \<Rightarrow> Inl (BindingError (B_workspace_ambiguous wanted))
      | [] \<Rightarrow>
          (case workspace_root of
             Some p \<Rightarrow>
               bindR (full_path E p) (\<lambda>path.
               if is_dir E path then Inr path
               else Inl (BindingError (B_not_dir (path_str path))))
           | None \<Rightarrow> Inl (BindingError (B_workspace_unresolved wanted))))))"

subsection \<open>Binding records\<close>

record binding =
  wb_id :: string
  wb_approval :: string
  wb_run :: string
  wb_target :: string
  wb_bound_at :: string
  wb_status :: binding_status
  wb_hash :: string
  wb_sha :: string
  wb_workspace :: string
  wb_writable :: "string list"
  wb_denied :: "string list"
  wb_runner :: "string option"
  wb_terminal_at :: "string option"
  wb_reason :: "string option"

definition compute_binding_id :: "cfg \<Rightarrow> string \<Rightarrow> string \<Rightarrow> string \<Rightarrow> string \<Rightarrow> string" where
  "compute_binding_id C approval_id run_id bound_at target =
     short_id C ''wsb-'' (approval_id @ '':'' @ run_id @ '':'' @ bound_at @ '':'' @ target)"

definition json_opt :: "string option \<Rightarrow> json" where
  "json_opt v = (case v of None \<Rightarrow> JNull | Some s \<Rightarrow> JStr s)"

definition binding_json :: "binding \<Rightarrow> json" where
  "binding_json b = JObj
     ([(''kind'', JStr ''write_scope_binding''), (''schema_version'', JInt 1),
       (''binding_id'', JStr (wb_id b)), (''approval_id'', JStr (wb_approval b)),
       (''run_id'', JStr (wb_run b)), (''target_id'', JStr (wb_target b)),
       (''bound_at'', JStr (wb_bound_at b)), (''status'', JStr (binding_status_text (wb_status b))),
       (''body_hash'', JStr (wb_hash b)), (''base_sha'', JStr (wb_sha b)),
       (''workspace_root'', JStr (wb_workspace b)),
       (''writable_roots'', JArr (map JStr (wb_writable b))),
       (''denied_roots'', JArr (map JStr (wb_denied b))),
       (''runner_id'', json_opt (wb_runner b))]
      @ opt_field ''terminal_at'' (wb_terminal_at b) @ opt_field ''terminal_reason'' (wb_reason b))"

definition absolute_root :: "(string \<Rightarrow> binding_fault) \<Rightarrow> json \<Rightarrow> exn + string" where
  "absolute_root fault item =
     (let text = py_strip (str_or_empty item) in
      if starts_with text ''/'' then Inr text else Inl (BindingError (fault text)))"

definition body_hash_shape :: "string \<Rightarrow> bool" where
  "body_hash_shape h \<longleftrightarrow> starts_with h ''sha256:'' \<and> length h = 71"

definition writable_field :: "(string \<times> json) list \<Rightarrow> exn + string list" where
  "writable_field r =
     (case jget r ''writable_roots'' of
        JArr (i # items) \<Rightarrow> mapR (absolute_root B_writable_absolute) (i # items)
      | _ \<Rightarrow> Inl (BindingError B_writable_empty))"

definition denied_field :: "(string \<times> json) list \<Rightarrow> exn + string list" where
  "denied_field r =
     (case jget r ''denied_roots'' of
        JNull \<Rightarrow> Inr []
      | JArr ds \<Rightarrow> mapR (absolute_root B_denied_absolute) ds
      | _ \<Rightarrow> Inl (BindingError B_denied_list))"

definition runner_field :: "(string \<times> json) list \<Rightarrow> string option" where
  "runner_field r =
     (if jget r ''runner_id'' = JNull then None
      else
        let t = py_strip (py_str (jget r ''runner_id'')) in
        if t = [] then None else Some t)"

definition terminal_at_field :: "(string \<times> json) list \<Rightarrow> string option" where
  "terminal_at_field r =
     (if jget r ''terminal_at'' = JNull then None else Some (text_field r ''terminal_at''))"

definition terminal_reason_field :: "(string \<times> json) list \<Rightarrow> string option" where
  "terminal_reason_field r =
     (if jget r ''terminal_reason'' = JNull then None
      else Some (str_or_empty (jget r ''terminal_reason'')))"

definition verify_binding_record :: "cfg \<Rightarrow> json \<Rightarrow> exn + binding" where
  "verify_binding_record C record =
     (case record of
        JObj r \<Rightarrow>
          bindR (check (jget r ''kind'' \<noteq> JStr ''write_scope_binding'') (BindingError B_kind)) (\<lambda>_.
          bindR (check (\<not> is_one (jget r ''schema_version'')) (BindingError B_schema)) (\<lambda>_.
          let bid = text_field r ''binding_id''; aid = text_field r ''approval_id'';
              run_id = text_field r ''run_id''; target = text_field r ''target_id'';
              bound_at = text_field r ''bound_at''; h = text_field r ''body_hash'';
              sha = py_lower (text_field r ''base_sha''); ws = text_field r ''workspace_root'' in
          bindR (check (bid = [] \<or> aid = [] \<or> run_id = [] \<or> target = [])
                   (BindingError B_identity_fields)) (\<lambda>_.
          bindR (check (bound_at = []) (BindingError B_bound_at)) (\<lambda>_.
          case binding_status_of (text_field r ''status'') of
            None \<Rightarrow> Inl (BindingError (B_status (text_field r ''status'')))
          | Some status \<Rightarrow>
          bindR (check (\<not> body_hash_shape h) (BindingError (B_hash h))) (\<lambda>_.
          bindR (check (\<not> is_sha40 sha) (BindingError (B_sha sha))) (\<lambda>_.
          bindR (check (ws = []) (BindingError B_workspace_required)) (\<lambda>_.
          bindR (writable_field r) (\<lambda>writable.
          bindR (denied_field r) (\<lambda>denied.
              let expected = compute_binding_id C aid run_id bound_at target in
              bindR (check (bid \<noteq> expected) (BindingError (B_id expected bid))) (\<lambda>_.
              Inr \<lparr>wb_id = bid, wb_approval = aid, wb_run = run_id, wb_target = target,
                   wb_bound_at = bound_at, wb_status = status, wb_hash = h, wb_sha = sha,
                   wb_workspace = ws, wb_writable = writable, wb_denied = denied,
                   wb_runner = runner_field r, wb_terminal_at = terminal_at_field r,
                   wb_reason = terminal_reason_field r\<rparr>))))))))))
      | _ \<Rightarrow> Inl (BindingError B_not_object))"

subsection \<open>The binding store\<close>

definition load_binding :: "env \<Rightarrow> string \<Rightarrow> binding run" where
  "load_binding E binding_id =
     (let ref = py_strip binding_id; C = cfg_of E in
      bindM (raise_if (ref = []) (BindingError B_ref_required)) (\<lambda>_.
      bindM (read_json (record_path (bindings_dir C) ref)
               (BindingError (B_not_found ref)) (BindingError (B_corrupt ref))) (\<lambda>raw.
      lift_res (verify_binding_record C raw))))"

definition binding_event :: "env \<Rightarrow> binding \<Rightarrow> json run" where
  "binding_event E v =
     append_scope_event E ''write_scope.bound''
       [(''binding_id'', JStr (wb_id v)), (''approval_id'', JStr (wb_approval v)),
        (''run_id'', JStr (wb_run v)), (''target_id'', JStr (wb_target v)),
        (''status'', JStr (binding_status_text (wb_status v))), (''base_sha'', JStr (wb_sha v))]
       (Some (wb_bound_at v))"

definition save_binding :: "env \<Rightarrow> json \<Rightarrow> bool \<Rightarrow> binding run" where
  "save_binding E record emit_event =
     (let C = cfg_of E in
      bindM (lift_res (verify_binding_record C record)) (\<lambda>v.
      let path = record_path (bindings_dir C) (wb_id v) in
      bindM (reads (\<lambda>w. file_at w path)) (\<lambda>present.
      if present \<noteq> None then
        bindM (load_binding E (wb_id v)) (\<lambda>existing.
        if wb_approval existing = wb_approval v \<and> wb_run existing = wb_run v \<and>
           wb_bound_at existing = wb_bound_at v \<and> wb_target existing = wb_target v
        then ret existing
        else throw (BindingError (B_collision (wb_id v))))
      else
        bindM (atomic_write_json path (binding_json v)) (\<lambda>_.
        bindM (if emit_event then binding_event E v else ret JNull) (\<lambda>_. ret v)))))"

text \<open>The bindings of the directory that verify and match, in the order of the names.\<close>

definition binding_matches ::
  "string option \<Rightarrow> string option \<Rightarrow> string option \<Rightarrow> string option \<Rightarrow> binding \<Rightarrow> bool" where
  "binding_matches approval_id run_id target status b \<longleftrightarrow>
     (approval_id = None \<or> approval_id = Some (wb_approval b)) \<and>
     (run_id = None \<or> run_id = Some (wb_run b)) \<and>
     (target = None \<or> target = Some (wb_target b)) \<and>
     (status = None \<or> status = Some (binding_status_text (wb_status b)))"

definition bindings_in :: "cfg \<Rightarrow> world \<Rightarrow> binding list" where
  "bindings_in C w =
     concat (map (\<lambda>name. case stored verify_binding_record C w (bindings_dir C @ [name]) of
         None \<Rightarrow> [] | Some b \<Rightarrow> [b]) (glob_names (bindings_dir C) ''wsb-'' w))"

definition list_bindings ::
  "env \<Rightarrow> string option \<Rightarrow> string option \<Rightarrow> string option \<Rightarrow> string option \<Rightarrow> binding list run" where
  "list_bindings E approval_id run_id target status =
     reads (\<lambda>w. sort_key (\<lambda>b. (wb_bound_at b, wb_id b))
       (filter (binding_matches approval_id run_id target status) (bindings_in (cfg_of E) w)))"

definition approval_has_blocking_binding :: "env \<Rightarrow> string \<Rightarrow> binding option run" where
  "approval_has_blocking_binding E approval_id =
     bindM (list_bindings E (Some approval_id) None None None) (\<lambda>bs.
     ret (find (\<lambda>b. approval_blocking (wb_status b)) bs))"

definition active_binding_for_target :: "env \<Rightarrow> string \<Rightarrow> binding option run" where
  "active_binding_for_target E target =
     bindM (list_bindings E None None (Some target) (Some ''active'')) (\<lambda>active.
     case active of
       b # _ \<Rightarrow> ret (Some b)
     | [] \<Rightarrow>
         bindM (list_bindings E None None (Some target) (Some ''suspended'')) (\<lambda>suspended.
         case suspended of b # _ \<Rightarrow> ret (Some b) | [] \<Rightarrow> ret None))"

subsection \<open>Transitions\<close>

definition transition_binding_status ::
  "env \<Rightarrow> string \<Rightarrow> string \<Rightarrow> string option \<Rightarrow> string option \<Rightarrow> binding run" where
  "transition_binding_status E binding_id to_status reason_text terminal_at =
     (let target = py_strip to_status; C = cfg_of E in
      case binding_status_of target of
        None \<Rightarrow> throw (BindingError (B_status target))
      | Some t \<Rightarrow>
          bindM (load_binding E binding_id) (\<lambda>b.
          bindM (lift_res (assert_binding_transition (Some (wb_status b)) t)) (\<lambda>_.
          bindM (if t \<noteq> Active then bindM (text_or_now E terminal_at) (\<lambda>at. ret (Some at))
                 else ret (wb_terminal_at b)) (\<lambda>at.
          let updated = b\<lparr>wb_status := t, wb_terminal_at := at,
                wb_reason := (case reason_text of None \<Rightarrow> wb_reason b | Some r \<Rightarrow> Some r)\<rparr> in
          bindM (lift_res (verify_binding_record C (binding_json updated))) (\<lambda>v.
          bindM (atomic_write_json (record_path (bindings_dir C) (wb_id v)) (binding_json v)) (\<lambda>_.
          bindM (text_or_now E (wb_terminal_at v)) (\<lambda>event_at.
          bindM (append_scope_event E ''write_scope.binding_status''
                   [(''binding_id'', JStr (wb_id v)), (''approval_id'', JStr (wb_approval v)),
                    (''from_status'', JStr (binding_status_text (wb_status b))),
                    (''to_status'', JStr (binding_status_text (wb_status v))),
                    (''reason'', json_opt reason_text)] (Some event_at)) (\<lambda>_.
          ret v))))))))"

definition finalize_binding :: "env \<Rightarrow> string \<Rightarrow> bool \<Rightarrow> string option \<Rightarrow> binding run" where
  "finalize_binding E binding_id success reason_text =
     transition_binding_status E binding_id
       (binding_status_text (if success then Completed else Failed)) reason_text None"

subsection \<open>The bind gate\<close>

record bind_gate =
  bg_binding :: binding
  bg_approval :: approval
  bg_writable :: "string list"
  bg_denied :: "string list"
  bg_target :: string
  bg_sha :: string
  bg_workspace :: string

record bind_request =
  br_run :: string
  br_workspace :: "ppath option"
  br_manifest :: json
  br_target :: "string option"
  br_caps :: "string list"
  br_runner :: "string option"
  br_require :: bool
  br_bound_at :: "string option"

text \<open>An approval error becomes a binding error with the same text.\<close>

definition as_binding_error :: "'a run \<Rightarrow> 'a run" where
  "as_binding_error m =
     catchM m (\<lambda>e. if is_approval_error e then Some (throw (BindingError (B_text (exn_text e)))) else None)"

text \<open>Lines 601 to 641: load the approval, verify it again, and require an active grant.\<close>

definition bind_approval :: "env \<Rightarrow> string \<Rightarrow> (approval \<times> scope_body) run" where
  "bind_approval E ref =
     bindM (as_binding_error (load_approval E ref None True True)) (\<lambda>loaded.
     bindM (as_binding_error (verify_approval_record E (approval_json loaded) None True)) (\<lambda>a.
     bindM (raise_if (wa_status a = Expired) (BindingError (B_expired ref))) (\<lambda>_.
     bindM (raise_if (wa_status a = Revoked) (BindingError (B_revoked ref))) (\<lambda>_.
     bindM (raise_if (wa_status a = Consumed) (BindingError (B_consumed ref))) (\<lambda>_.
     bindM (is_approval_active E (approval_json a) None) (\<lambda>active.
     bindM (raise_if (\<not> active)
              (BindingError (B_inactive ref (approval_status_text (wa_status a))))) (\<lambda>_.
     bindM (lift_res (validate_approval_body (body_json (wa_body a)))) (\<lambda>body.
     bindM (raise_if (compute_body_hash (cfg_of E) body \<noteq> wa_hash a)
              (BindingError (B_hash_integrity ref))) (\<lambda>_.
     ret (a, body))))))))))"

text \<open>Lines 643 to 677: the execution target, the workspace and its HEAD, the capability.\<close>

definition bind_target :: "env \<Rightarrow> bind_request \<Rightarrow> scope_body \<Rightarrow> exn + ppath" where
  "bind_target E q body =
     (let target = target_id body;
          expected = (case br_target q of Some t \<Rightarrow> py_strip t | None \<Rightarrow> target) in
      bindR (check (expected = []) (BindingError B_exec_target_required)) (\<lambda>_.
      bindR (check (expected \<noteq> target) (BindingError (B_target_mismatch target expected))) (\<lambda>_.
      bindR (resolve_workspace_for_target E target (br_workspace q) (br_manifest q)) (\<lambda>workspace.
      bindR (git_rev_parse_head E workspace) (\<lambda>current.
      let approved = py_lower (base_sha body) in
      bindR (check (current \<noteq> approved) (BindingError (B_base_sha approved current))) (\<lambda>_.
      bindR (check (br_require q \<and>
                ''bounded_write'' \<notin> set (filter (\<lambda>c. c \<noteq> []) (map py_strip (br_caps q))))
               (BindingError B_bounded_write)) (\<lambda>_.
      Inr workspace)))))))"

text \<open>Lines 679 to 732: single use, one binding per target, the roots, the record.\<close>

definition bind_record ::
  "env \<Rightarrow> bind_request \<Rightarrow> string \<Rightarrow> string \<Rightarrow> approval \<Rightarrow> scope_body \<Rightarrow> ppath \<Rightarrow> binding run" where
  "bind_record E q ref run_ref a body workspace =
     (let target = target_id body in
      bindM (approval_has_blocking_binding E ref) (\<lambda>blocking.
      bindM (case blocking of
               Some b \<Rightarrow> throw (BindingError
                 (B_already_bound (binding_status_text (wb_status b)) ref (wb_id b)))
             | None \<Rightarrow> ret ()) (\<lambda>_.
      bindM (active_binding_for_target E target) (\<lambda>active.
      bindM (case active of
               Some b \<Rightarrow> throw (BindingError (B_target_busy target (wb_id b)))
             | None \<Rightarrow> ret ()) (\<lambda>_.
      bindM (lift_res (resolve_writable_roots E (allowed_roots body) workspace)) (\<lambda>writable.
      bindM (lift_res (resolve_denied_roots E (denied_roots body) workspace)) (\<lambda>denied.
      bindM (text_or_now E (br_bound_at q)) (\<lambda>bound_ts.
      bindM (lift_res (assert_binding_transition None Active)) (\<lambda>_.
      save_binding E (binding_json
        \<lparr>wb_id = compute_binding_id (cfg_of E) ref run_ref bound_ts target, wb_approval = ref,
         wb_run = run_ref, wb_target = target, wb_bound_at = bound_ts, wb_status = Active,
         wb_hash = wa_hash a, wb_sha = py_lower (base_sha body), wb_workspace = path_str workspace,
         wb_writable = writable, wb_denied = denied,
         wb_runner = (case br_runner q of
                        None \<Rightarrow> None
                      | Some t \<Rightarrow> if py_strip t = [] then None else Some (py_strip t)),
         wb_terminal_at = None, wb_reason = None\<rparr>) True)))))))))"

definition create_binding :: "env \<Rightarrow> string \<Rightarrow> bind_request \<Rightarrow> bind_gate run" where
  "create_binding E approval_id q =
     (let ref = py_strip approval_id; run_ref = py_strip (br_run q) in
      bindM (raise_if (ref = []) (BindingError B_approval_required)) (\<lambda>_.
      bindM (raise_if (run_ref = []) (BindingError B_run_required)) (\<lambda>_.
      bindM (bind_approval E ref) (\<lambda>(a, body).
      bindM (lift_res (bind_target E q body)) (\<lambda>workspace.
      bindM (bind_record E q ref run_ref a body workspace) (\<lambda>saved.
      ret \<lparr>bg_binding = saved, bg_approval = a, bg_writable = wb_writable saved,
           bg_denied = wb_denied saved, bg_target = target_id body,
           bg_sha = py_lower (base_sha body), bg_workspace = path_str workspace\<rparr>))))))"

definition legacy_path_elevation_warning :: string where
  "legacy_path_elevation_warning =
     ''WARNING: --approve-writable-root is a deprecated path-elevation '' @
     ''compatibility shim. It does NOT create WriteScopeApproval or '' @
     ''WriteScopeBinding evidence and is not the happy path. '' @
     ''Prefer --write-scope-approval <approval-id>.''"

definition emit_legacy_path_elevation_warning :: "unit run" where
  "emit_legacy_path_elevation_warning =
     writes (\<lambda>w. w\<lparr>warnings := warnings w @ [legacy_path_elevation_warning @ [CHR 0x0A]]\<rparr>)"

definition prepare_execution_write_scope ::
  "env \<Rightarrow> string option \<Rightarrow> string list \<Rightarrow> bind_request \<Rightarrow> (string list \<times> binding option) run" where
  "prepare_execution_write_scope E approval naked q =
     (let ref = (case approval of None \<Rightarrow> [] | Some t \<Rightarrow> py_strip t);
          naked_roots = filter (\<lambda>t. t \<noteq> []) (map py_strip naked) in
      if ref \<noteq> [] \<and> naked_roots \<noteq> [] then throw (BindingError B_mixed_authority)
      else if ref \<noteq> [] then
        bindM (create_binding E ref (q\<lparr>br_bound_at := None\<rparr>)) (\<lambda>g.
        ret (bg_writable g, Some (bg_binding g)))
      else if naked_roots \<noteq> [] then
        bindM emit_legacy_path_elevation_warning (\<lambda>_. ret (naked_roots, None))
      else ret ([], None))"

subsection \<open>The record store\<close>

lemma binding_status_of_text [simp]: "binding_status_of (binding_status_text s) = Some s"
  by (cases s) (simp_all add: binding_status_of_def)

lemma binding_status_text_inj [simp]: "binding_status_text s = binding_status_text t \<longleftrightarrow> s = t"
  by (metis binding_status_of_text option.inject)

lemma binding_status_text_of: "binding_status_of t = Some s \<Longrightarrow> t = binding_status_text s"
  by (auto simp: binding_status_of_def split: if_splits)

lemma binding_status_strip [simp]: "py_strip (binding_status_text s) = binding_status_text s"
  by (cases s) (simp_all add: py_strip_no_space py_space_def)

definition absolute_text :: "string \<Rightarrow> bool" where
  "absolute_text t \<longleftrightarrow> starts_with t ''/'' \<and> py_strip t = t"

definition binding_ok :: "cfg \<Rightarrow> binding \<Rightarrow> bool" where
  "binding_ok C b \<longleftrightarrow>
     wb_id b = compute_binding_id C (wb_approval b) (wb_run b) (wb_bound_at b) (wb_target b) \<and>
     wb_approval b \<noteq> [] \<and> wb_run b \<noteq> [] \<and> wb_target b \<noteq> [] \<and> wb_bound_at b \<noteq> [] \<and>
     wb_workspace b \<noteq> [] \<and>
     py_strip (wb_approval b) = wb_approval b \<and> py_strip (wb_run b) = wb_run b \<and>
     py_strip (wb_target b) = wb_target b \<and> py_strip (wb_bound_at b) = wb_bound_at b \<and>
     py_strip (wb_workspace b) = wb_workspace b \<and>
     body_hash_shape (wb_hash b) \<and> py_strip (wb_hash b) = wb_hash b \<and> is_sha40 (wb_sha b) \<and>
     wb_writable b \<noteq> [] \<and> list_all absolute_text (wb_writable b) \<and> list_all absolute_text (wb_denied b) \<and>
     (\<forall>t. wb_runner b = Some t \<longrightarrow> t \<noteq> [] \<and> py_strip t = t) \<and>
     (\<forall>t. wb_terminal_at b = Some t \<longrightarrow> py_strip t = t)"

lemma absolute_roots_Inr:
  "mapR (absolute_root f) items = Inr ts \<Longrightarrow> list_all absolute_text ts \<and> length ts = length items"
  by (induction items arbitrary: ts)
    (auto simp: bindR_Inr_iff absolute_root_def absolute_text_def Let_def split: if_splits)

lemma absolute_roots_map:
  "list_all absolute_text ts \<Longrightarrow> mapR (absolute_root f) (map JStr ts) = Inr ts"
  by (induction ts) (auto simp: absolute_root_def absolute_text_def)

lemma sha40_strip_lower: "is_sha40 s \<Longrightarrow> py_lower (py_strip s) = s"
  using sha40_stable by simp

lemma root_fields_Inr:
  "writable_field r = Inr ts \<Longrightarrow> ts \<noteq> [] \<and> list_all absolute_text ts"
  "denied_field r = Inr ds \<Longrightarrow> list_all absolute_text ds"
  by (auto simp: writable_field_def denied_field_def simp del: mapR.simps
      split: json.splits list.splits dest!: absolute_roots_Inr)

lemma optional_fields:
  "runner_field r = Some t \<Longrightarrow> t \<noteq> [] \<and> py_strip t = t"
  "terminal_at_field r = Some u \<Longrightarrow> py_strip u = u"
  by (auto simp: runner_field_def terminal_at_field_def Let_def split: if_splits)

lemma verify_binding_ok:
  assumes "verify_binding_record C j = Inr b"
  shows "binding_ok C b"
proof -
  from assms obtain r where j: "j = JObj r"
    by (cases j) (simp_all add: verify_binding_record_def)
  from assms [unfolded j] obtain st where st: "binding_status_of (text_field r ''status'') = Some st"
    by (cases "binding_status_of (text_field r ''status'')")
      (auto simp: verify_binding_record_def Let_def bindR_Inr_iff)
  from assms [unfolded j] obtain w d where wd: "writable_field r = Inr w" "denied_field r = Inr d"
    by (auto simp: verify_binding_record_def Let_def bindR_Inr_iff st)
  show ?thesis
    using assms [unfolded j] root_fields_Inr(1) [OF wd(1)] root_fields_Inr(2) [OF wd(2)]
    unfolding binding_ok_def verify_binding_record_def Let_def
    by (auto simp: st wd bindR_check dest: optional_fields split: if_split_asm)
qed

lemma binding_id_clean:
  "plain_ref (compute_binding_id C a r t g)"
  "py_strip (compute_binding_id C a r t g) = compute_binding_id C a r t g"
  "compute_binding_id C a r t g \<noteq> []"
  unfolding compute_binding_id_def plain_ref_def
  by (auto intro!: short_id_clean simp: short_id_neq_Nil py_space_def short_id_clean)

lemma verify_binding_json:
  assumes "binding_ok C b"
  shows "verify_binding_record C (binding_json b) = Inr b"
proof -
  from assms have f: "wb_id b = compute_binding_id C (wb_approval b) (wb_run b) (wb_bound_at b) (wb_target b)"
    "wb_approval b \<noteq> []" "wb_run b \<noteq> []" "wb_target b \<noteq> []" "wb_bound_at b \<noteq> []" "wb_workspace b \<noteq> []"
    "py_strip (wb_approval b) = wb_approval b" "py_strip (wb_run b) = wb_run b"
    "py_strip (wb_target b) = wb_target b" "py_strip (wb_bound_at b) = wb_bound_at b"
    "py_strip (wb_workspace b) = wb_workspace b"
    "body_hash_shape (wb_hash b)" "py_strip (wb_hash b) = wb_hash b" "is_sha40 (wb_sha b)"
    "wb_writable b \<noteq> []" "list_all absolute_text (wb_writable b)" "list_all absolute_text (wb_denied b)"
    "\<And>t. wb_runner b = Some t \<Longrightarrow> t \<noteq> [] \<and> py_strip t = t"
    "\<And>t. wb_terminal_at b = Some t \<Longrightarrow> py_strip t = t"
    by (auto simp: binding_ok_def)
  note id = binding_id_clean [of C "wb_approval b" "wb_run b" "wb_bound_at b" "wb_target b"]
  have w: "writable_field r = Inr (wb_writable b)" if "jget r ''writable_roots'' = JArr (map JStr (wb_writable b))" for r
    using absolute_roots_map [OF f(16)] f(15) that
    by (cases "wb_writable b") (simp_all add: writable_field_def del: mapR.simps)
  have d: "denied_field r = Inr (wb_denied b)" if "jget r ''denied_roots'' = JArr (map JStr (wb_denied b))" for r
    using absolute_roots_map [OF f(17)] that by (simp add: denied_field_def)
  show ?thesis
    unfolding verify_binding_record_def binding_json_def Let_def opt_field_def json_opt_def
    using f id sha40_strip_lower [OF f(14)]
    by (cases "wb_runner b"; cases "wb_terminal_at b"; cases "wb_reason b")
      (simp_all add: bindR_check is_one_def text_field_def w d runner_field_def terminal_at_field_def
        terminal_reason_field_def)
qed

text \<open>
  What may replace a stored binding: a later status of the same grant of roots, with the time
  and reason of the change.
\<close>

definition binding_follows :: "binding \<Rightarrow> binding \<Rightarrow> bool" where
  "binding_follows a b \<longleftrightarrow> b = a \<or>
     (\<exists>st t why. b = a\<lparr>wb_status := st, wb_terminal_at := t, wb_reason := why\<rparr> \<and>
        st \<in> set (binding_transitions (Some (wb_status a))))"

lemma binding_transitions_trans:
  "t \<in> set (binding_transitions (Some s)) \<Longrightarrow> u \<in> set (binding_transitions (Some t)) \<Longrightarrow>
   u \<in> set (binding_transitions (Some s))"
  by (cases s; cases t) auto

lemma binding_follows_trans:
  assumes "binding_follows a b" "binding_follows b c"
  shows "binding_follows a c"
proof (cases "b = a \<or> c = b")
  case False
  with assms obtain st t why su u why' where
    "b = a\<lparr>wb_status := st, wb_terminal_at := t, wb_reason := why\<rparr>"
    "st \<in> set (binding_transitions (Some (wb_status a)))"
    "c = b\<lparr>wb_status := su, wb_terminal_at := u, wb_reason := why'\<rparr>"
    "su \<in> set (binding_transitions (Some (wb_status b)))"
    unfolding binding_follows_def by blast
  then show ?thesis
    using binding_transitions_trans [of st "wb_status a" su] unfolding binding_follows_def
    by (intro disjI2 exI [of _ su] exI [of _ u] exI [of _ why']) simp
qed (use assms in auto)

lemma binding_follows_id: "binding_follows a b \<Longrightarrow> wb_id b = wb_id a"
  by (auto simp: binding_follows_def)

interpretation bindings: evolving_store verify_binding_record binding_json wb_id bindings_dir
  binding_follows "''wsb-''" "''write_scope_binding''"
proof unfold_locales
  fix C j and b :: binding
  assume v: "verify_binding_record C j = Inr b"
  then have ok: "binding_ok C b" by (rule verify_binding_ok)
  then show "verify_binding_record C (binding_json b) = Inr b" by (rule verify_binding_json)
  from ok have "wb_id b = compute_binding_id C (wb_approval b) (wb_run b) (wb_bound_at b) (wb_target b)"
    by (simp add: binding_ok_def)
  then show "plain_ref (wb_id b)" "starts_with (wb_id b) ''wsb-''"
    using binding_id_clean(1) short_id_prefix by (metis, metis compute_binding_id_def)
next
  fix C kvs and b :: binding
  assume "verify_binding_record C (JObj kvs) = Inr b"
  then show "jget kvs ''kind'' = JStr ''write_scope_binding''"
    by (auto simp: verify_binding_record_def bindR_Inr_iff)
qed (auto intro: binding_follows_trans, simp add: binding_follows_def)

end
