(* ===== verification/Binding_Laws.thy ===== *)
theory Binding_Laws
  imports Bindings
begin

section \<open>Laws of the binding operations\<close>

text \<open>
  A stored binding only moves along the lifecycle, and only the bind gate adds one. From this
  follow the two exclusion invariants: one live binding per target, one blocking binding per
  approval reference. The last part states what a successful bind has checked.
\<close>

abbreviation binding_at :: "cfg \<Rightarrow> world \<Rightarrow> path \<Rightarrow> binding option" where
  "binding_at C w p \<equiv> stored verify_binding_record C w p"

abbreviation bindings_placed :: "cfg \<Rightarrow> world \<Rightarrow> bool" where
  "bindings_placed C w \<equiv> in_place verify_binding_record wb_id bindings_dir C w"

abbreviation bindings_evolve :: "bool \<Rightarrow> cfg \<Rightarrow> world \<Rightarrow> world \<Rightarrow> bool" where
  "bindings_evolve \<equiv> evolves verify_binding_record wb_id bindings_dir binding_follows"

abbreviation binding_path :: "cfg \<Rightarrow> string \<Rightarrow> path" where
  "binding_path C i \<equiv> bindings_dir C @ [i @ ''.json'']"

abbreviation binding_kinds :: "(string \<times> string) list" where
  "binding_kinds \<equiv> [(''wsb-'', ''write_scope_binding'')]"

subsection \<open>Loading and listing\<close>

lemma load_binding_Inr:
  "load_binding E ref w = (Inr b, w') \<longleftrightarrow>
     w' = w \<and> py_strip ref \<noteq> [] \<and>
     binding_at (cfg_of E) w (record_path (bindings_dir (cfg_of E)) (py_strip ref)) = Some b"
  by (auto simp: load_binding_def Let_def read_json_def op_simps stored_def
      split: if_splits option.splits rec_file.splits sum.splits)

lemma load_binding_run: "load_binding E ref w = (r, w') \<Longrightarrow> w' = w"
  by (cases r)
    (auto simp: load_binding_def Let_def read_json_def op_simps
      split: if_splits option.splits rec_file.splits)

lemma quiet_load_binding: "keeps same_files (load_binding E ref)"
  by (rule keepsI) (auto dest: load_binding_run simp: same_files_def)

lemma binding_at_ok: "binding_at C w p = Some b \<Longrightarrow> binding_ok C b"
  by (auto dest!: bindings.stored_verified verify_binding_ok)

lemma binding_at_path:
  "binding_at C w p = Some b \<Longrightarrow> record_path (bindings_dir C) (wb_id b) = binding_path C (wb_id b)"
  by (simp add: bindings.stored_plain)

lemma binding_id_length: "binding_ok C b \<Longrightarrow> 4 \<le> length (wb_id b)"
  by (auto simp: binding_ok_def compute_binding_id_def short_id_def)

lemma file_at_key: "file_at w p = Some f \<Longrightarrow> p \<in> set (map fst (files w))"
  unfolding file_at_def by (metis map_of_eq_None_iff option.distinct(1) set_map)

text \<open>A listing sees exactly the stored bindings.\<close>

lemma mem_bindings_in:
  assumes "bindings_placed C w"
  shows "b \<in> set (bindings_in C w) \<longleftrightarrow> binding_at C w (binding_path C (wb_id b)) = Some b"
proof
  assume "b \<in> set (bindings_in C w)"
  then obtain name where n: "binding_at C w (bindings_dir C @ [name]) = Some b"
    by (auto simp: bindings_in_def split: option.splits)
  with bindings.stored_name(1) [OF assms n] show "binding_at C w (binding_path C (wb_id b)) = Some b"
    by simp
next
  assume b: "binding_at C w (binding_path C (wb_id b)) = Some b"
  then obtain f where "file_at w (binding_path C (wb_id b)) = Some f"
    by (auto simp: stored_def split: option.splits)
  then have key: "binding_path C (wb_id b) \<in> set (map fst (files w))" by (rule file_at_key)
  have pre: "starts_with (wb_id b @ ''.json'') ''wsb-''"
    using bindings.stored_name(2) [OF assms b] by simp
  have "wb_id b @ ''.json'' \<in> set (glob_names (bindings_dir C) ''wsb-'' w)"
    using key pre binding_id_length [OF binding_at_ok [OF b]]
    unfolding glob_names_def by (force simp: ends_with_iff)
  with b show "b \<in> set (bindings_in C w)"
    by (force simp: bindings_in_def split: option.splits)
qed

lemma list_bindings_run:
  "list_bindings E a r t s w = (Inr bs, w') \<longleftrightarrow>
     w' = w \<and> bs = sort_key (\<lambda>b. (wb_bound_at b, wb_id b))
       (filter (binding_matches a r t s) (bindings_in (cfg_of E) w))"
  by (auto simp: list_bindings_def op_simps)

lemma quiet_list_bindings: "keeps same_files (list_bindings E a r t s)"
  unfolding list_bindings_def by (rule quiet.keeps_reads)

lemma sort_key_eq_Nil: "sort_key f xs = [] \<longleftrightarrow> xs = []"
  by (metis length_0_conv length_sort)

lemma blocking_binding_run:
  assumes "approval_has_blocking_binding E ref w = (Inr None, w')"
  shows "w' = w" "\<forall>b \<in> set (bindings_in (cfg_of E) w). wb_approval b = ref \<longrightarrow> \<not> approval_blocking (wb_status b)"
  using assms
  by (auto simp: approval_has_blocking_binding_def op_simps list_bindings_def binding_matches_def
      find_None_iff find_None_iff2)

lemma active_binding_run:
  assumes "active_binding_for_target E t w = (Inr None, w')"
  shows "w' = w"
    "\<forall>b \<in> set (bindings_in (cfg_of E) w). wb_target b = t \<longrightarrow> wb_status b \<noteq> Active \<and> wb_status b \<noteq> Suspended"
proof -
  have a: "''active'' = binding_status_text s \<longleftrightarrow> s = Active" "''suspended'' = binding_status_text s \<longleftrightarrow> s = Suspended"
    for s by (cases s; simp)+
  from assms have e: "filter (binding_matches None None (Some t) (Some ''active'')) (bindings_in (cfg_of E) w) = []"
    "filter (binding_matches None None (Some t) (Some ''suspended'')) (bindings_in (cfg_of E) w) = []" "w' = w"
    by (auto simp: active_binding_for_target_def op_simps list_bindings_def sort_key_eq_Nil
        split: list.splits)
  then show "w' = w" by simp
  from e(1,2) show "\<forall>b \<in> set (bindings_in (cfg_of E) w). wb_target b = t \<longrightarrow>
      wb_status b \<noteq> Active \<and> wb_status b \<noteq> Suspended"
    by (auto simp: filter_empty_conv binding_matches_def a)
qed

lemma quiet_blocking: "keeps same_files (approval_has_blocking_binding E ref)"
  unfolding approval_has_blocking_binding_def by (intro quiet_rules quiet_list_bindings)

lemma quiet_active: "keeps same_files (active_binding_for_target E t)"
  unfolding active_binding_for_target_def
  by (auto intro!: quiet_rules quiet_list_bindings split: list.splits)

subsection \<open>Saving\<close>

lemma writes_binding:
  assumes "binding_ok C b"
  shows "writes_only binding_kinds w (write_file (record_path (bindings_dir C) (wb_id b)) (binding_json b) w)"
proof -
  note v = verify_binding_json [OF assms]
  have "starts_with (last (record_path (bindings_dir C) (wb_id b))) ''wsb-''"
    using bindings.id_prefix [OF v] by (auto simp: bindings.record_path_id [OF v] starts_with_iff)
  then show ?thesis
    unfolding binding_json_def by (intro writes_only_put) auto
qed

lemma quiet_binding_event: "keeps same_files (binding_event E v)"
  unfolding binding_event_def by (rule quiet_event)

lemma save_binding_Inr:
  assumes "save_binding E j emit w = (Inr b, w')"
  obtains (fresh) "verify_binding_record (cfg_of E) j = Inr b"
      "file_at w (binding_path (cfg_of E) (wb_id b)) = None"
      "same_files (write_file (binding_path (cfg_of E) (wb_id b)) (binding_json b) w) w'"
    | (known) v where "verify_binding_record (cfg_of E) j = Inr v" "w' = w"
      "binding_at (cfg_of E) w (binding_path (cfg_of E) (wb_id v)) = Some b"
      "wb_approval b = wb_approval v" "wb_run b = wb_run v" "wb_bound_at b = wb_bound_at v"
      "wb_target b = wb_target v"
proof -
  from assms obtain v where v: "verify_binding_record (cfg_of E) j = Inr v"
    by (auto simp: save_binding_def Let_def op_simps)
  note p = bindings.record_path_id [OF v] bindings.plain_id [OF v]
  have id: "py_strip (wb_id v) = wb_id v"
    using verify_binding_ok [OF v] by (simp add: binding_ok_def binding_id_clean)
  show thesis
  proof (cases "file_at w (binding_path (cfg_of E) (wb_id v))")
    case None
    with assms v p have "b = v"
      "\<exists>x. (if emit then binding_event E v else ret JNull)
         (write_file (binding_path (cfg_of E) (wb_id v)) (binding_json v) w) = (x, w')"
      by (auto simp: save_binding_def Let_def op_simps atomic_write_json_def split: if_splits)
    moreover have "keeps same_files (if emit then binding_event E v else ret JNull)"
      by (auto intro: quiet_rules quiet_binding_event)
    ultimately show thesis using None v by (intro fresh) (auto dest: keepsD)
  next
    case (Some f)
    with assms v p id show thesis
      by (intro known [of v])
        (auto simp: save_binding_def Let_def op_simps load_binding_Inr split: if_splits)
  qed
qed

lemma save_binding_Inl: "save_binding E j emit w = (Inl e, w') \<Longrightarrow> w' = w"
  by (auto simp: save_binding_def Let_def op_simps atomic_write_json_def binding_event_def event_returns
      dest: load_binding_run split: if_splits)

lemma save_binding_effect:
  assumes run: "save_binding E j emit w = (r, w')"
  shows "bindings_evolve True (cfg_of E) w w'" and "writes_only binding_kinds w w'"
proof -
  have "bindings_evolve True (cfg_of E) w w' \<and> writes_only binding_kinds w w'"
  proof (cases r)
    case (Inl e)
    with save_binding_Inl run have "w' = w" by blast
    then show ?thesis by (auto intro: bindings.evolve_refl wo.order_refl)
  next
    case (Inr b)
    from run [unfolded Inr] show ?thesis
    proof (cases rule: save_binding_Inr)
      case fresh
      have v: "verify_binding_record (cfg_of E) (binding_json b) = Inr b"
        using fresh(1) by (rule bindings.reverify)
      have "bindings_evolve True (cfg_of E) w
          (write_file (binding_path (cfg_of E) (wb_id b)) (binding_json b) w)"
        using fresh(2) v by (intro bindings.evolve_put) (auto simp: stored_def)
      moreover have "writes_only binding_kinds w
          (write_file (binding_path (cfg_of E) (wb_id b)) (binding_json b) w)"
        using writes_binding [OF verify_binding_ok [OF v]] by (simp add: bindings.record_path_id [OF v])
      ultimately show ?thesis using fresh(3)
        by (blast intro: bindings.evolve_trans bindings.evolve_quiet wo.order_trans writes_only_quiet)
    qed (auto intro: bindings.evolve_refl wo.order_refl)
  qed
  then show "bindings_evolve True (cfg_of E) w w'" "writes_only binding_kinds w w'" by auto
qed

subsection \<open>Transitions\<close>

text \<open>A transition the lifecycle allows returns, and replaces the loaded binding.\<close>

lemma transition_binding_moves:
  assumes ld: "load_binding E ref w = (Inr b, w)" and t: "binding_status_of (py_strip to) = Some t"
    and tr: "t \<in> set (binding_transitions (Some (wb_status b)))"
  obtains v w' where "transition_binding_status E ref to why at w = (Inr v, w')"
    "wb_status v = t" "binding_follows b v" "wb_id v = wb_id b"
    "wb_reason v = (case why of None \<Rightarrow> wb_reason b | Some s \<Rightarrow> Some s)"
    "binding_ok (cfg_of E) v"
    "same_files (write_file (record_path (bindings_dir (cfg_of E)) (wb_id v)) (binding_json v) w) w'"
    "\<exists>x. v = b\<lparr>wb_status := t, wb_terminal_at := Some (py_strip x),
             wb_reason := (case why of None \<Rightarrow> wb_reason b | Some s \<Rightarrow> Some s)\<rparr> \<and>
           (\<forall>s. at = Some s \<longrightarrow> s \<noteq> [] \<longrightarrow> x = s)"
proof -
  from tr have na: "t \<noteq> Active" by (cases "wb_status b") auto
  obtain a w1 where at: "text_or_now E at w = (Inr a, w1)"
    by (cases "text_or_now E at w"; cases "fst (text_or_now E at w)")
      (auto simp: op_simps utc_now_iso_def now_utc_def text_or_now_def split: option.splits if_splits)
  have q1: "same_files w w1" using quiet_text_or_now at by (rule keepsD)
  let ?u = "b\<lparr>wb_status := t, wb_terminal_at := Some a,
    wb_reason := (case why of None \<Rightarrow> wb_reason b | Some s \<Rightarrow> Some s)\<rparr>"
  let ?v = "?u\<lparr>wb_terminal_at := Some (py_strip a)\<rparr>"
  have okb: "binding_ok (cfg_of E) b"
    using ld by (auto simp: load_binding_Inr dest: binding_at_ok)
  then have okv: "binding_ok (cfg_of E) ?v" by (simp add: binding_ok_def)
  have same: "verify_binding_record (cfg_of E) (binding_json ?u) = verify_binding_record (cfg_of E) (binding_json ?v)"
    by (simp add: verify_binding_record_def binding_json_def opt_field_def text_field_def
        terminal_at_field_def runner_field_def terminal_reason_field_def Let_def
        writable_field_def denied_field_def split: option.split)
  have v: "verify_binding_record (cfg_of E) (binding_json ?u) = Inr ?v"
    unfolding same using okv by (rule verify_binding_json)
  let ?w2 = "write_file (record_path (bindings_dir (cfg_of E)) (wb_id b)) (binding_json ?v) w1"
  have asr: "assert_binding_transition (Some (wb_status b)) t = Inr ()"
    using tr by (simp add: assert_binding_transition_def)
  obtain r w' where run: "transition_binding_status E ref to why at w = (r, w')" by fastforce
  have "bindM (text_or_now E (wb_terminal_at ?v)) (\<lambda>event_at.
          bindM (append_scope_event E ''write_scope.binding_status''
                   [(''binding_id'', JStr (wb_id ?v)), (''approval_id'', JStr (wb_approval ?v)),
                    (''from_status'', JStr (binding_status_text (wb_status b))),
                    (''to_status'', JStr (binding_status_text (wb_status ?v))),
                    (''reason'', json_opt why)] (Some event_at)) (\<lambda>_. ret ?v)) ?w2 = (r, w')"
    using run t tr ld na at v asr
    by (simp add: transition_binding_status_def Let_def
        bindM_run(1) [where m = "load_binding E ref", OF ld]
        bindM_run(1) [where m = "bindM (text_or_now E at) (\<lambda>at. ret (Some at))" and s = w and s' = w1 and a = "Some a"]
        bindM_run(1) [where m = "text_or_now E at", OF at] ret_def atomic_write_json_def
        bindM_run(1) [where m = "writes f" for f, OF writes_iff [THEN iffD2, OF conjI [OF refl refl]]])
  moreover from this have "r = Inr ?v"
    by (cases r) (auto simp: op_simps event_returns utc_now_iso_def now_utc_def text_or_now_def
        split: option.splits if_splits)
  ultimately have "same_files ?w2 w'" "r = Inr ?v"
    by (auto intro!: quiet_rules elim!: keepsD [rotated])
  then have "same_files (write_file (record_path (bindings_dir (cfg_of E)) (wb_id b)) (binding_json ?v) w) w'"
    using same_files_write [OF q1] by (blast intro: quiet.order_trans)
  moreover have "binding_follows b ?v"
    unfolding binding_follows_def using tr
    by (intro disjI2 exI [of _ t] exI [of _ "Some (py_strip a)"]
        exI [of _ "case why of None \<Rightarrow> wb_reason b | Some s \<Rightarrow> Some s"]) simp
  ultimately show thesis
    using run okv \<open>r = Inr ?v\<close> at by (intro that [of ?v w'] exI [of _ a]) (auto simp: text_or_now_def ret_def)
qed

text \<open>Any other transition raises before it writes.\<close>

lemma transition_binding_cases:
  assumes "transition_binding_status E ref to why at w = (r, w')"
  obtains (fault) e where "r = Inl e" "same_files w w'"
    | (moved) b v t where "load_binding E ref w = (Inr b, w)"
        "binding_status_of (py_strip to) = Some t" "t \<in> set (binding_transitions (Some (wb_status b)))"
        "r = Inr v" "wb_status v = t" "binding_follows b v" "wb_id v = wb_id b"
        "wb_reason v = (case why of None \<Rightarrow> wb_reason b | Some s \<Rightarrow> Some s)"
        "binding_ok (cfg_of E) v"
        "same_files (write_file (record_path (bindings_dir (cfg_of E)) (wb_id v)) (binding_json v) w) w'"
proof (cases "\<exists>b t. load_binding E ref w = (Inr b, w) \<and> binding_status_of (py_strip to) = Some t \<and>
    t \<in> set (binding_transitions (Some (wb_status b)))")
  case True
  then obtain b t where m: "load_binding E ref w = (Inr b, w)" "binding_status_of (py_strip to) = Some t"
    "t \<in> set (binding_transitions (Some (wb_status b)))" by blast
  show thesis
    by (rule transition_binding_moves [OF m, of why at]) (use assms m in \<open>auto intro!: moved\<close>)
next
  case False
  obtain r1 where ld: "load_binding E ref w = (r1, w)"
    using load_binding_run by (metis surj_pair)
  from assms False ld show thesis
    by (intro fault [of "projl r"])
      (cases r1; auto simp: transition_binding_status_def throw_def same_files_def bindM_def lift_res_def
        assert_binding_transition_def check_def Let_def split: option.splits if_splits)+
qed

lemma transition_binding_effect:
  assumes run: "transition_binding_status E ref to why at w = (r, w')"
  shows "bindings_evolve mint (cfg_of E) w w'" and "writes_only binding_kinds w w'"
proof -
  have "(bindings_placed (cfg_of E) w \<longrightarrow> bindings_evolve mint (cfg_of E) w w') \<and> writes_only binding_kinds w w'"
    using run
  proof (cases rule: transition_binding_cases)
    case (moved b v t)
    note v = verify_binding_json [OF moved(9)]
    have at: "binding_at (cfg_of E) w (record_path (bindings_dir (cfg_of E)) (py_strip ref)) = Some b"
      using moved(1) by (simp add: load_binding_Inr)
    have "bindings_evolve mint (cfg_of E) w w'" if pl: "bindings_placed (cfg_of E) w"
    proof -
      have "binding_at (cfg_of E) w (binding_path (cfg_of E) (wb_id v)) = Some b"
        using bindings.stored_name(1) [OF pl at] at moved(7) by simp
      then have "bindings_evolve mint (cfg_of E) w
          (write_file (binding_path (cfg_of E) (wb_id v)) (binding_json v) w)"
        using v moved(6) by (intro bindings.evolve_put) auto
      with moved(10) show ?thesis
        unfolding bindings.record_path_id [OF v] by (blast intro: bindings.evolve_trans bindings.evolve_quiet)
    qed
    moreover have "writes_only binding_kinds w w'"
      using writes_binding [OF moved(9), of w] moved(10) by (blast intro: wo.order_trans writes_only_quiet)
    ultimately show ?thesis by blast
  qed (auto intro: bindings.evolve_quiet writes_only_quiet)
  then show "bindings_evolve mint (cfg_of E) w w'" "writes_only binding_kinds w w'"
    by (auto simp: evolves_def)
qed

lemma transition_binding_rules:
  "keeps (bindings_evolve mint (cfg_of E)) (transition_binding_status E ref to why at)"
  "keeps (writes_only binding_kinds) (transition_binding_status E ref to why at)"
  using transition_binding_effect by (auto intro: keepsI)

text \<open>After a transition that returns, the store holds the returned binding.\<close>

lemma transition_binding_stored:
  assumes run: "transition_binding_status E ref to why at w = (Inr v, w')"
  obtains b where "load_binding E ref w = (Inr b, w)" "binding_follows b v" "wb_id v = wb_id b"
    "wb_status v \<in> set (binding_transitions (Some (wb_status b)))"
    "binding_status_of (py_strip to) = Some (wb_status v)"
    "binding_at (cfg_of E) w' (binding_path (cfg_of E) (wb_id v)) = Some v"
  using run
proof (cases rule: transition_binding_cases)
  case (moved b v' t)
  then have m: "v' = v" by simp
  note v = verify_binding_json [OF moved(9), unfolded m]
  have "binding_at (cfg_of E) w' (binding_path (cfg_of E) (wb_id v)) = Some v"
    using moved(10) v unfolding m
    by (simp add: same_files_stored bindings.record_path_id [OF v] stored_write)
  with moved m show thesis by (intro that [of b]) auto
qed simp_all

subsection \<open>Exclusion\<close>

definition binding_live :: "binding \<Rightarrow> bool" where
  "binding_live b \<longleftrightarrow> wb_status b = Active \<or> wb_status b = Suspended"

definition one_live_per_target :: "cfg \<Rightarrow> world \<Rightarrow> bool" where
  "one_live_per_target C w \<longleftrightarrow>
     (\<forall>p q a b. binding_at C w p = Some a \<longrightarrow> binding_at C w q = Some b \<longrightarrow>
        binding_live a \<longrightarrow> binding_live b \<longrightarrow> wb_target a = wb_target b \<longrightarrow> p = q)"

text \<open>
  The code tells the approvals of bindings apart by the reference as it was written: an alias of
  the file name loads the same approval and counts as another.
\<close>

definition one_blocking_per_reference :: "cfg \<Rightarrow> world \<Rightarrow> bool" where
  "one_blocking_per_reference C w \<longleftrightarrow>
     (\<forall>p q a b. binding_at C w p = Some a \<longrightarrow> binding_at C w q = Some b \<longrightarrow>
        approval_blocking (wb_status a) \<longrightarrow> approval_blocking (wb_status b) \<longrightarrow>
        wb_approval a = wb_approval b \<longrightarrow> p = q)"

definition bindings_exclusive :: "cfg \<Rightarrow> world \<Rightarrow> bool" where
  "bindings_exclusive C w \<longleftrightarrow>
     bindings_placed C w \<and> one_live_per_target C w \<and> one_blocking_per_reference C w"

text \<open>A binding that follows another is live or blocking only if that one was.\<close>

lemma follows_live:
  assumes "binding_follows a b"
  shows "binding_live b \<Longrightarrow> binding_live a" "approval_blocking (wb_status b) \<Longrightarrow> approval_blocking (wb_status a)"
    "wb_target b = wb_target a" "wb_approval b = wb_approval a"
  using assms unfolding binding_follows_def binding_live_def approval_blocking_def
  by (cases "wb_status a"; auto)+

lemma exclusive_evolve:
  assumes ev: "bindings_evolve False C w w'" and ex: "bindings_exclusive C w"
  shows "bindings_exclusive C w'"
proof -
  from ex have pl: "bindings_placed C w" by (simp add: bindings_exclusive_def)
  note prev = bindings.evolve_back [OF ev pl]
  show ?thesis
    unfolding bindings_exclusive_def one_live_per_target_def one_blocking_per_reference_def
  proof (intro conjI allI impI)
    show "bindings_placed C w'" using ev pl by (rule bindings.evolve_in_place)
  next
    fix p q a b
    assume ab: "binding_at C w' p = Some a" "binding_at C w' q = Some b"
      "binding_live a" "binding_live b" "wb_target a = wb_target b"
    obtain a0 b0 where o: "binding_at C w p = Some a0" "binding_follows a0 a"
      "binding_at C w q = Some b0" "binding_follows b0 b"
      using prev [OF ab(1)] prev [OF ab(2)] by blast
    show "p = q"
      using ex o(1,3) follows_live(1) [OF o(2) ab(3)] follows_live(1) [OF o(4) ab(4)]
        follows_live(3) [OF o(2)] follows_live(3) [OF o(4)] ab(5)
      unfolding bindings_exclusive_def one_live_per_target_def by simp
  next
    fix p q a b
    assume ab: "binding_at C w' p = Some a" "binding_at C w' q = Some b"
      "approval_blocking (wb_status a)" "approval_blocking (wb_status b)" "wb_approval a = wb_approval b"
    obtain a0 b0 where o: "binding_at C w p = Some a0" "binding_follows a0 a"
      "binding_at C w q = Some b0" "binding_follows b0 b"
      using prev [OF ab(1)] prev [OF ab(2)] by blast
    show "p = q"
      using ex o(1,3) follows_live(2) [OF o(2) ab(3)] follows_live(2) [OF o(4) ab(4)]
        follows_live(4) [OF o(2)] follows_live(4) [OF o(4)] ab(5)
      unfolding bindings_exclusive_def one_blocking_per_reference_def by simp
  qed
qed

text \<open>A new binding that conflicts with no stored one keeps the invariant.\<close>

lemma exclusive_add:
  assumes ex: "bindings_exclusive C w" and v: "verify_binding_record C (binding_json b) = Inr b"
    and nl: "\<And>p a. binding_at C w p = Some a \<Longrightarrow> wb_target a = wb_target b \<Longrightarrow> \<not> binding_live a"
    and nb: "\<And>p a. binding_at C w p = Some a \<Longrightarrow> wb_approval a = wb_approval b \<Longrightarrow>
               \<not> approval_blocking (wb_status a)"
  shows "bindings_exclusive C (write_file (binding_path C (wb_id b)) (binding_json b) w)"
proof -
  have pl: "bindings_placed C (write_file (binding_path C (wb_id b)) (binding_json b) w)"
    using ex unfolding bindings_exclusive_def in_place_def bindings.stored_put [OF v] by auto
  show ?thesis
    using ex pl nl nb
    unfolding bindings_exclusive_def one_live_per_target_def one_blocking_per_reference_def
      bindings.stored_put [OF v]
    by (auto split: if_splits)
qed

lemma exclusive_quiet: "same_files w w' \<Longrightarrow> bindings_exclusive C w \<Longrightarrow> bindings_exclusive C w'"
  by (rule exclusive_evolve [OF bindings.evolve_quiet])

subsection \<open>The bind gate\<close>

lemma as_binding_error_Inr: "as_binding_error m w = (Inr a, w') \<longleftrightarrow> m w = (Inr a, w')"
  by (auto simp: as_binding_error_def catchM_def throw_def split: prod.splits sum.splits option.splits)

lemma quiet_expiry: "keeps same_files (evaluate_expiry E now False a)"
proof (rule keepsI)
  fix w r w'
  assume "evaluate_expiry E now False a w = (r, w')"
  then show "same_files w w'"
    by (cases rule: evaluate_expiry_cases)
      (auto intro: quiet.order_refl keepsD [OF quiet_given_or_now])
qed

lemma quiet_verify_approval: "keeps same_files (verify_approval_record E j now ttl)"
  unfolding verify_approval_record_def by (auto intro!: quiet_rules quiet_expiry)

lemma quiet_is_approval_active: "keeps same_files (is_approval_active E j now)"
  unfolding is_approval_active_def by (intro quiet_rules quiet_verify_approval)

text \<open>An approval that is still approved after the evaluation has not reached its expiry.\<close>

lemma still_approved:
  assumes "evaluate_expiry E None persist a w = (Inr b, w')" "wa_status b = Approved"
  shows "b = a" "same_files w w'"
    "\<exists>x. parse_iso_utc (cfg_of E) (wa_expires a) = Inr x \<and> clock E (tick w) < x"
  using assms
  by (auto elim!: evaluate_expiry_cases simp: same_files_def given_or_now_def now_utc_def)

lemma bind_approval_Inr:
  assumes "bind_approval E ref w = (Inr (a, body), w')"
  obtains w1 x w2 where "load_approval E ref None True True w = (Inr a, w1)" "same_files w1 w'"
    "wa_status a = Approved" "body = wa_body a" "same_files w1 w2"
    "parse_iso_utc (cfg_of E) (wa_expires a) = Inr x" "clock E (tick w2) < x"
proof -
  from assms obtain loaded w1 w2 where
    ld: "load_approval E ref None True True w = (Inr loaded, w1)" and
    vr: "verify_approval_record E (approval_json loaded) None True w1 = (Inr a, w2)" and
    ac: "is_approval_active E (approval_json a) None w2 = (Inr True, w')" and
    bd: "validate_approval_body (body_json (wa_body a)) = Inr body"
    by (auto simp: bind_approval_def op_simps as_binding_error_Inr split: if_splits)
  have ok: "approval_ok (cfg_of E) loaded" using ld by (rule load_approval_ok)
  have v: "evaluate_expiry E None False loaded w1 = (Inr a, w2)"
    using vr verify_approval_json [OF ok] by (simp add: verify_approval_record_def)
  have oka: "approval_ok (cfg_of E) a"
    using v ok by (auto elim!: evaluate_expiry_cases intro: expired_ok)
  from ac obtain b where b: "evaluate_expiry E None False a w2 = (Inr b, w')" "wa_status b = Approved"
    using verify_approval_json [OF oka]
    by (auto simp: is_approval_active_def verify_approval_record_def op_simps)
  note sb = still_approved [OF b]
  with b(2) have st: "wa_status a = Approved" by simp
  note sa = still_approved [OF v st]
  have "body = wa_body a" using bd oka by (simp add: approval_ok_def)
  moreover obtain x where "parse_iso_utc (cfg_of E) (wa_expires a) = Inr x" "clock E (tick w2) < x"
    using sb(3) by blast
  moreover have "same_files w1 w2" "same_files w1 w'" using sa(2) sb(2) by (auto intro: quiet.order_trans)
  ultimately show thesis
    using ld sa(1) st by (intro that [of w1 w2 x]) auto
qed

lemma bind_approval_rules:
  "keeps (approvals_evolve mint (cfg_of E)) (bind_approval E ref)"
  "keeps (writes_only grant_kinds) (bind_approval E ref)"
proof -
  have q: "keeps same_files (as_binding_error (verify_approval_record E j None True))" for j
    unfolding as_binding_error_def
    by (rule quiet.keeps_catch [OF quiet_verify_approval]) (auto intro: quiet_rules split: if_splits)
  have l: "keeps (approvals_evolve mint (cfg_of E)) (as_binding_error (load_approval E ref None True True))"
    "keeps (writes_only grant_kinds) (as_binding_error (load_approval E ref None True True))"
    unfolding as_binding_error_def
    by (rule approvals.evo.keeps_catch [OF evolve_load_approval] wo.keeps_catch [OF writes_load_approval];
        auto intro: approvals.evo.keeps_rules wo.keeps_rules split: if_splits)+
  show "keeps (approvals_evolve mint (cfg_of E)) (bind_approval E ref)"
    unfolding bind_approval_def
    by (intro approvals.evo.keeps_rules l approvals.keeps_quiet [OF q]
        approvals.keeps_quiet [OF quiet_is_approval_active])
  show "keeps (writes_only grant_kinds) (bind_approval E ref)"
    unfolding bind_approval_def
    by (intro wo.keeps_rules l keeps_writes_only_quiet [OF q]
        keeps_writes_only_quiet [OF quiet_is_approval_active])
qed

lemma bind_record_Inr:
  assumes "bind_record E q ref run_ref a body ws w = (Inr b, w')"
  obtains writable denied ts w1 where
    "\<forall>c \<in> set (bindings_in (cfg_of E) w). wb_approval c = ref \<longrightarrow> \<not> approval_blocking (wb_status c)"
    "\<forall>c \<in> set (bindings_in (cfg_of E) w). wb_target c = target_id body \<longrightarrow> \<not> binding_live c"
    "resolve_writable_roots E (allowed_roots body) ws = Inr writable"
    "resolve_denied_roots E (denied_roots body) ws = Inr denied"
    "text_or_now E (br_bound_at q) w = (Inr ts, w1)"
    "save_binding E (binding_json
        \<lparr>wb_id = compute_binding_id (cfg_of E) ref run_ref ts (target_id body), wb_approval = ref,
         wb_run = run_ref, wb_target = target_id body, wb_bound_at = ts, wb_status = Active,
         wb_hash = wa_hash a, wb_sha = py_lower (base_sha body), wb_workspace = path_str ws,
         wb_writable = writable, wb_denied = denied,
         wb_runner = (case br_runner q of None \<Rightarrow> None
                      | Some t \<Rightarrow> if py_strip t = [] then None else Some (py_strip t)),
         wb_terminal_at = None, wb_reason = None\<rparr>) True w1 = (Inr b, w')"
proof -
  from assms obtain w1 w2 where bl: "approval_has_blocking_binding E ref w = (Inr None, w1)"
    and ac: "active_binding_for_target E (target_id body) w1 = (Inr None, w2)"
    by (auto simp: bind_record_def Let_def op_simps split: option.splits)
  note e = blocking_binding_run [OF bl] active_binding_run [OF ac]
  from e(1,3) have w: "w1 = w" "w2 = w" by auto
  have n: "\<forall>c \<in> set (bindings_in (cfg_of E) w). wb_target c = target_id body \<longrightarrow> \<not> binding_live c"
    using e(4) unfolding w by (auto simp: binding_live_def)
  from assms bl ac show thesis
    unfolding w
    by (auto simp: bind_record_def Let_def op_simps
        intro: that [OF e(2) n])
qed

lemma create_binding_Inr:
  assumes "create_binding E i q w = (Inr g, w')"
  obtains body ws w1 where
    "bind_approval E (py_strip i) w = (Inr (bg_approval g, body), w1)"
    "bind_target E q body = Inr ws"
    "bind_record E q (py_strip i) (py_strip (br_run q)) (bg_approval g) body ws w1 = (Inr (bg_binding g), w')"
    "bg_writable g = wb_writable (bg_binding g)" "bg_denied g = wb_denied (bg_binding g)"
    "bg_target g = target_id body" "bg_sha g = py_lower (base_sha body)" "bg_workspace g = path_str ws"
    "py_strip i \<noteq> []" "py_strip (br_run q) \<noteq> []"
  using assms
  by (auto simp: create_binding_def Let_def op_simps split: if_splits)

lemma bind_record_rules:
  "keeps (bindings_evolve True (cfg_of E)) (bind_record E q ref run_ref a body ws)"
  "keeps (writes_only binding_kinds) (bind_record E q ref run_ref a body ws)"
proof -
  have s: "keeps (bindings_evolve True (cfg_of E)) (save_binding E j True)"
    "keeps (writes_only binding_kinds) (save_binding E j True)" for j
    using save_binding_effect by (auto intro: keepsI)
  show "keeps (bindings_evolve True (cfg_of E)) (bind_record E q ref run_ref a body ws)"
    unfolding bind_record_def Let_def
    by (intro bindings.evo.keeps_rules s bindings.keeps_quiet [OF quiet_blocking]
        bindings.keeps_quiet [OF quiet_active] bindings.keeps_quiet [OF quiet_text_or_now])
      (auto intro: bindings.evo.keeps_rules split: option.splits)
  show "keeps (writes_only binding_kinds) (bind_record E q ref run_ref a body ws)"
    unfolding bind_record_def Let_def
    by (intro wo.keeps_rules s keeps_writes_only_quiet [OF quiet_blocking]
        keeps_writes_only_quiet [OF quiet_active] keeps_writes_only_quiet [OF quiet_text_or_now])
      (auto intro: wo.keeps_rules split: option.splits)
qed

lemma keeps_mono_kinds: "keeps (writes_only ks) m \<Longrightarrow> set ks \<subseteq> set ls \<Longrightarrow> keeps (writes_only ls) m"
  by (auto simp: keeps_def intro: writes_only_mono)

lemma approvals_by_bindings:
  "keeps (writes_only binding_kinds) m \<Longrightarrow> keeps (approvals_evolve mint C) m"
  by (rule approvals.keeps_other_kinds) (auto simp: apart_def)

lemma bindings_by_grants:
  "keeps (writes_only grant_kinds) m \<Longrightarrow> keeps (bindings_evolve mint C) m"
  by (rule bindings.keeps_other_kinds) (auto simp: apart_def)

lemma create_binding_rules:
  "keeps (approvals_evolve mint (cfg_of E)) (create_binding E i q)"
  "keeps (bindings_evolve True (cfg_of E)) (create_binding E i q)"
  "keeps (writes_only (grant_kinds @ binding_kinds)) (create_binding E i q)"
proof -
  show "keeps (approvals_evolve mint (cfg_of E)) (create_binding E i q)"
    unfolding create_binding_def Let_def split_def
    by (intro approvals.evo.keeps_rules bind_approval_rules
        approvals_by_bindings [OF bind_record_rules(2)])
  show "keeps (bindings_evolve True (cfg_of E)) (create_binding E i q)"
    unfolding create_binding_def Let_def split_def
    by (intro bindings.evo.keeps_rules bindings_by_grants [OF bind_approval_rules(2)] bind_record_rules)
  show "keeps (writes_only (grant_kinds @ binding_kinds)) (create_binding E i q)"
    unfolding create_binding_def Let_def split_def
    by (intro wo.keeps_rules keeps_mono_kinds [OF bind_approval_rules(2)]
        keeps_mono_kinds [OF bind_record_rules(2)]) auto
qed

subsection \<open>The gate keeps bindings exclusive\<close>

definition exclusive_kept :: "cfg \<Rightarrow> world \<Rightarrow> world \<Rightarrow> bool" where
  "exclusive_kept C w w' \<longleftrightarrow> (bindings_exclusive C w \<longrightarrow> bindings_exclusive C w')"

interpretation excl: state_order "exclusive_kept C" for C
  by unfold_locales (auto simp: exclusive_kept_def)

lemma exclusive_kept_evolve:
  "keeps (bindings_evolve False C) m \<Longrightarrow> keeps (exclusive_kept C) m"
  by (auto simp: keeps_def exclusive_kept_def intro: exclusive_evolve)

lemma bind_record_Inl:
  assumes "bind_record E q ref run_ref a body ws w = (Inl e, w')"
  shows "same_files w w'"
proof -
  have s: "same_files w1 w2 \<Longrightarrow> save_binding E j True w2 = (Inl e, w') \<Longrightarrow> same_files w1 w'" for j w1 w2
    using save_binding_Inl by blast
  show ?thesis
    using assms unfolding bind_record_def Let_def
    by (auto simp: op_simps quiet.order_refl split: option.splits
        dest!: keepsD [OF quiet_blocking] keepsD [OF quiet_active] keepsD [OF quiet_text_or_now]
        dest: save_binding_Inl intro: quiet.order_trans s)
qed

text \<open>What verification makes of a record about to be stored: its texts are trimmed.\<close>

definition binding_trim :: "binding \<Rightarrow> binding" where
  "binding_trim b = b\<lparr>wb_id := py_strip (wb_id b), wb_approval := py_strip (wb_approval b),
     wb_run := py_strip (wb_run b), wb_target := py_strip (wb_target b),
     wb_bound_at := py_strip (wb_bound_at b), wb_hash := py_strip (wb_hash b),
     wb_sha := py_lower (py_strip (wb_sha b)), wb_workspace := py_strip (wb_workspace b),
     wb_writable := map py_strip (wb_writable b), wb_denied := map py_strip (wb_denied b),
     wb_runner := (case wb_runner b of None \<Rightarrow> None
                   | Some t \<Rightarrow> if py_strip t = [] then None else Some (py_strip t)),
     wb_terminal_at := map_option py_strip (wb_terminal_at b)\<rparr>"

lemma absolute_roots_strip:
  "mapR (absolute_root f) (map JStr ts) = Inr us \<Longrightarrow> us = map py_strip ts"
  by (induction ts arbitrary: us) (auto simp: bindR_Inr_iff absolute_root_def Let_def split: if_splits)

lemma root_fields_strip:
  "writable_field r = Inr us \<Longrightarrow> jget r ''writable_roots'' = JArr (map JStr ts) \<Longrightarrow> us = map py_strip ts"
  "denied_field r = Inr vs \<Longrightarrow> jget r ''denied_roots'' = JArr (map JStr ds) \<Longrightarrow> vs = map py_strip ds"
proof -
  assume "writable_field r = Inr us" "jget r ''writable_roots'' = JArr (map JStr ts)"
  then have "mapR (absolute_root B_writable_absolute) (map JStr ts) = Inr us"
    by (cases ts) (simp_all add: writable_field_def del: mapR.simps)
  then show "us = map py_strip ts" by (rule absolute_roots_strip)
next
  assume "denied_field r = Inr vs" "jget r ''denied_roots'' = JArr (map JStr ds)"
  then have "mapR (absolute_root B_denied_absolute) (map JStr ds) = Inr vs"
    by (simp add: denied_field_def)
  then show "vs = map py_strip ds" by (rule absolute_roots_strip)
qed

lemma verify_binding_trim:
  assumes "verify_binding_record C (binding_json b) = Inr v"
  shows "v = binding_trim b"
proof -
  obtain r where r: "binding_json b = JObj r" by (simp add: binding_json_def)
  have f: "text_field r ''binding_id'' = py_strip (wb_id b)" "text_field r ''approval_id'' = py_strip (wb_approval b)"
    "text_field r ''run_id'' = py_strip (wb_run b)" "text_field r ''target_id'' = py_strip (wb_target b)"
    "text_field r ''bound_at'' = py_strip (wb_bound_at b)" "text_field r ''body_hash'' = py_strip (wb_hash b)"
    "text_field r ''base_sha'' = py_strip (wb_sha b)" "text_field r ''workspace_root'' = py_strip (wb_workspace b)"
    "text_field r ''status'' = binding_status_text (wb_status b)"
    "jget r ''writable_roots'' = JArr (map JStr (wb_writable b))"
    "jget r ''denied_roots'' = JArr (map JStr (wb_denied b))"
    using r by (auto simp: binding_json_def text_field_def)
  have g: "runner_field r = (case wb_runner b of None \<Rightarrow> None
      | Some t \<Rightarrow> if py_strip t = [] then None else Some (py_strip t))"
    "terminal_at_field r = map_option py_strip (wb_terminal_at b)" "terminal_reason_field r = wb_reason b"
    using r by (cases "wb_runner b"; cases "wb_terminal_at b"; cases "wb_reason b";
        auto simp: binding_json_def text_field_def runner_field_def terminal_at_field_def
        terminal_reason_field_def opt_field_def json_opt_def Let_def)+
  from assms obtain w d where wd: "writable_field r = Inr w" "denied_field r = Inr d"
    by (auto simp: r verify_binding_record_def Let_def bindR_Inr_iff f)
  show ?thesis
    using assms root_fields_strip(1) [OF wd(1) f(10)] root_fields_strip(2) [OF wd(2) f(11)]
    unfolding r verify_binding_record_def Let_def
    by (auto simp: f g wd bindR_check binding_trim_def split: if_split_asm)
qed

text \<open>A bind adds one new active binding, or returns the terminal one with its identifier.\<close>

lemma bind_record_outcome:
  assumes run: "bind_record E q ref run_ref a body ws w = (Inr b, w')"
    and pl: "bindings_placed (cfg_of E) w"
  shows "wb_approval b = py_strip ref" "wb_run b = py_strip run_ref" "wb_target b = py_strip (target_id body)"
    and "binding_at (cfg_of E) w' (binding_path (cfg_of E) (wb_id b)) = Some b"
    and "\<And>p c. binding_at (cfg_of E) w p = Some c \<Longrightarrow> wb_approval c = ref \<Longrightarrow> \<not> approval_blocking (wb_status c)"
    and "\<And>p c. binding_at (cfg_of E) w p = Some c \<Longrightarrow> wb_target c = target_id body \<Longrightarrow> \<not> binding_live c"
    and "(wb_status b = Active \<and> wb_hash b = py_strip (wa_hash a) \<and>
          wb_sha b = py_lower (py_strip (py_lower (base_sha body))) \<and>
          wb_workspace b = py_strip (path_str ws) \<and>
          map_sum id (map py_strip) (resolve_writable_roots E (allowed_roots body) ws) = Inr (wb_writable b) \<and>
          map_sum id (map py_strip) (resolve_denied_roots E (denied_roots body) ws) = Inr (wb_denied b) \<and>
          binding_at (cfg_of E) w (binding_path (cfg_of E) (wb_id b)) = None \<and>
          verify_binding_record (cfg_of E) (binding_json b) = Inr b \<and>
          same_files (write_file (binding_path (cfg_of E) (wb_id b)) (binding_json b) w) w') \<or>
        (binding_at (cfg_of E) w (binding_path (cfg_of E) (wb_id b)) = Some b \<and> same_files w w')"
proof -
  let ?C = "cfg_of E"
  obtain writable denied ts w1 where
    nb: "\<forall>c \<in> set (bindings_in ?C w). wb_approval c = ref \<longrightarrow> \<not> approval_blocking (wb_status c)" and
    nl: "\<forall>c \<in> set (bindings_in ?C w). wb_target c = target_id body \<longrightarrow> \<not> binding_live c" and
    rs: "resolve_writable_roots E (allowed_roots body) ws = Inr writable"
      "resolve_denied_roots E (denied_roots body) ws = Inr denied" and
    ts: "text_or_now E (br_bound_at q) w = (Inr ts, w1)" and
    sv: "save_binding E (binding_json
        \<lparr>wb_id = compute_binding_id (cfg_of E) ref run_ref ts (target_id body), wb_approval = ref,
         wb_run = run_ref, wb_target = target_id body, wb_bound_at = ts, wb_status = Active,
         wb_hash = wa_hash a, wb_sha = py_lower (base_sha body), wb_workspace = path_str ws,
         wb_writable = writable, wb_denied = denied,
         wb_runner = (case br_runner q of None \<Rightarrow> None
                      | Some t \<Rightarrow> if py_strip t = [] then None else Some (py_strip t)),
         wb_terminal_at = None, wb_reason = None\<rparr>) True w1 = (Inr b, w')"
      (is "save_binding E (binding_json ?r) True w1 = _")
    using run by (rule bind_record_Inr)
  have q: "same_files w w1" using quiet_text_or_now ts by (rule keepsD)
  show st: "\<And>p c. binding_at ?C w p = Some c \<Longrightarrow> wb_approval c = ref \<Longrightarrow> \<not> approval_blocking (wb_status c)"
    "\<And>p c. binding_at ?C w p = Some c \<Longrightarrow> wb_target c = target_id body \<Longrightarrow> \<not> binding_live c"
    using nb nl mem_bindings_in [OF pl] bindings.stored_name(1) [OF pl] by metis+
  have "(wb_approval b = py_strip ref \<and> wb_run b = py_strip run_ref \<and> wb_target b = py_strip (target_id body) \<and>
    binding_at ?C w' (binding_path ?C (wb_id b)) = Some b) \<and>
    ((wb_status b = Active \<and> wb_hash b = py_strip (wa_hash a) \<and>
          wb_sha b = py_lower (py_strip (py_lower (base_sha body))) \<and>
          wb_workspace b = py_strip (path_str ws) \<and>
          map_sum id (map py_strip) (resolve_writable_roots E (allowed_roots body) ws) = Inr (wb_writable b) \<and>
          map_sum id (map py_strip) (resolve_denied_roots E (denied_roots body) ws) = Inr (wb_denied b) \<and>
          binding_at ?C w (binding_path ?C (wb_id b)) = None \<and>
          verify_binding_record ?C (binding_json b) = Inr b \<and>
          same_files (write_file (binding_path ?C (wb_id b)) (binding_json b) w) w') \<or>
        (binding_at ?C w (binding_path ?C (wb_id b)) = Some b \<and> same_files w w'))"
    using sv
  proof (cases rule: save_binding_Inr)
    case fresh
    have t: "b = binding_trim ?r" using fresh(1) by (rule verify_binding_trim)
    have v: "verify_binding_record ?C (binding_json b) = Inr b"
      using fresh(1) by (rule bindings.reverify)
    have "same_files (write_file (binding_path ?C (wb_id b)) (binding_json b) w) w'"
      using same_files_write [OF q] fresh(3) by (rule quiet.order_trans)
    moreover have "binding_at ?C w' (binding_path ?C (wb_id b)) = Some b"
      using fresh(3) v by (simp add: same_files_stored stored_write)
    moreover have "binding_at ?C w (binding_path ?C (wb_id b)) = None"
      using fresh(2) q by (simp add: stored_def same_files_at)
    moreover have "wb_approval b = py_strip ref" "wb_run b = py_strip run_ref"
      "wb_target b = py_strip (target_id body)" "wb_status b = Active" "wb_hash b = py_strip (wa_hash a)"
      "wb_sha b = py_lower (py_strip (py_lower (base_sha body)))" "wb_workspace b = py_strip (path_str ws)"
      "wb_writable b = map py_strip writable" "wb_denied b = map py_strip denied"
      by (simp_all add: t binding_trim_def)
    ultimately show ?thesis using v rs by simp
  next
    case (known v)
    have t: "v = binding_trim ?r" using known(1) by (rule verify_binding_trim)
    have at: "binding_at ?C w (binding_path ?C (wb_id v)) = Some b"
      using known(3) q by (simp add: same_files_stored)
    have "wb_id v = wb_id b" using bindings.stored_name(1) [OF pl at] by simp
    moreover have "wb_approval b = py_strip ref" "wb_run b = py_strip run_ref"
      "wb_target b = py_strip (target_id body)"
      using known(4-7) by (simp_all add: t binding_trim_def)
    moreover have "same_files w w'" using q known(2) by simp
    ultimately show ?thesis using at by (simp add: same_files_stored)
  qed
  then show "wb_approval b = py_strip ref" "wb_run b = py_strip run_ref" "wb_target b = py_strip (target_id body)"
    "binding_at ?C w' (binding_path ?C (wb_id b)) = Some b"
    "(wb_status b = Active \<and> wb_hash b = py_strip (wa_hash a) \<and>
          wb_sha b = py_lower (py_strip (py_lower (base_sha body))) \<and>
          wb_workspace b = py_strip (path_str ws) \<and>
          map_sum id (map py_strip) (resolve_writable_roots E (allowed_roots body) ws) = Inr (wb_writable b) \<and>
          map_sum id (map py_strip) (resolve_denied_roots E (denied_roots body) ws) = Inr (wb_denied b) \<and>
          binding_at ?C w (binding_path ?C (wb_id b)) = None \<and>
          verify_binding_record ?C (binding_json b) = Inr b \<and>
          same_files (write_file (binding_path ?C (wb_id b)) (binding_json b) w) w') \<or>
        (binding_at ?C w (binding_path ?C (wb_id b)) = Some b \<and> same_files w w')"
    by blast+
qed

lemma exclusive_bind_record:
  assumes ref: "py_strip ref = ref" "py_strip (target_id body) = target_id body"
  shows "keeps (exclusive_kept (cfg_of E)) (bind_record E q ref run_ref a body ws)"
proof (rule keepsI)
  fix w r w'
  assume run: "bind_record E q ref run_ref a body ws w = (r, w')"
  show "exclusive_kept (cfg_of E) w w'"
    unfolding exclusive_kept_def
  proof
    assume ex: "bindings_exclusive (cfg_of E) w"
    then have pl: "bindings_placed (cfg_of E) w" by (simp add: bindings_exclusive_def)
    show "bindings_exclusive (cfg_of E) w'"
    proof (cases r)
      case (Inl e)
      with run ex show ?thesis by (blast intro: exclusive_quiet bind_record_Inl)
    next
      case (Inr b)
      note o = bind_record_outcome [OF run [unfolded Inr] pl]
      show ?thesis
        using o(7)
      proof
        assume n: "wb_status b = Active \<and> wb_hash b = py_strip (wa_hash a) \<and>
          wb_sha b = py_lower (py_strip (py_lower (base_sha body))) \<and>
          wb_workspace b = py_strip (path_str ws) \<and>
          map_sum id (map py_strip) (resolve_writable_roots E (allowed_roots body) ws) = Inr (wb_writable b) \<and>
          map_sum id (map py_strip) (resolve_denied_roots E (denied_roots body) ws) = Inr (wb_denied b) \<and>
          binding_at (cfg_of E) w (binding_path (cfg_of E) (wb_id b)) = None \<and>
          verify_binding_record (cfg_of E) (binding_json b) = Inr b \<and>
          same_files (write_file (binding_path (cfg_of E) (wb_id b)) (binding_json b) w) w'"
        have "bindings_exclusive (cfg_of E) (write_file (binding_path (cfg_of E) (wb_id b)) (binding_json b) w)"
          using n o(1,3,5,6) ref by (intro exclusive_add [OF ex]) auto
        with n show ?thesis by (blast intro: exclusive_quiet)
      qed (use ex in \<open>blast intro: exclusive_quiet\<close>)
    qed
  qed
qed

lemma bind_approval_frozen:
  "bind_approval E ref w = (Inr (a, body), w') \<Longrightarrow> approval_ok (cfg_of E) a \<and> frozen body \<and> body = wa_body a"
  by (elim bind_approval_Inr)
    (auto dest!: load_approval_ok simp: approval_ok_def dest: validate_body_Inr)

lemma exclusive_create_binding: "keeps (exclusive_kept (cfg_of E)) (create_binding E i q)"
proof (rule keepsI)
  fix w r w'
  assume run: "create_binding E i q w = (r, w')"
  have ba: "exclusive_kept (cfg_of E) w w1" if "bind_approval E (py_strip i) w = (ra, w1)" for ra w1
    using exclusive_kept_evolve [OF bindings_by_grants [OF bind_approval_rules(2)]] that by (rule keepsD)
  obtain ra w1 where a: "bind_approval E (py_strip i) w = (ra, w1)" by fastforce
  show "exclusive_kept (cfg_of E) w w'"
  proof (cases ra)
    case (Inl e)
    with run a ba show ?thesis
      by (auto simp: create_binding_def Let_def bindM_def throw_def excl.order_refl split: if_splits)
  next
    case (Inr ab)
    obtain ap body where ab: "ab = (ap, body)" by (cases ab)
    have fz: "frozen body" using bind_approval_frozen a Inr ab by blast
    then have t: "py_strip (target_id body) = target_id body" by (simp add: frozen_def)
    have "exclusive_kept (cfg_of E) w1 w2"
      if "bind_record E q (py_strip i) (py_strip (br_run q)) ap body ws w1 = (rb, w2)" for ws rb w2
      using exclusive_bind_record [OF py_strip_idem t] that by (rule keepsD)
    with run a [unfolded Inr ab] ba [OF a] show ?thesis
      by (auto simp: create_binding_def Let_def bindM_def throw_def lift_res_def ret_def excl.order_refl
          split: if_splits sum.splits prod.splits intro: excl.order_trans)
  qed
qed

subsection \<open>What a successful bind has checked\<close>

lemma create_binding_checks:
  assumes run: "create_binding E i q w = (Inr g, w')"
    and pa: "approvals_placed (cfg_of E) w" and pb: "bindings_placed (cfg_of E) w"
  shows "approval_at (cfg_of E) w' (record_path (approvals_dir (cfg_of E)) (py_strip i)) = Some (bg_approval g)"
    and "wa_status (bg_approval g) = Approved"
    and "\<exists>n x. parse_iso_utc (cfg_of E) (wa_expires (bg_approval g)) = Inr x \<and> clock E n < x"
    and "\<exists>ws. bind_target E q (wa_body (bg_approval g)) = Inr ws \<and> bg_workspace g = path_str ws"
    and "bg_target g = target_id (wa_body (bg_approval g))"
    and "bg_sha g = base_sha (wa_body (bg_approval g))"
    and "\<And>p c. binding_at (cfg_of E) w p = Some c \<Longrightarrow> wb_approval c = py_strip i \<Longrightarrow>
           \<not> approval_blocking (wb_status c)"
    and "\<And>p c. binding_at (cfg_of E) w p = Some c \<Longrightarrow> wb_target c = bg_target g \<Longrightarrow> \<not> binding_live c"
    and "binding_at (cfg_of E) w' (binding_path (cfg_of E) (wb_id (bg_binding g))) = Some (bg_binding g)"
    and "wb_approval (bg_binding g) = py_strip i" "wb_run (bg_binding g) = py_strip (br_run q)"
      "wb_target (bg_binding g) = bg_target g"
    and "wb_status (bg_binding g) = Active \<and>
           binding_at (cfg_of E) w (binding_path (cfg_of E) (wb_id (bg_binding g))) = None \<and>
           wb_hash (bg_binding g) = wa_hash (bg_approval g) \<and> wb_sha (bg_binding g) = bg_sha g \<and>
           wb_workspace (bg_binding g) = py_strip (bg_workspace g) \<or>
         (wb_status (bg_binding g) = Failed \<or> wb_status (bg_binding g) = Binding_revoked) \<and>
           binding_at (cfg_of E) w (binding_path (cfg_of E) (wb_id (bg_binding g))) = Some (bg_binding g)"
proof -
  let ?C = "cfg_of E" and ?a = "bg_approval g" and ?b = "bg_binding g"
  obtain body ws w1 where c: "bind_approval E (py_strip i) w = (Inr (?a, body), w1)"
    "bind_target E q body = Inr ws"
    "bind_record E q (py_strip i) (py_strip (br_run q)) ?a body ws w1 = (Inr ?b, w')"
    "bg_writable g = wb_writable ?b" "bg_denied g = wb_denied ?b"
    "bg_target g = target_id body" "bg_sha g = py_lower (base_sha body)" "bg_workspace g = path_str ws"
    using run by (rule create_binding_Inr)
  have fz: "approval_ok ?C ?a" "frozen body" "body = wa_body ?a" using bind_approval_frozen [OF c(1)] by auto
  then have clean: "py_strip (target_id body) = target_id body" "is_sha40 (base_sha body)"
    "py_strip (wa_hash ?a) = wa_hash ?a"
    by (auto simp: frozen_def approval_ok_def)
  have sha: "py_lower (base_sha body) = base_sha body" "py_strip (base_sha body) = base_sha body"
    using sha40_stable [OF clean(2)] by auto
  have wo1: "writes_only grant_kinds w w1" using bind_approval_rules(2) c(1) by (rule keepsD)
  have same: "binding_at ?C w1 p = binding_at ?C w p" for p
    by (rule bindings.stored_other_kinds [OF wo1 _ pb]) (auto simp: apart_def)
  have pb1: "bindings_placed ?C w1" using pb unfolding in_place_def same .
  note o = bind_record_outcome [OF c(3) pb1, unfolded same]
  show "\<And>p d. binding_at ?C w p = Some d \<Longrightarrow> wb_approval d = py_strip i \<Longrightarrow> \<not> approval_blocking (wb_status d)"
    and nl: "\<And>p d. binding_at ?C w p = Some d \<Longrightarrow> wb_target d = bg_target g \<Longrightarrow> \<not> binding_live d"
    using o(5,6) c(6) by auto
  show "\<exists>ws. bind_target E q (wa_body ?a) = Inr ws \<and> bg_workspace g = path_str ws"
    "bg_target g = target_id (wa_body ?a)" "bg_sha g = base_sha (wa_body ?a)"
    using c(2,6-8) fz(3) sha by auto
  show "binding_at ?C w' (binding_path ?C (wb_id ?b)) = Some ?b" by (rule o(4))
  show ap: "wb_approval ?b = py_strip i" and "wb_run ?b = py_strip (br_run q)" "wb_target ?b = bg_target g"
    using o(1-3) clean c(6) by simp_all
  show "wb_status ?b = Active \<and> binding_at ?C w (binding_path ?C (wb_id ?b)) = None \<and>
      wb_hash ?b = wa_hash ?a \<and> wb_sha ?b = bg_sha g \<and> wb_workspace ?b = py_strip (bg_workspace g) \<or>
    (wb_status ?b = Failed \<or> wb_status ?b = Binding_revoked) \<and>
      binding_at ?C w (binding_path ?C (wb_id ?b)) = Some ?b"
    using o(7)
  proof
    assume k: "binding_at ?C w (binding_path ?C (wb_id ?b)) = Some ?b \<and> same_files w1 w'"
    then have "\<not> approval_blocking (wb_status ?b)" using o(5) ap by blast
    with k show ?thesis by (cases "wb_status ?b") (auto simp: approval_blocking_def)
  qed (use clean sha c(7,8) in auto)
  obtain w0 x w2 where ld: "load_approval E (py_strip i) None True True w = (Inr ?a, w0)" "same_files w0 w1"
    "wa_status ?a = Approved" "body = wa_body ?a" "same_files w0 w2"
    "parse_iso_utc ?C (wa_expires ?a) = Inr x" "clock E (tick w2) < x"
    using c(1) by (rule bind_approval_Inr)
  show "wa_status ?a = Approved" "\<exists>n x. parse_iso_utc ?C (wa_expires ?a) = Inr x \<and> clock E n < x"
    using ld by blast+
  note l = load_approval_stored [OF ld(1) pa]
  have "approval_at ?C w1 (approval_path ?C (wa_id ?a)) = Some ?a" "approvals_placed ?C w1"
    using l(1,2) same_files_stored [OF ld(2)] unfolding in_place_def by metis+
  moreover have "writes_only binding_kinds w1 w'" using bind_record_rules(2) c(3) by (rule keepsD)
  ultimately have "approval_at ?C w' (approval_path ?C (wa_id ?a)) = Some ?a"
    using approvals.stored_other_kinds [of binding_kinds w1 w' ?C] by (simp add: apart_def)
  then show "approval_at ?C w' (record_path (approvals_dir ?C) (py_strip i)) = Some ?a"
    using l(6) by simp
qed

end
