(* ===== verification/Enforcement.thy ===== *)
theory Enforcement
  imports Binding_Laws
begin

section \<open>Write-scope enforcement\<close>

text \<open>
  \<open>write_scope_enforcement.py\<close>: changed paths are classified against the effective roots of
  a binding (denied roots win), out-of-scope paths are restored, a mutation receipt is
  written, and the binding and its approval move to their next status.
\<close>

subsection \<open>Paths against a scope\<close>

record scope_roots =
  sr_workspace :: ppath
  sr_allowed :: "ppath list"
  sr_denied :: "ppath list"

definition path_matches_root :: "ppath \<Rightarrow> ppath \<Rightarrow> bool" where
  "path_matches_root abs_path root \<longleftrightarrow> relative_to abs_path root \<noteq> None"

datatype norm_path = Rejected string | Normal ppath string

definition as_posix :: "string \<Rightarrow> string" where
  "as_posix s = map (\<lambda>c. if c = CHR 0x5C then CHR ''/'' else c) s"

definition normalize_workspace_path :: "env \<Rightarrow> string \<Rightarrow> ppath \<Rightarrow> exn + norm_path" where
  "normalize_workspace_path E path_text workspace_root =
     (let raw = py_strip path_text in
      if raw = [] then Inr (Rejected ''empty_path'')
      else
        bindR (full_path E workspace_root) (\<lambda>workspace.
        if \<not> starts_with raw ''/'' \<and> ''..'' \<in> set (snd (py_path raw))
        then Inr (Rejected ''path_traversal'')
        else
          let candidate = (if starts_with raw ''/'' then py_path raw
                           else path_join workspace (py_path raw)) in
          (case realpath E candidate of
             None \<Rightarrow>
               (case unresolved candidate of
                  RuntimeErr _ \<Rightarrow> Inr (Rejected ''path_resolve_failed'')
                | e \<Rightarrow> Inl e)
           | Some resolved \<Rightarrow>
               (case relative_to resolved workspace of
                  None \<Rightarrow> Inr (Rejected ''symlink_or_escape_outside_workspace'')
                | Some rel \<Rightarrow>
                    if is_link E candidate \<and> relative_to resolved workspace = None
                    then Inr (Rejected ''symlink_escape'')
                    else Inr (Normal resolved (as_posix (path_str rel)))))))"

text \<open>\<open>(in_scope, repo-relative or raw path, reason)\<close>.\<close>

definition path_is_within_effective_scope ::
  "env \<Rightarrow> string \<Rightarrow> scope_roots \<Rightarrow> exn + (bool \<times> string option \<times> string option)" where
  "path_is_within_effective_scope E path_text scope =
     bindR (normalize_workspace_path E path_text (sr_workspace scope)) (\<lambda>n.
     Inr (case n of
            Rejected err \<Rightarrow>
              (False, (if py_strip path_text = [] then None else Some (py_strip path_text)), Some err)
          | Normal absolute rel \<Rightarrow>
              if \<not> list_ex (path_matches_root absolute) (sr_allowed scope)
              then (False, Some rel, Some ''outside_allowed_roots'')
              else if list_ex (path_matches_root absolute) (sr_denied scope)
              then (False, Some rel, Some ''denied_root'')
              else (True, Some rel, None)))"

text \<open>The loop of \<open>classify_changed_paths\<close>; the keys seen so far are those already split.\<close>

fun classify_from ::
  "env \<Rightarrow> scope_roots \<Rightarrow> string list \<Rightarrow> string list \<Rightarrow> string list \<Rightarrow> exn + (string list \<times> string list)" where
  "classify_from E scope [] ins outs = Inr (ins, outs)"
| "classify_from E scope (raw # rest) ins outs =
     bindR (path_is_within_effective_scope E raw scope) (\<lambda>(ok, rel, err).
     let key = (case rel of Some (c # cs) \<Rightarrow> c # cs | _ \<Rightarrow> py_strip raw) in
     if key = [] \<or> key \<in> set ins \<or> key \<in> set outs then classify_from E scope rest ins outs
     else if ok then classify_from E scope rest (ins @ [key]) outs
     else classify_from E scope rest ins (outs @ [key]))"

definition classify_changed_paths ::
  "env \<Rightarrow> string list \<Rightarrow> scope_roots \<Rightarrow> exn + (string list \<times> string list)" where
  "classify_changed_paths E changed scope = classify_from E scope changed [] []"

definition load_scope_roots_for_binding :: "env \<Rightarrow> binding \<Rightarrow> scope_roots run" where
  "load_scope_roots_for_binding E b =
     bindM (catchM (load_approval E (wb_approval b) None True True)
              (\<lambda>e. if is_approval_error e then Some (throw (EnforcementError (E_text (exn_text e))))
                    else None)) (\<lambda>a.
     bindM (lift_res (validate_approval_body (body_json (wa_body a)))) (\<lambda>body.
     bindM (lift_res (full_path E (py_path (wb_workspace b)))) (\<lambda>workspace.
     bindM (catchM (bindM (lift_res (resolve_writable_roots E (allowed_roots body) workspace)) (\<lambda>al.
                    bindM (lift_res (resolve_denied_roots E (denied_roots body) workspace)) (\<lambda>dn.
                    ret (map py_path al))))
              (\<lambda>e. if is_binding_error e then Some (throw (EnforcementError (E_text (exn_text e))))
                    else None)) (\<lambda>allowed.
     bindM (if wb_writable b \<noteq> []
            then lift_res (mapR (\<lambda>p. resolve_path E (py_path p)) (wb_writable b))
            else ret allowed) (\<lambda>frozen_allowed.
     bindM (lift_res (mapR (\<lambda>p. resolve_path E (py_path p)) (wb_denied b))) (\<lambda>denied.
     ret \<lparr>sr_workspace = workspace, sr_allowed = frozen_allowed, sr_denied = denied\<rparr>))))))"

subsection \<open>Restoring paths\<close>

text \<open>
  A path removed earlier in the same call, or below a removed directory, is gone; otherwise
  the file system is the one the call found.
\<close>

fun removes :: "restore_act \<Rightarrow> ppath \<Rightarrow> bool" where
  "removes (Git_restore root spec) target = False"
| "removes (Unlink p) target = (target = p)"
| "removes (Rmtree p) target = under target p"

text \<open>
  The three git commands take the name as a pathspec: \<open>git_tracked\<close> and \<open>git_dirty\<close> answer for
  whatever git matches with it, after what was done before, and \<open>git restore\<close> restores all of that. The list kept is of the
  names to report with what was done for each.
\<close>

definition restore_one ::
  "env \<Rightarrow> ppath \<Rightarrow> string \<Rightarrow> (string \<times> restore_act) list \<Rightarrow> (string \<times> restore_act) list run" where
  "restore_one E root rel acts =
     (let target = path_join root (py_path rel);
          gone = list_ex (\<lambda>(_, a). removes a target) acts;
          act = (\<lambda>a. bindM (writes (\<lambda>w. w\<lparr>restores := restores w @ [a]\<rparr>)) (\<lambda>_. ret (acts @ [(rel, a)]))) in
      bindM (case restore_exc E rel of Some m \<Rightarrow> throw (OtherErr m) | None \<Rightarrow> ret ()) (\<lambda>_.
      if git_tracked E (map snd acts) root rel then
        (if git_dirty E (map snd acts) root rel then act (Git_restore root rel) else ret acts)
      else if \<not> gone \<and> (is_link E target \<or> is_regular E target) then act (Unlink target)
      else if \<not> gone \<and> is_dir E target then act (Rmtree target)
      else ret acts))"

definition restore_paths :: "env \<Rightarrow> ppath \<Rightarrow> string list \<Rightarrow> string list run" where
  "restore_paths E workspace_root paths =
     bindM (lift_res (full_path E workspace_root)) (\<lambda>root.
     bindM (foldM_op (restore_one E root)
              (sort (remdups (filter (\<lambda>t. t \<noteq> []) (map py_strip paths)))) []) (\<lambda>acts.
     ret (sort (uniq (map fst acts)))))"

subsection \<open>Mutation receipts\<close>

datatype compliance = Within_scope | Scope_exceeded | Base_sha_mismatch | No_mutation | Partial

fun compliance_text :: "compliance \<Rightarrow> string" where
  "compliance_text Within_scope = ''within_scope''"
| "compliance_text Scope_exceeded = ''scope_exceeded''"
| "compliance_text Base_sha_mismatch = ''base_sha_mismatch''"
| "compliance_text No_mutation = ''no_mutation''"
| "compliance_text Partial = ''partial''"

definition compliance_of :: "string \<Rightarrow> compliance option" where
  "compliance_of s =
     (if s = ''within_scope'' then Some Within_scope else if s = ''scope_exceeded'' then Some Scope_exceeded
      else if s = ''base_sha_mismatch'' then Some Base_sha_mismatch
      else if s = ''no_mutation'' then Some No_mutation else if s = ''partial'' then Some Partial
      else None)"

record receipt =
  mr_id :: string
  mr_run :: string
  mr_binding :: string
  mr_approval :: string
  mr_target :: string
  mr_sha :: string
  mr_changed :: "string list"
  mr_in :: "string list"
  mr_out :: "string list"
  mr_restored :: "string list"
  mr_compliance :: compliance
  mr_binding_status :: string
  mr_approval_status :: string
  mr_created :: string
  mr_evaluated :: string
  mr_workspace :: "string option"
  mr_stop :: "string option"
  mr_failure :: "string option"
  mr_revocation :: "string option"
  mr_allowed :: "string list option"
  mr_denied :: "string list option"

definition compute_receipt_id :: "cfg \<Rightarrow> string \<Rightarrow> string \<Rightarrow> string \<Rightarrow> string \<Rightarrow> string" where
  "compute_receipt_id C binding_id run_id evaluated_at cmpl =
     short_id C ''wmr-'' (binding_id @ '':'' @ run_id @ '':'' @ evaluated_at @ '':'' @ cmpl)"

definition opt_list :: "string \<Rightarrow> string list option \<Rightarrow> (string \<times> json) list" where
  "opt_list k v = (case v of None \<Rightarrow> [] | Some xs \<Rightarrow> [(k, JArr (map JStr xs))])"

definition receipt_json :: "receipt \<Rightarrow> json" where
  "receipt_json r = JObj
     ([(''kind'', JStr ''mutation_receipt''), (''schema_version'', JInt 1),
       (''receipt_id'', JStr (mr_id r)), (''run_id'', JStr (mr_run r)),
       (''binding_id'', JStr (mr_binding r)), (''approval_id'', JStr (mr_approval r)),
       (''target_id'', JStr (mr_target r)), (''base_sha'', JStr (mr_sha r)),
       (''changed_paths'', JArr (map JStr (mr_changed r))),
       (''in_scope_paths'', JArr (map JStr (mr_in r))),
       (''out_of_scope_paths'', JArr (map JStr (mr_out r))),
       (''restored_paths'', JArr (map JStr (mr_restored r))),
       (''compliance'', JStr (compliance_text (mr_compliance r))),
       (''binding_status'', JStr (mr_binding_status r)),
       (''approval_status'', JStr (mr_approval_status r)),
       (''created_at'', JStr (mr_created r)), (''evaluated_at'', JStr (mr_evaluated r)),
       (''rollback_atomic'', JBool False)]
      @ opt_field ''workspace_root'' (mr_workspace r) @ opt_field ''stop_reason'' (mr_stop r)
      @ opt_field ''failure_reason'' (mr_failure r) @ opt_field ''revocation_id'' (mr_revocation r)
      @ opt_list ''effective_allowed_roots'' (mr_allowed r) @ opt_list ''denied_roots'' (mr_denied r))"

definition receipt_str_list :: "(string \<times> json) list \<Rightarrow> string \<Rightarrow> exn + string list" where
  "receipt_str_list r key =
     (case jget r key of
        JArr items \<Rightarrow> Inr (filter (\<lambda>t. t \<noteq> []) (map (\<lambda>i. py_strip (py_str i)) items))
      | _ \<Rightarrow> Inl (EnforcementError (E_list key)))"

definition receipt_opt_list :: "(string \<times> json) list \<Rightarrow> string \<Rightarrow> exn + string list option" where
  "receipt_opt_list r key =
     (if jget r key = JNull then Inr None
      else bindR (receipt_str_list r key) (\<lambda>xs. Inr (Some xs)))"

definition receipt_opt_text :: "(string \<times> json) list \<Rightarrow> string \<Rightarrow> string option" where
  "receipt_opt_text r key = (if jget r key = JNull then None else Some (str_or_empty (jget r key)))"

definition verify_receipt_record :: "cfg \<Rightarrow> json \<Rightarrow> exn + receipt" where
  "verify_receipt_record C record =
     (case record of
        JObj r \<Rightarrow>
          bindR (check (jget r ''kind'' \<noteq> JStr ''mutation_receipt'') (EnforcementError E_kind)) (\<lambda>_.
          bindR (check (\<not> is_one (jget r ''schema_version'')) (EnforcementError E_schema)) (\<lambda>_.
          let rid = text_field r ''receipt_id''; run_id = text_field r ''run_id'';
              bid = text_field r ''binding_id''; aid = text_field r ''approval_id'';
              target = text_field r ''target_id''; sha = py_lower (text_field r ''base_sha'');
              created = text_field r ''created_at''; evaluated = text_field r ''evaluated_at'' in
          bindR (check (rid = [] \<or> run_id = [] \<or> bid = [] \<or> aid = [])
                   (EnforcementError E_identity_fields)) (\<lambda>_.
          bindR (check (target = [] \<or> created = [] \<or> evaluated = [])
                   (EnforcementError E_metadata_fields)) (\<lambda>_.
          case compliance_of (text_field r ''compliance'') of
            None \<Rightarrow> Inl (EnforcementError (E_compliance (text_field r ''compliance'')))
          | Some cmpl \<Rightarrow>
          bindR (check (\<not> is_sha40 sha) (EnforcementError (E_sha sha))) (\<lambda>_.
          let expected = compute_receipt_id C bid run_id evaluated (compliance_text cmpl) in
          bindR (check (rid \<noteq> expected) (EnforcementError (E_id expected rid))) (\<lambda>_.
          bindR (receipt_str_list r ''changed_paths'') (\<lambda>changed.
          bindR (receipt_str_list r ''in_scope_paths'') (\<lambda>ins.
          bindR (receipt_str_list r ''out_of_scope_paths'') (\<lambda>outs.
          bindR (receipt_str_list r ''restored_paths'') (\<lambda>restored.
          bindR (receipt_opt_list r ''effective_allowed_roots'') (\<lambda>allowed.
          bindR (receipt_opt_list r ''denied_roots'') (\<lambda>denied.
          Inr \<lparr>mr_id = rid, mr_run = run_id, mr_binding = bid, mr_approval = aid,
               mr_target = target, mr_sha = sha, mr_changed = changed, mr_in = ins, mr_out = outs,
               mr_restored = restored, mr_compliance = cmpl,
               mr_binding_status = text_field r ''binding_status'',
               mr_approval_status = text_field r ''approval_status'',
               mr_created = created, mr_evaluated = evaluated,
               mr_workspace = map_option py_strip (receipt_opt_text r ''workspace_root''),
               mr_stop = receipt_opt_text r ''stop_reason'',
               mr_failure = receipt_opt_text r ''failure_reason'',
               mr_revocation = receipt_opt_text r ''revocation_id'',
               mr_allowed = allowed, mr_denied = denied\<rparr>))))))))))))
      | _ \<Rightarrow> Inl (EnforcementError E_not_object))"

definition save_receipt :: "env \<Rightarrow> json \<Rightarrow> receipt run" where
  "save_receipt E record =
     (let C = cfg_of E in
      bindM (lift_res (verify_receipt_record C record)) (\<lambda>v.
      bindM (atomic_write_json (record_path (receipts_dir C) (mr_id v)) (receipt_json v)) (\<lambda>_.
      bindM (append_scope_event E ''write_scope.mutation_receipt''
               [(''receipt_id'', JStr (mr_id v)), (''binding_id'', JStr (mr_binding v)),
                (''approval_id'', JStr (mr_approval v)), (''run_id'', JStr (mr_run v)),
                (''compliance'', JStr (compliance_text (mr_compliance v))),
                (''binding_status'', JStr (mr_binding_status v)),
                (''approval_status'', JStr (mr_approval_status v)),
                (''stop_reason'', json_opt (mr_stop v))] (Some (mr_evaluated v))) (\<lambda>_.
      ret v))))"

definition load_receipt :: "env \<Rightarrow> string \<Rightarrow> receipt run" where
  "load_receipt E receipt_id =
     (let ref = py_strip receipt_id; C = cfg_of E in
      bindM (raise_if (ref = []) (EnforcementError E_ref_required)) (\<lambda>_.
      bindM (read_json (record_path (receipts_dir C) ref)
               (EnforcementError (E_not_found ref)) (EnforcementError (E_corrupt ref))) (\<lambda>raw.
      lift_res (verify_receipt_record C raw))))"

definition receipts_in :: "cfg \<Rightarrow> world \<Rightarrow> receipt list" where
  "receipts_in C w =
     concat (map (\<lambda>name. case stored verify_receipt_record C w (receipts_dir C @ [name]) of
         None \<Rightarrow> [] | Some r \<Rightarrow> [r]) (glob_names (receipts_dir C) ''wmr-'' w))"

definition list_receipts ::
  "env \<Rightarrow> string option \<Rightarrow> string option \<Rightarrow> string option \<Rightarrow> receipt list run" where
  "list_receipts E binding_id approval_id run_id =
     reads (\<lambda>w. sort_key (\<lambda>r. (mr_evaluated r, mr_id r))
       (filter (\<lambda>r. (binding_id = None \<or> binding_id = Some (mr_binding r)) \<and>
                     (approval_id = None \<or> approval_id = Some (mr_approval r)) \<and>
                     (run_id = None \<or> run_id = Some (mr_run r))) (receipts_in (cfg_of E) w)))"

subsection \<open>Authority\<close>

text \<open>\<open>value or default\<close> for an optional text.\<close>

definition or_text :: "string option \<Rightarrow> string \<Rightarrow> string" where
  "or_text v d = (case v of Some (c # cs) \<Rightarrow> c # cs | _ \<Rightarrow> d)"

definition consume_approval :: "env \<Rightarrow> string \<Rightarrow> string \<Rightarrow> approval run" where
  "consume_approval E approval_id why =
     bindM (transition_approval_status E approval_id ''consumed'' None True) (\<lambda>updated.
     bindM (append_scope_event E ''write_scope.consumed''
              [(''approval_id'', JStr (wa_id updated)),
               (''reason'', JStr (or_text (Some (py_strip why)) ''successful_in_scope_mutation''))] None) (\<lambda>_.
     ret updated))"

definition revoke_approval_for_breach :: "env \<Rightarrow> string \<Rightarrow> string \<Rightarrow> (approval \<times> revocation) run" where
  "revoke_approval_for_breach E approval_id why =
     bindM (revoke_approval E approval_id (or_text (Some (py_strip why)) ''scope_exceeded'')
              ''runtime:write-scope-enforcement'' ''operator_asserted'' None None) (\<lambda>(a, r, again).
     ret (a, r))"

definition binding_workspace :: "binding \<Rightarrow> ppath option \<Rightarrow> ppath" where
  "binding_workspace b given = (case given of Some p \<Rightarrow> p | None \<Rightarrow> py_path (wb_workspace b))"

text \<open>\<open>(stop_reason, detail)\<close>, or nothing while the authority holds.\<close>

definition check_authority_checkpoint ::
  "env \<Rightarrow> binding \<Rightarrow> ppath option \<Rightarrow> bool \<Rightarrow> int option \<Rightarrow> (string \<times> string) option run" where
  "check_authority_checkpoint E b workspace check_base_sha now =
     (if \<not> binding_live b then
        ret (Some (''write_scope_binding_not_active'',
          ''binding status='' @ repr_str (binding_status_text (wb_status b))))
      else
        bindM (catchM (bindM (load_approval E (wb_approval b) now True True) (\<lambda>a. ret (Inr a)))
                 (\<lambda>e. if is_approval_error e then Some (ret (Inl (exn_text e))) else None)) (\<lambda>loaded.
        case loaded of
          Inl detail \<Rightarrow> ret (Some (''write_scope_revoked'', detail))
        | Inr a \<Rightarrow>
            (case wa_status a of
               Expired \<Rightarrow> ret (Some (''write_scope_expired'', ''approval expired: '' @ wa_id a))
             | Revoked \<Rightarrow> ret (Some (''write_scope_revoked'', ''approval revoked: '' @ wa_id a))
             | Consumed \<Rightarrow>
                 ret (Some (''write_scope_approval_consumed'', ''approval consumed: '' @ wa_id a))
             | Approved \<Rightarrow>
                 bindM (is_approval_active E (approval_json a) None) (\<lambda>active.
                 if \<not> active then
                   ret (Some (''write_scope_revoked'',
                     ''approval not active: status='' @ approval_status_text (wa_status a)))
                 else if \<not> check_base_sha then ret None
                 else
                   bindM (catchM (bindM (lift_res (git_rev_parse_head E (binding_workspace b workspace)))
                                    (\<lambda>sha. ret (Inr sha)))
                            (\<lambda>e. if is_binding_error e then Some (ret (Inl (exn_text e))) else None)) (\<lambda>head.
                   case head of
                     Inl detail \<Rightarrow> ret (Some (''write_scope_base_sha_mismatch'', detail))
                   | Inr current \<Rightarrow>
                       if current \<noteq> py_lower (wb_sha b) then
                         ret (Some (''write_scope_base_sha_mismatch'',
                           ''base_sha mismatch: approval='' @ py_lower (wb_sha b) @
                           '' workspace_head='' @ current))
                       else ret None)))))"

subsection \<open>Terminal enforcement\<close>

record verdict =
  vd_compliance :: compliance
  vd_stop :: "string option"
  vd_failure :: "string option"
  vd_failed :: bool
  vd_restored :: "string list"

record enforce_request =
  eq_changed :: "string list"
  eq_runner_failed :: bool
  eq_runner_stop :: "string option"
  eq_workspace :: "ppath option"
  eq_restore :: bool
  eq_evaluated :: "string option"
  eq_now :: "int option"

record enforcement_outcome =
  eo_receipt :: receipt
  eo_binding :: binding
  eo_approval :: approval
  eo_failed :: bool
  eo_stop :: "string option"
  eo_remaining :: "string list"

text \<open>Lines 661 to 677: the frozen roots of the binding, also when the approval is gone.\<close>

definition enforcement_scope :: "env \<Rightarrow> binding \<Rightarrow> scope_roots run" where
  "enforcement_scope E b =
     catchM (load_scope_roots_for_binding E b)
       (\<lambda>e. if is_enforcement_error e then
               Some (ret \<lparr>sr_workspace = py_path (wb_workspace b),
                          sr_allowed = map py_path (wb_writable b),
                          sr_denied = map py_path (wb_denied b)\<rparr>)
             else None)"

text \<open>Lines 683 to 737: compliance, stop reason and failure, and the restored paths.\<close>

definition classify_compliance ::
  "enforce_request \<Rightarrow> (string \<times> string) option \<Rightarrow> string list \<Rightarrow> string list \<Rightarrow> verdict" where
  "classify_compliance q stop ins outs =
     (case stop of
        Some (s, detail) \<Rightarrow>
          \<lparr>vd_compliance =
             (if s = ''write_scope_base_sha_mismatch'' then Base_sha_mismatch
              else if outs \<noteq> [] then Scope_exceeded
              else if ins \<noteq> [] then Partial else No_mutation),
           vd_stop = Some s, vd_failure = Some detail, vd_failed = True, vd_restored = []\<rparr>
      | None \<Rightarrow>
          if outs \<noteq> [] then
            \<lparr>vd_compliance = Scope_exceeded, vd_stop = Some ''write_scope_exceeded'',
             vd_failure = Some (''out_of_scope_paths='' @ py_join '','' (take 20 outs)),
             vd_failed = True, vd_restored = []\<rparr>
          else if eq_runner_failed q then
            (if ins \<noteq> [] then
               \<lparr>vd_compliance = Partial,
                vd_stop = Some (or_text (eq_runner_stop q) ''write_scope_partial''),
                vd_failure = Some (or_text (eq_runner_stop q) ''runner_failed_with_mutations''),
                vd_failed = True, vd_restored = []\<rparr>
             else
               \<lparr>vd_compliance = No_mutation,
                vd_stop = Some (or_text (eq_runner_stop q) ''runner_failed''),
                vd_failure = eq_runner_stop q, vd_failed = True, vd_restored = []\<rparr>)
          else
            \<lparr>vd_compliance = (if ins = [] then No_mutation else Within_scope), vd_stop = None,
             vd_failure = None, vd_failed = False, vd_restored = []\<rparr>)"

definition judge_mutations ::
  "env \<Rightarrow> enforce_request \<Rightarrow> ppath \<Rightarrow> (string \<times> string) option \<Rightarrow> string list \<Rightarrow> string list \<Rightarrow> verdict run" where
  "judge_mutations E q workspace stop ins outs =
     (let v = classify_compliance q stop ins outs in
      if outs \<noteq> [] \<and> eq_restore q then
        bindM (restore_paths E workspace outs) (\<lambda>restored. ret (v\<lparr>vd_restored := restored\<rparr>))
      else ret v)"

text \<open>\<open>try\<close> with the binding and approval errors as values.\<close>

definition attempt :: "'a run \<Rightarrow> (exn + 'a) run" where
  "attempt m =
     catchM (bindM m (\<lambda>a. ret (Inr a)))
       (\<lambda>e. if is_binding_error e \<or> is_approval_error e then Some (ret (Inl e)) else None)"

text \<open>The status and reason the binding gets, when it gets one.\<close>

definition binding_move :: "verdict \<Rightarrow> binding \<Rightarrow> (binding_status \<times> string) option" where
  "binding_move v b =
     (case vd_compliance v of
        Within_scope \<Rightarrow> Some (Completed, ''within_scope_mutation'')
      | No_mutation \<Rightarrow>
          if binding_live b then
            Some (if vd_failed v then Failed else Completed,
              or_text (vd_failure v) (or_text (vd_stop v)
                (if vd_failed v then ''runner_failed_no_mutation'' else ''no_mutation'')))
          else None
      | Scope_exceeded \<Rightarrow>
          if binding_live b then Some (Failed, or_text (vd_failure v) ''write_scope_exceeded'') else None
      | Base_sha_mismatch \<Rightarrow>
          if binding_live b then Some (Failed, or_text (vd_failure v) ''write_scope_base_sha_mismatch'')
          else None
      | Partial \<Rightarrow>
          if binding_live b then Some (Failed, or_text (vd_failure v) ''write_scope_partial'') else None)"

definition move_binding :: "env \<Rightarrow> string \<Rightarrow> verdict \<Rightarrow> binding \<Rightarrow> string \<Rightarrow> binding run" where
  "move_binding E binding_id v b evaluated =
     (case binding_move v b of
        None \<Rightarrow> ret b
      | Some (st, why) \<Rightarrow>
          transition_binding_status E binding_id (binding_status_text st) (Some why) (Some evaluated))"

text \<open>What becomes of the approval: consumed, revoked, or left.\<close>

definition settle_approval ::
  "env \<Rightarrow> verdict \<Rightarrow> string list \<Rightarrow> string list \<Rightarrow> binding \<Rightarrow> approval \<Rightarrow> (approval \<times> string option) run" where
  "settle_approval E v ins outs b a =
     (let revoke = (\<lambda>why. bindM (revoke_approval_for_breach E (wb_approval b) why) (\<lambda>(a', rv).
                            ret (a', Some (wr_id rv))));
          consume = (\<lambda>why. bindM (consume_approval E (wb_approval b) why) (\<lambda>a'. ret (a', None))) in
      case vd_compliance v of
        Within_scope \<Rightarrow>
          if ins \<noteq> [] then consume ''successful_in_scope_mutation'' else ret (a, None)
      | No_mutation \<Rightarrow> ret (a, None)
      | Scope_exceeded \<Rightarrow>
          if wa_status a = Approved then revoke (or_text (vd_failure v) ''write_scope_exceeded'')
          else ret (a, None)
      | Base_sha_mismatch \<Rightarrow> ret (a, None)
      | Partial \<Rightarrow>
          if wa_status a = Approved \<and> (ins \<noteq> [] \<or> outs \<noteq> []) then
            (if outs \<noteq> [] then revoke (or_text (vd_failure v) ''write_scope_partial'')
             else consume (or_text (vd_failure v) ''partial_execution_with_mutations''))
          else ret (a, None))"

definition strip_semis :: "string \<Rightarrow> string" where
  "strip_semis s =
     (let p = (\<lambda>c. c = CHR '';'' \<or> c = CHR '' '') in rev (dropWhile p (rev (dropWhile p s))))"

text \<open>
  Lines 855 to 884: a transition failed. The binding fails if it is still live; the approval is
  read again. The last component is the status text of the receipt.
\<close>

record settled =
  st_binding :: binding
  st_approval :: approval
  st_approval_status :: approval_status
  st_failure :: "string option"
  st_failed :: bool
  st_revocation :: "string option"

definition settle_after_error ::
  "env \<Rightarrow> string \<Rightarrow> verdict \<Rightarrow> binding \<Rightarrow> approval \<Rightarrow> string \<Rightarrow> exn \<Rightarrow> settled run" where
  "settle_after_error E binding_id v b a evaluated e =
     (let failure = strip_semis (or_text (vd_failure v) [] @ ''; authority_transition: '' @ exn_text e) in
      bindM (if binding_live b then
               catchM (transition_binding_status E binding_id ''failed'' (Some failure) (Some evaluated))
                 (\<lambda>x. if is_binding_error x then Some (load_binding E binding_id) else None)
             else ret b) (\<lambda>b'.
      bindM (catchM (bindM (load_approval E (wb_approval b') None True True) (\<lambda>x. ret (x, wa_status x)))
               (\<lambda>x. if is_approval_error x then Some (ret (a, wa_status a)) else None)) (\<lambda>(a', s).
      ret \<lparr>st_binding = b', st_approval = a', st_approval_status = s, st_failure = Some failure,
           st_failed = True, st_revocation = None\<rparr>)))"

text \<open>Lines 739 to 884.\<close>

definition settle_authority ::
  "env \<Rightarrow> string \<Rightarrow> verdict \<Rightarrow> string list \<Rightarrow> string list \<Rightarrow> binding \<Rightarrow> string \<Rightarrow> int option \<Rightarrow> settled run" where
  "settle_authority E binding_id v ins outs b evaluated now =
     bindM (load_approval E (wb_approval b) now True True) (\<lambda>a.
     bindM (attempt (move_binding E binding_id v b evaluated)) (\<lambda>moved.
     case moved of
       Inl e \<Rightarrow> settle_after_error E binding_id v b a evaluated e
     | Inr b' \<Rightarrow>
         bindM (attempt (settle_approval E v ins outs b' a)) (\<lambda>done_with.
         case done_with of
           Inl e \<Rightarrow> settle_after_error E binding_id v b' a evaluated e
         | Inr (a', rv) \<Rightarrow>
             ret \<lparr>st_binding = b', st_approval = a', st_approval_status = wa_status a',
                  st_failure = vd_failure v, st_failed = vd_failed v, st_revocation = rv\<rparr>)))"

text \<open>Lines 892 to 929.\<close>

definition enforcement_receipt ::
  "env \<Rightarrow> verdict \<Rightarrow> settled \<Rightarrow> string list \<Rightarrow> string list \<Rightarrow> ppath \<Rightarrow> scope_roots \<Rightarrow> string \<Rightarrow> receipt run" where
  "enforcement_receipt E v s ins outs workspace scope evaluated =
     (let C = cfg_of E; b = st_binding s in
      bindM (lift_res (verify_receipt_record C (receipt_json
        \<lparr>mr_id = compute_receipt_id C (wb_id b) (wb_run b) evaluated (compliance_text (vd_compliance v)),
         mr_run = wb_run b, mr_binding = wb_id b, mr_approval = wb_approval b, mr_target = wb_target b,
         mr_sha = py_lower (wb_sha b), mr_changed = uniq (ins @ outs), mr_in = ins, mr_out = outs,
         mr_restored = vd_restored v, mr_compliance = vd_compliance v,
         mr_binding_status = binding_status_text (wb_status b),
         mr_approval_status = approval_status_text (st_approval_status s), mr_created = evaluated,
         mr_evaluated = evaluated, mr_workspace = Some (path_str workspace), mr_stop = vd_stop v,
         mr_failure = st_failure s, mr_revocation = st_revocation s,
         mr_allowed = Some (map path_str (sr_allowed scope)),
         mr_denied = Some (map path_str (sr_denied scope))\<rparr>))) (\<lambda>r.
      save_receipt E (receipt_json r)))"

definition enforce_write_scope_mutations ::
  "env \<Rightarrow> string \<Rightarrow> enforce_request \<Rightarrow> enforcement_outcome run" where
  "enforce_write_scope_mutations E binding_id q =
     bindM (load_binding E binding_id) (\<lambda>b.
     bindM (text_or_now E (eq_evaluated q)) (\<lambda>evaluated.
     bindM (lift_res (full_path E (binding_workspace b (eq_workspace q)))) (\<lambda>workspace.
     bindM (check_authority_checkpoint E b (Some workspace) True (eq_now q)) (\<lambda>stop.
     bindM (enforcement_scope E b) (\<lambda>scope.
     bindM (lift_res (classify_changed_paths E
              (filter (\<lambda>t. t \<noteq> []) (map py_strip (eq_changed q))) scope)) (\<lambda>(ins, outs).
     bindM (judge_mutations E q workspace stop ins outs) (\<lambda>v.
     bindM (settle_authority E binding_id v ins outs b evaluated (eq_now q)) (\<lambda>s.
     bindM (enforcement_receipt E v s ins outs workspace scope evaluated) (\<lambda>r.
     ret \<lparr>eo_receipt = r, eo_binding = st_binding s, eo_approval = st_approval s,
          eo_failed = st_failed s, eo_stop = vd_stop v, eo_remaining = ins\<rparr>)))))))))"

subsection \<open>Results and the tool guardrail\<close>

definition set_default :: "string \<Rightarrow> json \<Rightarrow> (string \<times> json) list \<Rightarrow> (string \<times> json) list" where
  "set_default k v d = (if k \<in> set (map fst d) then d else d @ [(k, v)])"

definition is_JObj :: "json \<Rightarrow> bool" where
  "is_JObj j \<longleftrightarrow> (case j of JObj _ \<Rightarrow> True | _ \<Rightarrow> False)"

text \<open>\<open>isinstance(value, int) and value != 0\<close>; a Boolean is an integer.\<close>

definition is_int :: "json \<Rightarrow> bool" where
  "is_int j \<longleftrightarrow> (case j of JInt _ \<Rightarrow> True | JBool _ \<Rightarrow> True | _ \<Rightarrow> False)"

definition int_nonzero :: "json \<Rightarrow> bool" where
  "int_nonzero j \<longleftrightarrow> (case j of JInt i \<Rightarrow> i \<noteq> 0 | JBool b \<Rightarrow> b | _ \<Rightarrow> False)"

text \<open>\<open>list(value or [])\<close>, each item as text.\<close>

definition list_or_empty :: "json \<Rightarrow> exn + string list" where
  "list_or_empty j =
     (if \<not> truthy j then Inr []
      else case j of
          JArr items \<Rightarrow> Inr (map py_str items)
        | JStr s \<Rightarrow> Inr (map (\<lambda>c. [c]) s)
        | JObj kvs \<Rightarrow> Inr (map fst kvs)
        | _ \<Rightarrow> Inl (OtherErr ''TypeError: object is not iterable''))"

definition inferred_failure :: "bool option \<Rightarrow> (string \<times> json) list \<Rightarrow> bool" where
  "inferred_failure runner_failed r =
     (case runner_failed of
        Some f \<Rightarrow> f
      | None \<Rightarrow>
          py_lower (text_field r ''status'') \<in> set [''failed'', ''blocked'', ''error''] \<or>
          int_nonzero (jget r ''exit_code''))"

text \<open>Lines 990 to 1016.\<close>

definition failed_final_text :: "(string \<times> json) list \<Rightarrow> enforcement_outcome \<Rightarrow> (string \<times> json) list" where
  "failed_final_text r o' =
     (let final = str_or_empty (jget r ''final_text'');
          failure = mr_failure (eo_receipt o') in
      if py_strip final = [] then
        [(''final_text'', JStr (or_text failure (or_text (eo_stop o') ''write-scope enforcement failed'')))]
      else
        (case eo_stop o' of
           Some (c # cs) \<Rightarrow>
             if py_in (c # cs) final then []
             else [(''final_text'', JStr (py_strip (py_str (jget r ''final_text'') @ [CHR 0x0A] @
               ''[write-scope] '' @ (c # cs) @ '': '' @ or_text failure [])))]
         | _ \<Rightarrow> []))"

definition merge_outcome ::
  "(string \<times> json) list \<Rightarrow> binding \<Rightarrow> enforcement_outcome \<Rightarrow> (string \<times> json) list" where
  "merge_outcome r b o' =
     (let updated = dict_update r
            [(''mutation_receipt'', receipt_json (eo_receipt o')),
             (''write_scope_binding_id'', JStr (wb_id b)),
             (''write_scope_approval_id'', JStr (wb_approval b)),
             (''changed_paths'', JArr (map JStr (eo_remaining o')))] in
      if eo_failed o' then
        dict_update updated
          ([(''status'', JStr ''failed''),
            (''exit_code'', if int_nonzero (jget r ''exit_code'') then jget r ''exit_code'' else JInt 1),
            (''stop_reason'', JStr (or_text (eo_stop o')
               (or_text (Some (str_or_empty (jget updated ''stop_reason''))) ''write_scope_exceeded'')))]
           @ failed_final_text updated o')
      else updated)"

definition apply_enforcement_to_result ::
  "env \<Rightarrow> json \<Rightarrow> binding option \<Rightarrow> ppath option \<Rightarrow> bool option \<Rightarrow> json run" where
  "apply_enforcement_to_result E result bound workspace runner_failed =
     (case bound of
        None \<Rightarrow> ret result
      | Some b \<Rightarrow>
          (case result of
             JObj r \<Rightarrow>
               if is_JObj (jget r ''mutation_receipt'') then
                 ret (JObj (set_default ''write_scope_approval_id'' (JStr (wb_approval b))
                        (set_default ''write_scope_binding_id'' (JStr (wb_id b)) r)))
               else
                 bindM (lift_res (list_or_empty (jget r ''changed_paths''))) (\<lambda>changed.
                 bindM (enforce_write_scope_mutations E (wb_id b)
                   \<lparr>eq_changed = changed, eq_runner_failed = inferred_failure runner_failed r,
                    eq_runner_stop = (case str_or_empty (jget r ''stop_reason'') of
                                        [] \<Rightarrow> None | c # cs \<Rightarrow> Some (c # cs)),
                    eq_workspace = Some (binding_workspace b workspace), eq_restore = True,
                    eq_evaluated = None, eq_now = None\<rparr>) (\<lambda>o'.
                 ret (JObj (merge_outcome r b o'))))
           | _ \<Rightarrow> throw (EnforcementError E_result_dict)))"

definition guardrail_write_allowed ::
  "env \<Rightarrow> string \<Rightarrow> string list \<Rightarrow> string list \<Rightarrow> ppath option \<Rightarrow> exn + string option" where
  "guardrail_write_allowed E path writable denied_paths workspace =
     bindR (mapR (\<lambda>p. resolve_path E (py_path p)) writable) (\<lambda>roots.
     if roots = [] then Inr None
     else
       bindR (mapR (\<lambda>p. resolve_path E (py_path p)) denied_paths) (\<lambda>denied.
       case workspace of
         Some ws \<Rightarrow>
           bindR (full_path E ws) (\<lambda>full.
           bindR (path_is_within_effective_scope E path
                    \<lparr>sr_workspace = full, sr_allowed = roots, sr_denied = denied\<rparr>) (\<lambda>(ok, rel, err).
           Inr (if ok then None
                else if err = Some ''denied_root''
                then Some (''scope_exceeded: Path '' @ [CHR 0x27] @ path @ [CHR 0x27] @
                  '' matches denied write-scope root'')
                else Some (''scope_exceeded: Path '' @ [CHR 0x27] @ path @ [CHR 0x27] @
                  '' is outside writable roots''))))
       | None \<Rightarrow>
           bindR (resolve_path E (py_path path)) (\<lambda>abs_path.
           Inr (if list_ex (path_matches_root abs_path) denied
                then Some (''scope_exceeded: Path '' @ [CHR 0x27] @ path @ [CHR 0x27] @
                  '' matches denied write-scope root'')
                else if \<not> list_ex (path_matches_root abs_path) roots
                then Some (''scope_exceeded: Path '' @ [CHR 0x27] @ path @ [CHR 0x27] @
                  '' is outside writable roots: '' @ py_join '', '' (map path_str roots))
                else None))))"

end
