(* ===== verification/Recovery.thy ===== *)
theory Recovery
  imports Enforcement
begin

section \<open>Recovery of bindings\<close>

text \<open>
  \<open>write_scope_recovery.py\<close>: after a crash a binding is diagnosed from its status, its
  approval, its receipts and its workspace, and an explicit decision fails it. No outcome
  completes a binding or gives authority back.
\<close>

subsection \<open>The dirty paths of a workspace\<close>

definition strip_quotes :: "string \<Rightarrow> string" where
  "strip_quotes s =
     (let p = (\<lambda>c. c = CHR 0x22) in rev (dropWhile p (rev (dropWhile p s))))"

text \<open>\<open>str.splitlines\<close> on text below U+0100: line ends are LF, CR, CR LF, VT, FF, FS, GS, RS, NEL.\<close>

definition line_end :: "char \<Rightarrow> bool" where
  "line_end c \<longleftrightarrow> c \<in> set [CHR 0x0A, CHR 0x0B, CHR 0x0C, CHR 0x0D, CHR 0x1C, CHR 0x1D, CHR 0x1E, CHR 0x85]"

fun lines_from :: "string \<Rightarrow> string \<Rightarrow> string list" where
  "lines_from cur [] = (if cur = [] then [] else [cur])"
| "lines_from cur (c # cs) =
     (if \<not> line_end c then lines_from (cur @ [c]) cs
      else cur # (case cs of
                    d # ds \<Rightarrow> if c = CHR 0x0D \<and> d = CHR 0x0A then lines_from [] ds
                              else lines_from [] cs
                  | [] \<Rightarrow> lines_from [] cs))"

definition splitlines :: "string \<Rightarrow> string list" where
  "splitlines s = lines_from [] s"

text \<open>\<open>body.split(" -> ", 1)[1]\<close> when the separator occurs.\<close>

fun after_arrow :: "string \<Rightarrow> string option" where
  "after_arrow [] = None"
| "after_arrow (c # cs) =
     (if starts_with (c # cs) '' -> '' then Some (drop 4 (c # cs)) else after_arrow cs)"

definition porcelain_path :: "string \<Rightarrow> string list" where
  "porcelain_path line =
     (if py_strip line = [] then []
      else
        let body = (if 3 < length line then drop 3 line else py_strip line);
            body' = (case after_arrow body of None \<Rightarrow> body | Some t \<Rightarrow> t);
            rel = strip_quotes (py_strip body') in
        if rel = [] then [] else [as_posix rel])"

definition workspace_dirty_paths :: "env \<Rightarrow> ppath \<Rightarrow> exn + string list" where
  "workspace_dirty_paths E workspace_root =
     bindR (full_path E workspace_root) (\<lambda>root.
     bindR (check (\<not> is_dir E root) (RecoveryError (V_missing_workspace (path_str root)))) (\<lambda>_.
     case git_porcelain E root of
       ProcOSError e \<Rightarrow> Inl (OtherErr e)
     | Proc rc out err \<Rightarrow>
         if rc \<noteq> 0 then
           Inl (RecoveryError (V_git_status (if py_strip err \<noteq> [] then py_strip err else py_strip out)))
         else Inr (sort (remdups (concat (map porcelain_path (splitlines out)))))))"

subsection \<open>Diagnosis\<close>

record diagnosis =
  dg_binding :: string
  dg_status :: string
  dg_conditions :: "string list"
  dg_dirty :: "string list"
  dg_recommended :: string
  dg_notes :: "string list"

text \<open>Lines 170 to 204: what the approval and the receipts show.\<close>

definition diagnose_approval :: "env \<Rightarrow> binding \<Rightarrow> (string list \<times> string list) run" where
  "diagnose_approval E b =
     bindM (catchM (bindM (load_approval E (wb_approval b) None True True) (\<lambda>a. ret (Some a)))
              (\<lambda>e. if is_approval_error e then Some (ret None) else None)) (\<lambda>loaded.
     case loaded of
       None \<Rightarrow> ret ([''orphan_binding_missing_approval''],
                    [''Binding references missing/corrupt Approval.''])
     | Some a \<Rightarrow>
         (case wa_status a of
            Expired \<Rightarrow> ret ([''expired_approval''], [])
          | Revoked \<Rightarrow> ret ([''revoked_approval''], [])
          | Consumed \<Rightarrow> ret ([''consumed_approval''], [])
          | Approved \<Rightarrow>
              bindM (is_approval_active E (approval_json a) None) (\<lambda>active.
              ret (if active then [] else [''inactive_approval''], []))))"

text \<open>Lines 243 to 266.\<close>

definition recommend :: "string list \<Rightarrow> string \<times> string" where
  "recommend cs =
     (if ''orphan_binding_missing_approval'' \<in> set cs then
        (''mark-failed'', ''Orphan binding -> mark failed; require new approval for any future mutation.'')
      else if ''expired_approval'' \<in> set cs \<or> ''revoked_approval'' \<in> set cs then
        (''mark-failed'', ''Expired/revoked Approval -> mark binding failed; require new approval.'')
      else if ''stale_base_sha'' \<in> set cs then
        (''mark-failed'', ''Stale base_sha -> fail closed; require new approval at current HEAD.'')
      else if ''dirty_workspace'' \<in> set cs then
        (''restore'', ''Dirty workspace after crash -> operator must choose restore or accept-partial; '' @
          ''default recommendation is restore then mark failed.'')
      else if ''missing_receipt'' \<in> set cs then
        (''mark-failed'', ''Missing receipt -> cannot fabricate success; mark binding failed.'')
      else (''mark-failed'', ''Default fail-closed recovery: mark binding failed.''))"

text \<open>Lines 206 to 274.\<close>

definition diagnose_workspace ::
  "env \<Rightarrow> binding \<Rightarrow> string list \<Rightarrow> string list \<Rightarrow> exn + diagnosis" where
  "diagnose_workspace E b conditions notes =
     bindR (expanduser E (py_path (wb_workspace b))) (\<lambda>workspace.
     case workspace_dirty_paths E workspace of
       Inl e \<Rightarrow>
         if is_recovery_error e then
           Inr \<lparr>dg_binding = wb_id b, dg_status = binding_status_text (wb_status b),
                dg_conditions = conditions @ [''workspace_unreadable''], dg_dirty = [],
                dg_recommended = ''auto'',
                dg_notes = notes @ [exn_text e] @
                  [''manual_intervention_required for unreadable workspace'']\<rparr>
         else Inl e
     | Inr dirty \<Rightarrow>
         bindR (case git_rev_parse_head E workspace of
                  Inr head \<Rightarrow>
                    Inr (if head \<noteq> py_lower (wb_sha b) then [''stale_base_sha''] else [], [])
                | Inl e \<Rightarrow>
                    if is_binding_error e then Inr ([''base_sha_unreadable''], [exn_text e]) else Inl e)
           (\<lambda>(sha_conditions, sha_notes).
         let cs = conditions @
               (if dirty \<noteq> [] then [''dirty_workspace'', ''partial_mutation_suspected'']
                else [''clean_workspace'']) @ sha_conditions;
             (choice, why) = recommend cs in
         Inr \<lparr>dg_binding = wb_id b, dg_status = binding_status_text (wb_status b),
              dg_conditions = cs, dg_dirty = dirty, dg_recommended = choice,
              dg_notes = notes @ sha_notes @ [why] @
                [''No automatic continuation of mutation authority.'']\<rparr>))"

definition diagnose_binding_recovery :: "env \<Rightarrow> string \<Rightarrow> diagnosis run" where
  "diagnose_binding_recovery E binding_id =
     bindM (catchM (load_binding E binding_id)
              (\<lambda>e. if is_binding_error e then Some (throw (RecoveryError (V_text (exn_text e)))) else None)) (\<lambda>b.
     let status = binding_status_text (wb_status b) in
     if wb_status b = Completed then
       ret \<lparr>dg_binding = wb_id b, dg_status = status, dg_conditions = [''binding_already_completed''],
            dg_dirty = [], dg_recommended = ''mark-failed'',
            dg_notes = [''Recovery will not rewrite completed bindings into success anew.'']\<rparr>
     else if wb_status b \<notin> set [Active, Suspended, Failed] then
       ret \<lparr>dg_binding = wb_id b, dg_status = status, dg_conditions = [''binding_terminal_'' @ status],
            dg_dirty = [], dg_recommended = ''mark-failed'',
            dg_notes = [''Binding is already terminal; no mutation authority remains.'']\<rparr>
     else
       bindM (diagnose_approval E b) (\<lambda>(approval_conditions, notes).
       bindM (list_receipts E (Some (wb_id b)) None None) (\<lambda>receipts.
       lift_res (diagnose_workspace E b
         ((if wb_status b = Active then [''active_binding_after_restart''] else []) @
          approval_conditions @
          [if receipts = [] then ''missing_receipt'' else ''receipt_present'']) notes))))"

subsection \<open>Applying a decision\<close>

record recovery =
  rc_binding_id :: string
  rc_outcome :: string
  rc_outcomes :: "string list"
  rc_diagnosis :: diagnosis
  rc_binding :: binding
  rc_approval :: "approval option"
  rc_restored :: "string list"
  rc_residual :: string
  rc_note :: string

definition str_arr :: "string list \<Rightarrow> json" where
  "str_arr xs = JArr (map JStr xs)"

text \<open>Lines 297 to 327: nothing when a dirty workspace needs an explicit decision.\<close>

definition choose_decision :: "string \<Rightarrow> diagnosis \<Rightarrow> string option" where
  "choose_decision decision d =
     (if decision \<noteq> ''auto'' then Some decision
      else if ''dirty_workspace'' \<in> set (dg_conditions d) \<and>
              ''orphan_binding_missing_approval'' \<notin> set (dg_conditions d) \<and>
              ''expired_approval'' \<notin> set (dg_conditions d) \<and>
              ''revoked_approval'' \<notin> set (dg_conditions d) \<and>
              ''stale_base_sha'' \<notin> set (dg_conditions d)
        then None
      else if dg_recommended d \<in> set [''restore'', ''accept-partial''] \<and>
              ''dirty_workspace'' \<in> set (dg_conditions d)
        then Some ''mark-failed''
      else Some (dg_recommended d))"

text \<open>Lines 329 to 359: load, suspend an active binding, read the approval.\<close>

definition recover_load :: "env \<Rightarrow> string \<Rightarrow> (binding \<times> approval option) run" where
  "recover_load E binding_id =
     bindM (catchM (load_binding E binding_id)
              (\<lambda>e. if is_binding_error e then Some (throw (RecoveryError (V_text (exn_text e)))) else None)) (\<lambda>b.
     bindM (raise_if (wb_status b = Completed) (RecoveryError V_completed)) (\<lambda>_.
     bindM (if wb_status b = Active then
              transition_binding_status E binding_id ''suspended''
                (Some ''recover:suspend_active_after_restart'') None
            else ret b) (\<lambda>b'.
     bindM (catchM (bindM (load_approval E (wb_approval b') None True True) (\<lambda>a. ret (Some a)))
              (\<lambda>e. if is_approval_error e then Some (ret None) else None)) (\<lambda>a.
     ret (b', a)))))"

text \<open>Lines 365 to 382: any exception of the restore is a manual outcome.\<close>

definition recover_restore :: "env \<Rightarrow> binding \<Rightarrow> ppath \<Rightarrow> string list \<Rightarrow> (exn + string list) run" where
  "recover_restore E b workspace dirty =
     (if dirty = [] then ret (Inr [])
      else
        catchM
          (bindM (catchM (bindM (load_scope_roots_for_binding E b) (\<lambda>_. ret ()))
                    (\<lambda>e. if is_enforcement_error e then Some (ret ()) else None)) (\<lambda>_.
           bindM (restore_paths E workspace dirty) (\<lambda>restored. ret (Inr restored))))
          (\<lambda>e. Some (ret (Inl e))))"

text \<open>Lines 433 to 470.\<close>

definition requires_new_approval :: "env \<Rightarrow> diagnosis \<Rightarrow> approval option \<Rightarrow> bool run" where
  "requires_new_approval E d a =
     (case a of
        None \<Rightarrow> ret True
      | Some x \<Rightarrow>
          if approval_terminal (wa_status x) then ret True
          else
            let cs = set (dg_conditions d);
                need = (\<exists>c \<in> set [''dirty_workspace'', ''partial_mutation_suspected'', ''missing_receipt'',
                  ''stale_base_sha'', ''orphan_binding_missing_approval'', ''expired_approval'',
                  ''revoked_approval'']. c \<in> cs) in
            bindM (is_approval_active E (approval_json x) None) (\<lambda>active.
            ret (if active \<and> ''dirty_workspace'' \<notin> cs \<and> ''missing_receipt'' \<in> cs \<and>
                    ''stale_base_sha'' \<notin> cs
                 then False else need)))"

definition decision_outcome :: "string \<Rightarrow> (string \<times> string) option" where
  "decision_outcome chosen =
     (if chosen = ''restore'' then Some (''restore_confirmed'', ''recover:restore_confirmed'')
      else if chosen = ''accept-partial''
        then Some (''accept_as_partial_failure'', ''recover:accept_as_partial_failure'')
      else if chosen = ''mark-failed'' then Some (''mark_binding_failed'', ''recover:mark_binding_failed'')
      else None)"

text \<open>Lines 383 to 406.\<close>

definition recover_manual ::
  "env \<Rightarrow> string \<Rightarrow> diagnosis \<Rightarrow> approval option \<Rightarrow> exn \<Rightarrow> recovery run" where
  "recover_manual E binding_id d a e =
     bindM (utc_now_iso E) (\<lambda>at.
     bindM (append_scope_event E ''write_scope.recover''
              [(''binding_id'', JStr binding_id), (''outcome'', JStr ''manual_intervention_required''),
               (''error'', JStr (exn_text e))] (Some at)) (\<lambda>_.
     bindM (load_binding E binding_id) (\<lambda>b.
     ret \<lparr>rc_binding_id = binding_id, rc_outcome = ''manual_intervention_required'',
          rc_outcomes = [''manual_intervention_required''], rc_diagnosis = d, rc_binding = b,
          rc_approval = a, rc_restored = [], rc_residual = ''none'',
          rc_note = ''restore failed; manual intervention required: '' @ exn_text e\<rparr>)))"

text \<open>Lines 418 to 511: fail the binding, decide about the approval, report.\<close>

definition recover_finish ::
  "env \<Rightarrow> string \<Rightarrow> string \<Rightarrow> diagnosis \<Rightarrow> binding \<Rightarrow> approval option \<Rightarrow> string \<Rightarrow> string \<Rightarrow>
   string list \<Rightarrow> recovery run" where
  "recover_finish E binding_id chosen d b a outcome why restored =
     bindM (if binding_live b then
              transition_binding_status E binding_id ''failed'' (Some why) None
            else ret b) (\<lambda>b'.
     let outcomes1 = (if (binding_live b \<or> wb_status b = Failed) \<and> outcome \<noteq> ''mark_binding_failed''
                      then [outcome, ''mark_binding_failed''] else [outcome]) in
     bindM (requires_new_approval E d a) (\<lambda>require_new.
     let outcomes = outcomes1 @ (if require_new then [''require_new_approval''] else []) in
     bindM (case a of
              None \<Rightarrow> ret False
            | Some x \<Rightarrow>
                if wa_status x = Approved then is_approval_active E (approval_json x) None
                else ret False) (\<lambda>active.
     let residual = (if active \<and> \<not> require_new then ''approval_only_requires_new_binding''
                     else ''none'') in
     bindM (utc_now_iso E) (\<lambda>at.
     bindM (append_scope_event E ''write_scope.recover''
              [(''binding_id'', JStr binding_id), (''outcome'', JStr outcome),
               (''outcomes'', str_arr outcomes), (''decision'', JStr chosen),
               (''restored_paths'', str_arr restored),
               (''residual_mutation_authority'', JStr residual)] (Some at)) (\<lambda>_.
     ret \<lparr>rc_binding_id = binding_id, rc_outcome = outcome, rc_outcomes = outcomes,
          rc_diagnosis = d, rc_binding = b', rc_approval = a, rc_restored = restored,
          rc_residual = residual,
          rc_note = ''Recovery does not fabricate successful completion and does not '' @
            ''continue mutation authority automatically.''\<rparr>)))))"

definition recover_binding :: "env \<Rightarrow> string \<Rightarrow> string \<Rightarrow> recovery run" where
  "recover_binding E binding_id decision =
     bindM (diagnose_binding_recovery E binding_id) (\<lambda>d.
     case choose_decision decision d of
       None \<Rightarrow>
         bindM (load_binding E binding_id) (\<lambda>b.
         ret \<lparr>rc_binding_id = dg_binding d, rc_outcome = ''manual_intervention_required'',
              rc_outcomes = [''manual_intervention_required''], rc_diagnosis = d, rc_binding = b,
              rc_approval = None, rc_restored = [],
              rc_residual = ''none_until_explicit_recover_decision'',
              rc_note = ''Dirty workspace after crash requires explicit '' @
                ''--decision restore|accept-partial. No automatic continuation.''\<rparr>)
     | Some chosen \<Rightarrow>
         bindM (recover_load E binding_id) (\<lambda>(b, a).
         bindM (lift_res (expanduser E (py_path (wb_workspace b)))) (\<lambda>workspace.
         case decision_outcome chosen of
           None \<Rightarrow> throw (RecoveryError (V_decision chosen))
         | Some (outcome, why) \<Rightarrow>
             bindM (if chosen = ''restore'' then recover_restore E b workspace (dg_dirty d)
                    else ret (Inr [])) (\<lambda>restored.
             case restored of
               Inl e \<Rightarrow> recover_manual E binding_id d a e
             | Inr paths \<Rightarrow> recover_finish E binding_id chosen d b a outcome why paths))))"

end
