(* ===== verification/Scope_Audit.thy ===== *)
theory Scope_Audit
  imports Recovery
begin

section \<open>Write-scope audit and migration\<close>

text \<open>
  \<open>write_scope_audit.py\<close> rebuilds the chain of records around one identifier and states
  what authority is left; \<open>write_scope_migration.py\<close> counts the records that verify. Neither
  grants anything, but reading an approval stores its expiry.
\<close>

subsection \<open>Run results\<close>

definition result_candidates :: "string list" where
  "result_candidates =
     [''result.json'', ''agent-run-result.json'', ''plan-result.json'', ''handoff-result.json'']"

text \<open>The first candidate file that is a JSON object; text that is no UTF-8 raises.\<close>

fun first_result :: "(string \<Rightarrow> rec_file reading) \<Rightarrow> string list \<Rightarrow> exn + json option" where
  "first_result read [] = Inr None"
| "first_result read (n # ns) =
     (case read n of
        Not_utf8 \<Rightarrow> Inl (ValueErr ''UnicodeDecodeError'')
      | Content (Parsed (JObj kvs)) \<Rightarrow> Inr (Some (JObj kvs))
      | _ \<Rightarrow> first_result read ns)"

definition dir_name :: "session_dir \<Rightarrow> string" where
  "dir_name d = (if sd_parts d = [] then [] else last (sd_parts d))"

fun result_by_log :: "string \<Rightarrow> session_dir list \<Rightarrow> exn + json option" where
  "result_by_log ref [] = Inr None"
| "result_by_log ref (d # ds) =
     bindR (if dir_name d \<noteq> ref \<and> \<not> list_ex (\<lambda>p. p = ref) (sd_parts d) then
              (case sd_events d of
                 Content t \<Rightarrow> Inr (py_in ref t)
               | Not_utf8 \<Rightarrow> Inl (ValueErr ''UnicodeDecodeError'')
               | _ \<Rightarrow> Inr False)
            else Inr True) (\<lambda>here.
     bindR (if here then first_result (sd_result d) result_candidates else Inr None) (\<lambda>found.
     case found of Some j \<Rightarrow> Inr (Some j) | None \<Rightarrow> result_by_log ref ds))"

fun result_by_name :: "string \<Rightarrow> session_dir list \<Rightarrow> exn + json option" where
  "result_by_name ref [] = Inr None"
| "result_by_name ref (d # ds) =
     (if dir_name d \<noteq> ref then result_by_name ref ds
      else
        bindR (first_result (sd_result d) result_candidates) (\<lambda>found.
        case found of Some j \<Rightarrow> Inr (Some j) | None \<Rightarrow> result_by_name ref ds))"

definition load_execution_result :: "env \<Rightarrow> string \<Rightarrow> exn + json option" where
  "load_execution_result E run_id =
     (let ref = py_strip run_id in
      if ref = [] then Inr None
      else
        bindR (result_by_log ref (run_logs E)) (\<lambda>found.
        case found of Some j \<Rightarrow> Inr (Some j) | None \<Rightarrow> result_by_name ref (run_dirs E)))"

subsection \<open>The terminal state\<close>

datatype residual = No_authority | Approval_only_requires_new_binding | Binding_requires_recover_or_finalize

fun residual_text :: "residual \<Rightarrow> string" where
  "residual_text No_authority = ''none''"
| "residual_text Approval_only_requires_new_binding = ''approval_only_requires_new_binding''"
| "residual_text Binding_requires_recover_or_finalize = ''binding_requires_recover_or_finalize''"

record terminal_state =
  ts_proposal :: "string option"
  ts_approval :: "approval_status option"
  ts_binding :: "binding_status option"
  ts_compliance :: "compliance option"
  ts_revocation :: bool
  ts_residual :: residual

fun listed_status :: "listed_proposal \<Rightarrow> string" where
  "listed_status (Listed p) = ''proposed''"
| "listed_status (Listed_corrupt i e) = ''corrupt''"

fun listed_id :: "listed_proposal \<Rightarrow> string" where
  "listed_id (Listed p) = wp_id p"
| "listed_id (Listed_corrupt i e) = i"

fun listed_run :: "listed_proposal \<Rightarrow> string" where
  "listed_run (Listed p) = wp_run p"
| "listed_run (Listed_corrupt i e) = []"

definition scope_residual :: "approval_status option \<Rightarrow> binding_status option \<Rightarrow> residual" where
  "scope_residual approval_status binding_status =
     (let r0 = No_authority;
          r1 = (if approval_status = Some Approved \<and>
                   binding_status \<notin> set [Some Active, Some Completed, Some Suspended] \<and>
                   (binding_status = None \<or> binding_status \<in> set [Some Failed, Some Binding_revoked])
                then Approval_only_requires_new_binding else r0);
          r2 = (if approval_status = Some Approved \<and> binding_status \<in> set [Some Active, Some Suspended]
                then Binding_requires_recover_or_finalize else r1);
          r3 = (if approval_status \<in> set [Some Revoked, Some Expired, Some Consumed] then No_authority else r2)
      in if binding_status = Some Completed \<and> approval_status = Some Consumed then No_authority else r3)"

definition terminal_authority_state ::
  "listed_proposal option \<Rightarrow> approval option \<Rightarrow> binding option \<Rightarrow> receipt option \<Rightarrow> bool \<Rightarrow> terminal_state" where
  "terminal_authority_state p a b r revoked =
     \<lparr>ts_proposal = map_option listed_status p, ts_approval = map_option wa_status a,
      ts_binding = map_option wb_status b, ts_compliance = map_option mr_compliance r,
      ts_revocation = revoked,
      ts_residual = scope_residual (map_option wa_status a) (map_option wb_status b)\<rparr>"

subsection \<open>Resolving the identifier\<close>

record run_records =
  rr_proposals :: "listed_proposal list"
  rr_approvals :: "approval list"
  rr_bindings :: "binding list"
  rr_receipts :: "receipt list"

datatype audit_seed =
    Seed_binding binding
  | Seed_approval approval
  | Seed_proposal proposal
  | Seed_receipt receipt
  | Seed_run string run_records

text \<open>
  One kind of record is tried: a record found is the seed; an error of its class ends the search
  if the identifier has the prefix of the kind, and is collected otherwise.
\<close>

definition try_seed ::
  "bool \<Rightarrow> bool \<Rightarrow> (exn \<Rightarrow> bool) \<Rightarrow> audit_seed run \<Rightarrow> string list \<Rightarrow> (string list \<Rightarrow> audit_seed run) \<Rightarrow> audit_seed run" where
  "try_seed tried final is_class load errors other =
     (if \<not> tried then other errors
      else
        bindM (catchM (bindM load (\<lambda>s. ret (Inr s)))
          (\<lambda>e. if \<not> is_class e then None
                else if final then Some (throw (AuditError (U_text (exn_text e))))
                else Some (ret (Inl (errors @ [exn_text e]))))) (\<lambda>r.
        case r of Inr s \<Rightarrow> ret s | Inl errs \<Rightarrow> other errs))"

definition starts_any :: "string \<Rightarrow> string list \<Rightarrow> bool" where
  "starts_any s ps \<longleftrightarrow> list_ex (starts_with s) ps"

definition resolve_run :: "env \<Rightarrow> string \<Rightarrow> string list \<Rightarrow> audit_seed run" where
  "resolve_run E text errors =
     bindM (list_bindings E None (Some text) None None) (\<lambda>bs.
     bindM (list_approvals E (Some text) None None None) (\<lambda>as.
     bindM (list_proposals E (Some text) None) (\<lambda>ps.
     bindM (list_receipts E None None (Some text)) (\<lambda>rs.
     if bs \<noteq> [] \<or> as \<noteq> [] \<or> ps \<noteq> [] \<or> rs \<noteq> [] then
       ret (Seed_run text \<lparr>rr_proposals = ps, rr_approvals = as, rr_bindings = bs, rr_receipts = rs\<rparr>)
     else throw (AuditError (U_not_found text errors))))))"

definition resolve_seed :: "env \<Rightarrow> string \<Rightarrow> audit_seed run" where
  "resolve_seed E ref =
     (let text = py_strip ref in
      bindM (raise_if (text = []) (AuditError U_id_required)) (\<lambda>_.
      try_seed (starts_with text ''wsb-'' \<or> \<not> starts_any text [''wsp-'', ''wsa-'', ''wmr-''])
        (starts_with text ''wsb-'') is_binding_error
        (bindM (load_binding E text) (\<lambda>b. ret (Seed_binding b))) [] (\<lambda>errors.
      try_seed (starts_with text ''wsa-'' \<or> \<not> starts_any text [''wsp-'', ''wmr-''])
        (starts_with text ''wsa-'') is_approval_error
        (bindM (load_approval E text None True True) (\<lambda>a. ret (Seed_approval a))) errors (\<lambda>errors.
      try_seed (starts_with text ''wsp-'' \<or> \<not> starts_with text ''wmr-'')
        (starts_with text ''wsp-'') is_proposal_error
        (bindM (load_proposal E text) (\<lambda>p. ret (Seed_proposal p))) errors (\<lambda>errors.
      try_seed (starts_with text ''wmr-'') True is_enforcement_error
        (bindM (load_receipt E text) (\<lambda>r. ret (Seed_receipt r))) errors (\<lambda>errors.
      resolve_run E text errors))))))"

subsection \<open>The report\<close>

datatype revocation_found = Found_revocation revocation | Revocation_missing_or_corrupt string

record audit_report =
  ar_query :: string
  ar_proposal :: "listed_proposal option"
  ar_approval :: "approval option"
  ar_revocation :: "revocation_found option"
  ar_binding :: "binding option"
  ar_result :: "json option"
  ar_receipt :: "receipt option"
  ar_state :: terminal_state
  ar_related :: "run_records option"

text \<open>The records collected so far; each step fills in one that is missing.\<close>

record lineage =
  ln_proposal :: "listed_proposal option"
  ln_approval :: "approval option"
  ln_binding :: "binding option"
  ln_receipt :: "receipt option"

definition last_of :: "'a list \<Rightarrow> 'a option" where
  "last_of xs = (if xs = [] then None else Some (last xs))"

text \<open>\<open>try: x = load(...) except E: x = None\<close>.\<close>

definition found_or_none :: "(exn \<Rightarrow> bool) \<Rightarrow> 'a run \<Rightarrow> 'a option run" where
  "found_or_none is_class m =
     catchM (bindM m (\<lambda>a. ret (Some a))) (\<lambda>e. if is_class e then Some (ret None) else None)"

definition run_lineage :: "run_records \<Rightarrow> lineage" where
  "run_lineage rr =
     \<lparr>ln_proposal = (if rr_bindings rr = [] \<and> rr_approvals rr = [] then last_of (rr_proposals rr) else None),
      ln_approval = (if rr_bindings rr = [] then last_of (rr_approvals rr) else None),
      ln_binding = last_of (rr_bindings rr), ln_receipt = last_of (rr_receipts rr)\<rparr>"

text \<open>What each kind of seed starts with, and the result of a run.\<close>

definition seed_lineage :: "env \<Rightarrow> audit_seed \<Rightarrow> (lineage \<times> json option) run" where
  "seed_lineage E seed =
     (case seed of
        Seed_run r rr \<Rightarrow>
          bindM (lift_res (load_execution_result E r)) (\<lambda>result. ret (run_lineage rr, result))
      | Seed_receipt r \<Rightarrow>
          bindM (found_or_none is_binding_error (load_binding E (mr_binding r))) (\<lambda>b.
          bindM (found_or_none is_approval_error (load_approval E (mr_approval r) None True True)) (\<lambda>a.
          ret (\<lparr>ln_proposal = None, ln_approval = a, ln_binding = b, ln_receipt = Some r\<rparr>, None)))
      | Seed_binding b \<Rightarrow>
          ret (\<lparr>ln_proposal = None, ln_approval = None, ln_binding = Some b, ln_receipt = None\<rparr>, None)
      | Seed_approval a \<Rightarrow>
          ret (\<lparr>ln_proposal = None, ln_approval = Some a, ln_binding = None, ln_receipt = None\<rparr>, None)
      | Seed_proposal p \<Rightarrow>
          ret (\<lparr>ln_proposal = Some (Listed p), ln_approval = None, ln_binding = None, ln_receipt = None\<rparr>, None))"

definition fill_approval :: "env \<Rightarrow> lineage \<Rightarrow> lineage run" where
  "fill_approval E l =
     (case (ln_binding l, ln_approval l) of
        (Some b, None) \<Rightarrow>
          bindM (found_or_none is_approval_error (load_approval E (wb_approval b) None True True)) (\<lambda>a.
          ret (l\<lparr>ln_approval := a\<rparr>))
      | _ \<Rightarrow> ret l)"

definition fill_proposal :: "env \<Rightarrow> lineage \<Rightarrow> lineage run" where
  "fill_proposal E l =
     (case (ln_approval l, ln_proposal l) of
        (Some a, None) \<Rightarrow>
          bindM (found_or_none is_proposal_error (load_proposal E (wa_proposal a))) (\<lambda>p.
          ret (l\<lparr>ln_proposal := map_option Listed p\<rparr>))
      | _ \<Rightarrow> ret l)"

definition fill_receipt :: "env \<Rightarrow> lineage \<Rightarrow> lineage run" where
  "fill_receipt E l =
     (case (ln_binding l, ln_receipt l) of
        (Some b, None) \<Rightarrow>
          bindM (list_receipts E (Some (wb_id b)) None None) (\<lambda>rs. ret (l\<lparr>ln_receipt := last_of rs\<rparr>))
      | _ \<Rightarrow> ret l)"

definition fill_binding :: "env \<Rightarrow> lineage \<Rightarrow> lineage run" where
  "fill_binding E l =
     (case (ln_approval l, ln_binding l) of
        (Some a, None) \<Rightarrow>
          bindM (list_bindings E (Some (wa_id a)) None None None) (\<lambda>bs.
          fill_receipt E (l\<lparr>ln_binding := last_of bs\<rparr>))
      | _ \<Rightarrow> ret l)"

definition fill_from_proposal :: "env \<Rightarrow> lineage \<Rightarrow> lineage run" where
  "fill_from_proposal E l =
     (case (ln_proposal l, ln_approval l) of
        (Some p, None) \<Rightarrow>
          bindM (list_approvals E None None (Some (listed_id p)) None) (\<lambda>as.
          fill_binding E (l\<lparr>ln_approval := last_of as\<rparr>))
      | _ \<Rightarrow> ret l)"

definition find_revocation :: "env \<Rightarrow> lineage \<Rightarrow> revocation_found option run" where
  "find_revocation E l =
     (case ln_approval l of
        Some a \<Rightarrow>
          (case wa_revocation a of
             Some (c # cs) \<Rightarrow>
               catchM (bindM (load_revocation E (c # cs)) (\<lambda>r. ret (Some (Found_revocation r))))
                 (\<lambda>e. if is_approval_error e then Some (ret (Some (Revocation_missing_or_corrupt (c # cs)))) else None)
           | _ \<Rightarrow> ret None)
      | None \<Rightarrow> ret None)"

definition lineage_run :: "lineage \<Rightarrow> string option" where
  "lineage_run l =
     (case ln_binding l of Some b \<Rightarrow> Some (wb_run b)
      | None \<Rightarrow> (case ln_approval l of Some a \<Rightarrow> Some (wa_run a)
        | None \<Rightarrow> (case ln_proposal l of Some p \<Rightarrow> Some (listed_run p)
          | None \<Rightarrow> map_option mr_run (ln_receipt l))))"

definition run_result :: "env \<Rightarrow> json option \<Rightarrow> string option \<Rightarrow> exn + json option" where
  "run_result E known run_id =
     (case (known, run_id) of
        (None, Some (c # cs)) \<Rightarrow> load_execution_result E (c # cs)
      | _ \<Rightarrow> Inr known)"

definition audit_write_scope :: "env \<Rightarrow> string \<Rightarrow> audit_report run" where
  "audit_write_scope E ref =
     bindM (resolve_seed E ref) (\<lambda>seed.
     bindM (seed_lineage E seed) (\<lambda>(l0, result0).
     bindM (fill_approval E l0) (\<lambda>l1.
     bindM (fill_proposal E l1) (\<lambda>l2.
     bindM (fill_receipt E l2) (\<lambda>l3.
     bindM (fill_binding E l3) (\<lambda>l4.
     bindM (fill_from_proposal E l4) (\<lambda>l.
     bindM (find_revocation E l) (\<lambda>revocation.
     bindM (lift_res (run_result E result0 (lineage_run l))) (\<lambda>result.
     ret \<lparr>ar_query = py_strip ref, ar_proposal = ln_proposal l, ar_approval = ln_approval l,
          ar_revocation = revocation, ar_binding = ln_binding l, ar_result = result,
          ar_receipt = ln_receipt l,
          ar_state = terminal_authority_state (ln_proposal l) (ln_approval l) (ln_binding l) (ln_receipt l)
            (case revocation of Some (Found_revocation r) \<Rightarrow> True | _ \<Rightarrow> False),
          ar_related = (case seed of Seed_run r rr \<Rightarrow> Some rr | _ \<Rightarrow> None)\<rparr>)))))))))"

subsection \<open>Migration\<close>

definition migrate_nested_proposals_from_result ::
  "env \<Rightarrow> json \<Rightarrow> string option \<Rightarrow> persist_outcome run" where
  "migrate_nested_proposals_from_result E result run_id =
     persist_write_scope_proposals_from_result E result run_id None"

text \<open>\<open>x or y\<close> of values.\<close>

definition py_or :: "json \<Rightarrow> json \<Rightarrow> json" where
  "py_or x y = (if truthy x then x else y)"

definition legacy_path_elevation_migration_refusal :: string where
  "legacy_path_elevation_migration_refusal =
     ''legacy --approve-writable-root / writable_root_approval cli_flag events '' @
     ''are compatibility path elevation only and MUST NOT be converted into '' @
     ''WriteScopeApproval history''"

definition refuse_legacy_path_elevation_as_approval ::
  "string list option \<Rightarrow> (string \<times> json) list option \<Rightarrow> (string \<times> json) list" where
  "refuse_legacy_path_elevation_as_approval roots event =
     (let ev = (case event of None \<Rightarrow> [] | Some d \<Rightarrow> d) in
      [(''converted'', JBool False), (''approval'', JNull),
       (''roots'', str_arr (case roots of None \<Rightarrow> [] | Some rs \<Rightarrow> rs)),
       (''event_type'', py_or (jget ev ''event_type'') (jget ev ''type'')),
       (''reason'', JStr legacy_path_elevation_migration_refusal)])"

text \<open>A file that could not be read or parsed, or whose record was refused.\<close>

datatype scan_fault = Scan_unreadable | Scan_refused exn

record scan_corrupt =
  sc_kind :: string
  sc_path :: path
  sc_fault :: scan_fault

fun scan_dir ::
  "(json \<Rightarrow> exn + 'r) \<Rightarrow> (exn \<Rightarrow> bool) \<Rightarrow> string \<Rightarrow> path \<Rightarrow> world \<Rightarrow> string list \<Rightarrow>
   exn + nat \<times> scan_corrupt list" where
  "scan_dir verify is_class kind dir w [] = Inr (0, [])"
| "scan_dir verify is_class kind dir w (name # names) =
     bindR (case file_at w (dir @ [name]) of
              Some (Parsed j) \<Rightarrow>
                (case verify j of
                   Inr r \<Rightarrow> Inr (1, [])
                 | Inl e \<Rightarrow>
                     if is_class e
                     then Inr (0, [\<lparr>sc_kind = kind, sc_path = dir @ [name], sc_fault = Scan_refused e\<rparr>])
                     else Inl e)
            | _ \<Rightarrow> Inr (0, [\<lparr>sc_kind = kind, sc_path = dir @ [name], sc_fault = Scan_unreadable\<rparr>])) (\<lambda>(n, bad).
     bindR (scan_dir verify is_class kind dir w names) (\<lambda>(n', bad').
     Inr (n + n', bad @ bad')))"

text \<open>\<open>json.dumps\<close> with its default separators, keys in the order of the dictionary.\<close>

fun dumps_plain :: "json \<Rightarrow> string" and dumps_plain_items :: "json list \<Rightarrow> string list"
  and dumps_plain_fields :: "(string \<times> json) list \<Rightarrow> string list" where
  "dumps_plain JNull = ''null''"
| "dumps_plain (JBool b) = (if b then ''true'' else ''false'')"
| "dumps_plain (JInt i) = int_str i"
| "dumps_plain (JFloat r) = dumps_float r"
| "dumps_plain (JStr s) = dumps_str s"
| "dumps_plain (JArr xs) = ''['' @ py_join '', '' (dumps_plain_items xs) @ '']''"
| "dumps_plain (JObj kvs) = ''{'' @ py_join '', '' (dumps_plain_fields kvs) @ ''}''"
| "dumps_plain_items [] = []"
| "dumps_plain_items (x # xs) = dumps_plain x # dumps_plain_items xs"
| "dumps_plain_fields [] = []"
| "dumps_plain_fields ((k, v) # kvs) = (dumps_str k @ '': '' @ dumps_plain v) # dumps_plain_fields kvs"

text \<open>The approval source of an event: its own, or that of its data; data that is no object raises.\<close>

definition event_source :: "(string \<times> json) list \<Rightarrow> exn + string" where
  "event_source payload =
     (if truthy (jget payload ''approval_source'') then Inr (py_str (jget payload ''approval_source''))
      else if \<not> truthy (jget payload ''data'') then Inr []
      else case jget payload ''data'' of
        JObj d \<Rightarrow> Inr (str_or_empty (jget d ''approval_source''))
      | _ \<Rightarrow> Inl (OtherErr ''AttributeError''))"

definition legacy_event :: "(string \<times> json) list \<Rightarrow> exn + bool" where
  "legacy_event payload =
     (let et = str_or_empty (py_or (jget payload ''event_type'') (jget payload ''type'')) in
      bindR (event_source payload) (\<lambda>source.
      Inr (py_in ''writable_root'' et \<or> source = ''cli_flag'' \<or>
           py_in ''approve-writable-root'' (dumps_plain (JObj payload)))))"

text \<open>The lines of the event file that are not blank, parsed.\<close>

fun count_legacy :: "rec_file list \<Rightarrow> exn + nat" where
  "count_legacy [] = Inr 0"
| "count_legacy (line # lines) =
     (case line of
        Parsed (JObj payload) \<Rightarrow>
          bindR (legacy_event payload) (\<lambda>seen.
          bindR (count_legacy lines) (\<lambda>n. Inr (if seen then Suc n else n)))
      | _ \<Rightarrow> count_legacy lines)"

record migration_scan =
  ms_proposals :: nat
  ms_approvals :: nat
  ms_bindings :: nat
  ms_receipts :: nat
  ms_corrupt :: "scan_corrupt list"
  ms_legacy_seen :: nat
  ms_fabricated :: nat

definition scan_write_scope_store :: "cfg \<Rightarrow> rec_file list option \<Rightarrow> migration_scan run" where
  "scan_write_scope_store C event_lines =
     bindM (reads (\<lambda>w. scan_dir (verify_proposal_record C) is_proposal_error ''proposal'' (proposals_dir C) w
              (glob_names (proposals_dir C) ''wsp-'' w))) (\<lambda>pr. bindM (lift_res pr) (\<lambda>(p_ok, p_bad).
     bindM (reads (\<lambda>w. scan_dir (verify_approval_base C) is_approval_error ''approval'' (approvals_dir C) w
              (glob_names (approvals_dir C) ''wsa-'' w))) (\<lambda>ar. bindM (lift_res ar) (\<lambda>(a_ok, a_bad).
     bindM (reads (\<lambda>w. scan_dir (verify_binding_record C) is_binding_error ''binding'' (bindings_dir C) w
              (glob_names (bindings_dir C) ''wsb-'' w))) (\<lambda>br. bindM (lift_res br) (\<lambda>(b_ok, b_bad).
     bindM (reads (\<lambda>w. scan_dir (verify_receipt_record C) is_enforcement_error ''receipt'' (receipts_dir C) w
              (glob_names (receipts_dir C) ''wmr-'' w))) (\<lambda>rr. bindM (lift_res rr) (\<lambda>(r_ok, r_bad).
     bindM (lift_res (case event_lines of None \<Rightarrow> Inr 0 | Some ls \<Rightarrow> count_legacy ls)) (\<lambda>seen.
     ret \<lparr>ms_proposals = p_ok, ms_approvals = a_ok, ms_bindings = b_ok, ms_receipts = r_ok,
          ms_corrupt = p_bad @ a_bad @ b_bad @ r_bad, ms_legacy_seen = seen, ms_fabricated = 0\<rparr>)))))))))"

end
