(* ===== verification/Enforcement_Laws.thy ===== *)
theory Enforcement_Laws
  imports Enforcement
begin

section \<open>Laws of enforcement\<close>

text \<open>
  The receipt store; the classification of changed paths; what an enforcement does to the
  approval and the binding. Enforcement only moves records along their lifecycles: it neither
  adds an approval nor a binding, and bindings stay exclusive.
\<close>

abbreviation receipt_at :: "cfg \<Rightarrow> world \<Rightarrow> path \<Rightarrow> receipt option" where
  "receipt_at C w p \<equiv> stored verify_receipt_record C w p"

abbreviation receipt_path :: "cfg \<Rightarrow> string \<Rightarrow> path" where
  "receipt_path C i \<equiv> receipts_dir C @ [i @ ''.json'']"

abbreviation receipt_kinds :: "(string \<times> string) list" where
  "receipt_kinds \<equiv> [(''wmr-'', ''mutation_receipt'')]"

subsection \<open>The receipt store\<close>

lemma compliance_of_text [simp]: "compliance_of (compliance_text c) = Some c"
  by (cases c) (simp_all add: compliance_of_def)

lemma compliance_text_of: "compliance_of t = Some c \<Longrightarrow> t = compliance_text c"
  by (auto simp: compliance_of_def split: if_splits)

lemma compliance_strip [simp]: "py_strip (compliance_text c) = compliance_text c"
  by (cases c) (simp_all add: py_strip_no_space py_space_def)

definition clean_texts :: "string list \<Rightarrow> bool" where
  "clean_texts ts \<longleftrightarrow> list_all (\<lambda>t. t \<noteq> [] \<and> py_strip t = t) ts"

definition receipt_ok :: "cfg \<Rightarrow> receipt \<Rightarrow> bool" where
  "receipt_ok C r \<longleftrightarrow>
     mr_id r = compute_receipt_id C (mr_binding r) (mr_run r) (mr_evaluated r)
       (compliance_text (mr_compliance r)) \<and>
     mr_run r \<noteq> [] \<and> mr_binding r \<noteq> [] \<and> mr_approval r \<noteq> [] \<and> mr_target r \<noteq> [] \<and>
     mr_created r \<noteq> [] \<and> mr_evaluated r \<noteq> [] \<and>
     py_strip (mr_run r) = mr_run r \<and> py_strip (mr_binding r) = mr_binding r \<and>
     py_strip (mr_approval r) = mr_approval r \<and> py_strip (mr_target r) = mr_target r \<and>
     py_strip (mr_created r) = mr_created r \<and> py_strip (mr_evaluated r) = mr_evaluated r \<and>
     is_sha40 (mr_sha r) \<and>
     py_strip (mr_binding_status r) = mr_binding_status r \<and>
     py_strip (mr_approval_status r) = mr_approval_status r \<and>
     clean_texts (mr_changed r) \<and> clean_texts (mr_in r) \<and> clean_texts (mr_out r) \<and>
     clean_texts (mr_restored r) \<and>
     (\<forall>ts. mr_allowed r = Some ts \<longrightarrow> clean_texts ts) \<and> (\<forall>ts. mr_denied r = Some ts \<longrightarrow> clean_texts ts) \<and>
     (\<forall>t. mr_workspace r = Some t \<longrightarrow> py_strip t = t)"

lemma receipt_str_list_clean: "receipt_str_list r k = Inr ts \<Longrightarrow> clean_texts ts"
  by (auto simp: receipt_str_list_def clean_texts_def list_all_iff split: json.splits)

lemma receipt_opt_list_clean: "receipt_opt_list r k = Inr (Some ts) \<Longrightarrow> clean_texts ts"
  by (auto simp: receipt_opt_list_def bindR_Inr_iff dest: receipt_str_list_clean split: if_splits)

lemma clean_texts_map: "clean_texts ts \<Longrightarrow> filter (\<lambda>t. t \<noteq> []) (map (\<lambda>t. py_strip t) ts) = ts"
  by (induction ts) (auto simp: clean_texts_def)

lemma receipt_str_list_json:
  "clean_texts ts \<Longrightarrow> jget r k = JArr (map JStr ts) \<Longrightarrow> receipt_str_list r k = Inr ts"
  by (simp add: receipt_str_list_def comp_def clean_texts_map)

lemma verify_receipt_ok:
  assumes "verify_receipt_record C j = Inr r"
  shows "receipt_ok C r"
proof -
  from assms obtain d where j: "j = JObj d"
    by (cases j) (simp_all add: verify_receipt_record_def)
  from assms [unfolded j] obtain c where c: "compliance_of (text_field d ''compliance'') = Some c"
    by (cases "compliance_of (text_field d ''compliance'')")
      (auto simp: verify_receipt_record_def Let_def bindR_Inr_iff)
  from assms [unfolded j] show ?thesis
    unfolding receipt_ok_def verify_receipt_record_def Let_def
    by (auto simp: c bindR_Inr_iff dest: receipt_str_list_clean receipt_opt_list_clean)
qed

lemma receipt_id_clean:
  "plain_ref (compute_receipt_id C b r t c)"
  "py_strip (compute_receipt_id C b r t c) = compute_receipt_id C b r t c"
  "compute_receipt_id C b r t c \<noteq> []"
  unfolding compute_receipt_id_def plain_ref_def
  by (auto intro!: short_id_clean simp: short_id_neq_Nil py_space_def short_id_clean)

lemma verify_receipt_json:
  assumes "receipt_ok C r"
  shows "verify_receipt_record C (receipt_json r) = Inr r"
proof -
  from assms have f: "mr_id r = compute_receipt_id C (mr_binding r) (mr_run r) (mr_evaluated r)
       (compliance_text (mr_compliance r))"
    "mr_run r \<noteq> []" "mr_binding r \<noteq> []" "mr_approval r \<noteq> []" "mr_target r \<noteq> []"
    "mr_created r \<noteq> []" "mr_evaluated r \<noteq> []"
    "py_strip (mr_run r) = mr_run r" "py_strip (mr_binding r) = mr_binding r"
    "py_strip (mr_approval r) = mr_approval r" "py_strip (mr_target r) = mr_target r"
    "py_strip (mr_created r) = mr_created r" "py_strip (mr_evaluated r) = mr_evaluated r"
    "is_sha40 (mr_sha r)"
    "py_strip (mr_binding_status r) = mr_binding_status r"
    "py_strip (mr_approval_status r) = mr_approval_status r"
    "clean_texts (mr_changed r)" "clean_texts (mr_in r)" "clean_texts (mr_out r)"
    "clean_texts (mr_restored r)"
    "\<And>ts. mr_allowed r = Some ts \<Longrightarrow> clean_texts ts" "\<And>ts. mr_denied r = Some ts \<Longrightarrow> clean_texts ts"
    "\<And>t. mr_workspace r = Some t \<Longrightarrow> py_strip t = t"
    by (auto simp: receipt_ok_def)
  note id = receipt_id_clean [of C "mr_binding r" "mr_run r" "mr_evaluated r" "compliance_text (mr_compliance r)"]
  note l = receipt_str_list_json [OF f(17)] receipt_str_list_json [OF f(18)]
    receipt_str_list_json [OF f(19)] receipt_str_list_json [OF f(20)]
  have al: "receipt_opt_list d ''effective_allowed_roots'' = Inr (mr_allowed r)"
    if "jget d ''effective_allowed_roots'' = (case mr_allowed r of None \<Rightarrow> JNull | Some ts \<Rightarrow> JArr (map JStr ts))" for d
    using that f(21) by (cases "mr_allowed r") (simp_all add: receipt_opt_list_def receipt_str_list_json)
  have dl: "receipt_opt_list d ''denied_roots'' = Inr (mr_denied r)"
    if "jget d ''denied_roots'' = (case mr_denied r of None \<Rightarrow> JNull | Some ts \<Rightarrow> JArr (map JStr ts))" for d
    using that f(22) by (cases "mr_denied r") (simp_all add: receipt_opt_list_def receipt_str_list_json)
  have ot: "receipt_opt_text d k = v" if "jget d k = (case v of None \<Rightarrow> JNull | Some t \<Rightarrow> JStr t)" for d k v
    using that by (cases v) (simp_all add: receipt_opt_text_def)
  obtain d where d: "receipt_json r = JObj d" by (simp add: receipt_json_def)
  have g: "jget d ''kind'' = JStr ''mutation_receipt''" "jget d ''schema_version'' = JInt 1"
    "text_field d ''receipt_id'' = mr_id r" "text_field d ''run_id'' = mr_run r"
    "text_field d ''binding_id'' = mr_binding r" "text_field d ''approval_id'' = mr_approval r"
    "text_field d ''target_id'' = mr_target r" "text_field d ''base_sha'' = mr_sha r"
    "text_field d ''created_at'' = mr_created r" "text_field d ''evaluated_at'' = mr_evaluated r"
    "text_field d ''compliance'' = compliance_text (mr_compliance r)"
    "text_field d ''binding_status'' = mr_binding_status r"
    "text_field d ''approval_status'' = mr_approval_status r"
    "receipt_str_list d ''changed_paths'' = Inr (mr_changed r)"
    "receipt_str_list d ''in_scope_paths'' = Inr (mr_in r)"
    "receipt_str_list d ''out_of_scope_paths'' = Inr (mr_out r)"
    "receipt_str_list d ''restored_paths'' = Inr (mr_restored r)"
    using d f id sha40_strip_lower [OF f(14)] sha40_stable [OF f(14)]
    by (auto simp: receipt_json_def text_field_def intro!: l)
  have h: "receipt_opt_text d ''workspace_root'' = mr_workspace r"
    "receipt_opt_text d ''stop_reason'' = mr_stop r" "receipt_opt_text d ''failure_reason'' = mr_failure r"
    "receipt_opt_text d ''revocation_id'' = mr_revocation r"
    "receipt_opt_list d ''effective_allowed_roots'' = Inr (mr_allowed r)"
    "receipt_opt_list d ''denied_roots'' = Inr (mr_denied r)"
    using d
    by (auto simp: receipt_json_def opt_field_def opt_list_def intro!: ot al dl split: option.split)
  have "map_option py_strip (mr_workspace r) = mr_workspace r"
    using f(23) by (cases "mr_workspace r") simp_all
  then show ?thesis
    unfolding d verify_receipt_record_def Let_def
    using f id sha40_stable [OF f(14)] by (simp add: g h bindR_check is_one_def)
qed

text \<open>A receipt is written over one with the same identifier.\<close>

definition receipt_follows :: "receipt \<Rightarrow> receipt \<Rightarrow> bool" where
  "receipt_follows a b \<longleftrightarrow> mr_id b = mr_id a"

interpretation receipts: evolving_store verify_receipt_record receipt_json mr_id receipts_dir
  receipt_follows "''wmr-''" "''mutation_receipt''"
proof unfold_locales
  fix C j and r :: receipt
  assume v: "verify_receipt_record C j = Inr r"
  then have ok: "receipt_ok C r" by (rule verify_receipt_ok)
  then show "verify_receipt_record C (receipt_json r) = Inr r" by (rule verify_receipt_json)
  from ok have "mr_id r = compute_receipt_id C (mr_binding r) (mr_run r) (mr_evaluated r)
       (compliance_text (mr_compliance r))"
    by (simp add: receipt_ok_def)
  then show "plain_ref (mr_id r)" "starts_with (mr_id r) ''wmr-''"
    using receipt_id_clean(1) short_id_prefix by (metis, metis compute_receipt_id_def)
next
  fix C kvs and r :: receipt
  assume "verify_receipt_record C (JObj kvs) = Inr r"
  then show "jget kvs ''kind'' = JStr ''mutation_receipt''"
    by (auto simp: verify_receipt_record_def bindR_Inr_iff)
qed (simp_all add: receipt_follows_def)

subsection \<open>No operation of enforcement adds authority\<close>

definition authority_evolves :: "cfg \<Rightarrow> world \<Rightarrow> world \<Rightarrow> bool" where
  "authority_evolves C w w' \<longleftrightarrow> approvals_evolve False C w w' \<and> bindings_evolve False C w w'"

interpretation auth: state_order "authority_evolves C" for C
  by unfold_locales
    (auto simp: authority_evolves_def intro: approvals.evolve_refl bindings.evolve_refl
      approvals.evolve_trans bindings.evolve_trans)

abbreviation scope_kinds :: "(string \<times> string) list" where
  "scope_kinds \<equiv> [(''wsa-'', ''write_scope_approval''), (''wsr-'', ''write_scope_revocation''),
     (''wsb-'', ''write_scope_binding''), (''wmr-'', ''mutation_receipt'')]"

lemma authority_grant:
  "keeps (approvals_evolve False C) m \<Longrightarrow> keeps (writes_only grant_kinds) m \<Longrightarrow> keeps (authority_evolves C) m"
  using bindings_by_grants [of m False C] by (simp add: keeps_def authority_evolves_def)

lemma authority_binding:
  "keeps (bindings_evolve False C) m \<Longrightarrow> keeps (writes_only binding_kinds) m \<Longrightarrow> keeps (authority_evolves C) m"
  using approvals_by_bindings [of m False C] by (simp add: keeps_def authority_evolves_def)

lemma authority_receipt: "keeps (writes_only receipt_kinds) m \<Longrightarrow> keeps (authority_evolves C) m"
  using approvals.keeps_other_kinds [of receipt_kinds m False C]
    bindings.keeps_other_kinds [of receipt_kinds m False C]
  by (simp add: keeps_def authority_evolves_def apart_def)

lemma authority_quiet: "keeps same_files m \<Longrightarrow> keeps (authority_evolves C) m"
  by (auto simp: keeps_def authority_evolves_def approvals.evolve_quiet bindings.evolve_quiet)

lemma authority_load_approval: "keeps (authority_evolves (cfg_of E)) (load_approval E ref now ttl persist)"
  by (intro authority_grant evolve_load_approval writes_load_approval)

lemma authority_transition: "keeps (authority_evolves (cfg_of E)) (transition_binding_status E ref to why at)"
  by (intro authority_binding transition_binding_rules)

lemma scope_load_approval: "keeps (writes_only scope_kinds) (load_approval E ref now ttl persist)"
  by (rule keeps_mono_kinds [OF writes_load_approval]) auto

lemma scope_transition: "keeps (writes_only scope_kinds) (transition_binding_status E ref to why at)"
  by (rule keeps_mono_kinds [OF transition_binding_rules(2)]) auto

lemma scope_receipt: "keeps (writes_only receipt_kinds) m \<Longrightarrow> keeps (writes_only scope_kinds) m"
  by (erule keeps_mono_kinds) auto

lemma scope_grant: "keeps (writes_only grant_kinds) m \<Longrightarrow> keeps (writes_only scope_kinds) m"
  by (erule keeps_mono_kinds) auto

lemmas auth_rules = auth.keeps_rules authority_load_approval authority_transition
lemmas scope_rules = wo.keeps_rules scope_load_approval scope_transition

lemma quiet_restores: "keeps same_files (writes (\<lambda>w. w\<lparr>restores := restores w @ acts\<rparr>))"
  by (simp add: keeps_def writes_def same_files_def)

lemma quiet_restore_one: "keeps same_files (restore_one E root rel acts)"
  unfolding restore_one_def Let_def
  by (intro quiet.keeps_bind) (auto intro!: quiet.keeps_rules quiet_restores split: option.split)

lemma quiet_restore_paths: "keeps same_files (restore_paths E ws paths)"
  unfolding restore_paths_def by (intro quiet.keeps_rules quiet_restore_one)

lemma quiet_judge: "keeps same_files (judge_mutations E q ws stop ins outs)"
  unfolding judge_mutations_def Let_def by (auto intro!: quiet.keeps_rules quiet_restore_paths)

text \<open>A receipt that verifies is written whatever was there before; nothing else is.\<close>

lemma save_receipt_run:
  "save_receipt E j w = (Inr v, w') \<Longrightarrow>
     verify_receipt_record (cfg_of E) j = Inr v \<and>
     same_files (write_file (receipt_path (cfg_of E) (mr_id v)) (receipt_json v) w) w'"
  "save_receipt E j w = (Inl e, w') \<Longrightarrow> w' = w \<and> verify_receipt_record (cfg_of E) j = Inl e"
  by (auto simp: save_receipt_def Let_def op_simps atomic_write_json_def event_returns
      receipts.plain_id dest: keepsD [OF quiet_event])

lemma receipt_put:
  assumes v: "verify_receipt_record C j = Inr r"
  shows "writes_only receipt_kinds w (write_file (receipt_path C (mr_id r)) (receipt_json r) w)"
    and "evolves verify_receipt_record mr_id receipts_dir receipt_follows True C w
           (write_file (receipt_path C (mr_id r)) (receipt_json r) w)"
proof -
  have "starts_with (last (receipt_path C (mr_id r))) ''wmr-''"
    using receipts.id_prefix [OF v] by (auto simp: starts_with_iff)
  then show "writes_only receipt_kinds w (write_file (receipt_path C (mr_id r)) (receipt_json r) w)"
    unfolding receipt_json_def by (intro writes_only_put) auto
  show "evolves verify_receipt_record mr_id receipts_dir receipt_follows True C w
      (write_file (receipt_path C (mr_id r)) (receipt_json r) w)"
  proof (cases "in_place verify_receipt_record mr_id receipts_dir C w")
    case True
    show ?thesis
      by (rule receipts.evolve_put [OF refl receipts.reverify [OF v]])
        (auto simp: receipt_follows_def dest: receipts.stored_name(1) [OF True])
  qed (simp add: evolves_def)
qed

lemma save_receipt_rules:
  "keeps (writes_only receipt_kinds) (save_receipt E j)"
  "keeps (evolves verify_receipt_record mr_id receipts_dir receipt_follows True (cfg_of E)) (save_receipt E j)"
proof -
  have "writes_only receipt_kinds w w' \<and>
      evolves verify_receipt_record mr_id receipts_dir receipt_follows True (cfg_of E) w w'"
    if run: "save_receipt E j w = (r, w')" for w r w'
  proof (cases r)
    case (Inl e)
    with run save_receipt_run(2) have "w' = w" by blast
    then show ?thesis by (auto intro: wo.order_refl receipts.evolve_refl)
  next
    case (Inr v)
    note o = save_receipt_run(1) [OF run [unfolded Inr]]
    show ?thesis
      using receipt_put [OF conjunct1 [OF o]] conjunct2 [OF o]
      by (blast intro: wo.order_trans writes_only_quiet receipts.evolve_trans receipts.evolve_quiet)
  qed
  then show "keeps (writes_only receipt_kinds) (save_receipt E j)"
    "keeps (evolves verify_receipt_record mr_id receipts_dir receipt_follows True (cfg_of E)) (save_receipt E j)"
    by (auto intro: keepsI)
qed

lemma save_receipt_stored:
  assumes "save_receipt E j w = (Inr v, w')"
  shows "receipt_at (cfg_of E) w' (receipt_path (cfg_of E) (mr_id v)) = Some v"
proof -
  note o = save_receipt_run(1) [OF assms]
  have "verify_receipt_record (cfg_of E) (receipt_json v) = Inr v"
    using conjunct1 [OF o] by (rule receipts.reverify)
  then show ?thesis
    unfolding same_files_stored [OF conjunct2 [OF o]] by (simp add: stored_write)
qed

subsection \<open>The stages of an enforcement\<close>

lemma consume_rules:
  "keeps (authority_evolves (cfg_of E)) (consume_approval E i why)"
  "keeps (writes_only grant_kinds) (consume_approval E i why)"
  "keeps (writes_only scope_kinds) (consume_approval E i why)"
proof -
  show "keeps (authority_evolves (cfg_of E)) (consume_approval E i why)"
    unfolding consume_approval_def
    by (intro auth_rules authority_grant transition_rules authority_quiet [OF quiet_event])
  show "keeps (writes_only grant_kinds) (consume_approval E i why)"
    unfolding consume_approval_def
    by (intro wo.keeps_rules transition_rules keeps_writes_only_quiet [OF quiet_event])
  then show "keeps (writes_only scope_kinds) (consume_approval E i why)" by (rule scope_grant)
qed

lemma breach_rules:
  "keeps (authority_evolves (cfg_of E)) (revoke_approval_for_breach E i why)"
  "keeps (writes_only grant_kinds) (revoke_approval_for_breach E i why)"
  "keeps (writes_only scope_kinds) (revoke_approval_for_breach E i why)"
proof -
  show "keeps (authority_evolves (cfg_of E)) (revoke_approval_for_breach E i why)"
    unfolding revoke_approval_for_breach_def split_def
    by (intro auth_rules authority_grant evolve_revoke_approval writes_revoke_approval)
  show "keeps (writes_only grant_kinds) (revoke_approval_for_breach E i why)"
    unfolding revoke_approval_for_breach_def split_def
    by (intro wo.keeps_rules writes_revoke_approval)
  then show "keeps (writes_only scope_kinds) (revoke_approval_for_breach E i why)" by (rule scope_grant)
qed

lemma attempt_rules:
  "keeps (authority_evolves C) m \<Longrightarrow> keeps (authority_evolves C) (attempt m)"
  "keeps (writes_only ks) n \<Longrightarrow> keeps (writes_only ks) (attempt n)"
proof -
  show "keeps (authority_evolves C) m \<Longrightarrow> keeps (authority_evolves C) (attempt m)"
    unfolding attempt_def
    by (intro auth.keeps_catch auth.keeps_bind auth.keeps_ret)
      (auto intro: auth.keeps_ret split: if_splits)
  show "keeps (writes_only ks) n \<Longrightarrow> keeps (writes_only ks) (attempt n)"
    unfolding attempt_def
    by (intro wo.keeps_catch wo.keeps_bind wo.keeps_ret)
      (auto intro: wo.keeps_ret split: if_splits)
qed

lemma checkpoint_rules:
  "keeps (authority_evolves (cfg_of E)) (check_authority_checkpoint E b ws sha now)"
  "keeps (writes_only grant_kinds) (check_authority_checkpoint E b ws sha now)"
  "keeps (writes_only scope_kinds) (check_authority_checkpoint E b ws sha now)"
proof -
  note a = authority_quiet [OF quiet_is_approval_active] keeps_writes_only_quiet [OF quiet_is_approval_active]
  show "keeps (authority_evolves (cfg_of E)) (check_authority_checkpoint E b ws sha now)"
    unfolding check_authority_checkpoint_def
    by (auto intro!: auth_rules auth.keeps_catch a
        split: if_splits sum.splits approval_status.splits)
  show "keeps (writes_only grant_kinds) (check_authority_checkpoint E b ws sha now)"
    unfolding check_authority_checkpoint_def
    by (auto intro!: wo.keeps_rules writes_load_approval wo.keeps_catch a
        split: if_splits sum.splits approval_status.splits)
  then show "keeps (writes_only scope_kinds) (check_authority_checkpoint E b ws sha now)" by (rule scope_grant)
qed

lemma scope_roots_rules:
  "keeps (authority_evolves (cfg_of E)) (load_scope_roots_for_binding E b)"
  "keeps (writes_only grant_kinds) (load_scope_roots_for_binding E b)"
  "keeps (writes_only scope_kinds) (load_scope_roots_for_binding E b)"
proof -
  show "keeps (authority_evolves (cfg_of E)) (load_scope_roots_for_binding E b)"
    unfolding load_scope_roots_for_binding_def
    by (auto intro!: auth_rules auth.keeps_catch split: if_splits)
  show "keeps (writes_only grant_kinds) (load_scope_roots_for_binding E b)"
    unfolding load_scope_roots_for_binding_def
    by (auto intro!: wo.keeps_rules writes_load_approval wo.keeps_catch split: if_splits)
  then show "keeps (writes_only scope_kinds) (load_scope_roots_for_binding E b)" by (rule scope_grant)
qed

lemma enforcement_scope_rules:
  "keeps (authority_evolves (cfg_of E)) (enforcement_scope E b)"
  "keeps (writes_only grant_kinds) (enforcement_scope E b)"
  "keeps (writes_only scope_kinds) (enforcement_scope E b)"
proof -
  show "keeps (authority_evolves (cfg_of E)) (enforcement_scope E b)"
    unfolding enforcement_scope_def
    by (auto intro!: auth.keeps_rules auth.keeps_catch scope_roots_rules split: if_splits)
  show "keeps (writes_only grant_kinds) (enforcement_scope E b)"
    unfolding enforcement_scope_def
    by (auto intro!: wo.keeps_rules wo.keeps_catch scope_roots_rules split: if_splits)
  then show "keeps (writes_only scope_kinds) (enforcement_scope E b)" by (rule scope_grant)
qed

lemma move_binding_rules:
  "keeps (authority_evolves (cfg_of E)) (move_binding E i v b t)"
  "keeps (writes_only scope_kinds) (move_binding E i v b t)"
  unfolding move_binding_def
  by (auto intro!: auth_rules scope_rules split: option.splits)

lemma settle_approval_rules:
  "keeps (authority_evolves (cfg_of E)) (settle_approval E v ins outs b a)"
  "keeps (writes_only grant_kinds) (settle_approval E v ins outs b a)"
  "keeps (writes_only scope_kinds) (settle_approval E v ins outs b a)"
proof -
  show "keeps (authority_evolves (cfg_of E)) (settle_approval E v ins outs b a)"
    unfolding settle_approval_def Let_def
    by (auto intro!: auth.keeps_rules consume_rules breach_rules split: compliance.splits)
  show "keeps (writes_only grant_kinds) (settle_approval E v ins outs b a)"
    unfolding settle_approval_def Let_def
    by (auto intro!: wo.keeps_rules consume_rules breach_rules split: compliance.splits)
  then show "keeps (writes_only scope_kinds) (settle_approval E v ins outs b a)" by (rule scope_grant)
qed

lemma settle_after_error_rules:
  "keeps (authority_evolves (cfg_of E)) (settle_after_error E i v b a t e)"
  "keeps (writes_only scope_kinds) (settle_after_error E i v b a t e)"
proof -
  show "keeps (authority_evolves (cfg_of E)) (settle_after_error E i v b a t e)"
    unfolding settle_after_error_def Let_def
    by (auto intro!: auth_rules auth.keeps_catch authority_quiet [OF quiet_load_binding] split: if_splits)
  show "keeps (writes_only scope_kinds) (settle_after_error E i v b a t e)"
    unfolding settle_after_error_def Let_def
    by (auto intro!: scope_rules wo.keeps_catch keeps_writes_only_quiet [OF quiet_load_binding] split: if_splits)
qed

lemma settle_authority_rules:
  "keeps (authority_evolves (cfg_of E)) (settle_authority E i v ins outs b t now)"
  "keeps (writes_only scope_kinds) (settle_authority E i v ins outs b t now)"
proof -
  show "keeps (authority_evolves (cfg_of E)) (settle_authority E i v ins outs b t now)"
    unfolding settle_authority_def
    by (auto intro!: auth_rules attempt_rules move_binding_rules settle_approval_rules
        settle_after_error_rules split: sum.splits)
  show "keeps (writes_only scope_kinds) (settle_authority E i v ins outs b t now)"
    unfolding settle_authority_def
    by (auto intro!: scope_rules attempt_rules move_binding_rules settle_approval_rules
        settle_after_error_rules split: sum.splits)
qed

lemma enforcement_receipt_rules:
  "keeps (writes_only receipt_kinds) (enforcement_receipt E v s ins outs ws scope t)"
  unfolding enforcement_receipt_def Let_def
  by (intro wo.keeps_rules save_receipt_rules)

lemma enforce_rules:
  "keeps (authority_evolves (cfg_of E)) (enforce_write_scope_mutations E i q)"
  "keeps (writes_only scope_kinds) (enforce_write_scope_mutations E i q)"
proof -
  show "keeps (authority_evolves (cfg_of E)) (enforce_write_scope_mutations E i q)"
    unfolding enforce_write_scope_mutations_def
    by (auto intro!: auth.keeps_rules checkpoint_rules enforcement_scope_rules settle_authority_rules
        authority_receipt [OF enforcement_receipt_rules] authority_quiet [OF quiet_load_binding]
        authority_quiet [OF quiet_text_or_now] authority_quiet [OF quiet_judge])
  show "keeps (writes_only scope_kinds) (enforce_write_scope_mutations E i q)"
    unfolding enforce_write_scope_mutations_def
    by (auto intro!: wo.keeps_rules checkpoint_rules enforcement_scope_rules settle_authority_rules
        scope_receipt [OF enforcement_receipt_rules] keeps_writes_only_quiet [OF quiet_load_binding]
        keeps_writes_only_quiet [OF quiet_text_or_now] keeps_writes_only_quiet [OF quiet_judge])
qed

end
