(* ===== verification/Enforcement_Outcome.thy ===== *)
theory Enforcement_Outcome
  imports Enforcement_Laws
begin

section \<open>What an enforcement leaves behind\<close>

text \<open>
  An enforcement that returns has ended its binding, and every compliance that saw a mutation
  has ended the approval as well. The proof goes through calls that cannot fail: once an
  approval has been read it can be read again, and once it was read as approved it can be
  revoked or consumed unless it lapses meanwhile.
\<close>

subsection \<open>Calls that cannot fail\<close>

definition readable :: "cfg \<Rightarrow> approval \<Rightarrow> bool" where
  "readable C a \<longleftrightarrow> wa_status a \<noteq> Approved \<or> (\<exists>x. parse_iso_utc C (wa_expires a) = Inr x)"

text \<open>The approval a reference denotes, if its expiry can be read.\<close>

definition readable_at :: "cfg \<Rightarrow> world \<Rightarrow> string \<Rightarrow> approval \<Rightarrow> bool" where
  "readable_at C w ref a \<longleftrightarrow>
     py_strip ref \<noteq> [] \<and> record_path (approvals_dir C) (py_strip ref) = approval_path C (wa_id a) \<and>
     approvals_placed C w \<and> approval_at C w (approval_path C (wa_id a)) = Some a \<and> readable C a"

lemma load_readable:
  assumes "load_approval E ref now True True w = (Inr a, w')" "approvals_placed (cfg_of E) w"
  shows "readable_at (cfg_of E) w' ref a"
proof -
  note l = load_approval_stored [OF assms]
  from assms(1) obtain a0 where "py_strip ref \<noteq> []" "evaluate_expiry E now True a0 w = (Inr a, w')"
    by (auto simp: load_approval_Inr)
  then have "py_strip ref \<noteq> []" "readable (cfg_of E) a"
    by (auto simp: readable_def elim!: evaluate_expiry_cases)
  with l show ?thesis by (simp add: readable_at_def)
qed

lemma evaluate_expiry_returns:
  assumes "readable (cfg_of E) a"
  obtains b w' where "evaluate_expiry E now persist a w = (Inr b, w')"
    "b = a \<or> wa_status a = Approved \<and> wa_status b = Expired \<and> wa_id b = wa_id a"
proof -
  obtain r w' where run: "evaluate_expiry E now persist a w = (r, w')" by fastforce
  have "\<exists>b. r = Inr b"
  proof (cases "wa_status a = Approved")
    case True
    with assms obtain x where x: "parse_iso_utc (cfg_of E) (wa_expires a) = Inr x"
      by (auto simp: readable_def)
    obtain t w1 where t: "given_or_now E now w = (Inr t, w1)"
      by (cases now) (auto simp: given_or_now_def now_utc_def ret_def)
    have "assert_transition (Some Approved) Expired = Inr ()" by code_simp
    with run True x t show ?thesis
      by (auto simp: evaluate_expiry_def Let_def bindM_def lift_res_def ret_def atomic_write_json_def
          writes_def event_returns utc_now_iso_def now_utc_def split: if_splits prod.splits sum.splits
          option.splits)
  qed (use run in \<open>auto simp: evaluate_expiry_def ret_def\<close>)
  then obtain b where "r = Inr b" ..
  with run show thesis
    by (intro that [of b w']) (auto elim!: evaluate_expiry_cases)
qed

lemma load_again:
  assumes "readable_at (cfg_of E) w ref a"
  obtains b w' where "load_approval E ref now True True w = (Inr b, w')"
    "readable_at (cfg_of E) w' ref b" "wa_id b = wa_id a"
    "b = a \<or> wa_status a = Approved \<and> wa_status b = Expired"
proof -
  from assms have a: "readable (cfg_of E) a" "approval_at (cfg_of E) w (record_path (approvals_dir (cfg_of E)) (py_strip ref)) = Some a"
    "py_strip ref \<noteq> []" "approvals_placed (cfg_of E) w"
    by (auto simp: readable_at_def)
  obtain b w' where b: "evaluate_expiry E now True a w = (Inr b, w')"
    "b = a \<or> wa_status a = Approved \<and> wa_status b = Expired \<and> wa_id b = wa_id a"
    using a(1) by (rule evaluate_expiry_returns)
  then have ld: "load_approval E ref now True True w = (Inr b, w')"
    using a by (simp add: load_approval_Inr)
  show thesis
    using b(2) by (intro that [OF ld load_readable [OF ld a(4)]]) auto
qed

lemma readable_other:
  assumes "writes_only ks w w'" "\<And>q k. (q, k) \<in> set ks \<Longrightarrow> apart q ''wsa-'' \<and> k \<noteq> ''write_scope_approval''"
    "readable_at C w ref a"
  shows "readable_at C w' ref a"
proof -
  have "approval_at C w' p = approval_at C w p" for p
    using assms by (intro approvals.stored_other_kinds) (auto simp: readable_at_def)
  with assms(3) show ?thesis by (simp add: readable_at_def in_place_def)
qed

lemma readable_quiet: "same_files w w' \<Longrightarrow> readable_at C w ref a \<Longrightarrow> readable_at C w' ref a"
  by (rule readable_other [of "[]"]) (auto intro: writes_only_quiet)

lemma strip_neq_Nil:
  assumes "s \<noteq> []" "\<not> py_space (last s)"
  shows "py_strip s \<noteq> []"
proof
  assume "py_strip s = []"
  then have "\<forall>c \<in> set (dropWhile py_space s). py_space c" by (simp add: py_strip_def)
  then have "\<forall>c \<in> set s. py_space c"
    by (metis UnE set_append set_takeWhileD takeWhile_dropWhile_id)
  with assms show False by simp
qed

lemma strip_stamp: "py_strip (stamp t) \<noteq> []"
proof -
  obtain s where "stamp t = s @ ''Z''"
    by (force simp: stamp_def iso_z_def Let_def split: prod.splits)
  then show ?thesis by (intro strip_neq_Nil) (simp_all add: py_space_def)
qed

lemma utc_now_iso_run: "\<exists>t w'. utc_now_iso E w = (Inr (stamp t), w') \<and> same_files w w'"
  by (auto simp: utc_now_iso_def op_simps now_utc_def same_files_def)

lemma event_run: "\<exists>x w'. append_scope_event E ty pl at w = (Inr x, w') \<and> same_files w w'"
  by (metis event_returns keepsD old.sum.exhaust quiet_event surj_pair)

text \<open>Revoking an approval just read as approved returns.\<close>

lemma revoke_now_returns:
  assumes ok: "approval_ok (cfg_of E) a" and op: "assert_operator_identity who ''revoked_by'' = Inr who"
    and why: "py_strip why = why" "why \<noteq> []"
  shows "\<exists>v w'. revoke_now E a who why None w = (Inr v, w')"
proof -
  let ?C = "cfg_of E"
  have tr: "assert_transition (Some Approved) Revoked = Inr ()" by code_simp
  obtain t w1 where t: "utc_now_iso E w = (Inr (stamp t), w1)" using utc_now_iso_run by blast
  have id: "wa_id a \<noteq> []" "py_strip (wa_id a) = wa_id a"
    using ok approval_id_clean by (metis approval_ok_def)+
  have "\<exists>rv. verify_revocation_record ?C (revocation_json
      \<lparr>wr_id = compute_revocation_id ?C (wa_id a), wr_approval = wa_id a, wr_by = who,
       wr_at = stamp t, wr_reason = why\<rparr>) = Inr rv"
    using op why id strip_stamp [of t] revocation_id_clean [of ?C "wa_id a"]
    by (simp add: verify_revocation_record_def revocation_json_def Let_def bindR_check text_field_def
        operator_asserted_provenance is_one_def)
  then obtain rv where rv: "verify_revocation_record ?C (revocation_json
      \<lparr>wr_id = compute_revocation_id ?C (wa_id a), wr_approval = wa_id a, wr_by = who,
       wr_at = stamp t, wr_reason = why\<rparr>) = Inr rv" ..
  obtain r w' where run: "revoke_now E a who why None w = (r, w')" by fastforce
  with t rv tr have "\<exists>v. r = Inr v"
    by (auto simp: revoke_now_def Let_def text_or_now_def atomic_write_json_def bindM_def lift_res_def
        writes_def ret_def event_returns split: prod.splits sum.splits)
  with run show ?thesis by blast
qed

lemma breach_operator:
  "assert_operator_identity ''runtime:write-scope-enforcement'' f = Inr ''runtime:write-scope-enforcement''"
  "assert_operator_provenance ''operator_asserted'' = Inr ''operator_asserted''"
  by (code_simp, rule operator_asserted_provenance)

lemma or_text_neq_Nil: "d \<noteq> [] \<Longrightarrow> or_text v d \<noteq> []"
  by (auto simp: or_text_def split: option.splits list.splits)

lemma breach_reason:
  "py_strip (or_text (Some (py_strip why)) ''scope_exceeded'') = or_text (Some (py_strip why)) ''scope_exceeded''"
  by (cases "py_strip why") (use py_strip_idem [of why] in \<open>auto simp: or_text_def py_strip_no_space py_space_def\<close>)

text \<open>
  A breach revocation of an approval just read as approved ends it. Afterwards the approval can
  be read and is not approved, also when it lapsed before the revocation was written.
\<close>

lemma revoked_readable:
  assumes ld: "load_approval E ref None True True w = (Inr a, w1)" and pl: "approvals_placed (cfg_of E) w"
    and st: "wa_status a = Approved" and rv: "verify_revocation_record (cfg_of E) (revocation_json rv) = Inr rv"
    and sf: "same_files (write_file (record_path (approvals_dir (cfg_of E)) (wa_id a))
        (approval_json (a\<lparr>wa_status := Revoked, wa_revocation := Some (wr_id rv)\<rparr>))
        (write_file (record_path (revocations_dir (cfg_of E)) (wr_id rv)) (revocation_json rv) w1)) w'"
  shows "readable_at (cfg_of E) w' ref (a\<lparr>wa_status := Revoked, wa_revocation := Some (wr_id rv)\<rparr>)"
proof -
  note l = load_approval_stored [OF ld pl]
  note e = revoke_effect [OF ld pl st rv]
  have "approvals_placed (cfg_of E) w'"
    using approvals.evolve_in_place [OF approvals.evolve_trans [OF e(1) approvals.evolve_quiet [OF sf]] pl] .
  moreover have "approval_at (cfg_of E) w' (approval_path (cfg_of E) (wa_id a)) =
      Some (a\<lparr>wa_status := Revoked, wa_revocation := Some (wr_id rv)\<rparr>)"
    unfolding same_files_stored [OF sf] by (rule e(2))
  ultimately show ?thesis
    using load_readable [OF ld pl] by (simp add: readable_at_def readable_def)
qed

lemma breach_ends:
  assumes rd: "readable_at (cfg_of E) w ref a" and st: "wa_status a = Approved"
  obtains b y w' where "attempt (revoke_approval_for_breach E ref why) w = (Inr y, w')"
    "readable_at (cfg_of E) w' ref b" "wa_status b \<noteq> Approved"
    "\<And>c rv. y = Inr (c, rv) \<Longrightarrow> c = b \<and> wa_status b = Revoked"
proof -
  let ?C = "cfg_of E" and ?who = "''runtime:write-scope-enforcement''"
  let ?why = "or_text (Some (py_strip why)) ''scope_exceeded''"
  have pl: "approvals_placed ?C w" using rd by (simp add: readable_at_def)
  obtain b w2 where b: "load_approval E ref None True True w = (Inr b, w2)"
    "readable_at ?C w2 ref b" "b = a \<or> wa_status b = Expired"
    using rd by (rule load_again) blast
  have y: "py_strip ?why = ?why" "?why \<noteq> []" by (simp_all add: breach_reason or_text_neq_Nil)
  have step: "revoke_approval E ref ?why ?who ''operator_asserted'' None None w =
      (if wa_status b = Revoked then revoke_again E b ?who ?why
       else if approval_terminal (wa_status b)
         then throw (ApprovalError (A_terminal (approval_status_text (wa_status b))))
       else revoke_now E b ?who ?why None) w2"
    using y by (simp add: revoke_approval_def Let_def breach_operator breach_reason or_text_neq_Nil bindM_def
        b(1) lift_res_def raise_if_def ret_def)
  show thesis
  proof (cases "wa_status b = Expired")
    case True
    then have "attempt (revoke_approval_for_breach E ref why) w =
        (Inr (Inl (ApprovalError (A_terminal (approval_status_text Expired)))), w2)"
      using step by (simp add: attempt_def catchM_def revoke_approval_for_breach_def bindM_def throw_def
          ret_def approval_terminal_def)
    then show thesis using b(2) True by (intro that) auto
  next
    case False
    with b(3) st have ba: "wa_status b = Approved" by auto
    obtain v w3 where v: "revoke_now E b ?who ?why None w2 = (Inr v, w3)"
      using revoke_now_returns [OF load_approval_ok [OF b(1)] breach_operator(1) y] by blast
    with step ba have run: "revoke_approval E ref ?why ?who ''operator_asserted'' None None w = (Inr v, w3)"
      by (simp add: approval_terminal_def)
    then show thesis
    proof (cases rule: revoke_approval_cases)
      case (revoked c wc rv)
      have "attempt (revoke_approval_for_breach E ref why) w =
          (Inr (Inr (c\<lparr>wa_status := Revoked, wa_revocation := Some (wr_id rv)\<rparr>, rv)), w3)"
        using run revoked(8) by (simp add: attempt_def catchM_def revoke_approval_for_breach_def
            bindM_def ret_def)
      then show thesis
        using revoked_readable [OF revoked(1) pl revoked(2,3,9)] by (rule that) simp_all
    qed (use b ba in auto)
  qed
qed

text \<open>Consuming a readable approval ends it, unless it had ended before.\<close>

lemma consume_ends:
  assumes rd: "readable_at (cfg_of E) w ref a"
  obtains b y w' where "attempt (consume_approval E ref why) w = (Inr y, w')"
    "readable_at (cfg_of E) w' ref b" "wa_status b \<noteq> Approved"
    "\<And>c. y = Inr c \<Longrightarrow> c = b \<and> wa_status b = Consumed"
proof -
  let ?C = "cfg_of E"
  have pl: "approvals_placed ?C w" using rd by (simp add: readable_at_def)
  obtain b w2 where b: "load_approval E ref None True True w = (Inr b, w2)"
    "readable_at ?C w2 ref b"
    using rd by (rule load_again) blast
  have cs: "approval_status_of (py_strip ''consumed'') = Some Consumed" by code_simp
  show thesis
  proof (cases "wa_status b = Approved")
    case False
    then have "\<exists>e. assert_transition (Some (wa_status b)) Consumed = Inl (ApprovalError e)"
      by (cases "wa_status b") (auto simp: assert_transition_def)
    then obtain e where "attempt (consume_approval E ref why) w = (Inr (Inl (ApprovalError e)), w2)"
      using b(1) cs by (auto simp: attempt_def catchM_def consume_approval_def bindM_def throw_def
          ret_def transition_approval_status_def Let_def lift_res_def)
    then show thesis using b(2) False by (intro that) auto
  next
    case True
    let ?b = "b\<lparr>wa_status := Consumed\<rparr>"
    let ?w3 = "write_file (record_path (approvals_dir ?C) (wa_id b)) (approval_json ?b) w2"
    have tr: "assert_transition (Some Approved) Consumed = Inr ()" by code_simp
    obtain x w4 where x: "append_scope_event E ''write_scope.status_transition''
        [(''approval_id'', JStr (wa_id b)), (''from_status'', JStr (approval_status_text Approved)),
         (''to_status'', JStr (approval_status_text Consumed))] None ?w3 = (Inr x, w4)" "same_files ?w3 w4"
      using event_run by blast
    have t: "transition_approval_status E ref ''consumed'' None True w = (Inr ?b, w4)"
      using b(1) True tr cs x(1) by (simp add: transition_approval_status_def Let_def bindM_def lift_res_def
          atomic_write_json_def writes_def ret_def)
    obtain z w5 where z: "append_scope_event E ''write_scope.consumed''
        [(''approval_id'', JStr (wa_id b)),
         (''reason'', JStr (or_text (Some (py_strip why)) ''successful_in_scope_mutation''))] None w4 = (Inr z, w5)"
      "same_files w4 w5"
      using event_run by blast
    have run: "attempt (consume_approval E ref why) w = (Inr (Inr ?b), w5)"
      using t z(1) by (simp add: attempt_def catchM_def consume_approval_def bindM_def ret_def)
    note l = load_approval_stored [OF b(1) pl]
    note rep = replace_approval [OF l(2,1) follows_terminal(2) [OF True] consumed_ok [OF l(3)]]
    have sf: "same_files ?w3 w5" using x(2) z(2) by (rule quiet.order_trans)
    have "approvals_placed ?C w5"
      using approvals.evolve_in_place [OF approvals.evolve_trans [OF rep(1) approvals.evolve_quiet [OF sf]] l(2)] .
    moreover have "approval_at ?C w5 (approval_path ?C (wa_id b)) = Some ?b"
      unfolding same_files_stored [OF sf] by (rule rep(2))
    ultimately have "readable_at ?C w5 ref ?b"
      using b(2) by (simp add: readable_at_def readable_def)
    with run show thesis by (rule that) simp_all
  qed
qed

subsection \<open>The binding\<close>

text \<open>The binding a reference denotes.\<close>

definition held_at :: "cfg \<Rightarrow> world \<Rightarrow> string \<Rightarrow> binding \<Rightarrow> bool" where
  "held_at C w ref b \<longleftrightarrow>
     py_strip ref \<noteq> [] \<and> record_path (bindings_dir C) (py_strip ref) = binding_path C (wb_id b) \<and>
     bindings_placed C w \<and> binding_at C w (binding_path C (wb_id b)) = Some b"

lemma load_held:
  assumes "load_binding E ref w = (Inr b, w')" "bindings_placed (cfg_of E) w"
  shows "held_at (cfg_of E) w ref b" "w' = w"
  using assms bindings.stored_name(1) [OF assms(2)] by (auto simp: held_at_def load_binding_Inr)

lemma held_load: "held_at (cfg_of E) w ref b \<Longrightarrow> load_binding E ref w = (Inr b, w)"
  by (simp add: held_at_def load_binding_Inr)

lemma held_other:
  assumes "writes_only ks w w'" "\<And>q k. (q, k) \<in> set ks \<Longrightarrow> apart q ''wsb-'' \<and> k \<noteq> ''write_scope_binding''"
    "held_at C w ref b"
  shows "held_at C w' ref b"
proof -
  have "binding_at C w' p = binding_at C w p" for p
    using assms by (intro bindings.stored_other_kinds) (auto simp: held_at_def)
  with assms(3) show ?thesis by (simp add: held_at_def in_place_def)
qed

lemma held_quiet: "same_files w w' \<Longrightarrow> held_at C w ref b \<Longrightarrow> held_at C w' ref b"
  by (rule held_other [of "[]"]) (auto intro: writes_only_quiet)

lemma held_grants: "writes_only grant_kinds w w' \<Longrightarrow> held_at C w ref b \<Longrightarrow> held_at C w' ref b"
  by (erule held_other) (auto simp: apart_def)

lemma readable_bindings: "writes_only binding_kinds w w' \<Longrightarrow> readable_at C w ref a \<Longrightarrow> readable_at C w' ref a"
  by (erule readable_other) (auto simp: apart_def)

lemma transition_held:
  assumes h: "held_at (cfg_of E) w ref b" and t: "t \<in> set (binding_transitions (Some (wb_status b)))"
  obtains v w' where "transition_binding_status E ref (binding_status_text t) why at w = (Inr v, w')"
    "held_at (cfg_of E) w' ref v" "wb_status v = t" "binding_follows b v" "wb_id v = wb_id b"
    "wb_reason v = (case why of None \<Rightarrow> wb_reason b | Some s \<Rightarrow> Some s)"
proof (rule transition_binding_moves [OF held_load [OF h] _ t, of "binding_status_text t" why at])
  fix v w'
  assume m: "transition_binding_status E ref (binding_status_text t) why at w = (Inr v, w')"
    "wb_status v = t" "binding_follows b v" "wb_id v = wb_id b"
    "wb_reason v = (case why of None \<Rightarrow> wb_reason b | Some s \<Rightarrow> Some s)" "binding_ok (cfg_of E) v"
    "same_files (write_file (record_path (bindings_dir (cfg_of E)) (wb_id v)) (binding_json v) w) w'"
  have pl: "bindings_placed (cfg_of E) w" using h by (simp add: held_at_def)
  have "bindings_placed (cfg_of E) w'"
    using bindings.evolve_in_place [OF transition_binding_effect(1) [OF m(1)] pl] .
  moreover have "binding_at (cfg_of E) w' (binding_path (cfg_of E) (wb_id v)) = Some v"
    using m(1) by (rule transition_binding_stored)
  ultimately have "held_at (cfg_of E) w' ref v" using h m(4) by (simp add: held_at_def)
  with m show thesis by (intro that)
qed simp

lemma binding_move_Some:
  assumes "binding_move v b = Some (st, why)"
  shows "st = Completed \<or> st = Failed" "\<not> binding_live b \<Longrightarrow> vd_compliance v = Within_scope"
    "binding_live b \<Longrightarrow> st \<in> set (binding_transitions (Some (wb_status b)))"
  using assms by (auto simp: binding_move_def binding_live_def split: compliance.splits if_splits)

lemma binding_move_None: "binding_move v b = None \<Longrightarrow> \<not> binding_live b"
  by (auto simp: binding_move_def split: compliance.splits if_splits)

lemma not_live_transitions: "\<not> binding_live b \<Longrightarrow> binding_transitions (Some (wb_status b)) = []"
  by (cases "wb_status b") (simp_all add: binding_live_def)

text \<open>Moving the binding returns an ended one, or finds it ended.\<close>

lemma move_ends:
  assumes h: "held_at (cfg_of E) w i b"
  obtains y w' where "attempt (move_binding E i v b t) w = (Inr y, w')" "writes_only binding_kinds w w'"
    "case y of Inl e \<Rightarrow> \<not> binding_live b \<and> vd_compliance v = Within_scope
     | Inr c \<Rightarrow> \<not> binding_live c \<and> held_at (cfg_of E) w' i c \<and> binding_follows b c \<and>
         (binding_live b \<longrightarrow> map_option fst (binding_move v b) = Some (wb_status c))"
proof (cases "binding_move v b")
  case None
  then show thesis
    using h binding_move_None [OF None]
    by (intro that [of "Inr b" w])
      (auto simp: attempt_def catchM_def move_binding_def bindM_def ret_def bindings.follows_refl wo.order_refl)
next
  case (Some m)
  obtain st why where m: "m = (st, why)" by (cases m)
  note s = binding_move_Some [OF Some [unfolded m]]
  show thesis
  proof (cases "binding_live b")
    case True
    obtain c w' where c: "transition_binding_status E i (binding_status_text st) (Some why) (Some t) w = (Inr c, w')"
      "held_at (cfg_of E) w' i c" "wb_status c = st" "binding_follows b c"
      using h s(3) [OF True] by (rule transition_held)
    have "attempt (move_binding E i v b t) w = (Inr (Inr c), w')"
      using c(1) by (simp add: attempt_def catchM_def move_binding_def Some m bindM_def ret_def)
    then show thesis
      using c s(1) transition_binding_effect(2) [OF c(1)] Some m
      by (intro that [of "Inr c" w']) (auto simp: binding_live_def)
  next
    case False
    have "attempt (move_binding E i v b t) w =
        (Inr (Inl (BindingError (B_transition (binding_status_text (wb_status b)) (binding_status_text st)))), w)"
      using not_live_transitions [OF False]
      by (simp add: attempt_def catchM_def move_binding_def Some m bindM_def ret_def
          transition_binding_status_def Let_def held_load [OF h] lift_res_def assert_binding_transition_def check_def throw_def)
    then show thesis using False s(2) by (intro that) (auto simp: wo.order_refl)
  qed
qed

subsection \<open>Settling\<close>

text \<open>The verdicts under which a grant does not survive.\<close>

definition burns :: "verdict \<Rightarrow> string list \<Rightarrow> string list \<Rightarrow> bool" where
  "burns v ins outs \<longleftrightarrow>
     vd_compliance v = Scope_exceeded \<or> vd_compliance v = Within_scope \<and> ins \<noteq> [] \<or>
     vd_compliance v = Partial \<and> (ins \<noteq> [] \<or> outs \<noteq> [])"

lemma attempt_map:
  "attempt m w = (Inr y, w') \<Longrightarrow> attempt (bindM m (\<lambda>x. ret (g x))) w = (Inr (map_sum id g y), w')"
  by (auto simp: attempt_def catchM_def bindM_def ret_def split: prod.splits sum.splits option.splits if_splits)

lemma attempt_ret: "attempt (ret x) w = (Inr (Inr x), w)"
  by (simp add: attempt_def catchM_def bindM_def ret_def)

lemma settle_approval_shape:
  obtains (consume) why where "settle_approval E v ins outs b a =
        bindM (consume_approval E (wb_approval b) why) (\<lambda>a'. ret (a', None))"
    | (revoke) why where "settle_approval E v ins outs b a =
        bindM (revoke_approval_for_breach E (wb_approval b) why) (\<lambda>(a', rv). ret (a', Some (wr_id rv)))"
        "wa_status a = Approved" "vd_compliance v \<noteq> Within_scope"
    | (leave) "settle_approval E v ins outs b a = ret (a, None)" "burns v ins outs \<Longrightarrow> wa_status a \<noteq> Approved"
        "\<not> (vd_compliance v = Within_scope \<and> ins \<noteq> [])"
proof (cases "vd_compliance v")
  case w: Within_scope
  show thesis
  proof (cases "ins = []")
    case True
    with w show thesis by (intro leave) (auto simp: settle_approval_def burns_def Let_def)
  next
    case False
    with w show thesis
      by (intro consume [of "''successful_in_scope_mutation''"]) (simp add: settle_approval_def Let_def)
  qed
next
  case s: Scope_exceeded
  show thesis
  proof (cases "wa_status a = Approved")
    case True
    with s show thesis
      by (intro revoke [of "or_text (vd_failure v) ''write_scope_exceeded''"])
        (simp_all add: settle_approval_def Let_def)
  next
    case False
    with s show thesis by (intro leave) (auto simp: settle_approval_def burns_def Let_def)
  qed
next
  case Partial
  consider "wa_status a \<noteq> Approved \<or> ins = [] \<and> outs = []" | "wa_status a = Approved" "outs \<noteq> []"
    | "wa_status a = Approved" "outs = []" "ins \<noteq> []" by blast
  then show thesis
  proof cases
    case 1
    then show thesis using Partial by (intro leave) (auto simp: settle_approval_def burns_def Let_def)
  next
    case 2
    then show thesis
      using Partial by (intro revoke [of "or_text (vd_failure v) ''write_scope_partial''"])
        (auto simp: settle_approval_def Let_def)
  next
    case 3
    then show thesis
      using Partial by (intro consume [of "or_text (vd_failure v) ''partial_execution_with_mutations''"])
        (auto simp: settle_approval_def Let_def)
  qed
qed (auto simp: settle_approval_def burns_def Let_def intro: leave)

lemma settle_approval_ends:
  assumes rd: "readable_at (cfg_of E) w (wb_approval b) a"
  obtains y w' c where "attempt (settle_approval E v ins outs b a) w = (Inr y, w')" "writes_only grant_kinds w w'"
    "readable_at (cfg_of E) w' (wb_approval b) c" "\<And>d rv. y = Inr (d, rv) \<Longrightarrow> d = c"
    "burns v ins outs \<Longrightarrow> wa_status c \<noteq> Approved"
    "\<And>z. vd_compliance v = Within_scope \<Longrightarrow> ins \<noteq> [] \<Longrightarrow> y = Inr z \<Longrightarrow> wa_status c = Consumed"
proof -
  have kinds: "writes_only grant_kinds w w'" if "attempt (settle_approval E v ins outs b a) w = (x, w')" for x w'
    using attempt_rules(2) [OF settle_approval_rules(2)] that by (rule keepsD)
  show thesis
    using settle_approval_shape [of E v ins outs b a]
  proof cases
    case (consume why)
    obtain c y w' where o: "attempt (consume_approval E (wb_approval b) why) w = (Inr y, w')"
      "readable_at (cfg_of E) w' (wb_approval b) c" "wa_status c \<noteq> Approved"
      "\<And>d. y = Inr d \<Longrightarrow> d = c \<and> wa_status c = Consumed"
      using rd by (rule consume_ends [where why = why]) blast
    have run: "attempt (settle_approval E v ins outs b a) w = (Inr (map_sum id (\<lambda>a'. (a', None)) y), w')"
      unfolding consume by (rule attempt_map [OF o(1)])
    show thesis
      by (rule that [OF run kinds [OF run] o(2)]) (use o(3,4) in \<open>cases y; auto\<close>)+
  next
    case (revoke why)
    obtain c y w' where o: "attempt (revoke_approval_for_breach E (wb_approval b) why) w = (Inr y, w')"
      "readable_at (cfg_of E) w' (wb_approval b) c" "wa_status c \<noteq> Approved"
      "\<And>d rv. y = Inr (d, rv) \<Longrightarrow> d = c \<and> wa_status c = Revoked"
      using rd revoke(2) by (rule breach_ends [where why = why]) blast
    have run: "attempt (settle_approval E v ins outs b a) w =
        (Inr (map_sum id (\<lambda>p. (fst p, Some (wr_id (snd p)))) y), w')"
      unfolding revoke(1) split_def by (rule attempt_map [OF o(1)])
    show thesis
      by (rule that [OF run kinds [OF run] o(2)]) (use o(3,4) revoke(3) in \<open>cases y; auto\<close>)+
  next
    case leave
    have run: "attempt (settle_approval E v ins outs b a) w = (Inr (Inr (a, None)), w)"
      unfolding leave(1) by (rule attempt_ret)
    show thesis
      by (rule that [OF run kinds [OF run] rd]) (use leave in auto)
  qed
qed

text \<open>The error path reads the approval again and leaves an ended binding alone.\<close>

lemma settle_after_error_ends:
  assumes rd: "readable_at (cfg_of E) w (wb_approval b) c" and nl: "\<not> binding_live b"
  obtains s d w' where "settle_after_error E i v b a t e w = (Inr s, w')" "writes_only grant_kinds w w'"
    "readable_at (cfg_of E) w' (wb_approval b) d" "st_binding s = b" "st_approval s = d"
    "st_approval_status s = wa_status d" "st_failed s" "wa_status c \<noteq> Approved \<Longrightarrow> d = c"
proof -
  obtain d w' where d: "load_approval E (wb_approval b) None True True w = (Inr d, w')"
    "readable_at (cfg_of E) w' (wb_approval b) d" "d = c \<or> wa_status c = Approved \<and> wa_status d = Expired"
    using rd by (rule load_again) blast
  show thesis
    using d nl
    by (intro that [of "\<lparr>st_binding = b, st_approval = d, st_approval_status = wa_status d,
        st_failure = Some (strip_semis (or_text (vd_failure v) [] @ ''; authority_transition: '' @ exn_text e)),
        st_failed = True, st_revocation = None\<rparr>" w' d])
      (auto simp: settle_after_error_def Let_def bindM_def catchM_def ret_def
        dest: keepsD [OF writes_load_approval])
qed

text \<open>Once the approval has been read, settling returns.\<close>

lemma settle_authority_ends:
  assumes h: "held_at (cfg_of E) w i b" and pl: "approvals_placed (cfg_of E) w"
    and ld: "load_approval E (wb_approval b) now True True w = (Inr a, w1)"
    and live: "vd_compliance v = Within_scope \<Longrightarrow> binding_live b"
  obtains s w' where "settle_authority E i v ins outs b t now w = (Inr s, w')"
    "held_at (cfg_of E) w' i (st_binding s)" "\<not> binding_live (st_binding s)"
    "binding_follows b (st_binding s)"
    "readable_at (cfg_of E) w' (wb_approval b) (st_approval s)"
    "st_approval_status s = wa_status (st_approval s)"
    "burns v ins outs \<Longrightarrow> wa_status (st_approval s) \<noteq> Approved"
    "vd_failed v \<Longrightarrow> st_failed s"
    "\<not> st_failed s \<Longrightarrow> vd_compliance v = Within_scope \<Longrightarrow> ins \<noteq> [] \<Longrightarrow>
       wa_status (st_approval s) = Consumed \<and> wb_status (st_binding s) = Completed"
proof -
  let ?C = "cfg_of E"
  have rd1: "readable_at ?C w1 (wb_approval b) a" using load_readable [OF ld pl] .
  have h1: "held_at ?C w1 i b"
    using keepsD [OF writes_load_approval ld] h by (rule held_grants)
  obtain y w2 where y: "attempt (move_binding E i v b t) w1 = (Inr y, w2)" "writes_only binding_kinds w1 w2"
    "case y of Inl e \<Rightarrow> \<not> binding_live b \<and> vd_compliance v = Within_scope
     | Inr c \<Rightarrow> \<not> binding_live c \<and> held_at ?C w2 i c \<and> binding_follows b c \<and>
         (binding_live b \<longrightarrow> map_option fst (binding_move v b) = Some (wb_status c))"
    using h1 by (rule move_ends)
  then obtain c where c: "y = Inr c" "\<not> binding_live c" "held_at ?C w2 i c" "binding_follows b c"
    "binding_live b \<Longrightarrow> map_option fst (binding_move v b) = Some (wb_status c)"
    using live by (cases y) auto
  have ap: "wb_approval c = wb_approval b" using c(4) by (rule follows_live(4))
  have rd2: "readable_at ?C w2 (wb_approval c) a" unfolding ap using y(2) rd1 by (rule readable_bindings)
  obtain z w3 d where z: "attempt (settle_approval E v ins outs c a) w2 = (Inr z, w3)" "writes_only grant_kinds w2 w3"
    "readable_at ?C w3 (wb_approval c) d" "\<And>d' rv. z = Inr (d', rv) \<Longrightarrow> d' = d"
    "burns v ins outs \<Longrightarrow> wa_status d \<noteq> Approved"
    "\<And>z'. vd_compliance v = Within_scope \<Longrightarrow> ins \<noteq> [] \<Longrightarrow> z = Inr z' \<Longrightarrow> wa_status d = Consumed"
    using rd2 by (rule settle_approval_ends [where v = v and ins = ins and outs = outs]) blast
  have h3: "held_at ?C w3 i c" using z(2) c(3) by (rule held_grants)
  have run: "settle_authority E i v ins outs b t now w =
      (case z of Inl e \<Rightarrow> settle_after_error E i v c a t e
       | Inr (a', rv) \<Rightarrow> ret \<lparr>st_binding = c, st_approval = a', st_approval_status = wa_status a',
           st_failure = vd_failure v, st_failed = vd_failed v, st_revocation = rv\<rparr>) w3"
    using ld y(1) c(1) z(1) by (simp add: settle_authority_def bindM_def)
  show thesis
  proof (cases z)
    case (Inl e)
    obtain s x w4 where s: "settle_after_error E i v c a t e w3 = (Inr s, w4)" "writes_only grant_kinds w3 w4"
      "readable_at ?C w4 (wb_approval c) x" "st_binding s = c" "st_approval s = x"
      "st_approval_status s = wa_status x" "st_failed s" "wa_status d \<noteq> Approved \<Longrightarrow> x = d"
      using z(3) c(2) by (rule settle_after_error_ends) blast
    show thesis
      using run [unfolded Inl] s held_grants [OF s(2) h3] c(2,4) z(5) ap by (intro that [of s w4]) auto
  next
    case (Inr p)
    obtain a' rv where p: "p = (a', rv)" by (cases p)
    show thesis
    proof (rule that)
      show "settle_authority E i v ins outs b t now w = (Inr \<lparr>st_binding = c, st_approval = a',
          st_approval_status = wa_status a', st_failure = vd_failure v, st_failed = vd_failed v,
          st_revocation = rv\<rparr>, w3)"
        using run Inr p by (simp add: ret_def)
      show "wa_status (st_approval \<lparr>st_binding = c, st_approval = a', st_approval_status = wa_status a',
          st_failure = vd_failure v, st_failed = vd_failed v, st_revocation = rv\<rparr>) = Consumed \<and>
        wb_status (st_binding \<lparr>st_binding = c, st_approval = a', st_approval_status = wa_status a',
          st_failure = vd_failure v, st_failed = vd_failed v, st_revocation = rv\<rparr>) = Completed"
        if "vd_compliance v = Within_scope" "ins \<noteq> []"
        using z(4) [of a' rv] z(6) [OF that, of p] Inr p c(5) live that by (auto simp: binding_move_def)
    qed (use z(3,4,5) h3 c(2,4) Inr p ap in auto)
  qed
qed

text \<open>Settling raises only when the approval cannot be read.\<close>

lemma settle_authority_raises:
  assumes "load_approval E (wb_approval b) now True True w = (Inl e, w1)"
  shows "settle_authority E i v ins outs b t now w = (Inl e, w1)"
  using assms by (simp add: settle_authority_def bindM_def)

subsection \<open>The receipt\<close>

lemma enforcement_receipt_run:
  assumes "enforcement_receipt E v s ins outs ws scope t w = (Inr r, w')"
  shows "receipt_at (cfg_of E) w' (receipt_path (cfg_of E) (mr_id r)) = Some r"
    "mr_compliance r = vd_compliance v"
    "mr_binding_status r = binding_status_text (wb_status (st_binding s))"
    "mr_approval_status r = approval_status_text (st_approval_status s)"
    "writes_only receipt_kinds w w'"
proof -
  let ?C = "cfg_of E"
  from assms obtain r0 where r0: "verify_receipt_record ?C (receipt_json
        \<lparr>mr_id = compute_receipt_id ?C (wb_id (st_binding s)) (wb_run (st_binding s)) t (compliance_text (vd_compliance v)),
         mr_run = wb_run (st_binding s), mr_binding = wb_id (st_binding s),
         mr_approval = wb_approval (st_binding s), mr_target = wb_target (st_binding s),
         mr_sha = py_lower (wb_sha (st_binding s)), mr_changed = uniq (ins @ outs), mr_in = ins, mr_out = outs,
         mr_restored = vd_restored v, mr_compliance = vd_compliance v,
         mr_binding_status = binding_status_text (wb_status (st_binding s)),
         mr_approval_status = approval_status_text (st_approval_status s), mr_created = t,
         mr_evaluated = t, mr_workspace = Some (path_str ws), mr_stop = vd_stop v,
         mr_failure = st_failure s, mr_revocation = st_revocation s,
         mr_allowed = Some (map path_str (sr_allowed scope)),
         mr_denied = Some (map path_str (sr_denied scope))\<rparr>) = Inr r0"
    and sv: "save_receipt E (receipt_json r0) w = (Inr r, w')"
    by (auto simp: enforcement_receipt_def Let_def op_simps)
  from sv show "receipt_at ?C w' (receipt_path ?C (mr_id r)) = Some r" by (rule save_receipt_stored)
  have "r = r0"
    using save_receipt_run(1) [OF sv] receipts.reverify [OF r0] by simp
  then show "mr_compliance r = vd_compliance v"
    "mr_binding_status r = binding_status_text (wb_status (st_binding s))"
    "mr_approval_status r = approval_status_text (st_approval_status s)"
    using r0 by (auto simp: verify_receipt_record_def receipt_json_def Let_def bindR_Inr_iff text_field_def)
  show "writes_only receipt_kinds w w'" using enforcement_receipt_rules assms by (rule keepsD)
qed

subsection \<open>The whole enforcement\<close>

text \<open>
  The contract of a terminal enforcement of binding \<open>i\<close> that returns \<open>o'\<close> in \<open>w\<close>: the receipt
  is stored and tells the statuses the store holds; the binding has ended; a verdict that saw
  an in-scope mutation or a breach leaves no approval behind; out of scope never succeeds, and
  success in scope consumed the approval and completed the binding.
\<close>

definition enforcement_settled :: "cfg \<Rightarrow> string \<Rightarrow> enforcement_outcome \<Rightarrow> world \<Rightarrow> bool" where
  "enforcement_settled C i o' w \<longleftrightarrow>
     (let r = eo_receipt o'; b = eo_binding o'; a = eo_approval o' in
      receipt_at C w (receipt_path C (mr_id r)) = Some r \<and>
      held_at C w i b \<and> \<not> binding_live b \<and> mr_binding_status r = binding_status_text (wb_status b) \<and>
      readable_at C w (wb_approval b) a \<and> mr_approval_status r = approval_status_text (wa_status a) \<and>
      (mr_compliance r \<in> set [Within_scope, Scope_exceeded, Partial] \<longrightarrow> wa_status a \<noteq> Approved) \<and>
      (mr_compliance r \<in> set [Scope_exceeded, Base_sha_mismatch, Partial] \<longrightarrow> eo_failed o') \<and>
      (mr_compliance r = Within_scope \<and> \<not> eo_failed o' \<longrightarrow>
         wa_status a = Consumed \<and> wb_status b = Completed))"

lemma checkpoint_live:
  "check_authority_checkpoint E b ws sha now w = (Inr None, w') \<Longrightarrow> binding_live b"
  by (auto simp: check_authority_checkpoint_def ret_def split: if_splits)

lemma classify_compliance_facts:
  "vd_compliance (classify_compliance q stop ins outs) = Within_scope \<Longrightarrow> stop = None \<and> ins \<noteq> []"
  "vd_compliance (classify_compliance q stop ins outs) = Partial \<Longrightarrow> ins \<noteq> []"
  "vd_compliance (classify_compliance q stop ins outs) \<in> set [Scope_exceeded, Base_sha_mismatch, Partial] \<Longrightarrow>
     vd_failed (classify_compliance q stop ins outs)"
  by (auto simp: classify_compliance_def split: option.splits prod.splits if_splits)

lemma judge_run:
  "judge_mutations E q ws stop ins outs w = (Inr v, w') \<Longrightarrow>
     vd_compliance v = vd_compliance (classify_compliance q stop ins outs) \<and>
     vd_failed v = vd_failed (classify_compliance q stop ins outs) \<and> same_files w w'"
  by (auto simp: judge_mutations_def Let_def op_simps same_files_def
      dest: keepsD [OF quiet_restore_paths] split: if_splits)

lemma authority_held:
  assumes "authority_evolves C w w'" "approvals_placed C w" "bindings_placed C w"
  shows "approvals_placed C w'" "bindings_placed C w'"
  using assms approvals.evolve_in_place bindings.evolve_in_place unfolding authority_evolves_def by blast+

lemma enforce_settles:
  assumes run: "enforce_write_scope_mutations E i q w = (Inr o', w')"
    and pl: "approvals_placed (cfg_of E) w" "bindings_placed (cfg_of E) w"
  shows "enforcement_settled (cfg_of E) i o' w'"
proof -
  let ?C = "cfg_of E"
  from run obtain b w0 t w1 ws stop w2 scope w3 ins outs v w4 s w5 r where
    ld: "load_binding E i w = (Inr b, w0)" and
    ts: "text_or_now E (eq_evaluated q) w0 = (Inr t, w1)" and
    ck: "check_authority_checkpoint E b (Some ws) True (eq_now q) w1 = (Inr stop, w2)" and
    sc: "enforcement_scope E b w2 = (Inr scope, w3)" and
    jd: "judge_mutations E q ws stop ins outs w3 = (Inr v, w4)" and
    st: "settle_authority E i v ins outs b t (eq_now q) w4 = (Inr s, w5)" and
    rc: "enforcement_receipt E v s ins outs ws scope t w5 = (Inr r, w')" and
    o': "eo_receipt o' = r" "eo_binding o' = st_binding s" "eo_approval o' = st_approval s"
      "eo_failed o' = st_failed s"
    by (auto simp: enforce_write_scope_mutations_def op_simps split: prod.splits)
  have w0: "held_at ?C w i b" "w0 = w" using load_held [OF ld pl(2)] by auto
  have sf: "same_files w w1" using keepsD [OF quiet_text_or_now ts] w0(2) by simp
  have jd': "vd_compliance v = vd_compliance (classify_compliance q stop ins outs)"
    "vd_failed v = vd_failed (classify_compliance q stop ins outs)" "same_files w3 w4"
    using judge_run [OF jd] by auto
  have "writes_only grant_kinds w w4"
    using sf keepsD [OF checkpoint_rules(2) ck] keepsD [OF enforcement_scope_rules(2) sc] jd'(3)
    by (blast intro: wo.order_trans writes_only_quiet)
  then have h4: "held_at ?C w4 i b" using w0(1) by (rule held_grants)
  have "authority_evolves ?C w w4"
    using authority_quiet [THEN keepsD, OF quiet_text_or_now ts, of ?C] keepsD [OF checkpoint_rules(1) ck]
      keepsD [OF enforcement_scope_rules(1) sc] authority_quiet [THEN keepsD, OF quiet_judge jd, of ?C] w0(2)
    by (blast intro: auth.order_trans)
  then have pl4: "approvals_placed ?C w4" using pl by (rule authority_held)
  have live: "binding_live b" if "vd_compliance v = Within_scope"
    using that checkpoint_live classify_compliance_facts(1) ck unfolding jd'(1) by blast
  obtain a wl where la: "load_approval E (wb_approval b) (eq_now q) True True w4 = (Inr a, wl)"
    using settle_authority_raises st by (cases "load_approval E (wb_approval b) (eq_now q) True True w4"; cases "fst (load_approval E (wb_approval b) (eq_now q) True True w4)") fastforce+
  obtain s0 w0' where e: "settle_authority E i v ins outs b t (eq_now q) w4 = (Inr s0, w0')"
    "held_at ?C w0' i (st_binding s0)" "\<not> binding_live (st_binding s0)" "binding_follows b (st_binding s0)"
    "readable_at ?C w0' (wb_approval b) (st_approval s0)" "st_approval_status s0 = wa_status (st_approval s0)"
    "burns v ins outs \<Longrightarrow> wa_status (st_approval s0) \<noteq> Approved" "vd_failed v \<Longrightarrow> st_failed s0"
    "\<not> st_failed s0 \<Longrightarrow> vd_compliance v = Within_scope \<Longrightarrow> ins \<noteq> [] \<Longrightarrow>
       wa_status (st_approval s0) = Consumed \<and> wb_status (st_binding s0) = Completed"
    by (rule settle_authority_ends [OF h4 pl4(1) la, where v = v and t = t and ins = ins and outs = outs])
      (rule live, assumption, rule that)
  from e(1) st have [simp]: "s0 = s" "w0' = w5" by simp_all
  note rr = enforcement_receipt_run [OF rc]
  have h: "held_at ?C w' i (st_binding s)" "readable_at ?C w' (wb_approval b) (st_approval s)"
    using held_other [OF rr(5) _ e(2) [simplified]] readable_other [OF rr(5) _ e(5) [simplified]]
    by (auto simp: apart_def)
  note cf = classify_compliance_facts [of q stop ins outs, folded jd'(1,2)]
  have f: "vd_compliance v \<in> set [Scope_exceeded, Base_sha_mismatch, Partial] \<Longrightarrow> st_failed s"
    using cf(3) e(8) by simp
  have n: "vd_compliance v \<in> set [Within_scope, Scope_exceeded, Partial] \<Longrightarrow> wa_status (st_approval s) \<noteq> Approved"
    using cf(1,2) e(7) by (auto simp: burns_def)
  show ?thesis
    unfolding enforcement_settled_def Let_def o' rr(2-4)
    using rr(1) h e(3,6,9) follows_live(4) [OF e(4)] f n cf(1) by simp
qed

end
