(* ===== verification/Recovery_Laws.thy ===== *)
theory Recovery_Laws
  imports Recovery Enforcement_Outcome
begin

section \<open>Laws of recovery\<close>

text \<open>
  Recovery fails closed: it adds no authority, it never completes a binding, and a recovery
  that reaches a decision leaves its binding ended.
\<close>

subsection \<open>No authority is added\<close>

lemma diagnose_approval_rules:
  "keeps (authority_evolves (cfg_of E)) (diagnose_approval E b)"
  "keeps (writes_only grant_kinds) (diagnose_approval E b)"
proof -
  note a = authority_quiet [OF quiet_is_approval_active] keeps_writes_only_quiet [OF quiet_is_approval_active]
  show "keeps (authority_evolves (cfg_of E)) (diagnose_approval E b)"
    unfolding diagnose_approval_def
    by (auto intro!: auth_rules auth.keeps_catch a split: if_splits option.splits approval_status.splits)
  show "keeps (writes_only grant_kinds) (diagnose_approval E b)"
    unfolding diagnose_approval_def
    by (auto intro!: wo.keeps_rules writes_load_approval wo.keeps_catch a
        split: if_splits option.splits approval_status.splits)
qed

lemma load_for_recovery_quiet:
  "keeps same_files (catchM (load_binding E i)
     (\<lambda>e. if is_binding_error e then Some (throw (RecoveryError (V_text (exn_text e)))) else None))"
  by (rule quiet.keeps_catch [OF quiet_load_binding]) (auto intro: quiet.keeps_throw split: if_splits)

lemma diagnose_rules:
  "keeps (authority_evolves (cfg_of E)) (diagnose_binding_recovery E i)"
  "keeps (writes_only grant_kinds) (diagnose_binding_recovery E i)"
proof -
  have l: "keeps same_files (list_receipts E x y z)" for x y z
    unfolding list_receipts_def by (rule quiet.keeps_reads)
  note a = authority_quiet [OF l] authority_quiet [OF load_for_recovery_quiet]
  note k = keeps_writes_only_quiet [OF l] keeps_writes_only_quiet [OF load_for_recovery_quiet]
  show "keeps (authority_evolves (cfg_of E)) (diagnose_binding_recovery E i)"
    unfolding diagnose_binding_recovery_def Let_def
    by (auto intro!: auth.keeps_rules diagnose_approval_rules a)
  show "keeps (writes_only grant_kinds) (diagnose_binding_recovery E i)"
    unfolding diagnose_binding_recovery_def Let_def
    by (auto intro!: wo.keeps_rules diagnose_approval_rules k)
qed

lemma recover_load_rules:
  "keeps (authority_evolves (cfg_of E)) (recover_load E i)"
  "keeps (writes_only scope_kinds) (recover_load E i)"
proof -
  note q = authority_quiet [OF load_for_recovery_quiet] keeps_writes_only_quiet [OF load_for_recovery_quiet]
  show "keeps (authority_evolves (cfg_of E)) (recover_load E i)"
    unfolding recover_load_def
    by (auto intro!: auth_rules auth.keeps_catch q split: if_splits)
  show "keeps (writes_only scope_kinds) (recover_load E i)"
    unfolding recover_load_def
    by (auto intro!: scope_rules wo.keeps_catch q split: if_splits)
qed

lemma recover_restore_rules:
  "keeps (authority_evolves (cfg_of E)) (recover_restore E b ws dirty)"
  "keeps (writes_only grant_kinds) (recover_restore E b ws dirty)"
proof -
  note q = authority_quiet [OF quiet_restore_paths] keeps_writes_only_quiet [OF quiet_restore_paths]
  show "keeps (authority_evolves (cfg_of E)) (recover_restore E b ws dirty)"
    unfolding recover_restore_def
    by (auto intro!: auth.keeps_rules auth.keeps_catch scope_roots_rules q split: if_splits)
  show "keeps (writes_only grant_kinds) (recover_restore E b ws dirty)"
    unfolding recover_restore_def
    by (auto intro!: wo.keeps_rules wo.keeps_catch scope_roots_rules q split: if_splits)
qed

lemma quiet_requires_new: "keeps same_files (requires_new_approval E d a)"
  unfolding requires_new_approval_def Let_def
  by (auto intro!: quiet.keeps_rules quiet_is_approval_active split: option.splits)

lemma recover_manual_quiet: "keeps same_files (recover_manual E i d a e)"
  unfolding recover_manual_def by (intro quiet_rules quiet_load_binding)

lemma recover_finish_rules:
  "keeps (authority_evolves (cfg_of E)) (recover_finish E i ch d b a out why paths)"
  "keeps (writes_only scope_kinds) (recover_finish E i ch d b a out why paths)"
proof -
  have act: "keeps same_files (case a of None \<Rightarrow> ret False
      | Some x \<Rightarrow> if wa_status x = Approved then is_approval_active E (approval_json x) None else ret False)"
    by (auto intro: quiet.keeps_ret quiet_is_approval_active split: option.splits)
  note q = act quiet_requires_new quiet_utc_now_iso quiet_event
  show "keeps (authority_evolves (cfg_of E)) (recover_finish E i ch d b a out why paths)"
    unfolding recover_finish_def Let_def
    by (intro auth_rules q [THEN authority_quiet]) (auto intro: auth_rules)
  show "keeps (writes_only scope_kinds) (recover_finish E i ch d b a out why paths)"
    unfolding recover_finish_def Let_def
    by (intro scope_rules q [THEN keeps_writes_only_quiet]) (auto intro: scope_rules)
qed

lemma recover_rules:
  "keeps (authority_evolves (cfg_of E)) (recover_binding E i dec)"
  "keeps (writes_only scope_kinds) (recover_binding E i dec)"
proof -
  show "keeps (authority_evolves (cfg_of E)) (recover_binding E i dec)"
    unfolding recover_binding_def
    by (auto intro!: auth.keeps_rules diagnose_rules recover_load_rules recover_restore_rules
        recover_finish_rules authority_quiet [OF recover_manual_quiet] authority_quiet [OF quiet_load_binding]
        split: option.splits sum.splits)
  show "keeps (writes_only scope_kinds) (recover_binding E i dec)"
    unfolding recover_binding_def
    by (auto intro!: wo.keeps_rules diagnose_rules(2) [THEN scope_grant] recover_load_rules
        recover_restore_rules(2) [THEN scope_grant] recover_finish_rules
        keeps_writes_only_quiet [OF recover_manual_quiet] keeps_writes_only_quiet [OF quiet_load_binding]
        split: option.splits sum.splits)
qed

subsection \<open>No binding is completed\<close>

text \<open>Every binding that is completed afterwards was stored so before.\<close>

definition no_completion :: "cfg \<Rightarrow> world \<Rightarrow> world \<Rightarrow> bool" where
  "no_completion C w w' \<longleftrightarrow>
     (\<forall>p b. binding_at C w' p = Some b \<longrightarrow> wb_status b = Completed \<longrightarrow> binding_at C w p = Some b)"

interpretation nc: state_order "no_completion C" for C
  by unfold_locales (auto simp: no_completion_def)

lemma no_completion_quiet: "keeps same_files m \<Longrightarrow> keeps (no_completion C) m"
  unfolding keeps_def no_completion_def by (metis same_files_stored)

lemma no_completion_grants: "keeps (writes_only grant_kinds) m \<Longrightarrow> keeps (no_completion C) m"
proof -
  have "binding_at C w p = Some b" if w: "writes_only grant_kinds w w'" and b: "binding_at C w' p = Some b" for w w' p b
  proof (cases "file_at w' p = file_at w p")
    case True
    with b show ?thesis by (simp add: stored_def)
  next
    case False
    with w obtain k kvs where "file_at w' p = Some (Parsed (JObj kvs))" "jget kvs ''kind'' = JStr k"
      "k \<in> set [''write_scope_approval'', ''write_scope_revocation'']"
      unfolding writes_only_def by auto
    with b bindings.of_kind [of C kvs] show ?thesis
      by (cases "verify_binding_record C (JObj kvs)") (auto simp: stored_def)
  qed
  then show "keeps (writes_only grant_kinds) m \<Longrightarrow> keeps (no_completion C) m"
    by (simp add: keeps_def no_completion_def) blast
qed

lemma no_completion_transition:
  assumes "to \<noteq> ''completed''" "py_strip to = to"
  shows "keeps (no_completion (cfg_of E)) (transition_binding_status E ref to why at)"
proof (rule keepsI)
  fix w r w'
  assume "transition_binding_status E ref to why at w = (r, w')"
  then show "no_completion (cfg_of E) w w'"
  proof (cases rule: transition_binding_cases)
    case fault
    then show ?thesis by (simp add: no_completion_def same_files_stored)
  next
    case (moved b v t)
    have "t \<noteq> Completed"
      using moved(2) assms by (auto dest: binding_status_text_of)
    then show ?thesis
      using verify_binding_json [OF moved(9)] moved(5)
      by (auto simp: no_completion_def same_files_stored [OF moved(10)] stored_write split: if_splits)
  qed
qed

lemma recover_no_completion: "keeps (no_completion (cfg_of E)) (recover_binding E i dec)"
proof -
  have t: "keeps (no_completion (cfg_of E)) (transition_binding_status E i ''suspended'' why at)"
    "keeps (no_completion (cfg_of E)) (transition_binding_status E i ''failed'' why at)" for why at
    by (rule no_completion_transition; code_simp)+
  note la = no_completion_grants [OF writes_load_approval]
  have l: "keeps (no_completion (cfg_of E)) (recover_load E i)"
    unfolding recover_load_def
    by (auto intro!: nc.keeps_rules nc.keeps_catch la t no_completion_quiet [OF load_for_recovery_quiet]
        split: if_splits)
  have act: "keeps same_files (case a of None \<Rightarrow> ret False
      | Some x \<Rightarrow> if wa_status x = Approved then is_approval_active E (approval_json x) None else ret False)" for a
    by (auto intro: quiet.keeps_ret quiet_is_approval_active split: option.splits)
  note q = act quiet_requires_new quiet_utc_now_iso quiet_event
  have f: "keeps (no_completion (cfg_of E)) (recover_finish E i ch d b a out why paths)" for ch d b a out why paths
    unfolding recover_finish_def Let_def
    by (intro nc.keeps_rules q [THEN no_completion_quiet]) (auto intro: nc.keeps_rules t)
  show ?thesis
    unfolding recover_binding_def
    by (auto intro!: nc.keeps_rules no_completion_grants [OF diagnose_rules(2)] l f
        no_completion_grants [OF recover_restore_rules(2)] no_completion_quiet [OF recover_manual_quiet]
        no_completion_quiet [OF quiet_load_binding] split: option.splits sum.splits)
qed

subsection \<open>What a decision leaves\<close>

text \<open>
  The contract of a recovery: either an operator is needed, or the binding has ended and is
  the one returned. A binding completed before is refused.
\<close>

definition recovery_settled :: "cfg \<Rightarrow> string \<Rightarrow> recovery \<Rightarrow> world \<Rightarrow> bool" where
  "recovery_settled C i rc w \<longleftrightarrow>
     (if rc_outcome rc = ''manual_intervention_required'' then held_at C w i (rc_binding rc)
      else held_at C w i (rc_binding rc) \<and> \<not> binding_live (rc_binding rc) \<and>
           wb_status (rc_binding rc) \<noteq> Completed)"

lemma catch_convert_Inr:
  "catchM m (\<lambda>e. if P e then Some (throw (f e)) else None) w = (Inr a, w') \<longleftrightarrow> m w = (Inr a, w')"
  by (auto simp: catchM_def throw_def split: prod.splits sum.splits if_splits)

lemma keeps_read_approval:
  "keeps (writes_only grant_kinds) (catchM (bindM (load_approval E i None True True) (\<lambda>a. ret (Some a)))
     (\<lambda>e. if is_approval_error e then Some (ret None) else None))"
  by (auto intro!: wo.keeps_catch wo.keeps_rules writes_load_approval split: if_splits)

lemma recover_load_held:
  assumes run: "recover_load E i w = (Inr (b, a), w')" and pl: "bindings_placed (cfg_of E) w"
  shows "held_at (cfg_of E) w' i b" "wb_status b \<noteq> Completed" "wb_status b \<noteq> Active"
proof -
  from run obtain b0 w1 w2 where l: "load_binding E i w = (Inr b0, w1)" "wb_status b0 \<noteq> Completed"
    and t: "(if wb_status b0 = Active then
              transition_binding_status E i ''suspended'' (Some ''recover:suspend_active_after_restart'') None
            else ret b0) w1 = (Inr b, w2)"
    and ap: "catchM (bindM (load_approval E (wb_approval b) None True True) (\<lambda>a. ret (Some a)))
              (\<lambda>e. if is_approval_error e then Some (ret None) else None) w2 = (Inr a, w')"
    by (auto simp: recover_load_def op_simps catch_convert_Inr split: if_splits)
  have h: "held_at (cfg_of E) w i b0" "w1 = w" using load_held [OF l(1) pl] by auto
  have g: "writes_only grant_kinds w2 w'"
    using keeps_read_approval ap by (rule keepsD)
  have "held_at (cfg_of E) w2 i b \<and> wb_status b \<noteq> Completed \<and> wb_status b \<noteq> Active"
  proof (cases "wb_status b0 = Active")
    case False
    with t h l(2) show ?thesis by (auto simp: ret_def)
  next
    case True
    then have "Suspended \<in> set (binding_transitions (Some (wb_status b0)))" by simp
    then obtain v w3 where "transition_binding_status E i (binding_status_text Suspended)
        (Some ''recover:suspend_active_after_restart'') None w = (Inr v, w3)"
      "held_at (cfg_of E) w3 i v" "wb_status v = Suspended"
      using transition_held [OF h(1)] by metis
    with True t h(2) show ?thesis by auto
  qed
  then show "held_at (cfg_of E) w' i b" "wb_status b \<noteq> Completed" "wb_status b \<noteq> Active"
    using held_grants [OF g] by auto
qed

lemma recover_finish_held:
  assumes run: "recover_finish E i ch d b a out why paths w = (Inr rc, w')"
    and h: "held_at (cfg_of E) w i b" "wb_status b \<noteq> Completed"
  shows "held_at (cfg_of E) w' i (rc_binding rc)" "\<not> binding_live (rc_binding rc)"
    "wb_status (rc_binding rc) \<noteq> Completed" "rc_outcome rc = out"
proof -
  let ?rest = "\<lambda>b'. let outcomes1 = (if (binding_live b \<or> wb_status b = Failed) \<and> out \<noteq> ''mark_binding_failed''
                      then [out, ''mark_binding_failed''] else [out]) in
     bindM (requires_new_approval E d a) (\<lambda>require_new.
     let outcomes = outcomes1 @ (if require_new then [''require_new_approval''] else []) in
     bindM (case a of
              None \<Rightarrow> ret False
            | Some x \<Rightarrow>
                if wa_status x = Approved then is_approval_active E (approval_json x) None
                else ret False) (\<lambda>active.
     let residual = (if active \<and> \<not> require_new then ''approval_only_requires_new_binding''
                     else ''none'') in
     bindM (utc_now_iso E) (\<lambda>at.
     bindM (append_scope_event E ''write_scope.recover''
              [(''binding_id'', JStr i), (''outcome'', JStr out),
               (''outcomes'', str_arr outcomes), (''decision'', JStr ch),
               (''restored_paths'', str_arr paths),
               (''residual_mutation_authority'', JStr residual)] (Some at)) (\<lambda>_.
     ret \<lparr>rc_binding_id = i, rc_outcome = out, rc_outcomes = outcomes,
          rc_diagnosis = d, rc_binding = b', rc_approval = a, rc_restored = paths,
          rc_residual = residual,
          rc_note = ''Recovery does not fabricate successful completion and does not '' @
            ''continue mutation authority automatically.''\<rparr>))))"
  from run obtain b' w1 where t: "(if binding_live b then
              transition_binding_status E i ''failed'' (Some why) None else ret b) w = (Inr b', w1)"
    and r: "?rest b' w1 = (Inr rc, w')"
    by (auto simp: recover_finish_def bindM_Inr_iff)
  have act: "keeps same_files (case a of None \<Rightarrow> ret False
      | Some x \<Rightarrow> if wa_status x = Approved then is_approval_active E (approval_json x) None else ret False)"
    by (auto intro: quiet.keeps_ret quiet_is_approval_active split: option.splits)
  have "keeps same_files (?rest b')"
    unfolding Let_def by (intro quiet_rules quiet_requires_new act)
  then have q: "same_files w1 w'" using r by (rule keepsD)
  have f: "rc_binding rc = b'" "rc_outcome rc = out"
    using r by (auto simp: Let_def op_simps)
  have "held_at (cfg_of E) w1 i b' \<and> \<not> binding_live b' \<and> wb_status b' \<noteq> Completed"
  proof (cases "binding_live b")
    case False
    with t h show ?thesis by (auto simp: ret_def)
  next
    case True
    then have "Failed \<in> set (binding_transitions (Some (wb_status b)))" by (auto simp: binding_live_def)
    then obtain v w2 where "transition_binding_status E i (binding_status_text Failed) (Some why) None w = (Inr v, w2)"
      "held_at (cfg_of E) w2 i v" "wb_status v = Failed"
      using transition_held [OF h(1)] by metis
    with True t show ?thesis by (auto simp: binding_live_def)
  qed
  then show "held_at (cfg_of E) w' i (rc_binding rc)" "\<not> binding_live (rc_binding rc)"
    "wb_status (rc_binding rc) \<noteq> Completed" "rc_outcome rc = out"
    using held_quiet [OF q] f by auto
qed

lemma recover_manual_run:
  assumes "recover_manual E i d a e w = (Inr rc, w')"
  shows "\<exists>w1. same_files w w1 \<and> load_binding E i w1 = (Inr (rc_binding rc), w') \<and>
    rc_outcome rc = ''manual_intervention_required''"
proof -
  from assms obtain t w1 x w2 b where u: "utc_now_iso E w = (Inr t, w1)"
    and v: "append_scope_event E ''write_scope.recover''
       [(''binding_id'', JStr i), (''outcome'', JStr ''manual_intervention_required''),
        (''error'', JStr (exn_text e))] (Some t) w1 = (Inr x, w2)"
    and b: "load_binding E i w2 = (Inr b, w')" "rc_binding rc = b"
      "rc_outcome rc = ''manual_intervention_required''"
    by (auto simp: recover_manual_def bindM_Inr_iff ret_iff)
  have "same_files w w1" using quiet_utc_now_iso u by (rule keepsD)
  moreover have "same_files w1 w2" using quiet_event v by (rule keepsD)
  ultimately have "same_files w w2" by (rule quiet.order_trans)
  with b show ?thesis by auto
qed

lemma recover_settles:
  assumes run: "recover_binding E i dec w = (Inr rc, w')" and pl: "bindings_placed (cfg_of E) w"
  shows "recovery_settled (cfg_of E) i rc w'"
proof -
  let ?C = "cfg_of E"
  from run obtain d w1 where dg: "diagnose_binding_recovery E i w = (Inr d, w1)"
    by (auto simp: recover_binding_def bindM_Inr_iff)
  have pl1: "bindings_placed ?C w1"
    using keepsD [OF diagnose_rules(1) dg] pl bindings.evolve_in_place unfolding authority_evolves_def by blast
  show ?thesis
  proof (cases "choose_decision dec d")
    case None
    with run dg obtain b where "load_binding E i w1 = (Inr b, w')" "rc_binding rc = b"
      "rc_outcome rc = ''manual_intervention_required''"
      by (auto simp: recover_binding_def op_simps)
    moreover from this have "held_at ?C w1 i b" "w' = w1" using load_held [OF _ pl1] by blast+
    ultimately show ?thesis by (simp add: recovery_settled_def)
  next
    case (Some chosen)
    from run dg Some obtain b a w2 ws where l: "recover_load E i w1 = (Inr (b, a), w2)"
      and rest: "(case decision_outcome chosen of
           None \<Rightarrow> throw (RecoveryError (V_decision chosen))
         | Some (outcome, why) \<Rightarrow>
             bindM (if chosen = ''restore'' then recover_restore E b ws (dg_dirty d)
                    else ret (Inr [])) (\<lambda>restored.
             case restored of
               Inl e \<Rightarrow> recover_manual E i d a e
             | Inr paths \<Rightarrow> recover_finish E i chosen d b a outcome why paths)) w2 = (Inr rc, w')"
      by (auto simp: recover_binding_def bindM_Inr_iff lift_res_iff)
    note h = recover_load_held [OF l pl1]
    from rest obtain outcome why where o: "decision_outcome chosen = Some (outcome, why)"
      by (auto simp: throw_def split: option.splits)
    with rest obtain restored w3 where
      r: "(if chosen = ''restore'' then recover_restore E b ws (dg_dirty d) else ret (Inr [])) w2 = (Inr restored, w3)"
      and fin: "(case restored of Inl e \<Rightarrow> recover_manual E i d a e
             | Inr paths \<Rightarrow> recover_finish E i chosen d b a outcome why paths) w3 = (Inr rc, w')"
      by (auto simp: bindM_Inr_iff)
    have "writes_only grant_kinds w2 w3"
      using r keepsD [OF recover_restore_rules(2)] by (auto simp: ret_def wo.order_refl split: if_splits)
    then have h3: "held_at ?C w3 i b" using h(1) by (rule held_grants)
    have no: "outcome \<noteq> ''manual_intervention_required''"
      using o by (auto simp: decision_outcome_def split: if_splits)
    show ?thesis
    proof (cases restored)
      case (Inr paths)
      with fin recover_finish_held [OF _ h3 h(2)] no show ?thesis by (auto simp: recovery_settled_def)
    next
      case (Inl e)
      with fin obtain w4 where "load_binding E i w4 = (Inr (rc_binding rc), w')" "same_files w3 w4"
        "rc_outcome rc = ''manual_intervention_required''"
        using recover_manual_run [of E i d a e w3 rc w'] by auto
      then show ?thesis
        using held_load [OF held_quiet [OF _ h3]] held_quiet [OF _ h3] by (auto simp: recovery_settled_def)
    qed
  qed
qed

end
