(* ===== verification/Scope_Laws.thy ===== *)
theory Scope_Laws
  imports Enforcement
begin

section \<open>Laws of scopes\<close>

text \<open>
  A path is in scope exactly when its real path lies in the workspace and under an allowed
  root and under no denied root; the split of the changed paths has a one-line reference
  definition; the guardrail of a write tool refuses what a denied root covers; and a result
  is enforced once.
\<close>

subsection \<open>Paths in scope\<close>

text \<open>The real path a changed path denotes inside a workspace.\<close>

definition real_inside :: "env \<Rightarrow> ppath \<Rightarrow> string \<Rightarrow> ppath \<Rightarrow> ppath \<Rightarrow> bool" where
  "real_inside E root p ws absolute \<longleftrightarrow>
     (let raw = py_strip p in
      raw \<noteq> [] \<and> full_path E root = Inr ws \<and>
      (starts_with raw ''/'' \<or> ''..'' \<notin> set (snd (py_path raw))) \<and>
      realpath E (if starts_with raw ''/'' then py_path raw else path_join ws (py_path raw)) = Some absolute \<and>
      under absolute ws)"

lemma normalize_Normal:
  "normalize_workspace_path E p root = Inr (Normal absolute rel) \<longleftrightarrow>
     (\<exists>ws. real_inside E root p ws absolute \<and>
        rel = as_posix (path_str ([], drop (length (snd ws)) (snd absolute))))"
proof (cases "full_path E root")
  case (Inl e)
  then show ?thesis by (auto simp: normalize_workspace_path_def real_inside_def Let_def)
next
  case (Inr ws)
  let ?raw = "py_strip p"
  let ?c = "if starts_with ?raw ''/'' then py_path ?raw else path_join ws (py_path ?raw)"
  have r: "real_inside E root p ws' absolute \<longleftrightarrow> ws' = ws \<and> ?raw \<noteq> [] \<and>
      (starts_with ?raw ''/'' \<or> ''..'' \<notin> set (snd (py_path ?raw))) \<and>
      realpath E ?c = Some absolute \<and> under absolute ws" for ws'
    using Inr by (auto simp: real_inside_def Let_def)
  have step: "normalize_workspace_path E p root =
      (if ?raw = [] then Inr (Rejected ''empty_path'')
       else if \<not> starts_with ?raw ''/'' \<and> ''..'' \<in> set (snd (py_path ?raw)) then Inr (Rejected ''path_traversal'')
       else case realpath E ?c of None \<Rightarrow>
           (case unresolved ?c of RuntimeErr _ \<Rightarrow> Inr (Rejected ''path_resolve_failed'') | e \<Rightarrow> Inl e)
         | Some q \<Rightarrow> (case relative_to q ws of
             None \<Rightarrow> Inr (Rejected ''symlink_or_escape_outside_workspace'')
           | Some r \<Rightarrow> Inr (Normal q (as_posix (path_str r)))))"
    using Inr by (auto simp: normalize_workspace_path_def Let_def split: option.split exn.split)
  have "(case realpath E c of None \<Rightarrow>
           (case unresolved c of RuntimeErr _ \<Rightarrow> Inr (Rejected ''path_resolve_failed'') | e \<Rightarrow> Inl e)
         | Some q \<Rightarrow> (case relative_to q ws of
             None \<Rightarrow> Inr (Rejected ''symlink_or_escape_outside_workspace'')
           | Some r \<Rightarrow> Inr (Normal q (as_posix (path_str r))))) = (Inr (Normal absolute rel) :: exn + norm_path) \<longleftrightarrow>
       (\<exists>r. realpath E c = Some absolute \<and> relative_to absolute ws = Some r \<and> rel = as_posix (path_str r))" for c
    by (auto split: option.split exn.split)
  with step show ?thesis
    unfolding r by (auto simp: relative_to_Some)
qed

lemma path_matches_under: "path_matches_root absolute = under absolute"
  by (rule ext) (simp add: path_matches_root_def relative_to_None)

lemma within_scope_iff:
  "path_is_within_effective_scope E p S = Inr (True, rel, err) \<longleftrightarrow>
     err = None \<and>
     (\<exists>ws absolute. real_inside E (sr_workspace S) p ws absolute \<and>
        list_ex (under absolute) (sr_allowed S) \<and> \<not> list_ex (under absolute) (sr_denied S) \<and>
        rel = Some (as_posix (path_str ([], drop (length (snd ws)) (snd absolute)))))"
proof -
  have "path_is_within_effective_scope E p S = Inr (True, rel, err) \<longleftrightarrow>
      (\<exists>absolute r. normalize_workspace_path E p (sr_workspace S) = Inr (Normal absolute r) \<and>
         list_ex (path_matches_root absolute) (sr_allowed S) \<and>
         \<not> list_ex (path_matches_root absolute) (sr_denied S) \<and> rel = Some r \<and> err = None)"
  proof (cases "normalize_workspace_path E p (sr_workspace S)")
    case (Inr n)
    then show ?thesis
      by (cases n) (auto simp: path_is_within_effective_scope_def split: if_splits)
  qed (simp add: path_is_within_effective_scope_def)
  also have "\<dots> \<longleftrightarrow> err = None \<and>
     (\<exists>ws absolute. real_inside E (sr_workspace S) p ws absolute \<and>
        list_ex (under absolute) (sr_allowed S) \<and> \<not> list_ex (under absolute) (sr_denied S) \<and>
        rel = Some (as_posix (path_str ([], drop (length (snd ws)) (snd absolute)))))"
    unfolding normalize_Normal path_matches_under by blast
  finally show ?thesis .
qed

text \<open>More denied roots never let a path in; more allowed roots never put one out.\<close>

lemma scope_monotone:
  assumes "path_is_within_effective_scope E p S = Inr (True, rel, err)"
    and "set (sr_allowed S) \<subseteq> set (sr_allowed T)" "set (sr_denied T) \<subseteq> set (sr_denied S)"
    and "sr_workspace T = sr_workspace S"
  shows "path_is_within_effective_scope E p T = Inr (True, rel, err)"
  using assms unfolding within_scope_iff by (fastforce simp: list_ex_iff)

subsection \<open>Splitting the changed paths\<close>

definition scope_verdict :: "env \<Rightarrow> scope_roots \<Rightarrow> string \<Rightarrow> exn + (string \<times> bool)" where
  "scope_verdict E S raw =
     bindR (path_is_within_effective_scope E raw S) (\<lambda>(ok, rel, err).
     Inr ((case rel of Some (c # cs) \<Rightarrow> c # cs | _ \<Rightarrow> py_strip raw), ok))"

text \<open>The first verdict of each name; the empty name is dropped.\<close>

fun first_verdicts :: "string list \<Rightarrow> (string \<times> bool) list \<Rightarrow> (string \<times> bool) list" where
  "first_verdicts seen [] = []"
| "first_verdicts seen ((k, ok) # vs) =
     (if k = [] \<or> k \<in> set seen then first_verdicts seen vs
      else (k, ok) # first_verdicts (k # seen) vs)"

definition split_verdicts :: "(string \<times> bool) list \<Rightarrow> string list \<times> string list" where
  "split_verdicts vs = (map fst (filter snd vs), map fst (filter (\<lambda>v. \<not> snd v) vs))"

lemma first_verdicts_seen:
  "set s = set t \<Longrightarrow> first_verdicts s vs = first_verdicts t vs"
  by (induction s vs arbitrary: t rule: first_verdicts.induct) auto

lemma classify_from_reference:
  "classify_from E S changed ins outs =
     bindR (mapR (scope_verdict E S) changed) (\<lambda>vs.
     let (i, o') = split_verdicts (first_verdicts (ins @ outs) vs) in Inr (ins @ i, outs @ o'))"
proof (induction changed arbitrary: ins outs)
  case Nil
  then show ?case by (simp add: split_verdicts_def)
next
  case (Cons raw rest)
  show ?case
  proof (cases "path_is_within_effective_scope E raw S")
    case (Inl e)
    then show ?thesis by (simp add: scope_verdict_def)
  next
    case (Inr v)
    obtain ok rel err where v: "v = (ok, rel, err)" by (cases v)
    let ?k = "case rel of Some (c # cs) \<Rightarrow> c # cs | _ \<Rightarrow> py_strip raw"
    have s: "scope_verdict E S raw = Inr (?k, ok)" by (simp add: scope_verdict_def Inr v)
    have f: "first_verdicts (ins @ ?k # outs) vs = first_verdicts (?k # ins @ outs) vs"
      "first_verdicts (ins @ outs @ [?k]) vs = first_verdicts (?k # ins @ outs) vs" for vs
      by (rule first_verdicts_seen; auto)+
    show ?thesis
      using s f
      by (cases "mapR (scope_verdict E S) rest")
        (auto simp: Inr v Let_def Cons.IH split_verdicts_def split_def simp del: split_paired_All)
  qed
qed

lemma classify_reference:
  "classify_changed_paths E changed S =
     bindR (mapR (scope_verdict E S) changed) (\<lambda>vs. Inr (split_verdicts (first_verdicts [] vs)))"
  by (simp add: classify_changed_paths_def classify_from_reference split_def)

subsection \<open>The guardrail of write tools\<close>

text \<open>
  A write passes when no writable root is given, or when its real path is under one of them
  and under no denied root; with a workspace it must also lie inside it.
\<close>

definition guarded_path :: "env \<Rightarrow> ppath option \<Rightarrow> string \<Rightarrow> ppath \<Rightarrow> bool" where
  "guarded_path E workspace p absolute \<longleftrightarrow>
     (case workspace of
        None \<Rightarrow> resolve_path E (py_path p) = Inr absolute
      | Some root \<Rightarrow> \<exists>full ws. full_path E root = Inr full \<and> real_inside E full p ws absolute)"

lemma guardrail_iff:
  "guardrail_write_allowed E p writable denied workspace = Inr None \<longleftrightarrow>
     writable = [] \<or>
     (\<exists>roots dn absolute. mapR (\<lambda>r. resolve_path E (py_path r)) writable = Inr roots \<and>
        mapR (\<lambda>r. resolve_path E (py_path r)) denied = Inr dn \<and> guarded_path E workspace p absolute \<and>
        list_ex (under absolute) roots \<and> \<not> list_ex (under absolute) dn)"
proof (cases "writable = []")
  case True
  then show ?thesis by (simp add: guardrail_write_allowed_def)
next
  case False
  show ?thesis
  proof (cases "mapR (\<lambda>r. resolve_path E (py_path r)) writable")
    case (Inl e)
    with False show ?thesis by (simp add: guardrail_write_allowed_def)
  next
    case (Inr roots)
    then have ne: "roots \<noteq> []" using False by (auto simp: mapR_Inr_iff)
    show ?thesis
    proof (cases "mapR (\<lambda>r. resolve_path E (py_path r)) denied")
      case (Inl e)
      with Inr ne False show ?thesis by (simp add: guardrail_write_allowed_def)
    next
      case dn: (Inr dn)
      show ?thesis
      proof (cases workspace)
        case None
        with False Inr dn ne show ?thesis
          by (auto simp: guardrail_write_allowed_def guarded_path_def bindR_Inr_iff path_matches_under split: if_splits)
      next
        case (Some root)
        have "(case v of (ok, rel, err) \<Rightarrow>
           Inr (if ok then None
                else if err = Some ''denied_root''
                then Some (''scope_exceeded: Path '' @ [CHR 0x27] @ p @ [CHR 0x27] @
                  '' matches denied write-scope root'')
                else Some (''scope_exceeded: Path '' @ [CHR 0x27] @ p @ [CHR 0x27] @
                  '' is outside writable roots''))) = (Inr None :: exn + string option) \<longleftrightarrow> fst v" for v :: "bool \<times> string option \<times> string option"
          by (cases v) auto
        then have "guardrail_write_allowed E p writable denied workspace = Inr None \<longleftrightarrow>
            (\<exists>full rel err. full_path E root = Inr full \<and> path_is_within_effective_scope E p
                 \<lparr>sr_workspace = full, sr_allowed = roots, sr_denied = dn\<rparr> = Inr (True, rel, err))"
          using Inr dn ne Some by (auto simp: guardrail_write_allowed_def bindR_Inr_iff)
        also have "\<dots> \<longleftrightarrow> (\<exists>absolute. guarded_path E workspace p absolute \<and>
            list_ex (under absolute) roots \<and> \<not> list_ex (under absolute) dn)"
          unfolding within_scope_iff guarded_path_def Some by simp blast
        finally show ?thesis using False Inr dn by simp
      qed
    qed
  qed
qed

subsection \<open>Enforcing a result\<close>

lemma jget_update [simp]: "jget (AList.update k v d) k' = (if k' = k then v else jget d k')"
  by (simp add: jget_def update_conv')

lemma keys_dict_update: "set (map fst (dict_update d e)) = set (map fst d) \<union> set (map fst e)"
proof (induction e arbitrary: d)
  case (Cons x e)
  have "set (map fst (AList.update k v d)) = insert k (set (map fst d))" for k and v :: json
    by (auto simp: update_keys)
  then show ?case
    using Cons by (cases x) (auto simp: dict_update_def simp del: set_map)
qed (simp add: dict_update_def)

lemma jget_dict_update_other: "k \<notin> set (map fst e) \<Longrightarrow> jget (dict_update d e) k = jget d k"
  by (induction e arbitrary: d) (auto simp: dict_update_def)

lemma jget_dict_update_head:
  "k \<notin> set (map fst e) \<Longrightarrow> jget (dict_update d ((k, v) # e)) k = v"
  by (simp add: dict_update_def jget_dict_update_other [unfolded dict_update_def])

lemma set_default_key: "k \<in> set (map fst (set_default k v d))" "set (map fst d) \<subseteq> set (map fst (set_default k v d))"
  by (auto simp: set_default_def)

lemma set_default_id: "k \<in> set (map fst d) \<Longrightarrow> set_default k v d = d"
  by (simp add: set_default_def)

lemma jget_set_default: "k' \<noteq> k \<Longrightarrow> jget (set_default k v d) k' = jget d k'"
  by (auto simp: set_default_def jget_def map_add_def split: option.splits)

text \<open>What marks a result as enforced for a binding.\<close>

definition enforced_for :: "binding \<Rightarrow> (string \<times> json) list \<Rightarrow> bool" where
  "enforced_for b r \<longleftrightarrow>
     is_JObj (jget r ''mutation_receipt'') \<and>
     ''write_scope_binding_id'' \<in> set (map fst r) \<and> ''write_scope_approval_id'' \<in> set (map fst r)"

lemma merge_failed_keys:
  "k \<in> set (map fst (failed_final_text d o')) \<Longrightarrow> k = ''final_text''"
  by (auto simp: failed_final_text_def Let_def split: if_splits option.splits list.splits)

lemma merge_outcome_enforced: "enforced_for b (merge_outcome r b o')"
proof -
  let ?u = "dict_update r
            [(''mutation_receipt'', receipt_json (eo_receipt o')),
             (''write_scope_binding_id'', JStr (wb_id b)),
             (''write_scope_approval_id'', JStr (wb_approval b)),
             (''changed_paths'', JArr (map JStr (eo_remaining o')))]"
  have u: "jget ?u ''mutation_receipt'' = receipt_json (eo_receipt o')"
    by (rule jget_dict_update_head) simp
  have k: "''write_scope_binding_id'' \<in> set (map fst ?u)" "''write_scope_approval_id'' \<in> set (map fst ?u)"
    unfolding keys_dict_update by simp_all
  have j: "is_JObj (receipt_json (eo_receipt o'))" by (simp add: is_JObj_def receipt_json_def)
  show ?thesis
  proof (cases "eo_failed o'")
    case False
    then show ?thesis using u k j by (simp add: merge_outcome_def enforced_for_def Let_def)
  next
    case True
    let ?e = "[(''status'', JStr ''failed''),
            (''exit_code'', if int_nonzero (jget r ''exit_code'') then jget r ''exit_code'' else JInt 1),
            (''stop_reason'', JStr (or_text (eo_stop o')
               (or_text (Some (str_or_empty (jget ?u ''stop_reason''))) ''write_scope_exceeded'')))]
           @ failed_final_text ?u o'"
    have mr: "jget (dict_update ?u ?e) ''mutation_receipt'' = receipt_json (eo_receipt o')"
      using u by (subst jget_dict_update_other) (auto dest: merge_failed_keys simp del: set_map)
    have sub: "set (map fst ?u) \<subseteq> set (map fst (dict_update ?u ?e))"
      by (subst (2) keys_dict_update) (rule Un_upper1)
    have eq: "merge_outcome r b o' = dict_update ?u ?e"
      using True by (simp only: merge_outcome_def Let_def if_True)
    show ?thesis
      unfolding enforced_for_def eq mr by (intro conjI j subsetD [OF sub k(1)] subsetD [OF sub k(2)])
  qed
qed

lemma apply_enforcement_marks:
  assumes "apply_enforcement_to_result E j (Some b) ws rf w = (Inr j', w')"
  shows "\<exists>r'. j' = JObj r' \<and> enforced_for b r'"
proof -
  from assms obtain r where r: "j = JObj r"
    by (cases j) (auto simp: apply_enforcement_to_result_def throw_def)
  show ?thesis
  proof (cases "is_JObj (jget r ''mutation_receipt'')")
    case True
    let ?r = "set_default ''write_scope_approval_id'' (JStr (wb_approval b))
                (set_default ''write_scope_binding_id'' (JStr (wb_id b)) r)"
    have "enforced_for b ?r"
      using True set_default_key(1) subsetD [OF set_default_key(2) set_default_key(1)]
      by (simp add: enforced_for_def jget_set_default del: set_map)
    with assms True r show ?thesis by (intro exI [of _ ?r]) (simp add: apply_enforcement_to_result_def ret_def)
  next
    case False
    with assms r show ?thesis
      by (auto simp: apply_enforcement_to_result_def op_simps merge_outcome_enforced)
  qed
qed

lemma apply_enforcement_again:
  assumes "enforced_for b r"
  shows "apply_enforcement_to_result E (JObj r) (Some b) ws rf w = (Inr (JObj r), w)"
  using assms
  by (simp add: apply_enforcement_to_result_def enforced_for_def set_default_id ret_def del: set_map)

text \<open>A failed enforcement turns the result into a failure with a nonzero exit code.\<close>

lemma merge_outcome_failed:
  assumes "eo_failed o'"
  shows "jget (merge_outcome r b o') ''status'' = JStr ''failed''"
    "int_nonzero (jget (merge_outcome r b o') ''exit_code'')"
proof -
  let ?u = "dict_update r
            [(''mutation_receipt'', receipt_json (eo_receipt o')),
             (''write_scope_binding_id'', JStr (wb_id b)),
             (''write_scope_approval_id'', JStr (wb_approval b)),
             (''changed_paths'', JArr (map JStr (eo_remaining o')))]"
  have d: "dict_update d ((k, v) # e) = dict_update (AList.update k v d) e" for d e k and v :: json
    by (simp add: dict_update_def)
  have f: "k \<notin> set (map fst (failed_final_text d o'))" if "k \<noteq> ''final_text''" for k d
    using that merge_failed_keys by blast
  show "jget (merge_outcome r b o') ''status'' = JStr ''failed''"
    "int_nonzero (jget (merge_outcome r b o') ''exit_code'')"
    using assms by (simp_all add: merge_outcome_def Let_def d [of ?u] d jget_dict_update_other [OF f] int_nonzero_def)
qed

end
