(* ===== verification/Custody.thy ===== *)
theory Custody
  imports Recovery_Laws Scope_Laws
begin

section \<open>Chain of custody\<close>

text \<open>
  Every approval carries the body of a stored proposal, and every binding the hash, target and
  base commit of a stored approval. Proposals never change, approvals and bindings keep these
  fields, so the chain holds for as long as the records exist.
\<close>

abbreviation proposal_at :: "cfg \<Rightarrow> world \<Rightarrow> path \<Rightarrow> proposal option" where
  "proposal_at C w p \<equiv> stored verify_proposal_record C w p"

abbreviation proposals_placed :: "cfg \<Rightarrow> world \<Rightarrow> bool" where
  "proposals_placed C w \<equiv> in_place verify_proposal_record wp_id proposals_dir C w"

abbreviation proposals_evolve :: "bool \<Rightarrow> cfg \<Rightarrow> world \<Rightarrow> world \<Rightarrow> bool" where
  "proposals_evolve \<equiv> evolves verify_proposal_record wp_id proposals_dir (=)"

abbreviation proposal_path :: "cfg \<Rightarrow> string \<Rightarrow> path" where
  "proposal_path C i \<equiv> proposals_dir C @ [i @ ''.json'']"

abbreviation proposal_kinds :: "(string \<times> string) list" where
  "proposal_kinds \<equiv> [(''wsp-'', ''write_scope_proposal'')]"

subsection \<open>Operations on proposals\<close>

lemma save_proposal_effect:
  assumes run: "save_proposal E j w = (r, w')"
  shows "proposals_evolve True (cfg_of E) w w'" and "writes_only proposal_kinds w w'"
proof -
  have "proposals_evolve True (cfg_of E) w w' \<and> writes_only proposal_kinds w w'"
  proof (cases r)
    case (Inl e)
    with save_proposal_Inl run have "w' = w" by blast
    then show ?thesis by (auto intro: ps.evolve_refl wo.order_refl)
  next
    case (Inr q)
    from run [unfolded Inr] show ?thesis
    proof (cases rule: save_proposal_Inr)
      case fresh
      have v: "verify_proposal_record (cfg_of E) (proposal_json q) = Inr q"
        using fresh(1) by (rule ps.reverify)
      note p = ps.record_path_id [OF v]
      have "proposals_evolve True (cfg_of E) w w'"
        using fresh v unfolding p by (auto intro!: ps.evolve_put simp: stored_def)
      moreover have "starts_with (last (proposal_path (cfg_of E) (wp_id q))) ''wsp-''"
        using ps.id_prefix [OF v] by (auto simp: starts_with_iff)
      then have "writes_only proposal_kinds w w'"
        unfolding fresh(3) p proposal_json_def by (intro writes_only_put) auto
      ultimately show ?thesis ..
    qed (auto intro: ps.evolve_refl wo.order_refl)
  qed
  then show "proposals_evolve True (cfg_of E) w w'" "writes_only proposal_kinds w w'" by auto
qed

lemma save_proposal_rules:
  "keeps (proposals_evolve True (cfg_of E)) (save_proposal E j)"
  "keeps (writes_only proposal_kinds) (save_proposal E j)"
  using save_proposal_effect by (auto intro: keepsI)

lemma quiet_build_proposal: "keeps same_files (build_proposal_record E r b c)"
  by (auto simp: build_proposal_record_def Let_def split: option.splits intro!: quiet_rules)

lemma persist_candidate_rules:
  "keeps (proposals_evolve True (cfg_of E)) (persist_candidate E parent c ic acc)"
  "keeps (writes_only proposal_kinds) (persist_candidate E parent c ic acc)"
proof -
  show "keeps (proposals_evolve True (cfg_of E)) (persist_candidate E parent c ic acc)"
    unfolding persist_candidate_def
    by (cases ic; cases acc)
      (auto split: option.splits if_splits intro!: ps.evo.keeps_rules ps.evo.keeps_catch
        save_proposal_rules ps.keeps_quiet [OF quiet_build_proposal])
  show "keeps (writes_only proposal_kinds) (persist_candidate E parent c ic acc)"
    unfolding persist_candidate_def
    by (cases ic; cases acc)
      (auto split: option.splits if_splits intro!: wo.keeps_rules wo.keeps_catch
        save_proposal_rules keeps_writes_only_quiet [OF quiet_build_proposal])
qed

lemma persist_rules:
  "keeps (proposals_evolve True (cfg_of E)) (persist_write_scope_proposals_from_result E j r c)"
  "keeps (writes_only proposal_kinds) (persist_write_scope_proposals_from_result E j r c)"
proof -
  show "keeps (proposals_evolve True (cfg_of E)) (persist_write_scope_proposals_from_result E j r c)"
    unfolding persist_write_scope_proposals_from_result_def Let_def
    by (auto split: json.splits prod.splits option.splits list.splits if_splits
        intro!: ps.evo.keeps_rules persist_candidate_rules)
  show "keeps (writes_only proposal_kinds) (persist_write_scope_proposals_from_result E j r c)"
    unfolding persist_write_scope_proposals_from_result_def Let_def
    by (auto split: json.splits prod.splits option.splits list.splits if_splits
        intro!: wo.keeps_rules persist_candidate_rules)
qed

text \<open>The other operations leave the proposals, the proposal operations the rest.\<close>

lemma proposals_by_scope: "keeps (writes_only scope_kinds) m \<Longrightarrow> keeps (proposals_evolve mint C) m"
  by (rule ps.keeps_other_kinds) (auto simp: apart_def)

lemma authority_by_proposals: "keeps (writes_only proposal_kinds) m \<Longrightarrow> keeps (authority_evolves C) m"
  using approvals.keeps_other_kinds [of proposal_kinds m False C]
    bindings.keeps_other_kinds [of proposal_kinds m False C]
  by (simp add: keeps_def authority_evolves_def apart_def)

subsection \<open>Granting\<close>

lemma approval_fields:
  assumes "verify_approval_base C (approval_json r) = Inr v"
  shows "wa_proposal v = py_strip (wa_proposal r)" "wa_run v = py_strip (wa_run r)"
    "wa_at v = py_strip (wa_at r)" "wa_expires v = py_strip (wa_expires r)" "wa_status v = wa_status r"
    "wa_hash v = py_strip (wa_hash r)" "validate_approval_body (body_json (wa_body r)) = Inr (wa_body v)"
    "assert_operator_identity (wa_by r) ''approved_by'' = Inr (wa_by v)"
  using assms
  by (auto simp: verify_approval_base_def approval_json_def Let_def bindR_Inr_iff text_field_def)

lemma parse_iso_strip: "parse_iso_utc C v = Inr x \<Longrightarrow> parse_iso_utc C (py_strip v) = Inr x"
  by (auto simp: parse_iso_utc_def Let_def split: if_splits option.splits)

lemma parse_iso_range: "parse_iso_utc C v = Inr x \<Longrightarrow> 0 \<le> x"
  by (auto simp: parse_iso_utc_def Let_def split: if_splits option.splits)

lemma validated_body: "frozen b \<Longrightarrow> validate_approval_body (body_json b) = Inr c \<Longrightarrow> c = b"
  by (auto simp: validate_approval_body_def frozen_normalize split: if_splits)

lemma build_approval_Inr:
  assumes "build_approval_record E (proposal_json p) who x at src prov w = (Inr r, w')"
    and p: "verify_proposal_record (cfg_of E) (proposal_json p) = Inr p"
    and at: "at = Some t" "t \<noteq> []"
  shows "wa_proposal r = wp_id p" "wa_run r = wp_run p" "wa_body r = wp_body p" "wa_hash r = wp_hash p"
    "wa_at r = t" "wa_expires r = x" "wa_status r = Approved" "wa_by r = py_strip who" "same_files w w'"
proof -
  note f = verify_proposal_Inr [OF p]
  from assms show "wa_proposal r = wp_id p" "wa_run r = wp_run p" "wa_hash r = wp_hash p"
    "wa_at r = t" "wa_expires r = x" "wa_status r = Approved"
    by (auto simp: build_approval_record_def Let_def op_simps text_or_now_def split: if_splits)
  from assms show "wa_body r = wp_body p"
    by (auto simp: build_approval_record_def Let_def op_simps text_or_now_def
        intro: validated_body [OF f(1)] split: if_splits)
  from assms show "wa_by r = py_strip who"
    by (auto simp: build_approval_record_def Let_def op_simps text_or_now_def
        dest: operator_identity_Inr split: if_splits)
  show "same_files w w'" using quiet_build_approval assms(1) by (rule keepsD)
qed

text \<open>
  A grant that returns: an operator is named, the proposal is stored, and the approval, new or
  known, is of that proposal and its body, and expires the duration after it was approved.
\<close>

lemma approve_proposal_Inr:
  assumes run: "approve_proposal E pid ttl who src prov at now w = (Inr a, w')"
  obtains p d base where
    "proposal_at (cfg_of E) w (record_path (proposals_dir (cfg_of E)) (py_strip pid)) = Some p"
    "py_strip prov = ''operator_asserted''" "assert_operator_identity who ''approved_by'' = Inr (wa_by a)"
    "parse_ttl_duration ttl = Inr d" "parse_iso_utc (cfg_of E) (wa_at a) = Inr base"
    "wa_expires a = stamp (base + int d * 1000000)"
    "wa_proposal a = wp_id p" "wa_hash a = wp_hash p"
    "approval_at (cfg_of E) w' (approval_path (cfg_of E) (wa_id a)) = Some a"
    "approval_at (cfg_of E) w (approval_path (cfg_of E) (wa_id a)) = Some a \<or>
       wa_status a = Approved \<and> wa_body a = wp_body p \<and> wa_run a = wp_run p"
    "\<exists>j w1. same_files w w1 \<and> save_approval E j True w1 = (Inr a, w')"
proof -
  let ?C = "cfg_of E"
  from run obtain who' d p w1 t w2 base rc w3 where
    pr: "py_strip prov = ''operator_asserted''" and
    op: "assert_operator_identity who ''approved_by'' = Inr who'" and
    d: "parse_ttl_duration ttl = Inr d" and
    lp: "load_proposal E pid w = (Inr p, w1)" and
    nw: "given_or_now E now w1 = (Inr t, w2)" and
    ba: "parse_iso_utc ?C (case at of Some (c # cs) \<Rightarrow> c # cs | _ \<Rightarrow> stamp t) = Inr base" and
    mx: "\<not> max_micros \<le> base + int d * 1000000" and
    bd: "build_approval_record E (proposal_json p) who' (stamp (base + int d * 1000000))
           (Some (case at of Some (c # cs) \<Rightarrow> c # cs | _ \<Rightarrow> stamp t)) src prov w2 = (Inr rc, w3)" and
    sv: "save_approval E (approval_json rc) True w3 = (Inr a, w')"
    by (auto simp: approve_proposal_def Let_def op_simps catch_convert_Inr assert_operator_provenance_def bindR_Inr_iff
        split: if_splits)
  let ?ts = "case at of Some (c # cs) \<Rightarrow> c # cs | _ \<Rightarrow> stamp t"
  let ?x = "base + int d * 1000000"
  from lp have p: "proposal_at ?C w (record_path (proposals_dir ?C) (py_strip pid)) = Some p" "w1 = w"
    by (simp_all add: load_proposal_Inr)
  have vp: "verify_proposal_record ?C (proposal_json p) = Inr p" using p(1) by (rule ps.stored_verified)
  have "?ts \<noteq> []" using ba by (auto simp: parse_iso_utc_def)
  note b = build_approval_Inr [OF bd vp refl this]
  have "same_files w1 w2" using quiet_given_or_now nw by (rule keepsD)
  then have sf: "same_files w w3" using b(9) p(2) by (auto intro: quiet.order_trans)
  have st: "py_strip (stamp ?x) = stamp ?x"
    using stamp_props(2) [of ?x] parse_iso_range [OF ba] mx by simp
  note pf = verify_proposal_Inr [OF vp]
  have who: "py_strip who' = who'" "assert_operator_identity who' ''approved_by'' = Inr who'"
    using operator_identity_Inr [OF op] by auto
  have fields: "wa_proposal v = wp_id p \<and> wa_run v = wp_run p \<and> wa_hash v = wp_hash p \<and> wa_body v = wp_body p \<and>
      wa_at v = py_strip ?ts \<and> wa_expires v = stamp ?x \<and> wa_status v = Approved \<and>
      wa_by v = who'" if "verify_approval_base ?C (approval_json rc) = Inr v" for v
    using approval_fields [OF that] b pf st who
    by (auto simp: proposal_id_clean intro: validated_body)
  have ex: "\<exists>j w1. same_files w w1 \<and> save_approval E j True w1 = (Inr a, w')" using sv sf by blast
  from sv show thesis
  proof (cases rule: save_approval_Inr)
    case fresh
    note f = fields [OF fresh(1)]
    have "verify_approval_base ?C (approval_json a) = Inr a" using fresh(1) by (rule approvals.reverify)
    then have "approval_at ?C w' (approval_path ?C (wa_id a)) = Some a"
      unfolding same_files_stored [OF fresh(4)] by (simp add: stored_write)
    with f p pr op d show thesis
      using parse_iso_strip [OF ba] by (intro that [of p d base] ex) auto
  next
    case (known v)
    note f = fields [OF known(1)]
    have a: "approval_at ?C w (approval_path ?C (wa_id v)) = Some a"
      using known(3) unfolding same_files_stored [OF sf] .
    have id: "wa_id a = wa_id v"
      using verify_approval_ok [OF known(1)] approval_at_ok [OF known(3)] known(4-8)
      by (simp add: approval_ok_def)
    show thesis
      using f p pr op d known a id parse_iso_strip [OF ba] by (intro that [of p d base] ex) auto
  qed
qed

lemma approve_proposal_Inl:
  assumes run: "approve_proposal E pid ttl who src prov at now w = (Inl e, w')"
  shows "same_files w w'"
proof -
  have q: "keeps same_files (catchM (load_proposal E pid)
     (\<lambda>e. if is_proposal_error e then Some (throw (ApprovalError (A_text (exn_text e)))) else None))"
    by (rule quiet.keeps_catch [OF quiet_load_proposal]) (auto intro: quiet_rules split: if_splits)
  show ?thesis
    using run unfolding approve_proposal_def Let_def
    by (auto simp: bindM_Inl_iff bindM_Inr_iff lift_res_iff raise_if_iff quiet.order_refl
        simp del: bindM_basic bindM_lift split: if_splits
        dest!: keepsD [OF q] keepsD [OF quiet_given_or_now] keepsD [OF quiet_build_approval] save_approval_Inl
        intro: quiet.order_trans)
qed

lemma create_binding_Inl:
  assumes run: "create_binding E i q w = (Inl e, w')"
  shows "authority_evolves (cfg_of E) w w'"
proof -
  have a: "keeps (authority_evolves (cfg_of E)) (bind_approval E ref)" for ref
    by (intro authority_grant bind_approval_rules)
  have b: "authority_evolves (cfg_of E) w1 w2" if "same_files w1 w2" for w1 w2
    using that by (simp add: authority_evolves_def approvals.evolve_quiet bindings.evolve_quiet)
  show ?thesis
    using run unfolding create_binding_def Let_def
    by (auto simp: bindM_Inl_iff bindM_Inr_iff lift_res_iff raise_if_iff ret_iff auth.order_refl split_def
        simp del: bindM_basic bindM_lift
        dest!: keepsD [OF a] bind_record_Inl intro: auth.order_trans b split: if_splits)
qed

subsection \<open>The invariant\<close>

definition approvals_backed :: "cfg \<Rightarrow> world \<Rightarrow> bool" where
  "approvals_backed C w \<longleftrightarrow>
     (\<forall>q a. approval_at C w q = Some a \<longrightarrow>
        (\<exists>p. proposal_at C w (proposal_path C (wa_proposal a)) = Some p \<and>
           wa_body a = wp_body p \<and> wa_hash a = wp_hash p \<and> wa_run a = wp_run p))"

definition bindings_backed :: "cfg \<Rightarrow> world \<Rightarrow> bool" where
  "bindings_backed C w \<longleftrightarrow>
     (\<forall>q b. binding_at C w q = Some b \<longrightarrow>
        (\<exists>a. approval_at C w (record_path (approvals_dir C) (wb_approval b)) = Some a \<and>
           wb_hash b = wa_hash a \<and> wb_target b = target_id (wa_body a) \<and> wb_sha b = base_sha (wa_body a)))"

text \<open>
  Two live bindings never rest on the same stored approval, whatever references lead to it: the
  target is the one of the approval's body, and a target has one live binding.
\<close>

definition one_live_per_approval :: "cfg \<Rightarrow> world \<Rightarrow> bool" where
  "one_live_per_approval C w \<longleftrightarrow>
     (\<forall>p q b c a. binding_at C w p = Some b \<longrightarrow> binding_at C w q = Some c \<longrightarrow>
        binding_live b \<longrightarrow> binding_live c \<longrightarrow>
        approval_at C w (record_path (approvals_dir C) (wb_approval b)) = Some a \<longrightarrow>
        approval_at C w (record_path (approvals_dir C) (wb_approval c)) = Some a \<longrightarrow> p = q)"

lemma one_live_approval:
  assumes t: "one_live_per_target C w" and "bindings_backed C w"
  shows "one_live_per_approval C w"
  unfolding one_live_per_approval_def
proof (intro allI impI)
  fix p q b c a
  assume b: "binding_at C w p = Some b" "binding_at C w q = Some c" "binding_live b" "binding_live c"
    and "approval_at C w (record_path (approvals_dir C) (wb_approval b)) = Some a"
      "approval_at C w (record_path (approvals_dir C) (wb_approval c)) = Some a"
  then have "wb_target b = wb_target c"
    using assms(2) b unfolding bindings_backed_def by (metis option.inject)
  with b t show "p = q" unfolding one_live_per_target_def by blast
qed

definition custody :: "cfg \<Rightarrow> world \<Rightarrow> bool" where
  "custody C w \<longleftrightarrow>
     proposals_placed C w \<and> approvals_placed C w \<and> approvals_backed C w \<and>
     bindings_exclusive C w \<and> bindings_backed C w"

definition custody_kept :: "cfg \<Rightarrow> world \<Rightarrow> world \<Rightarrow> bool" where
  "custody_kept C w w' \<longleftrightarrow> (custody C w \<longrightarrow> custody C w')"

interpretation cust: state_order "custody_kept C" for C
  by unfold_locales (auto simp: custody_kept_def)

lemma follows_fields:
  "approval_follows a b \<Longrightarrow> wa_body b = wa_body a \<and> wa_hash b = wa_hash a \<and> wa_run b = wa_run a \<and>
     wa_proposal b = wa_proposal a"
  "binding_follows c d \<Longrightarrow> wb_approval d = wb_approval c \<and> wb_hash d = wb_hash c \<and>
     wb_target d = wb_target c \<and> wb_sha d = wb_sha c"
  by (auto simp: approval_follows_def binding_follows_def)

lemma backed_proposal_evolve:
  assumes "proposals_evolve True C w w'" "proposals_placed C w" "proposal_at C w p = Some x"
  shows "proposal_at C w' p = Some x"
  using ps.evolve_stored [OF assms] by auto

text \<open>What follows the lifecycles keeps the chain; new approvals and bindings must be backed.\<close>

lemma custody_extend:
  assumes c: "custody C w" and p: "proposals_evolve True C w w'" and a: "approvals_evolve True C w w'"
    and b: "bindings_evolve True C w w'" and x: "bindings_exclusive C w'"
    and na: "\<And>q v. approval_at C w' q = Some v \<Longrightarrow> approval_at C w q = None \<Longrightarrow>
      \<exists>pr. proposal_at C w (proposal_path C (wa_proposal v)) = Some pr \<and>
         wa_body v = wp_body pr \<and> wa_hash v = wp_hash pr \<and> wa_run v = wp_run pr"
    and nb: "\<And>q v. binding_at C w' q = Some v \<Longrightarrow> binding_at C w q = None \<Longrightarrow>
      \<exists>ap. approval_at C w' (record_path (approvals_dir C) (wb_approval v)) = Some ap \<and>
         wb_hash v = wa_hash ap \<and> wb_target v = target_id (wa_body ap) \<and> wb_sha v = base_sha (wa_body ap)"
  shows "custody C w'"
proof -
  from c have pl: "proposals_placed C w" "approvals_placed C w" "bindings_placed C w"
    and ab: "approvals_backed C w" and bb: "bindings_backed C w"
    by (auto simp: custody_def bindings_exclusive_def)
  have "approvals_backed C w'"
    unfolding approvals_backed_def
  proof (intro allI impI)
    fix q v
    assume v: "approval_at C w' q = Some v"
    show "\<exists>pr. proposal_at C w' (proposal_path C (wa_proposal v)) = Some pr \<and>
         wa_body v = wp_body pr \<and> wa_hash v = wp_hash pr \<and> wa_run v = wp_run pr"
    proof (cases "approval_at C w q")
      case None
      with na v show ?thesis using backed_proposal_evolve [OF p pl(1)] by blast
    next
      case (Some u)
      with v have "approval_follows u v" using approvals.evolve_stored [OF a pl(2) Some] by simp
      note f = follows_fields(1) [OF this]
      obtain pr where pr: "proposal_at C w (proposal_path C (wa_proposal u)) = Some pr"
        "wa_body u = wp_body pr" "wa_hash u = wp_hash pr" "wa_run u = wp_run pr"
        using ab Some unfolding approvals_backed_def by blast
      then show ?thesis
        using backed_proposal_evolve [OF p pl(1) pr(1)] f by (intro exI [of _ pr]) simp
    qed
  qed
  moreover have "bindings_backed C w'"
    unfolding bindings_backed_def
  proof (intro allI impI)
    fix q v
    assume v: "binding_at C w' q = Some v"
    show "\<exists>ap. approval_at C w' (record_path (approvals_dir C) (wb_approval v)) = Some ap \<and>
         wb_hash v = wa_hash ap \<and> wb_target v = target_id (wa_body ap) \<and> wb_sha v = base_sha (wa_body ap)"
    proof (cases "binding_at C w q")
      case None
      with nb v show ?thesis by blast
    next
      case (Some u)
      with v have f: "binding_follows u v" using bindings.evolve_stored [OF b pl(3) Some] by simp
      obtain ap where ap: "approval_at C w (record_path (approvals_dir C) (wb_approval u)) = Some ap"
        "wb_hash u = wa_hash ap" "wb_target u = target_id (wa_body ap)" "wb_sha u = base_sha (wa_body ap)"
        using bb Some unfolding bindings_backed_def by blast
      obtain ap' where ap': "approval_at C w' (record_path (approvals_dir C) (wb_approval u)) = Some ap'"
        "approval_follows ap ap'"
        using approvals.evolve_stored [OF a pl(2) ap(1)] by blast
      with ap follows_fields(2) [OF f] follows_fields(1) [OF ap'(2)] show ?thesis
        by (intro exI [of _ ap']) simp
    qed
  qed
  ultimately show ?thesis
    using ps.evolve_in_place [OF p pl(1)] approvals.evolve_in_place [OF a pl(2)] x by (simp add: custody_def)
qed

lemma custody_evolve:
  assumes p: "proposals_evolve True C w w'" and a: "authority_evolves C w w'" and c: "custody C w"
  shows "custody C w'"
proof (rule custody_extend [OF c p])
  from c have pl: "proposals_placed C w" "approvals_placed C w" "bindings_placed C w" "bindings_exclusive C w"
    by (auto simp: custody_def bindings_exclusive_def)
  from a have e: "approvals_evolve False C w w'" "bindings_evolve False C w w'"
    by (auto simp: authority_evolves_def)
  then show "approvals_evolve True C w w'" "bindings_evolve True C w w'"
    by (auto intro: approvals.evolve_may_mint bindings.evolve_may_mint)
  show "bindings_exclusive C w'" using e(2) pl(4) by (rule exclusive_evolve)
next
  fix q v
  assume "approval_at C w' q = Some v" "approval_at C w q = None"
  moreover have "approvals_evolve False C w w'" "approvals_placed C w"
    using a c by (simp_all add: authority_evolves_def custody_def)
  ultimately show "\<exists>pr. proposal_at C w (proposal_path C (wa_proposal v)) = Some pr \<and>
         wa_body v = wp_body pr \<and> wa_hash v = wp_hash pr \<and> wa_run v = wp_run pr"
    using approvals.evolve_back by force
next
  fix q v
  assume "binding_at C w' q = Some v" "binding_at C w q = None"
  moreover have "bindings_evolve False C w w'" "bindings_placed C w"
    using a c by (simp_all add: authority_evolves_def custody_def bindings_exclusive_def)
  ultimately show "\<exists>ap. approval_at C w' (record_path (approvals_dir C) (wb_approval v)) = Some ap \<and>
         wb_hash v = wa_hash ap \<and> wb_target v = target_id (wa_body ap) \<and> wb_sha v = base_sha (wa_body ap)"
    using bindings.evolve_back by force
qed

lemma custody_other:
  assumes "writes_only scope_kinds w w'" "authority_evolves C w w'"
  shows "custody_kept C w w'"
proof -
  have "proposals_evolve True C w w'"
    by (rule ps.evolve_other_kinds [OF assms(1)]) (auto simp: apart_def)
  with assms(2) show ?thesis unfolding custody_kept_def by (blast intro: custody_evolve)
qed

lemma custody_by_scope:
  "keeps (writes_only scope_kinds) m \<Longrightarrow> keeps (authority_evolves C) m \<Longrightarrow> keeps (custody_kept C) m"
  by (auto simp: keeps_def intro: custody_other)

lemma custody_by_proposals:
  "keeps (proposals_evolve True C) m \<Longrightarrow> keeps (writes_only proposal_kinds) m \<Longrightarrow> keeps (custody_kept C) m"
  using authority_by_proposals [of m C] unfolding keeps_def custody_kept_def by (blast intro: custody_evolve)

text \<open>A grant adds at most the approval of a stored proposal.\<close>

lemma save_approval_new:
  assumes "save_approval E j emit w = (Inr a, w')" "approvals_placed (cfg_of E) w"
    "approval_at (cfg_of E) w' q = Some v" "approval_at (cfg_of E) w q = None"
  shows "v = a"
  using assms(1)
proof (cases rule: save_approval_Inr)
  case fresh
  have "verify_approval_base (cfg_of E) (approval_json a) = Inr a"
    using fresh(1) by (rule approvals.reverify)
  then show ?thesis
    using assms(3,4) unfolding same_files_stored [OF fresh(4)] by (auto simp: stored_write split: if_splits)
qed (use assms in auto)

lemma approve_new:
  assumes run: "approve_proposal E pid ttl who src prov at now w = (Inr a, w')"
    and pl: "approvals_placed (cfg_of E) w"
    and v: "approval_at (cfg_of E) w' q = Some v" "approval_at (cfg_of E) w q = None"
  shows "v = a"
proof -
  obtain j w1 where w1: "save_approval E j True w1 = (Inr a, w')" "same_files w w1"
    by (rule approve_proposal_Inr [OF run]) blast
  have "approvals_placed (cfg_of E) w1"
    using pl unfolding in_place_def same_files_stored [OF w1(2)] .
  moreover have "approval_at (cfg_of E) w1 q = None"
    using v(2) unfolding same_files_stored [OF w1(2)] .
  ultimately show ?thesis using save_approval_new [OF w1(1)] v(1) by blast
qed

lemma custody_approve: "keeps (custody_kept (cfg_of E)) (approve_proposal E pid ttl who src prov at now)"
proof (rule keepsI)
  fix w r w'
  let ?C = "cfg_of E"
  assume run: "approve_proposal E pid ttl who src prov at now w = (r, w')"
  show "custody_kept ?C w w'"
  proof (cases r)
    case (Inl e)
    with approve_proposal_Inl run have "same_files w w'" by blast
    then show ?thesis
      by (intro custody_other writes_only_quiet)
        (auto simp: authority_evolves_def approvals.evolve_quiet bindings.evolve_quiet)
  next
    case (Inr a)
    note run' = run [unfolded Inr]
    have k: "writes_only grant_kinds w w'" using approve_proposal_effect(2) [OF refl] run by (rule keepsD)
    have ae: "approvals_evolve True ?C w w'" using approve_proposal_effect(1) [OF refl] run by (rule keepsD)
    have be: "bindings_evolve mint ?C w w'" for mint
      using k by (rule bindings.evolve_other_kinds) (auto simp: apart_def)
    have pe: "proposals_evolve True ?C w w'"
      using k by (rule ps.evolve_other_kinds) (auto simp: apart_def)
    show ?thesis
      unfolding custody_kept_def
    proof
      assume c: "custody ?C w"
      then have pl: "proposals_placed ?C w" "approvals_placed ?C w" "bindings_exclusive ?C w" "bindings_placed ?C w"
        by (auto simp: custody_def bindings_exclusive_def)
      show "custody ?C w'"
      proof (rule custody_extend [OF c pe ae be])
        show "bindings_exclusive ?C w'" using be pl(3) by (rule exclusive_evolve)
      next
        fix q v
        assume v: "approval_at ?C w' q = Some v" "approval_at ?C w q = None"
        have va: "v = a" using approve_new [OF run' pl(2) v] .
        have qa: "q = approval_path ?C (wa_id a)"
          using approvals.stored_name(1) [OF approvals.evolve_in_place [OF ae pl(2)] v(1)] va by simp
        obtain p where p: "proposal_at ?C w (record_path (proposals_dir ?C) (py_strip pid)) = Some p"
          "wa_proposal a = wp_id p" "wa_hash a = wp_hash p"
          "approval_at ?C w (approval_path ?C (wa_id a)) = Some a \<or>
             wa_status a = Approved \<and> wa_body a = wp_body p \<and> wa_run a = wp_run p"
          by (rule approve_proposal_Inr [OF run']) blast
        have "proposal_at ?C w (proposal_path ?C (wp_id p)) = Some p"
          using p(1) ps.stored_name(1) [OF pl(1) p(1)] by simp
        with p v(2) qa va show "\<exists>pr. proposal_at ?C w (proposal_path ?C (wa_proposal v)) = Some pr \<and>
            wa_body v = wp_body pr \<and> wa_hash v = wp_hash pr \<and> wa_run v = wp_run pr"
          by (intro exI [of _ p]) simp
      next
        fix q v
        assume "binding_at ?C w' q = Some v" "binding_at ?C w q = None"
        then show "\<exists>ap. approval_at ?C w' (record_path (approvals_dir ?C) (wb_approval v)) = Some ap \<and>
            wb_hash v = wa_hash ap \<and> wb_target v = target_id (wa_body ap) \<and> wb_sha v = base_sha (wa_body ap)"
          using bindings.evolve_back [OF be pl(4)] by force
      qed
    qed
  qed
qed

text \<open>A bind adds at most the binding it returns, for the approval it read.\<close>

lemma create_binding_new:
  assumes run: "create_binding E i q w = (Inr g, w')" and pl: "bindings_placed (cfg_of E) w"
    and v: "binding_at (cfg_of E) w' p = Some v" "binding_at (cfg_of E) w p = None"
  shows "v = bg_binding g"
proof -
  let ?C = "cfg_of E"
  obtain body ws w1 where c: "bind_approval E (py_strip i) w = (Inr (bg_approval g, body), w1)"
    "bind_record E q (py_strip i) (py_strip (br_run q)) (bg_approval g) body ws w1 = (Inr (bg_binding g), w')"
    by (rule create_binding_Inr [OF run]) blast
  have wo1: "writes_only grant_kinds w w1" using bind_approval_rules(2) c(1) by (rule keepsD)
  have same: "binding_at ?C w1 p = binding_at ?C w p" for p
    by (rule bindings.stored_other_kinds [OF wo1 _ pl]) (auto simp: apart_def)
  have pl1: "bindings_placed ?C w1" using pl unfolding in_place_def same .
  consider "verify_binding_record ?C (binding_json (bg_binding g)) = Inr (bg_binding g)"
      "same_files (write_file (binding_path ?C (wb_id (bg_binding g))) (binding_json (bg_binding g)) w1) w'"
    | "same_files w1 w'"
    using bind_record_outcome(7) [OF c(2) pl1] by blast
  then show ?thesis
  proof cases
    case 1
    from v show ?thesis
      unfolding same_files_stored [OF 1(2)] bindings.stored_put [OF 1(1)] same by (simp split: if_splits)
  next
    case 2
    from v show ?thesis unfolding same_files_stored [OF 2] same by simp
  qed
qed

lemma custody_bind: "keeps (custody_kept (cfg_of E)) (create_binding E i q)"
proof (rule keepsI)
  fix w r w'
  let ?C = "cfg_of E"
  assume run: "create_binding E i q w = (r, w')"
  have k: "writes_only (grant_kinds @ binding_kinds) w w'" using create_binding_rules(3) run by (rule keepsD)
  then have k': "writes_only scope_kinds w w'" by (rule writes_only_mono) auto
  show "custody_kept ?C w w'"
  proof (cases r)
    case (Inl e)
    then show ?thesis using create_binding_Inl run k' by (blast intro: custody_other)
  next
    case (Inr g)
    note run' = run [unfolded Inr]
    have ae: "approvals_evolve mint ?C w w'" for mint using create_binding_rules(1) run by (rule keepsD)
    have be: "bindings_evolve True ?C w w'" using create_binding_rules(2) run by (rule keepsD)
    have pe: "proposals_evolve True ?C w w'"
      by (rule ps.evolve_other_kinds [OF k']) (auto simp: apart_def)
    show ?thesis
      unfolding custody_kept_def
    proof
      assume c: "custody ?C w"
      then have pl: "proposals_placed ?C w" "approvals_placed ?C w" "bindings_exclusive ?C w" "bindings_placed ?C w"
        by (auto simp: custody_def bindings_exclusive_def)
      note ck = create_binding_checks [OF run' pl(2,4)]
      show "custody ?C w'"
      proof (rule custody_extend [OF c pe ae be])
        show "bindings_exclusive ?C w'"
          using keepsD [OF exclusive_create_binding run] pl(3) by (simp add: exclusive_kept_def)
      next
        fix p v
        assume "approval_at ?C w' p = Some v" "approval_at ?C w p = None"
        then show "\<exists>pr. proposal_at ?C w (proposal_path ?C (wa_proposal v)) = Some pr \<and>
            wa_body v = wp_body pr \<and> wa_hash v = wp_hash pr \<and> wa_run v = wp_run pr"
          using approvals.evolve_back [OF ae pl(2)] by force
      next
        fix p v
        assume v: "binding_at ?C w' p = Some v" "binding_at ?C w p = None"
        have vg: "v = bg_binding g" using create_binding_new [OF run' pl(4) v] .
        have p: "p = binding_path ?C (wb_id v)"
          using bindings.stored_name(1) [OF bindings.evolve_in_place [OF be pl(4)] v(1)] .
        have n: "binding_at ?C w (binding_path ?C (wb_id (bg_binding g))) = None"
          using v(2) unfolding p vg .
        show "\<exists>ap. approval_at ?C w' (record_path (approvals_dir ?C) (wb_approval v)) = Some ap \<and>
            wb_hash v = wa_hash ap \<and> wb_target v = target_id (wa_body ap) \<and> wb_sha v = base_sha (wa_body ap)"
          unfolding vg using ck(1,5,6,10,12,13) n by (intro exI [of _ "bg_approval g"]) simp
      qed
    qed
  qed
qed

end
