(* ===== verification/Audit_Laws.thy ===== *)
theory Audit_Laws
  imports Scope_Audit Custody
begin

section \<open>Laws of audit and migration\<close>

text \<open>
  An audit moves approvals along their lifecycle at most; the records it reports belong to one
  chain; an approval it reports without authority cannot be bound. A scan of the stores counts
  exactly the records that verify.
\<close>

subsection \<open>No authority is added\<close>

lemma quiet_load_receipt: "keeps same_files (load_receipt E i)"
  unfolding load_receipt_def Let_def by (intro quiet_rules)

lemma quiet_list_proposals: "keeps same_files (list_proposals E r s)"
  unfolding list_proposals_def Let_def by (rule quiet.keeps_reads)

lemma quiet_list_receipts: "keeps same_files (list_receipts E b a r)"
  unfolding list_receipts_def by (rule quiet.keeps_reads)

lemma quiet_fill_receipt: "keeps same_files (fill_receipt E l)"
  unfolding fill_receipt_def by (auto intro!: quiet_rules quiet_list_receipts split: option.splits)

lemma quiet_fill_binding: "keeps same_files (fill_binding E l)"
  unfolding fill_binding_def
  by (auto intro!: quiet_rules quiet_list_bindings quiet_fill_receipt split: option.splits)

lemma quiet_found: "keeps same_files m \<Longrightarrow> keeps same_files (found_or_none c m)"
  unfolding found_or_none_def
  by (auto intro!: quiet.keeps_catch quiet_rules split: if_splits)

lemma quiet_fill_proposal: "keeps same_files (fill_proposal E l)"
  unfolding fill_proposal_def
  by (auto intro!: quiet_rules quiet_found quiet_load_proposal split: option.splits)

lemma quiet_find_revocation: "keeps same_files (find_revocation E l)"
  unfolding find_revocation_def
  by (auto intro!: quiet_rules quiet.keeps_catch quiet_load_revocation split: option.splits list.splits if_splits)

lemmas audit_quiet = quiet_load_binding quiet_load_proposal quiet_load_receipt quiet_list_bindings
  quiet_list_proposals quiet_list_receipts quiet_fill_receipt quiet_fill_binding quiet_fill_proposal
  quiet_find_revocation

text \<open>What an order on worlds must allow: reading approvals, and whatever leaves the files alone.\<close>

locale reading_order = state_order R
  for R :: "world \<Rightarrow> world \<Rightarrow> bool" +
  fixes E :: env
  assumes quiet_kept: "same_files w w' \<Longrightarrow> R w w'"
    and approval_kept: "keeps R (load_approval E i now True True)"
begin

lemma keeps_of_quiet: "keeps same_files m \<Longrightarrow> keeps R m"
  by (auto simp: keeps_def quiet_kept)

lemma keeps_list_approvals: "keeps R (list_approvals E r s p now)"
  unfolding list_approvals_def list_approval_def
  by (auto intro!: keeps_rules keeps_catch approval_kept split: if_splits)

lemma keeps_found: "keeps R m \<Longrightarrow> keeps R (found_or_none c m)"
  unfolding found_or_none_def by (auto intro!: keeps_rules keeps_catch split: if_splits)

lemma keeps_try_seed:
  "keeps R m \<Longrightarrow> (\<And>es. keeps R (k es)) \<Longrightarrow> keeps R (try_seed t f c m es k)"
  unfolding try_seed_def
  by (auto intro!: keeps_rules keeps_catch split: if_splits sum.splits)

lemma keeps_resolve_seed: "keeps R (resolve_seed E ref)"
  unfolding resolve_seed_def resolve_run_def Let_def
  by (intro keeps_rules keeps_try_seed approval_kept keeps_list_approvals audit_quiet [THEN keeps_of_quiet])
    (auto intro: keeps_rules)

lemma keeps_seed_lineage: "keeps R (seed_lineage E seed)"
  unfolding seed_lineage_def
  by (cases seed) (auto intro!: keeps_rules keeps_found approval_kept audit_quiet [THEN keeps_of_quiet])

lemma keeps_fill_approval: "keeps R (fill_approval E l)"
  unfolding fill_approval_def by (auto intro!: keeps_rules keeps_found approval_kept split: option.splits)

lemma keeps_fill_from_proposal: "keeps R (fill_from_proposal E l)"
  unfolding fill_from_proposal_def
  by (auto intro!: keeps_rules keeps_list_approvals audit_quiet [THEN keeps_of_quiet] split: option.splits)

lemma keeps_audit: "keeps R (audit_write_scope E ref)"
  unfolding audit_write_scope_def split_def
  by (intro keeps_rules keeps_resolve_seed keeps_seed_lineage keeps_fill_approval keeps_fill_from_proposal
      audit_quiet [THEN keeps_of_quiet])

end

interpretation audit_authority: reading_order "authority_evolves (cfg_of E)" E for E
  by unfold_locales (auto intro: authority_load_approval keepsD [OF authority_quiet] simp: authority_evolves_def
      approvals.evolve_quiet bindings.evolve_quiet)

interpretation audit_writes: reading_order "writes_only grant_kinds" E for E
  by unfold_locales (auto intro: writes_load_approval writes_only_quiet)

subsection \<open>The chain an audit reports\<close>

text \<open>
  The records collected so far are stored (an approval may have lapsed since it was read) and
  each pair of them is linked. No binding is there while an approval is missing beside a proposal.
  When the flag is set, a receipt is of the binding, and there is none without a binding: an audit
  of a run takes the last receipt of the run, whatever binding it is of.
\<close>

definition binding_of :: "binding \<Rightarrow> approval \<Rightarrow> bool" where
  "binding_of b a \<longleftrightarrow> wb_hash b = wa_hash a \<and> wb_target b = target_id (wa_body a) \<and> wb_sha b = base_sha (wa_body a)"

definition approval_of :: "approval \<Rightarrow> proposal \<Rightarrow> bool" where
  "approval_of a p \<longleftrightarrow> wa_body a = wp_body p \<and> wa_hash a = wp_hash p \<and> wa_run a = wp_run p"

definition chain_ok :: "bool \<Rightarrow> cfg \<Rightarrow> world \<Rightarrow> lineage \<Rightarrow> bool" where
  "chain_ok s C w l \<longleftrightarrow>
     (\<forall>a. ln_approval l = Some a \<longrightarrow>
        (\<exists>a'. approval_at C w (approval_path C (wa_id a)) = Some a' \<and> approval_follows a a')) \<and>
     (\<forall>b. ln_binding l = Some b \<longrightarrow> binding_at C w (binding_path C (wb_id b)) = Some b) \<and>
     (\<forall>p. ln_proposal l = Some (Listed p) \<longrightarrow> proposal_at C w (proposal_path C (wp_id p)) = Some p) \<and>
     (\<forall>b a. ln_binding l = Some b \<longrightarrow> ln_approval l = Some a \<longrightarrow> binding_of b a) \<and>
     (\<forall>a p. ln_approval l = Some a \<longrightarrow> ln_proposal l = Some (Listed p) \<longrightarrow> approval_of a p) \<and>
     (ln_proposal l \<noteq> None \<and> ln_approval l = None \<longrightarrow> ln_binding l = None) \<and>
     (s \<longrightarrow>
        (\<forall>b r. ln_binding l = Some b \<longrightarrow> ln_receipt l = Some r \<longrightarrow> mr_binding r = wb_id b) \<and>
        (ln_binding l = None \<longrightarrow> ln_receipt l = None))"

text \<open>What reading does to a world in custody.\<close>

definition read_on :: "cfg \<Rightarrow> world \<Rightarrow> world \<Rightarrow> bool" where
  "read_on C w w' \<longleftrightarrow> authority_evolves C w w' \<and> writes_only grant_kinds w w'"

lemma read_on_audit: "keeps (authority_evolves C) m \<Longrightarrow> keeps (writes_only grant_kinds) m \<Longrightarrow> keeps (read_on C) m"
  by (simp add: keeps_def read_on_def)

lemma read_on_quiet: "same_files w w' \<Longrightarrow> read_on C w w'"
  by (simp add: read_on_def authority_evolves_def approvals.evolve_quiet bindings.evolve_quiet writes_only_quiet)

interpretation read: state_order "read_on C" for C
  by unfold_locales (auto simp: read_on_def intro: auth.order_refl auth.order_trans wo.order_refl wo.order_trans)

lemma read_on_custody:
  assumes "read_on C w w'" "custody C w"
  shows "custody C w'"
proof -
  have "writes_only scope_kinds w w'"
    using assms(1) by (auto simp: read_on_def intro: writes_only_mono)
  with assms show ?thesis using custody_other [of w w' C] by (simp add: read_on_def custody_kept_def)
qed

lemma read_on_records:
  assumes "read_on C w w'" "custody C w"
  shows "binding_at C w' p = binding_at C w p" "proposal_at C w' p = proposal_at C w p"
    and "approval_at C w p = Some a \<Longrightarrow> \<exists>a'. approval_at C w' p = Some a' \<and> approval_follows a a'"
    and "approval_at C w' p = Some a' \<Longrightarrow> \<exists>a. approval_at C w p = Some a \<and> approval_follows a a'"
proof -
  have pl: "proposals_placed C w" "approvals_placed C w" "bindings_placed C w"
    using assms(2) by (auto simp: custody_def bindings_exclusive_def)
  have wr: "writes_only grant_kinds w w'" and ev: "approvals_evolve False C w w'"
    using assms(1) by (auto simp: read_on_def authority_evolves_def)
  show "binding_at C w' p = binding_at C w p"
    by (rule bindings.stored_other_kinds [OF wr _ pl(3)]) (auto simp: apart_def)
  show "proposal_at C w' p = proposal_at C w p"
    by (rule ps.stored_other_kinds [OF wr _ pl(1)]) (auto simp: apart_def)
  show "approval_at C w p = Some a \<Longrightarrow> \<exists>a'. approval_at C w' p = Some a' \<and> approval_follows a a'"
    using approvals.evolve_stored [OF ev pl(2)] by blast
  show "approval_at C w' p = Some a' \<Longrightarrow> \<exists>a. approval_at C w p = Some a \<and> approval_follows a a'"
    using approvals.evolve_back [OF ev pl(2)] by blast
qed

lemma chain_ok_read:
  assumes "read_on C w w'" "custody C w" "chain_ok s C w l"
  shows "chain_ok s C w' l"
proof -
  note r = read_on_records [OF assms(1,2)]
  have "\<exists>a'. approval_at C w' (approval_path C (wa_id a)) = Some a' \<and> approval_follows a a'"
    if a: "ln_approval l = Some a" for a
  proof -
    obtain a1 where "approval_at C w (approval_path C (wa_id a)) = Some a1" "approval_follows a a1"
      using assms(3) a by (auto simp: chain_ok_def)
    then show ?thesis using r(3) approval_follows_trans by blast
  qed
  with assms(3) show ?thesis unfolding chain_ok_def r(1,2) by simp
qed

lemma binding_of_follows: "approval_follows a a' \<Longrightarrow> binding_of b a' = binding_of b a"
  by (auto simp: approval_follows_def binding_of_def)

lemma approval_of_follows: "approval_follows a a' \<Longrightarrow> approval_of a' p = approval_of a p"
  by (auto simp: approval_follows_def approval_of_def)

lemma custody_links:
  assumes "custody C w"
  shows "binding_at C w q = Some b \<Longrightarrow>
      \<exists>a. approval_at C w (record_path (approvals_dir C) (wb_approval b)) = Some a \<and> binding_of b a"
    and "approval_at C w q = Some a \<Longrightarrow>
      \<exists>p. proposal_at C w (proposal_path C (wa_proposal a)) = Some p \<and> approval_of a p"
  using assms unfolding custody_def bindings_backed_def approvals_backed_def binding_of_def approval_of_def
  by blast+

lemma found_or_none_Inr:
  "found_or_none c m w = (Inr r, w') \<longleftrightarrow>
     (\<exists>a. m w = (Inr a, w') \<and> r = Some a) \<or> (\<exists>e. m w = (Inl e, w') \<and> c e \<and> r = None)"
  by (auto simp: found_or_none_def catchM_def bindM_def ret_def split: prod.splits sum.splits if_splits)

lemma last_of_None [simp]: "last_of xs = None \<longleftrightarrow> xs = []"
  by (simp add: last_of_def)

lemma last_of_Some: "last_of xs = Some x \<Longrightarrow> x \<in> set xs"
  by (auto simp: last_of_def split: if_splits)

lemma read_on_rules:
  "keeps (read_on (cfg_of E)) (fill_approval E l)" "keeps (read_on (cfg_of E)) (fill_from_proposal E l)"
  "keeps (read_on (cfg_of E)) (load_approval E i now True True)"
  "keeps (read_on (cfg_of E)) (list_approvals E r s p now)"
  by (intro read_on_audit audit_authority.keeps_fill_approval audit_writes.keeps_fill_approval
      audit_authority.keeps_fill_from_proposal audit_writes.keeps_fill_from_proposal
      audit_authority.approval_kept audit_writes.approval_kept
      audit_authority.keeps_list_approvals audit_writes.keeps_list_approvals)+

lemma read_on_keeps_quiet: "keeps same_files m \<Longrightarrow> keeps (read_on C) m"
  by (simp add: keeps_def read_on_quiet)

text \<open>Each step keeps the chain.\<close>

lemma loaded_approval_links:
  assumes "load_approval E i now True True w = (Inr a, w')" "custody (cfg_of E) w"
  shows "approval_at (cfg_of E) w' (approval_path (cfg_of E) (wa_id a)) = Some a"
    and "record_path (approvals_dir (cfg_of E)) (py_strip i) = approval_path (cfg_of E) (wa_id a)"
    and "binding_at (cfg_of E) w q = Some b \<Longrightarrow> wb_approval b = i \<Longrightarrow> binding_of b a"
proof -
  have pl: "approvals_placed (cfg_of E) w" using assms(2) by (simp add: custody_def)
  note l = load_approval_stored [OF assms(1) pl]
  show "approval_at (cfg_of E) w' (approval_path (cfg_of E) (wa_id a)) = Some a" by (rule l(1))
  show path: "record_path (approvals_dir (cfg_of E)) (py_strip i) = approval_path (cfg_of E) (wa_id a)"
    by (rule l(6))
  assume b: "binding_at (cfg_of E) w q = Some b" "wb_approval b = i"
  then have "py_strip i = i" using binding_at_ok [OF b(1)] by (auto simp: binding_ok_def)
  with path l(5) custody_links(1) [OF assms(2) b(1)] b(2) show "binding_of b a"
    using binding_of_follows by fastforce
qed

lemma chain_fill_approval:
  assumes run: "fill_approval E l w = (Inr l', w')" and c: "custody (cfg_of E) w" and ok: "chain_ok s (cfg_of E) w l"
  shows "chain_ok s (cfg_of E) w' l'"
proof -
  have rd: "read_on (cfg_of E) w w'" using read_on_rules(1) run by (rule keepsD)
  note kept = chain_ok_read [OF rd c ok]
  show ?thesis
  proof (cases "ln_binding l = None \<or> ln_approval l \<noteq> None")
    case True
    then have "l' = l" using run by (auto simp: fill_approval_def op_simps split: option.splits)
    with kept show ?thesis by simp
  next
    case False
    then obtain b r where b: "ln_binding l = Some b" "ln_approval l = None"
      and f: "found_or_none is_approval_error (load_approval E (wb_approval b) None True True) w = (Inr r, w')"
      and l': "l' = l\<lparr>ln_approval := r\<rparr>"
      using run by (auto simp: fill_approval_def op_simps)
    have np: "ln_proposal l = None" using ok b by (auto simp: chain_ok_def)
    show ?thesis
    proof (cases r)
      case None
      with kept b l' show ?thesis by (simp add: chain_ok_def)
    next
      case (Some a)
      with f have ld: "load_approval E (wb_approval b) None True True w = (Inr a, w')"
        by (simp add: found_or_none_Inr)
      have "binding_at (cfg_of E) w (binding_path (cfg_of E) (wb_id b)) = Some b"
        using ok b(1) by (simp add: chain_ok_def)
      then have "binding_of b a" using loaded_approval_links(3) [OF ld c] by blast
      moreover have "approval_follows a a" by (simp add: approval_follows_def)
      ultimately show ?thesis
        using kept b np l' Some loaded_approval_links(1) [OF ld c] by (simp add: chain_ok_def)
    qed
  qed
qed

lemma chain_fill_proposal:
  assumes run: "fill_proposal E l w = (Inr l', w')" and c: "custody (cfg_of E) w" and ok: "chain_ok s (cfg_of E) w l"
  shows "chain_ok s (cfg_of E) w' l'"
proof -
  have rd: "read_on (cfg_of E) w w'" using read_on_keeps_quiet [OF quiet_fill_proposal] run by (rule keepsD)
  note kept = chain_ok_read [OF rd c ok]
  show ?thesis
  proof (cases "ln_approval l = None \<or> ln_proposal l \<noteq> None")
    case True
    then have "l' = l" using run by (auto simp: fill_proposal_def op_simps split: option.splits)
    with kept show ?thesis by simp
  next
    case False
    then obtain a r where a: "ln_approval l = Some a" "ln_proposal l = None"
      and f: "found_or_none is_proposal_error (load_proposal E (wa_proposal a)) w = (Inr r, w')"
      and l': "l' = l\<lparr>ln_proposal := map_option Listed r\<rparr>"
      using run by (auto simp: fill_proposal_def op_simps)
    show ?thesis
    proof (cases r)
      case None
      with kept a l' show ?thesis by (simp add: chain_ok_def)
    next
      case (Some p)
      with f have ld: "w' = w" "proposal_at (cfg_of E) w
          (record_path (proposals_dir (cfg_of E)) (py_strip (wa_proposal a))) = Some p"
        by (auto simp: found_or_none_Inr load_proposal_Inr)
      have pl: "proposals_placed (cfg_of E) w" using c by (simp add: custody_def)
      obtain a' where a': "approval_at (cfg_of E) w (approval_path (cfg_of E) (wa_id a)) = Some a'" "approval_follows a a'"
        using ok a(1) by (auto simp: chain_ok_def)
      then obtain p' where p': "proposal_at (cfg_of E) w (proposal_path (cfg_of E) (wa_proposal a)) = Some p'" "approval_of a p'"
        using custody_links(2) [OF c a'(1)] approval_of_follows by (auto simp: follows_fields)
      have id: "wp_id p' = wa_proposal a" using ps.stored_name(1) [OF pl p'(1)] by simp
      have "py_strip (wa_proposal a) = wa_proposal a"
        using approval_at_ok [OF a'(1)] follows_fields(1) [OF a'(2)] by (simp add: approval_ok_def)
      moreover have "plain_ref (wa_proposal a)" using ps.stored_plain [OF p'(1)] id by simp
      ultimately have "p' = p" using ld(2) p'(1) by simp
      with kept a l' Some p' ld(1) id show ?thesis by (simp add: chain_ok_def)
    qed
  qed
qed

lemma listed_binding:
  assumes "list_bindings E (Some i) r t st w = (Inr bs, w')" "last_of bs = Some b"
  shows "w' = w" "wb_approval b = i" "b \<in> set (bindings_in (cfg_of E) w)"
  using assms(1) last_of_Some [OF assms(2)] by (auto simp: list_bindings_run binding_matches_def)

lemma chain_fill_receipt:
  assumes run: "fill_receipt E l w = (Inr l', w')" and ok: "chain_ok s (cfg_of E) w l"
  shows "chain_ok s (cfg_of E) w' l'"
proof (cases "ln_binding l = None \<or> ln_receipt l \<noteq> None")
  case True
  then have "l' = l" "w' = w" using run by (auto simp: fill_receipt_def op_simps split: option.splits)
  with ok show ?thesis by simp
next
  case False
  then obtain b rs where b: "ln_binding l = Some b" "ln_receipt l = None"
    and f: "list_receipts E (Some (wb_id b)) None None w = (Inr rs, w')" "l' = l\<lparr>ln_receipt := last_of rs\<rparr>"
    using run by (auto simp: fill_receipt_def op_simps)
  have w: "w' = w" using f(1) by (simp add: list_receipts_def op_simps)
  have "mr_binding r = wb_id b" if "last_of rs = Some r" for r
    using last_of_Some [OF that] f(1) by (auto simp: list_receipts_def op_simps)
  with ok b show ?thesis unfolding chain_ok_def f(2) w by simp
qed

lemma listed_binding_links:
  assumes c: "custody C w" and b: "b \<in> set (bindings_in C w)"
    and a: "approval_at C w (approval_path C (wb_approval b)) = Some a'"
  shows "binding_at C w (binding_path C (wb_id b)) = Some b" "binding_of b a'"
proof -
  have pb: "bindings_placed C w" using c by (simp add: custody_def bindings_exclusive_def)
  show at: "binding_at C w (binding_path C (wb_id b)) = Some b" using b mem_bindings_in [OF pb] by blast
  have pa: "approvals_placed C w" using c by (simp add: custody_def)
  have "wa_id a' = wb_approval b" using approvals.stored_name(1) [OF pa a] by simp
  with approval_at_plain [OF a] have "record_path (approvals_dir C) (wb_approval b) = approval_path C (wb_approval b)"
    by simp
  with custody_links(1) [OF c at] a show "binding_of b a'" by auto
qed

lemma chain_fill_binding:
  assumes run: "fill_binding E l w = (Inr l', w')" and c: "custody (cfg_of E) w" and ok: "chain_ok s (cfg_of E) w l"
  shows "chain_ok s (cfg_of E) w' l'"
proof (cases "ln_approval l = None \<or> ln_binding l \<noteq> None")
  case True
  then have "l' = l" "w' = w" using run by (auto simp: fill_binding_def op_simps split: option.splits)
  with ok show ?thesis by simp
next
  case False
  then obtain a bs where a: "ln_approval l = Some a" "ln_binding l = None"
    and f: "list_bindings E (Some (wa_id a)) None None None w = (Inr bs, w)"
      "fill_receipt E (l\<lparr>ln_binding := last_of bs\<rparr>) w = (Inr l', w')"
    using run by (auto simp: fill_binding_def op_simps list_bindings_run)
  obtain a' where a': "approval_at (cfg_of E) w (approval_path (cfg_of E) (wa_id a)) = Some a'" "approval_follows a a'"
    using ok a(1) by (auto simp: chain_ok_def)
  have "s \<longrightarrow> ln_receipt l = None" using ok a(2) by (simp add: chain_ok_def)
  moreover have "binding_at (cfg_of E) w (binding_path (cfg_of E) (wb_id b)) = Some b \<and> binding_of b a"
    if last: "last_of bs = Some b" for b
  proof -
    note lb = listed_binding [OF f(1) last]
    have "approval_at (cfg_of E) w (approval_path (cfg_of E) (wb_approval b)) = Some a'"
      using a'(1) lb(2) by simp
    from listed_binding_links [OF c lb(3) this] binding_of_follows [OF a'(2)] show ?thesis by simp
  qed
  ultimately have "chain_ok s (cfg_of E) w (l\<lparr>ln_binding := last_of bs\<rparr>)"
    using ok a by (simp add: chain_ok_def)
  with f(2) show ?thesis by (rule chain_fill_receipt)
qed

lemma listed_approvals:
  assumes "foldM_op (list_approval E r s p now) names acc w = (Inr as, w')" "custody (cfg_of E) w"
    and "\<forall>a \<in> set acc. (p = None \<or> p = Some (wa_proposal a)) \<and>
      (\<exists>a'. approval_at (cfg_of E) w (approval_path (cfg_of E) (wa_id a)) = Some a' \<and> approval_follows a a')"
  shows "\<forall>a \<in> set as. (p = None \<or> p = Some (wa_proposal a)) \<and>
      (\<exists>a'. approval_at (cfg_of E) w' (approval_path (cfg_of E) (wa_id a)) = Some a' \<and> approval_follows a a')"
  using assms
proof (induction names arbitrary: acc w)
  case Nil
  then show ?case by (auto simp: ret_iff)
next
  case (Cons n ns)
  let ?C = "cfg_of E"
  from Cons.prems(1) obtain acc1 w1 where one: "list_approval E r s p now n acc w = (Inr acc1, w1)"
    and more: "foldM_op (list_approval E r s p now) ns acc1 w1 = (Inr as, w')"
    by (auto simp: op_simps simp del: bindM_basic bindM_lift)
  obtain res where ld: "load_approval E (stem n) now True True w = (res, w1)"
    and acc1: "acc1 = acc \<or> (\<exists>a. res = Inr a \<and> acc1 = acc @ [a] \<and> (p = None \<or> p = Some (wa_proposal a)))"
    using one by (auto simp: list_approval_def catchM_def bindM_def ret_def split: prod.splits sum.splits if_splits)
  have rd: "read_on ?C w w1" using read_on_rules(3) ld by (rule keepsD)
  have c1: "custody ?C w1" using rd Cons.prems(2) by (rule read_on_custody)
  have old: "\<exists>a'. approval_at ?C w1 (approval_path ?C (wa_id a)) = Some a' \<and> approval_follows a a'"
    if "a \<in> set acc" for a
    using Cons.prems(3) that read_on_records(3) [OF rd Cons.prems(2)] approval_follows_trans by meson
  have "approval_at ?C w1 (approval_path ?C (wa_id a)) = Some a" if "res = Inr a" for a
    using loaded_approval_links(1) [OF ld [unfolded that] Cons.prems(2)] .
  moreover have "approval_follows a a" for a by (simp add: approval_follows_def)
  ultimately show ?case
    using Cons.prems(3) old acc1
    by (intro Cons.IH [OF more c1]) (elim disjE exE conjE; simp add: ball_Un)
qed

lemma chain_fill_from_proposal:
  assumes run: "fill_from_proposal E l w = (Inr l', w')" and c: "custody (cfg_of E) w" and ok: "chain_ok s (cfg_of E) w l"
  shows "chain_ok s (cfg_of E) w' l'"
proof (cases "ln_proposal l = None \<or> ln_approval l \<noteq> None")
  case True
  then have "l' = l" "w' = w" using run by (auto simp: fill_from_proposal_def op_simps split: option.splits)
  with ok show ?thesis by simp
next
  case False
  let ?C = "cfg_of E"
  from False obtain p as w1 where p: "ln_proposal l = Some p" "ln_approval l = None"
    and f: "list_approvals E None None (Some (listed_id p)) None w = (Inr as, w1)"
      "fill_binding E (l\<lparr>ln_approval := last_of as\<rparr>) w1 = (Inr l', w')"
    using run by (auto simp: fill_from_proposal_def op_simps)
  have e: "ln_binding l = None" "s \<longrightarrow> ln_receipt l = None" using ok p by (auto simp: chain_ok_def)
  have rd: "read_on ?C w w1" using read_on_rules(4) f(1) by (rule keepsD)
  have c1: "custody ?C w1" using rd c by (rule read_on_custody)
  have listed: "wa_proposal a = listed_id p \<and>
      (\<exists>a'. approval_at ?C w1 (approval_path ?C (wa_id a)) = Some a' \<and> approval_follows a a')"
    if a: "last_of as = Some a" for a
  proof -
    from f(1) obtain names items where "foldM_op (list_approval E None None (Some (listed_id p)) None) names [] w = (Inr items, w1)"
      "set as = set items"
      by (auto simp: list_approvals_def op_simps)
    with listed_approvals [OF this(1) c] last_of_Some [OF a] show ?thesis by fastforce
  qed
  have of: "approval_of a q" if a: "last_of as = Some a" and q: "p = Listed q" for a q
  proof -
    obtain a' where a': "approval_at ?C w1 (approval_path ?C (wa_id a)) = Some a'" "approval_follows a a'"
      using listed [OF a] by blast
    have "proposal_at ?C w1 (proposal_path ?C (wp_id q)) = Some q"
      using chain_ok_read [OF rd c ok] p q by (simp add: chain_ok_def)
    with custody_links(2) [OF c1 a'(1)] listed [OF a] q show ?thesis
      using approval_of_follows [OF a'(2)] follows_fields(1) [OF a'(2)] by simp
  qed
  have "chain_ok s ?C w1 (l\<lparr>ln_approval := last_of as\<rparr>)"
    using chain_ok_read [OF rd c ok] listed of e p by (simp add: chain_ok_def)
  with f(2) c1 show ?thesis by (rule chain_fill_binding)
qed

text \<open>What a resolved identifier stands for.\<close>

definition run_ok :: "cfg \<Rightarrow> run_records \<Rightarrow> world \<Rightarrow> bool" where
  "run_ok C rr w \<longleftrightarrow>
     (\<forall>b \<in> set (rr_bindings rr). binding_at C w (binding_path C (wb_id b)) = Some b) \<and>
     (\<forall>a \<in> set (rr_approvals rr).
        \<exists>a'. approval_at C w (approval_path C (wa_id a)) = Some a' \<and> approval_follows a a') \<and>
     (\<forall>p. Listed p \<in> set (rr_proposals rr) \<longrightarrow> proposal_at C w (proposal_path C (wp_id p)) = Some p)"

definition seed_ok :: "cfg \<Rightarrow> string \<Rightarrow> audit_seed \<Rightarrow> world \<Rightarrow> bool" where
  "seed_ok C text seed w \<longleftrightarrow> custody C w \<and>
     (case seed of
        Seed_binding b \<Rightarrow> binding_at C w (binding_path C (wb_id b)) = Some b
      | Seed_approval a \<Rightarrow> approval_at C w (approval_path C (wa_id a)) = Some a
      | Seed_proposal p \<Rightarrow> proposal_at C w (proposal_path C (wp_id p)) = Some p
      | Seed_receipt r \<Rightarrow> starts_with text ''wmr-''
      | Seed_run t rr \<Rightarrow> run_ok C rr w)"

lemma listed_proposals_stored:
  assumes "Listed p \<in> set (list_entry C r s w name)" "proposals_placed C w"
  shows "proposal_at C w (proposal_path C (wp_id p)) = Some p"
proof -
  from assms(1) have at: "proposal_at C w (proposals_dir C @ [name]) = Some p"
    by (auto simp: list_entry_def stored_def Let_def split: option.splits rec_file.splits sum.splits if_splits)
  with ps.stored_name(1) [OF assms(2) at] show ?thesis by simp
qed

lemma resolve_run_ok:
  assumes run: "resolve_run E t es w = (Inr seed, w')" and c: "custody (cfg_of E) w"
  shows "\<exists>rr. seed = Seed_run t rr \<and> run_ok (cfg_of E) rr w'"
proof -
  let ?C = "cfg_of E"
  from run obtain bs as ps rs w1 where
    b: "list_bindings E None (Some t) None None w = (Inr bs, w)" and
    a: "list_approvals E (Some t) None None None w = (Inr as, w1)" and
    p: "list_proposals E (Some t) None w1 = (Inr ps, w1)" and
    s: "seed = Seed_run t \<lparr>rr_proposals = ps, rr_approvals = as, rr_bindings = bs, rr_receipts = rs\<rparr>" "w' = w1"
    by (auto simp: resolve_run_def op_simps list_bindings_run list_proposals_def list_receipts_def Let_def split: if_splits)
  have rd: "read_on ?C w w1" using read_on_rules(4) a by (rule keepsD)
  have c1: "custody ?C w1" using rd c by (rule read_on_custody)
  have "bindings_placed ?C w" using c by (simp add: custody_def bindings_exclusive_def)
  then have "binding_at ?C w1 (binding_path ?C (wb_id b)) = Some b" if "b \<in> set bs" for b
    using that b read_on_records(1) [OF rd c] by (auto simp: list_bindings_run mem_bindings_in)
  moreover have "\<exists>a'. approval_at ?C w1 (approval_path ?C (wa_id a)) = Some a' \<and> approval_follows a a'"
    if "a \<in> set as" for a
  proof -
    from a obtain names items where "foldM_op (list_approval E (Some t) None None None) names [] w = (Inr items, w1)"
      "set as = set items"
      by (auto simp: list_approvals_def op_simps)
    with listed_approvals [OF this(1) c] that show ?thesis by fastforce
  qed
  moreover have "proposal_at ?C w1 (proposal_path ?C (wp_id q)) = Some q" if "Listed q \<in> set ps" for q
    using that p c1 listed_proposals_stored by (auto simp: list_proposals_def op_simps Let_def custody_def)
  ultimately show ?thesis unfolding s run_ok_def by auto
qed

lemma triple_try_seed:
  assumes "t \<Longrightarrow> triple P m Q (\<lambda>e. P)" "\<And>es. triple P (k es) Q (\<lambda>e s. True)"
  shows "triple P (try_seed t f c m es k) Q (\<lambda>e s. True)"
  unfolding triple_def
proof (intro allI impI)
  fix s assume P: "P s"
  have rest: "case k es' s' of (Inl e, s'') \<Rightarrow> True | (Inr a, s'') \<Rightarrow> Q a s''" if "P s'" for es' s'
    using assms(2) [of es'] that by (simp add: triple_def)
  show "case try_seed t f c m es k s of (Inl e, s') \<Rightarrow> True | (Inr a, s') \<Rightarrow> Q a s'"
  proof (cases t)
    case True
    obtain r s1 where m: "m s = (r, s1)" by fastforce
    show ?thesis
    proof (cases r)
      case (Inl e)
      then have "P s1" using triple_Inl [OF assms(1) [OF True] P] m by blast
      from rest [OF this] Inl m True show ?thesis
        by (auto simp: try_seed_def bindM_def catchM_def throw_def ret_def)
    next
      case (Inr a)
      then have "Q a s1" using triple_Inr [OF assms(1) [OF True] P] m by blast
      with Inr m True show ?thesis by (simp add: try_seed_def bindM_def catchM_def ret_def)
    qed
  qed (use rest [OF P] in \<open>simp add: try_seed_def\<close>)
qed

lemma triple_reading:
  assumes "keeps (read_on C) m" "\<And>w a w'. custody C w \<Longrightarrow> custody C w' \<Longrightarrow> m w = (Inr a, w') \<Longrightarrow> Q a w'"
  shows "triple (custody C) m Q (\<lambda>e. custody C)"
  using assms(2) keepsD [OF assms(1)] read_on_custody by (intro tripleI) blast+

lemma binding_at_own_path:
  "custody C w \<Longrightarrow> binding_at C w p = Some b \<Longrightarrow> binding_at C w (binding_path C (wb_id b)) = Some b"
  using bindings.stored_name(1) [of C w p b] by (auto simp: custody_def bindings_exclusive_def)

lemma proposal_at_own_path:
  "custody C w \<Longrightarrow> proposal_at C w p = Some b \<Longrightarrow> proposal_at C w (proposal_path C (wp_id b)) = Some b"
  using ps.stored_name(1) [of C w p b] by (auto simp: custody_def)

lemma resolve_seed_ok:
  "triple (custody (cfg_of E)) (resolve_seed E i) (seed_ok (cfg_of E) (py_strip i)) (\<lambda>e w. True)"
proof -
  let ?C = "cfg_of E" and ?Q = "seed_ok (cfg_of E) (py_strip i)"
  have b: "triple (custody ?C) (bindM (load_binding E t) (\<lambda>b. ret (Seed_binding b))) ?Q (\<lambda>e. custody ?C)" for t
    by (intro triple_reading read.keeps_rules read_on_keeps_quiet [OF quiet_load_binding])
      (auto simp: seed_ok_def op_simps load_binding_Inr intro: binding_at_own_path)
  have a: "triple (custody ?C) (bindM (load_approval E t None True True) (\<lambda>b. ret (Seed_approval b))) ?Q (\<lambda>e. custody ?C)" for t
    by (intro triple_reading read.keeps_rules read_on_rules)
      (auto simp: seed_ok_def op_simps intro: loaded_approval_links(1))
  have p: "triple (custody ?C) (bindM (load_proposal E t) (\<lambda>b. ret (Seed_proposal b))) ?Q (\<lambda>e. custody ?C)" for t
    by (intro triple_reading read.keeps_rules read_on_keeps_quiet [OF quiet_load_proposal])
      (auto simp: seed_ok_def op_simps load_proposal_Inr intro: proposal_at_own_path)
  have r: "triple (custody ?C) (bindM (load_receipt E t) (\<lambda>b. ret (Seed_receipt b))) ?Q (\<lambda>e. custody ?C)"
    if "starts_with (py_strip i) ''wmr-''" for t
    by (intro triple_reading read.keeps_rules read_on_keeps_quiet [OF quiet_load_receipt])
      (auto simp: seed_ok_def op_simps that)
  have x: "keeps (read_on ?C) (resolve_run E t es)" for t es
    unfolding resolve_run_def
    by (intro read.keeps_bind read_on_rules read_on_keeps_quiet [OF quiet_list_bindings]
        read_on_keeps_quiet [OF quiet_list_proposals] read_on_keeps_quiet [OF quiet_list_receipts])
      (auto intro: read.keeps_rules)
  have rn: "triple (custody ?C) (resolve_run E t es) ?Q (\<lambda>e w. True)" for t es
  proof (rule triple_conseq [OF triple_reading [OF x]])
    show "?Q seed w'" if "custody ?C w" "custody ?C w'" "resolve_run E t es w = (Inr seed, w')" for w seed w'
      using that resolve_run_ok [OF that(3,1)] by (auto simp: seed_ok_def)
  qed auto
  have "triple (custody ?C) (try_seed A B is_binding_error (bindM (load_binding E (py_strip i)) (\<lambda>b. ret (Seed_binding b))) [] (\<lambda>es.
      try_seed A' B' is_approval_error (bindM (load_approval E (py_strip i) None True True) (\<lambda>a. ret (Seed_approval a))) es (\<lambda>es.
      try_seed A'' B'' is_proposal_error (bindM (load_proposal E (py_strip i)) (\<lambda>p. ret (Seed_proposal p))) es (\<lambda>es.
      try_seed (starts_with (py_strip i) ''wmr-'') True is_enforcement_error
        (bindM (load_receipt E (py_strip i)) (\<lambda>r. ret (Seed_receipt r))) es (\<lambda>es.
      resolve_run E (py_strip i) es))))) ?Q (\<lambda>e w. True)" for A B A' B' A'' B''
    by (rule triple_try_seed, rule b, rule triple_try_seed, rule a, rule triple_try_seed, rule p,
        rule triple_try_seed, erule r, rule rn)
  then show ?thesis
    unfolding resolve_seed_def Let_def bindM_basic
    by (cases "py_strip i = []") (auto intro: triple_throw)
qed

lemma seed_lineage_chain:
  assumes run: "seed_lineage E seed w = (Inr (l, res), w')" and ok: "seed_ok (cfg_of E) t seed w"
    and kind: "\<not> starts_with t ''wmr-''" "\<And>r rr. s \<Longrightarrow> seed \<noteq> Seed_run r rr"
  shows "chain_ok s (cfg_of E) w' l \<and> custody (cfg_of E) w'"
proof (cases seed)
  case (Seed_run r rr)
  then have l: "l = run_lineage rr" "w' = w" and rr: "run_ok (cfg_of E) rr w" "custody (cfg_of E) w" "\<not> s"
    using run ok kind(2) by (auto simp: seed_lineage_def seed_ok_def op_simps)
  show ?thesis
    using rr unfolding l chain_ok_def run_ok_def run_lineage_def
    by (auto dest!: last_of_Some split: if_splits)
qed (use assms in \<open>auto simp: seed_lineage_def seed_ok_def op_simps chain_ok_def approval_follows_def\<close>)

text \<open>The report as a lineage.\<close>

definition report_lineage :: "audit_report \<Rightarrow> lineage" where
  "report_lineage rep =
     \<lparr>ln_proposal = ar_proposal rep, ln_approval = ar_approval rep, ln_binding = ar_binding rep,
      ln_receipt = ar_receipt rep\<rparr>"

lemma audit_write_scope_Inr:
  assumes "audit_write_scope E i w = (Inr rep, w')"
  obtains seed l0 r0 l1 l2 l3 l4 w1 w2 w3 w4 w5 w6 where
    "resolve_seed E i w = (Inr seed, w1)" "seed_lineage E seed w1 = (Inr (l0, r0), w2)"
    "fill_approval E l0 w2 = (Inr l1, w3)" "fill_proposal E l1 w3 = (Inr l2, w4)"
    "fill_receipt E l2 w4 = (Inr l3, w5)" "fill_binding E l3 w5 = (Inr l4, w6)"
    "\<exists>w7. fill_from_proposal E l4 w6 = (Inr (report_lineage rep), w7) \<and> same_files w7 w'"
    "ar_state rep = terminal_authority_state (ar_proposal rep) (ar_approval rep) (ar_binding rep) (ar_receipt rep)
       (\<exists>r. ar_revocation rep = Some (Found_revocation r))"
    "ar_related rep = (case seed of Seed_run r rr \<Rightarrow> Some rr | _ \<Rightarrow> None)"
proof -
  obtain seed l0 r0 l1 l2 l3 l4 l w1 w2 w3 w4 w5 w6 w7 rv res where r:
    "resolve_seed E i w = (Inr seed, w1)" "seed_lineage E seed w1 = (Inr (l0, r0), w2)"
    "fill_approval E l0 w2 = (Inr l1, w3)" "fill_proposal E l1 w3 = (Inr l2, w4)"
    "fill_receipt E l2 w4 = (Inr l3, w5)" "fill_binding E l3 w5 = (Inr l4, w6)"
    "fill_from_proposal E l4 w6 = (Inr l, w7)" "find_revocation E l w7 = (Inr rv, w')"
    "rep = \<lparr>ar_query = py_strip i, ar_proposal = ln_proposal l, ar_approval = ln_approval l,
          ar_revocation = rv, ar_binding = ln_binding l, ar_result = res, ar_receipt = ln_receipt l,
          ar_state = terminal_authority_state (ln_proposal l) (ln_approval l) (ln_binding l) (ln_receipt l)
            (case rv of Some (Found_revocation r) \<Rightarrow> True | _ \<Rightarrow> False),
          ar_related = (case seed of Seed_run r rr \<Rightarrow> Some rr | _ \<Rightarrow> None)\<rparr>"
    using assms by (auto simp: audit_write_scope_def op_simps simp del: bindM_basic bindM_lift)
  have "report_lineage rep = l" by (simp add: r(9) report_lineage_def)
  moreover have "same_files w7 w'" using quiet_find_revocation r(8) by (rule keepsD)
  moreover have "(case rv of Some (Found_revocation r) \<Rightarrow> True | _ \<Rightarrow> False) \<longleftrightarrow> (\<exists>r. rv = Some (Found_revocation r))"
    by (auto split: option.splits revocation_found.splits)
  ultimately show thesis
    using r by (intro that [of seed w1 l0 r0 w2 l1 w3 l2 w4 l3 w5 l4 w6]) auto
qed

lemma read_keeps_custody:
  assumes "keeps (read_on C) m" "m u = (r, v)" "custody C u"
  shows "custody C v"
  using read_on_custody [OF keepsD [OF assms(1,2)] assms(3)] .

lemma audit_chain:
  assumes run: "audit_write_scope E i w = (Inr rep, w')" and c: "custody (cfg_of E) w"
    and kind: "\<not> starts_with (py_strip i) ''wmr-''"
  shows "chain_ok (ar_related rep = None) (cfg_of E) w' (report_lineage rep)"
proof -
  let ?s = "ar_related rep = None"
  let ?C = "cfg_of E"
  obtain seed l0 r0 l1 l2 l3 l4 w1 w2 w3 w4 w5 w6 w7 where
    s: "resolve_seed E i w = (Inr seed, w1)" "seed_lineage E seed w1 = (Inr (l0, r0), w2)" and
    f: "fill_approval E l0 w2 = (Inr l1, w3)" "fill_proposal E l1 w3 = (Inr l2, w4)"
    "fill_receipt E l2 w4 = (Inr l3, w5)" "fill_binding E l3 w5 = (Inr l4, w6)"
    "fill_from_proposal E l4 w6 = (Inr (report_lineage rep), w7)" "same_files w7 w'" and
    rel: "ar_related rep = (case seed of Seed_run r rr \<Rightarrow> Some rr | _ \<Rightarrow> None)"
    using run by (rule audit_write_scope_Inr) blast
  have "?s \<Longrightarrow> seed \<noteq> Seed_run r rr" for r rr using rel by auto
  from seed_lineage_chain [OF s(2) triple_Inr [OF resolve_seed_ok c s(1)] kind(1) this]
  have l0: "chain_ok ?s ?C w2 l0" "custody ?C w2" by auto
  note step = read_keeps_custody
  note q = read_on_keeps_quiet
  have c3: "custody ?C w3" by (rule step [OF read_on_rules(1) f(1) l0(2)])
  have c4: "custody ?C w4" by (rule step [OF q [OF quiet_fill_proposal] f(2) c3])
  have c5: "custody ?C w5" by (rule step [OF q [OF quiet_fill_receipt] f(3) c4])
  have c6: "custody ?C w6" by (rule step [OF q [OF quiet_fill_binding] f(4) c5])
  have c7: "custody ?C w7" by (rule step [OF read_on_rules(2) f(5) c6])
  note l1 = chain_fill_approval [OF f(1) l0(2) l0(1)]
  note l2 = chain_fill_proposal [OF f(2) c3 l1]
  note l3 = chain_fill_receipt [OF f(3) l2]
  note l4 = chain_fill_binding [OF f(4) c5 l3]
  note l5 = chain_fill_from_proposal [OF f(5) c6 l4]
  show ?thesis by (rule chain_ok_read [OF read_on_quiet [OF f(6)] c7 l5])
qed

text \<open>
  What an audit promises: it moved approvals along their lifecycle at most, and unless it was of a
  receipt, the proposal, approval and binding it reports are stored and of one chain. The receipt
  it reports is of that binding unless the audit was of a run.
\<close>

definition audit_contract :: "cfg \<Rightarrow> string \<Rightarrow> world \<Rightarrow> audit_report \<Rightarrow> world \<Rightarrow> bool" where
  "audit_contract C i w rep w' \<longleftrightarrow>
     authority_evolves C w w' \<and> custody C w' \<and>
     (\<not> starts_with (py_strip i) ''wmr-'' \<longrightarrow> chain_ok (ar_related rep = None) C w' (report_lineage rep))"

lemma audit_meets:
  "triple (\<lambda>s. s = w \<and> custody (cfg_of E) s) (audit_write_scope E i)
     (audit_contract (cfg_of E) i w) (\<lambda>e w'. authority_evolves (cfg_of E) w w')"
proof -
  note k = keepsD [OF audit_authority.keeps_audit]
  have "keeps (read_on (cfg_of E)) (audit_write_scope E i)"
    by (intro read_on_audit audit_authority.keeps_audit audit_writes.keeps_audit)
  then show ?thesis
    by (intro tripleI) (auto simp: audit_contract_def intro: k audit_chain read_keeps_custody)
qed

subsection \<open>What no residual authority means\<close>

lemma try_seed_skip: "try_seed False f c m es k = k es"
  by (simp add: try_seed_def)

lemma try_seed_final:
  "try_seed True True c m es k = catchM m (\<lambda>e. if c e then Some (throw (AuditError (U_text (exn_text e)))) else None)"
  by (auto simp: try_seed_def fun_eq_iff catchM_def bindM_def ret_def throw_def split: prod.splits sum.splits)

lemma resolve_seed_approval:
  assumes "starts_with (py_strip i) ''wsa-''"
  shows "resolve_seed E i = catchM (bindM (load_approval E (py_strip i) None True True) (\<lambda>a. ret (Seed_approval a)))
    (\<lambda>e. if is_approval_error e then Some (throw (AuditError (U_text (exn_text e)))) else None)"
proof -
  have n: "\<not> starts_with (py_strip i) ''wsb-''"
    by (rule apart_names [OF _ assms]) (simp add: apart_def)
  have "py_strip i \<noteq> []" using assms by (auto simp: starts_with_def)
  with n assms show ?thesis
    by (simp add: resolve_seed_def starts_any_def try_seed_skip try_seed_final)
qed

lemma resolve_approval:
  assumes "resolve_seed E i w = (Inr seed, w1)" "starts_with (py_strip i) ''wsa-''"
  obtains a where "load_approval E (py_strip i) None True True w = (Inr a, w1)" "seed = Seed_approval a"
  using assms(1) unfolding resolve_seed_approval [OF assms(2)]
  by (auto intro: that simp: catchM_def bindM_def ret_def throw_def split: prod.splits sum.splits if_splits)

text \<open>An audit by approval: the approval as it is now, and the last of its bindings.\<close>

lemma audit_of_approval:
  assumes run: "audit_write_scope E i w = (Inr rep, w')" and wsa: "starts_with (py_strip i) ''wsa-''"
  obtains a w1 where "load_approval E (py_strip i) None True True w = (Inr a, w1)" "same_files w1 w'"
    "ar_approval rep = Some a"
    "ar_binding rep = last_of (sort_key (\<lambda>b. (wb_bound_at b, wb_id b))
       (filter (\<lambda>b. wa_id a = wb_approval b) (bindings_in (cfg_of E) w1)))"
    "ts_residual (ar_state rep) = scope_residual (Some (wa_status a)) (map_option wb_status (ar_binding rep))"
proof -
  obtain seed l0 r0 l1 l2 l3 l4 w1 w2 w3 w4 w5 w6 w7 where
    s: "resolve_seed E i w = (Inr seed, w1)" "seed_lineage E seed w1 = (Inr (l0, r0), w2)" and
    f: "fill_approval E l0 w2 = (Inr l1, w3)" "fill_proposal E l1 w3 = (Inr l2, w4)"
    "fill_receipt E l2 w4 = (Inr l3, w5)" "fill_binding E l3 w5 = (Inr l4, w6)"
    "fill_from_proposal E l4 w6 = (Inr (report_lineage rep), w7)" "same_files w7 w'" and
    st: "ar_state rep = terminal_authority_state (ar_proposal rep) (ar_approval rep) (ar_binding rep) (ar_receipt rep)
       (\<exists>r. ar_revocation rep = Some (Found_revocation r))"
    using run by (rule audit_write_scope_Inr) blast
  obtain a where a: "load_approval E (py_strip i) None True True w = (Inr a, w1)" "seed = Seed_approval a"
    using s(1) wsa by (rule resolve_approval)
  have l0: "ln_approval l0 = Some a" "ln_binding l0 = None" "w2 = w1"
    using s(2) a(2) by (auto simp: seed_lineage_def op_simps)
  have l1: "l1 = l0" "w3 = w1" using f(1) l0 by (auto simp: fill_approval_def op_simps)
  have l2: "ln_approval l2 = Some a" "ln_binding l2 = None"
    using f(2) l0 l1 by (auto simp: fill_proposal_def op_simps simp del: bindM_basic bindM_lift split: option.splits)
  have w4: "same_files w1 w4" using keepsD [OF quiet_fill_proposal f(2)] l1(2) by simp
  have l3: "l3 = l2" "w5 = w4" using f(3) l2 by (auto simp: fill_receipt_def op_simps)
  have same: "bindings_in (cfg_of E) w4 = bindings_in (cfg_of E) w1"
    using w4 by (simp add: bindings_in_def glob_names_def stored_def file_at_def same_files_def)
  have mt: "binding_matches (Some k) None None None = (\<lambda>b. k = wb_approval b)" for k
    by (auto simp: binding_matches_def)
  have l4: "ln_approval l4 = Some a" "ln_binding l4 = last_of (sort_key (\<lambda>b. (wb_bound_at b, wb_id b))
       (filter (\<lambda>b. wa_id a = wb_approval b) (bindings_in (cfg_of E) w1)))"
    using f(4) l2 l3
    by (auto simp: fill_binding_def fill_receipt_def op_simps list_bindings_run mt same
        simp del: bindM_basic bindM_lift split: option.splits)
  have l: "report_lineage rep = l4" "w7 = w6"
    using f(5) l4(1) by (auto simp: fill_from_proposal_def op_simps split: option.splits)
  have "same_files w4 w6" using keepsD [OF quiet_fill_binding f(4)] l3(2) by simp
  then have "same_files w1 w'" using w4 f(6) l(2) by (simp add: same_files_def)
  moreover have "ar_approval rep = ln_approval l4" "ar_binding rep = ln_binding l4"
    by (simp_all add: l(1) [symmetric] report_lineage_def)
  ultimately show thesis
    using a(1) l4 st by (intro that) (simp_all add: terminal_authority_state_def)
qed

lemma no_residual_iff:
  "scope_residual (Some s) b = No_authority \<longleftrightarrow> s \<noteq> Approved \<or> b = Some Completed"
  by (cases s; cases b; simp add: scope_residual_def) (metis binding_status.exhaust)

lemma no_residual_no_bind:
  assumes audit: "audit_write_scope E i w = (Inr rep, w')" and c: "custody (cfg_of E) w"
    and i: "starts_with (py_strip i) ''wsa-''" "plain_ref (py_strip i)"
    and none: "ts_residual (ar_state rep) = No_authority" and same: "cfg_of E' = cfg_of E"
    and ref: "record_path (approvals_dir (cfg_of E)) (py_strip r) = record_path (approvals_dir (cfg_of E)) (py_strip i)"
    and who: "py_strip r = py_strip i \<or> (\<exists>a. ar_approval rep = Some a \<and> wa_status a \<noteq> Approved)"
  shows "\<exists>e. fst (create_binding E' r q w') = Inl e"
proof (rule ccontr)
  let ?C = "cfg_of E"
  assume "\<nexists>e. fst (create_binding E' r q w') = Inl e"
  then obtain g w'' where g: "create_binding E' r q w' = (Inr g, w'')"
    by (metis fst_conv sum.exhaust prod.collapse)
  obtain a w1 where a: "load_approval E (py_strip i) None True True w = (Inr a, w1)" "same_files w1 w'" "ar_approval rep = Some a"
    "ar_binding rep = last_of (sort_key (\<lambda>b. (wb_bound_at b, wb_id b))
       (filter (\<lambda>b. wa_id a = wb_approval b) (bindings_in ?C w1)))"
    "ts_residual (ar_state rep) = scope_residual (Some (wa_status a)) (map_option wb_status (ar_binding rep))"
    using audit i(1) by (rule audit_of_approval)
  have c1: "custody ?C w1" using read_on_rules(3) a(1) c by (rule read_keeps_custody)
  have c': "custody ?C w'" using read_on_custody [OF read_on_quiet [OF a(2)] c1] .
  have pl: "approvals_placed ?C w'" "bindings_placed ?C w'"
    using c' by (auto simp: custody_def bindings_exclusive_def)
  note at = loaded_approval_links [OF a(1) c]
  have id: "wa_id a = py_strip i" using at(2) i(2) by simp
  have at': "approval_at ?C w' (approval_path ?C (py_strip i)) = Some a"
    using at(1) id unfolding same_files_stored [OF a(2)] by simp
  note chk = create_binding_checks [OF g, unfolded same, OF pl]
  have "approvals_evolve False ?C w' w''"
    using keepsD [OF create_binding_rules(1) g] by (simp add: same)
  from approvals.evolve_stored [OF this pl(1) at'] chk(1) i(2)
  have "approval_follows a (bg_approval g)" unfolding ref by auto
  then have "wa_status a = Approved"
    using chk(2) by (auto simp: approval_follows_def)
  with none a(3,5) who obtain b where b: "ar_binding rep = Some b" "wb_status b = Completed" and r: "py_strip r = py_strip i"
    by (auto simp: no_residual_iff)
  then have "b \<in> set (bindings_in ?C w1)" "wb_approval b = py_strip r"
    using last_of_Some [OF trans [OF a(4) [symmetric] b(1)]] id by auto
  moreover have "bindings_placed ?C w1" using c1 by (simp add: custody_def bindings_exclusive_def)
  ultimately have "binding_at ?C w' (binding_path ?C (wb_id b)) = Some b"
    using mem_bindings_in unfolding same_files_stored [OF a(2)] by blast
  from chk(7) [OF this \<open>wb_approval b = py_strip r\<close>] b(2) show False by (simp add: approval_blocking_def)
qed

subsection \<open>A scan counts the records that verify\<close>

lemma scan_dir_Inr:
  assumes "scan_dir v c k d w names = Inr (n, bad)"
  shows "n = length (filter (\<lambda>m. stored (\<lambda>_. v) C w (d @ [m]) \<noteq> None) names)"
    and "map sc_path bad = map (\<lambda>m. d @ [m]) (filter (\<lambda>m. stored (\<lambda>_. v) C w (d @ [m]) = None) names)"
    and "n + length bad = length names"
  using assms
  by (induction names arbitrary: n bad)
    (auto simp: bindR_Inr_iff stored_def split: option.splits rec_file.splits sum.splits if_splits)

definition scan_counts :: "(cfg \<Rightarrow> json \<Rightarrow> exn + 'r) \<Rightarrow> cfg \<Rightarrow> path \<Rightarrow> string \<Rightarrow> world \<Rightarrow> nat" where
  "scan_counts v C d pre w = length (filter (\<lambda>m. stored v C w (d @ [m]) \<noteq> None) (glob_names d pre w))"

definition refused_paths :: "(cfg \<Rightarrow> json \<Rightarrow> exn + 'r) \<Rightarrow> cfg \<Rightarrow> path \<Rightarrow> string \<Rightarrow> world \<Rightarrow> path list" where
  "refused_paths v C d pre w =
     map (\<lambda>m. d @ [m]) (filter (\<lambda>m. stored v C w (d @ [m]) = None) (glob_names d pre w))"

lemma scan_dir_exact:
  assumes "scan_dir (v C) c k d w (glob_names d pre w) = Inr (n, bad)"
  shows "n = scan_counts v C d pre w \<and> map sc_path bad = refused_paths v C d pre w"
proof -
  have st: "stored (\<lambda>_. v C) C w p = stored v C w p" for p by (simp add: stored_def)
  show ?thesis
    using scan_dir_Inr(1,2) [OF assms, of C] unfolding scan_counts_def refused_paths_def st by blast
qed

lemma scan_store_exact:
  assumes "scan_write_scope_store C evs w = (Inr s, w')"
  shows "w' = w \<and> ms_fabricated s = 0 \<and>
    ms_proposals s = scan_counts verify_proposal_record C (proposals_dir C) ''wsp-'' w \<and>
    ms_approvals s = scan_counts verify_approval_base C (approvals_dir C) ''wsa-'' w \<and>
    ms_bindings s = scan_counts verify_binding_record C (bindings_dir C) ''wsb-'' w \<and>
    ms_receipts s = scan_counts verify_receipt_record C (receipts_dir C) ''wmr-'' w \<and>
    map sc_path (ms_corrupt s) =
      refused_paths verify_proposal_record C (proposals_dir C) ''wsp-'' w @
      refused_paths verify_approval_base C (approvals_dir C) ''wsa-'' w @
      refused_paths verify_binding_record C (bindings_dir C) ''wsb-'' w @
      refused_paths verify_receipt_record C (receipts_dir C) ''wmr-'' w"
  using assms unfolding scan_write_scope_store_def
  by (auto simp: op_simps simp del: bindM_basic bindM_lift dest!: scan_dir_exact)

lemma migrate_rules:
  "keeps (proposals_evolve True (cfg_of E)) (migrate_nested_proposals_from_result E j r)"
  "keeps (writes_only proposal_kinds) (migrate_nested_proposals_from_result E j r)"
  unfolding migrate_nested_proposals_from_result_def by (rule persist_rules)+

lemma quiet_scan: "keeps same_files (scan_write_scope_store C evs)"
  unfolding scan_write_scope_store_def split_def by (intro quiet.keeps_rules)

text \<open>A scan only fails on an event whose data is neither empty nor an object.\<close>

lemma event_source_fails:
  "event_source p = Inl e \<longleftrightarrow>
     e = OtherErr ''AttributeError'' \<and> \<not> truthy (jget p ''approval_source'') \<and> truthy (jget p ''data'') \<and>
     \<not> is_JObj (jget p ''data'')"
  by (auto simp: event_source_def is_JObj_def split: json.splits)

end
