(* ===== verification/System.thy ===== *)
theory System
  imports Audit_Laws
begin

section \<open>The write-scope authority as a transition system\<close>

text \<open>
  The public operations that write, as calls of one installation: any number of processes may
  serve them in any order, each with the environment it sees. A run performs a list of calls
  from one world to another; a world is reachable if a run leads to it from a world without
  record files. The invariants of the records hold in every reachable world.
\<close>

subsection \<open>Calls and runs\<close>

datatype call =
    Save_proposal json
  | Persist_result json "string option" "string option"
  | Approve string string string string string "string option" "int option"
  | Read_approval string "int option" bool bool
  | List_approvals "string option" "string option" "string option" "int option"
  | Revoke string string string string "string option" "int option"
  | Move_approval string string "int option" bool
  | Bind string bind_request
  | Prepare "string option" "string list" bind_request
  | Move_binding string string "string option" "string option"
  | Finalize string bool "string option"
  | Checkpoint binding "ppath option" bool "int option"
  | Enforce string enforce_request
  | Apply_result json "binding option" "ppath option" "bool option"
  | Diagnose string
  | Recover string string
  | Audit_scope string
  | Migrate json "string option"
  | Scan_stores "rec_file list option"

definition only_effect :: "'a run \<Rightarrow> unit run" where
  "only_effect m = bindM m (\<lambda>_. ret ())"

fun perform :: "env \<Rightarrow> call \<Rightarrow> unit run" where
  "perform E (Save_proposal j) = only_effect (save_proposal E j)"
| "perform E (Persist_result j r c) = only_effect (persist_write_scope_proposals_from_result E j r c)"
| "perform E (Approve pid ttl who src prov at now) = only_effect (approve_proposal E pid ttl who src prov at now)"
| "perform E (Read_approval i now ttl persist) = only_effect (load_approval E i now ttl persist)"
| "perform E (List_approvals r s p now) = only_effect (list_approvals E r s p now)"
| "perform E (Revoke i why who prov at now) = only_effect (revoke_approval E i why who prov at now)"
| "perform E (Move_approval i to now allow) = only_effect (transition_approval_status E i to now allow)"
| "perform E (Bind i q) = only_effect (create_binding E i q)"
| "perform E (Prepare a naked q) = only_effect (prepare_execution_write_scope E a naked q)"
| "perform E (Move_binding i to why at) = only_effect (transition_binding_status E i to why at)"
| "perform E (Finalize i ok why) = only_effect (finalize_binding E i ok why)"
| "perform E (Checkpoint b ws sha now) = only_effect (check_authority_checkpoint E b ws sha now)"
| "perform E (Enforce i q) = only_effect (enforce_write_scope_mutations E i q)"
| "perform E (Apply_result j b ws rf) = only_effect (apply_enforcement_to_result E j b ws rf)"
| "perform E (Diagnose i) = only_effect (diagnose_binding_recovery E i)"
| "perform E (Recover i dec) = only_effect (recover_binding E i dec)"
| "perform E (Audit_scope i) = only_effect (audit_write_scope E i)"
| "perform E (Migrate j r) = only_effect (migrate_nested_proposals_from_result E j r)"
| "perform E (Scan_stores ls) = only_effect (scan_write_scope_store (cfg_of E) ls)"

inductive runs :: "cfg \<Rightarrow> call list \<Rightarrow> world \<Rightarrow> world \<Rightarrow> bool" for C where
  runs_Nil: "runs C [] w w"
| runs_Cons: "cfg_of E = C \<Longrightarrow> perform E c w = (r, w1) \<Longrightarrow> runs C cs w1 w2 \<Longrightarrow> runs C (c # cs) w w2"

inductive_simps runs_Nil_iff [simp]: "runs C [] w w'"
inductive_cases runs_ConsE: "runs C (c # cs) w w'"

definition reachable :: "cfg \<Rightarrow> world \<Rightarrow> bool" where
  "reachable C w \<longleftrightarrow> (\<exists>w0 cs. files w0 = [] \<and> runs C cs w0 w)"

text \<open>The calls that may add an approval, and those that may add a binding.\<close>

fun grants :: "call \<Rightarrow> bool" where
  "grants (Approve _ _ _ _ _ _ _) = True"
| "grants _ = False"

fun binds :: "call \<Rightarrow> bool" where
  "binds (Bind _ _) = True"
| "binds (Prepare _ _ _) = True"
| "binds _ = False"

subsection \<open>Every call keeps custody\<close>

lemma custody_quiet: "keeps same_files m \<Longrightarrow> keeps (custody_kept C) m"
  by (intro custody_by_scope keeps_writes_only_quiet authority_quiet)

lemma warning_quiet: "keeps same_files emit_legacy_path_elevation_warning"
  by (simp add: emit_legacy_path_elevation_warning_def keeps_def writes_def same_files_def)

lemma finalize_rules:
  "keeps (authority_evolves (cfg_of E)) (finalize_binding E i ok why)"
  "keeps (writes_only scope_kinds) (finalize_binding E i ok why)"
  unfolding finalize_binding_def by (rule authority_transition scope_transition)+

lemma apply_rules:
  "keeps (authority_evolves (cfg_of E)) (apply_enforcement_to_result E j b ws rf)"
  "keeps (writes_only scope_kinds) (apply_enforcement_to_result E j b ws rf)"
proof -
  show "keeps (authority_evolves (cfg_of E)) (apply_enforcement_to_result E j b ws rf)"
    unfolding apply_enforcement_to_result_def
    by (auto intro!: auth.keeps_rules enforce_rules split: option.splits json.splits)
  show "keeps (writes_only scope_kinds) (apply_enforcement_to_result E j b ws rf)"
    unfolding apply_enforcement_to_result_def
    by (auto intro!: wo.keeps_rules enforce_rules split: option.splits json.splits)
qed

lemma prepare_rules:
  "keeps (custody_kept (cfg_of E)) (prepare_execution_write_scope E a naked q)"
  "keeps (approvals_evolve mint (cfg_of E)) (prepare_execution_write_scope E a naked q)"
  "keeps (bindings_evolve True (cfg_of E)) (prepare_execution_write_scope E a naked q)"
proof -
  show "keeps (custody_kept (cfg_of E)) (prepare_execution_write_scope E a naked q)"
    unfolding prepare_execution_write_scope_def Let_def
    by (auto intro!: cust.keeps_rules custody_bind custody_quiet [OF warning_quiet])
  show "keeps (approvals_evolve mint (cfg_of E)) (prepare_execution_write_scope E a naked q)"
    unfolding prepare_execution_write_scope_def Let_def
    by (auto intro!: approvals.evo.keeps_rules create_binding_rules approvals.keeps_quiet [OF warning_quiet])
  show "keeps (bindings_evolve True (cfg_of E)) (prepare_execution_write_scope E a naked q)"
    unfolding prepare_execution_write_scope_def Let_def
    by (auto intro!: bindings.evo.keeps_rules create_binding_rules bindings.keeps_quiet [OF warning_quiet])
qed

text \<open>The calls that neither grant nor bind only move records along their lifecycles.\<close>

lemma keeps_only_effect: "keeps R m \<Longrightarrow> keeps R (only_effect m)"
  by (auto simp: keeps_def only_effect_def bindM_def ret_def split: prod.splits sum.splits)
    (metis snd_conv)+

lemmas grant_effects =
  authority_grant [OF evolve_list_approvals writes_list_approvals]
  authority_grant [OF evolve_revoke_approval writes_revoke_approval]
  authority_grant [OF transition_rules]
  authority_load_approval

lemmas scope_effects =
  authority_transition enforce_rules(1) apply_rules(1) diagnose_rules(1) recover_rules(1)
  checkpoint_rules(1) finalize_rules(1) audit_authority.keeps_audit authority_quiet [OF quiet_scan]

lemmas proposal_effects =
  authority_by_proposals [OF save_proposal_rules(2)] authority_by_proposals [OF persist_rules(2)]
  authority_by_proposals [OF migrate_rules(2)]

lemma perform_authority:
  assumes "\<not> grants c" "\<not> binds c"
  shows "keeps (authority_evolves (cfg_of E)) (perform E c)"
  using assms
  by (cases c) (auto intro!: keeps_only_effect intro: grant_effects scope_effects proposal_effects)

lemmas custody_effects =
  custody_approve custody_bind prepare_rules(1)
  custody_by_proposals [OF save_proposal_rules] custody_by_proposals [OF persist_rules]
  custody_by_scope [OF scope_grant [OF writes_list_approvals] grant_effects(1)]
  custody_by_scope [OF scope_grant [OF writes_revoke_approval] grant_effects(2)]
  custody_by_scope [OF scope_grant [OF transition_rules(2)] grant_effects(3)]
  custody_by_scope [OF scope_load_approval authority_load_approval]
  custody_by_scope [OF scope_transition authority_transition]
  custody_by_scope [OF enforce_rules(2,1)] custody_by_scope [OF apply_rules(2,1)]
  custody_by_scope [OF scope_grant [OF diagnose_rules(2)] diagnose_rules(1)]
  custody_by_scope [OF recover_rules(2,1)] custody_by_scope [OF checkpoint_rules(3,1)]
  custody_by_scope [OF finalize_rules(2,1)]
  custody_by_scope [OF scope_grant [OF audit_writes.keeps_audit] audit_authority.keeps_audit]
  custody_quiet [OF quiet_scan]
  custody_by_proposals [OF migrate_rules]

lemma perform_custody: "keeps (custody_kept (cfg_of E)) (perform E c)"
  by (cases c) (auto intro!: keeps_only_effect intro: custody_effects)

text \<open>Without a grant no approval is added, without a bind no binding.\<close>

lemma perform_approvals: "keeps (approvals_evolve (grants c) (cfg_of E)) (perform E c)"
proof (cases "grants c \<or> binds c")
  case True
  then show ?thesis
    by (cases c) (auto intro!: keeps_only_effect intro: approve_proposal_effect(1) create_binding_rules(1)
        prepare_rules(2))
next
  case False
  then have "keeps (approvals_evolve False (cfg_of E)) (perform E c)"
    using perform_authority [of c E] by (simp add: keeps_def authority_evolves_def)
  with False show ?thesis by simp
qed

lemma perform_bindings: "keeps (bindings_evolve (binds c) (cfg_of E)) (perform E c)"
proof (cases "grants c \<or> binds c")
  case True
  then show ?thesis
    by (cases c) (auto intro!: keeps_only_effect intro: bindings_by_grants [OF approve_proposal_effect(2) [OF refl]]
        create_binding_rules(2) prepare_rules(3))
next
  case False
  then have "keeps (bindings_evolve False (cfg_of E)) (perform E c)"
    using perform_authority [of c E] by (simp add: keeps_def authority_evolves_def)
  with False show ?thesis by simp
qed

subsection \<open>Runs\<close>

lemma runs_custody: "runs C cs w w' \<Longrightarrow> custody_kept C w w'"
proof (induction rule: runs.induct)
  case (runs_Cons E c w r w1 cs w2)
  then show ?case using keepsD [OF perform_custody runs_Cons.hyps(2)] by (blast intro: cust.order_trans)
qed (rule cust.order_refl)

lemma evolves_weaken:
  "evolves v rid dir follows m C w w' \<Longrightarrow> (m \<Longrightarrow> m') \<Longrightarrow> evolves v rid dir follows m' C w w'"
  by (auto simp: evolves_def)

lemma runs_approvals: "runs C cs w w' \<Longrightarrow> approvals_evolve (list_ex grants cs) C w w'"
proof (induction rule: runs.induct)
  case (runs_Cons E c w r w1 cs w2)
  have "approvals_evolve (grants c) C w w1"
    using keepsD [OF perform_approvals runs_Cons.hyps(2)] runs_Cons.hyps(1) by simp
  then have "approvals_evolve (list_ex grants (c # cs)) C w w1" by (rule evolves_weaken) simp
  moreover have "approvals_evolve (list_ex grants (c # cs)) C w1 w2"
    using runs_Cons.IH by (rule evolves_weaken) simp
  ultimately show ?case by (rule approvals.evolve_trans)
qed (rule approvals.evolve_refl)

lemma runs_bindings: "runs C cs w w' \<Longrightarrow> bindings_evolve (list_ex binds cs) C w w'"
proof (induction rule: runs.induct)
  case (runs_Cons E c w r w1 cs w2)
  have "bindings_evolve (binds c) C w w1"
    using keepsD [OF perform_bindings runs_Cons.hyps(2)] runs_Cons.hyps(1) by simp
  then have "bindings_evolve (list_ex binds (c # cs)) C w w1" by (rule evolves_weaken) simp
  moreover have "bindings_evolve (list_ex binds (c # cs)) C w1 w2"
    using runs_Cons.IH by (rule evolves_weaken) simp
  ultimately show ?case by (rule bindings.evolve_trans)
qed (rule bindings.evolve_refl)

lemma runs_append: "runs C cs w w1 \<Longrightarrow> runs C ds w1 w2 \<Longrightarrow> runs C (cs @ ds) w w2"
  by (induction rule: runs.induct) (auto intro: runs_Cons)

lemma custody_empty: "files w = [] \<Longrightarrow> custody C w"
proof -
  assume "files w = []"
  then have "proposal_at C w p = None" "approval_at C w p = None" "binding_at C w p = None" for p
    by (simp_all add: stored_def file_at_def)
  then show ?thesis
    by (simp add: custody_def in_place_def approvals_backed_def bindings_backed_def bindings_exclusive_def
        one_live_per_target_def one_blocking_per_reference_def)
qed

lemma reachable_custody: "reachable C w \<Longrightarrow> custody C w"
  unfolding reachable_def using runs_custody custody_empty custody_kept_def by blast

lemma reachable_runs: "reachable C w \<Longrightarrow> runs C cs w w' \<Longrightarrow> reachable C w'"
  unfolding reachable_def using runs_append by blast

end
