(* ===== verification/Demo.thy ===== *)
theory Demo
  imports System "HOL-Library.Code_Target_Nat"
begin

section \<open>A sample installation\<close>

text \<open>
  Concrete values the properties are applied at: an installation whose digest is constant, a
  workspace \<open>/w\<close> at a known commit, and one proposal, approval and binding with their files.
\<close>

definition demo_cfg :: cfg where
  "demo_cfg = \<lparr>proposals_dir = [''p''], approvals_dir = [''a''], revocations_dir = [''r''],
     bindings_dir = [''b''], receipts_dir = [''m''], sha256 = (\<lambda>_. 0), iso_other = (\<lambda>_. None)\<rparr>"

definition demo_sha :: string where
  "demo_sha = replicate 40 CHR ''a''"

text \<open>Every path is real, \<open>/w\<close> is the only directory, the clock ticks once a second.\<close>

definition demo_env :: env where
  "demo_env = \<lparr>cfg_of = demo_cfg, clock = (\<lambda>n. 63000000000000000 + int n * 1000000),
     home_of = (\<lambda>_. None), realpath = Some, is_dir = (\<lambda>p. p = (''/'', [''w''])), is_link = (\<lambda>_. False),
     is_regular = (\<lambda>_. False), rev_parse = (\<lambda>_. Proc 0 demo_sha []),
     git_porcelain = (\<lambda>_. Proc 0 [] []), git_tracked = (\<lambda>_ _ _. False), git_dirty = (\<lambda>_ _ _. False),
     restore_exc = (\<lambda>_. None), run_logs = [], run_dirs = []\<rparr>"

text \<open>The same installation after the workspace was removed.\<close>

definition lost_env :: env where
  "lost_env = demo_env\<lparr>is_dir := (\<lambda>_. False)\<rparr>"

definition empty_world :: world where
  "empty_world = \<lparr>files = [], events = [], restores = [], warnings = [], tick = 0\<rparr>"

definition demo_body :: scope_body where
  "demo_body = \<lparr>target_id = ''t'', base_sha = demo_sha, allowed_roots = [''docs''], denied_roots = [],
     reason = ''x'', expected_checks = [], docs_only = True, source_mutation = False\<rparr>"

definition demo_digest :: string where
  "demo_digest = replicate 64 CHR ''0''"

definition demo_id :: "string \<Rightarrow> string" where
  "demo_id p = p @ replicate 24 CHR ''0''"

definition demo_proposal :: proposal where
  "demo_proposal = \<lparr>wp_id = demo_id ''wsp-'', wp_run = ''run'', wp_body = demo_body,
     wp_hash = ''sha256:'' @ demo_digest, wp_created = ''2024-01-01T00:00:00Z''\<rparr>"

definition demo_approval :: approval where
  "demo_approval = \<lparr>wa_id = demo_id ''wsa-'', wa_proposal = demo_id ''wsp-'', wa_run = ''run'',
     wa_body = demo_body, wa_hash = ''sha256:'' @ demo_digest, wa_by = ''op'',
     wa_at = ''2024-01-01T00:00:00Z'', wa_expires = ''2024-01-01T01:00:00Z'',
     wa_status = Revoked, wa_source = ''cli'', wa_revocation = Some (demo_id ''wsr-'')\<rparr>"

definition demo_binding :: binding where
  "demo_binding = \<lparr>wb_id = demo_id ''wsb-'', wb_approval = demo_id ''wsa-'', wb_run = ''run'',
     wb_target = ''t'', wb_bound_at = ''2024-01-01T00:00:01Z'', wb_status = Active,
     wb_hash = ''sha256:'' @ demo_digest, wb_sha = demo_sha, wb_workspace = ''/w'',
     wb_writable = [''/w/docs''], wb_denied = [], wb_runner = None, wb_terminal_at = None,
     wb_reason = None\<rparr>"

definition demo_world :: world where
  "demo_world = \<lparr>files = [([''p'', demo_id ''wsp-'' @ ''.json''], Parsed (proposal_json demo_proposal)),
       ([''a'', demo_id ''wsa-'' @ ''.json''], Parsed (approval_json demo_approval)),
       ([''b'', demo_id ''wsb-'' @ ''.json''], Parsed (binding_json demo_binding))],
     events = [], restores = [], warnings = [], tick = 0\<rparr>"

subsection \<open>The records are valid and stored\<close>

lemma demo_hexdigest [simp]: "hexdigest demo_cfg s = demo_digest"
proof -
  have z: "hex_char 0 = CHR ''0''" by code_simp
  have "map (\<lambda>i. hex_char (unat (drop_bit (252 - 4 * i) (0 :: 256 word)) mod 16)) [0..<64] =
      map (\<lambda>i. CHR ''0'') [0..<64]"
    by (simp add: z)
  then show ?thesis
    by (simp add: hexdigest_def demo_cfg_def demo_digest_def map_replicate_const)
qed

lemma demo_short_id [simp]: "short_id demo_cfg p m = demo_id p"
  by (simp add: short_id_def demo_id_def demo_digest_def)

lemma demo_frozen: "validate_approval_body (body_json demo_body) = Inr demo_body"
  by code_simp

lemma demo_frozen_body: "frozen demo_body"
  using validate_body_Inr [OF demo_frozen] by simp

lemma demo_clean:
  "py_strip (demo_id ''wsa-'') = demo_id ''wsa-''" "py_strip (demo_id ''wsp-'') = demo_id ''wsp-''"
  "py_strip (demo_id ''wsb-'') = demo_id ''wsb-''" "demo_id p \<noteq> []"
  by (code_simp, code_simp, code_simp, simp add: demo_id_def)

lemma demo_proposal_ok: "verify_proposal_record demo_cfg (proposal_json demo_proposal) = Inr demo_proposal"
  by (rule verify_proposal_json)
    (simp_all add: demo_proposal_def demo_frozen_body compute_body_hash_def compute_proposal_id_def,
     code_simp)

lemma demo_approval_ok: "approval_ok demo_cfg demo_approval"
proof -
  have "assert_operator_identity ''op'' ''approved_by'' = Inr ''op''" "source_ok ''cli''"
    "py_strip ''run'' = ''run''" "py_strip ''2024-01-01T00:00:00Z'' = ''2024-01-01T00:00:00Z''"
    "py_strip ''2024-01-01T01:00:00Z'' = ''2024-01-01T01:00:00Z''"
    by code_simp+
  then show ?thesis
    by (simp add: approval_ok_def demo_approval_def demo_frozen compute_approval_id_def
        compute_body_hash_def demo_clean)
qed

lemma demo_binding_ok: "binding_ok demo_cfg demo_binding"
proof -
  have "list_all absolute_text [''/w/docs'']" "is_sha40 demo_sha"
    "body_hash_shape (''sha256:'' @ demo_digest)" "py_strip (''sha256:'' @ demo_digest) = ''sha256:'' @ demo_digest"
    "py_strip ''run'' = ''run''" "py_strip ''t'' = ''t''" "py_strip ''/w'' = ''/w''"
    "py_strip ''2024-01-01T00:00:01Z'' = ''2024-01-01T00:00:01Z''"
    by code_simp+
  then show ?thesis
    by (simp add: binding_ok_def demo_binding_def compute_binding_id_def demo_clean)
qed

lemma demo_kinds:
  "verify_proposal_record C (approval_json a) = Inl (ProposalError P_kind)"
  "verify_proposal_record C (binding_json b) = Inl (ProposalError P_kind)"
  "verify_approval_base C (proposal_json p) = Inl (ApprovalError A_kind)"
  "verify_approval_base C (binding_json b) = Inl (ApprovalError A_kind)"
  "verify_binding_record C (proposal_json p) = Inl (BindingError B_kind)"
  "verify_binding_record C (approval_json a) = Inl (BindingError B_kind)"
  by (simp_all add: verify_proposal_record_def verify_approval_base_def verify_binding_record_def
      proposal_json_def approval_json_def binding_json_def check_def)

lemma demo_stored:
  "proposal_at demo_cfg demo_world p =
     (if p = [''p'', demo_id ''wsp-'' @ ''.json''] then Some demo_proposal else None)"
  "approval_at demo_cfg demo_world p =
     (if p = [''a'', demo_id ''wsa-'' @ ''.json''] then Some demo_approval else None)"
  "binding_at demo_cfg demo_world p =
     (if p = [''b'', demo_id ''wsb-'' @ ''.json''] then Some demo_binding else None)"
  by (simp_all add: stored_def file_at_def demo_world_def demo_proposal_ok demo_kinds
      verify_approval_json [OF demo_approval_ok] verify_binding_json [OF demo_binding_ok])

lemma demo_dirs:
  "proposals_dir demo_cfg = [''p'']" "approvals_dir demo_cfg = [''a'']" "bindings_dir demo_cfg = [''b'']"
  "cfg_of demo_env = demo_cfg" "cfg_of lost_env = demo_cfg"
  by (simp_all add: demo_cfg_def demo_env_def lost_env_def)

lemma demo_path: "record_path [''a''] (demo_id ''wsa-'') = [''a'', demo_id ''wsa-'' @ ''.json'']"
  "record_path [''b''] (demo_id ''wsb-'') = [''b'', demo_id ''wsb-'' @ ''.json'']"
  by code_simp+

lemma demo_custody: "custody demo_cfg demo_world"
proof -
  have h: "target_id demo_body = ''t''" "base_sha demo_body = demo_sha" by (simp_all add: demo_body_def)
  show ?thesis
    by (simp add: custody_def in_place_def approvals_backed_def bindings_exclusive_def bindings_backed_def
        one_live_per_target_def one_blocking_per_reference_def demo_stored demo_dirs demo_path)
      (simp add: demo_proposal_def demo_approval_def demo_binding_def h demo_path)
qed

lemma demo_held: "held_at demo_cfg demo_world (demo_id ''wsb-'') demo_binding"
  using demo_custody
  by (simp add: held_at_def custody_def bindings_exclusive_def demo_clean demo_dirs demo_path demo_stored)
    (simp add: demo_binding_def)

lemma demo_readable: "readable_at demo_cfg demo_world (demo_id ''wsa-'') demo_approval"
  using demo_custody
  by (simp add: readable_at_def readable_def custody_def demo_clean demo_dirs demo_path demo_stored)
    (simp add: demo_approval_def)

text \<open>The sample binding completes in one call.\<close>

lemma demo_completes:
  "\<exists>w c. runs demo_cfg [Move_binding (demo_id ''wsb-'') ''completed'' None None] demo_world w \<and>
     held_at demo_cfg w (demo_id ''wsb-'') c \<and> wb_status c = Completed"
proof -
  have h: "held_at (cfg_of demo_env) demo_world (demo_id ''wsb-'') demo_binding"
    using demo_held by (simp add: demo_dirs)
  have t: "Completed \<in> set (binding_transitions (Some (wb_status demo_binding)))"
    by (simp add: demo_binding_def)
  obtain c w where m: "transition_binding_status demo_env (demo_id ''wsb-'') (binding_status_text Completed) None None
      demo_world = (Inr c, w)" "held_at (cfg_of demo_env) w (demo_id ''wsb-'') c" "wb_status c = Completed"
    using transition_held [OF h t] by metis
  have p: "perform demo_env (Move_binding (demo_id ''wsb-'') ''completed'' None None) demo_world = (Inr (), w)"
    using m(1) by (simp add: only_effect_def bindM_def ret_def)
  have "runs demo_cfg [Move_binding (demo_id ''wsb-'') ''completed'' None None] demo_world w"
    by (rule runs_Cons [OF demo_dirs(4) p runs_Nil])
  with m show ?thesis by (auto simp: demo_dirs)
qed

end
