(* ===== verification/Corner_Cases.thy ===== *)
theory Corner_Cases
  imports Demo
begin

section \<open>Corner cases\<close>

text \<open>
  Behaviours of the code its documentation does not mention: a recovery that suspends a binding
  and then refuses its own recommendation, an enforcement that stops at a missing approval, and
  two names a scope cannot tell apart.
\<close>

subsection \<open>Recovery without a readable workspace\<close>

lemma active_returns:
  assumes "approval_ok (cfg_of E) a" "readable (cfg_of E) a"
  obtains x w' where "is_approval_active E (approval_json a) None w = (Inr x, w')"
proof -
  obtain b w' where "evaluate_expiry E None False a w = (Inr b, w')"
    using assms(2) by (rule evaluate_expiry_returns)
  then show thesis
    using verify_approval_json [OF assms(1)]
    by (intro that) (simp add: is_approval_active_def verify_approval_record_def bindM_def lift_res_def ret_def)
qed

lemma diagnose_approval_returns:
  assumes rd: "readable_at (cfg_of E) w (wb_approval b) a"
  obtains cs ns w' c where "diagnose_approval E b w = (Inr (cs, ns), w')"
    "''dirty_workspace'' \<notin> set cs" "readable_at (cfg_of E) w' (wb_approval b) c"
    "writes_only grant_kinds w w'"
proof -
  let ?C = "cfg_of E"
  have pl: "approvals_placed ?C w" using rd by (simp add: readable_at_def)
  obtain c w1 where c: "load_approval E (wb_approval b) None True True w = (Inr c, w1)"
    "readable_at ?C w1 (wb_approval b) c"
    using rd by (rule load_again) blast
  have ok: "approval_ok ?C c" using c(1) by (rule load_approval_ok)
  have "readable ?C c" using c(2) by (simp add: readable_at_def)
  then obtain x w2 where x: "is_approval_active E (approval_json c) None w1 = (Inr x, w2)"
    by (rule active_returns [OF ok])
  have q: "same_files w1 w2" using quiet_is_approval_active x by (rule keepsD)
  obtain cs ns w' where run: "diagnose_approval E b w = (Inr (cs, ns), w')"
    "''dirty_workspace'' \<notin> set cs" "w' = w1 \<or> w' = w2"
    using c(1) x by (cases "wa_status c")
      (simp_all add: diagnose_approval_def bindM_def catchM_def ret_def)
  have "readable_at ?C w' (wb_approval b) c"
    using run(3) c(2) readable_quiet [OF q] by auto
  with run show thesis using keepsD [OF diagnose_approval_rules(2) run(1)] by (intro that)
qed

lemma recover_unreadable:
  assumes h: "held_at (cfg_of E) w i b" and st: "wb_status b = Active"
    and rd: "readable_at (cfg_of E) w (wb_approval b) a"
    and ws: "expanduser E (py_path (wb_workspace b)) = Inr ws"
      "workspace_dirty_paths E ws = Inl (RecoveryError f)"
  shows "\<exists>w' c. recover_binding E i ''auto'' w = (Inl (RecoveryError (V_decision ''auto'')), w') \<and>
    held_at (cfg_of E) w' i c \<and> wb_status c = Suspended"
proof -
  let ?C = "cfg_of E"
  obtain cs ns w1 a1 where d: "diagnose_approval E b w = (Inr (cs, ns), w1)"
    "''dirty_workspace'' \<notin> set cs" "readable_at ?C w1 (wb_approval b) a1" "writes_only grant_kinds w w1"
    using rd by (rule diagnose_approval_returns)
  have h1: "held_at ?C w1 i b" using d(4) h by (rule held_grants)
  obtain dg where dg: "diagnose_binding_recovery E i w = (Inr dg, w1)" "dg_recommended dg = ''auto''"
    "''dirty_workspace'' \<notin> set (dg_conditions dg)"
    using d st ws by (simp add: diagnose_binding_recovery_def Let_def bindM_def catchM_def held_load [OF h]
        list_receipts_def reads_def lift_res_def diagnose_workspace_def)
  have ch: "choose_decision ''auto'' dg = Some ''auto''"
    using dg(2,3) by (simp add: choose_decision_def)
  have tr: "Suspended \<in> set (binding_transitions (Some (wb_status b)))" using st by simp
  obtain c w2 where c: "transition_binding_status E i ''suspended''
        (Some ''recover:suspend_active_after_restart'') None w1 = (Inr c, w2)"
    "held_at ?C w2 i c" "wb_status c = Suspended" "binding_follows b c"
    using transition_held [OF h1 tr] by (metis binding_status_text.simps(5))
  have ap: "wb_approval c = wb_approval b" "wb_workspace c = wb_workspace b"
    using c(4) by (auto simp: binding_follows_def)
  have "readable_at ?C w2 (wb_approval c) a1"
    unfolding ap(1) using transition_binding_effect(2) [OF c(1)] d(3) by (rule readable_bindings)
  then obtain a2 w3 where a2: "load_approval E (wb_approval c) None True True w2 = (Inr a2, w3)"
    by (rule load_again)
  have ld: "recover_load E i w1 = (Inr (c, Some a2), w3)"
    using st c(1) a2 by (simp add: recover_load_def bindM_def catchM_def held_load [OF h1] raise_if_def ret_def)
  have "decision_outcome ''auto'' = None" by code_simp
  then have "recover_binding E i ''auto'' w = (Inl (RecoveryError (V_decision ''auto'')), w3)"
    using dg(1) ch ld ws(1) ap(2) by (simp add: recover_binding_def bindM_def lift_res_def throw_def)
  moreover have "held_at ?C w3 i c"
    using keepsD [OF writes_load_approval a2] c(2) by (rule held_grants)
  ultimately show ?thesis using c(3) by blast
qed

subsection \<open>Enforcement without the approval\<close>

text \<open>
  The checkpoint and the scope survive a missing approval, but it is loaded a third time
  outside of every handler: no receipt is written and the binding stays live.
\<close>

lemma load_missing:
  assumes "py_strip ref \<noteq> []" "file_at w (record_path (approvals_dir (cfg_of E)) (py_strip ref)) = None"
  shows "load_approval E ref now ttl persist w = (Inl (ApprovalError (A_not_found (py_strip ref))), w)"
  using assms by (simp add: load_approval_def Let_def read_json_def bindM_def reads_def throw_def)

lemma enforce_missing_approval:
  assumes h: "held_at (cfg_of E) w i b" and live: "binding_live b" and ap: "py_strip (wb_approval b) \<noteq> []"
    and none: "file_at w (record_path (approvals_dir (cfg_of E)) (py_strip (wb_approval b))) = None"
    and ws: "full_path E (binding_workspace b (eq_workspace q)) = Inr ws" and ch: "eq_changed q = []"
  shows "\<exists>w'. enforce_write_scope_mutations E i q w =
      (Inl (ApprovalError (A_not_found (py_strip (wb_approval b)))), w') \<and>
    held_at (cfg_of E) w' i b \<and> same_files w w'"
proof -
  let ?e = "ApprovalError (A_not_found (py_strip (wb_approval b)))"
  obtain t w1 where t: "text_or_now E (eq_evaluated q) w = (Inr t, w1)"
    by (cases "text_or_now E (eq_evaluated q) w"; cases "fst (text_or_now E (eq_evaluated q) w)")
      (auto simp: op_simps utc_now_iso_def now_utc_def text_or_now_def split: option.splits if_splits)
  have sf: "same_files w w1" using quiet_text_or_now t by (rule keepsD)
  have none1: "file_at w1 (record_path (approvals_dir (cfg_of E)) (py_strip (wb_approval b))) = None"
    using none same_files_at [OF sf] by simp
  note ld = load_missing [OF ap none1]
  have ck: "check_authority_checkpoint E b (Some ws) True (eq_now q) w1 =
      (Inr (Some (''write_scope_revoked'', exn_text ?e)), w1)"
    using live by (simp add: check_authority_checkpoint_def bindM_def catchM_def ld ret_def)
  obtain scope where sc: "enforcement_scope E b w1 = (Inr scope, w1)"
    by (simp add: enforcement_scope_def load_scope_roots_for_binding_def bindM_def catchM_def ld throw_def ret_def
        is_approval_error_def is_enforcement_error_def)
  have cl: "classify_changed_paths E (filter (\<lambda>t. t \<noteq> []) (map py_strip (eq_changed q))) scope = Inr ([], [])"
    by (simp add: ch classify_changed_paths_def)
  obtain v where jd: "judge_mutations E q ws (Some (''write_scope_revoked'', exn_text ?e)) [] [] w1 = (Inr v, w1)"
    by (simp add: judge_mutations_def Let_def ret_def)
  have "enforce_write_scope_mutations E i q w = (Inl ?e, w1)"
    using t ws ck sc cl jd settle_authority_raises [OF ld]
    by (simp add: enforce_write_scope_mutations_def bindM_def held_load [OF h] lift_res_def)
  with sf held_quiet [OF sf h] show ?thesis by blast
qed

text \<open>The sample installation after its approval file was lost, and a request without changes.\<close>

definition orphan_world :: world where
  "orphan_world = demo_world\<lparr>files :=
     [([''b'', demo_id ''wsb-'' @ ''.json''], Parsed (binding_json demo_binding))]\<rparr>"

definition idle_request :: enforce_request where
  "idle_request = \<lparr>eq_changed = [], eq_runner_failed = False, eq_runner_stop = None, eq_workspace = None,
     eq_restore = True, eq_evaluated = None, eq_now = None\<rparr>"

lemma orphan_held: "held_at demo_cfg orphan_world (demo_id ''wsb-'') demo_binding"
proof -
  have "binding_at demo_cfg orphan_world p =
      (if p = [''b'', demo_id ''wsb-'' @ ''.json''] then Some demo_binding else None)" for p
    by (simp add: stored_def file_at_def orphan_world_def verify_binding_json [OF demo_binding_ok])
  then show ?thesis
    by (simp add: held_at_def in_place_def demo_clean demo_dirs demo_path)
      (simp add: demo_binding_def)
qed

lemma orphan_missing:
  "file_at orphan_world (record_path (approvals_dir demo_cfg) (py_strip (wb_approval demo_binding))) = None"
  by (simp add: file_at_def orphan_world_def demo_dirs demo_clean demo_path demo_binding_def)

subsection \<open>Names a scope cannot tell apart\<close>

text \<open>
  A POSIX file name may contain a backslash. The scope reports it with slashes, so the file
  \<open>docs\guide\<close> next to the directory \<open>docs\<close> has the name of the file \<open>guide\<close> in it: out
  of scope alone, it disappears behind the other.
\<close>

definition docs_scope :: scope_roots where
  "docs_scope = \<lparr>sr_workspace = (''/'', [''w'']), sr_allowed = [(''/'', [''w'', ''docs''])], sr_denied = []\<rparr>"

definition sly_name :: string where
  "sly_name = ''docs'' @ [CHR 0x5C] @ ''guide''"

lemma sly_name_hidden:
  "classify_changed_paths demo_env [sly_name] docs_scope = Inr ([], [''docs/guide''])"
  "classify_changed_paths demo_env [''docs/guide'', sly_name] docs_scope = Inr ([''docs/guide''], [])"
  by code_simp+

end
