(* ===== verification/Contracts.thy ===== *)
theory Contracts
  imports Corner_Cases
begin

section \<open>Contracts of the gates\<close>

text \<open>
  What each gate of the authority promises when it returns, stated over the worlds before and
  after the call.
\<close>

subsection \<open>Granting\<close>

text \<open>
  A grant: the operator is named, the proposal is stored, and the approval is of that proposal
  and expires the parsed duration after its start. It is new and approved, or was there before.
\<close>

definition grant_contract ::
  "cfg \<Rightarrow> string \<Rightarrow> string \<Rightarrow> string \<Rightarrow> string \<Rightarrow> world \<Rightarrow> approval \<Rightarrow> world \<Rightarrow> bool" where
  "grant_contract C pid ttl who prov w a w' \<longleftrightarrow>
     (\<exists>p d start.
        proposal_at C w (record_path (proposals_dir C) (py_strip pid)) = Some p \<and>
        py_strip prov = ''operator_asserted'' \<and>
        assert_operator_identity who ''approved_by'' = Inr (wa_by a) \<and>
        parse_ttl_duration ttl = Inr d \<and> parse_iso_utc C (wa_at a) = Inr start \<and>
        wa_expires a = stamp (start + int d * 1000000) \<and>
        wa_proposal a = wp_id p \<and> wa_hash a = wp_hash p \<and>
        approval_at C w' (approval_path C (wa_id a)) = Some a \<and>
        (approval_at C w (approval_path C (wa_id a)) = Some a \<or>
           wa_status a = Approved \<and> wa_body a = wp_body p \<and> wa_run a = wp_run p))"

lemma grant_meets:
  "triple (\<lambda>s. s = w) (approve_proposal E pid ttl who src prov at now)
     (grant_contract (cfg_of E) pid ttl who prov w) (\<lambda>e w'. same_files w w')"
proof (rule tripleI)
  fix s a w'
  assume "s = w" "approve_proposal E pid ttl who src prov at now s = (Inr a, w')"
  then have run: "approve_proposal E pid ttl who src prov at now w = (Inr a, w')" by simp
  show "grant_contract (cfg_of E) pid ttl who prov w a w'"
    unfolding grant_contract_def by (rule approve_proposal_Inr [OF run]) blast
qed (auto dest: approve_proposal_Inl)

subsection \<open>Binding\<close>

text \<open>
  What the gates of a bind ask of the request, the body and the worktree, said without the
  functions that check it: the workspace is the one the manifest names for the target, or the one
  given; a root names a place that really lies below the workspace.
\<close>

definition names_workspace :: "string \<Rightarrow> json \<Rightarrow> string \<Rightarrow> bool" where
  "names_workspace target repo p \<longleftrightarrow>
     p \<noteq> [] \<and> (\<exists>r. repo = JObj r \<and> text_field r ''target_id'' = target \<and> text_field r ''path'' = p)"

definition repos_of :: "json \<Rightarrow> json list" where
  "repos_of manifest =
     (case manifest of JObj m \<Rightarrow> (case jget m ''repos'' of JArr rs \<Rightarrow> rs | _ \<Rightarrow> []) | _ \<Rightarrow> [])"

definition chosen_workspace :: "env \<Rightarrow> bind_request \<Rightarrow> string \<Rightarrow> ppath \<Rightarrow> bool" where
  "chosen_workspace E q target ws \<longleftrightarrow>
     (\<exists>before repo after p. repos_of (br_manifest q) = before @ repo # after \<and>
        names_workspace target repo p \<and> full_path E (py_path p) = Inr ws \<and>
        (\<forall>other \<in> set (before @ after). \<forall>p'. \<not> names_workspace target other p')) \<or>
     (\<forall>repo \<in> set (repos_of (br_manifest q)). \<forall>p'. \<not> names_workspace target repo p') \<and>
     (\<exists>p. br_workspace q = Some p \<and> full_path E p = Inr ws \<and> is_dir E ws)"

definition root_admitted :: "env \<Rightarrow> ppath \<Rightarrow> string \<Rightarrow> string \<Rightarrow> bool" where
  "root_admitted E root raw t \<longleftrightarrow>
     (let rel = py_strip raw in
      rel \<noteq> [] \<and> \<not> starts_with rel ''/'' \<and> \<not> starts_with rel ''~'' \<and> ''..'' \<notin> set (snd (py_path rel)) \<and>
      (\<exists>p. realpath E (path_join root (py_path rel)) = Some p \<and> under p root \<and> t = py_strip (path_str p)))"

definition workspace_of :: "string \<Rightarrow> json \<Rightarrow> string list" where
  "workspace_of target repo =
     (case repo of
        JObj r \<Rightarrow>
          if text_field r ''target_id'' \<noteq> target \<or> text_field r ''path'' = [] then [] else [text_field r ''path'']
      | _ \<Rightarrow> [])"

lemma workspace_of_iff:
  "workspace_of target repo = [p] \<longleftrightarrow> names_workspace target repo p"
  "workspace_of target repo = [] \<longleftrightarrow> (\<forall>p. \<not> names_workspace target repo p)"
  "length (workspace_of target repo) \<le> 1"
  by (cases repo; auto simp: workspace_of_def names_workspace_def)+

lemma manifest_matches_alt: "manifest_matches m target = concat (map (workspace_of target) (repos_of m))"
  by (auto simp: manifest_matches_def repos_of_def workspace_of_def [abs_def] split: json.split)

lemma concat_single:
  "concat (map f xs) = [y] \<Longrightarrow> (\<And>x. length (f x) \<le> 1) \<Longrightarrow>
   \<exists>pre x post. xs = pre @ x # post \<and> f x = [y] \<and> (\<forall>z \<in> set (pre @ post). f z = [])"
proof (induction xs)
  case (Cons x xs)
  show ?case
  proof (cases "f x = []")
    case True
    with Cons obtain pre z post where "xs = pre @ z # post" "f z = [y]" "\<forall>z \<in> set (pre @ post). f z = []"
      by auto
    with True show ?thesis by (intro exI [of _ "x # pre"] exI [of _ z] exI [of _ post]) auto
  next
    case False
    with Cons.prems have "f x = [y]" "\<forall>z \<in> set xs. f z = []"
      by (cases "f x"; auto)+
    then show ?thesis by (intro exI [of _ "[]"]) auto
  qed
qed simp

lemma workspace_chosen:
  assumes "resolve_workspace_for_target E target wsp manifest = Inr ws" "py_strip target = target"
    "br_workspace q = wsp" "br_manifest q = manifest"
  shows "chosen_workspace E q target ws"
proof -
  from assms(1,2) obtain ps where ps: "mapR (\<lambda>t. full_path E (py_path t)) (manifest_matches manifest target) = Inr ps"
    and d: "(case ps of [m] \<Rightarrow> Inr m
      | _ # _ \<Rightarrow> Inl (BindingError (B_workspace_ambiguous target))
      | [] \<Rightarrow> (case wsp of Some p \<Rightarrow> bindR (full_path E p) (\<lambda>path.
               if is_dir E path then Inr path else Inl (BindingError (B_not_dir (path_str path))))
           | None \<Rightarrow> Inl (BindingError (B_workspace_unresolved target)))) = Inr ws"
    by (auto simp: resolve_workspace_for_target_def Let_def bindR_Inr_iff)
  have c: "ps = [ws] \<or> ps = [] \<and> (\<exists>p. wsp = Some p \<and> full_path E p = Inr ws \<and> is_dir E ws)"
    using d by (cases ps; cases "tl ps") (auto simp: bindR_Inr_iff split: option.splits if_splits)
  from c show ?thesis
  proof
    assume "ps = [ws]"
    with ps obtain t where t: "manifest_matches manifest target = [t]" "full_path E (py_path t) = Inr ws"
      by (auto simp: mapR_Inr_iff list_all2_Cons2)
    then obtain pre repo post where r: "repos_of manifest = pre @ repo # post" "workspace_of target repo = [t]"
      "\<forall>z \<in> set (pre @ post). workspace_of target z = []"
      using concat_single [of "workspace_of target" "repos_of manifest" t] workspace_of_iff(3)
      unfolding manifest_matches_alt by blast
    with t(2) assms(4) show ?thesis
      unfolding chosen_workspace_def workspace_of_iff(1) workspace_of_iff(2) by blast
  next
    assume e: "ps = [] \<and> (\<exists>p. wsp = Some p \<and> full_path E p = Inr ws \<and> is_dir E ws)"
    with ps have "manifest_matches manifest target = []" by (auto simp: mapR_Inr_iff)
    then have "\<forall>repo \<in> set (repos_of manifest). workspace_of target repo = []"
      by (simp add: manifest_matches_alt)
    with e assms(3,4) show ?thesis unfolding chosen_workspace_def workspace_of_iff(2) by blast
  qed
qed

lemma roots_admitted:
  assumes "resolve_repo_relative_roots E raws ws field ne = Inr us" "full_path E ws = Inr root"
  shows "list_all2 (root_admitted E root) raws (map py_strip us)"
proof -
  from assms have us: "mapR (resolve_repo_relative_root E root field) raws = Inr us"
    by (auto simp: resolve_repo_relative_roots_def bindR_Inr_iff)
  have "root_admitted E root raw (py_strip u)" if "resolve_repo_relative_root E root field raw = Inr u" for raw u
    using that
    by (auto simp: resolve_repo_relative_root_def root_admitted_def Let_def bindR_Inr_iff resolve_path_def
        relative_to_None split: option.splits if_splits)
  with us show ?thesis by (auto simp: mapR_Inr_iff list_all2_conv_all_nth)
qed

text \<open>
  A bind: its approval is approved and was read before its expiry; the target asked for is the
  body's, the capability is there when it is required, HEAD of the workspace is the base commit,
  and every root of the body lies in it; no live binding held the target and no blocking one the
  reference. The binding returned is stored for this run. It is new, active and over these roots,
  or one with the same identifier that had failed or been revoked before.
\<close>

definition bind_contract ::
  "env \<Rightarrow> string \<Rightarrow> bind_request \<Rightarrow> world \<Rightarrow> bind_gate \<Rightarrow> world \<Rightarrow> bool" where
  "bind_contract E i q w g w' \<longleftrightarrow>
     (let C = cfg_of E; a = bg_approval g; b = bg_binding g; body = wa_body a in
      approval_at C w' (record_path (approvals_dir C) (py_strip i)) = Some a \<and> wa_status a = Approved \<and>
      (\<exists>n x. parse_iso_utc C (wa_expires a) = Inr x \<and> clock E n < x) \<and>
      (\<forall>t. br_target q = Some t \<longrightarrow> py_strip t = target_id body) \<and>
      (br_require q \<longrightarrow> (\<exists>c \<in> set (br_caps q). py_strip c = ''bounded_write'')) \<and>
      bg_target g = target_id body \<and> bg_sha g = base_sha body \<and>
      bg_writable g = wb_writable b \<and> bg_denied g = wb_denied b \<and>
      (\<exists>ws root out err writable denied.
         chosen_workspace E q (target_id body) ws \<and> bg_workspace g = path_str ws \<and>
         full_path E ws = Inr root \<and> is_dir E root \<and>
         rev_parse E root = Proc 0 out err \<and> py_lower (py_strip out) = base_sha body \<and>
         list_all2 (root_admitted E root) (allowed_roots body) writable \<and>
         list_all2 (root_admitted E root) (denied_roots body) denied \<and>
         (binding_at C w (binding_path C (wb_id b)) = None \<longrightarrow> wb_writable b = writable \<and> wb_denied b = denied)) \<and>
      (\<forall>p c. binding_at C w p = Some c \<longrightarrow> wb_approval c = py_strip i \<longrightarrow> \<not> approval_blocking (wb_status c)) \<and>
      (\<forall>p c. binding_at C w p = Some c \<longrightarrow> wb_target c = bg_target g \<longrightarrow> \<not> binding_live c) \<and>
      binding_at C w' (binding_path C (wb_id b)) = Some b \<and>
      wb_approval b = py_strip i \<and> wb_run b = py_strip (br_run q) \<and> wb_target b = bg_target g \<and>
      (wb_status b = Active \<and> binding_at C w (binding_path C (wb_id b)) = None \<and>
         wb_hash b = wa_hash a \<and> wb_sha b = bg_sha g \<and> wb_workspace b = py_strip (bg_workspace g) \<or>
       wb_status b \<in> set [Failed, Binding_revoked] \<and>
         binding_at C w (binding_path C (wb_id b)) = Some b))"

lemma rev_parse_head_Inr:
  assumes "git_rev_parse_head E ws = Inr sha"
  shows "\<exists>root out err. full_path E ws = Inr root \<and> is_dir E root \<and> rev_parse E root = Proc 0 out err \<and>
    py_lower (py_strip out) = sha"
proof -
  from assms obtain root where root: "full_path E ws = Inr root" "is_dir E root"
    by (auto simp: git_rev_parse_head_def bindR_Inr_iff)
  with assms show ?thesis
    by (cases "rev_parse E root") (auto simp: git_rev_parse_head_def Let_def bindR_check split: if_splits)
qed

lemma bind_target_Inr:
  assumes "bind_target E q body = Inr ws" "frozen body"
  obtains root out err where "\<forall>t. br_target q = Some t \<longrightarrow> py_strip t = target_id body"
    "br_require q \<longrightarrow> (\<exists>c \<in> set (br_caps q). py_strip c = ''bounded_write'')"
    "chosen_workspace E q (target_id body) ws" "full_path E ws = Inr root" "is_dir E root"
    "rev_parse E root = Proc 0 out err" "py_lower (py_strip out) = base_sha body"
proof -
  have t: "py_strip (target_id body) = target_id body" and sha: "py_lower (base_sha body) = base_sha body"
    using assms(2) sha40_stable by (auto simp: frozen_def)
  from assms(1) have b: "\<forall>t. br_target q = Some t \<longrightarrow> py_strip t = target_id body"
    "br_require q \<longrightarrow> (\<exists>c \<in> set (br_caps q). py_strip c = ''bounded_write'')"
    "resolve_workspace_for_target E (target_id body) (br_workspace q) (br_manifest q) = Inr ws"
    "git_rev_parse_head E ws = Inr (base_sha body)"
    by (auto simp: bind_target_def Let_def bindR_Inr_iff bindR_check sha split: option.splits if_splits)
  from rev_parse_head_Inr [OF b(4)] obtain root out err where "full_path E ws = Inr root" "is_dir E root"
    "rev_parse E root = Proc 0 out err" "py_lower (py_strip out) = base_sha body"
    by blast
  with b workspace_chosen [OF b(3) t refl refl] show thesis by (intro that)
qed

lemma bind_gates:
  assumes run: "create_binding E i q w = (Inr g, w')" and pb: "bindings_placed (cfg_of E) w"
  shows "\<forall>t. br_target q = Some t \<longrightarrow> py_strip t = target_id (wa_body (bg_approval g))"
    and "br_require q \<longrightarrow> (\<exists>c \<in> set (br_caps q). py_strip c = ''bounded_write'')"
    and "bg_writable g = wb_writable (bg_binding g)" "bg_denied g = wb_denied (bg_binding g)"
    and "\<exists>ws root out err writable denied.
      chosen_workspace E q (target_id (wa_body (bg_approval g))) ws \<and> bg_workspace g = path_str ws \<and>
      full_path E ws = Inr root \<and> is_dir E root \<and>
      rev_parse E root = Proc 0 out err \<and> py_lower (py_strip out) = base_sha (wa_body (bg_approval g)) \<and>
      list_all2 (root_admitted E root) (allowed_roots (wa_body (bg_approval g))) writable \<and>
      list_all2 (root_admitted E root) (denied_roots (wa_body (bg_approval g))) denied \<and>
      (binding_at (cfg_of E) w (binding_path (cfg_of E) (wb_id (bg_binding g))) = None \<longrightarrow>
         wb_writable (bg_binding g) = writable \<and> wb_denied (bg_binding g) = denied)"
proof -
  let ?C = "cfg_of E" and ?b = "bg_binding g"
  obtain body ws w1 where c: "bind_approval E (py_strip i) w = (Inr (bg_approval g, body), w1)"
    "bind_target E q body = Inr ws"
    "bind_record E q (py_strip i) (py_strip (br_run q)) (bg_approval g) body ws w1 = (Inr ?b, w')"
    "bg_writable g = wb_writable ?b" "bg_denied g = wb_denied ?b" "bg_workspace g = path_str ws"
    using run by (rule create_binding_Inr)
  have body: "frozen body" "body = wa_body (bg_approval g)" using bind_approval_frozen [OF c(1)] by auto
  obtain root out err where t: "\<forall>t. br_target q = Some t \<longrightarrow> py_strip t = target_id body"
    "br_require q \<longrightarrow> (\<exists>c \<in> set (br_caps q). py_strip c = ''bounded_write'')"
    "chosen_workspace E q (target_id body) ws" "full_path E ws = Inr root" "is_dir E root"
    "rev_parse E root = Proc 0 out err" "py_lower (py_strip out) = base_sha body"
    using c(2) body(1) by (rule bind_target_Inr)
  obtain wr dn where rs: "resolve_writable_roots E (allowed_roots body) ws = Inr wr"
    "resolve_denied_roots E (denied_roots body) ws = Inr dn"
    using c(3) by (rule bind_record_Inr)
  note ad = roots_admitted [OF rs(1) [unfolded resolve_writable_roots_def] t(4)]
    roots_admitted [OF rs(2) [unfolded resolve_denied_roots_def] t(4)]
  have "writes_only grant_kinds w w1" using bind_approval_rules(2) c(1) by (rule keepsD)
  then have same: "binding_at ?C w1 p = binding_at ?C w p" for p
    by (rule bindings.stored_other_kinds [OF _ _ pb]) (auto simp: apart_def)
  have "bindings_placed ?C w1" using pb unfolding in_place_def same .
  note o = bind_record_outcome(7) [OF c(3) this, unfolded same]
  have new: "binding_at ?C w (binding_path ?C (wb_id ?b)) = None \<longrightarrow>
      wb_writable ?b = map py_strip wr \<and> wb_denied ?b = map py_strip dn"
    using o rs by auto
  show "\<forall>t. br_target q = Some t \<longrightarrow> py_strip t = target_id (wa_body (bg_approval g))"
    "br_require q \<longrightarrow> (\<exists>c \<in> set (br_caps q). py_strip c = ''bounded_write'')"
    "bg_writable g = wb_writable ?b" "bg_denied g = wb_denied ?b"
    using t(1,2) c(4,5) unfolding body(2) .
  show "\<exists>ws root out err writable denied.
      chosen_workspace E q (target_id (wa_body (bg_approval g))) ws \<and> bg_workspace g = path_str ws \<and>
      full_path E ws = Inr root \<and> is_dir E root \<and>
      rev_parse E root = Proc 0 out err \<and> py_lower (py_strip out) = base_sha (wa_body (bg_approval g)) \<and>
      list_all2 (root_admitted E root) (allowed_roots (wa_body (bg_approval g))) writable \<and>
      list_all2 (root_admitted E root) (denied_roots (wa_body (bg_approval g))) denied \<and>
      (binding_at ?C w (binding_path ?C (wb_id ?b)) = None \<longrightarrow> wb_writable ?b = writable \<and> wb_denied ?b = denied)"
    by (intro exI conjI) (fact c(6) t(3-7) [unfolded body(2)] ad [unfolded body(2)] new)+
qed

lemma bind_meets:
  "triple (\<lambda>s. s = w \<and> approvals_placed (cfg_of E) s \<and> bindings_placed (cfg_of E) s)
     (create_binding E i q) (bind_contract E i q w) (\<lambda>e w'. authority_evolves (cfg_of E) w w')"
proof (rule tripleI)
  fix s g w'
  assume "s = w \<and> approvals_placed (cfg_of E) s \<and> bindings_placed (cfg_of E) s"
    and run: "create_binding E i q s = (Inr g, w')"
  then have s: "s = w" "approvals_placed (cfg_of E) s" "bindings_placed (cfg_of E) s" by auto
  let ?C = "cfg_of E" and ?b = "bg_binding g"
  note c = create_binding_checks [OF run s(2,3)] and gates = bind_gates [OF run s(3)]
  have free: "\<forall>p d. binding_at ?C s p = Some d \<longrightarrow> wb_approval d = py_strip i \<longrightarrow> \<not> approval_blocking (wb_status d)"
    "\<forall>p d. binding_at ?C s p = Some d \<longrightarrow> wb_target d = bg_target g \<longrightarrow> \<not> binding_live d"
    using c(7,8) by blast+
  have last_step: "wb_status ?b = Active \<and> binding_at ?C s (binding_path ?C (wb_id ?b)) = None \<and>
      wb_hash ?b = wa_hash (bg_approval g) \<and> wb_sha ?b = bg_sha g \<and> wb_workspace ?b = py_strip (bg_workspace g) \<or>
    wb_status ?b \<in> set [Failed, Binding_revoked] \<and> binding_at ?C s (binding_path ?C (wb_id ?b)) = Some ?b"
    using c(13) by simp
  show "bind_contract E i q w g w'"
    unfolding bind_contract_def Let_def s(1) [symmetric]
    by (intro conjI) (fact c gates free last_step)+
qed (auto dest: create_binding_Inl)

subsection \<open>Checkpoints\<close>

text \<open>A checkpoint without a stop reason: live binding, approved and unexpired, HEAD unmoved.\<close>

definition checkpoint_contract ::
  "env \<Rightarrow> binding \<Rightarrow> ppath option \<Rightarrow> bool \<Rightarrow> (string \<times> string) option \<Rightarrow> world \<Rightarrow> bool" where
  "checkpoint_contract E b ws sha stop w' \<longleftrightarrow>
     (stop = None \<longrightarrow>
        binding_live b \<and>
        (\<exists>a n x. approval_at (cfg_of E) w' (record_path (approvals_dir (cfg_of E)) (py_strip (wb_approval b))) = Some a \<and>
           wa_status a = Approved \<and> parse_iso_utc (cfg_of E) (wa_expires a) = Inr x \<and> clock E n < x) \<and>
        (sha \<longrightarrow> git_rev_parse_head E (binding_workspace b ws) = Inr (py_lower (wb_sha b))))"

lemma checkpoint_meets:
  "triple (\<lambda>s. approvals_placed (cfg_of E) s) (check_authority_checkpoint E b ws sha now)
     (checkpoint_contract E b ws sha) (\<lambda>e w'. True)"
proof (rule tripleI)
  fix w stop w'
  let ?C = "cfg_of E"
  assume pl: "approvals_placed ?C w" and run: "check_authority_checkpoint E b ws sha now w = (Inr stop, w')"
  show "checkpoint_contract E b ws sha stop w'"
    unfolding checkpoint_contract_def
  proof
    assume n: "stop = None"
    have live: "binding_live b" using run unfolding n by (rule checkpoint_live)
    from run n live obtain a w1 w2 where
      ld: "load_approval E (wb_approval b) now True True w = (Inr a, w1)" and st: "wa_status a = Approved" and
      ac: "is_approval_active E (approval_json a) None w1 = (Inr True, w2)" and
      rest: "\<not> sha \<and> w' = w2 \<or> git_rev_parse_head E (binding_workspace b ws) = Inr (py_lower (wb_sha b)) \<and> w' = w2"
      by (auto simp: check_authority_checkpoint_def bindM_def catchM_def ret_def lift_res_def
          split: prod.splits sum.splits if_splits approval_status.splits option.splits)
    obtain c where c: "evaluate_expiry E None False a w1 = (Inr c, w2)" "wa_status c = Approved"
      using ac verify_approval_json [OF load_approval_ok [OF ld]]
      by (auto simp: is_approval_active_def verify_approval_record_def op_simps)
    note sa = still_approved [OF c]
    note l = load_approval_stored [OF ld pl]
    have "approval_at ?C w2 (approval_path ?C (wa_id a)) = Some a"
      using l(1) unfolding same_files_stored [OF sa(2)] .
    then show "binding_live b \<and>
        (\<exists>a n x. approval_at ?C w' (record_path (approvals_dir ?C) (py_strip (wb_approval b))) = Some a \<and>
           wa_status a = Approved \<and> parse_iso_utc ?C (wa_expires a) = Inr x \<and> clock E n < x) \<and>
        (sha \<longrightarrow> git_rev_parse_head E (binding_workspace b ws) = Inr (py_lower (wb_sha b)))"
      using live rest st sa(3) l(6) by auto
  qed
qed simp

subsection \<open>Expiry, revocation, transitions\<close>

lemma expiry_at:
  assumes "wa_status a = Approved" "parse_iso_utc (cfg_of E) (wa_expires a) = Inr x"
  shows "\<exists>w'. evaluate_expiry E (Some t) persist a w =
      (Inr (if t < x then a else a\<lparr>wa_status := Expired\<rparr>), w')"
proof -
  have "readable (cfg_of E) a" using assms by (simp add: readable_def)
  then obtain b w' where b: "evaluate_expiry E (Some t) persist a w = (Inr b, w')"
    by (rule evaluate_expiry_returns)
  then have "b = (if t < x then a else a\<lparr>wa_status := Expired\<rparr>)"
    using assms by (auto elim!: evaluate_expiry_cases simp: given_or_now_def ret_def)
  with b show ?thesis by blast
qed

lemma revoke_revoked:
  assumes run: "revoke_approval E i why who prov at now w = (r, w')"
    and a: "approval_at (cfg_of E) w (record_path (approvals_dir (cfg_of E)) (py_strip i)) = Some a"
      "wa_status a = Revoked"
  shows "same_files w w'"
    and "r = Inr (c, rv, again) \<Longrightarrow> again \<and> c = a \<and>
      stored verify_revocation_record (cfg_of E) w
        (record_path (revocations_dir (cfg_of E)) (py_strip (the (wa_revocation a)))) = Some rv"
proof -
  have ld: "c = a \<and> w1 = w" if "load_approval E i now True True w = (Inr c, w1)" for c w1
    using that a by (auto simp: load_approval_Inr evaluate_expiry_def ret_def)
  have ap: "approval_ok (cfg_of E) a" using a(1) by (rule approval_at_ok)
  have le: "w1 = w" if "load_approval E i now True True w = (Inl e, w1)" for e w1
    using load_approval_Inl [OF that] a by (auto simp: evaluate_expiry_def ret_def)
  have "same_files w w' \<and> (\<forall>v. r = Inr v \<longrightarrow> (case v of (c, rv, again) \<Rightarrow> again \<and> c = a \<and>
      stored verify_revocation_record (cfg_of E) w
        (record_path (revocations_dir (cfg_of E)) (py_strip (the (wa_revocation a)))) = Some rv))"
    using run
  proof (cases rule: revoke_approval_cases)
    case (again c w1 u)
    then have c: "c = a" "w1 = w" using ld by blast+
    have "same_files w w'" using quiet_revoke_again again(3) unfolding c by (rule keepsD)
    moreover have "case u of (c, rv, again) \<Rightarrow> again \<and> c = a \<and>
        stored verify_revocation_record (cfg_of E) w
          (record_path (revocations_dir (cfg_of E)) (py_strip (the (wa_revocation a)))) = Some rv"
      using again(3) ap a(2) unfolding c
      by (auto simp: revoke_again_def load_revocation_def Let_def read_json_def op_simps stored_def approval_ok_def
          split: option.splits rec_file.splits if_splits)
    ultimately show ?thesis using again(4) by auto
  qed (use ld le a in \<open>auto simp: quiet.order_refl\<close>)
  then show "same_files w w'" and "r = Inr (c, rv, again) \<Longrightarrow> again \<and> c = a \<and>
      stored verify_revocation_record (cfg_of E) w
        (record_path (revocations_dir (cfg_of E)) (py_strip (the (wa_revocation a)))) = Some rv"
    by auto
qed

text \<open>A stored binding takes a status exactly when its lifecycle allows it.\<close>

definition moved_to ::
  "binding \<Rightarrow> binding_status \<Rightarrow> string option \<Rightarrow> string option \<Rightarrow> binding \<Rightarrow> bool" where
  "moved_to b t why at v \<longleftrightarrow>
     (\<exists>x. v = b\<lparr>wb_status := t, wb_terminal_at := Some (py_strip x),
                 wb_reason := (case why of None \<Rightarrow> wb_reason b | Some s \<Rightarrow> Some s)\<rparr> \<and>
          (\<forall>s. at = Some s \<longrightarrow> s \<noteq> [] \<longrightarrow> x = s))"

lemma transition_exact:
  assumes ld: "load_binding E i w = (Inr b, w)"
    and run: "transition_binding_status E i (binding_status_text t) why at w = (r, w')"
  shows "if t \<in> set (binding_transitions (Some (wb_status b)))
    then \<exists>v. r = Inr v \<and> moved_to b t why at v \<and>
      binding_at (cfg_of E) w' (binding_path (cfg_of E) (wb_id b)) = Some v \<and>
      same_files (write_file (binding_path (cfg_of E) (wb_id b)) (binding_json v) w) w'
    else (\<exists>e. r = Inl e) \<and> same_files w w'"
proof (cases "t \<in> set (binding_transitions (Some (wb_status b)))")
  case True
  have t: "binding_status_of (py_strip (binding_status_text t)) = Some t" by simp
  obtain v where v: "r = Inr v" "moved_to b t why at v" "wb_id v = wb_id b" "binding_ok (cfg_of E) v"
    "same_files (write_file (record_path (bindings_dir (cfg_of E)) (wb_id v)) (binding_json v) w) w'"
    by (rule transition_binding_moves [OF ld t True, of why at]) (use run in \<open>auto simp: moved_to_def\<close>)
  note ok = verify_binding_json [OF v(4)]
  have "binding_at (cfg_of E) w' (binding_path (cfg_of E) (wb_id v)) = Some v"
    using v(5) ok by (simp add: same_files_stored bindings.record_path_id [OF ok] stored_write)
  with True v bindings.record_path_id [OF ok] show ?thesis by simp
next
  case False
  from run False ld show ?thesis by (cases rule: transition_binding_cases) auto
qed

subsection \<open>Listing\<close>

lemma sorted_sort_key: "sorted (map f (sort_key f xs))"
  by simp

lemma list_bindings_meets:
  "triple (\<lambda>s. s = w \<and> bindings_placed (cfg_of E) s) (list_bindings E a r t st)
     (\<lambda>bs w'. w' = w \<and> sorted (map (\<lambda>b. (wb_bound_at b, wb_id b)) bs) \<and>
        set bs = {b. binding_at (cfg_of E) w (binding_path (cfg_of E) (wb_id b)) = Some b \<and>
                    binding_matches a r t st b})
     (\<lambda>e w'. False)"
  by (rule tripleI) (auto simp: list_bindings_run mem_bindings_in, simp_all add: list_bindings_def reads_def)

subsection \<open>Proposals\<close>

lemma save_again:
  assumes "save_proposal E j w = (Inr p, w')"
  shows "save_proposal E (proposal_json p) w' = (Inr p, w')"
proof -
  let ?C = "cfg_of E"
  have s: "stored verify_proposal_record ?C w' (record_path (proposals_dir ?C) (wp_id p)) = Some p"
    using assms by (rule save_proposal_stored)
  have v: "verify_proposal_record ?C (proposal_json p) = Inr p" using s by (rule ps.stored_verified)
  have "py_strip (wp_id p) = wp_id p" "wp_id p \<noteq> []"
    using verify_proposal_Inr(3) [OF v] proposal_id_clean by simp_all
  with s v show ?thesis
    by (auto simp: save_proposal_def Let_def op_simps load_proposal_Inr stored_def split: option.splits)
qed

text \<open>A validated body for documents reaches only below \<open>docs\<close>, by plain relative paths.\<close>

lemma docs_only_reach:
  assumes "validate_approval_body j = Inr b" "docs_only b"
  shows "list_all (\<lambda>r. path_is_under_docs r \<and> safe_scope_path r) (allowed_roots b)"
proof -
  have f: "frozen b" using validate_body_Inr [OF assms(1)] by simp
  have "filter (\<lambda>r. \<not> path_is_under_docs r) (allowed_roots b) = []"
    using assms by (auto simp: validate_approval_body_def split: option.splits if_splits)
  moreover have "safe_scope_path r" if "r \<in> set (allowed_roots b)" for r
  proof -
    have "normalize_scope_path r = Some r"
      using f that by (auto simp: frozen_def normalize_roots_map)
    then show ?thesis by (rule normalize_scope_path_safe)
  qed
  ultimately show ?thesis by (auto simp: list_all_iff filter_empty_conv)
qed

subsection \<open>Round trips\<close>

lemma bindR_same: "(\<And>r. x = Inr r \<Longrightarrow> f r = Inr r) \<Longrightarrow> bindR x f = x"
  by (cases x) simp_all

subsection \<open>Restoring\<close>

text \<open>
  What is done for a requested name, given what was done before: a name git tracks is handed to
  \<open>git restore\<close> when it is dirty; any other is removed at its place below the root.
\<close>

definition restore_step :: "env \<Rightarrow> ppath \<Rightarrow> string \<Rightarrow> restore_act list \<Rightarrow> restore_act \<Rightarrow> bool" where
  "restore_step E root rel earlier a \<longleftrightarrow>
     (case a of
        Git_restore r spec \<Rightarrow> r = root \<and> spec = rel \<and> git_tracked E earlier root rel \<and> git_dirty E earlier root rel
      | Unlink t \<Rightarrow> t = path_join root (py_path rel) \<and> \<not> git_tracked E earlier root rel \<and>
          (is_link E t \<or> is_regular E t) \<and> \<not> list_ex (\<lambda>b. removes b t) earlier
      | Rmtree t \<Rightarrow> t = path_join root (py_path rel) \<and> \<not> git_tracked E earlier root rel \<and>
          is_dir E t \<and> \<not> is_link E t \<and> \<not> is_regular E t \<and> \<not> list_ex (\<lambda>b. removes b t) earlier)"

definition left_alone :: "env \<Rightarrow> ppath \<Rightarrow> string \<Rightarrow> restore_act list \<Rightarrow> bool" where
  "left_alone E root rel earlier \<longleftrightarrow>
     (let t = path_join root (py_path rel) in
      if git_tracked E earlier root rel then \<not> git_dirty E earlier root rel
      else list_ex (\<lambda>a. removes a t) earlier \<or> \<not> is_link E t \<and> \<not> is_regular E t \<and> \<not> is_dir E t)"

definition acts_before :: "string \<Rightarrow> (string \<times> restore_act) list \<Rightarrow> restore_act list" where
  "acts_before rel acts = map snd (filter (\<lambda>(n, _). n < rel) acts)"

text \<open>
  A restoration: every requested name is judged once, after the smaller ones; each action is the
  one its name called for, a name without an action called for none, and the names with an action
  are reported in order. No record file is touched.
\<close>

definition restore_contract :: "env \<Rightarrow> ppath \<Rightarrow> string list \<Rightarrow> world \<Rightarrow> string list \<Rightarrow> world \<Rightarrow> bool" where
  "restore_contract E ws paths w rs w' \<longleftrightarrow>
     same_files w w' \<and>
     (\<exists>root acts.
        full_path E ws = Inr root \<and> restores w' = restores w @ map snd acts \<and>
        rs = map fst acts \<and> sorted rs \<and> distinct rs \<and> set rs \<subseteq> set (map py_strip paths) - {[]} \<and>
        (\<forall>(rel, a) \<in> set acts. restore_step E root rel (acts_before rel acts) a) \<and>
        (\<forall>rel \<in> set (map py_strip paths) - {[]} - set rs. left_alone E root rel (acts_before rel acts)))"

lemma restore_one_run:
  assumes "restore_one E root rel acts w = (Inr acts', w')"
  obtains (act) a where "acts' = acts @ [(rel, a)]" "restores w' = restores w @ [a]"
      "restore_step E root rel (map snd acts) a"
    | (idle) "acts' = acts" "restores w' = restores w" "left_alone E root rel (map snd acts)"
proof -
  have ex: "list_ex (\<lambda>(_, a). removes a t) acts = list_ex (\<lambda>a. removes a t) (map snd acts)" for t
    by (simp add: list_ex_iff split_def)
  show thesis
    using assms act idle
    unfolding restore_one_def Let_def ex
    by (auto simp: bindM_def writes_def ret_def throw_def restore_step_def left_alone_def Let_def
        split: option.splits if_splits)
qed

lemma acts_before_split:
  assumes "\<forall>n \<in> set (map fst acts). n < rel" "\<forall>n \<in> set (map fst new). rel \<le> n"
  shows "acts_before rel (acts @ new) = map snd acts"
proof -
  have "filter (\<lambda>(n, _). n < rel) acts = acts" "filter (\<lambda>(n, _). n < rel) new = []"
    using assms by (auto simp: filter_id_conv filter_empty_conv)
  then show ?thesis by (simp add: acts_before_def)
qed

lemma restore_fold_run:
  assumes "foldM_op (restore_one E root) rels acts w = (Inr acts', w')"
    and "sorted_wrt (<) rels" "\<forall>n \<in> set (map fst acts). \<forall>rel \<in> set rels. n < rel"
  shows "\<exists>new. acts' = acts @ new \<and> restores w' = restores w @ map snd new \<and>
     set (map fst new) \<subseteq> set rels \<and> sorted_wrt (<) (map fst new) \<and>
     (\<forall>(rel, a) \<in> set new. restore_step E root rel (acts_before rel acts') a) \<and>
     (\<forall>rel \<in> set rels - set (map fst new). left_alone E root rel (acts_before rel acts'))"
  using assms
proof (induction rels arbitrary: acts w)
  case (Cons rel rels)
  obtain acts1 w1 where one: "restore_one E root rel acts w = (Inr acts1, w1)"
    and rest: "foldM_op (restore_one E root) rels acts1 w1 = (Inr acts', w')"
    using Cons.prems(1) by (auto simp: op_simps)
  have s: "sorted_wrt (<) rels" "\<forall>r \<in> set rels. rel < r" "\<forall>n \<in> set (map fst acts). n < rel"
    using Cons.prems(2,3) by auto
  from one show ?case
  proof (cases rule: restore_one_run)
    case (act a)
    have "\<forall>n \<in> set (map fst acts1). \<forall>r \<in> set rels. n < r"
      using act(1) s Cons.prems(3) by auto
    from Cons.IH [OF rest s(1) this] obtain new where new: "acts' = acts1 @ new"
      "restores w' = restores w1 @ map snd new" "set (map fst new) \<subseteq> set rels" "sorted_wrt (<) (map fst new)"
      "\<forall>(rel, a) \<in> set new. restore_step E root rel (acts_before rel acts') a"
      "\<forall>rel \<in> set rels - set (map fst new). left_alone E root rel (acts_before rel acts')"
      by blast
    have "acts_before rel (acts @ (rel, a) # new) = map snd acts"
      using s(2,3) new(3) by (intro acts_before_split) fastforce+
    then have "acts_before rel acts' = map snd acts" using new(1) act(1) by simp
    with new act s show ?thesis by (intro exI [of _ "(rel, a) # new"]) auto
  next
    case idle
    have "\<forall>n \<in> set (map fst acts1). \<forall>r \<in> set rels. n < r"
      using idle(1) Cons.prems(3) by auto
    from Cons.IH [OF rest s(1) this] obtain new where new: "acts' = acts1 @ new"
      "restores w' = restores w1 @ map snd new" "set (map fst new) \<subseteq> set rels" "sorted_wrt (<) (map fst new)"
      "\<forall>(rel, a) \<in> set new. restore_step E root rel (acts_before rel acts') a"
      "\<forall>rel \<in> set rels - set (map fst new). left_alone E root rel (acts_before rel acts')"
      by blast
    have "acts_before rel (acts @ new) = map snd acts"
      using s(2,3) new(3) by (intro acts_before_split) fastforce+
    with new idle show ?thesis by (intro exI [of _ new]) auto
  qed
qed (auto simp: op_simps)

lemma restore_meets:
  "triple (\<lambda>s. s = w) (restore_paths E ws paths) (restore_contract E ws paths w) (\<lambda>e w'. same_files w w')"
proof (rule tripleI)
  fix s rs w'
  let ?rels = "sort (remdups (filter (\<lambda>t. t \<noteq> []) (map py_strip paths)))"
  assume "s = w" and "restore_paths E ws paths s = (Inr rs, w')"
  then have run: "restore_paths E ws paths w = (Inr rs, w')" by simp
  then obtain root acts where r: "full_path E ws = Inr root" "foldM_op (restore_one E root) ?rels [] w = (Inr acts, w')"
    and rs: "rs = sort (uniq (map fst acts))"
    by (auto simp: restore_paths_def op_simps)
  have "sorted_wrt (<) ?rels" by (simp add: strict_sorted_iff)
  from restore_fold_run [OF r(2) this] have acts: "restores w' = restores w @ map snd acts"
    "set (map fst acts) \<subseteq> set (map py_strip paths) - {[]}" "sorted_wrt (<) (map fst acts)"
    "\<forall>(rel, a) \<in> set acts. restore_step E root rel (acts_before rel acts) a"
    "\<forall>rel \<in> set (map py_strip paths) - {[]} - set (map fst acts). left_alone E root rel (acts_before rel acts)"
    by auto
  have so: "sorted (map fst acts)" "distinct (map fst acts)" using acts(3) by (simp_all add: strict_sorted_iff)
  have "rs = map fst acts"
    unfolding rs using so by (intro sorted_distinct_set_unique) (simp_all add: set_uniq_from distinct_uniq_from)
  then show "restore_contract E ws paths w rs w'"
    using acts so r(1) keepsD [OF quiet_restore_paths run] unfolding restore_contract_def by blast
qed (auto dest: keepsD [OF quiet_restore_paths])

subsection \<open>Preparing an execution\<close>

text \<open>Naked roots never come with a binding, a binding never with naked roots.\<close>

definition prepare_contract ::
  "env \<Rightarrow> string option \<Rightarrow> string list \<Rightarrow> bind_request \<Rightarrow> world \<Rightarrow> string list \<times> binding option \<Rightarrow> world \<Rightarrow> bool" where
  "prepare_contract E approval naked q w v w' \<longleftrightarrow>
     (case v of
        (roots, None) \<Rightarrow>
          same_files w w' \<and> pred_option (\<lambda>t. py_strip t = []) approval \<and>
          roots = filter (\<lambda>t. t \<noteq> []) (map py_strip naked)
      | (roots, Some b) \<Rightarrow>
          list_all (\<lambda>t. py_strip t = []) naked \<and>
          (\<exists>i g. approval = Some i \<and> create_binding E (py_strip i) (q\<lparr>br_bound_at := None\<rparr>) w = (Inr g, w') \<and>
             roots = bg_writable g \<and> b = bg_binding g))"

lemma prepare_meets:
  "triple (\<lambda>s. s = w) (prepare_execution_write_scope E approval naked q)
     (prepare_contract E approval naked q w) (\<lambda>e w'. authority_evolves (cfg_of E) w w')"
proof (rule tripleI)
  fix s v w'
  assume "s = w" "prepare_execution_write_scope E approval naked q s = (Inr v, w')"
  then show "prepare_contract E approval naked q w v w'"
    using warning_quiet
    by (cases approval)
      (auto simp: prepare_execution_write_scope_def prepare_contract_def Let_def op_simps keeps_def
        filter_empty_conv list_all_iff emit_legacy_path_elevation_warning_def same_files_def writes_def
        split: if_splits)
next
  fix s e w'
  assume "s = w" "prepare_execution_write_scope E approval naked q s = (Inl e, w')"
  then show "authority_evolves (cfg_of E) w w'"
    using create_binding_Inl auth.order_refl
    by (cases approval)
      (auto simp: prepare_execution_write_scope_def Let_def op_simps
        emit_legacy_path_elevation_warning_def writes_def split: if_splits)
qed

end
