(* ===== verification/Audit_Demo.thy ===== *)
theory Audit_Demo
  imports Demo
begin

section \<open>A sample audit\<close>

text \<open>The audit of the revoked approval of the sample installation returns, without residual authority.\<close>

lemma demo_glob:
  "glob_names [''b''] ''wsb-'' demo_world = [demo_id ''wsb-'' @ ''.json'']"
  "glob_names [''m''] ''wmr-'' demo_world = []"
  by code_simp+

lemma demo_audit_cfg: "run_logs demo_env = []" "run_dirs demo_env = []" "receipts_dir demo_cfg = [''m'']"
  "record_path [''p''] (demo_id ''wsp-'') = [''p'', demo_id ''wsp-'' @ ''.json'']"
  by (simp add: demo_env_def, simp add: demo_env_def, simp add: demo_cfg_def, code_simp)

lemma demo_bindings_in: "bindings_in demo_cfg demo_world = [demo_binding]"
  by (simp add: bindings_in_def demo_glob demo_stored demo_dirs)

lemma demo_load: "load_approval demo_env (demo_id ''wsa-'') None True True demo_world = (Inr demo_approval, demo_world)"
  by (simp add: load_approval_Inr demo_clean demo_path demo_stored demo_dirs evaluate_expiry_def ret_def)
    (simp add: demo_approval_def)

lemma demo_load_proposal: "load_proposal demo_env (demo_id ''wsp-'') demo_world = (Inr demo_proposal, demo_world)"
  by (simp add: load_proposal_Inr demo_clean demo_audit_cfg demo_stored demo_dirs)

lemma demo_seed: "resolve_seed demo_env (demo_id ''wsa-'') demo_world = (Inr (Seed_approval demo_approval), demo_world)"
proof -
  have p: "starts_with (py_strip (demo_id ''wsa-'')) ''wsa-''"
    unfolding demo_clean unfolding demo_id_def by (rule starts_with_append)
  show ?thesis
    unfolding resolve_seed_approval [OF p] by (simp add: demo_clean bindM_def catchM_def ret_def demo_load)
qed

lemma demo_revocation_missing: "load_revocation demo_env (demo_id ''wsr-'') demo_world =
    (Inl (ApprovalError (R_not_found (demo_id ''wsr-''))), demo_world)"
proof -
  have "py_strip (demo_id ''wsr-'') = demo_id ''wsr-''" "file_at demo_world (record_path [''r''] (demo_id ''wsr-'')) = None"
    "revocations_dir demo_cfg = [''r'']"
    by (code_simp, code_simp, simp add: demo_cfg_def)
  then show ?thesis
    by (simp add: load_revocation_def Let_def demo_clean demo_dirs read_json_def bindM_def reads_def throw_def)
qed

lemma demo_audit:
  "\<exists>rep. audit_write_scope demo_env (demo_id ''wsa-'') demo_world = (Inr rep, demo_world) \<and>
     ts_residual (ar_state rep) = No_authority"
proof -
  have f: "wa_id demo_approval = demo_id ''wsa-''" "wa_proposal demo_approval = demo_id ''wsp-''"
    "wa_revocation demo_approval = Some (demo_id ''wsr-'')" "wa_status demo_approval = Revoked"
    "wb_approval demo_binding = demo_id ''wsa-''" "wb_run demo_binding = ''run''"
    by (simp_all add: demo_approval_def demo_binding_def)
  let ?l = "\<lparr>ln_proposal = Some (Listed demo_proposal), ln_approval = Some demo_approval,
      ln_binding = Some demo_binding, ln_receipt = None\<rparr>"
  have "fill_proposal demo_env \<lparr>ln_proposal = None, ln_approval = Some demo_approval, ln_binding = None, ln_receipt = None\<rparr>
      demo_world = (Inr \<lparr>ln_proposal = Some (Listed demo_proposal), ln_approval = Some demo_approval,
        ln_binding = None, ln_receipt = None\<rparr>, demo_world)"
    by (simp add: fill_proposal_def f found_or_none_def catchM_def bindM_def ret_def demo_load_proposal)
  moreover have "list_bindings demo_env (Some (demo_id ''wsa-'')) None None None demo_world = (Inr [demo_binding], demo_world)"
    by (simp add: list_bindings_run demo_dirs demo_bindings_in binding_matches_def f)
  moreover have "list_receipts demo_env (Some i) None None demo_world = (Inr [], demo_world)" for i
    by (simp add: list_receipts_def reads_def receipts_in_def demo_dirs demo_audit_cfg demo_glob)
  moreover obtain c cs where "demo_id ''wsr-'' = c # cs" by (simp add: demo_id_def)
  moreover have "load_execution_result demo_env t = Inr None" for t
    by (simp add: load_execution_result_def Let_def demo_audit_cfg)
  ultimately have "\<exists>rep. audit_write_scope demo_env (demo_id ''wsa-'') demo_world = (Inr rep, demo_world) \<and>
      ar_state rep = terminal_authority_state (Some (Listed demo_proposal)) (Some demo_approval) (Some demo_binding) None False"
    using demo_revocation_missing
    by (simp add: audit_write_scope_def bindM_def demo_seed seed_lineage_def ret_def fill_approval_def fill_receipt_def
        fill_binding_def fill_from_proposal_def find_revocation_def catchM_def lift_res_def lineage_run_def run_result_def
        f last_of_def)
  then show ?thesis by (auto simp: terminal_authority_state_def f scope_residual_def)
qed

end
