(* ===== verification/Kube_Body.thy ===== *)
theory Kube_Body
  imports Enforcement
begin

section \<open>Kubernetes capability bodies\<close>

text \<open>
  \<open>capability.py\<close> and the pure part of \<open>kubernetes_capability.py\<close>: the body of a
  capability is normalized and frozen, a patch is one of three bounded shapes, and an operation
  is compared with the frozen body. Of a \<open>CapabilityBodyError\<close> the raising statement is kept
  and not the text; of a \<open>KubernetesCapabilityError\<close> its code, which is what callers use.
\<close>

datatype (plugins only: code size) body_fault =
    BF_not_object
  | BF_capability
  | BF_cluster
  | BF_required string
  | BF_entries string
  | BF_type string
  | BF_empty string
  | BF_no_namespace
  | BF_namespaces
  | BF_no_verb
  | BF_verbs
  | BF_read_mutates
  | BF_no_resource
  | BF_resources
  | BF_denied_namespaces
  | BF_denied_verbs
  | BF_denied_resources
  | BF_reason
  | BF_exact_shape
  | BF_exact_scope
  | BF_exact_patch
  | BF_exact_patch_required
  | BF_observed

text \<open>
  The exceptions of the capability modules: the two classes with their codes, the body error,
  \<open>KeyError\<close>, \<open>AttributeError\<close>, the decoding error of a record file, \<open>int()\<close> of a text that is no number,
  and what the shared modules raise.
\<close>

datatype (plugins only: code size) kube_exn =
    Kube "string option"
  | Kube_interrupted "string option"
  | Body_error body_fault
  | Key_error string
  | Json_decode
  | Int_error json
  | Attr_error
  | Foreign exn

abbreviation kube :: "string \<Rightarrow> kube_exn" where
  "kube code \<equiv> Kube (Some code)"

subsection \<open>Names\<close>

text \<open>The three regular expressions: an edge class, an inner class and a length.\<close>

definition is_lower :: "char \<Rightarrow> bool" where
  "is_lower c \<longleftrightarrow> c \<in> set ''abcdefghijklmnopqrstuvwxyz''"

definition is_upper :: "char \<Rightarrow> bool" where
  "is_upper c \<longleftrightarrow> c \<in> set ''ABCDEFGHIJKLMNOPQRSTUVWXYZ''"

definition is_alnum :: "char \<Rightarrow> bool" where
  "is_alnum c \<longleftrightarrow> is_lower c \<or> is_upper c \<or> c \<in> set digit_chars"

definition framed :: "(char \<Rightarrow> bool) \<Rightarrow> (char \<Rightarrow> bool) \<Rightarrow> nat \<Rightarrow> string \<Rightarrow> bool" where
  "framed edge inner n s \<longleftrightarrow>
     s \<noteq> [] \<and> length s \<le> n \<and> edge (hd s) \<and> edge (last s) \<and> list_all inner (butlast (tl s))"

definition cluster_name :: "string \<Rightarrow> bool" where
  "cluster_name = framed is_alnum (\<lambda>c. is_alnum c \<or> c \<in> set ''._:-'') 63"

definition dns_label :: "string \<Rightarrow> bool" where
  "dns_label = framed (\<lambda>c. is_lower c \<or> c \<in> set digit_chars)
     (\<lambda>c. is_lower c \<or> c \<in> set digit_chars \<or> c = CHR ''-'') 63"

definition resource_name :: "string \<Rightarrow> bool" where
  "resource_name s \<longleftrightarrow> s \<noteq> [] \<and> length s \<le> 62 \<and> is_lower (hd s) \<and>
     list_all (\<lambda>c. is_lower c \<or> c \<in> set digit_chars \<or> c = CHR ''-'') (tl s)"

definition token_of :: "string \<Rightarrow> string \<Rightarrow> bool" where
  "token_of extra s \<longleftrightarrow> s \<noteq> [] \<and> length s \<le> 128 \<and> list_all (\<lambda>c. is_alnum c \<or> c \<in> set extra) s"

subsection \<open>Patches\<close>

datatype patch = Replicas int | Annotation string | Readiness string

definition allowed_annotation_key :: string where
  "allowed_annotation_key = ''amof.dev/capability-probe''"

fun patch_json :: "patch \<Rightarrow> json" where
  "patch_json (Replicas n) = JObj [(''replicas'', JInt n)]"
| "patch_json (Annotation v) =
     JObj [(''annotation'', JObj [(''key'', JStr allowed_annotation_key), (''value'', JStr v)])]"
| "patch_json (Readiness c) =
     JObj [(''readinessProbe'', JObj [(''container'', JStr c), (''expectedTimeoutSeconds'', JInt 1),
       (''timeoutSeconds'', JInt 3)])]"

definition normalize_annotation :: "json \<Rightarrow> kube_exn + string" where
  "normalize_annotation value =
     (case value of
        JObj v \<Rightarrow>
          if \<not> set (map fst v) \<subseteq> set [''key'', ''value''] then Inl (kube ''invalid_patch'')
          else if text_field v ''key'' \<noteq> allowed_annotation_key then Inl (kube ''invalid_patch'')
          else (case jget v ''value'' of
                  JStr t \<Rightarrow> if token_of ''._:/=@-'' t then Inr t else Inl (kube ''invalid_patch'')
                | _ \<Rightarrow> Inl (kube ''invalid_patch''))
      | _ \<Rightarrow> Inl (kube ''invalid_patch''))"

definition normalize_probe :: "json \<Rightarrow> kube_exn + string" where
  "normalize_probe probe =
     (case probe of
        JObj p \<Rightarrow>
          if set (map fst p) \<noteq> set [''container'', ''expectedTimeoutSeconds'', ''timeoutSeconds'']
            then Inl (kube ''invalid_patch'')
          else (case jget p ''container'' of
                  JStr c \<Rightarrow>
                    if \<not> dns_label c \<or> jget p ''expectedTimeoutSeconds'' \<noteq> JInt 1 \<or>
                       jget p ''timeoutSeconds'' \<noteq> JInt 3
                    then Inl (kube ''invalid_patch'') else Inr c
                | _ \<Rightarrow> Inl (kube ''invalid_patch''))
      | _ \<Rightarrow> Inl (kube ''invalid_patch''))"

definition normalize_patch :: "json \<Rightarrow> kube_exn + patch option" where
  "normalize_patch value =
     (case value of
        JNull \<Rightarrow> Inr None
      | JObj v \<Rightarrow>
          let keys = map fst v in
          if \<not> set keys \<subseteq> set [''replicas'', ''annotation'', ''readinessProbe'']
            then Inl (kube ''invalid_patch'')
          else if v = [] \<or> length v \<noteq> 1 then Inl (kube ''invalid_patch'')
          else if ''readinessProbe'' \<in> set keys then
            bindR (normalize_probe (jget v ''readinessProbe'')) (\<lambda>c. Inr (Some (Readiness c)))
          else if ''replicas'' \<in> set keys then
            (case jget v ''replicas'' of
               JInt n \<Rightarrow> if n < 0 then Inl (kube ''invalid_patch'') else Inr (Some (Replicas n))
             | _ \<Rightarrow> Inl (kube ''invalid_patch''))
          else bindR (normalize_annotation (jget v ''annotation'')) (\<lambda>t. Inr (Some (Annotation t)))
      | _ \<Rightarrow> Inl (kube ''invalid_patch''))"

subsection \<open>Bodies\<close>

record exact_operation =
  ex_namespace :: string
  ex_verb :: string
  ex_resource :: string
  ex_name :: string
  ex_patch :: patch
  ex_seen :: "(string \<times> string \<times> string) option"

record kube_body =
  kb_capability :: string
  kb_cluster :: string
  kb_namespaces :: "string list"
  kb_verbs :: "string list"
  kb_resources :: "string list"
  kb_denied_namespaces :: "string list"
  kb_denied_verbs :: "string list"
  kb_denied_resources :: "string list"
  kb_exact :: "exact_operation option"
  kb_reason :: string

definition kubernetes_read :: string where
  "kubernetes_read = ''kubernetes.read''"

definition kubernetes_mutate :: string where
  "kubernetes_mutate = ''kubernetes.mutate''"

definition supported_verbs :: "string list" where
  "supported_verbs = [''get'', ''list'', ''patch'']"

definition verb_requires_mutate :: "string \<Rightarrow> bool" where
  "verb_requires_mutate verb \<longleftrightarrow> py_lower (py_strip verb) = ''patch''"

text \<open>\<open>_string_list\<close>: stripped, no empty entry, each once.\<close>

definition string_list :: "json \<Rightarrow> string \<Rightarrow> bool \<Rightarrow> body_fault + string list" where
  "string_list value name required =
     (let cleaned = (\<lambda>items. if [] \<in> set (map py_strip items) then Inl (BF_empty name)
                              else Inr (uniq (map py_strip items))) in
      case value of
        JNull \<Rightarrow> if required then Inl (BF_required name) else Inr []
      | JStr s \<Rightarrow> cleaned [s]
      | JArr xs \<Rightarrow> if list_ex (\<lambda>x. \<not> is_JStr x) xs then Inl (BF_entries name) else cleaned (map py_str xs)
      | _ \<Rightarrow> Inl (BF_type name))"

definition lower_list :: "json \<Rightarrow> string \<Rightarrow> bool \<Rightarrow> body_fault + string list" where
  "lower_list value name required = bindR (string_list value name required) (\<lambda>xs. Inr (map py_lower xs))"

definition exact_fields :: "string list" where
  "exact_fields = [''namespace'', ''verb'', ''resource'', ''name'', ''patch'']"

definition observed_fields :: "string list" where
  "observed_fields = [''expected_context'', ''expected_uid'', ''expected_resource_version'']"

definition observed_identity :: "(string \<times> json) list \<Rightarrow> patch \<Rightarrow> body_fault + (string \<times> string \<times> string)" where
  "observed_identity raw p =
     (case (p, jget raw ''expected_context'', jget raw ''expected_uid'', jget raw ''expected_resource_version'') of
        (Readiness c, JStr context, JStr uid, JStr version) \<Rightarrow>
          if framed is_alnum (\<lambda>c. is_alnum c \<or> c \<in> set ''._:@-'') 253 context \<and>
             token_of ''._-'' uid \<and> token_of ''._-'' version
          then Inr (context, uid, version) else Inl BF_observed
      | _ \<Rightarrow> Inl BF_observed)"

text \<open>The exact operation of a body whose other fields are normalized.\<close>

definition exact_in_scope :: "kube_body \<Rightarrow> string \<Rightarrow> string \<Rightarrow> string \<Rightarrow> string \<Rightarrow> bool" where
  "exact_in_scope b namespace verb resource name \<longleftrightarrow>
     namespace \<in> set (kb_namespaces b) \<and> namespace \<notin> set (kb_denied_namespaces b) \<and>
     verb = ''patch'' \<and> verb \<in> set (kb_verbs b) \<and> verb \<notin> set (kb_denied_verbs b) \<and>
     resource = ''deployments'' \<and> resource \<in> set (kb_resources b) \<and>
     resource \<notin> set (kb_denied_resources b) \<and> dns_label name \<and> kb_capability b = kubernetes_mutate"

definition exact_of :: "kube_body \<Rightarrow> json \<Rightarrow> body_fault + exact_operation option" where
  "exact_of b value =
     (case value of
        JNull \<Rightarrow> Inr None
      | JObj raw \<Rightarrow>
          let keys = set (map fst raw);
              namespace = text_field raw ''namespace'';
              verb = py_lower (text_field raw ''verb'');
              resource = py_lower (text_field raw ''resource'');
              name = text_field raw ''name'' in
          if keys \<noteq> set exact_fields \<and> keys \<noteq> set (exact_fields @ observed_fields) then Inl BF_exact_shape
          else if \<not> exact_in_scope b namespace verb resource name then Inl BF_exact_scope
          else (case normalize_patch (jget raw ''patch'') of
                  Inl e \<Rightarrow> Inl BF_exact_patch
                | Inr None \<Rightarrow> Inl BF_exact_patch_required
                | Inr (Some p) \<Rightarrow>
                    let exact = \<lparr>ex_namespace = namespace, ex_verb = verb, ex_resource = resource,
                                 ex_name = name, ex_patch = p, ex_seen = None\<rparr> in
                    if set observed_fields \<subseteq> keys
                    then bindR (observed_identity raw p) (\<lambda>s. Inr (Some (exact\<lparr>ex_seen := Some s\<rparr>)))
                    else Inr (Some exact))
      | _ \<Rightarrow> Inl BF_exact_shape)"

definition normalize_kubernetes_capability_body :: "json \<Rightarrow> body_fault + kube_body" where
  "normalize_kubernetes_capability_body value =
     (case value of
        JObj v \<Rightarrow>
          let capability = text_field v ''capability''; cluster = text_field v ''cluster'';
              raw_namespaces = (if jget v ''namespaces'' = JNull then jget v ''namespace''
                                else jget v ''namespaces'') in
          bindR (check (capability \<notin> set [kubernetes_read, kubernetes_mutate]) BF_capability) (\<lambda>_.
          bindR (check (\<not> cluster_name cluster) BF_cluster) (\<lambda>_.
          bindR (string_list raw_namespaces ''namespaces'' True) (\<lambda>namespaces.
          bindR (check (namespaces = []) BF_no_namespace) (\<lambda>_.
          bindR (check (\<not> list_all dns_label namespaces) BF_namespaces) (\<lambda>_.
          bindR (lower_list (jget v ''verbs'') ''verbs'' True) (\<lambda>verbs.
          bindR (check (verbs = []) BF_no_verb) (\<lambda>_.
          bindR (check (\<not> set verbs \<subseteq> set supported_verbs) BF_verbs) (\<lambda>_.
          bindR (check (capability = kubernetes_read \<and> ''patch'' \<in> set verbs) BF_read_mutates) (\<lambda>_.
          bindR (lower_list (jget v ''resources'') ''resources'' True) (\<lambda>resources.
          bindR (check (resources = []) BF_no_resource) (\<lambda>_.
          bindR (check (\<not> list_all resource_name resources) BF_resources) (\<lambda>_.
          bindR (string_list (jget v ''denied_namespaces'') ''denied_namespaces'' False) (\<lambda>denied_namespaces.
          bindR (check (\<not> list_all dns_label denied_namespaces) BF_denied_namespaces) (\<lambda>_.
          bindR (lower_list (jget v ''denied_verbs'') ''denied_verbs'' False) (\<lambda>denied_verbs.
          bindR (check (\<not> set denied_verbs \<subseteq> set supported_verbs) BF_denied_verbs) (\<lambda>_.
          bindR (lower_list (jget v ''denied_resources'') ''denied_resources'' False) (\<lambda>denied_resources.
          bindR (check (\<not> list_all resource_name denied_resources) BF_denied_resources) (\<lambda>_.
          bindR (check (text_field v ''reason'' = []) BF_reason) (\<lambda>_.
          let b = \<lparr>kb_capability = capability, kb_cluster = cluster, kb_namespaces = namespaces,
                   kb_verbs = verbs, kb_resources = resources, kb_denied_namespaces = denied_namespaces,
                   kb_denied_verbs = denied_verbs, kb_denied_resources = denied_resources,
                   kb_exact = None, kb_reason = text_field v ''reason''\<rparr> in
          bindR (exact_of b (jget v ''exact_operation'')) (\<lambda>x.
          Inr (b\<lparr>kb_exact := x\<rparr>)))))))))))))))))))))
      | _ \<Rightarrow> Inl BF_not_object)"

definition exact_json :: "exact_operation \<Rightarrow> json" where
  "exact_json x = JObj
     ([(''namespace'', JStr (ex_namespace x)), (''verb'', JStr (ex_verb x)),
       (''resource'', JStr (ex_resource x)), (''name'', JStr (ex_name x)), (''patch'', patch_json (ex_patch x))] @
      (case ex_seen x of None \<Rightarrow> []
       | Some (context, uid, version) \<Rightarrow>
           [(''expected_context'', JStr context), (''expected_uid'', JStr uid),
            (''expected_resource_version'', JStr version)]))"

definition jstrs :: "string list \<Rightarrow> json" where
  "jstrs xs = JArr (map JStr xs)"

definition kube_body_json :: "kube_body \<Rightarrow> json" where
  "kube_body_json b = JObj
     [(''capability'', JStr (kb_capability b)), (''cluster'', JStr (kb_cluster b)),
      (''namespaces'', jstrs (kb_namespaces b)), (''verbs'', jstrs (kb_verbs b)),
      (''resources'', jstrs (kb_resources b)), (''denied_namespaces'', jstrs (kb_denied_namespaces b)),
      (''denied_verbs'', jstrs (kb_denied_verbs b)), (''denied_resources'', jstrs (kb_denied_resources b)),
      (''exact_operation'', (case kb_exact b of None \<Rightarrow> JNull | Some x \<Rightarrow> exact_json x)),
      (''reason'', JStr (kb_reason b))]"

text \<open>The hash leaves the reason out, and the exact operation when there is none.\<close>

definition kube_payload :: "kube_body \<Rightarrow> json" where
  "kube_payload b = JObj
     ([(''capability'', JStr (kb_capability b)), (''cluster'', JStr (kb_cluster b)),
       (''namespaces'', jstrs (kb_namespaces b)), (''verbs'', jstrs (kb_verbs b)),
       (''resources'', jstrs (kb_resources b)), (''denied_namespaces'', jstrs (kb_denied_namespaces b)),
       (''denied_verbs'', jstrs (kb_denied_verbs b)), (''denied_resources'', jstrs (kb_denied_resources b))] @
      (case kb_exact b of None \<Rightarrow> [] | Some x \<Rightarrow> [(''exact_operation'', exact_json x)]))"

definition compute_kubernetes_body_hash :: "cfg \<Rightarrow> kube_body \<Rightarrow> string" where
  "compute_kubernetes_body_hash C b = ''sha256:'' @ hexdigest C (dumps (kube_payload b))"

subsection \<open>Operations\<close>

record kube_operation =
  ko_cluster :: string
  ko_namespace :: string
  ko_verb :: string
  ko_resource :: string
  ko_name :: "string option"
  ko_patch :: json
  ko_mission :: string
  ko_requested :: string
  ko_run :: string
  ko_context :: string
  ko_uid :: string
  ko_version :: string

definition sha256_canonical :: "cfg \<Rightarrow> json \<Rightarrow> string" where
  "sha256_canonical C value = ''sha256:'' @ hexdigest C (dumps value)"

definition json_name :: "string option \<Rightarrow> json" where
  "json_name n = (case n of None \<Rightarrow> JNull | Some s \<Rightarrow> JStr s)"

definition json_patch :: "patch option \<Rightarrow> json" where
  "json_patch p = (case p of None \<Rightarrow> JNull | Some q \<Rightarrow> patch_json q)"

definition operation_digest :: "cfg \<Rightarrow> kube_operation \<Rightarrow> kube_exn + string" where
  "operation_digest C op =
     bindR (normalize_patch (ko_patch op)) (\<lambda>p.
     Inr (sha256_canonical C (JObj
       ([(''cluster'', JStr (ko_cluster op)), (''namespace'', JStr (ko_namespace op)),
         (''verb'', JStr (ko_verb op)), (''resource'', JStr (ko_resource op)),
         (''name'', json_name (ko_name op)), (''patch'', json_patch p)] @
        (if ko_context op = [] then []
         else [(''expected_context'', JStr (ko_context op)), (''expected_uid'', JStr (ko_uid op)),
               (''expected_resource_version'', JStr (ko_version op))])))))"

definition has_probe :: "json \<Rightarrow> bool" where
  "has_probe p \<longleftrightarrow> (case p of JObj v \<Rightarrow> ''readinessProbe'' \<in> set (map fst v) | _ \<Rightarrow> False)"

text \<open>\<open>"readinessProbe" in patch\<close>: a key of an object, a part of a text, an element of a list.\<close>

definition probe_in :: "json \<Rightarrow> kube_exn + bool" where
  "probe_in p =
     (case p of
        JNull \<Rightarrow> Inr False
      | JObj v \<Rightarrow> Inr (''readinessProbe'' \<in> set (map fst v))
      | JStr s \<Rightarrow> Inr (py_in ''readinessProbe'' s)
      | JArr xs \<Rightarrow> Inr (JStr ''readinessProbe'' \<in> set xs)
      | _ \<Rightarrow> Inl (Foreign (OtherErr ''TypeError: argument is not iterable'')))"

definition unnamed :: "kube_operation \<Rightarrow> bool" where
  "unnamed op \<longleftrightarrow> ko_name op = None \<or> ko_name op = Some []"

text \<open>The comparison \<open>actual_exact != exact\<close> of two dictionaries with normalized patches.\<close>

definition same_exact :: "exact_operation \<Rightarrow> kube_operation \<Rightarrow> patch option \<Rightarrow> bool" where
  "same_exact x op p \<longleftrightarrow>
     py_strip (ko_namespace op) = ex_namespace x \<and> py_lower (py_strip (ko_verb op)) = ex_verb x \<and>
     py_lower (py_strip (ko_resource op)) = ex_resource x \<and> ko_name op = Some (ex_name x) \<and>
     p = Some (ex_patch x) \<and>
     (case ex_seen x of None \<Rightarrow> True | Some s \<Rightarrow> s = (ko_context op, ko_uid op, ko_version op))"

definition classify_operation :: "json \<Rightarrow> kube_operation \<Rightarrow> kube_exn + string option" where
  "classify_operation body op =
     (case normalize_kubernetes_capability_body body of
        Inl e \<Rightarrow> Inl (Body_error e)
      | Inr b \<Rightarrow>
          let verb = py_lower (py_strip (ko_verb op)); resource = py_lower (py_strip (ko_resource op));
              namespace = py_strip (ko_namespace op); cluster = py_strip (ko_cluster op) in
          if cluster \<noteq> kb_cluster b then Inr (Some ''wrong_cluster'')
          else if namespace \<in> set (kb_denied_namespaces b) then Inr (Some ''wrong_namespace'')
          else if namespace \<notin> set (kb_namespaces b) then Inr (Some ''wrong_namespace'')
          else if resource \<in> set (kb_denied_resources b) then Inr (Some ''wrong_resource'')
          else if resource \<notin> set (kb_resources b) then Inr (Some ''wrong_resource'')
          else if verb_requires_mutate verb \<and> kb_capability b \<noteq> kubernetes_mutate
            then Inr (Some ''scope_escalation'')
          else if verb \<in> set (kb_denied_verbs b) then Inr (Some ''wrong_verb'')
          else if verb \<notin> set (kb_verbs b) then Inr (Some ''wrong_verb'')
          else if verb_requires_mutate verb \<and> unnamed op then Inr (Some ''wrong_resource'')
          else if verb = ''get'' \<and> unnamed op then Inr (Some ''wrong_resource'')
          else bindR (probe_in (ko_patch op)) (\<lambda>probe.
          if probe \<and> kb_exact b = None then Inr (Some ''exact_operation_required'')
          else bindR (normalize_patch (ko_patch op)) (\<lambda>p.
            case kb_exact b of
              None \<Rightarrow> Inr None
            | Some x \<Rightarrow> if same_exact x op p then Inr None else Inr (Some ''wrong_operation''))))"

end
