(* ===== verification/Kube_Body_Laws.thy ===== *)
theory Kube_Body_Laws
  imports Kube_Body
begin

section \<open>What a capability body admits\<close>

text \<open>
  The comparison of an operation with a frozen body as one condition; what normalization
  guarantees; when a frozen body is a fixed point of normalization.
\<close>

subsection \<open>Admission\<close>

definition names_target :: "kube_operation \<Rightarrow> bool" where
  "names_target op \<longleftrightarrow> ko_name op \<noteq> None \<and> ko_name op \<noteq> Some []"

definition admits :: "kube_body \<Rightarrow> kube_operation \<Rightarrow> patch option \<Rightarrow> bool" where
  "admits b op p \<longleftrightarrow>
     (let verb = py_lower (py_strip (ko_verb op)); resource = py_lower (py_strip (ko_resource op));
          namespace = py_strip (ko_namespace op) in
      py_strip (ko_cluster op) = kb_cluster b \<and>
      namespace \<in> set (kb_namespaces b) - set (kb_denied_namespaces b) \<and>
      resource \<in> set (kb_resources b) - set (kb_denied_resources b) \<and>
      verb \<in> set (kb_verbs b) - set (kb_denied_verbs b) \<and>
      (verb_requires_mutate verb \<longrightarrow> kb_capability b = kubernetes_mutate) \<and>
      (verb_requires_mutate verb \<or> verb = ''get'' \<longrightarrow> names_target op) \<and>
      (case kb_exact b of
         None \<Rightarrow> \<not> has_probe (ko_patch op)
       | Some x \<Rightarrow> same_exact x op p))"

lemma has_probe_simps [simp]: "\<not> has_probe JNull"
  by (simp add: has_probe_def)

text \<open>A patch that normalizes is an object or absent, where the membership test is \<open>has_probe\<close>.\<close>

lemma probe_in_patch: "normalize_patch p = Inr q \<Longrightarrow> probe_in p = Inr (has_probe p)"
  by (cases p) (simp_all add: normalize_patch_def probe_in_def has_probe_def)

lemma classify_iff:
  "classify_operation body op = Inr None \<longleftrightarrow>
     (\<exists>b p. normalize_kubernetes_capability_body body = Inr b \<and> normalize_patch (ko_patch op) = Inr p \<and>
        admits b op p)"
proof (cases "normalize_kubernetes_capability_body body")
  case (Inr b)
  show ?thesis
  proof (cases "normalize_patch (ko_patch op)")
    case (Inl e)
    with Inr show ?thesis
      by (cases "probe_in (ko_patch op)"; cases "kb_exact b") (auto simp: classify_operation_def Let_def)
  next
    case (Inr p)
    with probe_in_patch [OF this] \<open>normalize_kubernetes_capability_body body = Inr b\<close> show ?thesis
      by (cases "kb_exact b") (auto simp: classify_operation_def admits_def Let_def unnamed_def names_target_def)
  qed
qed (simp add: classify_operation_def)

subsection \<open>Clean texts\<close>

definition plain_char :: "char \<Rightarrow> bool" where
  "plain_char c \<longleftrightarrow> is_lower c \<or> c \<in> set digit_chars \<or> c = CHR ''-''"

lemma plain_chars: "list_all (\<lambda>c. \<not> py_space c \<and> lower_char c = c) (''abcdefghijklmnopqrstuvwxyz-'' @ digit_chars)"
  by code_simp

lemma plain_char_props: "plain_char c \<Longrightarrow> \<not> py_space c \<and> lower_char c = c"
  using plain_chars unfolding list_all_iff plain_char_def is_lower_def by auto

lemma plain_text:
  assumes "list_all plain_char s"
  shows "py_strip s = s" "py_lower s = s"
  using assms plain_char_props
  by (auto simp: list_all_iff py_lower_def intro!: py_strip_no_space map_idI)

lemma cluster_char: "is_alnum c \<or> c \<in> set ''._:-'' \<Longrightarrow> \<not> py_space c"
proof -
  have "list_all (\<lambda>c. \<not> py_space c)
      (''abcdefghijklmnopqrstuvwxyz'' @ ''ABCDEFGHIJKLMNOPQRSTUVWXYZ'' @ digit_chars @ ''._:-'')"
    by code_simp
  then show "is_alnum c \<or> c \<in> set ''._:-'' \<Longrightarrow> \<not> py_space c"
    unfolding list_all_iff set_append is_alnum_def is_lower_def is_upper_def by blast
qed

lemma framed_chars:
  assumes "framed edge inner n s" "\<And>c. edge c \<Longrightarrow> inner c"
  shows "s \<noteq> []" "list_all inner s"
proof -
  from assms(1) show ne: "s \<noteq> []" by (simp add: framed_def)
  have "set s \<subseteq> {hd s, last s} \<union> set (butlast (tl s))"
    using ne by (cases s; cases "tl s" rule: rev_cases) auto
  with assms show "list_all inner s" by (auto simp: framed_def list_all_iff)
qed

lemma dns_label_plain: "dns_label s \<Longrightarrow> s \<noteq> [] \<and> list_all plain_char s"
  unfolding dns_label_def plain_char_def by (auto dest: framed_chars)

lemma resource_name_plain: "resource_name s \<Longrightarrow> s \<noteq> [] \<and> list_all plain_char s"
  by (cases s) (auto simp: resource_name_def plain_char_def list_all_iff)

lemma verb_plain: "v \<in> set supported_verbs \<Longrightarrow> v \<noteq> [] \<and> list_all plain_char v"
proof -
  have "list_all (\<lambda>v. v \<noteq> [] \<and> list_all plain_char v) supported_verbs" by code_simp
  then show "v \<in> set supported_verbs \<Longrightarrow> v \<noteq> [] \<and> list_all plain_char v" by (simp add: list_all_iff)
qed

definition plain_list :: "string list \<Rightarrow> bool" where
  "plain_list xs \<longleftrightarrow> list_all (\<lambda>x. x \<noteq> [] \<and> list_all plain_char x) xs"

lemma jstrs_neq_JNull [simp]: "jstrs xs \<noteq> JNull"
  by (simp add: jstrs_def)

lemma plain_listI: "(\<And>x. x \<in> set xs \<Longrightarrow> x \<noteq> [] \<and> list_all plain_char x) \<Longrightarrow> plain_list xs"
  by (simp add: plain_list_def list_all_iff)

lemma string_list_plain:
  assumes "plain_list xs"
  shows "string_list (jstrs xs) name r = Inr (uniq xs)" "lower_list (jstrs xs) name r = Inr (uniq xs)"
proof -
  have m: "map py_strip xs = xs" "map py_lower (uniq xs) = uniq xs"
    using assms plain_text by (auto simp: plain_list_def list_all_iff set_uniq_from intro!: map_idI)
  have "[] \<notin> set xs" using assms by (auto simp: plain_list_def list_all_iff)
  then have "[] \<notin> py_strip ` set xs" using m(1) by (metis list.set_map)
  then show s: "string_list (jstrs xs) name r = Inr (uniq xs)"
    by (simp add: string_list_def jstrs_def is_JStr_def list_ex_iff o_def m)
  show "lower_list (jstrs xs) name r = Inr (uniq xs)"
    by (simp add: lower_list_def s m)
qed

subsection \<open>Patches\<close>

definition patch_ok :: "patch \<Rightarrow> bool" where
  "patch_ok p \<longleftrightarrow>
     (case p of Replicas n \<Rightarrow> 0 \<le> n | Annotation t \<Rightarrow> token_of ''._:/=@-'' t | Readiness c \<Rightarrow> dns_label c)"

lemma normalize_probe_Inr: "normalize_probe j = Inr c \<Longrightarrow> dns_label c"
  by (cases j) (simp_all add: normalize_probe_def split: if_splits json.splits)

lemma normalize_annotation_Inr: "normalize_annotation j = Inr t \<Longrightarrow> token_of ''._:/=@-'' t"
  by (cases j) (simp_all add: normalize_annotation_def split: if_splits json.splits)

lemma normalize_patch_ok:
  assumes "normalize_patch j = Inr (Some p)"
  shows "patch_ok p"
proof -
  from assms obtain v where "j = JObj v"
    by (cases j) (simp_all add: normalize_patch_def)
  with assms normalize_probe_Inr normalize_annotation_Inr show ?thesis
    by (auto simp: normalize_patch_def Let_def patch_ok_def bindR_Inr_iff split: if_splits json.splits)
qed

lemma annotation_key_strip: "py_strip allowed_annotation_key = allowed_annotation_key"
  by code_simp

lemma normalize_patch_json: "patch_ok p \<Longrightarrow> normalize_patch (patch_json p) = Inr (Some p)"
  by (cases p)
    (auto simp: normalize_patch_def Let_def patch_ok_def normalize_probe_def normalize_annotation_def
      text_field_def annotation_key_strip)

lemma patch_round_trip: "normalize_patch (patch_json p) = Inr (Some p) \<longleftrightarrow> patch_ok p"
  using normalize_patch_ok normalize_patch_json by blast

subsection \<open>Exact operations\<close>

definition seen_ok :: "patch \<Rightarrow> string \<times> string \<times> string \<Rightarrow> bool" where
  "seen_ok p s \<longleftrightarrow>
     (case (p, s) of
        (Readiness _, (context, uid, version)) \<Rightarrow>
          framed is_alnum (\<lambda>c. is_alnum c \<or> c \<in> set ''._:@-'') 253 context \<and>
          token_of ''._-'' uid \<and> token_of ''._-'' version
      | _ \<Rightarrow> False)"

definition exact_ok :: "kube_body \<Rightarrow> exact_operation \<Rightarrow> bool" where
  "exact_ok b x \<longleftrightarrow>
     exact_in_scope b (ex_namespace x) (ex_verb x) (ex_resource x) (ex_name x) \<and> patch_ok (ex_patch x) \<and>
     (case ex_seen x of None \<Rightarrow> True | Some s \<Rightarrow> seen_ok (ex_patch x) s)"

lemma exact_of_ok: "exact_of b j = Inr (Some x) \<Longrightarrow> exact_ok b x"
  by (auto simp: exact_of_def Let_def exact_ok_def observed_identity_def seen_ok_def bindR_Inr_iff
      dest: normalize_patch_ok split: json.splits if_splits sum.splits option.splits patch.splits)

lemma patch_json_neq_JNull [simp]: "patch_json p \<noteq> JNull"
  by (cases p) simp_all

lemma exact_of_json:
  assumes "exact_ok b x" "list_all dns_label (kb_namespaces b)"
  shows "exact_of b (exact_json x) = Inr (Some x)"
proof -
  obtain ns verb res name p seen where x: "x = \<lparr>ex_namespace = ns, ex_verb = verb, ex_resource = res,
      ex_name = name, ex_patch = p, ex_seen = seen\<rparr>"
    by (cases x)
  from assms have sc: "exact_in_scope b ns verb res name" and p: "normalize_patch (patch_json p) = Inr (Some p)"
    by (simp_all add: exact_ok_def normalize_patch_json x)
  have d: "dns_label ns" "dns_label name"
    using sc assms(2) by (auto simp: exact_in_scope_def list_all_iff)
  have f: "py_strip ns = ns" "py_strip name = name"
    using d dns_label_plain plain_text by blast+
  have v: "verb = ''patch''" "res = ''deployments''" using sc by (simp_all add: exact_in_scope_def)
  have t: "py_strip verb = verb" "py_lower verb = verb" "py_strip res = res" "py_lower res = res"
    unfolding v by code_simp+
  show ?thesis
  proof (cases seen)
    case None
    then show ?thesis
      by (simp add: x exact_of_def exact_json_def text_field_def f t sc p exact_fields_def observed_fields_def)
  next
    case (Some s)
    then have "seen_ok p s" using assms(1) by (simp add: exact_ok_def x)
    then have "observed_identity [(''namespace'', JStr ns), (''verb'', JStr verb), (''resource'', JStr res),
        (''name'', JStr name), (''patch'', patch_json p), (''expected_context'', JStr (fst s)),
        (''expected_uid'', JStr (fst (snd s))), (''expected_resource_version'', JStr (snd (snd s)))] p = Inr s"
      by (cases s; cases p) (simp_all add: observed_identity_def seen_ok_def)
    then show ?thesis
      by (cases s)
        (simp add: Some x exact_of_def exact_json_def text_field_def f t sc p exact_fields_def observed_fields_def)
  qed
qed

subsection \<open>Frozen bodies\<close>

definition kube_frozen :: "kube_body \<Rightarrow> bool" where
  "kube_frozen b \<longleftrightarrow>
     kb_capability b \<in> set [kubernetes_read, kubernetes_mutate] \<and> cluster_name (kb_cluster b) \<and>
     kb_namespaces b \<noteq> [] \<and> list_all dns_label (kb_namespaces b) \<and> distinct (kb_namespaces b) \<and>
     kb_verbs b \<noteq> [] \<and> set (kb_verbs b) \<subseteq> set supported_verbs \<and>
     (kb_capability b = kubernetes_read \<longrightarrow> ''patch'' \<notin> set (kb_verbs b)) \<and>
     kb_resources b \<noteq> [] \<and> list_all resource_name (kb_resources b) \<and>
     list_all dns_label (kb_denied_namespaces b) \<and> distinct (kb_denied_namespaces b) \<and>
     set (kb_denied_verbs b) \<subseteq> set supported_verbs \<and> list_all resource_name (kb_denied_resources b) \<and>
     kb_reason b \<noteq> [] \<and> py_strip (kb_reason b) = kb_reason b \<and>
     (case kb_exact b of None \<Rightarrow> True | Some x \<Rightarrow> exact_ok b x)"

text \<open>Normalizing once more drops the doubles that lower-casing left.\<close>

definition refrozen :: "kube_body \<Rightarrow> kube_body" where
  "refrozen b = b\<lparr>kb_verbs := uniq (kb_verbs b), kb_resources := uniq (kb_resources b),
     kb_denied_verbs := uniq (kb_denied_verbs b), kb_denied_resources := uniq (kb_denied_resources b)\<rparr>"

lemma string_list_distinct: "string_list v n r = Inr xs \<Longrightarrow> distinct xs"
  by (cases v) (auto simp: string_list_def Let_def distinct_uniq_from split: if_splits)

lemma exact_ok_cong:
  assumes "kb_capability c = kb_capability b" "set (kb_namespaces c) = set (kb_namespaces b)"
    "set (kb_verbs c) = set (kb_verbs b)" "set (kb_resources c) = set (kb_resources b)"
    "set (kb_denied_namespaces c) = set (kb_denied_namespaces b)"
    "set (kb_denied_verbs c) = set (kb_denied_verbs b)"
    "set (kb_denied_resources c) = set (kb_denied_resources b)"
  shows "exact_ok c x = exact_ok b x"
  using assms by (simp add: exact_ok_def exact_in_scope_def)

lemma normalize_frozen_kube:
  assumes "normalize_kubernetes_capability_body v = Inr b"
  shows "kube_frozen b"
proof -
  from assms obtain r where v: "v = JObj r"
    by (cases v) (simp_all add: normalize_kubernetes_capability_body_def)
  let ?b = "b\<lparr>kb_exact := None\<rparr>"
  have f: "kube_frozen ?b" and x: "exact_of ?b (jget r ''exact_operation'') = Inr (kb_exact b)"
    using assms unfolding v normalize_kubernetes_capability_body_def Let_def
    by (auto simp: bindR_Inr_iff kube_frozen_def dest: string_list_distinct)
  show ?thesis
  proof (cases "kb_exact b")
    case (Some y)
    then have "exact_ok ?b y" using x by (simp add: exact_of_ok)
    then have "exact_ok b y" by (subst exact_ok_cong [of b ?b]) simp_all
    with f Some show ?thesis by (simp add: kube_frozen_def)
  qed (use f in \<open>simp add: kube_frozen_def\<close>)
qed

lemma uniq_ids: "distinct xs \<Longrightarrow> set xs \<inter> set seen = {} \<Longrightarrow> uniq_from seen xs = xs"
  by (induction xs arbitrary: seen) auto

lemma uniq_id_iff: "uniq xs = xs \<longleftrightarrow> distinct xs"
  using uniq_ids [of xs "[]"] distinct_uniq_from [of "[]" xs] by auto

lemma refreeze:
  assumes "kube_frozen b"
  shows "normalize_kubernetes_capability_body (kube_body_json b) = Inr (refrozen b)"
proof -
  have pl: "plain_list (kb_namespaces b)" "plain_list (kb_verbs b)" "plain_list (kb_resources b)"
    "plain_list (kb_denied_namespaces b)" "plain_list (kb_denied_verbs b)" "plain_list (kb_denied_resources b)"
    using assms unfolding kube_frozen_def list_all_iff
    by (intro plain_listI dns_label_plain resource_name_plain verb_plain; blast)+
  note sl = pl [THEN string_list_plain(1)] pl [THEN string_list_plain(2)]
  have cl: "py_strip (kb_capability b) = kb_capability b"
  proof -
    have "py_strip kubernetes_read = kubernetes_read" "py_strip kubernetes_mutate = kubernetes_mutate" by code_simp+
    then show ?thesis using assms by (auto simp: kube_frozen_def)
  qed
  have cn: "py_strip (kb_cluster b) = kb_cluster b"
  proof (rule py_strip_no_space)
    have "list_all (\<lambda>c. is_alnum c \<or> c \<in> set ''._:-'') (kb_cluster b)"
      using assms framed_chars(2) [of is_alnum "\<lambda>c. is_alnum c \<or> c \<in> set ''._:-''" 63]
      by (simp add: kube_frozen_def cluster_name_def)
    then show "\<forall>c \<in> set (kb_cluster b). \<not> py_space c"
      unfolding list_all_iff using cluster_char by blast
  qed
  let ?b = "refrozen b\<lparr>kb_exact := None\<rparr>"
  have ex: "exact_of ?b (case kb_exact b of None \<Rightarrow> JNull | Some x \<Rightarrow> exact_json x) = Inr (kb_exact b)"
  proof (cases "kb_exact b")
    case (Some x)
    then have "exact_ok b x" using assms by (simp add: kube_frozen_def)
    then have "exact_ok ?b x" by (subst exact_ok_cong [of _ b]) (simp_all add: refrozen_def set_uniq_from)
    moreover have "list_all dns_label (kb_namespaces ?b)" using assms by (simp add: kube_frozen_def refrozen_def)
    ultimately show ?thesis using Some exact_of_json by simp
  qed (simp add: exact_of_def)
  have ns: "uniq (kb_namespaces b) = kb_namespaces b" "uniq (kb_denied_namespaces b) = kb_denied_namespaces b"
    using assms by (simp_all add: uniq_id_iff kube_frozen_def)
  have ne: "uniq xs = [] \<longleftrightarrow> xs = []" for xs :: "string list"
    by (cases xs) auto
  have al: "list_all P (uniq xs) = list_all P xs" for P and xs :: "string list"
    by (simp add: list_all_iff set_uniq_from)
  show ?thesis
    using assms ex sl cl cn ns unfolding refrozen_def
    by (cases b) (simp add: normalize_kubernetes_capability_body_def kube_body_json_def Let_def text_field_def
        kube_frozen_def set_uniq_from ne al check_def)
qed

text \<open>A frozen body is a fixed point exactly when lower-casing left no doubles.\<close>

lemma frozen_fixed_iff:
  assumes "normalize_kubernetes_capability_body v = Inr b"
  shows "normalize_kubernetes_capability_body (kube_body_json b) = Inr b \<longleftrightarrow>
    distinct (kb_verbs b) \<and> distinct (kb_resources b) \<and> distinct (kb_denied_verbs b) \<and>
    distinct (kb_denied_resources b)"
proof -
  have "refrozen b = b \<longleftrightarrow> uniq (kb_verbs b) = kb_verbs b \<and> uniq (kb_resources b) = kb_resources b \<and>
      uniq (kb_denied_verbs b) = kb_denied_verbs b \<and> uniq (kb_denied_resources b) = kb_denied_resources b"
    by (cases b) (simp add: refrozen_def)
  then show ?thesis
    using refreeze [OF normalize_frozen_kube [OF assms]] by (simp add: uniq_id_iff)
qed

end
