(* ===== verification/Kube_Store.thy ===== *)
theory Kube_Store
  imports Kube_Body
begin

section \<open>The records of the Kubernetes capability\<close>

text \<open>
  Proposals, approvals, bindings and revocations of \<open>kubernetes_capability.py\<close>. Unlike the
  write-scope records they stay dictionaries: verification checks some fields, replaces the body
  by the frozen one and keeps every other field as it was. The events are those of this
  authority's own log.
\<close>

type_synonym dict = "(string \<times> json) list"
type_synonym 'a krun = "(world, kube_exn, 'a) op"

record kube_store =
  kp_dir :: path
  ka_dir :: path
  kb_dir :: path
  kr_dir :: path
  kv_dir :: path

text \<open>An operation of the shared modules, its exceptions let through.\<close>

definition foreign :: "'a run \<Rightarrow> 'a krun" where
  "foreign m w = (case m w of (Inl e, w') \<Rightarrow> (Inl (Foreign e), w') | (Inr a, w') \<Rightarrow> (Inr a, w'))"

definition foreign_res :: "exn + 'a \<Rightarrow> kube_exn + 'a" where
  "foreign_res r = (case r of Inl e \<Rightarrow> Inl (Foreign e) | Inr a \<Rightarrow> Inr a)"

definition as_body_error :: "body_fault + 'a \<Rightarrow> kube_exn \<Rightarrow> kube_exn + 'a" where
  "as_body_error r e = (case r of Inl _ \<Rightarrow> Inl e | Inr a \<Rightarrow> Inr a)"

definition is_kube_error :: "kube_exn \<Rightarrow> bool" where
  "is_kube_error e \<longleftrightarrow> (case e of Kube _ \<Rightarrow> True | Kube_interrupted _ \<Rightarrow> True | _ \<Rightarrow> False)"

text \<open>\<open>d[k]\<close>, and the dictionary a value is.\<close>

definition dict_item :: "dict \<Rightarrow> string \<Rightarrow> kube_exn + json" where
  "dict_item d k = (case map_of d k of None \<Rightarrow> Inl (Key_error k) | Some v \<Rightarrow> Inr v)"

definition obj_of :: "json \<Rightarrow> dict" where
  "obj_of j = (case j of JObj d \<Rightarrow> d | _ \<Rightarrow> [])"

definition kube_read :: "path \<Rightarrow> kube_exn \<Rightarrow> json krun" where
  "kube_read p missing =
     bindM (reads (\<lambda>w. file_at w p)) (\<lambda>f.
     case f of None \<Rightarrow> throw missing | Some Corrupt \<Rightarrow> throw Json_decode | Some (Parsed j) \<Rightarrow> ret j)"

definition kube_write :: "path \<Rightarrow> dict \<Rightarrow> unit krun" where
  "kube_write p d = writes (write_file p (JObj d))"

definition kube_now :: "env \<Rightarrow> string krun" where
  "kube_now E = foreign (utc_now_iso E)"

definition append_capability_event :: "env \<Rightarrow> string \<Rightarrow> dict \<Rightarrow> unit krun" where
  "append_capability_event E ty payload =
     bindM (kube_now E) (\<lambda>t.
     writes (log_event (JObj (dict_update [(''event_type'', JStr ty), (''at'', JStr t)] payload))))"

subsection \<open>Operator identity\<close>

definition kube_operator_identity :: "string \<Rightarrow> kube_exn + string" where
  "kube_operator_identity identity =
     (let value = py_strip identity; lowered = py_lower value in
      if value = [] then Inl (kube ''invalid_approval'')
      else if lowered \<in> set worker_markers \<or> starts_with lowered ''worker:''
        then Inl (kube ''invalid_approval'')
      else Inr value)"

definition kube_operator_provenance :: "string \<Rightarrow> kube_exn + string" where
  "kube_operator_provenance provenance =
     (if py_strip provenance \<noteq> ''operator_asserted'' then Inl (kube ''invalid_approval'')
      else Inr (py_strip provenance))"

subsection \<open>Frozen records\<close>

text \<open>What the three verifications share: kind, schema version, body and hash.\<close>

definition kube_head :: "cfg \<Rightarrow> string \<Rightarrow> kube_exn \<Rightarrow> json \<Rightarrow> kube_exn + dict \<times> kube_body \<times> string" where
  "kube_head C kind bad record =
     (case record of
        JObj r \<Rightarrow>
          bindR (check (jget r ''kind'' \<noteq> JStr kind) bad) (\<lambda>_.
          bindR (check (\<not> is_one (jget r ''schema_version'')) bad) (\<lambda>_.
          bindR (as_body_error (normalize_kubernetes_capability_body (jget r ''body'')) bad) (\<lambda>b.
          let expected = compute_kubernetes_body_hash C b in
          bindR (check (jget r ''body_hash'' \<noteq> JStr expected) bad) (\<lambda>_.
          Inr (r, b, expected)))))
      | _ \<Rightarrow> Inl bad)"

text \<open>\<open>{**record, "body": frozen, "body_hash": expected_hash}\<close>.\<close>

definition sealed :: "dict \<Rightarrow> kube_body \<Rightarrow> string \<Rightarrow> dict" where
  "sealed r b h = dict_update r [(''body'', kube_body_json b), (''body_hash'', JStr h)]"

subsection \<open>Proposals\<close>

definition kube_build_proposal :: "env \<Rightarrow> string \<Rightarrow> json \<Rightarrow> string \<Rightarrow> string option \<Rightarrow> dict krun" where
  "kube_build_proposal E run_id body requested_by created_at =
     (let parent = py_strip run_id; worker = py_strip requested_by in
      bindM (raise_if (parent = []) (kube ''invalid_proposal'')) (\<lambda>_.
      bindM (raise_if (worker = []) (kube ''invalid_proposal'')) (\<lambda>_.
      bindM (lift_res (as_body_error (normalize_kubernetes_capability_body body) (kube ''invalid_proposal''))) (\<lambda>b.
      let hash = compute_kubernetes_body_hash (cfg_of E) b in
      bindM (foreign (text_or_now E created_at)) (\<lambda>t.
      ret [(''kind'', JStr ''kubernetes_capability_proposal''), (''schema_version'', JInt 1),
           (''proposal_id'', JStr (short_id (cfg_of E) ''kcp-'' (parent @ '':'' @ hash))),
           (''run_id'', JStr parent), (''requested_by'', JStr worker), (''body'', kube_body_json b),
           (''body_hash'', JStr hash), (''created_at'', JStr t), (''status'', JStr ''proposed'')])))))"

definition kube_verify_proposal :: "cfg \<Rightarrow> json \<Rightarrow> kube_exn + dict" where
  "kube_verify_proposal C record =
     (case record of
        JObj r \<Rightarrow>
          bindR (check (jget r ''kind'' \<noteq> JStr ''kubernetes_capability_proposal'') (kube ''invalid_proposal'')) (\<lambda>_.
          bindR (check (\<not> is_one (jget r ''schema_version'')) (kube ''invalid_proposal'')) (\<lambda>_.
          bindR (check (jget r ''status'' \<noteq> JStr ''proposed'') (kube ''invalid_proposal'')) (\<lambda>_.
          bindR (kube_head C ''kubernetes_capability_proposal'' (kube ''invalid_proposal'') record) (\<lambda>(r, b, h).
          bindR (check (jget r ''proposal_id'' \<noteq>
                   JStr (short_id C ''kcp-'' (py_str (jget r ''run_id'') @ '':'' @ h))) (kube ''invalid_proposal'')) (\<lambda>_.
          Inr (sealed r b h))))))
      | _ \<Rightarrow> Inl (kube ''invalid_proposal''))"

text \<open>The file of a record whose identifier field is a text.\<close>

definition kube_path :: "path \<Rightarrow> dict \<Rightarrow> string \<Rightarrow> path" where
  "kube_path d r field = record_path d (py_str (jget r field))"

definition kube_save_proposal :: "env \<Rightarrow> kube_store \<Rightarrow> json \<Rightarrow> dict krun" where
  "kube_save_proposal E S record =
     (let C = cfg_of E in
      bindM (lift_res (kube_verify_proposal C record)) (\<lambda>v.
      let path = kube_path (kp_dir S) v ''proposal_id'' in
      bindM (reads (\<lambda>w. file_at w path)) (\<lambda>f.
      if f \<noteq> None then
        bindM (kube_read path Json_decode) (\<lambda>j.
        bindM (lift_res (kube_verify_proposal C j)) (\<lambda>existing.
        if jget existing ''body_hash'' \<noteq> jget v ''body_hash'' then throw (kube ''invalid_proposal'')
        else
          bindM (lift_res (dict_item existing ''run_id'')) (\<lambda>r1.
          bindM (lift_res (dict_item v ''run_id'')) (\<lambda>r2.
          if r1 = r2 then ret existing else throw (kube ''invalid_proposal'')))))
      else
        bindM (kube_write path v) (\<lambda>_.
        bindM (lift_res (dict_item v ''run_id'')) (\<lambda>run.
        bindM (append_capability_event E ''kubernetes_capability.proposed''
                 [(''proposal_id'', jget v ''proposal_id''), (''run_id'', run)]) (\<lambda>_.
        ret v))))))"

definition propose_kubernetes_capability :: "env \<Rightarrow> kube_store \<Rightarrow> string \<Rightarrow> json \<Rightarrow> string \<Rightarrow> dict krun" where
  "propose_kubernetes_capability E S run_id body requested_by =
     bindM (kube_build_proposal E run_id body requested_by None) (\<lambda>r.
     kube_save_proposal E S (JObj r))"

definition kube_load_proposal :: "env \<Rightarrow> kube_store \<Rightarrow> string \<Rightarrow> dict krun" where
  "kube_load_proposal E S proposal_id =
     bindM (kube_read (record_path (kp_dir S) (py_strip proposal_id)) (kube ''no_proposal'')) (\<lambda>j.
     lift_res (kube_verify_proposal (cfg_of E) j))"

text \<open>The records of a directory that verify; with a filter on \<open>run_id\<close>.\<close>

definition kube_listing :: "(json \<Rightarrow> kube_exn + dict) \<Rightarrow> path \<Rightarrow> string \<Rightarrow> world \<Rightarrow> dict list" where
  "kube_listing verify d prefix w =
     List.map_filter (\<lambda>name. case file_at w (d @ [name]) of
         Some (Parsed j) \<Rightarrow> (case verify j of Inl _ \<Rightarrow> None | Inr r \<Rightarrow> Some r)
       | _ \<Rightarrow> None) (glob_names d prefix w)"

definition field_is :: "string option \<Rightarrow> string \<Rightarrow> dict \<Rightarrow> bool" where
  "field_is wanted field r \<longleftrightarrow>
     (case wanted of None \<Rightarrow> True | Some t \<Rightarrow> t = [] \<or> jget r field = JStr t)"

definition kube_list_proposals :: "env \<Rightarrow> kube_store \<Rightarrow> string option \<Rightarrow> dict list krun" where
  "kube_list_proposals E S run_id =
     reads (\<lambda>w. filter (field_is run_id ''run_id'')
       (kube_listing (kube_verify_proposal (cfg_of E)) (kp_dir S) ''kcp-'' w))"

subsection \<open>Approvals\<close>

definition kube_approval_id :: "cfg \<Rightarrow> string \<Rightarrow> string \<Rightarrow> string \<Rightarrow> string \<Rightarrow> string \<Rightarrow> string" where
  "kube_approval_id C proposal_id approved_at approved_by expires_at hash =
     short_id C ''kca-'' (proposal_id @ '':'' @ approved_at @ '':'' @ approved_by @ '':'' @
       expires_at @ '':'' @ hash)"

definition str_item :: "dict \<Rightarrow> string \<Rightarrow> string" where
  "str_item r k = str_or_empty (jget r k)"

definition kube_evaluate_ttl :: "env \<Rightarrow> int option \<Rightarrow> dict \<Rightarrow> dict krun" where
  "kube_evaluate_ttl E now r =
     (if jget r ''status'' \<noteq> JStr ''approved'' then ret r
      else
        bindM (foreign (given_or_now E now)) (\<lambda>current.
        bindM (lift_res (foreign_res (parse_iso_utc (cfg_of E) (str_item r ''expires_at'')))) (\<lambda>expiry.
        ret (if expiry \<le> current then AList.update ''status'' (JStr ''expired'') r else r))))"

text \<open>\<open>verify_approval_record(record, evaluate_ttl=False)\<close>.\<close>

definition kube_verify_approval :: "cfg \<Rightarrow> json \<Rightarrow> kube_exn + dict" where
  "kube_verify_approval C record =
     bindR (kube_head C ''kubernetes_capability_approval'' (kube ''invalid_approval'') record) (\<lambda>(r, b, h).
     bindR (check (jget r ''approval_id'' \<noteq> JStr (kube_approval_id C (str_item r ''proposal_id'')
              (str_item r ''approved_at'') (str_item r ''approved_by'') (str_item r ''expires_at'') h))
            (kube ''invalid_approval'')) (\<lambda>_.
     Inr (sealed r b h)))"

definition kube_load_approval :: "env \<Rightarrow> kube_store \<Rightarrow> string \<Rightarrow> int option \<Rightarrow> bool \<Rightarrow> dict krun" where
  "kube_load_approval E S approval_id now persist_expiry =
     (let ref = py_strip approval_id; path = record_path (ka_dir S) ref in
      bindM (kube_read path (kube ''no_approval'')) (\<lambda>j.
      bindM (lift_res (kube_verify_approval (cfg_of E) j)) (\<lambda>v.
      bindM (kube_evaluate_ttl E now v) (\<lambda>r.
      if persist_expiry \<and> jget r ''status'' = JStr ''expired'' then
        bindM (kube_read path (kube ''no_approval'')) (\<lambda>stored.
        if jget (obj_of stored) ''status'' \<noteq> JStr ''expired'' then
          bindM (kube_write path r) (\<lambda>_.
          bindM (append_capability_event E ''kubernetes_capability.expired''
                   [(''approval_id'', JStr ref)]) (\<lambda>_.
          ret r))
        else ret r)
      else ret r))))"

definition kube_is_approval_active :: "env \<Rightarrow> int option \<Rightarrow> dict \<Rightarrow> bool krun" where
  "kube_is_approval_active E now r =
     bindM (kube_evaluate_ttl E now r) (\<lambda>p. ret (jget p ''status'' = JStr ''approved''))"

definition kube_approve_proposal ::
  "env \<Rightarrow> kube_store \<Rightarrow> string \<Rightarrow> string \<Rightarrow> string \<Rightarrow> int option \<Rightarrow> string \<Rightarrow> string \<Rightarrow> dict krun" where
  "kube_approve_proposal E S proposal_id ttl approved_by now approval_source provenance =
     (let C = cfg_of E in
      bindM (lift_res (kube_operator_provenance provenance)) (\<lambda>_.
      bindM (lift_res (kube_operator_identity approved_by)) (\<lambda>operator.
      bindM (lift_res (case parse_ttl_duration ttl of
                         Inl (ApprovalError f) \<Rightarrow> Inl (kube ''invalid_ttl'')
                       | Inl e \<Rightarrow> Inl (Foreign e) | Inr d \<Rightarrow> Inr d)) (\<lambda>duration.
      bindM (kube_load_proposal E S proposal_id) (\<lambda>proposal.
      bindM (foreign (given_or_now E now)) (\<lambda>current.
      let approved_at = stamp current in
      bindM (lift_res (foreign_res (parse_iso_utc C approved_at))) (\<lambda>base.
      let expiry = base + int duration * 1000000; expires_at = stamp expiry in
      bindM (raise_if (max_micros \<le> expiry) (Foreign OverflowErr)) (\<lambda>_.
      bindM (lift_res (foreign_res (parse_iso_utc C expires_at))) (\<lambda>x.
      bindM (raise_if (x \<le> current) (kube ''invalid_ttl'')) (\<lambda>_.
      bindM (lift_res (dict_item proposal ''run_id'')) (\<lambda>run.
      bindM (lift_res (dict_item proposal ''requested_by'')) (\<lambda>requested.
      let pid = py_str (jget proposal ''proposal_id''); hash = py_str (jget proposal ''body_hash'') in
      bindM (lift_res (kube_verify_approval C (JObj
        [(''kind'', JStr ''kubernetes_capability_approval''), (''schema_version'', JInt 1),
         (''approval_id'', JStr (kube_approval_id C pid approved_at operator expires_at hash)),
         (''proposal_id'', jget proposal ''proposal_id''), (''run_id'', run), (''requested_by'', requested),
         (''body'', jget proposal ''body''), (''body_hash'', jget proposal ''body_hash''),
         (''approved_by'', JStr operator), (''approved_at'', JStr approved_at),
         (''expires_at'', JStr expires_at), (''status'', JStr ''approved''),
         (''approval_source'', JStr approval_source), (''provenance'', JStr provenance)]))) (\<lambda>v.
      let path = kube_path (ka_dir S) v ''approval_id'' in
      bindM (reads (\<lambda>w. file_at w path)) (\<lambda>f.
      if f \<noteq> None then kube_load_approval E S (py_str (jget v ''approval_id'')) None False
      else
        bindM (kube_write path v) (\<lambda>_.
        bindM (append_capability_event E ''kubernetes_capability.approved''
                 [(''approval_id'', jget v ''approval_id''), (''proposal_id'', jget v ''proposal_id'')]) (\<lambda>_.
        ret v))))))))))))))))"

definition kube_revocation :: "string \<Rightarrow> string \<Rightarrow> string \<Rightarrow> string \<Rightarrow> string \<Rightarrow> string \<Rightarrow> dict" where
  "kube_revocation aid rid operator at rationale provenance =
     [(''kind'', JStr ''kubernetes_capability_revocation''), (''schema_version'', JInt 1),
      (''revocation_id'', JStr rid), (''approval_id'', JStr aid), (''revoked_by'', JStr operator),
      (''revoked_at'', JStr at), (''reason'', JStr rationale), (''provenance'', JStr provenance)]"

definition kube_revoke_approval ::
  "env \<Rightarrow> kube_store \<Rightarrow> string \<Rightarrow> string \<Rightarrow> string \<Rightarrow> string \<Rightarrow> (dict \<times> json \<times> bool) krun" where
  "kube_revoke_approval E S approval_id why revoked_by provenance =
     (let C = cfg_of E in
      bindM (lift_res (kube_operator_provenance provenance)) (\<lambda>_.
      bindM (lift_res (kube_operator_identity revoked_by)) (\<lambda>operator.
      let rationale = py_strip why in
      bindM (raise_if (rationale = []) (kube ''invalid_approval'')) (\<lambda>_.
      bindM (kube_load_approval E S approval_id None True) (\<lambda>a.
      let aid = py_str (jget a ''approval_id''); rid = short_id C ''kcv-'' aid;
          rev_path = record_path (kv_dir S) rid; status = jget a ''status'' in
      bindM (reads (\<lambda>w. file_at w rev_path)) (\<lambda>f.
      if status = JStr ''revoked'' \<and> f \<noteq> None then
        bindM (kube_read rev_path Json_decode) (\<lambda>j. ret (a, j, True))
      else if status = JStr ''expired'' \<or> status = JStr ''consumed'' then throw (kube ''invalid_approval'')
      else
        bindM (kube_now E) (\<lambda>at.
        let revocation = kube_revocation aid rid operator at rationale provenance;
            updated = AList.update ''revocation_id'' (JStr rid) (AList.update ''status'' (JStr ''revoked'') a) in
        bindM (kube_write (record_path (ka_dir S) aid) updated) (\<lambda>_.
        bindM (kube_write rev_path revocation) (\<lambda>_.
        bindM (append_capability_event E ''kubernetes_capability.revoked''
                 [(''approval_id'', JStr aid), (''revocation_id'', JStr rid)]) (\<lambda>_.
        ret (updated, JObj revocation, False)))))))))))"

text \<open>
  \<open>list_approvals\<close> loads each record and so persists expiries; only capability errors skip a
  record, a file that is not JSON or a time stamp that cannot be read ends the listing.
\<close>

definition kube_list_approvals ::
  "env \<Rightarrow> kube_store \<Rightarrow> string option \<Rightarrow> string option \<Rightarrow> dict list krun" where
  "kube_list_approvals E S run_id status =
     bindM (reads (glob_names (ka_dir S) ''kca-'')) (\<lambda>names.
     foldM_op (\<lambda>name items.
       catchM (bindM (kube_load_approval E S (stem name) None True) (\<lambda>r.
               ret (if field_is run_id ''run_id'' r \<and> field_is status ''status'' r then items @ [r] else items)))
         (\<lambda>e. if is_kube_error e then Some (ret items) else None)) names [])"

definition kube_transition_approval :: "env \<Rightarrow> kube_store \<Rightarrow> string \<Rightarrow> string \<Rightarrow> dict krun" where
  "kube_transition_approval E S approval_id target =
     bindM (kube_load_approval E S approval_id None True) (\<lambda>r.
     bindM (lift_res (dict_item r ''status'')) (\<lambda>status.
     if status = JStr target then ret r
     else if status \<noteq> JStr ''approved'' then throw (kube ''invalid_approval'')
     else
       let updated = AList.update ''status'' (JStr target) r in
       bindM (kube_write (record_path (ka_dir S) approval_id) updated) (\<lambda>_.
       bindM (append_capability_event E ''kubernetes_capability.approval_status''
                [(''approval_id'', JStr approval_id), (''from_status'', status), (''to_status'', JStr target)]) (\<lambda>_.
       ret updated))))"

subsection \<open>Bindings\<close>

definition kube_binding_id :: "cfg \<Rightarrow> string \<Rightarrow> string \<Rightarrow> string \<Rightarrow> string" where
  "kube_binding_id C approval_id run_id bound_at =
     short_id C ''kcb-'' (approval_id @ '':'' @ run_id @ '':'' @ bound_at)"

definition kube_verify_binding :: "cfg \<Rightarrow> json \<Rightarrow> kube_exn + dict" where
  "kube_verify_binding C record =
     bindR (kube_head C ''kubernetes_capability_binding'' (kube ''invalid_binding'') record) (\<lambda>(r, b, h).
     bindR (check (jget r ''binding_id'' \<noteq> JStr (kube_binding_id C (str_item r ''approval_id'')
              (str_item r ''run_id'') (str_item r ''bound_at''))) (kube ''invalid_binding'')) (\<lambda>_.
     Inr (sealed r b h)))"

definition kube_load_binding :: "env \<Rightarrow> kube_store \<Rightarrow> string \<Rightarrow> dict krun" where
  "kube_load_binding E S binding_id =
     bindM (kube_read (record_path (kb_dir S) (py_strip binding_id)) (kube ''no_binding'')) (\<lambda>j.
     lift_res (kube_verify_binding (cfg_of E) j))"

definition kube_list_bindings ::
  "env \<Rightarrow> kube_store \<Rightarrow> string option \<Rightarrow> string option \<Rightarrow> dict list krun" where
  "kube_list_bindings E S run_id status =
     reads (\<lambda>w. filter (\<lambda>r. field_is run_id ''run_id'' r \<and> field_is status ''status'' r)
       (kube_listing (kube_verify_binding (cfg_of E)) (kb_dir S) ''kcb-'' w))"

text \<open>Active bindings block, and completed ones that consumed the approval.\<close>

definition kube_blocking :: "string \<Rightarrow> dict \<Rightarrow> bool" where
  "kube_blocking approval_id r \<longleftrightarrow>
     jget r ''approval_id'' = JStr approval_id \<and>
     (jget r ''status'' = JStr ''active'' \<or>
      jget r ''status'' = JStr ''completed'' \<and> jget r ''consumes_approval'' = JBool True)"

definition kube_blocking_binding :: "env \<Rightarrow> kube_store \<Rightarrow> string \<Rightarrow> dict option krun" where
  "kube_blocking_binding E S approval_id =
     bindM (kube_list_bindings E S None None) (\<lambda>rs. ret (find (kube_blocking approval_id) rs))"

definition kube_bind_status :: "json \<Rightarrow> kube_exn option" where
  "kube_bind_status status =
     (if status = JStr ''expired'' then Some (kube ''expired'')
      else if status = JStr ''revoked'' then Some (kube ''revoked'')
      else if status = JStr ''consumed'' then Some (kube ''reused_single_use'')
      else if status \<noteq> JStr ''approved'' then Some (kube ''no_approval'') else None)"

definition kube_run_of :: "string \<Rightarrow> dict \<Rightarrow> kube_exn + json" where
  "kube_run_of run_id a =
     (if py_strip run_id \<noteq> [] then Inr (JStr (py_strip run_id)) else dict_item a ''run_id'')"

definition kube_binding_record :: "cfg \<Rightarrow> dict \<Rightarrow> json \<Rightarrow> json \<Rightarrow> string \<Rightarrow> dict" where
  "kube_binding_record C a run pid bound_at =
     (let aid = py_str (jget a ''approval_id''); body = jget a ''body'' in
      [(''kind'', JStr ''kubernetes_capability_binding''), (''schema_version'', JInt 1),
       (''binding_id'', JStr (kube_binding_id C aid (py_str run) bound_at)),
       (''approval_id'', JStr aid), (''proposal_id'', pid), (''run_id'', run), (''bound_at'', JStr bound_at),
       (''status'', JStr ''active''), (''body'', body), (''body_hash'', jget a ''body_hash''),
       (''capability'', jget (obj_of body) ''capability''), (''consumes_approval'', JBool False)])"

definition kube_create_binding ::
  "env \<Rightarrow> kube_store \<Rightarrow> string \<Rightarrow> string \<Rightarrow> int option \<Rightarrow> dict krun" where
  "kube_create_binding E S approval_id run_id now =
     bindM (kube_load_approval E S approval_id now True) (\<lambda>a.
     bindM (case kube_bind_status (jget a ''status'') of Some e \<Rightarrow> throw e | None \<Rightarrow> ret ()) (\<lambda>_.
     let aid = py_str (jget a ''approval_id'') in
     bindM (kube_blocking_binding E S aid) (\<lambda>blocking.
     bindM (case blocking of
              Some b \<Rightarrow> throw (kube (if truthy (jget b ''consumes_approval'') \<or>
                                       jget b ''status'' = JStr ''active''
                                    then ''reused_single_use'' else ''no_binding''))
            | None \<Rightarrow> ret ()) (\<lambda>_.
     bindM (kube_now E) (\<lambda>bound_at.
     bindM (lift_res (kube_run_of run_id a)) (\<lambda>run.
     bindM (lift_res (dict_item a ''proposal_id'')) (\<lambda>pid.
     bindM (lift_res (kube_verify_binding (cfg_of E)
              (JObj (kube_binding_record (cfg_of E) a run pid bound_at)))) (\<lambda>v.
     bindM (kube_write (kube_path (kb_dir S) v ''binding_id'') v) (\<lambda>_.
     bindM (append_capability_event E ''kubernetes_capability.bound''
              [(''binding_id'', jget v ''binding_id''), (''approval_id'', jget v ''approval_id'')]) (\<lambda>_.
     ret v))))))))))"

definition kube_finalize_binding ::
  "env \<Rightarrow> kube_store \<Rightarrow> string \<Rightarrow> string \<Rightarrow> bool \<Rightarrow> string option \<Rightarrow> dict krun" where
  "kube_finalize_binding E S binding_id status consumes why =
     bindM (kube_load_binding E S binding_id) (\<lambda>r.
     bindM (lift_res (dict_item r ''status'')) (\<lambda>old.
     bindM (raise_if (old \<noteq> JStr ''active'') (kube ''invalid_binding'')) (\<lambda>_.
     bindM (kube_now E) (\<lambda>t.
     let u = AList.update ''terminal_at'' (JStr t)
               (AList.update ''consumes_approval'' (JBool consumes) (AList.update ''status'' (JStr status) r));
         updated = (case why of
             Some (c # cs) \<Rightarrow> AList.update ''terminal_reason'' (JStr (c # cs)) u | _ \<Rightarrow> u) in
     bindM (lift_res (kube_verify_binding (cfg_of E) (JObj updated))) (\<lambda>v.
     bindM (kube_write (record_path (kb_dir S) binding_id) v) (\<lambda>_.
     ret v))))))"

end
