(* ===== verification/Kube_Execute.thy ===== *)
theory Kube_Execute
  imports Kube_Store
begin

section \<open>Executing a Kubernetes capability\<close>

text \<open>
  The executor is a parameter: a function of the operation and of its own state, which may
  raise and returns a dictionary. The in-process fixture is one. Around it,
  \<open>execute_kubernetes_capability\<close> binds, compares, executes, verifies and writes a receipt.
\<close>

type_synonym 'c executor = "kube_operation \<Rightarrow> 'c \<Rightarrow> (kube_exn + dict) \<times> 'c"
type_synonym ('c, 'a) xrun = "(world \<times> 'c, kube_exn, 'a) op"

definition on_world :: "'a krun \<Rightarrow> ('c, 'a) xrun" where
  "on_world m s = (case m (fst s) of (r, w') \<Rightarrow> (r, (w', snd s)))"

definition call_executor :: "'c executor \<Rightarrow> kube_operation \<Rightarrow> ('c, dict) xrun" where
  "call_executor X op s = (case X op (snd s) of (r, c') \<Rightarrow> (r, (fst s, c')))"

subsection \<open>int and get\<close>

text \<open>\<open>int(x)\<close>; of a float with an exponent in its repr the value is not computed.\<close>

definition int_of_text :: "string \<Rightarrow> int option" where
  "int_of_text s =
     (let t = py_strip s;
          signed = (t \<noteq> [] \<and> (hd t = CHR ''-'' \<or> hd t = CHR ''+''));
          parts = py_split CHR ''_'' (if signed then tl t else t);
          value = int (num_val (concat parts)) in
      if list_all (\<lambda>p. p \<noteq> [] \<and> list_all is_digit p) parts
      then Some (if signed \<and> hd t = CHR ''-'' then - value else value) else None)"

definition py_int :: "json \<Rightarrow> kube_exn + int" where
  "py_int j =
     (let text = (\<lambda>s. case int_of_text s of None \<Rightarrow> Inl (Int_error j) | Some i \<Rightarrow> Inr i) in
      case j of
        JInt i \<Rightarrow> Inr i
      | JBool b \<Rightarrow> Inr (if b then 1 else 0)
      | JStr s \<Rightarrow> text s
      | JFloat r \<Rightarrow> if CHR ''e'' \<in> set r then Inl (Int_error j) else text (hd (py_split CHR ''.'' r))
      | _ \<Rightarrow> Inl (Int_error j))"

text \<open>\<open>(x or {}).get(k)\<close> and the dictionary \<open>x\<close> must be for its items to be set.\<close>

definition get_in :: "json \<Rightarrow> string \<Rightarrow> kube_exn + json" where
  "get_in x k =
     (if \<not> truthy x then Inr JNull
      else case x of JObj d \<Rightarrow> Inr (jget d k) | _ \<Rightarrow> Inl Attr_error)"

definition as_dict :: "json \<Rightarrow> kube_exn + dict" where
  "as_dict x = (case x of JObj d \<Rightarrow> Inr d | _ \<Rightarrow> Inl Attr_error)"

subsection \<open>The fixture\<close>

definition named_container :: "string \<Rightarrow> json \<Rightarrow> bool" where
  "named_container wanted item \<longleftrightarrow>
     (case item of JObj d \<Rightarrow> jget d ''name'' = JStr wanted | _ \<Rightarrow> False)"

text \<open>Setting the timeout of the first container of that name; items before it are asked too.\<close>

fun set_probe_timeout :: "string \<Rightarrow> json list \<Rightarrow> kube_exn + json list" where
  "set_probe_timeout wanted [] = Inl Attr_error"
| "set_probe_timeout wanted (item # items) =
     bindR (as_dict item) (\<lambda>d.
     if jget d ''name'' = JStr wanted then
       (case jget d ''readinessProbe'' of
          JObj probe \<Rightarrow>
            if \<not> is_one (jget probe ''timeoutSeconds'') then Inl (kube ''invalid_patch'')
            else Inr (JObj (AList.update ''readinessProbe''
                   (JObj (AList.update ''timeoutSeconds'' (JInt 3) probe)) d) # items)
        | _ \<Rightarrow> Inl (kube ''invalid_patch''))
     else bindR (set_probe_timeout wanted items) (\<lambda>rest. Inr (item # rest)))"

definition patch_object :: "patch \<Rightarrow> dict \<Rightarrow> kube_exn + dict" where
  "patch_object p d =
     (case p of
        Replicas n \<Rightarrow> Inr (AList.update ''replicas'' (JInt n) d)
      | Annotation v \<Rightarrow>
          bindR (if truthy (jget d ''annotations'') then as_dict (jget d ''annotations'') else Inr []) (\<lambda>ann.
          Inr (AList.update ''annotations'' (JObj (AList.update allowed_annotation_key (JStr v) ann)) d))
      | Readiness c \<Rightarrow>
          (case jget d ''containers'' of
             JArr items \<Rightarrow>
               if length (filter (named_container c) items) \<noteq> 1 then Inl (kube ''invalid_patch'')
               else bindR (set_probe_timeout c items) (\<lambda>xs. Inr (AList.update ''containers'' (JArr xs) d))
           | _ \<Rightarrow> Inl (kube ''invalid_patch'')))"

definition int_or_zero :: "json \<Rightarrow> kube_exn + int" where
  "int_or_zero j = (if truthy j then py_int j else Inr 0)"

text \<open>The object after a patch, with its new generation and resource version.\<close>

definition patched_object :: "patch \<Rightarrow> dict \<Rightarrow> kube_exn + dict" where
  "patched_object p d =
     bindR (patch_object p d) (\<lambda>u.
     bindR (int_or_zero (jget u ''generation'')) (\<lambda>g.
     let v = AList.update ''generation'' (JInt (g + 1)) u in
     bindR (int_or_zero (jget v ''resource_version'')) (\<lambda>n.
     Inr (AList.update ''resource_version'' (JStr (int_str (n + 1))) v))))"

definition put_object :: "dict \<Rightarrow> string \<Rightarrow> string \<Rightarrow> string \<Rightarrow> dict \<Rightarrow> dict" where
  "put_object state namespace resource name obj =
     (let all = obj_of (jget state ''namespaces''); ns = obj_of (jget all namespace);
          bucket = obj_of (jget ns resource) in
      AList.update ''namespaces'' (JObj (AList.update namespace
        (JObj (AList.update resource (JObj (AList.update name (JObj obj) bucket)) ns)) all)) state)"

definition fixture_result :: "cfg \<Rightarrow> json \<Rightarrow> json \<Rightarrow> json \<Rightarrow> bool \<Rightarrow> dict" where
  "fixture_result C digested prior after changed =
     [(''executed'', JBool True), (''verified'', JBool True),
      (''verification_method'', JStr ''fixture_state_compare''),
      (''result_digest'', JStr (sha256_canonical C digested)), (''before'', prior), (''after'', after),
      (''changed'', JBool changed)]"

definition fixture_verb :: "cfg \<Rightarrow> kube_operation \<Rightarrow> dict \<Rightarrow> dict \<Rightarrow> kube_exn + dict \<times> dict" where
  "fixture_verb C op bucket state =
     (let current = (case ko_name op of None \<Rightarrow> JNull | Some n \<Rightarrow> jget bucket n) in
      if ko_verb op = ''list'' then
        let names = jstrs (sort (map fst bucket)) in
        Inr (fixture_result C (JObj [(''list'', names)]) JNull (JObj [(''names'', names)]) False, state)
      else if ko_verb op = ''get'' then
        (if current = JNull then Inl (kube ''wrong_resource'')
         else Inr (fixture_result C current current current False, state))
      else if ko_verb op = ''patch'' then
        (if current = JNull then Inl (kube ''wrong_resource'')
         else
           bindR (normalize_patch (ko_patch op)) (\<lambda>p.
           case p of
             None \<Rightarrow> Inl (kube ''invalid_patch'')
           | Some q \<Rightarrow>
               bindR (as_dict current) (\<lambda>prior.
               bindR (patched_object q prior) (\<lambda>updated.
               Inr (fixture_result C (JObj [(''before'', JObj prior), (''after'', JObj updated)])
                      (JObj prior) (JObj updated) (prior \<noteq> updated) @
                    [(''before_digest'', JStr (sha256_canonical C (JObj prior))),
                     (''after_digest'', JStr (sha256_canonical C (JObj updated)))],
                    put_object state (ko_namespace op) (ko_resource op) (the (ko_name op)) updated)))))
      else Inl (kube ''wrong_verb''))"

definition fixture_execute :: "cfg \<Rightarrow> dict executor" where
  "fixture_execute C op state =
     (let r =
        (if str_or_empty (jget state ''cluster'') \<noteq> ko_cluster op then Inl (kube ''wrong_cluster'')
         else
           bindR (get_in (jget state ''namespaces'') (ko_namespace op)) (\<lambda>ns.
           case ns of
             JObj n \<Rightarrow>
               (case jget n (ko_resource op) of
                  JObj bucket \<Rightarrow> fixture_verb C op bucket state
                | _ \<Rightarrow> Inl (kube ''wrong_resource''))
           | _ \<Rightarrow> Inl (kube ''wrong_namespace''))) in
      case r of Inl e \<Rightarrow> (Inl e, state) | Inr (res, state') \<Rightarrow> (Inr res, state'))"

definition default_fixture_state :: dict where
  "default_fixture_state =
     [(''cluster'', JStr ''local-fixture''),
      (''namespaces'', JObj [(''demo'', JObj [(''deployments'', JObj [(''web'', JObj
         [(''replicas'', JInt 1), (''generation'', JInt 1), (''resource_version'', JStr ''1''),
          (''annotations'', JObj []),
          (''containers'', JArr [JObj [(''name'', JStr ''web''),
             (''readinessProbe'', JObj [(''timeoutSeconds'', JInt 1)])]])])])])])]"

subsection \<open>Evidence\<close>

definition operation_name :: "kube_operation \<Rightarrow> kube_exn + string" where
  "operation_name op =
     bindR (normalize_patch (ko_patch op)) (\<lambda>p.
     Inr (case p of
            Some (Annotation _) \<Rightarrow> ''annotation_patch''
          | Some (Replicas _) \<Rightarrow> ''replica_patch''
          | Some (Readiness _) \<Rightarrow> ''readiness_timeout_patch''
          | None \<Rightarrow> let verb = py_lower (py_strip (ko_verb op)) in if verb = [] then ''unknown'' else verb))"

definition generation_of :: "json \<Rightarrow> json" where
  "generation_of value =
     (case jget (obj_of value) ''generation'' of JInt g \<Rightarrow> JInt g | _ \<Rightarrow> JNull)"

definition resource_version_of :: "json \<Rightarrow> string option" where
  "resource_version_of value =
     (let d = obj_of value;
          raw = (case map_of d ''resourceVersion'' of Some v \<Rightarrow> v | None \<Rightarrow> jget d ''resource_version'') in
      if raw = JNull then None else Some (py_str raw))"

definition evidence_keys :: "string list" where
  "evidence_keys = [''apiVersion'', ''kind'', ''name'', ''namespace'', ''uid'', ''resourceVersion'',
     ''generation'', ''readiness'']"

definition result_keys :: "string list" where
  "result_keys = [''executed'', ''verified'', ''verification_method'', ''verification_reason'',
     ''result_digest'', ''before_digest'', ''after_digest'', ''before'', ''after'', ''changed'', ''warnings'']"

definition probe_container :: "json \<Rightarrow> json" where
  "probe_container p = jget (obj_of (jget (obj_of p) ''readinessProbe'')) ''container''"

text \<open>\<open>{"container": c, "timeoutSeconds": t}\<close> up to the order of its keys.\<close>

definition readiness_is :: "json \<Rightarrow> int \<Rightarrow> json \<Rightarrow> bool" where
  "readiness_is c t v \<longleftrightarrow>
     (case v of
        JObj d \<Rightarrow> length d = 2 \<and> map_of d ''container'' = Some c \<and>
          (case map_of d ''timeoutSeconds'' of
             None \<Rightarrow> False
           | Some v \<Rightarrow> v = JInt t \<or> v = JFloat (int_str t @ ''.0'') \<or> t = 1 \<and> is_one v)
      | _ \<Rightarrow> False)"

definition text_where :: "(string \<Rightarrow> bool) \<Rightarrow> json \<Rightarrow> bool" where
  "text_where P j \<longleftrightarrow> (case j of JStr s \<Rightarrow> P s | _ \<Rightarrow> False)"

definition is_JInt :: "json \<Rightarrow> bool" where
  "is_JInt j \<longleftrightarrow> (case j of JInt _ \<Rightarrow> True | _ \<Rightarrow> False)"

definition evidence_ok :: "kube_operation \<Rightarrow> int \<Rightarrow> dict \<Rightarrow> bool" where
  "evidence_ok op timeout e \<longleftrightarrow>
     jget e ''apiVersion'' = JStr ''apps/v1'' \<and> jget e ''kind'' = JStr ''Deployment'' \<and>
     jget e ''name'' = json_name (ko_name op) \<and> jget e ''namespace'' = JStr (ko_namespace op) \<and>
     text_where dns_label (jget e ''uid'') \<and> text_where (token_of ''._-'') (jget e ''resourceVersion'') \<and>
     is_JInt (jget e ''generation'') \<and> readiness_is (probe_container (ko_patch op)) timeout (jget e ''readiness'')"

definition int_of :: "json \<Rightarrow> int" where
  "int_of j = (case j of JInt i \<Rightarrow> i | _ \<Rightarrow> 0)"

definition later_version :: "string \<Rightarrow> string \<Rightarrow> bool" where
  "later_version a b \<longleftrightarrow>
     (if list_all is_digit a \<and> list_all is_digit b then num_val b < num_val a else a \<noteq> b)"

text \<open>\<open>_readiness_result_is_safe\<close> of a result that is a dictionary.\<close>

definition readiness_result_is_safe :: "cfg \<Rightarrow> dict \<Rightarrow> kube_operation \<Rightarrow> bool" where
  "readiness_result_is_safe C r op \<longleftrightarrow>
     set (map fst r) \<subseteq> set result_keys \<and>
     \<not> truthy (jget r ''warnings'') \<and> jget r ''verification_reason'' = JNull \<and>
     jget r ''verification_method'' = JStr ''live_readback_compare'' \<and>
     (case (jget r ''before'', jget r ''after'') of
        (JObj prior, JObj after) \<Rightarrow>
          set (map fst prior) = set evidence_keys \<and> set (map fst after) = set evidence_keys \<and>
          evidence_ok op 1 prior \<and> evidence_ok op 3 after \<and>
          jget prior ''uid'' = jget after ''uid'' \<and> jget r ''changed'' = JBool True \<and>
          int_of (jget prior ''generation'') < int_of (jget after ''generation'') \<and>
          later_version (py_str (jget after ''resourceVersion'')) (py_str (jget prior ''resourceVersion'')) \<and>
          jget r ''before_digest'' = JStr (sha256_canonical C (JObj prior)) \<and>
          jget r ''after_digest'' = JStr (sha256_canonical C (JObj after)) \<and>
          jget r ''result_digest'' =
            JStr (sha256_canonical C (JObj [(''before'', JObj prior), (''after'', JObj after)]))
      | _ \<Rightarrow> False)"

subsection \<open>Receipts and denials\<close>

record receipt_spec =
  rs_compliance :: string
  rs_acceptance :: string
  rs_within :: bool
  rs_executed :: bool
  rs_verified :: bool
  rs_method :: json
  rs_change :: json
  rs_stop :: json
  rs_code :: string

definition kube_receipt_id :: "cfg \<Rightarrow> string \<Rightarrow> string \<Rightarrow> string \<Rightarrow> string \<Rightarrow> string \<Rightarrow> string" where
  "kube_receipt_id C binding_id run_id evaluated_at compliance acceptance =
     short_id C ''kcr-'' (binding_id @ '':'' @ run_id @ '':'' @ evaluated_at @ '':'' @ compliance @ '':'' @
       acceptance)"

definition or_item :: "string \<Rightarrow> dict \<Rightarrow> string \<Rightarrow> kube_exn + json" where
  "or_item text d k = (if text \<noteq> [] then Inr (JStr text) else dict_item d k)"

definition granted_fields :: "string list" where
  "granted_fields = [''cluster'', ''namespaces'', ''verbs'', ''resources'', ''denied_namespaces'',
     ''denied_verbs'', ''denied_resources'', ''exact_operation'']"

definition kube_build_receipt ::
  "env \<Rightarrow> dict \<Rightarrow> dict \<Rightarrow> kube_operation \<Rightarrow> receipt_spec \<Rightarrow> dict krun" where
  "kube_build_receipt E b a op spec =
     (let C = cfg_of E; body = obj_of (jget b ''body'') in
      bindM (kube_now E) (\<lambda>t.
      bindM (raise_if (rs_acceptance spec = ''PASS'' \<and>
               (rs_compliance spec \<noteq> ''within_scope'' \<or> \<not> rs_verified spec \<or> \<not> rs_executed spec))
               (kube ''unverified'')) (\<lambda>_.
      bindM (lift_res (or_item (ko_run op) b ''run_id'')) (\<lambda>run.
      bindM (lift_res (or_item (ko_mission op) b ''run_id'')) (\<lambda>mission.
      bindM (lift_res (operation_name op)) (\<lambda>name.
      bindM (lift_res (operation_digest C op)) (\<lambda>digest.
      ret [(''kind'', JStr ''kubernetes_capability_receipt''), (''schema_version'', JInt 1),
        (''receipt_id'', JStr (kube_receipt_id C (py_str (jget b ''binding_id'')) (py_str run) t
           (rs_compliance spec) (rs_acceptance spec))),
        (''run_id'', run), (''mission_id'', mission),
        (''requested_by'', if ko_requested op \<noteq> [] then JStr (ko_requested op)
                           else if truthy (jget a ''requested_by'') then jget a ''requested_by'' else JStr []),
        (''proposal_id'', jget a ''proposal_id''), (''approval_id'', jget a ''approval_id''),
        (''binding_id'', jget b ''binding_id''), (''capability'', jget body ''capability''),
        (''granted'', JObj (map (\<lambda>k. (k, jget body k)) granted_fields)),
        (''target'', JObj [(''cluster'', JStr (ko_cluster op)), (''namespace'', JStr (ko_namespace op)),
           (''resource'', JStr (ko_resource op)), (''name'', json_name (ko_name op))]),
        (''operation'', JObj [(''verb'', JStr (ko_verb op)), (''name'', JStr name), (''digest'', JStr digest)]),
        (''change'', rs_change spec), (''within_scope'', JBool (rs_within spec)),
        (''verification'', JObj [(''method'', rs_method spec), (''verified'', JBool (rs_verified spec))]),
        (''executed'', JBool (rs_executed spec)), (''compliance'', JStr (rs_compliance spec)),
        (''acceptance_state'', JStr (rs_acceptance spec)), (''binding_status'', jget b ''status''),
        (''approval_status'', jget a ''status''), (''created_at'', JStr t), (''evaluated_at'', JStr t),
        (''stop_reason'', rs_stop spec),
        (''denial_code'', if rs_acceptance spec = ''PASS'' then JNull else JStr (rs_code spec)),
        (''secrets_omitted'', JBool True)])))))))"

definition kube_write_receipt :: "env \<Rightarrow> kube_store \<Rightarrow> dict \<Rightarrow> dict krun" where
  "kube_write_receipt E S r =
     bindM (kube_write (kube_path (kr_dir S) r ''receipt_id'') r) (\<lambda>_.
     bindM (append_capability_event E ''kubernetes_capability.receipt''
              [(''receipt_id'', jget r ''receipt_id''), (''acceptance_state'', jget r ''acceptance_state''),
               (''compliance'', jget r ''compliance'')]) (\<lambda>_.
     ret r))"

definition id_or_null :: "dict option \<Rightarrow> string \<Rightarrow> json" where
  "id_or_null r k = (case r of None \<Rightarrow> JNull | Some d \<Rightarrow> jget d k)"

definition kube_denial ::
  "env \<Rightarrow> string \<Rightarrow> string \<Rightarrow> kube_operation \<Rightarrow> dict option \<Rightarrow> dict option \<Rightarrow> dict krun" where
  "kube_denial E code message op a b =
     bindM (kube_now E) (\<lambda>t.
     ret [(''kind'', JStr ''kubernetes_capability_denial''), (''schema_version'', JInt 1),
       (''code'', JStr code), (''message'', JStr message),
       (''acceptance_state'', JStr (if code \<noteq> ''unverified'' then ''FAIL'' else ''UNVERIFIED'')),
       (''mission_id'', JStr (ko_mission op)), (''requested_by'', JStr (ko_requested op)),
       (''run_id'', JStr (ko_run op)), (''approval_id'', id_or_null a ''approval_id''),
       (''binding_id'', id_or_null b ''binding_id''),
       (''target'', JObj [(''cluster'', JStr (ko_cluster op)), (''namespace'', JStr (ko_namespace op)),
          (''resource'', JStr (ko_resource op)), (''name'', json_name (ko_name op)),
          (''verb'', JStr (ko_verb op))]),
       (''created_at'', JStr t)])"

record kube_outcome =
  kx_ok :: bool
  kx_code :: string
  kx_receipt :: "dict option"
  kx_denial :: "dict option"
  kx_binding :: "dict option"
  kx_approval :: "dict option"

subsection \<open>Authority for one attempt\<close>

definition prepare_operation :: "kube_operation \<Rightarrow> kube_exn + kube_operation" where
  "prepare_operation op =
     bindR (normalize_patch (ko_patch op)) (\<lambda>p.
     let run = py_strip (ko_run op) in
     bindR (check (run = []) (kube ''invalid_request'')) (\<lambda>_.
     Inr \<lparr>ko_cluster = py_strip (ko_cluster op), ko_namespace = py_strip (ko_namespace op),
          ko_verb = py_lower (py_strip (ko_verb op)), ko_resource = py_lower (py_strip (ko_resource op)),
          ko_name = (case ko_name op of
                       None \<Rightarrow> None | Some n \<Rightarrow> if py_strip n = [] then None else Some (py_strip n)),
          ko_patch = json_patch p, ko_mission = py_strip (ko_mission op),
          ko_requested = py_strip (ko_requested op), ko_run = run, ko_context = py_strip (ko_context op),
          ko_uid = py_strip (ko_uid op), ko_version = py_strip (ko_version op)\<rparr>))"

definition attempt_kube :: "('s, kube_exn, 'a) op \<Rightarrow> ('s, kube_exn, kube_exn + 'a) op" where
  "attempt_kube m =
     catchM (bindM m (\<lambda>a. ret (Inr a))) (\<lambda>e. if is_kube_error e then Some (ret (Inl e)) else None)"

definition code_or :: "string \<Rightarrow> kube_exn \<Rightarrow> string" where
  "code_or d e =
     (case e of Kube (Some (c # cs)) \<Rightarrow> c # cs | Kube_interrupted (Some (c # cs)) \<Rightarrow> c # cs | _ \<Rightarrow> d)"

definition inactive_code :: "json \<Rightarrow> string" where
  "inactive_code status =
     (if status = JStr ''expired'' then ''expired'' else if status = JStr ''consumed'' then ''reused_single_use''
      else if status = JStr ''revoked'' then ''revoked'' else ''no_approval'')"

text \<open>
  Lines 1327 to 1359: what is known of approval and binding when the \<open>try\<close> block ends, and the
  capability error that ended it.
\<close>

definition given_binding ::
  "env \<Rightarrow> kube_store \<Rightarrow> kube_operation \<Rightarrow> string \<Rightarrow> int option \<Rightarrow> (dict option \<times> dict option \<times> kube_exn option) krun" where
  "given_binding E S op bid now =
     bindM (attempt_kube (kube_load_binding E S bid)) (\<lambda>lb.
     case lb of
       Inl e \<Rightarrow> ret (None, None, Some e)
     | Inr b \<Rightarrow>
         if jget b ''status'' \<noteq> JStr ''active'' then ret (None, Some b, Some (kube ''no_binding''))
         else
           bindM (lift_res (dict_item b ''approval_id'')) (\<lambda>aid.
           bindM (attempt_kube (kube_load_approval E S (str_or_empty aid) now True)) (\<lambda>la.
           case la of
             Inl e \<Rightarrow> ret (None, Some b, Some e)
           | Inr a \<Rightarrow>
               bindM (lift_res (dict_item b ''run_id'')) (\<lambda>run.
               if run \<noteq> JStr (ko_run op) then ret (Some a, Some b, Some (kube ''no_binding''))
               else
                 bindM (lift_res (dict_item a ''status'')) (\<lambda>status.
                 if status \<noteq> JStr ''approved''
                 then ret (Some a, Some b, Some (kube (inactive_code status)))
                 else ret (Some a, Some b, None))))))"

definition new_binding ::
  "env \<Rightarrow> kube_store \<Rightarrow> kube_operation \<Rightarrow> string \<Rightarrow> int option \<Rightarrow> (dict option \<times> dict option \<times> kube_exn option) krun" where
  "new_binding E S op aid now =
     bindM (attempt_kube (kube_load_approval E S aid now True)) (\<lambda>la.
     case la of
       Inl e \<Rightarrow> ret (None, None, Some e)
     | Inr a \<Rightarrow>
         bindM (attempt_kube (kube_create_binding E S (py_str (jget a ''approval_id'')) (ko_run op) now)) (\<lambda>lb.
         case lb of
           Inl e \<Rightarrow> ret (Some a, None, Some e)
         | Inr b \<Rightarrow> ret (Some a, Some b, None)))"

subsection \<open>The attempt\<close>

text \<open>
  The end all attempts share: the binding is finalized, an approval the attempt used up is
  consumed, the receipt is built of both and written.
\<close>

definition settle_attempt ::
  "env \<Rightarrow> kube_store \<Rightarrow> kube_operation \<Rightarrow> dict \<Rightarrow> dict \<Rightarrow> bool \<Rightarrow> bool \<Rightarrow> string option \<Rightarrow> receipt_spec \<Rightarrow>
   kube_outcome krun" where
  "settle_attempt E S op a b ok consumes why spec =
     bindM (kube_finalize_binding E S (py_str (jget b ''binding_id''))
              (if ok then ''completed'' else ''failed'') consumes why) (\<lambda>b'.
     bindM (if consumes then kube_transition_approval E S (py_str (jget a ''approval_id'')) ''consumed''
            else ret a) (\<lambda>a'.
     bindM (kube_build_receipt E b' a' op spec) (\<lambda>r.
     bindM (kube_write_receipt E S r) (\<lambda>_.
     ret \<lparr>kx_ok = ok, kx_code = rs_code spec, kx_receipt = Some r, kx_denial = None,
          kx_binding = Some b', kx_approval = Some a'\<rparr>))))"

definition denied_spec :: "string \<Rightarrow> receipt_spec" where
  "denied_spec code = \<lparr>rs_compliance = ''denied'', rs_acceptance = ''FAIL'', rs_within = False,
     rs_executed = False, rs_verified = True, rs_method = JStr ''pre_execution_scope_check'',
     rs_change = JNull, rs_stop = JStr code, rs_code = code\<rparr>"

definition interrupted_spec :: receipt_spec where
  "interrupted_spec = \<lparr>rs_compliance = ''unverified'', rs_acceptance = ''UNVERIFIED'', rs_within = True,
     rs_executed = False, rs_verified = False, rs_method = JNull, rs_change = JNull,
     rs_stop = JStr ''interrupted'', rs_code = ''unverified''\<rparr>"

definition raised_spec :: "bool \<Rightarrow> string \<Rightarrow> receipt_spec" where
  "raised_spec uncertain code =
     \<lparr>rs_compliance = if uncertain then ''unverified'' else ''denied'',
      rs_acceptance = if uncertain then ''UNVERIFIED'' else ''FAIL'', rs_within = True,
      rs_executed = False, rs_verified = \<not> uncertain, rs_method = JStr ''executor_error'',
      rs_change = JNull, rs_stop = JStr code, rs_code = if uncertain then ''unverified'' else code\<rparr>"

definition unverified_spec :: "bool \<Rightarrow> bool \<Rightarrow> dict \<Rightarrow> receipt_spec" where
  "unverified_spec readiness executed result =
     \<lparr>rs_compliance = ''unverified'', rs_acceptance = ''UNVERIFIED'', rs_within = True,
      rs_executed = executed, rs_verified = False,
      rs_method = if readiness then JStr ''live_readback_compare'' else jget result ''verification_method'',
      rs_change = JNull, rs_stop = JStr ''executor returned unverified result'', rs_code = ''unverified''\<rparr>"

definition digest_or :: "cfg \<Rightarrow> dict \<Rightarrow> string \<Rightarrow> string \<Rightarrow> json" where
  "digest_or C result given value =
     (if truthy (jget result given) then jget result given
      else if jget result value = JNull then JNull
      else JStr (sha256_canonical C (jget result value)))"

definition change_of :: "cfg \<Rightarrow> kube_operation \<Rightarrow> dict \<Rightarrow> json" where
  "change_of C op result =
     (if truthy (jget result ''changed'') \<or> verb_requires_mutate (ko_verb op) then
        JObj [(''digest'', jget result ''result_digest''),
          (''before_digest'', digest_or C result ''before_digest'' ''before''),
          (''after_digest'', digest_or C result ''after_digest'' ''after''),
          (''before_generation'', generation_of (jget result ''before'')),
          (''after_generation'', generation_of (jget result ''after'')),
          (''before_resource_version'', json_name (resource_version_of (jget result ''before''))),
          (''after_resource_version'', json_name (resource_version_of (jget result ''after''))),
          (''changed'', JBool (truthy (jget result ''changed'')))]
      else JNull)"

definition passed_spec :: "cfg \<Rightarrow> kube_operation \<Rightarrow> dict \<Rightarrow> receipt_spec" where
  "passed_spec C op result =
     \<lparr>rs_compliance = ''within_scope'', rs_acceptance = ''PASS'', rs_within = True, rs_executed = True,
      rs_verified = True,
      rs_method = JStr (if truthy (jget result ''verification_method'')
                        then py_str (jget result ''verification_method'') else ''fixture_state_compare''),
      rs_change = change_of C op result, rs_stop = JNull, rs_code = ''ok''\<rparr>"

text \<open>Lines 1424 to 1570: what the executor returned or raised, judged.\<close>

definition result_verified :: "cfg \<Rightarrow> kube_operation \<Rightarrow> dict \<Rightarrow> bool" where
  "result_verified C op result \<longleftrightarrow>
     truthy (jget result ''verified'') \<and> \<not> truthy (jget result ''warnings'') \<and>
     (has_probe (ko_patch op) \<longrightarrow> readiness_result_is_safe C result op)"

definition judge_result ::
  "env \<Rightarrow> kube_store \<Rightarrow> kube_operation \<Rightarrow> dict \<Rightarrow> dict \<Rightarrow> kube_exn + dict \<Rightarrow> kube_outcome krun" where
  "judge_result E S op a b r =
     (let C = cfg_of E; readiness = has_probe (ko_patch op) in
      case r of
        Inl (Kube_interrupted c) \<Rightarrow>
          settle_attempt E S op a b False readiness (Some ''interrupted'') interrupted_spec
      | Inl e \<Rightarrow>
          let code = code_or ''execution_failed'' e in
          settle_attempt E S op a b False readiness (Some code) (raised_spec readiness code)
      | Inr result \<Rightarrow>
          let executed = truthy (jget result ''executed'') in
          if \<not> executed \<or> \<not> result_verified C op result then
            settle_attempt E S op a b False readiness (Some ''unverified'')
              (unverified_spec readiness executed result)
          else
            bindM (lift_res (classify_operation (jget b ''body'') op)) (\<lambda>again.
            bindM (raise_if (again \<noteq> None) (kube ''scope_escalation'')) (\<lambda>_.
            settle_attempt E S op a b True
              (verb_requires_mutate (ko_verb op) \<and> truthy (jget result ''changed'')) None
              (passed_spec C op result))))"

definition refused :: "kube_operation \<Rightarrow> string \<Rightarrow> dict \<Rightarrow> dict option \<Rightarrow> dict option \<Rightarrow> kube_outcome" where
  "refused op code denial a b = \<lparr>kx_ok = False, kx_code = code, kx_receipt = None, kx_denial = Some denial,
     kx_binding = b, kx_approval = a\<rparr>"

text \<open>Lines 1361 to 1420: the last comparisons before the executor is called.\<close>

definition bound_attempt ::
  "env \<Rightarrow> kube_store \<Rightarrow> 'c executor \<Rightarrow> kube_operation \<Rightarrow> dict \<Rightarrow> dict \<Rightarrow> ('c, kube_outcome) xrun" where
  "bound_attempt E S X op a b =
     (if jget b ''body_hash'' \<noteq> jget a ''body_hash'' then
        on_world (
          bindM (kube_denial E ''scope_escalation'' ''binding body_hash diverged from approval'' op (Some a) (Some b)) (\<lambda>d.
          bindM (kube_finalize_binding E S (py_str (jget b ''binding_id'')) ''failed'' False
                   (Some ''scope_escalation'')) (\<lambda>b'.
          ret (refused op ''scope_escalation'' d (Some a) (Some b')))))
      else
        bindM (lift_res (classify_operation (jget b ''body'') op)) (\<lambda>scope.
        case scope of
          Some code \<Rightarrow> on_world (settle_attempt E S op a b False False (Some code) (denied_spec code))
        | None \<Rightarrow>
            bindM (attempt_kube (call_executor X op)) (\<lambda>r.
            on_world (judge_result E S op a b r))))"

definition acquire ::
  "env \<Rightarrow> kube_store \<Rightarrow> kube_operation \<Rightarrow> string option \<Rightarrow> string option \<Rightarrow> int option \<Rightarrow>
   (dict option \<times> dict option \<times> kube_exn option) krun" where
  "acquire E S op aid bid now =
     (case bid of
        Some (c # cs) \<Rightarrow> given_binding E S op (c # cs) now
      | _ \<Rightarrow> new_binding E S op (case aid of None \<Rightarrow> [] | Some t \<Rightarrow> t) now)"

definition execute_kubernetes_capability ::
  "env \<Rightarrow> kube_store \<Rightarrow> 'c executor \<Rightarrow> kube_operation \<Rightarrow> string option \<Rightarrow> string option \<Rightarrow> int option \<Rightarrow>
   ('c, kube_outcome) xrun" where
  "execute_kubernetes_capability E S X operation approval_id binding_id now =
     bindM (lift_res (prepare_operation operation)) (\<lambda>op.
     if (approval_id = None \<or> approval_id = Some []) \<and> (binding_id = None \<or> binding_id = Some []) then
       on_world (bindM (kube_denial E ''no_approval'' ''no approval provided'' op None None) (\<lambda>d.
         ret (refused op ''no_approval'' d None None)))
     else
       bindM (on_world (acquire E S op approval_id binding_id now)) (\<lambda>(a, b, e).
       case (a, b, e) of
         (Some a, Some b, None) \<Rightarrow> bound_attempt E S X op a b
       | (_, _, e) \<Rightarrow>
           (let x = (case e of Some x \<Rightarrow> x | None \<Rightarrow> Kube None); code = code_or ''no_approval'' x in
            on_world (bindM (kube_denial E code (code_or ''authority unavailable'' x) op a b) (\<lambda>d.
              ret (refused op code d a b))))))"

subsection \<open>Audit\<close>

definition kube_load_receipt :: "env \<Rightarrow> kube_store \<Rightarrow> string \<Rightarrow> json krun" where
  "kube_load_receipt E S receipt_id =
     kube_read (record_path (kr_dir S) (py_strip receipt_id)) (kube ''no_receipt'')"

record kube_lineage =
  kl_proposal :: "dict option"
  kl_approval :: "dict option"
  kl_binding :: "dict option"
  kl_receipt :: "json option"

definition no_lineage :: kube_lineage where
  "no_lineage = \<lparr>kl_proposal = None, kl_approval = None, kl_binding = None, kl_receipt = None\<rparr>"

definition first_of :: "'a list \<Rightarrow> 'a option" where
  "first_of xs = (case xs of [] \<Rightarrow> None | x # _ \<Rightarrow> Some x)"

definition kube_seed :: "env \<Rightarrow> kube_store \<Rightarrow> string \<Rightarrow> kube_lineage krun" where
  "kube_seed E S text =
     (if starts_with text ''kcp-'' then
        bindM (kube_load_proposal E S text) (\<lambda>p. ret (no_lineage\<lparr>kl_proposal := Some p\<rparr>))
      else if starts_with text ''kca-'' then
        bindM (kube_load_approval E S text None True) (\<lambda>a. ret (no_lineage\<lparr>kl_approval := Some a\<rparr>))
      else if starts_with text ''kcb-'' then
        bindM (kube_load_binding E S text) (\<lambda>b. ret (no_lineage\<lparr>kl_binding := Some b\<rparr>))
      else if starts_with text ''kcr-'' then
        bindM (kube_load_receipt E S text) (\<lambda>r. ret (no_lineage\<lparr>kl_receipt := Some r\<rparr>))
      else
        bindM (kube_list_proposals E S (Some text)) (\<lambda>ps.
        case ps of
          p # _ \<Rightarrow> ret (no_lineage\<lparr>kl_proposal := Some p\<rparr>)
        | [] \<Rightarrow>
            bindM (kube_list_approvals E S (Some text) None) (\<lambda>as.
            case as of
              a # _ \<Rightarrow> ret (no_lineage\<lparr>kl_approval := Some a\<rparr>)
            | [] \<Rightarrow> throw (kube ''not_found''))))"

definition item_text :: "dict \<Rightarrow> string \<Rightarrow> kube_exn + string" where
  "item_text d k = bindR (dict_item d k) (\<lambda>v. Inr (str_or_empty v))"

definition lineage_approval :: "env \<Rightarrow> kube_store \<Rightarrow> kube_lineage \<Rightarrow> kube_lineage krun" where
  "lineage_approval E S l =
     (case (kl_binding l, kl_approval l) of
        (Some b, None) \<Rightarrow>
          bindM (lift_res (item_text b ''approval_id'')) (\<lambda>i.
          bindM (kube_load_approval E S i None True) (\<lambda>a. ret (l\<lparr>kl_approval := Some a\<rparr>)))
      | _ \<Rightarrow> ret l)"

definition lineage_proposal :: "env \<Rightarrow> kube_store \<Rightarrow> kube_lineage \<Rightarrow> kube_lineage krun" where
  "lineage_proposal E S l =
     (case (kl_approval l, kl_proposal l) of
        (Some a, None) \<Rightarrow>
          bindM (lift_res (item_text a ''proposal_id'')) (\<lambda>i.
          bindM (kube_load_proposal E S i) (\<lambda>p. ret (l\<lparr>kl_proposal := Some p\<rparr>)))
      | _ \<Rightarrow> ret l)"

definition lineage_of_receipt :: "env \<Rightarrow> kube_store \<Rightarrow> kube_lineage \<Rightarrow> kube_lineage krun" where
  "lineage_of_receipt E S l =
     (case (kl_receipt l, kl_binding l) of
        (Some r, None) \<Rightarrow>
          bindM (lift_res (bindR (as_dict r) (\<lambda>d. item_text d ''binding_id''))) (\<lambda>bi.
          bindM (kube_load_binding E S bi) (\<lambda>b.
          bindM (lift_res (item_text (obj_of r) ''approval_id'')) (\<lambda>ai.
          bindM (kube_load_approval E S ai None True) (\<lambda>a.
          bindM (lift_res (item_text a ''proposal_id'')) (\<lambda>pi.
          bindM (kube_load_proposal E S pi) (\<lambda>p.
          ret (l\<lparr>kl_binding := Some b, kl_approval := Some a, kl_proposal := Some p\<rparr>)))))))
      | _ \<Rightarrow> ret l)"

definition latest_binding :: "json \<Rightarrow> dict list \<Rightarrow> dict option" where
  "latest_binding aid rs =
     first_of (rev (sort_key (\<lambda>r. str_item r ''bound_at'') (filter (\<lambda>r. jget r ''approval_id'' = aid) rs)))"

definition lineage_binding :: "env \<Rightarrow> kube_store \<Rightarrow> kube_lineage \<Rightarrow> kube_lineage krun" where
  "lineage_binding E S l =
     (case (kl_approval l, kl_binding l) of
        (Some a, None) \<Rightarrow>
          bindM (kube_list_bindings E S None None) (\<lambda>rs.
          ret (case latest_binding (jget a ''approval_id'') rs of
                 None \<Rightarrow> l | Some b \<Rightarrow> l\<lparr>kl_binding := Some b\<rparr>))
      | _ \<Rightarrow> ret l)"

definition lineage_receipt :: "env \<Rightarrow> kube_store \<Rightarrow> kube_lineage \<Rightarrow> kube_lineage krun" where
  "lineage_receipt E S l =
     (case (kl_binding l, kl_receipt l) of
        (Some b, None) \<Rightarrow>
          bindM (reads (glob_names (kr_dir S) ''kcr-'')) (\<lambda>names.
          bindM (foldM_op (\<lambda>name found.
             bindM (kube_read (kr_dir S @ [name]) Json_decode) (\<lambda>j.
             bindM (lift_res (as_dict j)) (\<lambda>d.
             ret (if jget d ''binding_id'' = jget b ''binding_id'' then Some j else found)))) names None) (\<lambda>r.
          ret (l\<lparr>kl_receipt := r\<rparr>)))
      | _ \<Rightarrow> ret l)"

definition residual_authority :: "env \<Rightarrow> kube_store \<Rightarrow> kube_lineage \<Rightarrow> string krun" where
  "residual_authority E S l =
     (case kl_approval l of
        None \<Rightarrow> ret ''none''
      | Some a \<Rightarrow>
          bindM (kube_is_approval_active E None a) (\<lambda>active.
          if \<not> active then ret ''none''
          else
            bindM (kube_list_bindings E S None None) (\<lambda>rs.
            ret (if list_ex (\<lambda>r. jget r ''approval_id'' = jget a ''approval_id'' \<and>
                                truthy (jget r ''consumes_approval'')) rs then ''none''
                 else if jget (obj_of (jget a ''body'')) ''capability'' \<noteq> JStr kubernetes_mutate then ''read''
                 else ''granted''))))"

definition audit_kubernetes_capability :: "env \<Rightarrow> kube_store \<Rightarrow> string \<Rightarrow> (kube_lineage \<times> string) krun" where
  "audit_kubernetes_capability E S ref =
     bindM (kube_seed E S (py_strip ref)) (\<lambda>l0.
     bindM (lineage_approval E S l0) (\<lambda>l1.
     bindM (lineage_proposal E S l1) (\<lambda>l2.
     bindM (lineage_of_receipt E S l2) (\<lambda>l3.
     bindM (lineage_binding E S l3) (\<lambda>l4.
     bindM (lineage_receipt E S l4) (\<lambda>l5.
     bindM (residual_authority E S l5) (\<lambda>res.
     ret (l5, res))))))))"

definition is_kubernetes_scope_id :: "string \<Rightarrow> bool" where
  "is_kubernetes_scope_id value \<longleftrightarrow>
     list_ex (starts_with (py_strip value)) [''kcp-'', ''kca-'', ''kcb-'', ''kcr-'', ''kcv-'']"

end
