(* ===== verification/Kube_Laws.thy ===== *)
theory Kube_Laws
  imports Kube_Body_Laws Kube_Execute Stores Scope_Laws
begin

section \<open>How the records of the Kubernetes capability evolve\<close>

text \<open>
  Every operation relates the world it finds to the one it leaves by \<open>kube_kept\<close>: proposals are
  never rewritten, an approval only moves along its lifecycle and keeps every granted field, and
  at most one binding blocks an approval.
\<close>

subsection \<open>Verified records\<close>

abbreviation kube_approval_at :: "cfg \<Rightarrow> world \<Rightarrow> path \<Rightarrow> dict option" where
  "kube_approval_at \<equiv> stored kube_verify_approval"

abbreviation kube_binding_at :: "cfg \<Rightarrow> world \<Rightarrow> path \<Rightarrow> dict option" where
  "kube_binding_at \<equiv> stored kube_verify_binding"

lemma jget_sealed [simp]:
  "jget (sealed r b h) ''body'' = kube_body_json b" "jget (sealed r b h) ''body_hash'' = JStr h"
  "k \<noteq> ''body'' \<Longrightarrow> k \<noteq> ''body_hash'' \<Longrightarrow> jget (sealed r b h) k = jget r k"
  by (simp_all add: sealed_def dict_update_def)

lemma kube_head_Inr:
  "kube_head C kind bad j = Inr (r, b, h) \<longleftrightarrow>
     j = JObj r \<and> jget r ''kind'' = JStr kind \<and> is_one (jget r ''schema_version'') \<and>
     normalize_kubernetes_capability_body (jget r ''body'') = Inr b \<and>
     h = compute_kubernetes_body_hash C b \<and> jget r ''body_hash'' = JStr h"
  by (cases j) (auto simp: kube_head_def bindR_Inr_iff as_body_error_def Let_def split: sum.splits)

definition id_ok :: "string \<Rightarrow> json \<Rightarrow> bool" where
  "id_ok pre j \<longleftrightarrow>
     (\<exists>s. j = JStr s \<and> plain_ref s \<and> py_strip s = s \<and> starts_with s pre)"

lemma id_okI: "CHR ''/'' \<notin> set pre \<Longrightarrow> \<forall>c \<in> set pre. \<not> py_space c \<Longrightarrow> id_ok pre (JStr (short_id C pre m))"
  by (simp add: id_ok_def plain_ref_def short_id_clean short_id_prefix)

lemma id_ok_path: "id_ok pre j \<Longrightarrow> record_path d (py_str j) = d @ [py_str j @ ''.json''] \<and> py_strip (py_str j) = py_str j"
  by (auto simp: id_ok_def)

lemma id_ok_last: "id_ok pre j \<Longrightarrow> starts_with (last (record_path d (py_str j))) pre"
  by (auto simp: id_ok_def starts_with_iff)

text \<open>A verified record differs from the stored one in the writing of its body only.\<close>

lemma verify_approval_Inr:
  assumes "kube_verify_approval C (JObj d) = Inr a"
  shows "jget d ''kind'' = JStr ''kubernetes_capability_approval''" "id_ok ''kca-'' (jget a ''approval_id'')"
    "k \<noteq> ''body'' \<Longrightarrow> jget a k = jget d k"
proof -
  from assms obtain b h where
    h: "kube_head C ''kubernetes_capability_approval'' (kube ''invalid_approval'') (JObj d) = Inr (d, b, h)"
    and a: "a = sealed d b h" and i: "\<exists>m. jget d ''approval_id'' = JStr (short_id C ''kca-'' m)"
    by (auto simp: kube_verify_approval_def bindR_Inr_iff kube_approval_id_def kube_head_Inr)
  from h show "jget d ''kind'' = JStr ''kubernetes_capability_approval''" by (simp add: kube_head_Inr)
  from i show "id_ok ''kca-'' (jget a ''approval_id'')"
    unfolding a by (auto intro!: id_okI simp: py_space_def)
  show "k \<noteq> ''body'' \<Longrightarrow> jget a k = jget d k"
    using h unfolding a by (cases "k = ''body_hash''") (simp_all add: kube_head_Inr)
qed

lemma verify_binding_Inr:
  assumes "kube_verify_binding C (JObj d) = Inr a"
  shows "jget d ''kind'' = JStr ''kubernetes_capability_binding''" "id_ok ''kcb-'' (jget a ''binding_id'')"
    "k \<noteq> ''body'' \<Longrightarrow> jget a k = jget d k"
proof -
  from assms obtain b h where
    h: "kube_head C ''kubernetes_capability_binding'' (kube ''invalid_binding'') (JObj d) = Inr (d, b, h)"
    and a: "a = sealed d b h" and i: "\<exists>m. jget d ''binding_id'' = JStr (short_id C ''kcb-'' m)"
    by (auto simp: kube_verify_binding_def bindR_Inr_iff kube_binding_id_def kube_head_Inr)
  from h show "jget d ''kind'' = JStr ''kubernetes_capability_binding''" by (simp add: kube_head_Inr)
  from i show "id_ok ''kcb-'' (jget a ''binding_id'')"
    unfolding a by (auto intro!: id_okI simp: py_space_def)
  show "k \<noteq> ''body'' \<Longrightarrow> jget a k = jget d k"
    using h unfolding a by (cases "k = ''body_hash''") (simp_all add: kube_head_Inr)
qed

lemma verified_obj:
  "kube_verify_approval C j = Inr a \<Longrightarrow> \<exists>d. j = JObj d" "kube_verify_binding C j = Inr b \<Longrightarrow> \<exists>d. j = JObj d"
  by (auto simp: kube_verify_approval_def kube_verify_binding_def bindR_Inr_iff kube_head_Inr)

lemma stored_iff:
  "stored v C w p = Some r \<longleftrightarrow> (\<exists>j. file_at w p = Some (Parsed j) \<and> v C j = Inr r)"
  by (auto simp: stored_def split: option.splits rec_file.splits sum.splits)

lemma kube_approval_at_id: "kube_approval_at C w p = Some a \<Longrightarrow> id_ok ''kca-'' (jget a ''approval_id'')"
  using verified_obj(1) verify_approval_Inr(2) unfolding stored_iff by blast

lemma kube_binding_at_id: "kube_binding_at C w p = Some b \<Longrightarrow> id_ok ''kcb-'' (jget b ''binding_id'')"
  using verified_obj(2) verify_binding_Inr(2) unfolding stored_iff by blast

lemma kube_approval_at_kind:
  "kube_approval_at C w p = Some a \<Longrightarrow> jget a ''kind'' = JStr ''kubernetes_capability_approval''"
  using verified_obj(1) verify_approval_Inr(1) verify_approval_Inr(3) [where k = "''kind''"]
  unfolding stored_iff by fastforce

lemma kube_binding_at_kind:
  "kube_binding_at C w p = Some b \<Longrightarrow> jget b ''kind'' = JStr ''kubernetes_capability_binding''"
  using verified_obj(2) verify_binding_Inr(1) verify_binding_Inr(3) [where k = "''kind''"]
  unfolding stored_iff by fastforce

subsection \<open>The relation\<close>

definition kube_next :: "json \<Rightarrow> json \<Rightarrow> bool" where
  "kube_next s t \<longleftrightarrow>
     t = s \<or> s = JStr ''approved'' \<and> t \<in> {JStr ''expired'', JStr ''consumed''} \<or>
     s \<notin> {JStr ''expired'', JStr ''consumed''} \<and> t = JStr ''revoked''"

definition kube_follows :: "dict \<Rightarrow> dict \<Rightarrow> bool" where
  "kube_follows a a' \<longleftrightarrow>
     (\<forall>k. k \<notin> {''body'', ''status'', ''revocation_id''} \<longrightarrow> jget a' k = jget a k) \<and>
     kube_next (jget a ''status'') (jget a' ''status'') \<and>
     (jget a' ''revocation_id'' \<noteq> jget a ''revocation_id'' \<longrightarrow> jget a' ''status'' = JStr ''revoked'')"

text \<open>
  The body of a record that is written back is the one verification froze: the normalization of
  the stored one, with the hash the record carries. Of a file as it lies on the disk this is said
  whether or not the file that replaces it verifies.
\<close>

definition body_frozen :: "cfg \<Rightarrow> json \<Rightarrow> json \<Rightarrow> json \<Rightarrow> bool" where
  "body_frozen C h x y \<longleftrightarrow>
     (\<exists>b. normalize_kubernetes_capability_body x = Inr b \<and> y = kube_body_json b \<and>
        h = JStr (compute_kubernetes_body_hash C b))"

definition file_follows :: "cfg \<Rightarrow> rec_file \<Rightarrow> rec_file \<Rightarrow> bool" where
  "file_follows C f f' \<longleftrightarrow>
     f' = f \<or>
     (\<exists>d d'. f = Parsed (JObj d) \<and> f' = Parsed (JObj d') \<and> kube_follows d d' \<and>
        (body_frozen C (jget d ''body_hash''))\<^sup>*\<^sup>* (jget d ''body'') (jget d' ''body''))"

definition kube_in_place :: "cfg \<Rightarrow> kube_store \<Rightarrow> world \<Rightarrow> bool" where
  "kube_in_place C S w \<longleftrightarrow>
     (\<forall>p a. kube_approval_at C w p = Some a \<longrightarrow> p = kube_path (ka_dir S) a ''approval_id'') \<and>
     (\<forall>p b. kube_binding_at C w p = Some b \<longrightarrow> p = kube_path (kb_dir S) b ''binding_id'')"

definition kube_exclusive :: "cfg \<Rightarrow> world \<Rightarrow> bool" where
  "kube_exclusive C w \<longleftrightarrow>
     (\<forall>p q b c i. kube_binding_at C w p = Some b \<and> kube_binding_at C w q = Some c \<and>
        kube_blocking i b \<and> kube_blocking i c \<longrightarrow> p = q)"

definition approvals_follow :: "cfg \<Rightarrow> world \<Rightarrow> world \<Rightarrow> bool" where
  "approvals_follow C w w' \<longleftrightarrow>
     (\<forall>p f. starts_with (last p) ''kca-'' \<and> file_at w p = Some f \<longrightarrow>
        (\<exists>f'. file_at w' p = Some f' \<and> file_follows C f f') \<and>
        (\<forall>a'. kube_approval_at C w' p = Some a' \<longrightarrow> (\<exists>a. kube_approval_at C w p = Some a \<and> kube_follows a a')))"

definition proposals_stay :: "world \<Rightarrow> world \<Rightarrow> bool" where
  "proposals_stay w w' \<longleftrightarrow>
     (\<forall>p. starts_with (last p) ''kcp-'' \<and> file_at w p \<noteq> None \<longrightarrow> file_at w' p = file_at w p)"

definition kube_kept :: "cfg \<Rightarrow> kube_store \<Rightarrow> world \<Rightarrow> world \<Rightarrow> bool" where
  "kube_kept C S w w' \<longleftrightarrow>
     (kube_in_place C S w \<longrightarrow>
        kube_in_place C S w' \<and> (kube_exclusive C w \<longrightarrow> kube_exclusive C w') \<and>
        proposals_stay w w' \<and> approvals_follow C w w')"

lemma kube_next_trans: "kube_next s t \<Longrightarrow> kube_next t u \<Longrightarrow> kube_next s u"
  unfolding kube_next_def by (elim disjE) simp_all

lemma kube_follows_refl: "kube_follows a a"
  by (simp add: kube_follows_def kube_next_def)

lemma kube_next_revoked: "kube_next (JStr ''revoked'') s \<longleftrightarrow> s = JStr ''revoked''"
  by (auto simp: kube_next_def)

lemma kube_follows_trans: "kube_follows a b \<Longrightarrow> kube_follows b c \<Longrightarrow> kube_follows a c"
  unfolding kube_follows_def
  by (intro conjI, simp, blast intro: kube_next_trans, metis kube_next_revoked)

lemma file_follows_refl: "file_follows C f f"
  by (simp add: file_follows_def)

lemma file_follows_trans:
  assumes "file_follows C f g" "file_follows C g h"
  shows "file_follows C f h"
proof (cases "g = f \<or> h = g")
  case False
  then obtain d d' d'' where s: "f = Parsed (JObj d)" "g = Parsed (JObj d')" "h = Parsed (JObj d'')"
      "kube_follows d d'" "kube_follows d' d''"
      "(body_frozen C (jget d ''body_hash''))\<^sup>*\<^sup>* (jget d ''body'') (jget d' ''body'')"
      "(body_frozen C (jget d' ''body_hash''))\<^sup>*\<^sup>* (jget d' ''body'') (jget d'' ''body'')"
    using assms unfolding file_follows_def by auto
  have "jget d' ''body_hash'' = jget d ''body_hash''" using s(4) by (simp add: kube_follows_def)
  with s show ?thesis by (auto simp: file_follows_def intro: kube_follows_trans rtranclp_trans)
qed (use assms in auto)

lemma approvals_follow_trans: "approvals_follow C w w1 \<Longrightarrow> approvals_follow C w1 w2 \<Longrightarrow> approvals_follow C w w2"
  unfolding approvals_follow_def by (meson kube_follows_trans file_follows_trans)

lemma same_files_kept:
  assumes "same_files w w'"
  shows "kube_kept C S w w'"
proof -
  have "file_at w' = file_at w" "stored v C w' = stored v C w" for v :: "cfg \<Rightarrow> json \<Rightarrow> kube_exn + dict"
    by (rule ext, rule same_files_at [OF assms], rule ext, rule same_files_stored [OF assms])
  then have "kube_in_place C S w' = kube_in_place C S w" "kube_exclusive C w' = kube_exclusive C w"
    "proposals_stay w w' = proposals_stay w w" "approvals_follow C w w' = approvals_follow C w w"
    by (simp_all only: kube_in_place_def kube_exclusive_def proposals_stay_def approvals_follow_def)
  moreover have "proposals_stay w w" "approvals_follow C w w"
    using kube_follows_refl file_follows_refl by (auto simp: proposals_stay_def approvals_follow_def)
  ultimately show ?thesis by (simp add: kube_kept_def)
qed

lemma proposals_stay_trans: "proposals_stay w w1 \<Longrightarrow> proposals_stay w1 w2 \<Longrightarrow> proposals_stay w w2"
  by (simp add: proposals_stay_def)

lemma kube_kept_trans: "kube_kept C S w w1 \<Longrightarrow> kube_kept C S w1 w2 \<Longrightarrow> kube_kept C S w w2"
  unfolding kube_kept_def using approvals_follow_trans proposals_stay_trans by blast

interpretation kc: state_order "kube_kept C S" for C S
  by unfold_locales (rule same_files_kept, simp add: same_files_def, rule kube_kept_trans)

lemma kube_quiet: "keeps same_files m \<Longrightarrow> keeps (kube_kept C S) m"
  by (auto simp: keeps_def same_files_kept)

subsection \<open>One file written\<close>

lemma kube_keptI: "(kube_in_place C S w \<Longrightarrow> kube_kept C S w w') \<Longrightarrow> kube_kept C S w w'"
  by (simp add: kube_kept_def)

lemma kube_put:
  assumes pl: "kube_in_place C S w"
    and "\<And>a. kube_verify_approval C (JObj d) = Inr a \<Longrightarrow> p = kube_path (ka_dir S) a ''approval_id''"
    and "\<And>b. kube_verify_binding C (JObj d) = Inr b \<Longrightarrow> p = kube_path (kb_dir S) b ''binding_id''"
    and "\<And>b i q c. kube_verify_binding C (JObj d) = Inr b \<Longrightarrow> kube_blocking i b \<Longrightarrow>
      kube_exclusive C w \<Longrightarrow> q \<noteq> p \<Longrightarrow> kube_binding_at C w q = Some c \<Longrightarrow> \<not> kube_blocking i c"
    and "starts_with (last p) ''kcp-'' \<Longrightarrow> file_at w p = None"
    and "\<And>a'. starts_with (last p) ''kca-'' \<Longrightarrow> file_at w p \<noteq> None \<Longrightarrow> kube_verify_approval C (JObj d) = Inr a' \<Longrightarrow>
      \<exists>a. kube_approval_at C w p = Some a \<and> kube_follows a a'"
    and "\<And>f. starts_with (last p) ''kca-'' \<Longrightarrow> file_at w p = Some f \<Longrightarrow> file_follows C f (Parsed (JObj d))"
  shows "kube_kept C S w (write_file p (JObj d) w)"
proof -
  let ?w = "write_file p (JObj d) w"
  have at: "kube_approval_at C ?w q = Some a \<longleftrightarrow>
      (if q = p then kube_verify_approval C (JObj d) = Inr a else kube_approval_at C w q = Some a)"
    "kube_binding_at C ?w q = Some a \<longleftrightarrow>
      (if q = p then kube_verify_binding C (JObj d) = Inr a else kube_binding_at C w q = Some a)" for q a
    by (auto simp: stored_iff file_at_write)
  have "kube_in_place C S ?w" using pl assms(2,3) by (simp add: kube_in_place_def at)
  moreover have "proposals_stay w ?w" using assms(5) by (auto simp: proposals_stay_def file_at_write)
  moreover have "approvals_follow C w ?w"
    using assms(6,7) kube_follows_refl file_follows_refl unfolding approvals_follow_def at file_at_write by auto
  moreover have "kube_exclusive C ?w" if ex: "kube_exclusive C w"
    unfolding kube_exclusive_def
  proof (intro allI impI)
    fix q q' b c i
    assume "kube_binding_at C ?w q = Some b \<and> kube_binding_at C ?w q' = Some c \<and> kube_blocking i b \<and> kube_blocking i c"
    then show "q = q'"
      using assms(4) [OF _ _ ex] ex unfolding at kube_exclusive_def by (metis (full_types))
  qed
  ultimately show ?thesis by (simp add: kube_kept_def)
qed

lemma prefixes_apart [simp]:
  "starts_with s ''kca-'' \<Longrightarrow> \<not> starts_with s ''kcp-''"
  "starts_with s ''kcb-'' \<Longrightarrow> \<not> starts_with s ''kcp-''"
  "starts_with s ''kcb-'' \<Longrightarrow> \<not> starts_with s ''kca-''"
  "starts_with s ''kcr-'' \<Longrightarrow> \<not> starts_with s ''kca-''"
  "starts_with s ''kcr-'' \<Longrightarrow> \<not> starts_with s ''kcp-''"
  "starts_with s ''kcv-'' \<Longrightarrow> \<not> starts_with s ''kca-''"
  "starts_with s ''kcv-'' \<Longrightarrow> \<not> starts_with s ''kcp-''"
  "starts_with s ''kcp-'' \<Longrightarrow> \<not> starts_with s ''kca-''"
  by (erule apart_names [rotated], simp add: apart_def)+

text \<open>A record that is neither an approval nor a binding, at a name of its own kind.\<close>

lemma put_other:
  assumes "jget d ''kind'' \<notin> {JStr ''kubernetes_capability_approval'', JStr ''kubernetes_capability_binding''}"
    and "\<not> starts_with (last p) ''kca-''" "starts_with (last p) ''kcp-'' \<Longrightarrow> file_at w p = None"
  shows "kube_kept C S w (write_file p (JObj d) w)"
  using assms verify_approval_Inr(1) [of C d] verify_binding_Inr(1) [of C d]
  by - (rule kube_keptI, rule kube_put, auto)

text \<open>A new approval, and one that follows the approval it replaces.\<close>

lemma put_approval_new:
  assumes "kube_verify_approval C j = Inr a" "p = kube_path (ka_dir S) a ''approval_id''" "file_at w p = None"
  shows "kube_kept C S w (write_file p (JObj a) w)"
proof -
  from assms(1) obtain d where d: "j = JObj d" using verified_obj by blast
  have id: "id_ok ''kca-'' (jget a ''approval_id'')" and k: "jget a ''kind'' = JStr ''kubernetes_capability_approval''"
    using verify_approval_Inr [OF assms(1) [unfolded d]] by simp_all
  from id assms(2) have l: "\<not> starts_with (last p) ''kcp-''" by (simp add: kube_path_def id_ok_last)
  have p: "p = kube_path (ka_dir S) a' ''approval_id''" if "kube_verify_approval C (JObj a) = Inr a'" for a'
    using verify_approval_Inr(3) [OF that, of "''approval_id''"] assms(2) by (simp add: kube_path_def)
  show ?thesis
    by (rule kube_keptI, rule kube_put) (use p l k assms(3) verify_binding_Inr(1) [of C a] in simp_all)
qed

lemma stored_file_follows:
  assumes "kube_approval_at C w p = Some a" "kube_follows a d" "jget d ''body'' = jget a ''body''" "file_at w p = Some f"
  shows "file_follows C f (Parsed (JObj d))"
proof -
  from assms(1) obtain j where j: "file_at w p = Some (Parsed j)" "kube_verify_approval C j = Inr a"
    by (auto simp: stored_iff)
  then obtain r b h where r: "j = JObj r" "a = sealed r b h" "jget r ''body_hash'' = JStr h"
    "normalize_kubernetes_capability_body (jget r ''body'') = Inr b" "h = compute_kubernetes_body_hash C b"
    by (auto simp: kube_verify_approval_def bindR_Inr_iff kube_head_Inr)
  then have "kube_follows r d" using assms(2) by (simp add: kube_follows_def) (metis jget_sealed(2,3))
  moreover have "body_frozen C (jget r ''body_hash'') (jget r ''body'') (jget d ''body'')"
    using assms(3) r by (auto simp: body_frozen_def)
  ultimately show ?thesis
    using assms(4) j(1) r(1) by (auto simp: file_follows_def)
qed

lemma put_approval_next:
  assumes at: "kube_approval_at C w p = Some a" and f: "kube_follows a d" and bd: "jget d ''body'' = jget a ''body''"
  shows "kube_kept C S w (write_file p (JObj d) w)"
proof (rule kube_keptI)
  assume pl: "kube_in_place C S w"
  have k: "jget d ''kind'' = JStr ''kubernetes_capability_approval''" "jget d ''approval_id'' = jget a ''approval_id''"
    using f kube_approval_at_kind [OF at] by (simp_all add: kube_follows_def)
  have p: "p = kube_path (ka_dir S) a ''approval_id''" using pl at by (simp add: kube_in_place_def)
  then have l: "\<not> starts_with (last p) ''kcp-''"
    using kube_approval_at_id [OF at] by (simp add: kube_path_def id_ok_last)
  have v: "p = kube_path (ka_dir S) a' ''approval_id''" "kube_follows a a'"
    if "kube_verify_approval C (JObj d) = Inr a'" for a'
  proof -
    have "jget a' j = jget d j" if "j \<noteq> ''body''" for j
      using verify_approval_Inr(3) [OF \<open>kube_verify_approval C (JObj d) = Inr a'\<close> that] .
    then show "p = kube_path (ka_dir S) a' ''approval_id''" "kube_follows a a'"
      using p f k by (simp_all add: kube_path_def kube_follows_def)
  qed
  have nb: "kube_verify_binding C (JObj d) \<noteq> Inr b" for b
    using k(1) verify_binding_Inr(1) [of C d b] by auto
  show "kube_kept C S w (write_file p (JObj d) w)"
    by (rule kube_put [OF pl])
      (simp_all add: nb l at stored_file_follows [OF at f bd], rule v(1), assumption, rule v(2))
qed

text \<open>A binding put where none blocks its approval, and one that ends an active binding.\<close>

lemma put_binding:
  assumes k: "jget d ''kind'' = JStr ''kubernetes_capability_binding''" and id: "id_ok ''kcb-'' (jget d ''binding_id'')"
    and p: "p = kube_path (kb_dir S) d ''binding_id''"
    and free: "\<And>i q c. kube_in_place C S w \<Longrightarrow> kube_exclusive C w \<Longrightarrow> jget d ''approval_id'' = JStr i \<Longrightarrow> q \<noteq> p \<Longrightarrow>
      kube_binding_at C w q = Some c \<Longrightarrow> \<not> kube_blocking i c"
  shows "kube_kept C S w (write_file p (JObj d) w)"
proof (rule kube_keptI)
  assume pl: "kube_in_place C S w"
  have l: "\<not> starts_with (last p) ''kcp-''" "\<not> starts_with (last p) ''kca-''"
    using id p by (simp_all add: kube_path_def id_ok_last)
  have v: "p = kube_path (kb_dir S) b ''binding_id''" "jget b ''approval_id'' = jget d ''approval_id''"
    if "kube_verify_binding C (JObj d) = Inr b" for b
    using verify_binding_Inr(3) [OF that, of "''binding_id''"] verify_binding_Inr(3) [OF that, of "''approval_id''"] p
    by (simp_all add: kube_path_def)
  have fr: "\<not> kube_blocking i c"
    if "kube_verify_binding C (JObj d) = Inr b" "kube_blocking i b" "kube_exclusive C w" "q \<noteq> p"
      "kube_binding_at C w q = Some c" for b i q c
    using free [OF pl that(3)] v(2) [OF that(1)] that(2,4,5) by (simp add: kube_blocking_def)
  have na: "kube_verify_approval C (JObj d) \<noteq> Inr a" for a
    using k verify_approval_Inr(1) [of C d a] by auto
  show "kube_kept C S w (write_file p (JObj d) w)"
    by (rule kube_put [OF pl]) (simp_all add: na l, rule v(1), assumption, rule fr)
qed

subsection \<open>Steps that write no file\<close>

lemma foreign_quiet: "keeps same_files m \<Longrightarrow> keeps same_files (foreign m)"
  by (auto simp: keeps_def foreign_def split: prod.splits sum.splits) (metis snd_conv)+

lemma kube_now_quiet: "keeps same_files (kube_now E)"
  unfolding kube_now_def by (intro foreign_quiet quiet_utc_now_iso)

lemma kube_event_quiet: "keeps same_files (append_capability_event E ty payload)"
  unfolding append_capability_event_def
  by (intro quiet.keeps_rules kube_now_quiet) (auto simp: keeps_def writes_def same_files_def log_event_def)

lemma kube_read_iff:
  "kube_read p e w = (r, t) \<longleftrightarrow> t = w \<and>
     r = (case file_at w p of None \<Rightarrow> Inl e | Some Corrupt \<Rightarrow> Inl Json_decode | Some (Parsed j) \<Rightarrow> Inr j)"
  unfolding kube_read_def
  by (cases "file_at w p"; cases "the (file_at w p)") (auto simp: bindM_def reads_def throw_def ret_def)

lemma kube_read_Inr: "kube_read p e w = (Inr j, t) \<longleftrightarrow> t = w \<and> file_at w p = Some (Parsed j)"
  by (auto simp: kube_read_iff split: option.splits rec_file.splits)

lemma kube_read_quiet: "keeps same_files (kube_read p e)"
  by (rule keepsI) (simp add: kube_read_iff same_files_def)

lemma kube_ttl_quiet: "keeps same_files (kube_evaluate_ttl E now r)"
  unfolding kube_evaluate_ttl_def
  by (auto intro!: quiet.keeps_rules foreign_quiet quiet_given_or_now)

lemmas kube_quiet_rules = quiet.keeps_rules kube_now_quiet kube_event_quiet kube_read_quiet kube_ttl_quiet
  foreign_quiet [OF quiet_given_or_now] foreign_quiet [OF quiet_text_or_now] foreign_quiet [OF quiet_utc_now_iso]

lemma kube_load_proposal_quiet: "keeps same_files (kube_load_proposal E S i)"
  unfolding kube_load_proposal_def by (intro kube_quiet_rules)

lemma kube_load_binding_quiet: "keeps same_files (kube_load_binding E S i)"
  unfolding kube_load_binding_def by (intro kube_quiet_rules)

lemma kube_list_bindings_quiet: "keeps same_files (kube_list_bindings E S r s)"
  unfolding kube_list_bindings_def by (intro kube_quiet_rules)

lemma kube_list_proposals_quiet: "keeps same_files (kube_list_proposals E S r)"
  unfolding kube_list_proposals_def by (intro kube_quiet_rules)

lemma kube_denial_quiet: "keeps same_files (kube_denial E c m op a b)"
  unfolding kube_denial_def by (intro kube_quiet_rules)

text \<open>Composition: a quiet step hands its result on, a write is judged where it happens.\<close>

lemma quiet_then:
  assumes "keeps same_files m" "\<And>a s1. m s = (Inr a, s1) \<Longrightarrow> same_files s s1 \<Longrightarrow> stays (kube_kept C S) (f a) s1"
  shows "stays (kube_kept C S) (bindM m f) s"
  by (rule kc.stays_bind, rule kc.stays_keeps, rule kube_quiet, rule assms(1), rule assms(2))
    (auto intro: keepsD [OF assms(1)])

lemma write_then:
  assumes "kube_kept C S s (write_file p (JObj d) s)" "keeps same_files (f ())"
  shows "stays (kube_kept C S) (bindM (kube_write p d) f) s"
proof (rule kc.stays_bind)
  show "stays (kube_kept C S) (kube_write p d) s"
    using assms(1) by (simp add: stays_def kube_write_def writes_def)
  show "stays (kube_kept C S) (f a) s1" for a s1
    using assms(2) by (intro kc.stays_keeps kube_quiet) simp
qed

lemma kube_ttl_Inr:
  assumes "kube_evaluate_ttl E now v w = (Inr r, w')"
  shows "same_files w w'"
    and "r = v \<or> jget v ''status'' = JStr ''approved'' \<and> r = AList.update ''status'' (JStr ''expired'') v"
    and "jget r ''status'' = JStr ''approved'' \<Longrightarrow>
      \<exists>t x. parse_iso_utc (cfg_of E) (str_item v ''expires_at'') = Inr x \<and> t < x \<and>
        (case now of Some n \<Rightarrow> t = n | None \<Rightarrow> \<exists>n. t = clock E n)"
proof -
  show "same_files w w'" using assms kube_ttl_quiet by (rule keepsD [rotated])
  show "r = v \<or> jget v ''status'' = JStr ''approved'' \<and> r = AList.update ''status'' (JStr ''expired'') v"
    using assms by (auto simp: kube_evaluate_ttl_def op_simps split: if_splits)
  assume "jget r ''status'' = JStr ''approved''"
  then have v: "jget v ''status'' = JStr ''approved''"
    using assms by (auto simp: kube_evaluate_ttl_def op_simps split: if_splits)
  with assms obtain t w1 x where t: "foreign (given_or_now E now) w = (Inr t, w1)"
    "foreign_res (parse_iso_utc (cfg_of E) (str_item v ''expires_at'')) = Inr x"
    "r = (if x \<le> t then AList.update ''status'' (JStr ''expired'') v else v)"
    by (auto simp: kube_evaluate_ttl_def op_simps)
  have "t < x" using t(3) \<open>jget r ''status'' = JStr ''approved''\<close> by (auto split: if_splits)
  moreover have "parse_iso_utc (cfg_of E) (str_item v ''expires_at'') = Inr x"
    using t(2) by (simp add: foreign_res_def split: sum.splits)
  moreover have "case now of Some n \<Rightarrow> t = n | None \<Rightarrow> \<exists>n. t = clock E n"
    using t(1) by (auto simp: foreign_def given_or_now_def now_utc_def ret_def split: option.splits)
  ultimately show "\<exists>t x. parse_iso_utc (cfg_of E) (str_item v ''expires_at'') = Inr x \<and> t < x \<and>
        (case now of Some n \<Rightarrow> t = n | None \<Rightarrow> \<exists>n. t = clock E n)"
    by blast
qed

subsection \<open>Approvals\<close>

definition approval_ref :: "kube_store \<Rightarrow> string \<Rightarrow> path" where
  "approval_ref S i = record_path (ka_dir S) (py_strip i)"

lemma follows_status:
  "kube_next (jget a ''status'') (JStr s) \<Longrightarrow> kube_follows a (AList.update ''status'' (JStr s) a)"
  by (simp add: kube_follows_def)

lemma kube_expired_follows:
  "r = v \<or> jget v ''status'' = JStr ''approved'' \<and> r = AList.update ''status'' (JStr ''expired'') v \<Longrightarrow>
   kube_follows v r \<and> jget r ''body'' = jget v ''body''"
  using follows_status [of v "''expired''"] kube_follows_refl by (auto simp: kube_next_def)

lemma kube_load_approval_kept: "keeps (kube_kept (cfg_of E) S) (kube_load_approval E S i now persist)"
proof (rule kc.stays_all)
  fix w
  show "stays (kube_kept (cfg_of E) S) (kube_load_approval E S i now persist) w"
    unfolding kube_load_approval_def Let_def
  proof (rule quiet_then [OF kube_read_quiet], rule quiet_then [OF quiet.keeps_lift_res],
      rule quiet_then [OF kube_ttl_quiet], split if_split, intro conjI impI kc.stays_basic,
      rule quiet_then [OF kube_read_quiet], split if_split, intro conjI impI kc.stays_basic write_then)
    fix j w1 v w2 r w3 k w4
    assume "kube_read (record_path (ka_dir S) (py_strip i)) (kube ''no_approval'') w = (Inr j, w1)"
      "lift_res (kube_verify_approval (cfg_of E) j) w1 = (Inr v, w2)" "same_files w2 w3"
      "kube_evaluate_ttl E now v w2 = (Inr r, w3)" "same_files w3 w4"
    then have "kube_approval_at (cfg_of E) w4 (record_path (ka_dir S) (py_strip i)) = Some v" "kube_follows v r"
      "jget r ''body'' = jget v ''body''"
      using kube_expired_follows [OF kube_ttl_Inr(2)] same_files_at [of w2 w3] same_files_at [of w3 w4]
      by (auto simp: stored_iff op_simps kube_read_Inr)
    then show "kube_kept (cfg_of E) S w4 (write_file (record_path (ka_dir S) (py_strip i)) (JObj r) w4)"
      by (rule put_approval_next)
  qed (intro kube_quiet_rules)
qed

text \<open>An approval that a load returns and that is not expired is the stored one.\<close>

lemma kube_load_approval_Inr:
  assumes "kube_load_approval E S i now persist w = (Inr a, w')" "jget a ''status'' \<noteq> JStr ''expired''"
  shows "same_files w w'" "kube_approval_at (cfg_of E) w' (approval_ref S i) = Some a"
    and "jget a ''status'' = JStr ''approved'' \<Longrightarrow>
      \<exists>t x. parse_iso_utc (cfg_of E) (str_item a ''expires_at'') = Inr x \<and> t < x \<and>
        (case now of Some n \<Rightarrow> t = n | None \<Rightarrow> \<exists>n. t = clock E n)"
proof -
  from assms obtain j v where l: "file_at w (approval_ref S i) = Some (Parsed j)"
    "kube_verify_approval (cfg_of E) j = Inr v" "kube_evaluate_ttl E now v w = (Inr a, w')"
    by (auto simp: kube_load_approval_def approval_ref_def Let_def op_simps kube_read_Inr split: if_splits)
  note t = kube_ttl_Inr [OF l(3)]
  have a: "a = v" using t(2) assms(2) by auto
  show s: "same_files w w'" by (rule t(1))
  show "kube_approval_at (cfg_of E) w' (approval_ref S i) = Some a"
    unfolding stored_iff same_files_at [OF s] using l a by blast
  show "jget a ''status'' = JStr ''approved'' \<Longrightarrow>
      \<exists>t x. parse_iso_utc (cfg_of E) (str_item a ''expires_at'') = Inr x \<and> t < x \<and>
        (case now of Some n \<Rightarrow> t = n | None \<Rightarrow> \<exists>n. t = clock E n)"
    using t(3) unfolding a .
qed

lemma approve_tail:
  assumes "lift_res (kube_verify_approval C j) s = (Inr v, s1)"
    "reads (\<lambda>w. file_at w (kube_path (ka_dir S) v ''approval_id'')) s2 = (Inr f, s3)" "\<not> f \<noteq> None"
  shows "kube_kept C S s3 (write_file (kube_path (ka_dir S) v ''approval_id'') (JObj v) s3)"
  using assms by (auto simp: op_simps intro: put_approval_new)

lemma kube_approve_kept: "keeps (kube_kept (cfg_of E) S) (kube_approve_proposal E S pid ttl who now src prov)"
proof (rule kc.stays_all)
  fix w
  show "stays (kube_kept (cfg_of E) S) (kube_approve_proposal E S pid ttl who now src prov) w"
    unfolding kube_approve_proposal_def Let_def
    apply (rule quiet_then [OF quiet.keeps_lift_res])+
    apply (rule quiet_then [OF kube_load_proposal_quiet], rule quiet_then [OF foreign_quiet [OF quiet_given_or_now]],
        rule quiet_then [OF quiet.keeps_lift_res], rule quiet_then [OF quiet.keeps_raise_if],
        rule quiet_then [OF quiet.keeps_lift_res], rule quiet_then [OF quiet.keeps_raise_if])
    apply (rule quiet_then [OF quiet.keeps_lift_res])+
    apply (rule quiet_then [OF quiet.keeps_reads], split if_split, intro conjI impI)
     apply (rule kc.stays_keeps, rule kube_load_approval_kept)
    apply (rule write_then)
     apply (rule approve_tail, assumption, assumption, assumption)
    apply (intro kube_quiet_rules)
    done
qed

lemma kube_transition_kept:
  assumes "py_strip i = i"
  shows "keeps (kube_kept (cfg_of E) S) (kube_transition_approval E S i ''consumed'')"
proof (rule kc.stays_all)
  fix w
  show "stays (kube_kept (cfg_of E) S) (kube_transition_approval E S i ''consumed'') w"
    unfolding kube_transition_approval_def Let_def
  proof (rule kc.stays_bind, rule kc.stays_keeps, rule kube_load_approval_kept,
      rule quiet_then [OF quiet.keeps_lift_res], split if_split, intro conjI impI kc.stays_basic,
      split if_split, intro conjI impI kc.stays_basic write_then)
    fix r w1 s w2
    assume r: "kube_load_approval E S i None True w = (Inr r, w1)"
      and s: "lift_res (dict_item r ''status'') w1 = (Inr s, w2)" "\<not> s \<noteq> JStr ''approved''"
    have a: "jget r ''status'' = JStr ''approved''" "w2 = w1"
      using s by (auto simp: op_simps dict_item_def jget_def split: option.splits)
    then have "kube_approval_at (cfg_of E) w2 (record_path (ka_dir S) i) = Some r"
      using kube_load_approval_Inr(2) [OF r] assms by (simp add: approval_ref_def)
    moreover have "kube_follows r (AList.update ''status'' (JStr ''consumed'') r)"
      "jget (AList.update ''status'' (JStr ''consumed'') r) ''body'' = jget r ''body''"
      using a(1) by (simp_all add: follows_status kube_next_def)
    ultimately show "kube_kept (cfg_of E) S w2 (write_file (record_path (ka_dir S) i)
        (JObj (AList.update ''status'' (JStr ''consumed'') r)) w2)"
      by (rule put_approval_next)
  qed (intro kube_quiet_rules)
qed

lemma revoke_tail:
  assumes "keeps same_files (f ())"
  shows "stays (kube_kept C S) (bindM (kube_write (record_path (kv_dir S) (short_id C ''kcv-'' m))
    (kube_revocation aid rid who at why prov)) f) w"
proof (rule write_then, rule put_other)
  show "keeps same_files (f ())" by (rule assms)
  have "id_ok ''kcv-'' (JStr (short_id C ''kcv-'' m))" by (rule id_okI) (simp_all add: py_space_def)
  note l = id_ok_last [OF this, of "kv_dir S"]
  then show "\<not> starts_with (last (record_path (kv_dir S) (short_id C ''kcv-'' m))) ''kca-''"
    "starts_with (last (record_path (kv_dir S) (short_id C ''kcv-'' m))) ''kcp-'' \<Longrightarrow>
      file_at w (record_path (kv_dir S) (short_id C ''kcv-'' m)) = None"
    by simp_all
qed (simp add: kube_revocation_def)

lemma revoke_write:
  assumes "kube_approval_at C w p = Some a" "kube_follows a d" "jget d ''body'' = jget a ''body''"
  shows "stays (kube_kept C S) (kube_write (record_path (ka_dir S) (py_str (jget a ''approval_id''))) d) w"
  unfolding stays_def kube_write_def writes_def snd_conv
proof (rule kube_keptI)
  assume "kube_in_place C S w"
  with assms(1) have "p = record_path (ka_dir S) (py_str (jget a ''approval_id''))"
    by (simp add: kube_in_place_def kube_path_def)
  then show "kube_kept C S w (write_file (record_path (ka_dir S) (py_str (jget a ''approval_id''))) (JObj d) w)"
    using put_approval_next [OF assms] by simp
qed

lemma kube_revoke_kept: "keeps (kube_kept (cfg_of E) S) (kube_revoke_approval E S i why who prov)"
proof (rule kc.stays_all)
  fix w
  show "stays (kube_kept (cfg_of E) S) (kube_revoke_approval E S i why who prov) w"
    unfolding kube_revoke_approval_def Let_def
  proof (rule quiet_then [OF quiet.keeps_lift_res], rule quiet_then [OF quiet.keeps_lift_res],
      rule quiet_then [OF quiet.keeps_raise_if], rule kc.stays_bind, rule kc.stays_keeps,
      rule kube_load_approval_kept, rule quiet_then [OF quiet.keeps_reads], split if_split, intro conjI impI,
      rule kc.stays_keeps, rule kube_quiet, intro kube_quiet_rules, split if_split, intro conjI impI kc.stays_basic,
      rule quiet_then [OF kube_now_quiet], rule kc.stays_bind [OF revoke_write, rotated 3],
      rule revoke_tail, intro kube_quiet_rules)
    fix w0 a w1 f w2 at w3
    assume r: "kube_load_approval E S i None True w0 = (Inr a, w1)" and w: "same_files w1 w2" "same_files w2 w3"
      and s: "\<not> (jget a ''status'' = JStr ''expired'' \<or> jget a ''status'' = JStr ''consumed'')"
    show "kube_approval_at (cfg_of E) w3 (approval_ref S i) = Some a"
      using kube_load_approval_Inr(2) [OF r] s
      by (simp add: same_files_stored [OF w(1)] same_files_stored [OF w(2)])
    show "kube_follows a (AList.update ''revocation_id'' (JStr (short_id (cfg_of E) ''kcv-'' (py_str (jget a ''approval_id''))))
        (AList.update ''status'' (JStr ''revoked'') a))"
      "jget (AList.update ''revocation_id'' (JStr (short_id (cfg_of E) ''kcv-'' (py_str (jget a ''approval_id''))))
        (AList.update ''status'' (JStr ''revoked'') a)) ''body'' = jget a ''body''"
      using s by (simp_all add: kube_follows_def kube_next_def)
  qed
qed

lemma attempt_kept: "keeps (kube_kept C S) m \<Longrightarrow> keeps (kube_kept C S) (attempt_kube m)"
  unfolding attempt_kube_def
  by (rule kc.keeps_catch) (auto intro: kc.keeps_rules split: if_splits)

lemma kube_list_approvals_kept: "keeps (kube_kept (cfg_of E) S) (kube_list_approvals E S r s)"
  unfolding kube_list_approvals_def
  by (intro kc.keeps_rules kc.keeps_catch kube_load_approval_kept) (auto intro: kc.keeps_rules split: if_splits)

subsection \<open>Bindings\<close>

lemma set_map_filter_iff: "y \<in> set (List.map_filter f xs) \<longleftrightarrow> (\<exists>x \<in> set xs. f x = Some y)"
  by (induction xs) (auto simp: List.map_filter_simps split: option.splits)

lemma kube_listing_iff:
  "c \<in> set (kube_listing (v C) d pre w) \<longleftrightarrow> (\<exists>n \<in> set (glob_names d pre w). stored v C w (d @ [n]) = Some c)"
  unfolding kube_listing_def set_map_filter_iff stored_def
  by (fastforce split: option.splits rec_file.splits sum.splits)

lemma glob_namesI:
  assumes "d @ [n] \<in> set (map fst (files w))" "starts_with n pre" "ends_with n ''.json''"
    "length pre + 5 \<le> length n"
  shows "n \<in> set (glob_names d pre w)"
  unfolding glob_names_def using assms by force

lemma kube_binding_listed:
  assumes pl: "kube_in_place C S w" and c: "kube_binding_at C w q = Some c"
  shows "c \<in> set (kube_listing (kube_verify_binding C) (kb_dir S) ''kcb-'' w)"
proof -
  let ?n = "py_str (jget c ''binding_id'') @ ''.json''"
  have id: "id_ok ''kcb-'' (jget c ''binding_id'')" by (rule kube_binding_at_id [OF c])
  have q: "q = kb_dir S @ [?n]"
    using pl c id_ok_path [OF id, of "kb_dir S"] unfolding kube_in_place_def kube_path_def by metis
  have "q \<in> set (map fst (files w))"
    using c by (force simp: stored_iff file_at_def dest: map_of_SomeD)
  moreover from id obtain t where t: "?n = ''kcb-'' @ t @ ''.json''"
    by (auto simp: id_ok_def starts_with_iff)
  moreover have "starts_with ?n ''kcb-''" "ends_with ?n ''.json''" "length ''kcb-'' + 5 \<le> length ?n"
    unfolding t by (rule starts_with_append, unfold ends_with_iff, rule exI [of _ "''kcb-'' @ t"], simp_all)
  ultimately have "?n \<in> set (glob_names (kb_dir S) ''kcb-'' w)"
    unfolding q by (intro glob_namesI)
  with c show ?thesis unfolding kube_listing_iff q by blast
qed

lemma kube_blocking_run:
  "kube_blocking_binding E S i s = (r, t) \<longleftrightarrow> t = s \<and>
     r = Inr (find (kube_blocking i) (kube_listing (kube_verify_binding (cfg_of E)) (kb_dir S) ''kcb-'' s))"
  by (auto simp: kube_blocking_binding_def kube_list_bindings_def bindM_def reads_def ret_def field_is_def)

lemma kube_no_blocking:
  assumes "kube_blocking_binding E S i s = (Inr None, s1)" "kube_in_place (cfg_of E) S s"
    "kube_binding_at (cfg_of E) s q = Some c"
  shows "\<not> kube_blocking i c"
proof -
  show ?thesis
    using kube_binding_listed [OF assms(2,3)] assms(1) by (auto simp: kube_blocking_run find_None_iff2)
qed

lemma kube_blocking_quiet: "keeps same_files (kube_blocking_binding E S i)"
  unfolding kube_blocking_binding_def by (intro quiet.keeps_rules kube_list_bindings_quiet)

lemma kube_verify_binding_obj:
  assumes "kube_verify_binding C (JObj d) = Inr v"
  shows "jget v ''kind'' = JStr ''kubernetes_capability_binding''" "id_ok ''kcb-'' (jget v ''binding_id'')"
  using verify_binding_Inr [OF assms] by simp_all

text \<open>What a successful bind established, and the file it wrote.\<close>

definition kube_bind_of :: "cfg \<Rightarrow> dict \<Rightarrow> dict \<Rightarrow> bool" where
  "kube_bind_of C a b \<longleftrightarrow>
     jget b ''status'' = JStr ''active'' \<and> jget b ''approval_id'' = JStr (py_str (jget a ''approval_id'')) \<and>
     jget b ''body_hash'' = jget a ''body_hash'' \<and> jget b ''consumes_approval'' = JBool False \<and>
     (\<exists>d. kube_verify_binding C (JObj d) = Inr b)"

lemma kube_bind_ofI:
  assumes "kube_verify_binding C (JObj d) = Inr b" "jget d ''status'' = JStr ''active''"
    "jget d ''approval_id'' = JStr (py_str (jget a ''approval_id''))" "jget d ''body_hash'' = jget a ''body_hash''"
    "jget d ''consumes_approval'' = JBool False"
  shows "kube_bind_of C a b"
  using assms verify_binding_Inr(3) [OF assms(1)] by (auto simp: kube_bind_of_def)

lemma kube_create_binding_Inr:
  assumes "kube_create_binding E S i run now w = (Inr b, w')"
  obtains a s where "kube_load_approval E S i now True w = (Inr a, s)" "jget a ''status'' = JStr ''approved''"
    "kube_blocking_binding E S (py_str (jget a ''approval_id'')) s = (Inr None, s)" "kube_bind_of (cfg_of E) a b"
    "same_files (write_file (kube_path (kb_dir S) b ''binding_id'') (JObj b) s) w'"
proof -
  let ?C = "cfg_of E"
  from assms obtain a s t s1 rid pid s2 where l: "kube_load_approval E S i now True w = (Inr a, s)"
    and st: "kube_bind_status (jget a ''status'') = None"
    and bl: "kube_blocking_binding E S (py_str (jget a ''approval_id'')) s = (Inr None, s)"
    and now: "kube_now E s = (Inr t, s1)"
    and v: "kube_verify_binding ?C (JObj (kube_binding_record ?C a rid pid t)) = Inr b"
    and ev: "append_capability_event E ''kubernetes_capability.bound''
       [(''binding_id'', jget b ''binding_id''), (''approval_id'', jget b ''approval_id'')]
       (write_file (kube_path (kb_dir S) b ''binding_id'') (JObj b) s1) = (Inr (), w')"
    unfolding kube_create_binding_def Let_def
    by (auto simp: op_simps kube_write_def kube_blocking_run simp del: bindM_basic bindM_lift split: option.splits)
  have "jget a ''status'' = JStr ''approved''" using st by (simp add: kube_bind_status_def split: if_splits)
  moreover have "kube_bind_of ?C a b" using v by (rule kube_bind_ofI) (simp_all add: kube_binding_record_def Let_def)
  moreover have "same_files (write_file (kube_path (kb_dir S) b ''binding_id'') (JObj b) s) w'"
    using keepsD [OF kube_now_quiet now] keepsD [OF kube_event_quiet ev]
    by (simp add: same_files_def write_file_def)
  ultimately show thesis using that [OF l _ bl] by blast
qed

lemma kube_bind_of_facts:
  assumes "kube_bind_of C a b"
  shows "jget b ''kind'' = JStr ''kubernetes_capability_binding''" "id_ok ''kcb-'' (jget b ''binding_id'')"
  using assms kube_verify_binding_obj by (auto simp: kube_bind_of_def)

lemma kube_create_binding_kept: "keeps (kube_kept (cfg_of E) S) (kube_create_binding E S i run now)"
proof (rule kc.stays_all)
  fix w
  show "stays (kube_kept (cfg_of E) S) (kube_create_binding E S i run now) w"
    unfolding kube_create_binding_def Let_def
  proof (rule kc.stays_bind, rule kc.stays_keeps, rule kube_load_approval_kept, rule quiet_then,
      (auto intro: kube_quiet_rules split: option.splits)[1], rule quiet_then [OF kube_blocking_quiet], rule quiet_then,
      (auto intro: kube_quiet_rules split: option.splits)[1], rule quiet_then [OF kube_now_quiet],
      rule quiet_then [OF quiet.keeps_lift_res], rule quiet_then [OF quiet.keeps_lift_res],
      rule quiet_then [OF quiet.keeps_lift_res], rule write_then)
    fix a w1 u w2 f w3 u' w4 t w5 rid w6 pid w7 v w8
    assume b: "kube_blocking_binding E S (py_str (jget a ''approval_id'')) w2 = (Inr f, w3)"
        "(case f of None \<Rightarrow> ret ()
          | Some b \<Rightarrow> throw (kube (if truthy (jget b ''consumes_approval'') \<or> jget b ''status'' = JStr ''active''
                                    then ''reused_single_use'' else ''no_binding''))) w3 = (Inr u', w4)"
      and q: "same_files w2 w3" "same_files w3 w4" "same_files w4 w5" "same_files w5 w6" "same_files w6 w7" "same_files w7 w8"
      and v: "lift_res (kube_verify_binding (cfg_of E) (JObj (kube_binding_record (cfg_of E) a rid pid t))) w7 = (Inr v, w8)"
    have f: "f = None" using b(2) by (cases f) (auto simp: op_simps)
    from v have "kube_verify_binding (cfg_of E) (JObj (kube_binding_record (cfg_of E) a rid pid t)) = Inr v"
      by (simp add: op_simps)
    then have bo: "kube_bind_of (cfg_of E) a v" by (rule kube_bind_ofI) (simp_all add: kube_binding_record_def Let_def)
    have q2: "same_files w2 w8" using q by (simp add: same_files_def)
    have pl: "kube_in_place (cfg_of E) S w2" if "kube_in_place (cfg_of E) S w8"
      using that unfolding kube_in_place_def same_files_stored [OF q2] .
    show "kube_kept (cfg_of E) S w8 (write_file (kube_path (kb_dir S) v ''binding_id'') (JObj v) w8)"
    proof (rule put_binding [OF kube_bind_of_facts [OF bo] refl])
      fix i q c
      assume "kube_in_place (cfg_of E) S w8" "jget v ''approval_id'' = JStr i" "kube_binding_at (cfg_of E) w8 q = Some c"
      then show "\<not> kube_blocking i c"
        using kube_no_blocking [OF b(1) [unfolded f] pl] bo
        by (simp add: kube_bind_of_def same_files_stored [OF q2])
    qed
  qed (intro kube_quiet_rules)
qed

lemma kube_finalize_kept:
  assumes i: "py_strip i = i"
  shows "keeps (kube_kept (cfg_of E) S) (kube_finalize_binding E S i s consumes why)"
proof (rule kc.stays_all)
  fix w
  show "stays (kube_kept (cfg_of E) S) (kube_finalize_binding E S i s consumes why) w"
    unfolding kube_finalize_binding_def Let_def
  proof (rule quiet_then [OF kube_load_binding_quiet], rule quiet_then [OF quiet.keeps_lift_res],
      rule quiet_then [OF quiet.keeps_raise_if], rule quiet_then [OF kube_now_quiet],
      rule quiet_then [OF quiet.keeps_lift_res], rule write_then)
    fix r w1 old w2 u w3 t w4 v w5
    let ?u = "AList.update ''terminal_at'' (JStr t)
               (AList.update ''consumes_approval'' (JBool consumes) (AList.update ''status'' (JStr s) r))"
    let ?d = "case why of None \<Rightarrow> ?u | Some [] \<Rightarrow> ?u
      | Some (c # cs) \<Rightarrow> AList.update ''terminal_reason'' (JStr (c # cs)) ?u"
    assume r: "kube_load_binding E S i w = (Inr r, w1)" "lift_res (dict_item r ''status'') w1 = (Inr old, w2)"
        "raise_if (old \<noteq> JStr ''active'') (kube ''invalid_binding'') w2 = (Inr u, w3)"
      and q: "same_files w w1" "same_files w1 w2" "same_files w2 w3" "same_files w3 w4" "same_files w4 w5"
      and v: "lift_res (kube_verify_binding (cfg_of E) (JObj ?d)) w4 = (Inr v, w5)"
    have q2: "same_files w w5" using q by (simp add: same_files_def)
    have act: "jget r ''status'' = JStr ''active''"
      using r(2,3) by (auto simp: op_simps dict_item_def jget_def split: option.splits if_splits)
    have at: "kube_binding_at (cfg_of E) w5 (record_path (kb_dir S) i) = Some r"
      unfolding same_files_stored [OF q2] using r(1) i
      by (auto simp: kube_load_binding_def op_simps kube_read_Inr stored_iff)
    from v have v: "kube_verify_binding (cfg_of E) (JObj ?d) = Inr v" by (simp add: op_simps)
    have d: "jget ?d k = jget r k" if "k \<in> {''approval_id'', ''binding_id''}" for k
      using that by (auto split: option.splits list.splits)
    have vr: "jget v k = jget r k" if "k \<in> {''approval_id'', ''binding_id''}" for k
      using verify_binding_Inr(3) [OF v, of k] d [OF that] that by auto
    show "kube_kept (cfg_of E) S w5 (write_file (record_path (kb_dir S) i) (JObj v) w5)"
    proof (rule kube_keptI)
      assume pl: "kube_in_place (cfg_of E) S w5"
      have p: "record_path (kb_dir S) i = kube_path (kb_dir S) v ''binding_id''"
        using pl at vr by (simp add: kube_in_place_def kube_path_def)
      show "kube_kept (cfg_of E) S w5 (write_file (record_path (kb_dir S) i) (JObj v) w5)"
        unfolding p
      proof (rule put_binding [OF kube_verify_binding_obj [OF v] refl])
        fix j q c
        assume ex: "kube_exclusive (cfg_of E) w5" and j: "jget v ''approval_id'' = JStr j"
          and c: "q \<noteq> kube_path (kb_dir S) v ''binding_id''" "kube_binding_at (cfg_of E) w5 q = Some c"
        have "kube_blocking j r" using j vr act by (simp add: kube_blocking_def)
        then show "\<not> kube_blocking j c"
          using ex at c unfolding kube_exclusive_def p by blast
      qed
    qed
  qed (intro kube_quiet_rules)
qed

subsection \<open>Proposals and receipts\<close>

lemma kube_verify_proposal_Inr:
  assumes "kube_verify_proposal C j = Inr v"
  shows "jget v ''kind'' = JStr ''kubernetes_capability_proposal''" "id_ok ''kcp-'' (jget v ''proposal_id'')"
proof -
  from assms obtain r b h m where v: "v = sealed r b h" "jget r ''kind'' = JStr ''kubernetes_capability_proposal''"
    "jget r ''proposal_id'' = JStr (short_id C ''kcp-'' m)"
    by (cases j) (auto simp: kube_verify_proposal_def bindR_Inr_iff kube_head_Inr)
  then show "jget v ''kind'' = JStr ''kubernetes_capability_proposal''" by simp
  show "id_ok ''kcp-'' (jget v ''proposal_id'')"
    using v(3) unfolding v(1) by (auto intro!: id_okI simp: py_space_def)
qed

lemma kube_save_proposal_kept: "keeps (kube_kept (cfg_of E) S) (kube_save_proposal E S j)"
proof (rule kc.stays_all)
  fix w
  show "stays (kube_kept (cfg_of E) S) (kube_save_proposal E S j) w"
    unfolding kube_save_proposal_def Let_def
  proof (rule quiet_then [OF quiet.keeps_lift_res], rule quiet_then [OF quiet.keeps_reads], split if_split,
      intro conjI impI, rule kc.stays_keeps, rule kube_quiet, (auto intro!: kube_quiet_rules)[1], rule write_then)
    fix v w1 f w2
    assume v: "lift_res (kube_verify_proposal (cfg_of E) j) w = (Inr v, w1)"
      and f: "reads (\<lambda>w. file_at w (kube_path (kp_dir S) v ''proposal_id'')) w1 = (Inr f, w2)" "\<not> f \<noteq> None"
    have "kube_verify_proposal (cfg_of E) j = Inr v" using v by (simp add: op_simps)
    note p = kube_verify_proposal_Inr [OF this]
    show "kube_kept (cfg_of E) S w2 (write_file (kube_path (kp_dir S) v ''proposal_id'') (JObj v) w2)"
      using p(1) id_ok_last [OF p(2), of "kp_dir S"] f by (intro put_other) (auto simp: kube_path_def op_simps)
  qed (intro kube_quiet_rules)
qed

lemma kube_propose_kept: "keeps (kube_kept (cfg_of E) S) (propose_kubernetes_capability E S r b q)"
  unfolding propose_kubernetes_capability_def kube_build_proposal_def Let_def
  by (intro kc.keeps_bind kube_save_proposal_kept kube_quiet kube_quiet_rules)

lemma kube_build_receipt_quiet: "keeps same_files (kube_build_receipt E b a op spec)"
  unfolding kube_build_receipt_def Let_def by (intro kube_quiet_rules)

lemma kube_build_receipt_Inr:
  assumes "kube_build_receipt E b a op spec w = (Inr r, w')"
  shows "jget r ''kind'' = JStr ''kubernetes_capability_receipt''" "id_ok ''kcr-'' (jget r ''receipt_id'')"
    "jget r ''acceptance_state'' = JStr (rs_acceptance spec)" "jget r ''compliance'' = JStr (rs_compliance spec)"
    "jget r ''executed'' = JBool (rs_executed spec)" "jget r ''binding_id'' = jget b ''binding_id''"
    "jget r ''approval_id'' = jget a ''approval_id''"
    "rs_acceptance spec = ''PASS'' \<Longrightarrow> rs_compliance spec = ''within_scope'' \<and> rs_verified spec \<and> rs_executed spec"
proof -
  have id: "id_ok ''kcr-'' (JStr (kube_receipt_id C x y z u v))" for C x y z u v
    unfolding kube_receipt_id_def by (rule id_okI) (simp_all add: py_space_def)
  from assms show "jget r ''kind'' = JStr ''kubernetes_capability_receipt''" "id_ok ''kcr-'' (jget r ''receipt_id'')"
    "jget r ''acceptance_state'' = JStr (rs_acceptance spec)" "jget r ''compliance'' = JStr (rs_compliance spec)"
    "jget r ''executed'' = JBool (rs_executed spec)" "jget r ''binding_id'' = jget b ''binding_id''"
    "jget r ''approval_id'' = jget a ''approval_id''"
    "rs_acceptance spec = ''PASS'' \<Longrightarrow> rs_compliance spec = ''within_scope'' \<and> rs_verified spec \<and> rs_executed spec"
    by (auto simp: kube_build_receipt_def Let_def op_simps id simp del: bindM_basic bindM_lift split: if_splits)
qed

end
