(* ===== verification/Kube_System.thy ===== *)
theory Kube_System
  imports Kube_Laws
begin

section \<open>The Kubernetes capability as a transition system\<close>

text \<open>
  The public operations as calls over the record files and the state of an executor. Every call
  keeps \<open>kube_kept\<close>, so what it promises holds along every sequence of calls.
\<close>

subsection \<open>Operations that run an executor\<close>

definition kube_kept_x :: "cfg \<Rightarrow> kube_store \<Rightarrow> world \<times> 'c \<Rightarrow> world \<times> 'c \<Rightarrow> bool" where
  "kube_kept_x C S s s' \<longleftrightarrow> kube_kept C S (fst s) (fst s')"

interpretation kx: state_order "kube_kept_x C S" for C S
  by unfold_locales (auto simp: kube_kept_x_def intro: kc.order_refl kube_kept_trans)

lemma on_world_kept: "stays (kube_kept C S) m (fst s) \<Longrightarrow> stays (kube_kept_x C S) (on_world m) s"
  by (auto simp: stays_def on_world_def kube_kept_x_def split: prod.splits)

lemma on_world_keeps: "keeps (kube_kept C S) m \<Longrightarrow> keeps (kube_kept_x C S) (on_world m)"
  by (auto simp: keeps_def on_world_def kube_kept_x_def split: prod.splits) (metis snd_conv)

lemma executor_kept: "keeps (kube_kept_x C S) (call_executor X op)"
  by (auto simp: keeps_def call_executor_def kube_kept_x_def kc.order_refl split: prod.splits)

lemma on_world_iff: "on_world m s = (r, s') \<longleftrightarrow> (\<exists>w'. m (fst s) = (r, w') \<and> s' = (w', snd s))"
  by (auto simp: on_world_def split: prod.splits)

lemma attempt_bindE:
  assumes "bindM (attempt_kube m) f s = (Inr y, t)"
  obtains a s' where "m s = (Inr a, s')" "f (Inr a) s' = (Inr y, t)"
  | e s' where "m s = (Inl e, s')" "is_kube_error e" "f (Inl e) s' = (Inr y, t)"
  using assms
  by (auto simp: attempt_kube_def catchM_def bindM_def ret_def split: prod.splits sum.splits option.splits if_splits)

lemma lift_bind_Inr: "bindM (lift_res r) f s = (Inr y, t) \<longleftrightarrow> (\<exists>a. r = Inr a \<and> f a s = (Inr y, t))"
  by (cases r) (auto simp: throw_def)

lemma attempt_kept_x: "keeps (kube_kept_x C S) m \<Longrightarrow> keeps (kube_kept_x C S) (attempt_kube m)"
  unfolding attempt_kube_def by (rule kx.keeps_catch) (auto intro: kx.keeps_rules split: if_splits)

subsection \<open>Acquiring authority\<close>

lemma kube_load_approval_id:
  assumes "kube_load_approval E S i now persist w = (Inr a, w')"
  shows "id_ok ''kca-'' (jget a ''approval_id'')"
proof -
  from assms obtain j v where v: "kube_verify_approval (cfg_of E) j = Inr v" "kube_evaluate_ttl E now v w = (Inr a, snd (kube_evaluate_ttl E now v w))"
    by (auto simp: kube_load_approval_def Let_def op_simps kube_read_Inr split: if_splits)
  obtain d where "j = JObj d" using v(1) verified_obj by blast
  then have "id_ok ''kca-'' (jget v ''approval_id'')" using v(1) verify_approval_Inr(2) by blast
  then show ?thesis using kube_ttl_Inr(2) [OF v(2)] by auto
qed

lemma kube_load_binding_Inr:
  assumes "kube_load_binding E S i w = (Inr b, w')"
  shows "w' = w" "kube_binding_at (cfg_of E) w (record_path (kb_dir S) (py_strip i)) = Some b"
  using assms by (auto simp: kube_load_binding_def op_simps kube_read_Inr stored_iff)

text \<open>
  The gate an attempt passes before its executor is called: an approved approval read before its
  expiry, and an active binding of it with its body hash.
\<close>

definition unexpired :: "env \<Rightarrow> int option \<Rightarrow> dict \<Rightarrow> bool" where
  "unexpired E now a \<longleftrightarrow>
     (\<exists>t x. parse_iso_utc (cfg_of E) (str_item a ''expires_at'') = Inr x \<and> t < x \<and>
        (case now of Some n \<Rightarrow> t = n | None \<Rightarrow> \<exists>n. t = clock E n))"

definition live_approval :: "env \<Rightarrow> kube_store \<Rightarrow> int option \<Rightarrow> string \<Rightarrow> dict \<Rightarrow> world \<Rightarrow> bool" where
  "live_approval E S now i a w \<longleftrightarrow>
     kube_approval_at (cfg_of E) w (approval_ref S i) = Some a \<and> jget a ''status'' = JStr ''approved'' \<and>
     unexpired E now a"

lemma live_load:
  assumes "kube_load_approval E S i now persist w = (Inr a, w')" "jget a ''status'' = JStr ''approved''"
  shows "same_files w w'" "live_approval E S now i a w"
proof -
  have ne: "jget a ''status'' \<noteq> JStr ''expired''" using assms(2) by simp
  note l = kube_load_approval_Inr [OF assms(1) ne]
  show s: "same_files w w'" by (rule l(1))
  show "live_approval E S now i a w"
    using l(2,3) assms(2) by (simp add: live_approval_def unexpired_def same_files_stored [OF s])
qed

definition kube_gate :: "env \<Rightarrow> kube_store \<Rightarrow> kube_operation \<Rightarrow> int option \<Rightarrow> world \<Rightarrow> dict \<Rightarrow> dict \<Rightarrow> bool" where
  "kube_gate E S op now w a b \<longleftrightarrow>
     jget b ''status'' = JStr ''active'' \<and>
     ((\<exists>i. kube_binding_at (cfg_of E) w (record_path (kb_dir S) (py_strip i)) = Some b \<and>
         jget b ''run_id'' = JStr (ko_run op) \<and> live_approval E S now (str_item b ''approval_id'') a w) \<or>
      (\<exists>a'. live_approval E S now (py_str (jget a ''approval_id'')) a' w \<and> kube_bind_of (cfg_of E) a' b \<and>
         \<not> list_ex (kube_blocking (py_str (jget a' ''approval_id'')))
             (kube_listing (kube_verify_binding (cfg_of E)) (kb_dir S) ''kcb-'' w)))"

lemma given_binding_gate:
  assumes "given_binding E S op i now w = (Inr (Some a, Some b, None), w1)"
  shows "kube_gate E S op now w a b" "same_files w w1" "id_ok ''kca-'' (jget a ''approval_id'')"
    "id_ok ''kcb-'' (jget b ''binding_id'')"
proof -
  from assms obtain w0 aid where b: "kube_load_binding E S i w = (Inr b, w0)" "jget b ''status'' = JStr ''active''"
    and i: "dict_item b ''approval_id'' = Inr aid" "dict_item b ''run_id'' = Inr (JStr (ko_run op))"
    and a: "kube_load_approval E S (str_or_empty aid) now True w0 = (Inr a, w1)"
    and s: "dict_item a ''status'' = Inr (JStr ''approved'')"
    unfolding given_binding_def
    by (auto elim!: attempt_bindE simp: lift_bind_Inr ret_iff split: if_splits)
  have st: "jget a ''status'' = JStr ''approved''" "jget b ''run_id'' = JStr (ko_run op)"
    "str_item b ''approval_id'' = str_or_empty aid"
    using i s by (auto simp: dict_item_def jget_def str_item_def split: option.splits)
  note lb = kube_load_binding_Inr [OF b(1)]
  note la = live_load [OF a st(1)]
  show "same_files w w1" using la(1) lb(1) by simp
  show "kube_gate E S op now w a b"
    using lb la b(2) st unfolding kube_gate_def by (metis (no_types))
  show "id_ok ''kca-'' (jget a ''approval_id'')" by (rule kube_load_approval_id [OF a])
  show "id_ok ''kcb-'' (jget b ''binding_id'')" by (rule kube_binding_at_id [OF lb(2)])
qed

lemma new_binding_gate:
  assumes "new_binding E S op i now w = (Inr (Some a, Some b, None), w1)"
  shows "kube_gate E S op now (snd (kube_load_approval E S i now True w)) a b"
    "id_ok ''kca-'' (jget a ''approval_id'')" "id_ok ''kcb-'' (jget b ''binding_id'')"
proof -
  from assms obtain w0 where a: "kube_load_approval E S i now True w = (Inr a, w0)"
    and b: "kube_create_binding E S (py_str (jget a ''approval_id'')) (ko_run op) now w0 = (Inr b, w1)"
    unfolding new_binding_def
    by (auto elim!: attempt_bindE simp: lift_bind_Inr ret_iff split: if_splits)
  from kube_create_binding_Inr [OF b] obtain a' s where
    l: "kube_load_approval E S (py_str (jget a ''approval_id'')) now True w0 = (Inr a', s)" "jget a' ''status'' = JStr ''approved''"
    and bl: "kube_blocking_binding E S (py_str (jget a' ''approval_id'')) s = (Inr None, s)"
    and bo: "kube_bind_of (cfg_of E) a' b"
    by blast
  note ll = live_load [OF l]
  have "\<not> list_ex (kube_blocking (py_str (jget a' ''approval_id'')))
             (kube_listing (kube_verify_binding (cfg_of E)) (kb_dir S) ''kcb-'' w0)"
    using bl ll(1) unfolding kube_blocking_run list_ex_iff
    by (simp add: find_None_iff2 kube_listing_def glob_names_def file_at_def same_files_def)
  then show "kube_gate E S op now (snd (kube_load_approval E S i now True w)) a b"
    unfolding a snd_conv kube_gate_def using ll(2) bo by (auto simp: kube_bind_of_def)
  show "id_ok ''kca-'' (jget a ''approval_id'')" by (rule kube_load_approval_id [OF a])
  show "id_ok ''kcb-'' (jget b ''binding_id'')" by (rule kube_bind_of_facts(2) [OF bo])
qed

lemma acquire_gate:
  assumes "acquire E S op aid bid now w = (Inr (Some a, Some b, None), w1)"
  shows "id_ok ''kca-'' (jget a ''approval_id'') \<and> id_ok ''kcb-'' (jget b ''binding_id'') \<and>
    (\<exists>w0. kube_kept (cfg_of E) S w w0 \<and> kube_gate E S op now w0 a b)"
proof (cases "\<exists>c cs. bid = Some (c # cs)")
  case True
  with assms obtain i where "given_binding E S op i now w = (Inr (Some a, Some b, None), w1)"
    by (auto simp: acquire_def)
  with given_binding_gate [OF this] kc.order_refl show ?thesis by blast
next
  case False
  with assms obtain i where n: "new_binding E S op i now w = (Inr (Some a, Some b, None), w1)"
    by (auto simp: acquire_def split: option.splits list.splits)
  have "kube_kept (cfg_of E) S w (snd (kube_load_approval E S i now True w))"
    using kube_load_approval_kept by (simp add: keeps_def)
  with new_binding_gate [OF n] show ?thesis by blast
qed

lemma acquire_kept: "keeps (kube_kept (cfg_of E) S) (acquire E S op aid bid now)"
proof -
  have "keeps (kube_kept (cfg_of E) S) (given_binding E S op i now)" for i
    unfolding given_binding_def
    by (auto intro!: kc.keeps_rules attempt_kept kube_load_approval_kept kube_quiet [OF kube_load_binding_quiet]
        split: sum.splits)
  moreover have "keeps (kube_kept (cfg_of E) S) (new_binding E S op i now)" for i
    unfolding new_binding_def
    by (auto intro!: kc.keeps_rules attempt_kept kube_load_approval_kept kube_create_binding_kept split: sum.splits)
  ultimately show ?thesis
    unfolding acquire_def by (auto split: option.splits list.splits)
qed

subsection \<open>Settling an attempt\<close>

lemma kube_write_receipt_stays:
  assumes "id_ok ''kcr-'' (jget r ''receipt_id'')" "jget r ''kind'' = JStr ''kubernetes_capability_receipt''"
  shows "stays (kube_kept (cfg_of E) S) (kube_write_receipt E S r) w"
  unfolding kube_write_receipt_def
  using assms id_ok_last [OF assms(1), of "kr_dir S"]
  by (intro write_then put_other kube_quiet_rules) (simp_all add: kube_path_def)

lemma settle_kept:
  assumes "id_ok ''kca-'' (jget a ''approval_id'')" "id_ok ''kcb-'' (jget b ''binding_id'')"
  shows "keeps (kube_kept (cfg_of E) S) (settle_attempt E S op a b ok consumes why spec)"
proof (rule kc.stays_all)
  fix w
  have i: "py_strip (py_str (jget a ''approval_id'')) = py_str (jget a ''approval_id'')"
    "py_strip (py_str (jget b ''binding_id'')) = py_str (jget b ''binding_id'')"
    using assms by (auto simp: id_ok_def)
  show "stays (kube_kept (cfg_of E) S) (settle_attempt E S op a b ok consumes why spec) w"
    unfolding settle_attempt_def
  proof (rule kc.stays_bind, rule kc.stays_keeps, rule kube_finalize_kept [OF i(2)],
      rule kc.stays_bind, rule kc.stays_keeps)
    show "keeps (kube_kept (cfg_of E) S) (if consumes
        then kube_transition_approval E S (py_str (jget a ''approval_id'')) ''consumed'' else ret a)"
      using kube_transition_kept [OF i(1)] kc.keeps_ret by auto
    show "stays (kube_kept (cfg_of E) S) (bindM (kube_build_receipt E b' a' op spec) (\<lambda>r.
        bindM (kube_write_receipt E S r) (\<lambda>_. ret (c r)))) s" for b' a' c s
      by (rule quiet_then [OF kube_build_receipt_quiet], rule kc.stays_bind, rule kube_write_receipt_stays)
        (auto dest: kube_build_receipt_Inr intro: kc.stays_basic)
  qed
qed

lemma judge_kept:
  assumes "id_ok ''kca-'' (jget a ''approval_id'')" "id_ok ''kcb-'' (jget b ''binding_id'')"
  shows "keeps (kube_kept (cfg_of E) S) (judge_result E S op a b r)"
  unfolding judge_result_def Let_def
  by (auto intro!: kc.keeps_rules settle_kept [OF assms] split: sum.splits kube_exn.splits)

lemma bound_attempt_kept:
  assumes "id_ok ''kca-'' (jget a ''approval_id'')" "id_ok ''kcb-'' (jget b ''binding_id'')"
  shows "keeps (kube_kept_x (cfg_of E) S) (bound_attempt E S X op a b)"
proof -
  have i: "py_strip (py_str (jget b ''binding_id'')) = py_str (jget b ''binding_id'')"
    using assms(2) by (auto simp: id_ok_def)
  show ?thesis
    unfolding bound_attempt_def
    by (auto intro!: kx.keeps_rules on_world_keeps kc.keeps_bind kc.keeps_ret kube_quiet [OF kube_denial_quiet]
        kube_finalize_kept [OF i] settle_kept [OF assms] judge_kept [OF assms] attempt_kept_x executor_kept
        split: option.splits)
qed

lemma execute_kept: "keeps (kube_kept_x (cfg_of E) S) (execute_kubernetes_capability E S X op aid bid now)"
proof (rule kx.stays_all)
  fix s :: "world \<times> 'a"
  show "stays (kube_kept_x (cfg_of E) S) (execute_kubernetes_capability E S X op aid bid now) s"
    unfolding execute_kubernetes_capability_def
  proof (rule kx.stays_bind, rule kx.stays_basic, split if_split, intro conjI impI,
      rule kx.stays_keeps, intro on_world_keeps kc.keeps_bind kc.keeps_ret kube_quiet kube_denial_quiet,
      rule kx.stays_bind, rule kx.stays_keeps, rule on_world_keeps, rule acquire_kept)
    fix o1 and s1 :: "world \<times> 'a" and t and s2 :: "world \<times> 'a"
    assume "on_world (acquire E S o1 aid bid now) s1 = (Inr t, s2)"
    then have g: "fst t = Some a \<Longrightarrow> fst (snd t) = Some b \<Longrightarrow> snd (snd t) = None \<Longrightarrow>
        id_ok ''kca-'' (jget a ''approval_id'') \<and> id_ok ''kcb-'' (jget b ''binding_id'')" for a b
      using acquire_gate by (cases t) (fastforce simp: on_world_iff)
    have d: "keeps (kube_kept_x (cfg_of E) S :: world \<times> 'a \<Rightarrow> _) (on_world (bindM (kube_denial E c m o1 x y) (\<lambda>d. ret (k d))))" for c m x y and k :: "dict \<Rightarrow> kube_outcome"
      by (intro on_world_keeps kc.keeps_bind kc.keeps_ret kube_quiet kube_denial_quiet)
    show "stays (kube_kept_x (cfg_of E) S) (case t of (a, b, e) \<Rightarrow>
       case (a, b, e) of
         (Some a, Some b, None) \<Rightarrow> bound_attempt E S X o1 a b
       | (_, _, e) \<Rightarrow>
           (let x = (case e of Some x \<Rightarrow> x | None \<Rightarrow> Kube None); code = code_or ''no_approval'' x in
            on_world (bindM (kube_denial E code (code_or ''authority unavailable'' x) o1 a b) (\<lambda>d.
              ret (refused o1 code d a b))))) s2"
      using g bound_attempt_kept [of _ _ E S X o1]
      by (cases t) (auto simp: Let_def split: option.splits intro: kx.stays_keeps d)
  qed
qed

end
