(* ===== verification/Kube_Contracts.thy ===== *)
theory Kube_Contracts
  imports Kube_System
begin

section \<open>What an attempt leaves\<close>

text \<open>
  The verdict on what an executor did has a reference definition; an attempt that returns leaves
  its binding ended, its receipt stored with that verdict, and its approval consumed when the
  attempt may have changed the cluster.
\<close>

subsection \<open>Verdicts\<close>

definition attempt_passed :: "cfg \<Rightarrow> kube_operation \<Rightarrow> kube_exn + dict \<Rightarrow> bool" where
  "attempt_passed C op res \<longleftrightarrow>
     (case res of Inl _ \<Rightarrow> False | Inr d \<Rightarrow> truthy (jget d ''executed'') \<and> result_verified C op d)"

definition attempt_verdict :: "cfg \<Rightarrow> kube_operation \<Rightarrow> kube_exn + dict \<Rightarrow> string" where
  "attempt_verdict C op res =
     (if attempt_passed C op res then ''PASS''
      else case res of
        Inl (Kube _) \<Rightarrow> if has_probe (ko_patch op) then ''UNVERIFIED'' else ''FAIL''
      | _ \<Rightarrow> ''UNVERIFIED'')"

text \<open>A readiness patch always uses its approval up, another patch when it passed and changed something.\<close>

definition attempt_consumes :: "cfg \<Rightarrow> kube_operation \<Rightarrow> kube_exn + dict \<Rightarrow> bool" where
  "attempt_consumes C op res \<longleftrightarrow>
     (if attempt_passed C op res
      then verb_requires_mutate (ko_verb op) \<and> (case res of Inl _ \<Rightarrow> False | Inr d \<Rightarrow> truthy (jget d ''changed''))
      else has_probe (ko_patch op))"

definition kube_spent :: "cfg \<Rightarrow> world \<Rightarrow> path \<Rightarrow> bool" where
  "kube_spent C w p \<longleftrightarrow>
     file_at w p \<noteq> None \<and> (\<forall>a. kube_approval_at C w p = Some a \<longrightarrow> jget a ''status'' \<noteq> JStr ''approved'')"

definition kube_settled ::
  "cfg \<Rightarrow> kube_store \<Rightarrow> dict \<Rightarrow> dict \<Rightarrow> bool \<Rightarrow> bool \<Rightarrow> string \<Rightarrow> kube_outcome \<Rightarrow> world \<Rightarrow> bool" where
  "kube_settled C S a b ok consumes verdict out w' \<longleftrightarrow>
     kx_ok out = ok \<and> kx_denial out = None \<and>
     (\<exists>q b' a'. kx_receipt out = Some q \<and> kx_binding out = Some b' \<and> kx_approval out = Some a' \<and>
        jget q ''acceptance_state'' = JStr verdict \<and>
        jget q ''binding_id'' = jget b ''binding_id'' \<and> jget q ''approval_id'' = jget a ''approval_id'' \<and>
        file_at w' (kube_path (kr_dir S) q ''receipt_id'') = Some (Parsed (JObj q)) \<and>
        jget b' ''status'' = JStr (if ok then ''completed'' else ''failed'') \<and>
        jget b' ''consumes_approval'' = JBool consumes \<and>
        file_at w' (kube_path (kb_dir S) b ''binding_id'') = Some (Parsed (JObj b')) \<and>
        (consumes \<longrightarrow> jget a' ''status'' = JStr ''consumed'' \<and>
           kube_spent C w' (kube_path (ka_dir S) a ''approval_id'')))"

subsection \<open>The steps of settling\<close>

lemma kube_event_Inr: "append_capability_event E ty p w = (r, w') \<Longrightarrow> same_files w w'"
  by (rule keepsD [OF kube_event_quiet])

lemma dict_item_jget: "dict_item d k = Inr v \<Longrightarrow> jget d k = v"
  by (auto simp: dict_item_def jget_def split: option.splits)

lemma same_files_written:
  assumes "same_files (write_file p j w) w'"
  shows "file_at w' q = (if q = p then Some (Parsed j) else file_at w q)"
  unfolding same_files_at [OF assms] file_at_write ..

lemma kube_finalize_Inr:
  assumes "kube_finalize_binding E S i s consumes why w = (Inr b', w')" "py_strip i = i"
  shows "jget b' ''status'' = JStr s" "jget b' ''consumes_approval'' = JBool consumes"
    "\<exists>w1. same_files w w1 \<and> w' = write_file (record_path (kb_dir S) i) (JObj b') w1"
    "\<exists>r. kube_binding_at (cfg_of E) w (record_path (kb_dir S) i) = Some r \<and> jget r ''status'' = JStr ''active'' \<and>
       jget b' ''binding_id'' = jget r ''binding_id'' \<and> jget b' ''approval_id'' = jget r ''approval_id''"
proof -
  let ?u = "\<lambda>r t. AList.update ''terminal_at'' (JStr t)
               (AList.update ''consumes_approval'' (JBool consumes) (AList.update ''status'' (JStr s) r))"
  let ?d = "\<lambda>r t. case why of None \<Rightarrow> ?u r t | Some [] \<Rightarrow> ?u r t
      | Some (c # cs) \<Rightarrow> AList.update ''terminal_reason'' (JStr (c # cs)) (?u r t)"
  from assms(1) obtain r t w1 where r: "kube_load_binding E S i w = (Inr r, w)"
    and act: "dict_item r ''status'' = Inr (JStr ''active'')" and t: "kube_now E w = (Inr t, w1)"
    and v: "kube_verify_binding (cfg_of E) (JObj (?d r t)) = Inr b'"
    and w': "w' = write_file (record_path (kb_dir S) i) (JObj b') w1"
    unfolding kube_finalize_binding_def Let_def
    by (auto simp: op_simps kube_write_def kube_load_binding_def kube_read_iff simp del: bindM_basic bindM_lift
        split: if_splits)
  have d: "jget (?d r t) k = jget (?u r t) k" if "k \<noteq> ''terminal_reason''" for k
    using that by (auto split: option.splits list.splits)
  have b': "jget b' k = jget (?u r t) k" if "k \<notin> {''body'', ''terminal_reason''}" for k
    using verify_binding_Inr(3) [OF v] d that by auto
  show "jget b' ''status'' = JStr s" "jget b' ''consumes_approval'' = JBool consumes" by (simp_all add: b')
  show "\<exists>w1. same_files w w1 \<and> w' = write_file (record_path (kb_dir S) i) (JObj b') w1"
    using keepsD [OF kube_now_quiet t] w' by blast
  show "\<exists>r. kube_binding_at (cfg_of E) w (record_path (kb_dir S) i) = Some r \<and> jget r ''status'' = JStr ''active'' \<and>
       jget b' ''binding_id'' = jget r ''binding_id'' \<and> jget b' ''approval_id'' = jget r ''approval_id''"
    using kube_load_binding_Inr(2) [OF r] assms(2) dict_item_jget [OF act] by (simp add: b')
qed

lemma kube_transition_Inr:
  assumes "kube_transition_approval E S i ''consumed'' w = (Inr a', w')" "py_strip i = i"
  shows "jget a' ''status'' = JStr ''consumed''" "kube_spent (cfg_of E) w' (record_path (ka_dir S) i)"
    "\<And>q. q \<noteq> record_path (ka_dir S) i \<Longrightarrow> file_at w' q = file_at w q"
    "\<exists>v. kube_approval_at (cfg_of E) w (record_path (ka_dir S) i) = Some v \<and> jget a' ''approval_id'' = jget v ''approval_id''"
proof -
  let ?C = "cfg_of E" and ?p = "record_path (ka_dir S) i"
  from assms(1) obtain r w1 where l: "kube_load_approval E S i None True w = (Inr r, w1)"
    and d: "jget r ''status'' = JStr ''consumed'' \<and> a' = r \<and> w' = w1 \<or>
      jget r ''status'' = JStr ''approved'' \<and> a' = AList.update ''status'' (JStr ''consumed'') r \<and>
      same_files (write_file ?p (JObj a') w1) w'"
    unfolding kube_transition_approval_def Let_def
    by (auto simp: op_simps kube_write_def dict_item_def jget_def simp del: bindM_basic bindM_lift
        dest: kube_event_Inr split: if_splits option.splits)
  have ne: "jget r ''status'' \<noteq> JStr ''expired''" using d by auto
  note ll = kube_load_approval_Inr [OF l ne]
  have at: "kube_approval_at ?C w1 ?p = Some r" using ll(2) assms(2) by (simp add: approval_ref_def)
  show st: "jget a' ''status'' = JStr ''consumed''" using d by auto
  show "\<And>q. q \<noteq> ?p \<Longrightarrow> file_at w' q = file_at w q"
    using d same_files_at [OF ll(1)] same_files_written by metis
  have "kube_approval_at ?C w ?p = Some r" using at by (simp add: same_files_stored [OF ll(1)])
  with d show "\<exists>v. kube_approval_at ?C w ?p = Some v \<and> jget a' ''approval_id'' = jget v ''approval_id''" by auto
  show "kube_spent ?C w' ?p"
    using d
  proof
    assume "jget r ''status'' = JStr ''consumed'' \<and> a' = r \<and> w' = w1"
    with at show ?thesis by (auto simp: kube_spent_def stored_iff)
  next
    assume u: "jget r ''status'' = JStr ''approved'' \<and> a' = AList.update ''status'' (JStr ''consumed'') r \<and>
      same_files (write_file ?p (JObj a') w1) w'"
    from same_files_written [OF conjunct2 [OF conjunct2 [OF u]]] have f: "file_at w' ?p = Some (Parsed (JObj a'))"
      by simp
    have "jget a'' ''status'' = JStr ''consumed''" if "kube_verify_approval ?C (JObj a') = Inr a''" for a''
      using verify_approval_Inr(3) [OF that, of "''status''"] st by simp
    then show ?thesis using f by (auto simp: kube_spent_def stored_iff)
  qed
qed

lemma kube_write_receipt_Inr:
  assumes "kube_write_receipt E S r w = (Inr q, w')"
  shows "file_at w' x = (if x = kube_path (kr_dir S) r ''receipt_id'' then Some (Parsed (JObj r)) else file_at w x)"
proof -
  from assms have "same_files (write_file (kube_path (kr_dir S) r ''receipt_id'') (JObj r) w) w'"
    unfolding kube_write_receipt_def
    by (auto simp: op_simps kube_write_def simp del: bindM_basic bindM_lift dest: kube_event_Inr)
  then show ?thesis by (rule same_files_written)
qed

lemma id_paths_apart:
  assumes "id_ok p j" "id_ok q k" "apart p q"
  shows "record_path d (py_str j) \<noteq> record_path e (py_str k)"
  using id_ok_last [OF assms(1), of d] id_ok_last [OF assms(2), of e] apart_names [OF assms(3)] by metis

lemma kube_apart: "apart ''kca-'' ''kcb-''" "apart ''kcr-'' ''kcb-''" "apart ''kcr-'' ''kca-''"
  by (simp_all add: apart_def)

text \<open>What settling an attempt leaves of binding, approval and receipt.\<close>

lemma settle_settled:
  assumes run: "settle_attempt E S op a b ok consumes why spec w = (Inr out, w')"
    and ia: "id_ok ''kca-'' (jget a ''approval_id'')" and ib: "id_ok ''kcb-'' (jget b ''binding_id'')"
    and pl: "kube_in_place (cfg_of E) S w"
  shows "kube_settled (cfg_of E) S a b ok consumes (rs_acceptance spec) out w'"
proof -
  let ?C = "cfg_of E" and ?pa = "kube_path (ka_dir S) a ''approval_id''" and ?pb = "kube_path (kb_dir S) b ''binding_id''"
  from run obtain b' w1 a' w2 q w3 q' where
    fin: "kube_finalize_binding E S (py_str (jget b ''binding_id'')) (if ok then ''completed'' else ''failed'') consumes why w = (Inr b', w1)"
    and tr: "(if consumes then kube_transition_approval E S (py_str (jget a ''approval_id'')) ''consumed'' else ret a) w1 = (Inr a', w2)"
    and rc: "kube_build_receipt E b' a' op spec w2 = (Inr q, w3)"
    and wr: "kube_write_receipt E S q w3 = (Inr q', w')"
    and out: "out = \<lparr>kx_ok = ok, kx_code = rs_code spec, kx_receipt = Some q, kx_denial = None, kx_binding = Some b', kx_approval = Some a'\<rparr>"
    unfolding settle_attempt_def by (auto simp: op_simps simp del: bindM_basic bindM_lift)
  have i: "py_strip (py_str (jget a ''approval_id'')) = py_str (jget a ''approval_id'')"
    "py_strip (py_str (jget b ''binding_id'')) = py_str (jget b ''binding_id'')"
    using ia ib by (auto simp: id_ok_def)
  note f = kube_finalize_Inr [OF fin i(2)]
  note r = kube_build_receipt_Inr [OF rc]
  note x = kube_write_receipt_Inr [OF wr]
  have w3: "file_at w3 y = file_at w2 y" for y by (rule same_files_at [OF keepsD [OF kube_build_receipt_quiet rc]])
  have ap: "?pa \<noteq> ?pb" "kube_path (kr_dir S) q ''receipt_id'' \<noteq> ?pb" "kube_path (kr_dir S) q ''receipt_id'' \<noteq> ?pa"
    unfolding kube_path_def using id_paths_apart [OF ia ib kube_apart(1)]
      id_paths_apart [OF r(2) ib kube_apart(2)] id_paths_apart [OF r(2) ia kube_apart(3)] by blast+
  have fb: "file_at w1 ?pb = Some (Parsed (JObj b'))" using f(3) by (auto simp: kube_path_def file_at_write)
  have t: "(consumes \<longrightarrow> jget a' ''status'' = JStr ''consumed'' \<and> kube_spent ?C w2 ?pa) \<and>
      file_at w2 ?pb = file_at w1 ?pb \<and> jget a' ''approval_id'' = jget a ''approval_id''"
  proof (cases consumes)
    case True
    with tr have tr': "kube_transition_approval E S (py_str (jget a ''approval_id'')) ''consumed'' w1 = (Inr a', w2)" by simp
    note t = kube_transition_Inr [OF tr' i(1)]
    have "kube_kept ?C S w w1" by (rule keepsD [OF kube_finalize_kept [OF i(2)] fin])
    then have "kube_in_place ?C S w1" using pl by (simp add: kube_kept_def)
    moreover obtain v where v: "kube_approval_at ?C w1 ?pa = Some v" "jget a' ''approval_id'' = jget v ''approval_id''"
      using t(4) by (auto simp: kube_path_def)
    ultimately have "?pa = kube_path (ka_dir S) v ''approval_id''" by (simp add: kube_in_place_def)
    then have "py_str (jget v ''approval_id'') = py_str (jget a ''approval_id'')"
      using id_ok_path [OF ia, of "ka_dir S"] id_ok_path [OF kube_approval_at_id [OF v(1)], of "ka_dir S"]
      by (simp add: kube_path_def)
    then have "jget v ''approval_id'' = jget a ''approval_id''"
      using ia kube_approval_at_id [OF v(1)] by (auto simp: id_ok_def)
    with v t(1-3) ap(1) show ?thesis by (simp add: kube_path_def [symmetric] True)
  qed (use tr in \<open>auto simp: op_simps\<close>)
  have "kube_spent ?C w' ?pa" if "kube_spent ?C w2 ?pa"
    using that ap(3) by (simp add: kube_spent_def stored_def x w3)
  moreover have "jget b' ''binding_id'' = jget b ''binding_id''"
  proof -
    from f(4) obtain r where rb: "kube_binding_at ?C w ?pb = Some r" "jget b' ''binding_id'' = jget r ''binding_id''"
      by (auto simp: kube_path_def)
    then have "?pb = kube_path (kb_dir S) r ''binding_id''" using pl by (simp add: kube_in_place_def)
    then have "py_str (jget r ''binding_id'') = py_str (jget b ''binding_id'')"
      using id_ok_path [OF ib, of "kb_dir S"] id_ok_path [OF kube_binding_at_id [OF rb(1)], of "kb_dir S"]
      by (simp add: kube_path_def)
    then show ?thesis using ib kube_binding_at_id [OF rb(1)] rb(2) by (auto simp: id_ok_def)
  qed
  ultimately show ?thesis
    using f(1,2) r t ap fb unfolding kube_settled_def out by (simp add: x w3)
qed

text \<open>The verdict of the code is the reference verdict; its second scope check never fails.\<close>

lemma judge_settled:
  assumes run: "judge_result E S op a b res w = (Inr out, w')"
    and cl: "classify_operation (jget b ''body'') op = Inr None" and er: "\<And>e. res = Inl e \<Longrightarrow> is_kube_error e"
    and ia: "id_ok ''kca-'' (jget a ''approval_id'')" and ib: "id_ok ''kcb-'' (jget b ''binding_id'')"
    and pl: "kube_in_place (cfg_of E) S w"
  shows "kube_settled (cfg_of E) S a b (attempt_passed (cfg_of E) op res) (attempt_consumes (cfg_of E) op res)
    (attempt_verdict (cfg_of E) op res) out w'"
proof (cases res)
  case (Inl e)
  from er [OF Inl] consider c where "e = Kube c" | c where "e = Kube_interrupted c"
    by (cases e) (auto simp: is_kube_error_def)
  then show ?thesis
  proof cases
    case 1
    with run Inl have "settle_attempt E S op a b False (has_probe (ko_patch op)) (Some (code_or ''execution_failed'' e))
        (raised_spec (has_probe (ko_patch op)) (code_or ''execution_failed'' e)) w = (Inr out, w')"
      by (simp add: judge_result_def Let_def)
    from settle_settled [OF this ia ib pl] show ?thesis
      using 1 Inl by (simp add: attempt_passed_def attempt_consumes_def attempt_verdict_def raised_spec_def)
  next
    case 2
    with run Inl have "settle_attempt E S op a b False (has_probe (ko_patch op)) (Some ''interrupted'')
        interrupted_spec w = (Inr out, w')"
      by (simp add: judge_result_def Let_def)
    from settle_settled [OF this ia ib pl] show ?thesis
      using 2 Inl by (simp add: attempt_passed_def attempt_consumes_def attempt_verdict_def interrupted_spec_def)
  qed
next
  case (Inr d)
  show ?thesis
  proof (cases "attempt_passed (cfg_of E) op res")
    case True
    with run Inr cl have "settle_attempt E S op a b True (verb_requires_mutate (ko_verb op) \<and> truthy (jget d ''changed'')) None
        (passed_spec (cfg_of E) op d) w = (Inr out, w')"
      by (simp add: judge_result_def Let_def attempt_passed_def)
    from settle_settled [OF this ia ib pl] show ?thesis
      using True Inr by (simp add: attempt_consumes_def attempt_verdict_def passed_spec_def)
  next
    case False
    with run Inr have "settle_attempt E S op a b False (has_probe (ko_patch op)) (Some ''unverified'')
        (unverified_spec (has_probe (ko_patch op)) (truthy (jget d ''executed'')) d) w = (Inr out, w')"
      by (auto simp: judge_result_def Let_def attempt_passed_def)
    from settle_settled [OF this ia ib pl] show ?thesis
      using False Inr by (simp add: attempt_consumes_def attempt_verdict_def unverified_spec_def)
  qed
qed

subsection \<open>Attempts\<close>

text \<open>The executor is called with authority: the gate was passed and the body admits the operation.\<close>

definition kube_entered ::
  "env \<Rightarrow> kube_store \<Rightarrow> kube_operation \<Rightarrow> kube_operation \<Rightarrow> int option \<Rightarrow> world \<Rightarrow> dict \<Rightarrow> dict \<Rightarrow> bool" where
  "kube_entered E S op op' now w a b \<longleftrightarrow>
     prepare_operation op = Inr op' \<and> (\<exists>w0. kube_kept (cfg_of E) S w w0 \<and> kube_gate E S op' now w0 a b) \<and>
     id_ok ''kca-'' (jget a ''approval_id'') \<and> jget b ''body_hash'' = jget a ''body_hash'' \<and>
     (\<exists>body p. normalize_kubernetes_capability_body (jget b ''body'') = Inr body \<and>
        normalize_patch (ko_patch op') = Inr p \<and> admits body op' p)"

definition no_pass :: "kube_outcome \<Rightarrow> bool" where
  "no_pass out \<longleftrightarrow> \<not> kx_ok out \<and> (\<forall>q. kx_receipt out = Some q \<longrightarrow> jget q ''acceptance_state'' = JStr ''FAIL'')"

lemma denied_settle:
  assumes "settle_attempt E S op a b False False why (denied_spec code) w = (Inr out, w')"
  shows "no_pass out"
proof -
  from assms obtain b' a' q w2 w3 where "kube_build_receipt E b' a' op (denied_spec code) w2 = (Inr q, w3)"
    "kx_ok out = False" "kx_receipt out = Some q"
    unfolding settle_attempt_def by (auto simp: op_simps simp del: bindM_basic bindM_lift)
  then show ?thesis using kube_build_receipt_Inr(3) by (fastforce simp: no_pass_def denied_spec_def)
qed

lemma bound_attempt_cases:
  assumes "bound_attempt E S X op a b (w, c) = (r, (w', c'))"
  obtains (refused) "c' = c" "\<forall>out. r = Inr out \<longrightarrow> no_pass out"
  | (entered) res where "jget b ''body_hash'' = jget a ''body_hash''" "classify_operation (jget b ''body'') op = Inr None"
      "X op c = (res, c')" "\<And>e. res = Inl e \<Longrightarrow> is_kube_error e" "judge_result E S op a b res w = (r, w')"
  | (escaped) e where "jget b ''body_hash'' = jget a ''body_hash''" "classify_operation (jget b ''body'') op = Inr None"
      "X op c = (Inl e, c')" "\<not> is_kube_error e" "r = Inl e" "w' = w"
proof (cases "jget b ''body_hash'' = jget a ''body_hash''")
  case False
  with assms have "c' = c" "\<forall>out. r = Inr out \<longrightarrow> no_pass out"
    by (auto simp: bound_attempt_def on_world_iff bindM_Inr_iff ret_iff refused_def no_pass_def)
  then show ?thesis by (rule refused)
next
  case h: True
  show ?thesis
  proof (cases "classify_operation (jget b ''body'') op")
    case (Inl e)
    with assms h have "c' = c" "\<forall>out. r = Inr out \<longrightarrow> no_pass out" by (auto simp: bound_attempt_def throw_iff)
    then show ?thesis by (rule refused)
  next
    case (Inr sc)
    show ?thesis
    proof (cases sc)
      case (Some code)
      with assms h Inr have "c' = c" "\<forall>out. r = Inr out \<longrightarrow> no_pass out"
        by (auto simp: bound_attempt_def on_world_iff dest: denied_settle)
      then show ?thesis by (rule refused)
    next
      case None
      obtain res c1 where x: "X op c = (res, c1)" by (cases "X op c")
      have k: "bindM (attempt_kube (call_executor X op)) (\<lambda>r. on_world (judge_result E S op a b r)) (w, c) = (r, (w', c'))"
        using assms h Inr None by (simp add: bound_attempt_def)
      show ?thesis
      proof (cases "\<exists>e. res = Inl e \<and> \<not> is_kube_error e")
        case True
        with k x show ?thesis
          by (auto intro!: escaped h Inr [unfolded None]
              simp: bindM_def attempt_kube_def catchM_def call_executor_def)
      next
        case False
        with k x have "c1 = c'" "judge_result E S op a b res w = (r, w')"
          by (auto simp: bindM_def attempt_kube_def catchM_def call_executor_def ret_def on_world_iff split: sum.splits)
        with x False show ?thesis by (intro entered h Inr [unfolded None]) auto
      qed
    qed
  qed
qed

lemma execute_cases:
  assumes "execute_kubernetes_capability E S X op aid bid now (w, c) = (r, (w', c'))"
  obtains (refused) "c' = c" "\<forall>out. r = Inr out \<longrightarrow> no_pass out"
  | (bound) op' a b w1 where "prepare_operation op = Inr op'"
      "acquire E S op' aid bid now w = (Inr (Some a, Some b, None), w1)"
      "bound_attempt E S X op' a b (w1, c) = (r, (w', c'))"
proof (cases "prepare_operation op")
  case (Inl e)
  with assms show ?thesis by (intro refused) (auto simp: execute_kubernetes_capability_def throw_iff)
next
  case (Inr op')
  have d: "c' = c \<and> (\<forall>out. r = Inr out \<longrightarrow> no_pass out)"
    if "on_world (bindM (kube_denial E k m op' x y) (\<lambda>d. ret (refused op' k' d x y))) (w0, c) = (r, (w', c'))" for k m x y k' w0
    using that by (auto simp: on_world_iff bindM_Inr_iff ret_iff refused_def no_pass_def)
  show ?thesis
  proof (cases "(aid = None \<or> aid = Some []) \<and> (bid = None \<or> bid = Some [])")
    case True
    with assms Inr have "on_world (bindM (kube_denial E ''no_approval'' ''no approval provided'' op' None None) (\<lambda>d.
         ret (refused op' ''no_approval'' d None None))) (w, c) = (r, (w', c'))"
      by (simp add: execute_kubernetes_capability_def)
    from d [OF this] show ?thesis by (intro refused) auto
  next
    case False
    obtain t w1 where q: "acquire E S op' aid bid now w = (t, w1)" by (cases "acquire E S op' aid bid now w")
    have k: "bindM (on_world (acquire E S op' aid bid now)) (\<lambda>(a, b, e).
       case (a, b, e) of
         (Some a, Some b, None) \<Rightarrow> bound_attempt E S X op' a b
       | (_, _, e) \<Rightarrow>
           (let x = (case e of Some x \<Rightarrow> x | None \<Rightarrow> Kube None); code = code_or ''no_approval'' x in
            on_world (bindM (kube_denial E code (code_or ''authority unavailable'' x) op' a b) (\<lambda>d.
              ret (refused op' code d a b))))) (w, c) = (r, (w', c'))"
      using assms Inr False unfolding execute_kubernetes_capability_def by (simp only: bindM_lift if_False)
    show ?thesis
    proof (cases t)
      case (Inl e)
      with k q show ?thesis by (intro refused) (auto simp: bindM_def on_world_def)
    next
      case tr: (Inr y)
      obtain a b e where y: "y = (a, b, e)" by (cases y)
      show ?thesis
      proof (cases "\<exists>a' b'. a = Some a' \<and> b = Some b' \<and> e = None")
        case True
        with k q tr y Inr show ?thesis by (auto simp: bindM_def on_world_def intro!: bound)
      next
        case False
        have "on_world (bindM (kube_denial E (code_or ''no_approval'' (case e of Some x \<Rightarrow> x | None \<Rightarrow> Kube None))
            (code_or ''authority unavailable'' (case e of Some x \<Rightarrow> x | None \<Rightarrow> Kube None)) op' a b)
            (\<lambda>d. ret (refused op' (code_or ''no_approval'' (case e of Some x \<Rightarrow> x | None \<Rightarrow> Kube None)) d a b))) (w1, c) = (r, (w', c'))"
          using k q tr y False by (auto simp: bindM_def [of "on_world _"] on_world_def Let_def split: option.splits)
        from d [OF this] show ?thesis by (intro refused) auto
      qed
    qed
  qed
qed

text \<open>An attempt that returned: refused, or entered with authority and settled by its verdict.\<close>

definition kube_contract ::
  "env \<Rightarrow> kube_store \<Rightarrow> 'c executor \<Rightarrow> kube_operation \<Rightarrow> int option \<Rightarrow> world \<Rightarrow> 'c \<Rightarrow> kube_outcome \<Rightarrow> world \<times> 'c \<Rightarrow> bool" where
  "kube_contract E S X op now w c out s' \<longleftrightarrow>
     snd s' = c \<and> no_pass out \<or>
     (\<exists>op' a b. kube_entered E S op op' now w a b \<and> snd s' = snd (X op' c) \<and>
        kube_settled (cfg_of E) S a b (attempt_passed (cfg_of E) op' (fst (X op' c)))
          (attempt_consumes (cfg_of E) op' (fst (X op' c))) (attempt_verdict (cfg_of E) op' (fst (X op' c))) out (fst s'))"

text \<open>
  An attempt that raised: the executor was not called; or it raised an exception that is no
  capability error, and the authority it was called with is left as it was; or settling raised.
\<close>

definition kube_raised ::
  "env \<Rightarrow> kube_store \<Rightarrow> 'c executor \<Rightarrow> kube_operation \<Rightarrow> string option \<Rightarrow> string option \<Rightarrow> int option \<Rightarrow>
   world \<Rightarrow> 'c \<Rightarrow> kube_exn \<Rightarrow> world \<times> 'c \<Rightarrow> bool" where
  "kube_raised E S X op aid bid now w c e s' \<longleftrightarrow>
     snd s' = c \<or>
     (\<exists>op' a b. kube_entered E S op op' now w a b \<and> snd s' = snd (X op' c) \<and>
        (fst (X op' c) = Inl e \<and> \<not> is_kube_error e \<and>
           acquire E S op' aid bid now w = (Inr (Some a, Some b, None), fst s') \<or>
         (\<exists>w1. judge_result E S op' a b (fst (X op' c)) w1 = (Inl e, fst s'))))"

lemma acquire_entered:
  assumes "prepare_operation op = Inr op'" "acquire E S op' aid bid now w = (Inr (Some a, Some b, None), w1)"
    "jget b ''body_hash'' = jget a ''body_hash''" "classify_operation (jget b ''body'') op' = Inr None"
  shows "kube_entered E S op op' now w a b"
  using assms acquire_gate [OF assms(2)] by (auto simp: kube_entered_def classify_iff)

lemma execute_meets:
  "triple (\<lambda>s. s = (w, c) \<and> kube_in_place (cfg_of E) S w) (execute_kubernetes_capability E S X op aid bid now)
     (kube_contract E S X op now w c) (kube_raised E S X op aid bid now w c)"
proof (rule tripleI)
  fix s out s'
  assume s: "s = (w, c) \<and> kube_in_place (cfg_of E) S w" and "execute_kubernetes_capability E S X op aid bid now s = (Inr out, s')"
  then have run: "execute_kubernetes_capability E S X op aid bid now (w, c) = (Inr out, (fst s', snd s'))" by simp
  show "kube_contract E S X op now w c out s'"
  proof (cases rule: execute_cases [OF run])
    case 1
    then show ?thesis by (simp add: kube_contract_def)
  next
    case (2 op' a b w1)
    note ids = acquire_gate [OF 2(2)]
    have pl: "kube_in_place (cfg_of E) S w1"
      using keepsD [OF acquire_kept 2(2)] s by (simp add: kube_kept_def)
    show ?thesis
    proof (cases rule: bound_attempt_cases [OF 2(3)])
      case 1
      then show ?thesis by (simp add: kube_contract_def)
    next
      case (2 res)
      have "kube_settled (cfg_of E) S a b (attempt_passed (cfg_of E) op' res) (attempt_consumes (cfg_of E) op' res)
          (attempt_verdict (cfg_of E) op' res) out (fst s')"
        using ids 2(4) pl by (intro judge_settled [OF 2(5,2)]) auto
      with 2(3) acquire_entered [OF \<open>prepare_operation op = Inr op'\<close> \<open>acquire E S op' aid bid now w = _\<close> 2(1,2)]
      show ?thesis unfolding kube_contract_def by (metis fst_conv snd_conv)
    next
      case (3 e)
      then show ?thesis by simp
    qed
  qed
next
  fix s e s'
  assume s: "s = (w, c) \<and> kube_in_place (cfg_of E) S w" and "execute_kubernetes_capability E S X op aid bid now s = (Inl e, s')"
  then have run: "execute_kubernetes_capability E S X op aid bid now (w, c) = (Inl e, (fst s', snd s'))" by simp
  show "kube_raised E S X op aid bid now w c e s'"
  proof (cases rule: execute_cases [OF run])
    case 1
    then show ?thesis by (simp add: kube_raised_def)
  next
    case (2 op' a b w1)
    show ?thesis
    proof (cases rule: bound_attempt_cases [OF 2(3)])
      case 1
      then show ?thesis by (simp add: kube_raised_def)
    next
      case (2 res)
      with acquire_entered [OF \<open>prepare_operation op = Inr op'\<close> \<open>acquire E S op' aid bid now w = _\<close> 2(1,2)]
      show ?thesis unfolding kube_raised_def by (metis fst_conv snd_conv)
    next
      case (3 x)
      with acquire_entered [OF \<open>prepare_operation op = Inr op'\<close> \<open>acquire E S op' aid bid now w = _\<close> 3(1,2)]
        \<open>acquire E S op' aid bid now w = _\<close>
      show ?thesis unfolding kube_raised_def by (metis fst_conv snd_conv sum.inject(1))
    qed
  qed
qed

subsection \<open>Consumed approvals\<close>

lemma kube_spent_kept:
  assumes k: "kube_kept C S w w'" and pl: "kube_in_place C S w" and l: "starts_with (last p) ''kca-''" and sp: "kube_spent C w p"
  shows "kube_spent C w' p"
proof -
  from k pl have fo: "approvals_follow C w w'" by (simp add: kube_kept_def)
  obtain g where g: "file_at w p = Some g" using sp by (auto simp: kube_spent_def)
  have f: "file_at w' p \<noteq> None"
    "\<forall>a'. kube_approval_at C w' p = Some a' \<longrightarrow> (\<exists>a. kube_approval_at C w p = Some a \<and> kube_follows a a')"
    using fo l g unfolding approvals_follow_def by blast+
  have "jget a' ''status'' \<noteq> JStr ''approved''" if "kube_approval_at C w' p = Some a'" for a'
  proof -
    from f(2) that obtain a where a: "kube_approval_at C w p = Some a" "kube_follows a a'" by blast
    with sp have "jget a ''status'' \<noteq> JStr ''approved''" by (simp add: kube_spent_def)
    moreover have "kube_next (jget a ''status'') (jget a' ''status'')" using a(2) by (simp add: kube_follows_def)
    ultimately show ?thesis by (auto simp: kube_next_def)
  qed
  with f(1) show ?thesis by (simp add: kube_spent_def)
qed

text \<open>No attempt enters the executor with an approval that is spent.\<close>

lemma entered_not_spent:
  assumes en: "kube_entered E S op op' now w a b" and pl: "kube_in_place (cfg_of E) S w"
  shows "\<not> kube_spent (cfg_of E) w (kube_path (ka_dir S) a ''approval_id'')"
proof
  let ?C = "cfg_of E" and ?p = "kube_path (ka_dir S) a ''approval_id''"
  assume sp: "kube_spent ?C w ?p"
  from en obtain w0 where k: "kube_kept ?C S w w0" and g: "kube_gate E S op' now w0 a b"
    and ia: "id_ok ''kca-'' (jget a ''approval_id'')"
    by (auto simp: kube_entered_def)
  have pl0: "kube_in_place ?C S w0" using k pl by (simp add: kube_kept_def)
  have sp0: "kube_spent ?C w0 ?p"
    by (rule kube_spent_kept [OF k pl _ sp]) (simp add: kube_path_def id_ok_last [OF ia])
  have i: "py_strip (py_str (jget a ''approval_id'')) = py_str (jget a ''approval_id'')"
    using ia by (auto simp: id_ok_def)
  from g consider i where "live_approval E S now i a w0" | a' where "live_approval E S now (py_str (jget a ''approval_id'')) a' w0"
    by (auto simp: kube_gate_def)
  then show False
  proof cases
    case 1
    then have at: "kube_approval_at ?C w0 (approval_ref S i) = Some a" "jget a ''status'' = JStr ''approved''"
      by (simp_all add: live_approval_def)
    then have "approval_ref S i = ?p" using pl0 by (simp add: kube_in_place_def)
    with at sp0 show False by (simp add: kube_spent_def)
  next
    case 2
    then have "kube_approval_at ?C w0 ?p = Some a'" "jget a' ''status'' = JStr ''approved''"
      using i by (simp_all add: live_approval_def approval_ref_def kube_path_def)
    with sp0 show False by (simp add: kube_spent_def)
  qed
qed

end
