(* ===== verification/Kube_Runs.thy ===== *)
theory Kube_Runs
  imports Kube_Contracts
begin

section \<open>Sequences of calls\<close>

text \<open>
  The public operations as calls of one installation, served in any order with any environments
  and executors over one executor state. The invariants of the records hold along every run.
\<close>

subsection \<open>Auditing\<close>

lemma kube_load_receipt_quiet: "keeps same_files (kube_load_receipt E S i)"
  unfolding kube_load_receipt_def by (rule kube_read_quiet)

lemmas kube_loads = kube_load_approval_kept kube_quiet [OF kube_load_proposal_quiet]
  kube_quiet [OF kube_load_binding_quiet] kube_quiet [OF kube_load_receipt_quiet]
  kube_quiet [OF kube_list_proposals_quiet] kube_quiet [OF kube_list_bindings_quiet]
  kube_list_approvals_kept kube_quiet [OF kube_read_quiet]

lemma kube_audit_kept: "keeps (kube_kept (cfg_of E) S) (audit_kubernetes_capability E S ref)"
proof -
  note rules = kc.keeps_rules kube_loads
  have "keeps (kube_kept (cfg_of E) S) (kube_seed E S t)" for t
    unfolding kube_seed_def by (auto intro!: rules split: list.splits)
  moreover have "keeps (kube_kept (cfg_of E) S) (lineage_approval E S l)" for l
    unfolding lineage_approval_def by (auto intro!: rules split: option.splits)
  moreover have "keeps (kube_kept (cfg_of E) S) (lineage_proposal E S l)" for l
    unfolding lineage_proposal_def by (auto intro!: rules split: option.splits)
  moreover have "keeps (kube_kept (cfg_of E) S) (lineage_of_receipt E S l)" for l
    unfolding lineage_of_receipt_def by (auto intro!: rules split: option.splits)
  moreover have "keeps (kube_kept (cfg_of E) S) (lineage_binding E S l)" for l
    unfolding lineage_binding_def by (auto intro!: rules split: option.splits)
  moreover have "keeps (kube_kept (cfg_of E) S) (lineage_receipt E S l)" for l
    unfolding lineage_receipt_def by (auto intro!: rules split: option.splits)
  moreover have "keeps (kube_kept (cfg_of E) S) (residual_authority E S l)" for l
    unfolding residual_authority_def kube_is_approval_active_def
    by (auto intro!: rules kube_quiet [OF kube_ttl_quiet] split: option.splits)
  ultimately show ?thesis
    unfolding audit_kubernetes_capability_def by (intro kc.keeps_rules)
qed

subsection \<open>Calls and runs\<close>

datatype kube_call =
    Kube_save json
  | Kube_propose string json string
  | Kube_approve string string string "int option" string string
  | Kube_revoke string string string string
  | Kube_read_approval string "int option" bool
  | Kube_list_all "string option" "string option"
  | Kube_bind string string "int option"
  | Kube_execute kube_operation "string option" "string option" "int option"
  | Kube_audit string

definition only_run :: "('c, 'a) xrun \<Rightarrow> ('c, unit) xrun" where
  "only_run m = bindM m (\<lambda>_. ret ())"

fun kube_perform :: "env \<Rightarrow> kube_store \<Rightarrow> 'c executor \<Rightarrow> kube_call \<Rightarrow> ('c, unit) xrun" where
  "kube_perform E S X (Kube_save j) = only_run (on_world (kube_save_proposal E S j))"
| "kube_perform E S X (Kube_propose r b q) = only_run (on_world (propose_kubernetes_capability E S r b q))"
| "kube_perform E S X (Kube_approve i ttl who now src prov) =
     only_run (on_world (kube_approve_proposal E S i ttl who now src prov))"
| "kube_perform E S X (Kube_revoke i why who prov) = only_run (on_world (kube_revoke_approval E S i why who prov))"
| "kube_perform E S X (Kube_read_approval i now persist) = only_run (on_world (kube_load_approval E S i now persist))"
| "kube_perform E S X (Kube_list_all r s) = only_run (on_world (kube_list_approvals E S r s))"
| "kube_perform E S X (Kube_bind i r now) = only_run (on_world (kube_create_binding E S i r now))"
| "kube_perform E S X (Kube_execute op a b now) = only_run (execute_kubernetes_capability E S X op a b now)"
| "kube_perform E S X (Kube_audit ref) = only_run (on_world (audit_kubernetes_capability E S ref))"

inductive kube_runs :: "cfg \<Rightarrow> kube_store \<Rightarrow> kube_call list \<Rightarrow> world \<times> 'c \<Rightarrow> world \<times> 'c \<Rightarrow> bool" for C S where
  kube_runs_Nil: "kube_runs C S [] s s"
| kube_runs_Cons: "cfg_of E = C \<Longrightarrow> kube_perform E S X c s = (r, s1) \<Longrightarrow> kube_runs C S cs s1 s2 \<Longrightarrow>
    kube_runs C S (c # cs) s s2"

inductive_simps kube_runs_Nil_iff [simp]: "kube_runs C S [] s s'"
inductive_cases kube_runs_ConsE: "kube_runs C S (c # cs) s s'"

lemma kube_perform_kept: "keeps (kube_kept_x (cfg_of E) S) (kube_perform E S X c)"
proof -
  have o: "keeps (kube_kept_x (cfg_of E) S) (only_run m)" if "keeps (kube_kept_x (cfg_of E) S) m" for m :: "('a, 'b) xrun"
    unfolding only_run_def by (intro kx.keeps_bind kx.keeps_ret that)
  show ?thesis
    by (cases c)
      (auto intro!: o on_world_keeps execute_kept kube_save_proposal_kept kube_propose_kept kube_approve_kept
        kube_revoke_kept kube_load_approval_kept kube_list_approvals_kept kube_create_binding_kept kube_audit_kept)
qed

lemma kube_runs_kept: "kube_runs C S cs s s' \<Longrightarrow> kube_kept C S (fst s) (fst s')"
proof (induction rule: kube_runs.induct)
  case (kube_runs_Nil s)
  show ?case by (rule kc.order_refl)
next
  case (kube_runs_Cons E X c s r s1 cs s2)
  have "kube_kept C S (fst s) (fst s1)"
    using keepsD [OF kube_perform_kept kube_runs_Cons.hyps(2)] kube_runs_Cons.hyps(1) by (simp add: kube_kept_x_def)
  then show ?case using kube_runs_Cons.IH by (rule kube_kept_trans)
qed

lemma kube_runs_append: "kube_runs C S cs s s1 \<Longrightarrow> kube_runs C S ds s1 s2 \<Longrightarrow> kube_runs C S (cs @ ds) s s2"
  by (induction rule: kube_runs.induct) (auto intro: kube_runs_Cons)

lemma kube_empty: "files w = [] \<Longrightarrow> kube_in_place C S w \<and> kube_exclusive C w"
  by (simp add: kube_in_place_def kube_exclusive_def stored_def file_at_def)

end
