(* ===== verification/Kube_Demo.thy ===== *)
theory Kube_Demo
  imports Kube_Runs Demo
begin

section \<open>A sample store of the Kubernetes capability\<close>

text \<open>
  The installation of \<open>Demo\<close> with one consumed approval and the completed binding that used it.
\<close>

definition kube_demo_store :: kube_store where
  "kube_demo_store = \<lparr>kp_dir = [''kp''], ka_dir = [''ka''], kb_dir = [''kb''], kr_dir = [''kr''], kv_dir = [''kv'']\<rparr>"

definition kube_demo_body :: kube_body where
  "kube_demo_body = \<lparr>kb_capability = kubernetes_mutate, kb_cluster = ''local-fixture'', kb_namespaces = [''demo''],
     kb_verbs = [''get'', ''patch''], kb_resources = [''deployments''], kb_denied_namespaces = [],
     kb_denied_verbs = [], kb_denied_resources = [], kb_exact = None, kb_reason = ''x''\<rparr>"

definition kube_demo_approval :: "string \<Rightarrow> dict" where
  "kube_demo_approval status =
     [(''kind'', JStr ''kubernetes_capability_approval''), (''schema_version'', JInt 1),
      (''approval_id'', JStr (demo_id ''kca-'')), (''proposal_id'', JStr (demo_id ''kcp-'')), (''run_id'', JStr ''run''),
      (''requested_by'', JStr ''w''), (''body'', kube_body_json kube_demo_body),
      (''body_hash'', JStr (''sha256:'' @ demo_digest)), (''approved_by'', JStr ''op''),
      (''approved_at'', JStr ''2024-01-01T00:00:00Z''), (''expires_at'', JStr ''2024-01-01T01:00:00Z''),
      (''status'', JStr status)]"

definition kube_demo_binding :: dict where
  "kube_demo_binding =
     [(''kind'', JStr ''kubernetes_capability_binding''), (''schema_version'', JInt 1),
      (''binding_id'', JStr (demo_id ''kcb-'')), (''approval_id'', JStr (demo_id ''kca-'')),
      (''proposal_id'', JStr (demo_id ''kcp-'')), (''run_id'', JStr ''run''),
      (''bound_at'', JStr ''2024-01-01T00:00:01Z''), (''status'', JStr ''completed''),
      (''body'', kube_body_json kube_demo_body), (''body_hash'', JStr (''sha256:'' @ demo_digest)),
      (''capability'', JStr kubernetes_mutate), (''consumes_approval'', JBool True)]"

definition kube_demo_world :: world where
  "kube_demo_world = \<lparr>files = [([''ka'', demo_id ''kca-'' @ ''.json''], Parsed (JObj (kube_demo_approval ''consumed''))),
       ([''kb'', demo_id ''kcb-'' @ ''.json''], Parsed (JObj kube_demo_binding))],
     events = [], restores = [], warnings = [], tick = 0\<rparr>"

lemma kube_demo_frozen: "normalize_kubernetes_capability_body (kube_body_json kube_demo_body) = Inr kube_demo_body"
  by code_simp

lemma kube_demo_hash: "compute_kubernetes_body_hash demo_cfg b = ''sha256:'' @ demo_digest"
  by (simp add: compute_kubernetes_body_hash_def)

lemma kube_demo_approval_ok: "kube_verify_approval demo_cfg (JObj (kube_demo_approval s)) = Inr (kube_demo_approval s)"
proof -
  have "kube_head demo_cfg ''kubernetes_capability_approval'' (kube ''invalid_approval'') (JObj (kube_demo_approval s)) =
      Inr (kube_demo_approval s, kube_demo_body, ''sha256:'' @ demo_digest)"
    unfolding kube_head_Inr by (simp add: kube_demo_approval_def kube_demo_frozen kube_demo_hash is_one_def)
  then show ?thesis
    by (simp add: kube_verify_approval_def kube_approval_id_def sealed_def dict_update_def)
      (simp add: kube_demo_approval_def bindR_check)
qed

lemma kube_demo_binding_ok: "kube_verify_binding demo_cfg (JObj kube_demo_binding) = Inr kube_demo_binding"
proof -
  have "kube_head demo_cfg ''kubernetes_capability_binding'' (kube ''invalid_binding'') (JObj kube_demo_binding) =
      Inr (kube_demo_binding, kube_demo_body, ''sha256:'' @ demo_digest)"
    unfolding kube_head_Inr by (simp add: kube_demo_binding_def kube_demo_frozen kube_demo_hash is_one_def)
  then show ?thesis
    by (simp add: kube_verify_binding_def kube_binding_id_def sealed_def dict_update_def)
      (simp add: kube_demo_binding_def bindR_check)
qed

lemma kube_demo_kinds:
  "kube_verify_binding C (JObj (kube_demo_approval s)) \<noteq> Inr b" "kube_verify_approval C (JObj kube_demo_binding) \<noteq> Inr a"
  using verify_binding_Inr(1) [of C "kube_demo_approval s" b] verify_approval_Inr(1) [of C kube_demo_binding a]
  by (auto simp: kube_demo_approval_def kube_demo_binding_def)

lemma kube_demo_stored:
  "kube_approval_at demo_cfg kube_demo_world p = Some a \<longleftrightarrow>
     p = [''ka'', demo_id ''kca-'' @ ''.json''] \<and> a = kube_demo_approval ''consumed''"
  "kube_binding_at demo_cfg kube_demo_world p = Some b \<longleftrightarrow>
     p = [''kb'', demo_id ''kcb-'' @ ''.json''] \<and> b = kube_demo_binding"
  using kube_demo_kinds
  by (auto simp: stored_iff kube_demo_world_def file_at_def kube_demo_approval_ok kube_demo_binding_ok split: if_splits)

lemma kube_demo_path: "record_path d (demo_id p) = d @ [demo_id p @ ''.json'']" if "CHR ''/'' \<notin> set p"
  by (rule record_path_plain) (use that in \<open>simp add: plain_ref_def demo_id_def\<close>)

lemma kube_demo_in_place: "kube_in_place demo_cfg kube_demo_store kube_demo_world"
  by (auto simp: kube_in_place_def kube_demo_stored kube_path_def kube_demo_path kube_demo_store_def
      kube_demo_approval_def kube_demo_binding_def)

lemma kube_demo_exclusive: "kube_exclusive demo_cfg kube_demo_world"
  by (auto simp: kube_exclusive_def kube_demo_stored)

lemma kube_demo_spent: "kube_spent demo_cfg kube_demo_world (kube_path (ka_dir kube_demo_store) (kube_demo_approval ''consumed'') ''approval_id'')"
proof -
  have "kube_path (ka_dir kube_demo_store) (kube_demo_approval ''consumed'') ''approval_id'' = [''ka'', demo_id ''kca-'' @ ''.json'']"
    by (simp add: kube_path_def kube_demo_path kube_demo_store_def kube_demo_approval_def)
  moreover have "jget (kube_demo_approval ''consumed'') ''status'' = JStr ''consumed''"
    by (simp add: kube_demo_approval_def)
  moreover have "file_at kube_demo_world [''ka'', demo_id ''kca-'' @ ''.json''] \<noteq> None"
    by (simp add: file_at_def kube_demo_world_def)
  ultimately show ?thesis by (simp add: kube_spent_def kube_demo_stored)
qed

text \<open>Any call can be made on it.\<close>

lemma kube_demo_run:
  obtains w' c' where "kube_runs demo_cfg S [k] s (w', c')"
proof -
  have E: "cfg_of demo_env = demo_cfg" by (simp add: demo_env_def)
  obtain r w' c' where "kube_perform demo_env S (\<lambda>op c. (Inl Attr_error, c)) k s = (r, (w', c'))"
    by (cases "kube_perform demo_env S (\<lambda>op c. (Inl Attr_error, c)) k s") auto
  from that [OF kube_runs_Cons [OF E this kube_runs_Nil]] show thesis .
qed

end
