(* ===== verification/Kube_Authority.thy ===== *)
theory Kube_Authority
  imports Kube_Demo
begin

section \<open>The Kubernetes authority as a whole\<close>

text \<open>C7: whatever calls are served, in whatever order and with whatever executors, at most one
  binding of the Kubernetes store blocks an approval: the active one, or the completed one that
  consumed it.\<close>

theorem kube_exclusive_always:
  fixes s :: "world \<times> 'c"
  assumes "kube_runs C S cs s s'" and "files (fst s) = [] \<or> kube_in_place C S (fst s) \<and> kube_exclusive C (fst s)"
  shows "kube_in_place C S (fst s') \<and> kube_exclusive C (fst s')"
  using kube_runs_kept [OF assms(1)] assms(2) kube_empty by (auto simp: kube_kept_def)

lemma kube_exclusive_always_witness:
  "\<exists>w' c'. kube_runs demo_cfg kube_demo_store [Kube_bind (demo_id ''kca-'') ''run'' None] (kube_demo_world, 0 :: nat) (w', c') \<and>
     kube_exclusive demo_cfg w'"
proof -
  obtain w' c' where r: "kube_runs demo_cfg kube_demo_store [Kube_bind (demo_id ''kca-'') ''run'' None] (kube_demo_world, 0 :: nat) (w', c')"
    by (rule kube_demo_run)
  then show ?thesis
    using kube_exclusive_always [OF r] kube_demo_in_place kube_demo_exclusive by (simp, blast)
qed

text \<open>C22: along every sequence of calls a stored proposal file is never rewritten. An approval
  file stays as it lies on the disk or is replaced by one with the same fields except status,
  revocation and body: the status moves only from approved to expired or consumed, or to revoked,
  the revocation changes only when it is revoked, and the body is written as verification freezes
  it, under the same hash. This is said of the files themselves, whether or not the later one
  verifies; one that verifies afterwards replaces one that verified before.\<close>

theorem kube_grants_frozen:
  fixes s :: "world \<times> 'c"
  assumes "kube_runs C S cs s s'" and "files (fst s) = [] \<or> kube_in_place C S (fst s)"
  shows "proposals_stay (fst s) (fst s') \<and> approvals_follow C (fst s) (fst s')"
  using kube_runs_kept [OF assms(1)] assms(2) kube_empty by (auto simp: kube_kept_def)

lemma kube_grants_frozen_witness:
  "\<exists>w' c'. kube_runs demo_cfg kube_demo_store [Kube_revoke (demo_id ''kca-'') ''x'' ''op'' ''operator_asserted'']
       (kube_demo_world, 0 :: nat) (w', c') \<and>
     approvals_follow demo_cfg kube_demo_world w'"
proof -
  obtain w' c' where r: "kube_runs demo_cfg kube_demo_store [Kube_revoke (demo_id ''kca-'') ''x'' ''op'' ''operator_asserted'']
       (kube_demo_world, 0 :: nat) (w', c')"
    by (rule kube_demo_run)
  then show ?thesis using kube_grants_frozen [OF r] kube_demo_in_place by (simp, blast)
qed

text \<open>C6: an approval that is consumed, expired or revoked stays so along every sequence of calls,
  and no later attempt enters an executor with it.\<close>

theorem kube_used_once:
  fixes s :: "world \<times> 'c"
  assumes "kube_runs C S cs s s'" and "kube_in_place C S (fst s)"
    and "kube_spent C (fst s) (kube_path (ka_dir S) a ''approval_id'')" and "id_ok ''kca-'' (jget a ''approval_id'')"
  shows "kube_spent C (fst s') (kube_path (ka_dir S) a ''approval_id'') \<and>
    (\<nexists>E op op' now b. cfg_of E = C \<and> kube_entered E S op op' now (fst s') a b)"
proof -
  note k = kube_runs_kept [OF assms(1)]
  have "kube_in_place C S (fst s')" using k assms(2) by (simp add: kube_kept_def)
  moreover have "kube_spent C (fst s') (kube_path (ka_dir S) a ''approval_id'')"
    using assms(4) by (intro kube_spent_kept [OF k assms(2) _ assms(3)]) (simp add: kube_path_def id_ok_last)
  ultimately show ?thesis using entered_not_spent by blast
qed

lemma kube_used_once_witness:
  "\<exists>w' c'. kube_runs demo_cfg kube_demo_store [Kube_revoke (demo_id ''kca-'') ''x'' ''op'' ''operator_asserted'']
       (kube_demo_world, 0 :: nat) (w', c') \<and>
     kube_spent demo_cfg w' (kube_path (ka_dir kube_demo_store) (kube_demo_approval ''consumed'') ''approval_id'')"
proof -
  obtain w' c' where r: "kube_runs demo_cfg kube_demo_store [Kube_revoke (demo_id ''kca-'') ''x'' ''op'' ''operator_asserted'']
       (kube_demo_world, 0 :: nat) (w', c')"
    by (rule kube_demo_run)
  have "id_ok ''kca-'' (jget (kube_demo_approval ''consumed'') ''approval_id'')"
    using kube_approval_at_id kube_demo_stored(1) by blast
  from kube_used_once [OF r _ _ this] kube_demo_in_place kube_demo_spent r show ?thesis by (simp, blast)
qed

text \<open>C5: an attempt calls its executor at most once, on the prepared operation, and only after an
  approved unexpired approval, an active binding of it and a body that admits the operation; its
  verdict is PASS exactly when the executor ran and its result is verified, it ends the binding,
  stores its receipt and consumes the approval of a readiness patch and of a changing patch. An
  attempt that raises has not called the executor, or ended in settling, or let an exception of
  the executor through that is no capability error.\<close>

theorem kube_attempt_contract:
  fixes X :: "'c executor"
  shows "triple (\<lambda>s. s = (w, c) \<and> kube_in_place (cfg_of E) S w) (execute_kubernetes_capability E S X op aid bid now)
     (kube_contract E S X op now w c) (kube_raised E S X op aid bid now w c)"
  by (rule execute_meets)

text \<open>C23: an operation is inside a frozen body exactly when the body normalizes, the patch is a
  bounded one, cluster, namespace, resource and verb are granted and not denied, a mutation has
  the mutate capability and a name, and an exact operation is met exactly.\<close>

theorem kube_admission_iff:
  "classify_operation body op = Inr None \<longleftrightarrow>
     (\<exists>b p. normalize_kubernetes_capability_body body = Inr b \<and> normalize_patch (ko_patch op) = Inr p \<and> admits b op p)"
  by (rule classify_iff)

text \<open>C32: every normalized body is frozen, normalizing it again only drops the doubles that
  lower-casing left, and it is a fixed point exactly when there are none.\<close>

theorem kube_body_fixed:
  "case normalize_kubernetes_capability_body v of Inl _ \<Rightarrow> True
   | Inr b \<Rightarrow> kube_frozen b \<and>
       normalize_kubernetes_capability_body (kube_body_json b) = Inr (refrozen b) \<and>
       (normalize_kubernetes_capability_body (kube_body_json b) = Inr b \<longleftrightarrow>
          distinct (kb_verbs b) \<and> distinct (kb_resources b) \<and> distinct (kb_denied_verbs b) \<and>
          distinct (kb_denied_resources b))"
proof (cases "normalize_kubernetes_capability_body v")
  case (Inr b)
  note fr = normalize_frozen_kube [OF Inr]
  show ?thesis using fr refreeze [OF fr] frozen_fixed_iff [OF Inr] unfolding Inr sum.case by blast
qed simp

end
