(* ===== verification/Merkle.thy ===== *)
theory Merkle
  imports Kube_Execute
begin

section \<open>The Merkle tree of the transparency log\<close>

text \<open>
  The hash tree of \<open>trust_crypto/transparency.py\<close>: domain-separated hashes of leaves and nodes,
  levels paired until one hash is left, inclusion proofs and their verification. Byte strings are
  strings; SHA-256 is a parameter. Of a \<open>TrustIntegrityError\<close> the code is kept, which is what
  callers report; a built-in exception is named.
\<close>

type_synonym bytes = string

datatype (plugins only: code size) trust_exn = Trust string | Trust_builtin string

subsection \<open>Byte strings\<close>

text \<open>\<open>hashlib.sha256(s).digest()\<close>, big endian.\<close>

definition digest :: "cfg \<Rightarrow> bytes \<Rightarrow> bytes" where
  "digest C s = map (\<lambda>i. char_of (unat (drop_bit (248 - 8 * i) (sha256 C s)) mod 256)) [0..<32]"

definition bytes_hex :: "bytes \<Rightarrow> string" where
  "bytes_hex b = concat (map hex2 b)"

definition hex_digit :: "char \<Rightarrow> nat option" where
  "hex_digit c =
     (let n = (of_char c :: nat) in
      if 48 \<le> n \<and> n \<le> 57 then Some (n - 48)
      else if 97 \<le> n \<and> n \<le> 102 then Some (n - 87)
      else if 65 \<le> n \<and> n \<le> 70 then Some (n - 55) else None)"

definition ascii_space :: "char \<Rightarrow> bool" where
  "ascii_space c \<longleftrightarrow> c \<in> set [CHR '' '', CHR 0x09, CHR 0x0A, CHR 0x0B, CHR 0x0C, CHR 0x0D]"

text \<open>\<open>bytes.fromhex\<close>: pairs of digits, white space between pairs ignored.\<close>

fun bytes_fromhex :: "string \<Rightarrow> bytes option" where
  "bytes_fromhex [] = Some []"
| "bytes_fromhex (c # cs) =
     (if ascii_space c then bytes_fromhex cs
      else case cs of
        [] \<Rightarrow> None
      | d # ds \<Rightarrow>
          (case (hex_digit c, hex_digit d) of
             (Some a, Some b) \<Rightarrow> map_option (\<lambda>r. char_of (16 * a + b) # r) (bytes_fromhex ds)
           | _ \<Rightarrow> None))"

subsection \<open>Hashes of leaves and nodes\<close>

definition ascii :: "string \<Rightarrow> bool" where
  "ascii s \<longleftrightarrow> list_all (\<lambda>c. (of_char c :: nat) < 128) s"

definition leaf_hash :: "cfg \<Rightarrow> string \<Rightarrow> trust_exn + bytes" where
  "leaf_hash C body_digest =
     (if ascii body_digest then Inr (digest C (CHR 0x00 # body_digest))
      else Inl (Trust_builtin ''UnicodeEncodeError''))"

definition node_hash :: "cfg \<Rightarrow> bytes \<Rightarrow> bytes \<Rightarrow> bytes" where
  "node_hash C left right = digest C (CHR 0x01 # left @ right)"

subsection \<open>Root and proofs\<close>

text \<open>The body of the loops: the next level, an unpaired last hash carried over.\<close>

fun pair_level :: "cfg \<Rightarrow> bytes list \<Rightarrow> bytes list" where
  "pair_level C [] = []"
| "pair_level C [x] = [x]"
| "pair_level C (x # y # r) = node_hash C x y # pair_level C r"

lemma length_pair_level [simp]: "length (pair_level C xs) = (length xs + 1) div 2"
  by (induction C xs rule: pair_level.induct) auto

text \<open>\<open>while len(level) > 1\<close>: the level shrinks, so the loop ends.\<close>

function top_level :: "cfg \<Rightarrow> bytes list \<Rightarrow> bytes list" where
  "top_level C level = (if 1 < length level then top_level C (pair_level C level) else level)"
  by pat_completeness auto
termination by (relation "measure (\<lambda>(C, level). length level)") auto

declare top_level.simps [simp del]

definition merkle_root :: "cfg \<Rightarrow> bytes list \<Rightarrow> bytes" where
  "merkle_root C leaves = (if leaves = [] then digest C [] else hd (top_level C leaves))"

definition sibling :: "bytes list \<Rightarrow> nat \<Rightarrow> bytes option" where
  "sibling level idx =
     (if idx mod 2 = 0 then (if idx + 1 < length level then Some (level ! (idx + 1)) else None)
      else Some (level ! (idx - 1)))"

function proof_from :: "cfg \<Rightarrow> bytes list \<Rightarrow> nat \<Rightarrow> string list" where
  "proof_from C level idx =
     (if 1 < length level then
        (case sibling level idx of Some s \<Rightarrow> [bytes_hex s] | None \<Rightarrow> []) @
        proof_from C (pair_level C level) (idx div 2)
      else [])"
  by pat_completeness auto
termination by (relation "measure (\<lambda>(C, level, idx). length level)") auto

declare proof_from.simps [simp del]

definition inclusion_proof :: "cfg \<Rightarrow> bytes list \<Rightarrow> int \<Rightarrow> trust_exn + string list" where
  "inclusion_proof C leaves index =
     (if index < 0 \<or> int (length leaves) \<le> index then Inl (Trust ''invalid_anchor'')
      else Inr (proof_from C leaves (nat index)))"

subsection \<open>Verification\<close>

text \<open>One step up: the next entry of the proof is the sibling.\<close>

definition next_sibling :: "string list \<Rightarrow> trust_exn + bytes \<times> string list" where
  "next_sibling proof =
     (case proof of
        [] \<Rightarrow> Inl (Trust ''anchor_invalid'')
      | p # ps \<Rightarrow>
          (case bytes_fromhex p of
             None \<Rightarrow> Inl (Trust_builtin ''ValueError'')
           | Some s \<Rightarrow> Inr (s, ps)))"

text \<open>\<open>while size > 1\<close>: the hash at the top and the entries of the proof that are left.\<close>

function climb :: "cfg \<Rightarrow> bytes \<Rightarrow> nat \<Rightarrow> nat \<Rightarrow> string list \<Rightarrow> trust_exn + bytes \<times> string list" where
  "climb C current idx n proof =
     (if 1 < n then
        if idx mod 2 = 1 then
          bindR (next_sibling proof) (\<lambda>(s, ps).
          climb C (node_hash C s current) (idx div 2) ((n + 1) div 2) ps)
        else if idx + 1 < n then
          bindR (next_sibling proof) (\<lambda>(s, ps).
          climb C (node_hash C current s) (idx div 2) ((n + 1) div 2) ps)
        else climb C current (idx div 2) ((n + 1) div 2) proof
      else Inr (current, proof))"
  by pat_completeness auto
termination by (relation "measure (\<lambda>(C, current, idx, n, proof). n)") auto

declare climb.simps [simp del]

definition verify_inclusion ::
  "cfg \<Rightarrow> bytes \<Rightarrow> int \<Rightarrow> int \<Rightarrow> string list \<Rightarrow> bytes \<Rightarrow> trust_exn + unit" where
  "verify_inclusion C leaf index tree_size proof root =
     (if tree_size \<le> 0 \<or> index < 0 \<or> tree_size \<le> index then Inl (Trust ''anchor_invalid'')
      else
        bindR (climb C leaf (nat index) (nat tree_size) proof) (\<lambda>(current, rest).
        bindR (check (rest \<noteq> []) (Trust ''anchor_invalid'')) (\<lambda>_.
        check (current \<noteq> root) (Trust ''anchor_invalid''))))"

end
