(* ===== verification/Transparency.thy ===== *)
theory Transparency
  imports Merkle Scope_Audit
begin

section \<open>The transparency log\<close>

text \<open>
  The append-only log of \<open>trust_crypto/transparency.py\<close>, its receipts and their verification,
  with the parts of \<open>anchors.py\<close> and \<open>ed25519_provider.py\<close> they use. Ed25519 of the package
  \<open>cryptography\<close> is a parameter. The log is its key files and the lines of \<open>leaves.jsonl\<close>
  that are not blank; a clock reading is an argument.
\<close>

subsection \<open>Base 64\<close>

definition b64_chars :: string where
  "b64_chars = ''ABCDEFGHIJKLMNOPQRSTUVWXYZabcdefghijklmnopqrstuvwxyz0123456789+/''"

definition b64_char :: "nat \<Rightarrow> char" where
  "b64_char k = b64_chars ! k"

definition b64_val :: "char \<Rightarrow> nat option" where
  "b64_val c =
     (let n = (of_char c :: nat) in
      if 65 \<le> n \<and> n \<le> 90 then Some (n - 65) else if 97 \<le> n \<and> n \<le> 122 then Some (n - 71)
      else if 48 \<le> n \<and> n \<le> 57 then Some (n + 4) else if n = 43 then Some 62
      else if n = 47 then Some 63 else None)"

text \<open>The four digits of three bytes, missing bytes being zero.\<close>

definition b64_quad :: "nat \<Rightarrow> nat \<Rightarrow> nat \<Rightarrow> string" where
  "b64_quad a b c =
     [b64_char (a div 4), b64_char (a mod 4 * 16 + b div 16), b64_char (b mod 16 * 4 + c div 64), b64_char (c mod 64)]"

fun b64encode :: "bytes \<Rightarrow> string" where
  "b64encode [] = []"
| "b64encode [a] = take 2 (b64_quad (of_char a) 0 0) @ ''==''"
| "b64encode [a, b] = take 3 (b64_quad (of_char a) (of_char b) 0) @ ''=''"
| "b64encode (a # b # c # r) = b64_quad (of_char a) (of_char b) (of_char c) @ b64encode r"

text \<open>\<open>b64decode(s, validate=True)\<close>: whole groups of four, padding only in the last one.\<close>

fun b64decode :: "string \<Rightarrow> bytes option" where
  "b64decode [] = Some []"
| "b64decode (a # b # c # d # r) =
     (case (b64_val a, b64_val b) of
        (Some x, Some y) \<Rightarrow>
          if c = CHR ''='' \<and> d = CHR ''='' \<and> r = [] then Some [char_of (x * 4 + y div 16)]
          else (case b64_val c of
             None \<Rightarrow> None
           | Some z \<Rightarrow>
               if d = CHR ''='' \<and> r = [] then Some [char_of (x * 4 + y div 16), char_of (y mod 16 * 16 + z div 4)]
               else (case (b64_val d, b64decode r) of
                  (Some v, Some s) \<Rightarrow>
                    Some (char_of (x * 4 + y div 16) # char_of (y mod 16 * 16 + z div 4) # char_of (z mod 4 * 64 + v) # s)
                | _ \<Rightarrow> None))
      | _ \<Rightarrow> None)"
| "b64decode _ = None"

subsection \<open>Ed25519\<close>

record crypto =
  ed_sign :: "bytes \<Rightarrow> bytes \<Rightarrow> bytes option"
  ed_point :: "bytes \<Rightarrow> bool"
  ed_valid :: "bytes \<Rightarrow> bytes \<Rightarrow> bytes \<Rightarrow> bool"

definition algorithm :: string where
  "algorithm = ''ed25519''"

definition field_p :: int where
  "field_p = 2 ^ 255 - 19"

definition low_order_public_keys :: "string list" where
  "low_order_public_keys =
     [''0100000000000000000000000000000000000000000000000000000000000000'',
      ''ecffffffffffffffffffffffffffffffffffffffffffffffffffffffffffff7f'',
      ''0000000000000000000000000000000000000000000000000000000000000000'',
      ''0000000000000000000000000000000000000000000000000000000000000080'',
      ''26e8958fc2b227b045c3f489f2ef98f0d5dfac05d3c63339b13802886d53fc05'',
      ''c7176a703d4dd84fba3c0b760d10670f2a2053fa2c39ccc64ec7fd7792ac037a'',
      ''c7176a703d4dd84fba3c0b760d10670f2a2053fa2c39ccc64ec7fd7792ac03fa'',
      ''26e8958fc2b227b045c3f489f2ef98f0d5dfac05d3c63339b13802886d53fc85'']"

text \<open>\<open>int.from_bytes(raw, "little")\<close>.\<close>

definition little_endian :: "bytes \<Rightarrow> int" where
  "little_endian raw = foldr (\<lambda>c n. int (of_char c) + 256 * n) raw 0"

definition assert_canonical_ed25519_public_key :: "bytes \<Rightarrow> trust_exn + bytes" where
  "assert_canonical_ed25519_public_key raw =
     (if length raw \<noteq> 32 then Inl (Trust ''malformed_key'')
      else if field_p \<le> little_endian raw mod 2 ^ 255 then Inl (Trust ''noncanonical_public_key'')
      else if bytes_hex raw \<in> set low_order_public_keys then Inl (Trust ''low_order_public_key'')
      else Inr raw)"

definition ed25519_sign :: "crypto \<Rightarrow> bytes \<Rightarrow> bytes \<Rightarrow> trust_exn + bytes" where
  "ed25519_sign X payload private_raw =
     (if length private_raw \<noteq> 32 then Inl (Trust ''malformed_key'')
      else case ed_sign X private_raw payload of None \<Rightarrow> Inl (Trust ''malformed_key'') | Some s \<Rightarrow> Inr s)"

definition ed25519_verify :: "crypto \<Rightarrow> bytes \<Rightarrow> bytes \<Rightarrow> bytes \<Rightarrow> trust_exn + unit" where
  "ed25519_verify X payload signature public_raw =
     bindR (assert_canonical_ed25519_public_key public_raw) (\<lambda>raw.
     bindR (check (\<not> ed_point X raw) (Trust ''malformed_key'')) (\<lambda>_.
     check (\<not> ed_valid X raw signature payload) (Trust ''signature_invalid'')))"

definition verify_ed25519_detached :: "crypto \<Rightarrow> bytes \<Rightarrow> string \<Rightarrow> bytes \<Rightarrow> trust_exn + unit" where
  "verify_ed25519_detached X payload signature_b64 public_raw =
     (case b64decode signature_b64 of
        None \<Rightarrow> Inl (Trust ''invalid_signature'')
      | Some signature \<Rightarrow> ed25519_verify X payload signature public_raw)"

definition canonical_payload :: "dict \<Rightarrow> bytes" where
  "canonical_payload d = dumps (JObj d) @ [CHR 0x0A]"

definition canonical_json_digest :: "cfg \<Rightarrow> dict \<Rightarrow> string" where
  "canonical_json_digest C d = hexdigest C (canonical_payload d)"

subsection \<open>The log\<close>

record tlog =
  tl_public :: "bytes option"
  tl_private :: "bytes option"
  tl_meta :: bool
  tl_lines :: "rec_file list"

type_synonym 'a trun = "(tlog, trust_exn, 'a) op"

definition init_transparency_log :: "cfg \<Rightarrow> bytes \<times> bytes \<Rightarrow> string trun" where
  "init_transparency_log C pair =
     bindM (reads (\<lambda>t. tl_public t \<noteq> None \<or> tl_private t \<noteq> None \<or> tl_meta t)) (\<lambda>present.
     bindM (raise_if present (Trust ''tlog_exists'')) (\<lambda>_.
     bindM (writes (\<lambda>t. t\<lparr>tl_public := Some (fst pair), tl_private := Some (snd pair), tl_meta := True\<rparr>)) (\<lambda>_.
     ret (hexdigest C (fst pair)))))"

definition require_log_identity :: "(bytes \<times> bytes) trun" where
  "require_log_identity =
     bindM (reads (\<lambda>t. (tl_public t, tl_private t))) (\<lambda>keys.
     case keys of
       (Some pub, Some priv) \<Rightarrow> ret (pub, priv)
     | (None, None) \<Rightarrow> throw (Trust ''missing_tlog_authority'')
     | _ \<Rightarrow> throw (Trust ''invalid_tlog''))"

definition read_leaves :: "rec_file list \<Rightarrow> trust_exn + json list" where
  "read_leaves = mapR (\<lambda>f. case f of Corrupt \<Rightarrow> Inl (Trust_builtin ''JSONDecodeError'') | Parsed j \<Rightarrow> Inr j)"

definition trust_int :: "json \<Rightarrow> trust_exn + int" where
  "trust_int j = (case py_int j of Inl e \<Rightarrow> Inl (Trust_builtin ''int'') | Inr i \<Rightarrow> Inr i)"

definition trust_item :: "dict \<Rightarrow> string \<Rightarrow> trust_exn + json" where
  "trust_item d k = (case map_of d k of None \<Rightarrow> Inl (Trust_builtin ''KeyError'') | Some v \<Rightarrow> Inr v)"

text \<open>The first row with this digest, and its index.\<close>

fun find_row :: "string \<Rightarrow> json list \<Rightarrow> trust_exn + (int \<times> dict) option" where
  "find_row bd [] = Inr None"
| "find_row bd (r # rs) =
     (case r of
        JObj d \<Rightarrow>
          if jget d ''body_digest'' = JStr bd then
            bindR (trust_item d ''index'') (\<lambda>j. bindR (trust_int j) (\<lambda>i. Inr (Some (i, d))))
          else find_row bd rs
      | _ \<Rightarrow> Inl (Trust_builtin ''AttributeError''))"

definition row_leaf :: "cfg \<Rightarrow> json \<Rightarrow> trust_exn + bytes" where
  "row_leaf C r =
     (case r of
        JObj d \<Rightarrow> bindR (trust_item d ''body_digest'') (\<lambda>j. leaf_hash C (py_str j))
      | _ \<Rightarrow> Inl (Trust_builtin ''TypeError''))"

text \<open>What a receipt binds together.\<close>

record binding_args =
  ba_run :: string
  ba_manifest :: string
  ba_evidence :: string
  ba_signature :: string
  ba_key :: string
  ba_snapshot :: string

definition rekord_body :: "binding_args \<Rightarrow> dict" where
  "rekord_body a =
     (let norm = (\<lambda>s. JStr (py_lower (py_strip s))) in
      [(''kind'', JStr ''hashedrekord''), (''version'', JStr ''0.0.1''), (''run_id'', JStr (ba_run a)),
       (''manifest_digest'', norm (ba_manifest a)), (''evidence_digest'', norm (ba_evidence a)),
       (''signature_digest'', norm (ba_signature a)), (''public_key_id'', norm (ba_key a)),
       (''trust_snapshot_digest'', norm (ba_snapshot a))])"

definition leaf_row :: "nat \<Rightarrow> dict \<Rightarrow> string \<Rightarrow> string \<Rightarrow> dict" where
  "leaf_row index body body_digest now =
     [(''index'', JInt (int index)), (''body'', JObj body), (''body_digest'', JStr body_digest),
      (''integrated_time'', JStr now)]"

definition checkpoint_json :: "json \<Rightarrow> json \<Rightarrow> json \<Rightarrow> json \<Rightarrow> dict" where
  "checkpoint_json origin tree_size root_hash log_key_id =
     [(''origin'', origin), (''tree_size'', tree_size), (''root_hash'', root_hash), (''log_key_id'', log_key_id)]"

definition receipt_semantics :: json where
  "receipt_semantics = JObj
     [(''proves'', JStr ''merkle_inclusion_of_digests_and_key_id_vs_embedded_checkpoint''),
      (''does_not_prove'', str_arr [''append_only'', ''non_equivocation'', ''log_consistency'',
         ''global_immutability'', ''signer_authorization'', ''future_non_revocation'',
         ''wall_clock_timestamp_authority''])]"

text \<open>The row to be anchored: one logged before, or a new line at the end.\<close>

definition logged_row :: "cfg \<Rightarrow> binding_args \<Rightarrow> string \<Rightarrow> (int \<times> dict \<times> json list) trun" where
  "logged_row C a now =
     (let body = rekord_body a; bd = canonical_json_digest C body in
      bindM (reads (\<lambda>t. read_leaves (tl_lines t))) (\<lambda>rr. bindM (lift_res rr) (\<lambda>rows.
      bindM (lift_res (find_row bd rows)) (\<lambda>found.
      case found of
        Some (i, d) \<Rightarrow> ret (i, d, rows)
      | None \<Rightarrow>
          let leaf = leaf_row (length rows) body bd now in
          bindM (writes (\<lambda>t. t\<lparr>tl_lines := tl_lines t @ [Parsed (JObj leaf)]\<rparr>)) (\<lambda>_.
          ret (int (length rows), leaf, rows @ [JObj leaf]))))))"

definition log_checkpoint :: "cfg \<Rightarrow> bytes \<Rightarrow> nat \<Rightarrow> bytes \<Rightarrow> dict" where
  "log_checkpoint C pub tree_size root =
     checkpoint_json (JStr ''amof-local-tlog/v1'') (JInt (int tree_size)) (JStr (bytes_hex root)) (JStr (hexdigest C pub))"

text \<open>The dictionary returned for the row at \<open>index\<close>.\<close>

definition anchor_receipt ::
  "cfg \<Rightarrow> dict \<Rightarrow> int \<Rightarrow> json \<Rightarrow> bytes list \<Rightarrow> string list \<Rightarrow> bytes \<Rightarrow> bytes \<Rightarrow> dict" where
  "anchor_receipt C body index integrated leaves proof pub signature =
     (let root = merkle_root C leaves in
      [(''schema'', JStr ''amof.external_anchor/v1''), (''anchor_kind'', JStr ''append_only_hashedrekord''),
       (''provider'', JStr ''amof_local_append_only_tlog''), (''network'', JBool False),
       (''body'', JObj body), (''body_digest'', JStr (canonical_json_digest C body)),
       (''log_index'', JInt index), (''integrated_time'', integrated),
       (''inclusion'', JObj
          [(''leaf_hash'', JStr (bytes_hex (leaves ! nat index))), (''root_hash'', JStr (bytes_hex root)),
           (''tree_size'', JInt (int (length leaves))), (''hashes'', str_arr proof)]),
       (''checkpoint'', JObj (log_checkpoint C pub (length leaves) root @
          [(''signature_b64'', JStr (b64encode signature)), (''log_public_key_b64'', JStr (b64encode pub))])),
       (''semantics'', receipt_semantics)])"

definition append_hashedrekord :: "cfg \<Rightarrow> crypto \<Rightarrow> binding_args \<Rightarrow> string \<Rightarrow> dict trun" where
  "append_hashedrekord C X a now =
     bindM require_log_identity (\<lambda>(pub, priv).
     bindM (logged_row C a now) (\<lambda>(index, leaf, rows).
     bindM (lift_res (mapR (row_leaf C) rows)) (\<lambda>leaves.
     bindM (lift_res (inclusion_proof C leaves index)) (\<lambda>proof.
     bindM (lift_res (ed25519_sign X
              (canonical_payload (log_checkpoint C pub (length rows) (merkle_root C leaves))) priv)) (\<lambda>signature.
     bindM (lift_res (trust_item leaf ''integrated_time'')) (\<lambda>integrated.
     ret (anchor_receipt C (rekord_body a) index integrated leaves proof pub signature)))))))"

subsection \<open>Verification of a receipt\<close>

record anchor_result =
  an_kind :: json
  an_index :: int
  an_digest :: string

definition verify_external_anchor :: "cfg \<Rightarrow> crypto \<Rightarrow> dict \<Rightarrow> binding_args \<Rightarrow> trust_exn + anchor_result" where
  "verify_external_anchor C X receipt a =
     bindR (check (jget receipt ''schema'' \<noteq> JStr ''amof.external_anchor/v1'') (Trust ''invalid_anchor'')) (\<lambda>_.
     bindR (check (jget receipt ''anchor_kind'' \<noteq> JStr ''append_only_hashedrekord'') (Trust ''unsupported_anchor'')) (\<lambda>_.
     bindR (case jget receipt ''body'' of JObj b \<Rightarrow> Inr b | _ \<Rightarrow> Inl (Trust ''invalid_anchor'')) (\<lambda>body.
     bindR (check (list_ex (\<lambda>(k, v). jget body k \<noteq> v) (rekord_body a)) (Trust ''anchor_binding_mismatch'')) (\<lambda>_.
     let body_digest = str_or_empty (jget receipt ''body_digest'') in
     bindR (check (body_digest \<noteq> canonical_json_digest C body) (Trust ''anchor_invalid'')) (\<lambda>_.
     bindR (case (jget receipt ''inclusion'', jget receipt ''checkpoint'') of
              (JObj i, JObj c) \<Rightarrow> Inr (i, c) | _ \<Rightarrow> Inl (Trust ''invalid_anchor'')) (\<lambda>(inclusion, checkpoint).
     bindR (leaf_hash C body_digest) (\<lambda>leaf.
     bindR (check (bytes_hex leaf \<noteq> str_or_empty (jget inclusion ''leaf_hash'')) (Trust ''anchor_invalid'')) (\<lambda>_.
     bindR (case bytes_fromhex (str_or_empty (jget checkpoint ''root_hash'')) of
              None \<Rightarrow> Inl (Trust_builtin ''ValueError'') | Some r \<Rightarrow> Inr r) (\<lambda>root.
     bindR (check (bytes_hex root \<noteq> str_or_empty (jget inclusion ''root_hash'')) (Trust ''anchor_invalid'')) (\<lambda>_.
     bindR (case py_or (jget inclusion ''hashes'') (JArr []) of
              JArr ps \<Rightarrow> Inr (map py_str ps) | _ \<Rightarrow> Inl (Trust ''invalid_anchor'')) (\<lambda>proof.
     bindR (trust_int (jget receipt ''log_index'')) (\<lambda>index.
     bindR (trust_int (jget inclusion ''tree_size'')) (\<lambda>tree_size.
     bindR (verify_inclusion C leaf index tree_size proof root) (\<lambda>_.
     bindR (case b64decode (str_or_empty (jget checkpoint ''log_public_key_b64'')) of
              None \<Rightarrow> Inl (Trust ''invalid_anchor'') | Some k \<Rightarrow> Inr k) (\<lambda>log_pub.
     bindR (check (str_or_empty (jget checkpoint ''log_key_id'') \<noteq> hexdigest C log_pub) (Trust ''anchor_invalid'')) (\<lambda>_.
     bindR (verify_ed25519_detached X
              (canonical_payload (checkpoint_json (jget checkpoint ''origin'') (jget checkpoint ''tree_size'')
                 (jget checkpoint ''root_hash'') (jget checkpoint ''log_key_id'')))
              (str_or_empty (jget checkpoint ''signature_b64'')) log_pub) (\<lambda>_.
     Inr \<lparr>an_kind = jget receipt ''anchor_kind'', an_index = index, an_digest = body_digest\<rparr>)))))))))))))))))"

end
