(* ===== verification/Merkle_Laws.thy ===== *)
theory Merkle_Laws
  imports Merkle
begin

section \<open>Inclusion proofs are complete and sound\<close>

text \<open>
  The proof made for a leaf verifies against the root. Conversely a proof that verifies against
  the root of a tree, with its size, is of the leaf at that index, or two different strings that
  were hashed, one when the tree was built and one by the verifier, have one digest.
\<close>

subsection \<open>Hexadecimal\<close>

definition hex_read :: "nat \<Rightarrow> bool" where
  "hex_read d \<longleftrightarrow> hex_digit (hex_char d) = Some d \<and> \<not> ascii_space (hex_char d)"

lemma hex_read_all: "list_all hex_read [0, 1, 2, 3, 4, 5, 6, 7, 8, 9, 10, 11, 12, 13, 14, 15]"
  by code_simp

lemma hex_digit_char:
  assumes "d < 16"
  shows "hex_digit (hex_char d) = Some d" "\<not> ascii_space (hex_char d)"
proof -
  have "d \<in> set [0, 1, 2, 3, 4, 5, 6, 7, 8, 9, 10, 11, 12, 13, 14, 15]"
    using assms by simp arith
  with hex_read_all have "hex_read d" by (metis list_all_iff)
  then show "hex_digit (hex_char d) = Some d" "\<not> ascii_space (hex_char d)"
    by (simp_all add: hex_read_def)
qed

lemma fromhex_hex [simp]: "bytes_fromhex (bytes_hex b) = Some b"
proof (induction b)
  case (Cons c b)
  let ?n = "of_char c :: nat"
  have n: "?n div 16 < 16" "?n mod 16 < 16" using of_char_lt_256 [of c] by (auto simp: div_less_iff_less_mult)
  have h: "hex_digit (hex_char (?n div 16)) = Some (?n div 16)" "hex_digit (hex_char (?n mod 16)) = Some (?n mod 16)"
    "\<not> ascii_space (hex_char (?n div 16))"
    using hex_digit_char n by blast+
  from Cons show ?case
    by (simp add: bytes_hex_def hex2_def Let_def h)
qed (simp add: bytes_hex_def)

lemma length_digest [simp]: "length (digest C s) = 32"
  by (simp add: digest_def)

lemma length_node_hash [simp]: "length (node_hash C l r) = 32"
  by (simp add: node_hash_def)

subsection \<open>Levels\<close>

lemma nth_pair_level:
  "i < (length xs + 1) div 2 \<Longrightarrow>
   pair_level C xs ! i = (if 2 * i + 1 < length xs then node_hash C (xs ! (2 * i)) (xs ! (2 * i + 1)) else xs ! (2 * i))"
proof (induction C xs arbitrary: i rule: pair_level.induct)
  case (3 C x y r)
  then show ?case by (cases i) auto
qed auto

lemma pair_level_lengths: "list_all (\<lambda>x. length x = 32) xs \<Longrightarrow> list_all (\<lambda>x. length x = 32) (pair_level C xs)"
  by (induction C xs rule: pair_level.induct) auto

lemma top_level_step: "1 < length level \<Longrightarrow> top_level C level = top_level C (pair_level C level)"
  by (subst top_level.simps) simp

lemma top_level_one: "length level = 1 \<Longrightarrow> top_level C level = level"
  by (subst top_level.simps) simp

lemma length_top_level: "level \<noteq> [] \<Longrightarrow> length (top_level C level) = 1"
proof (induction C level rule: top_level.induct)
  case (1 C level)
  show ?case
  proof (cases "1 < length level")
    case True
    then have "0 < length (pair_level C level)" by simp
    then have "pair_level C level \<noteq> []" by (metis length_greater_0_conv)
    with 1 True show ?thesis by (simp add: top_level_step)
  next
    case False
    with 1 have "length level = 1" by (cases level) auto
    then show ?thesis by (simp add: top_level_one)
  qed
qed

subsection \<open>Completeness\<close>

lemma climb_proof:
  "idx < length level \<Longrightarrow>
   climb C (level ! idx) idx (length level) (proof_from C level idx) = Inr (hd (top_level C level), [])"
proof (induction C level idx rule: proof_from.induct)
  case (1 C level idx)
  show ?case
  proof (cases "1 < length level")
    case True
    let ?up = "pair_level C level"
    have up: "idx div 2 < length ?up" using 1(2) by simp
    note IH = 1(1) [OF True up, unfolded length_pair_level]
    have nth: "?up ! (idx div 2) = (if 2 * (idx div 2) + 1 < length level
        then node_hash C (level ! (2 * (idx div 2))) (level ! (2 * (idx div 2) + 1)) else level ! (2 * (idx div 2)))"
      using nth_pair_level [of "idx div 2" level C] up by simp
    show ?thesis
    proof (cases "idx mod 2 = 1")
      case odd: True
      then have i: "2 * (idx div 2) = idx - 1" "2 * (idx div 2) + 1 = idx" "0 < idx" by presburger+
      with 1(2) nth have "?up ! (idx div 2) = node_hash C (level ! (idx - 1)) (level ! idx)" by simp
      with IH show ?thesis
        using odd i True
        by (simp add: climb.simps [of C _ idx] proof_from.simps [of C level] next_sibling_def sibling_def
            top_level_step)
    next
      case False
      then have i: "2 * (idx div 2) = idx" "idx mod 2 = 0" by presburger+
      show ?thesis
      proof (cases "idx + 1 < length level")
        case pair: True
        with nth i have "?up ! (idx div 2) = node_hash C (level ! idx) (level ! (idx + 1))" by simp
        with IH show ?thesis
          using pair i True
          by (simp add: climb.simps [of C _ idx] proof_from.simps [of C level] next_sibling_def sibling_def
              top_level_step)
      next
        case lone: False
        with nth i have "?up ! (idx div 2) = level ! idx" by simp
        with IH show ?thesis
          using lone i True
          by (simp add: climb.simps [of C _ idx] proof_from.simps [of C level] sibling_def top_level_step)
      qed
    qed
  next
    case False
    with 1(2) obtain x where "level = [x]" "idx = 0" by (cases level) auto
    then show ?thesis
      by (simp add: climb.simps proof_from.simps [of C "[x]"] top_level_one)
  qed
qed

lemma inclusion_complete:
  assumes "0 \<le> index" "index < int (length leaves)"
  shows "bindR (inclusion_proof C leaves index) (\<lambda>proof.
     verify_inclusion C (leaves ! nat index) index (int (length leaves)) proof (merkle_root C leaves)) = Inr ()"
proof -
  have i: "nat index < length leaves" using assms by linarith
  then show ?thesis
    using assms climb_proof [OF i, of C]
    by (auto simp: inclusion_proof_def verify_inclusion_def merkle_root_def bindR_check check_def)
qed

subsection \<open>Soundness\<close>

text \<open>The strings that were hashed for the nodes of the tree, and those the verifier hashed.\<close>

fun level_inputs :: "bytes list \<Rightarrow> bytes list" where
  "level_inputs (x # y # r) = (CHR 0x01 # x @ y) # level_inputs r"
| "level_inputs r = []"

function tree_inputs :: "cfg \<Rightarrow> bytes list \<Rightarrow> bytes list" where
  "tree_inputs C level =
     (if 1 < length level then level_inputs level @ tree_inputs C (pair_level C level) else [])"
  by pat_completeness auto
termination by (relation "measure (\<lambda>(C, level). length level)") auto

declare tree_inputs.simps [simp del]

function climb_inputs :: "cfg \<Rightarrow> bytes \<Rightarrow> nat \<Rightarrow> nat \<Rightarrow> string list \<Rightarrow> bytes list" where
  "climb_inputs C current idx n proof =
     (if 1 < n then
        (case next_sibling proof of
           Inl e \<Rightarrow> if idx mod 2 = 1 \<or> idx + 1 < n then [] else climb_inputs C current (idx div 2) ((n + 1) div 2) proof
         | Inr (s, ps) \<Rightarrow>
             if idx mod 2 = 1 then
               (CHR 0x01 # s @ current) # climb_inputs C (node_hash C s current) (idx div 2) ((n + 1) div 2) ps
             else if idx + 1 < n then
               (CHR 0x01 # current @ s) # climb_inputs C (node_hash C current s) (idx div 2) ((n + 1) div 2) ps
             else climb_inputs C current (idx div 2) ((n + 1) div 2) proof)
      else [])"
  by pat_completeness auto
termination by (relation "measure (\<lambda>(C, current, idx, n, proof). n)") auto

declare climb_inputs.simps [simp del]

text \<open>Two different strings of the two lists with one digest.\<close>

definition clash :: "cfg \<Rightarrow> bytes \<Rightarrow> bytes \<Rightarrow> bool" where
  "clash C s t \<longleftrightarrow> s \<noteq> t \<and> digest C s = digest C t"

definition collides :: "cfg \<Rightarrow> bytes list \<Rightarrow> bytes list \<Rightarrow> bool" where
  "collides C ss ts \<longleftrightarrow> list_ex (\<lambda>s. list_ex (clash C s) ts) ss"

lemma collides_iff: "collides C ss ts \<longleftrightarrow> (\<exists>s \<in> set ss. \<exists>t \<in> set ts. clash C s t)"
  by (simp add: collides_def list_ex_iff)

lemma clash_collides: "clash C s t \<Longrightarrow> s \<in> set ss \<Longrightarrow> t \<in> set ts \<Longrightarrow> collides C ss ts"
  unfolding collides_iff by blast

lemma collides_more:
  "collides C ss ts \<Longrightarrow> collides C (xs @ ss) (t # ts)" "collides C ss ts \<Longrightarrow> collides C (xs @ ss) ts"
  by (auto simp: collides_iff)

lemma level_inputs_nth:
  "2 * i + 1 < length xs \<Longrightarrow> CHR 0x01 # xs ! (2 * i) @ xs ! (2 * i + 1) \<in> set (level_inputs xs)"
proof (induction xs arbitrary: i rule: level_inputs.induct)
  case (1 x y r)
  then show ?case by (cases i) auto
qed auto

text \<open>One step: equal parents have equal children, or the two hashed strings collide.\<close>

lemma node_step:
  assumes "node_hash C l r = node_hash C l' r'" "length r = length r' \<or> length l = length l'"
  shows "l = l' \<and> r = r' \<or> clash C (CHR 0x01 # l @ r) (CHR 0x01 # l' @ r')"
  using assms by (auto simp: node_hash_def append_eq_append_conv clash_def)

lemma climb_sound:
  assumes "climb C current idx (length level) proof = Inr (hd (top_level C level), rest)"
    and "idx < length level" "length current = 32" "list_all (\<lambda>x. length x = 32) level"
  shows "current = level ! idx \<or> collides C (tree_inputs C level) (climb_inputs C current idx (length level) proof)"
  using assms
proof (induction C current idx "length level" "proof" arbitrary: level rule: climb.induct)
  case (1 C current idx "proof" level)
  show ?case
  proof (cases "1 < length level")
    case False
    with 1(5) obtain x where "level = [x]" "idx = 0" by (cases level) auto
    with 1(4) show ?thesis by (simp add: climb.simps top_level_one)
  next
    case True
    let ?up = "pair_level C level"
    have n: "(length level + 1) div 2 = length ?up" by simp
    have up: "idx div 2 < length ?up" "list_all (\<lambda>x. length x = 32) ?up"
      using 1(5,7) pair_level_lengths by auto
    have top: "top_level C level = top_level C ?up" using True by (rule top_level_step)
    have nth: "?up ! (idx div 2) = (if 2 * (idx div 2) + 1 < length level
        then node_hash C (level ! (2 * (idx div 2))) (level ! (2 * (idx div 2) + 1)) else level ! (2 * (idx div 2)))"
      using nth_pair_level [of "idx div 2" level C] up by simp
    have ti: "tree_inputs C level = level_inputs level @ tree_inputs C ?up"
      using True by (subst tree_inputs.simps) simp
    have len: "length (level ! k) = 32" if "k < length level" for k
      using 1(7) that by (simp add: list_all_length)
    show ?thesis
    proof (cases "idx mod 2 = 1")
      case odd: True
      then have i: "2 * (idx div 2) = idx - 1" "2 * (idx div 2) + 1 = idx" "0 < idx" by presburger+
      from 1(4) True odd obtain s ps where s: "next_sibling proof = Inr (s, ps)"
        and c: "climb C (node_hash C s current) (idx div 2) (length ?up) ps = Inr (hd (top_level C ?up), rest)"
        by (subst (asm) climb.simps) (auto simp: bindR_Inr_iff top)
      have ci: "climb_inputs C current idx (length level) proof =
          (CHR 0x01 # s @ current) # climb_inputs C (node_hash C s current) (idx div 2) (length ?up) ps"
        using True odd s by (subst climb_inputs.simps) simp
      from 1(1) [OF True odd n c up(1) _ up(2)]
      have "node_hash C s current = ?up ! (idx div 2) \<or>
          collides C (tree_inputs C ?up) (climb_inputs C (node_hash C s current) (idx div 2) (length ?up) ps)"
        by simp
      then show ?thesis
      proof
        assume "node_hash C s current = ?up ! (idx div 2)"
        then have "node_hash C (level ! (idx - 1)) (level ! idx) = node_hash C s current"
          using nth i 1(5) by simp
        from node_step [OF this] len [OF 1(5)] 1(6) have "level ! idx = current \<or> clash C
            (CHR 0x01 # level ! (idx - 1) @ level ! idx) (CHR 0x01 # s @ current)"
          by (auto simp: clash_def)
        moreover have "CHR 0x01 # level ! (idx - 1) @ level ! idx \<in> set (level_inputs level)"
          using level_inputs_nth [of "idx div 2" level] i 1(5) by simp
        ultimately show ?thesis unfolding ti ci by (auto intro: clash_collides)
      qed (use ti ci in \<open>auto intro: collides_more\<close>)
    next
      case False
      then have i: "2 * (idx div 2) = idx" "idx mod 2 = 0" by presburger+
      show ?thesis
      proof (cases "idx + 1 < length level")
        case pair: True
        from 1(4) True False pair obtain s ps where s: "next_sibling proof = Inr (s, ps)"
          and c: "climb C (node_hash C current s) (idx div 2) (length ?up) ps = Inr (hd (top_level C ?up), rest)"
          by (subst (asm) climb.simps) (auto simp: bindR_Inr_iff top)
        have ci: "climb_inputs C current idx (length level) proof =
            (CHR 0x01 # current @ s) # climb_inputs C (node_hash C current s) (idx div 2) (length ?up) ps"
          using True False pair s by (subst climb_inputs.simps) simp
        from 1(2) [OF True False pair n c up(1) _ up(2)]
        have "node_hash C current s = ?up ! (idx div 2) \<or>
            collides C (tree_inputs C ?up) (climb_inputs C (node_hash C current s) (idx div 2) (length ?up) ps)"
          by simp
        then show ?thesis
        proof
          assume "node_hash C current s = ?up ! (idx div 2)"
          then have "node_hash C (level ! idx) (level ! (idx + 1)) = node_hash C current s"
            using nth i pair by simp
          from node_step [OF this] len [OF 1(5)] 1(6) have "level ! idx = current \<or> clash C
              (CHR 0x01 # level ! idx @ level ! (idx + 1)) (CHR 0x01 # current @ s)"
            by (auto simp: clash_def)
          moreover have "CHR 0x01 # level ! idx @ level ! (idx + 1) \<in> set (level_inputs level)"
            using level_inputs_nth [of "idx div 2" level] i pair by simp
          ultimately show ?thesis unfolding ti ci by (auto intro: clash_collides)
        qed (use ti ci in \<open>auto intro: collides_more\<close>)
      next
        case lone: False
        have c: "climb C current (idx div 2) (length ?up) proof = Inr (hd (top_level C ?up), rest)"
          using 1(4) True False lone by (subst (asm) climb.simps) (auto simp: top)
        have ci: "climb_inputs C current idx (length level) proof = climb_inputs C current (idx div 2) (length ?up) proof"
          using True False lone by (subst climb_inputs.simps) (auto split: sum.splits)
        from 1(3) [OF True False lone n c up(1) 1(6) up(2)] nth i lone
        show ?thesis unfolding ti ci by (auto intro: collides_more)
      qed
    qed
  qed
qed

lemma inclusion_sound:
  assumes v: "verify_inclusion C leaf index (int (length leaves)) proof (merkle_root C leaves) = Inr ()"
    and len: "length leaf = 32" "list_all (\<lambda>x. length x = 32) leaves"
  shows "leaf = leaves ! nat index \<or>
    collides C (tree_inputs C leaves) (climb_inputs C leaf (nat index) (length leaves) proof)"
proof -
  from v have i: "nat index < length leaves" and
    c: "climb C leaf (nat index) (length leaves) proof = Inr (merkle_root C leaves, [])"
    by (auto simp: verify_inclusion_def bindR_Inr_iff split: if_splits)
  moreover have "leaves \<noteq> []" using i by auto
  ultimately show ?thesis
    using climb_sound [OF _ i len] by (simp add: merkle_root_def)
qed

end
