(* ===== verification/Transparency_Laws.thy ===== *)
theory Transparency_Laws
  imports Transparency Merkle_Laws
begin

section \<open>Receipts of the transparency log\<close>

text \<open>
  Base 64 is read back. The log keeps its form and its lines: a record is appended once, and the
  receipt of a record verifies. A receipt that verifies against the root of a log, with its size,
  is of the record at that index; the index itself is not bound when the size is not.
\<close>

subsection \<open>Base 64\<close>

definition b64_read :: "nat \<Rightarrow> bool" where
  "b64_read k \<longleftrightarrow> b64_val (b64_char k) = Some k \<and> b64_char k \<noteq> CHR ''='' \<and> \<not> py_space (b64_char k)"

lemma b64_read_all: "list_all b64_read [0..<64]"
  by code_simp

lemma b64_val_char [simp]:
  assumes "k < 64"
  shows "b64_val (b64_char k) = Some k" "b64_char k \<noteq> CHR ''=''" "\<not> py_space (b64_char k)"
proof -
  have "b64_read k" using b64_read_all assms by (simp add: list_all_iff del: upt_rec_numeral)
  then show "b64_val (b64_char k) = Some k" "b64_char k \<noteq> CHR ''=''" "\<not> py_space (b64_char k)"
    by (simp_all add: b64_read_def)
qed

lemma b64_bytes:
  fixes a b c :: nat
  assumes "a < 256" "b < 256" "c < 256"
  shows "a div 4 < 64" "b div 16 < 16" "c div 64 < 4" "a mod 4 * 16 + b div 16 < 64"
    "b mod 16 * 4 + c div 64 < 64" "a mod 4 * 16 < 64" "b mod 16 * 4 < 64"
proof -
  show d: "a div 4 < 64" "b div 16 < 16" "c div 64 < 4" using assms by linarith+
  have "a mod 4 < 4" "b mod 16 < 16" by simp_all
  with d show "a mod 4 * 16 + b div 16 < 64" "b mod 16 * 4 + c div 64 < 64" "a mod 4 * 16 < 64"
    "b mod 16 * 4 < 64" by linarith+
qed

lemma char_lt [simp]: "of_char c < (256 :: nat)"
  using of_char_lt_256 [of c] by simp

lemma b64_round_trip [simp]: "b64decode (b64encode b) = Some b"
proof (induction b rule: b64encode.induct)
  case (2 a)
  show ?case using b64_bytes [of "of_char a" 0 0] by (simp add: b64_quad_def)
next
  case (3 a b)
  show ?case using b64_bytes [of "of_char a" "of_char b" 0] by (simp add: b64_quad_def)
next
  case (4 a b c r)
  then show ?case using b64_bytes [of "of_char a" "of_char b" "of_char c"] by (simp add: b64_quad_def)
qed simp

lemma b64_stripped [simp]: "py_strip (b64encode b) = b64encode b"
proof -
  have "\<not> py_space CHR ''=''" by code_simp
  moreover have "list_all (\<lambda>c. \<not> py_space c) (b64encode b)"
  proof (induction b rule: b64encode.induct)
    case (2 a)
    show ?case using b64_bytes [of "of_char a" 0 0] calculation by (simp add: b64_quad_def)
  next
    case (3 a b)
    show ?case using b64_bytes [of "of_char a" "of_char b" 0] calculation by (simp add: b64_quad_def)
  next
    case (4 a b c r)
    then show ?case using b64_bytes [of "of_char a" "of_char b" "of_char c"] by (simp add: b64_quad_def)
  qed simp
  ultimately show ?thesis by (intro py_strip_no_space) (simp add: list_all_iff)
qed

subsection \<open>The form of the log\<close>

definition row_dict :: "rec_file \<Rightarrow> dict" where
  "row_dict f = (case f of Parsed (JObj d) \<Rightarrow> d | _ \<Rightarrow> [])"

definition row_digest :: "rec_file \<Rightarrow> string" where
  "row_digest f = str_or_empty (jget (row_dict f) ''body_digest'')"

definition row_ok :: "nat \<Rightarrow> rec_file \<Rightarrow> bool" where
  "row_ok i f \<longleftrightarrow> f = Parsed (JObj (row_dict f)) \<and> map_of (row_dict f) ''index'' = Some (JInt (int i)) \<and>
     map_of (row_dict f) ''body_digest'' = Some (JStr (row_digest f)) \<and> ascii (row_digest f) \<and>
     map_of (row_dict f) ''integrated_time'' \<noteq> None"

fun rows_ok :: "nat \<Rightarrow> rec_file list \<Rightarrow> bool" where
  "rows_ok k [] \<longleftrightarrow> True"
| "rows_ok k (f # fs) \<longleftrightarrow> row_ok k f \<and> rows_ok (Suc k) fs"

definition log_ok :: "tlog \<Rightarrow> bool" where
  "log_ok t \<longleftrightarrow> rows_ok 0 (tl_lines t)"

definition row_json :: "rec_file \<Rightarrow> json" where
  "row_json f = JObj (row_dict f)"

lemma rows_ok_append: "rows_ok k (xs @ ys) \<longleftrightarrow> rows_ok k xs \<and> rows_ok (k + length xs) ys"
  by (induction xs arbitrary: k) auto

lemma ascii_hexdigest: "ascii (hexdigest C s)"
proof -
  have "list_all (\<lambda>c. (of_char c :: nat) < 128) hex_chars" by code_simp
  with hexdigest_hex [of C s] show ?thesis unfolding ascii_def list_all_iff by blast
qed

lemma row_ok_leaf: "ascii bd \<Longrightarrow> row_ok k (Parsed (JObj (leaf_row k body bd now)))"
  by (simp add: row_ok_def row_dict_def row_digest_def leaf_row_def jget_def)

lemma read_leaves_ok: "rows_ok k fs \<Longrightarrow> read_leaves fs = Inr (map row_json fs)"
proof (induction fs arbitrary: k)
  case (Cons f fs)
  then have "f = Parsed (row_json f)" by (simp add: row_ok_def row_json_def)
  with Cons show ?case by (auto simp: read_leaves_def split: rec_file.splits)
qed (simp add: read_leaves_def)

lemma row_leaves_ok:
  "rows_ok k fs \<Longrightarrow> mapR (row_leaf C) (map row_json fs) = Inr (map (\<lambda>f. digest C (CHR 0x00 # row_digest f)) fs)"
  by (induction fs arbitrary: k) (auto simp: row_json_def row_leaf_def trust_item_def row_ok_def leaf_hash_def)

lemma find_row_append: "find_row bd xs = Inr (Some r) \<Longrightarrow> find_row bd (xs @ ys) = Inr (Some r)"
  by (induction bd xs rule: find_row.induct) (auto split: json.splits if_splits)

lemma find_row_ok:
  "rows_ok k fs \<Longrightarrow>
   find_row bd (map row_json fs) = Inr None \<and> bd \<notin> set (map row_digest fs) \<or>
   (\<exists>i < length fs. row_digest (fs ! i) = bd \<and> find_row bd (map row_json fs) = Inr (Some (int (k + i), row_dict (fs ! i))))"
proof (induction fs arbitrary: k)
  case (Cons f fs)
  have f: "row_ok k f" using Cons.prems by simp
  have IH: "find_row bd (map row_json fs) = Inr None \<and> bd \<notin> set (map row_digest fs) \<or>
     (\<exists>i < length fs. row_digest (fs ! i) = bd \<and>
        find_row bd (map row_json fs) = Inr (Some (int (Suc k + i), row_dict (fs ! i))))"
    using Cons.IH [of "Suc k"] Cons.prems by simp
  from f have d: "jget (row_dict f) ''body_digest'' = JStr (row_digest f)"
    "map_of (row_dict f) ''index'' = Some (JInt (int k))" by (auto simp: row_ok_def jget_def)
  show ?case
  proof (cases "row_digest f = bd")
    case True
    with d show ?thesis
      by (intro disjI2 exI [of _ 0]) (simp add: row_json_def trust_item_def trust_int_def py_int_def)
  next
    case False
    with d have step: "find_row bd (map row_json (f # fs)) = find_row bd (map row_json fs)"
      by (simp add: row_json_def)
    from IH show ?thesis
    proof (elim disjE exE conjE)
      fix i
      assume "i < length fs" "row_digest (fs ! i) = bd"
        "find_row bd (map row_json fs) = Inr (Some (int (Suc k + i), row_dict (fs ! i)))"
      then show ?thesis unfolding step by (intro disjI2 exI [of _ "Suc i"]) simp
    qed (use False step in simp)
  qed
qed simp

lemma find_row_new: "rows_ok k fs \<Longrightarrow> bd \<notin> set (map row_digest fs) \<Longrightarrow> find_row bd (map row_json fs) = Inr None"
  using find_row_ok [of k fs bd] by (metis length_map nth_map nth_mem)

subsection \<open>Appending\<close>

definition binding_digest :: "cfg \<Rightarrow> binding_args \<Rightarrow> string" where
  "binding_digest C a = canonical_json_digest C (rekord_body a)"

lemma ascii_binding_digest [simp]: "ascii (binding_digest C a)"
  by (simp add: binding_digest_def canonical_json_digest_def ascii_hexdigest)

text \<open>The row that is found or written, in the log that is left.\<close>

lemma logged_row_ok:
  assumes ok: "log_ok t"
  obtains i t' where
    "logged_row C a now t = (Inr (int i, row_dict (tl_lines t' ! i), map row_json (tl_lines t')), t')"
    "i < length (tl_lines t')" "row_digest (tl_lines t' ! i) = binding_digest C a" "log_ok t'"
    "find_row (binding_digest C a) (map row_json (tl_lines t')) = Inr (Some (int i, row_dict (tl_lines t' ! i)))"
    "\<exists>ls. t' = t\<lparr>tl_lines := tl_lines t @ ls\<rparr>"
proof -
  let ?bd = "binding_digest C a"
  let ?rows = "map row_json (tl_lines t)"
  have r: "read_leaves (tl_lines t) = Inr ?rows" using ok read_leaves_ok unfolding log_ok_def by blast
  have run: "logged_row C a now t = (case find_row ?bd ?rows of
      Inl e \<Rightarrow> (Inl e, t) | Inr (Some (i, d)) \<Rightarrow> (Inr (i, d, ?rows), t)
    | Inr None \<Rightarrow>
        let leaf = leaf_row (length ?rows) (rekord_body a) ?bd now in
        (Inr (int (length ?rows), leaf, ?rows @ [JObj leaf]), t\<lparr>tl_lines := tl_lines t @ [Parsed (JObj leaf)]\<rparr>))"
    by (auto simp: logged_row_def binding_digest_def Let_def bindM_def reads_def lift_res_def ret_def writes_def r
        split: sum.splits option.splits)
  show ?thesis
  proof (cases "find_row ?bd ?rows = Inr None")
    case True
    let ?leaf = "leaf_row (length (tl_lines t)) (rekord_body a) ?bd now"
    let ?t = "t\<lparr>tl_lines := tl_lines t @ [Parsed (JObj ?leaf)]\<rparr>"
    have d: "row_dict (Parsed (JObj ?leaf)) = ?leaf" by (simp add: row_dict_def)
    have ok': "log_ok ?t" using ok by (simp add: log_ok_def rows_ok_append row_ok_leaf)
    have bd: "row_digest (tl_lines ?t ! length (tl_lines t)) = ?bd"
      by (simp add: row_digest_def d) (simp add: leaf_row_def jget_def)
    have "?bd \<notin> set (map row_digest (tl_lines t))"
      using find_row_ok [of 0 "tl_lines t" ?bd] ok True unfolding log_ok_def by auto
    then have first: "i = length (tl_lines t)" if "i < length (tl_lines ?t)" "row_digest (tl_lines ?t ! i) = ?bd" for i
      using that by (auto simp: nth_append less_Suc_eq split: if_splits) (metis image_eqI nth_mem)
    have "?bd \<in> set (map row_digest (tl_lines ?t))" using bd by (simp add: row_digest_def d)
    then obtain i where i: "i < length (tl_lines ?t)" "row_digest (tl_lines ?t ! i) = ?bd"
      "find_row ?bd (map row_json (tl_lines ?t)) = Inr (Some (int i, row_dict (tl_lines ?t ! i)))"
      using find_row_ok [of 0 "tl_lines ?t" ?bd] ok' unfolding log_ok_def by auto
    have il: "i = length (tl_lines t)" by (rule first [OF i(1,2)])
    show ?thesis
    proof (rule that [of "length (tl_lines t)" ?t])
      show "logged_row C a now t = (Inr (int (length (tl_lines t)), row_dict (tl_lines ?t ! length (tl_lines t)),
          map row_json (tl_lines ?t)), ?t)"
        unfolding run True by (simp add: Let_def d row_json_def)
    qed (use i il bd ok' in auto)
  next
    case False
    then obtain i where i: "i < length (tl_lines t)" "row_digest (tl_lines t ! i) = ?bd"
      "find_row ?bd ?rows = Inr (Some (int i, row_dict (tl_lines t ! i)))"
      using find_row_ok [of 0 "tl_lines t" ?bd] ok unfolding log_ok_def by auto
    show ?thesis by (rule that [of i t]) (use i ok run in \<open>auto intro: exI [of _ "[]"]\<close>)
  qed
qed

definition signs :: "crypto \<Rightarrow> bytes \<Rightarrow> bytes \<Rightarrow> bool" where
  "signs X pub priv \<longleftrightarrow> assert_canonical_ed25519_public_key pub = Inr pub \<and> ed_point X pub \<and> length priv = 32 \<and>
     (\<forall>m. \<exists>s. ed_sign X priv m = Some s \<and> ed_valid X pub s m)"

definition log_leaves :: "cfg \<Rightarrow> tlog \<Rightarrow> bytes list" where
  "log_leaves C t = map (\<lambda>f. digest C (CHR 0x00 # row_digest f)) (tl_lines t)"

lemma append_ok:
  assumes ok: "log_ok t" and keys: "tl_public t = Some pub" "tl_private t = Some priv" and X: "signs X pub priv"
  obtains i t' sig pf integrated where
    "append_hashedrekord C X a now t =
       (Inr (anchor_receipt C (rekord_body a) (int i) integrated (log_leaves C t') pf pub sig), t')"
    "inclusion_proof C (log_leaves C t') (int i) = Inr pf"
    "ed_valid X pub sig (canonical_payload (log_checkpoint C pub (length (log_leaves C t')) (merkle_root C (log_leaves C t'))))"
    "i < length (log_leaves C t')" "row_digest (tl_lines t' ! i) = binding_digest C a" "log_ok t'"
    "find_row (binding_digest C a) (map row_json (tl_lines t')) = Inr (Some (int i, row_dict (tl_lines t' ! i)))"
    "map_of (row_dict (tl_lines t' ! i)) ''integrated_time'' = Some integrated"
    "\<exists>ls. t' = t\<lparr>tl_lines := tl_lines t @ ls\<rparr>"
proof -
  obtain i t' where run: "logged_row C a now t =
      (Inr (int i, row_dict (tl_lines t' ! i), map row_json (tl_lines t')), t')"
    and i: "i < length (tl_lines t')" "row_digest (tl_lines t' ! i) = binding_digest C a" "log_ok t'"
    "find_row (binding_digest C a) (map row_json (tl_lines t')) = Inr (Some (int i, row_dict (tl_lines t' ! i)))"
    "\<exists>ls. t' = t\<lparr>tl_lines := tl_lines t @ ls\<rparr>"
    using logged_row_ok [OF ok] by blast
  let ?L = "log_leaves C t'"
  have n: "length ?L = length (tl_lines t')" by (simp add: log_leaves_def)
  have leaves: "mapR (row_leaf C) (map row_json (tl_lines t')) = Inr ?L"
    using i(3) row_leaves_ok unfolding log_ok_def log_leaves_def by blast
  obtain pf where pf: "inclusion_proof C ?L (int i) = Inr pf"
    using i(1) n by (simp add: inclusion_proof_def)
  let ?m = "canonical_payload (log_checkpoint C pub (length ?L) (merkle_root C ?L))"
  obtain sig where sig: "ed_sign X priv ?m = Some sig" "ed_valid X pub sig ?m" "length priv = 32"
    using X unfolding signs_def by blast
  have "rows_ok 0 (take i (tl_lines t') @ tl_lines t' ! i # drop (Suc i) (tl_lines t'))"
    using i(1,3) by (simp add: log_ok_def id_take_nth_drop [symmetric])
  then have "row_ok i (tl_lines t' ! i)" using i(1) by (simp add: rows_ok_append)
  then obtain integrated where it: "map_of (row_dict (tl_lines t' ! i)) ''integrated_time'' = Some integrated"
    by (auto simp: row_ok_def)
  have "require_log_identity t = (Inr (pub, priv), t)"
    by (simp add: require_log_identity_def bindM_def reads_def ret_def keys)
  then have "append_hashedrekord C X a now t =
       (Inr (anchor_receipt C (rekord_body a) (int i) integrated ?L pf pub sig), t')"
    using sig n by (simp add: append_hashedrekord_def bindM_run run leaves pf it ed25519_sign_def trust_item_def ret_def)
  then show ?thesis using that pf sig(2) i n it by metis
qed

subsection \<open>A receipt of the log verifies\<close>

lemma rekord_fields [simp]: "\<not> list_ex (\<lambda>(k, v). jget (rekord_body a) k \<noteq> v) (rekord_body a)"
  by (simp add: rekord_body_def Let_def jget_def)

lemma receipt_fields [simp]:
  "jget (anchor_receipt C b i tm L pf pub sig) ''schema'' = JStr ''amof.external_anchor/v1''"
  "jget (anchor_receipt C b i tm L pf pub sig) ''anchor_kind'' = JStr ''append_only_hashedrekord''"
  "jget (anchor_receipt C b i tm L pf pub sig) ''body'' = JObj b"
  "jget (anchor_receipt C b i tm L pf pub sig) ''body_digest'' = JStr (canonical_json_digest C b)"
  "jget (anchor_receipt C b i tm L pf pub sig) ''log_index'' = JInt i"
  "jget (anchor_receipt C b i tm L pf pub sig) ''integrated_time'' = tm"
  "jget (anchor_receipt C b i tm L pf pub sig) ''inclusion'' = JObj
     [(''leaf_hash'', JStr (bytes_hex (L ! nat i))), (''root_hash'', JStr (bytes_hex (merkle_root C L))),
      (''tree_size'', JInt (int (length L))), (''hashes'', str_arr pf)]"
  "jget (anchor_receipt C b i tm L pf pub sig) ''checkpoint'' = JObj (log_checkpoint C pub (length L) (merkle_root C L) @
     [(''signature_b64'', JStr (b64encode sig)), (''log_public_key_b64'', JStr (b64encode pub))])"
  by (simp_all add: anchor_receipt_def Let_def jget_def)

lemma inclusion_fields [simp]:
  "jget [(''leaf_hash'', lh), (''root_hash'', rh), (''tree_size'', ts), (''hashes'', hs)] ''leaf_hash'' = lh"
  "jget [(''leaf_hash'', lh), (''root_hash'', rh), (''tree_size'', ts), (''hashes'', hs)] ''root_hash'' = rh"
  "jget [(''leaf_hash'', lh), (''root_hash'', rh), (''tree_size'', ts), (''hashes'', hs)] ''tree_size'' = ts"
  "jget [(''leaf_hash'', lh), (''root_hash'', rh), (''tree_size'', ts), (''hashes'', hs)] ''hashes'' = hs"
  by (simp_all add: jget_def)

lemma checkpoint_fields [simp]:
  fixes s k root pub :: string and n :: nat and C :: cfg
  defines "d \<equiv> log_checkpoint C pub n root @ [(''signature_b64'', JStr s), (''log_public_key_b64'', JStr k)]"
  shows "jget d ''origin'' = JStr ''amof-local-tlog/v1''" "jget d ''tree_size'' = JInt (int n)"
    "jget d ''root_hash'' = JStr (bytes_hex root)" "jget d ''log_key_id'' = JStr (hexdigest C pub)"
    "jget d ''signature_b64'' = JStr s" "jget d ''log_public_key_b64'' = JStr k"
  by (simp_all add: d_def log_checkpoint_def checkpoint_json_def jget_def)

lemma proof_hashes [simp]: "py_or (str_arr pf) (JArr []) = JArr (map JStr pf)"
  by (cases pf) (simp_all add: py_or_def str_arr_def)

lemma trust_int_JInt [simp]: "trust_int (JInt i) = Inr i"
  by (simp add: trust_int_def py_int_def)

lemma verify_receipt:
  assumes X: "signs X pub priv"
    and sig: "ed_valid X pub sig (canonical_payload (log_checkpoint C pub (length L) (merkle_root C L)))"
    and inc: "verify_inclusion C (digest C (CHR 0x00 # binding_digest C a)) i (int n) pf (merkle_root C L) = Inr ()"
    and r: "jget r ''schema'' = JStr ''amof.external_anchor/v1''" "jget r ''anchor_kind'' = JStr ''append_only_hashedrekord''"
      "jget r ''body'' = JObj (rekord_body a)" "jget r ''body_digest'' = JStr (binding_digest C a)" "jget r ''log_index'' = JInt i"
      "jget r ''inclusion'' = JObj inc" "jget inc ''leaf_hash'' = JStr (bytes_hex (digest C (CHR 0x00 # binding_digest C a)))"
      "jget inc ''root_hash'' = JStr (bytes_hex (merkle_root C L))" "jget inc ''tree_size'' = JInt (int n)"
      "jget inc ''hashes'' = str_arr pf"
      "jget r ''checkpoint'' = JObj (log_checkpoint C pub (length L) (merkle_root C L) @
         [(''signature_b64'', JStr (b64encode sig)), (''log_public_key_b64'', JStr (b64encode pub))])"
  shows "verify_external_anchor C X r a =
     Inr \<lparr>an_kind = JStr ''append_only_hashedrekord'', an_index = i, an_digest = binding_digest C a\<rparr>"
  using X sig inc
  by (simp add: verify_external_anchor_def r bindR_check Let_def binding_digest_def [symmetric] leaf_hash_def o_def
      verify_ed25519_detached_def ed25519_verify_def signs_def check_def log_checkpoint_def [symmetric] comp_def)

lemma log_leaf: "i < length (tl_lines t) \<Longrightarrow> log_leaves C t ! i = digest C (CHR 0x00 # row_digest (tl_lines t ! i))"
  by (simp add: log_leaves_def)

lemma appended_receipt_verifies:
  assumes "log_ok t" "tl_public t = Some pub" "tl_private t = Some priv" "signs X pub priv"
  shows "\<exists>receipt i t'. append_hashedrekord C X a now t = (Inr receipt, t') \<and>
     i < length (tl_lines t') \<and> row_digest (tl_lines t' ! i) = binding_digest C a \<and>
     jget receipt ''log_index'' = JInt (int i) \<and>
     verify_external_anchor C X receipt a =
       Inr \<lparr>an_kind = JStr ''append_only_hashedrekord'', an_index = int i, an_digest = binding_digest C a\<rparr>"
proof -
  obtain i t' sig pf tm where run: "append_hashedrekord C X a now t =
       (Inr (anchor_receipt C (rekord_body a) (int i) tm (log_leaves C t') pf pub sig), t')"
    and pf: "inclusion_proof C (log_leaves C t') (int i) = Inr pf"
    and sig: "ed_valid X pub sig
      (canonical_payload (log_checkpoint C pub (length (log_leaves C t')) (merkle_root C (log_leaves C t'))))"
    and i: "i < length (log_leaves C t')" "row_digest (tl_lines t' ! i) = binding_digest C a"
    using append_ok [OF assms, of C a now] by metis
  from i have leaf: "log_leaves C t' ! i = digest C (CHR 0x00 # binding_digest C a)"
    by (simp add: log_leaves_def)
  have "verify_inclusion C (digest C (CHR 0x00 # binding_digest C a)) (int i) (int (length (log_leaves C t')))
      pf (merkle_root C (log_leaves C t')) = Inr ()"
    using inclusion_complete [of "int i" "log_leaves C t'" C] pf i leaf by simp
  from verify_receipt [OF assms(4) sig this] leaf
  have "verify_external_anchor C X (anchor_receipt C (rekord_body a) (int i) tm (log_leaves C t') pf pub sig) a =
     Inr \<lparr>an_kind = JStr ''append_only_hashedrekord'', an_index = int i, an_digest = binding_digest C a\<rparr>"
    by (simp add: binding_digest_def)
  with run i show ?thesis by (auto simp: log_leaves_def)
qed

subsection \<open>Records are appended once\<close>

fun run_appends :: "cfg \<Rightarrow> crypto \<Rightarrow> (binding_args \<times> string) list \<Rightarrow> tlog \<Rightarrow> tlog" where
  "run_appends C X [] t = t"
| "run_appends C X ((a, now) # rs) t = run_appends C X rs (snd (append_hashedrekord C X a now t))"

lemma bindM_keeps: "(\<And>a s'. snd (f a s') = s') \<Longrightarrow> snd (bindM m f s) = snd (m s)"
  by (simp add: bindM_def split: prod.splits sum.splits)

lemma bindM_keeps_at: "snd (m s) = s \<Longrightarrow> (\<And>a s'. snd (f a s') = s') \<Longrightarrow> snd (bindM m f s) = s"
  by (simp add: bindM_keeps)

lemma lift_keeps [simp]: "snd (lift_res r s) = s" "snd (ret a s) = s"
  by (simp_all add: lift_res_def ret_def)

lemma append_state:
  "snd (append_hashedrekord C X a now t) = t \<or>
   snd (append_hashedrekord C X a now t) = snd (logged_row C a now t)"
proof (cases "require_log_identity t")
  case (Pair r t')
  have [simp]: "t' = t" using Pair
    by (auto simp: require_log_identity_def bindM_def reads_def ret_def throw_def split: option.splits)
  show ?thesis
  proof (cases r)
    case (Inl e)
    then show ?thesis using Pair by (simp add: append_hashedrekord_def bindM_run)
  next
    case (Inr k)
    then have p: "require_log_identity t = (Inr k, t)" using Pair by simp
    show ?thesis
      unfolding append_hashedrekord_def split_beta bindM_run(1) [of require_log_identity, OF p]
      by (intro disjI2 bindM_keeps bindM_keeps_at lift_keeps)
  qed
qed

lemma append_grows:
  assumes "log_ok t"
  shows "log_ok (snd (append_hashedrekord C X a now t)) \<and>
    (\<exists>ls. snd (append_hashedrekord C X a now t) = t\<lparr>tl_lines := tl_lines t @ ls\<rparr>)"
proof -
  obtain v t' where "logged_row C a now t = (v, t')" "log_ok t'" "\<exists>ls. t' = t\<lparr>tl_lines := tl_lines t @ ls\<rparr>"
    using logged_row_ok [OF assms, of C a now] by metis
  then show ?thesis
    using append_state [of C X a now t] assms by (auto intro: exI [of _ "[]"])
qed

lemma run_appends_grows:
  "log_ok t \<Longrightarrow> log_ok (run_appends C X rs t) \<and> (\<exists>ls. run_appends C X rs t = t\<lparr>tl_lines := tl_lines t @ ls\<rparr>)"
proof (induction C X rs t rule: run_appends.induct)
  case (2 C X a now rs t)
  obtain ls where s: "log_ok (snd (append_hashedrekord C X a now t))"
    "snd (append_hashedrekord C X a now t) = t\<lparr>tl_lines := tl_lines t @ ls\<rparr>"
    using append_grows [OF 2(2)] by blast
  with 2(1) show ?case by fastforce
qed (auto intro: exI [of _ "[]"])

lemma appended_once:
  assumes ok: "log_ok t" and keys: "tl_public t = Some pub" "tl_private t = Some priv" and X: "signs X pub priv"
    and run: "append_hashedrekord C X a now t = (Inr receipt, t1)"
  shows "\<exists>receipt'. append_hashedrekord C X a now' (run_appends C X rs t1) = (Inr receipt', run_appends C X rs t1) \<and>
     jget receipt' ''log_index'' = jget receipt ''log_index'' \<and>
     jget receipt' ''integrated_time'' = jget receipt ''integrated_time''"
proof -
  obtain i u sig pf tm where run1: "append_hashedrekord C X a now t =
       (Inr (anchor_receipt C (rekord_body a) (int i) tm (log_leaves C u) pf pub sig), u)"
    and u: "log_ok u" "find_row (binding_digest C a) (map row_json (tl_lines u)) = Inr (Some (int i, row_dict (tl_lines u ! i)))"
      "map_of (row_dict (tl_lines u ! i)) ''integrated_time'' = Some tm" "\<exists>ls. u = t\<lparr>tl_lines := tl_lines t @ ls\<rparr>"
    by (rule append_ok [OF ok keys X, of C a now]) blast
  have ut: "u = t1" and r: "receipt = anchor_receipt C (rekord_body a) (int i) tm (log_leaves C t1) pf pub sig"
    using run run1 by auto
  note i = u(1-3) [unfolded ut] and t1 = u(4) [unfolded ut]
  let ?t2 = "run_appends C X rs t1"
  obtain ls where t2: "log_ok ?t2" "?t2 = t1\<lparr>tl_lines := tl_lines t1 @ ls\<rparr>"
    using run_appends_grows [OF i(1)] by blast
  then have keys2: "tl_public ?t2 = Some pub" "tl_private ?t2 = Some priv" using t1 keys by auto
  obtain j t3 sig' pf' tm' where run2: "append_hashedrekord C X a now' ?t2 =
       (Inr (anchor_receipt C (rekord_body a) (int j) tm' (log_leaves C t3) pf' pub sig'), t3)"
    and j: "find_row (binding_digest C a) (map row_json (tl_lines t3)) = Inr (Some (int j, row_dict (tl_lines t3 ! j)))"
      "map_of (row_dict (tl_lines t3 ! j)) ''integrated_time'' = Some tm'"
    by (rule append_ok [OF t2(1) keys2 X, of C a now']) blast
  have found: "find_row (binding_digest C a) (map row_json (tl_lines ?t2)) = Inr (Some (int i, row_dict (tl_lines t1 ! i)))"
    using find_row_append [OF i(2)] t2(2) by simp
  have r2: "read_leaves (tl_lines ?t2) = Inr (map row_json (tl_lines ?t2))"
    using t2(1) read_leaves_ok unfolding log_ok_def by blast
  have "logged_row C a now' ?t2 = (Inr (int i, row_dict (tl_lines t1 ! i), map row_json (tl_lines ?t2)), ?t2)"
    using found r2 by (simp add: logged_row_def Let_def binding_digest_def [symmetric] bindM_def reads_def lift_res_def ret_def)
  then have t3: "t3 = ?t2" using append_state [of C X a now' ?t2] run2 by auto
  from trans [OF j(1) [unfolded t3, symmetric] found]
  have "j = i \<and> row_dict (tl_lines ?t2 ! j) = row_dict (tl_lines t1 ! i)" by auto
  then have "tm' = tm" "j = i" using j(2) i(3) t3 by auto
  then show ?thesis using run2 t3 r by simp
qed

subsection \<open>What a receipt that verifies shows\<close>

lemma case_json_iff:
  "(case x of JObj b \<Rightarrow> Inr b | _ \<Rightarrow> Inl e) = Inr d \<longleftrightarrow> x = JObj d"
  "(case x of JObj i \<Rightarrow> (case y of JObj c \<Rightarrow> Inr (i, c) | _ \<Rightarrow> Inl e) | _ \<Rightarrow> Inl e) = Inr p \<longleftrightarrow>
     x = JObj (fst p) \<and> y = JObj (snd p)"
  "(case z of None \<Rightarrow> Inl e | Some k \<Rightarrow> Inr k) = Inr l \<longleftrightarrow> z = Some l"
  "(case x of JArr ps \<Rightarrow> Inr (map py_str ps) | _ \<Rightarrow> Inl e) = Inr ts \<longleftrightarrow> (\<exists>ps. x = JArr ps \<and> ts = map py_str ps)"
  by (auto split: json.splits option.splits)

lemma verify_parts:
  assumes "verify_external_anchor C X r a = Inr res"
  obtains b inc cp l root pf index n pub u v where "jget r ''body'' = JObj b"
    "\<not> list_ex (\<lambda>p. jget b (fst p) \<noteq> snd p) (rekord_body a)"
    "\<not> str_or_empty (jget r ''body_digest'') \<noteq> canonical_json_digest C b"
    "jget r ''inclusion'' = JObj inc" "jget r ''checkpoint'' = JObj cp"
    "leaf_hash C (str_or_empty (jget r ''body_digest'')) = Inr l"
    "bytes_fromhex (str_or_empty (jget cp ''root_hash'')) = Some root"
    "trust_int (jget r ''log_index'') = Inr index" "trust_int (jget inc ''tree_size'') = Inr n"
    "verify_inclusion C l index n pf root = Inr v"
    "b64decode (str_or_empty (jget cp ''log_public_key_b64'')) = Some pub"
    "\<not> str_or_empty (jget cp ''log_key_id'') \<noteq> hexdigest C pub"
    "verify_ed25519_detached X (canonical_payload (checkpoint_json (jget cp ''origin'') (jget cp ''tree_size'')
       (jget cp ''root_hash'') (jget cp ''log_key_id''))) (str_or_empty (jget cp ''signature_b64'')) pub = Inr u"
    "\<lparr>an_kind = jget r ''anchor_kind'', an_index = index, an_digest = str_or_empty (jget r ''body_digest'')\<rparr> = res"
  using assms
  unfolding verify_external_anchor_def Let_def bindR_Inr_iff check_Inr_iff split_beta fst_conv snd_conv case_json_iff
    sum.inject
  by (elim exE conjE) (rule that, assumption+)

lemma verify_fields:
  assumes "verify_external_anchor C X r a = Inr res"
  obtains b inc cp pf n pub sig root where "jget r ''body'' = JObj b" "jget r ''inclusion'' = JObj inc"
    "jget r ''checkpoint'' = JObj cp" "list_all (\<lambda>(k, v). jget b k = v) (rekord_body a)"
    "an_digest res = canonical_json_digest C b" "hexdigest C pub = str_or_empty (jget cp ''log_key_id'')"
    "trust_int (jget inc ''tree_size'') = Inr n" "bytes_fromhex (str_or_empty (jget cp ''root_hash'')) = Some root"
    "verify_inclusion C (digest C (CHR 0x00 # an_digest res)) (an_index res) n pf root = Inr ()"
    "ed_valid X pub sig (canonical_payload (checkpoint_json (jget cp ''origin'') (jget cp ''tree_size'')
       (jget cp ''root_hash'') (jget cp ''log_key_id'')))"
proof (rule verify_parts [OF assms])
  fix b inc cp l root pf index n pub u v
  assume p: "jget r ''body'' = JObj b" "\<not> list_ex (\<lambda>p. jget b (fst p) \<noteq> snd p) (rekord_body a)"
    "\<not> str_or_empty (jget r ''body_digest'') \<noteq> canonical_json_digest C b" "jget r ''inclusion'' = JObj inc"
    "jget r ''checkpoint'' = JObj cp" "leaf_hash C (str_or_empty (jget r ''body_digest'')) = Inr l"
    "bytes_fromhex (str_or_empty (jget cp ''root_hash'')) = Some root" "trust_int (jget inc ''tree_size'') = Inr n"
    "verify_inclusion C l index n pf root = Inr v" "\<not> str_or_empty (jget cp ''log_key_id'') \<noteq> hexdigest C pub"
    "verify_ed25519_detached X (canonical_payload (checkpoint_json (jget cp ''origin'') (jget cp ''tree_size'')
       (jget cp ''root_hash'') (jget cp ''log_key_id''))) (str_or_empty (jget cp ''signature_b64'')) pub = Inr u"
    "\<lparr>an_kind = jget r ''anchor_kind'', an_index = index, an_digest = str_or_empty (jget r ''body_digest'')\<rparr> = res"
  obtain sig where "ed_valid X pub sig (canonical_payload (checkpoint_json (jget cp ''origin'') (jget cp ''tree_size'')
       (jget cp ''root_hash'') (jget cp ''log_key_id'')))"
    using p(11) by (auto simp: verify_ed25519_detached_def ed25519_verify_def bindR_Inr_iff
        assert_canonical_ed25519_public_key_def split: option.splits if_splits)
  moreover have "l = digest C (CHR 0x00 # an_digest res)"
    using p(6,12) by (auto simp: leaf_hash_def split: if_splits)
  moreover have "list_all (\<lambda>(k, v). jget b k = v) (rekord_body a)"
    using p(2) by (auto simp: list_ex_iff list_all_iff)
  ultimately show thesis using that [of b inc cp pub n root pf sig] p by auto
qed

lemma accepted_receipt_of_log:
  assumes v: "verify_external_anchor C X r a = Inr res"
    and cp: "jget r ''checkpoint'' = JObj cp" "jget cp ''root_hash'' = JStr (bytes_hex (merkle_root C (log_leaves C t)))"
    and inc: "jget r ''inclusion'' = JObj inc" "jget inc ''tree_size'' = JInt (int (length (tl_lines t)))"
  shows "0 \<le> an_index res \<and> an_index res < int (length (tl_lines t)) \<and>
    (row_digest (tl_lines t ! nat (an_index res)) = an_digest res \<or>
     (\<exists>pf. collides C (map (\<lambda>f. CHR 0x00 # row_digest f) (tl_lines t) @ tree_inputs C (log_leaves C t))
        ((CHR 0x00 # an_digest res) #
         climb_inputs C (digest C (CHR 0x00 # an_digest res)) (nat (an_index res)) (length (tl_lines t)) pf)))"
proof -
  obtain pf where vi: "verify_inclusion C (digest C (CHR 0x00 # an_digest res)) (an_index res)
      (int (length (tl_lines t))) pf (merkle_root C (log_leaves C t)) = Inr ()"
    by (rule verify_fields [OF v]) (use cp inc in auto)
  then have i: "0 \<le> an_index res" "an_index res < int (length (tl_lines t))"
    by (auto simp: verify_inclusion_def split: if_splits)
  have n: "length (log_leaves C t) = length (tl_lines t)" by (simp add: log_leaves_def)
  let ?i = "nat (an_index res)"
  have il: "?i < length (tl_lines t)" using i by linarith
  have "digest C (CHR 0x00 # an_digest res) = log_leaves C t ! ?i \<or>
      collides C (tree_inputs C (log_leaves C t))
        (climb_inputs C (digest C (CHR 0x00 # an_digest res)) ?i (length (tl_lines t)) pf)"
    using inclusion_sound [of C _ "an_index res" "log_leaves C t" pf] vi n
    by (simp add: log_leaves_def list_all_iff)
  then show ?thesis
  proof
    assume d: "digest C (CHR 0x00 # an_digest res) = log_leaves C t ! ?i"
    then have "an_digest res = row_digest (tl_lines t ! ?i) \<or>
        clash C (CHR 0x00 # row_digest (tl_lines t ! ?i)) (CHR 0x00 # an_digest res)"
      using il by (auto simp: log_leaf clash_def)
    moreover have "CHR 0x00 # row_digest (tl_lines t ! ?i) \<in> set (map (\<lambda>f. CHR 0x00 # row_digest f) (tl_lines t) @ ts)" for ts
      using il by simp
    ultimately show ?thesis using i by (metis clash_collides list.set_intros(1))
  qed (use i in \<open>auto intro: collides_more\<close>)
qed

text \<open>A receipt of the log names its root and its size.\<close>

lemma appended_receipt_names:
  assumes "log_ok t" "tl_public t = Some pub" "tl_private t = Some priv"
    and run: "append_hashedrekord C X a now t = (Inr receipt, t')" and X: "signs X pub priv"
  shows "\<exists>cp inc. jget receipt ''checkpoint'' = JObj cp \<and>
     jget cp ''root_hash'' = JStr (bytes_hex (merkle_root C (log_leaves C t'))) \<and>
     jget receipt ''inclusion'' = JObj inc \<and> jget inc ''tree_size'' = JInt (int (length (tl_lines t')))"
proof -
  obtain i u sig pf tm where "append_hashedrekord C X a now t =
       (Inr (anchor_receipt C (rekord_body a) (int i) tm (log_leaves C u) pf pub sig), u)"
    by (rule append_ok [OF assms(1-3) X, of C a now]) blast
  then have u: "u = t'" "receipt = anchor_receipt C (rekord_body a) (int i) tm (log_leaves C t') pf pub sig"
    using run by auto
  show ?thesis by (simp add: u(2)) (simp add: log_leaves_def)
qed

lemma accepted_receipt_signed:
  assumes "verify_external_anchor C X r a = Inr res" "jget r ''checkpoint'' = JObj cp"
  shows "\<exists>b pub sig. jget r ''body'' = JObj b \<and> list_all (\<lambda>(k, v). jget b k = v) (rekord_body a) \<and>
     an_digest res = canonical_json_digest C b \<and> hexdigest C pub = str_or_empty (jget cp ''log_key_id'') \<and>
     ed_valid X pub sig (canonical_payload (checkpoint_json (jget cp ''origin'') (jget cp ''tree_size'')
       (jget cp ''root_hash'') (jget cp ''log_key_id'')))"
  by (rule verify_fields [OF assms(1)]) (use assms(2) in auto)

end
