(* ===== verification/Transparency_Demo.thy ===== *)
theory Transparency_Demo
  imports Transparency_Laws
begin

section \<open>A log and a signature scheme to run\<close>

text \<open>
  A log of two rows, and a stand-in for Ed25519 whose signature is the signed message. The third
  record of that log shows that a receipt can be relabelled: its index and tree size can be
  replaced and it still verifies, with another index.
\<close>

definition demo_crypto :: crypto where
  "demo_crypto = \<lparr>ed_sign = (\<lambda>k m. Some m), ed_point = (\<lambda>k. True), ed_valid = (\<lambda>k s m. s = m)\<rparr>"

definition demo_key :: bytes where
  "demo_key = replicate 32 CHR ''k''"

definition demo_row :: "nat \<Rightarrow> string \<Rightarrow> rec_file" where
  "demo_row i d = Parsed (JObj (leaf_row i [] d ''2026-01-01T00:00:00Z''))"

definition demo_log :: tlog where
  "demo_log = \<lparr>tl_public = Some demo_key, tl_private = Some demo_key, tl_meta = True,
     tl_lines = [demo_row 0 ''a'', demo_row 1 ''b'']\<rparr>"

lemma demo_signs: "signs demo_crypto demo_key demo_key"
proof -
  have "assert_canonical_ed25519_public_key demo_key = Inr demo_key" "length demo_key = 32"
    unfolding demo_key_def by code_simp+
  then show ?thesis by (simp add: signs_def demo_crypto_def)
qed

lemma demo_log_ok: "log_ok demo_log"
  by code_simp

lemma demo_log_keys [simp]: "tl_public demo_log = Some demo_key" "tl_private demo_log = Some demo_key"
  by (simp_all add: demo_log_def)

lemma demo_digests: "map row_digest (tl_lines demo_log) = [''a'', ''b'']"
  by code_simp

lemma dict_update_get [simp]:
  "jget (dict_update d ((k, v) # e)) k' = jget (dict_update (AList.update k v d) e) k'"
  "jget (dict_update d []) k' = jget d k'"
  "jget (AList.update k v d) k' = (if k = k' then v else jget d k')"
  by (simp_all add: dict_update_def jget_def update_conv')

text \<open>Another index and another tree size, everything else as it was.\<close>

definition relabel :: "dict \<Rightarrow> int \<Rightarrow> int \<Rightarrow> dict" where
  "relabel receipt index tree_size =
     dict_update receipt
       [(''log_index'', JInt index),
        (''inclusion'', JObj (dict_update (case jget receipt ''inclusion'' of JObj d \<Rightarrow> d | _ \<Rightarrow> [])
           [(''tree_size'', JInt tree_size)]))]"

text \<open>
  The walk up from the last row of a tree with an even index does nothing on the first level. So
  the proof of the last of \<open>i + 1\<close> rows is also one of the last of \<open>2 i + 1\<close> rows.
\<close>

lemma inclusion_doubled:
  assumes "0 \<le> i"
  shows "verify_inclusion C l (2 * i) (2 * i + 1) pf root = verify_inclusion C l i (i + 1) pf root"
proof (cases "i = 0")
  case False
  with assms have "climb C l (nat (2 * i)) (nat (2 * i + 1)) pf = climb C l (nat i) (nat (i + 1)) pf"
    by (subst climb.simps) (auto simp: nat_mult_distrib nat_add_distrib)
  with assms show ?thesis by (simp add: verify_inclusion_def)
qed simp

lemma map_sum_bindR: "map_sum id g (bindR x f) = bindR x (\<lambda>a. map_sum id g (f a))"
  by (cases x) simp_all

lemma relabelled_verifies:
  assumes v: "verify_external_anchor C X r a = Inr res"
    and inc: "jget r ''inclusion'' = JObj inc" "trust_int (jget inc ''tree_size'') = Inr (an_index res + 1)"
  shows "verify_external_anchor C X (relabel r (2 * an_index res) (2 * an_index res + 1)) a =
    Inr (res\<lparr>an_index := 2 * an_index res\<rparr>)"
proof -
  let ?i = "an_index res"
  have i: "trust_int (jget r ''log_index'') = Inr ?i" and pos: "0 \<le> ?i"
    by (rule verify_parts [OF v]; use inc in \<open>auto simp: verify_inclusion_def split: if_splits\<close>)+
  obtain b cp where r: "jget r ''body'' = JObj b" "jget r ''checkpoint'' = JObj cp"
    by (rule verify_parts [OF v])
  have "verify_external_anchor C X (relabel r (2 * ?i) (2 * ?i + 1)) a =
      map_sum id (an_index_update (\<lambda>_. 2 * ?i)) (verify_external_anchor C X r a)"
    by (simp add: verify_external_anchor_def Let_def map_sum_bindR relabel_def inc r i inclusion_doubled [OF pos])
  then show ?thesis by (simp add: v)
qed

lemma append_new:
  assumes ok: "log_ok t" and new: "binding_digest C a \<notin> set (map row_digest (tl_lines t))"
    and run: "append_hashedrekord C X a now t = (Inr receipt, t')" and d: "binding_digest C a \<in> set (map row_digest (tl_lines t'))"
  shows "length (tl_lines t') = Suc (length (tl_lines t))"
proof -
  have "find_row (binding_digest C a) (map row_json (tl_lines t)) = Inr None"
    using find_row_new ok new unfolding log_ok_def by blast
  moreover have "read_leaves (tl_lines t) = Inr (map row_json (tl_lines t))"
    using ok read_leaves_ok unfolding log_ok_def by blast
  ultimately have "length (tl_lines (snd (logged_row C a now t))) = Suc (length (tl_lines t))"
    by (simp add: logged_row_def Let_def binding_digest_def [symmetric] bindM_def reads_def lift_res_def ret_def writes_def)
  then show ?thesis using append_state [of C X a now t] run d new by auto
qed

lemma three_leaves:
  "inclusion_proof C [x, y, z] 2 = Inr [bytes_hex (node_hash C x y)]"
  "merkle_root C [x, y, z] = node_hash C (node_hash C x y) z"
  "verify_inclusion C z 2 3 [bytes_hex (node_hash C x y)] (node_hash C (node_hash C x y) z) = Inr ()"
  "verify_inclusion C z 1 2 [bytes_hex (node_hash C x y)] (node_hash C (node_hash C x y) z) = Inr ()"
  by (simp_all add: inclusion_proof_def proof_from.simps sibling_def merkle_root_def top_level.simps
      verify_inclusion_def climb.simps next_sibling_def bindR_check)

lemma relabelled_receipt:
  "\<exists>receipt t'. append_hashedrekord C demo_crypto a now demo_log = (Inr receipt, t') \<and> length (tl_lines t') = 3 \<and>
     verify_external_anchor C demo_crypto receipt a =
       Inr \<lparr>an_kind = JStr ''append_only_hashedrekord'', an_index = 2, an_digest = binding_digest C a\<rparr> \<and>
     verify_external_anchor C demo_crypto (relabel receipt 1 2) a =
       Inr \<lparr>an_kind = JStr ''append_only_hashedrekord'', an_index = 1, an_digest = binding_digest C a\<rparr>"
proof -
  obtain i t' sig pf tm where run: "append_hashedrekord C demo_crypto a now demo_log =
       (Inr (anchor_receipt C (rekord_body a) (int i) tm (log_leaves C t') pf demo_key sig), t')"
    and pf: "inclusion_proof C (log_leaves C t') (int i) = Inr pf"
    and sig: "ed_valid demo_crypto demo_key sig
      (canonical_payload (log_checkpoint C demo_key (length (log_leaves C t')) (merkle_root C (log_leaves C t'))))"
    and i: "i < length (log_leaves C t')" "row_digest (tl_lines t' ! i) = binding_digest C a"
    and ls: "\<exists>ls. t' = demo_log\<lparr>tl_lines := tl_lines demo_log @ ls\<rparr>"
    by (rule append_ok [OF demo_log_ok demo_log_keys demo_signs, of C a now]) blast
  have len: "length (binding_digest C a) = 64" by (simp add: binding_digest_def canonical_json_digest_def)
  then have new: "binding_digest C a \<notin> set (map row_digest (tl_lines demo_log))"
    unfolding demo_digests by auto
  have "binding_digest C a \<in> set (map row_digest (tl_lines t'))"
    using i by (auto simp: log_leaves_def intro: rev_image_eqI [OF nth_mem])
  from append_new [OF demo_log_ok new run this] have n: "length (tl_lines t') = 3" by (simp add: demo_log_def)
  then obtain row where t': "tl_lines t' = [demo_row 0 ''a'', demo_row 1 ''b'', row]"
    using ls by (auto simp: demo_log_def length_Suc_conv)
  have rows: "row_digest (demo_row 0 ''a'') = ''a''" "row_digest (demo_row 1 ''b'') = ''b''" by code_simp+
  have i2: "i = 2"
  proof (rule ccontr)
    assume "i \<noteq> 2"
    with i(1) n have "i = 0 \<or> i = 1" by (simp add: log_leaves_def) arith
    moreover have "length (row_digest (tl_lines t' ! i)) = 64" using i(2) len by simp
    ultimately show False using rows t' by auto
  qed
  obtain x y where L: "log_leaves C t' = [x, y, digest C (CHR 0x00 # binding_digest C a)]"
    using i(2) i2 t' by (simp add: log_leaves_def)
  have pf': "pf = [bytes_hex (node_hash C x y)]" using pf L i2 three_leaves(1) by simp
  let ?r = "anchor_receipt C (rekord_body a) 2 tm (log_leaves C t') pf demo_key sig"
  have inc: "jget ?r ''inclusion'' = JObj [(''leaf_hash'', JStr (bytes_hex (digest C (CHR 0x00 # binding_digest C a)))),
      (''root_hash'', JStr (bytes_hex (merkle_root C (log_leaves C t')))), (''tree_size'', JInt 3), (''hashes'', str_arr pf)]"
    by (simp add: L)
  have inc': "jget (relabel ?r 1 2) ''inclusion'' = JObj (dict_update
      [(''leaf_hash'', JStr (bytes_hex (digest C (CHR 0x00 # binding_digest C a)))),
       (''root_hash'', JStr (bytes_hex (merkle_root C (log_leaves C t')))), (''tree_size'', JInt 3), (''hashes'', str_arr pf)]
      [(''tree_size'', JInt 2)])"
    by (simp add: relabel_def L)
  have "verify_external_anchor C demo_crypto ?r a =
       Inr \<lparr>an_kind = JStr ''append_only_hashedrekord'', an_index = 2, an_digest = binding_digest C a\<rparr>"
    by (rule verify_receipt [OF demo_signs sig _ _ _ _ _ _ inc, where n = 3 and pf = pf])
      (simp_all add: L pf' three_leaves binding_digest_def)
  moreover have "verify_external_anchor C demo_crypto (relabel ?r 1 2) a =
       Inr \<lparr>an_kind = JStr ''append_only_hashedrekord'', an_index = 1, an_digest = binding_digest C a\<rparr>"
    by (rule verify_receipt [OF demo_signs sig _ _ _ _ _ _ inc', where n = 2 and pf = pf])
      (simp_all add: L pf' three_leaves relabel_def binding_digest_def)
  ultimately show ?thesis using run n i2 by auto
qed

end
