(* ===== verification/Trust_Policy.thy ===== *)
theory Trust_Policy
  imports Transparency
begin

section \<open>Trust policy, snapshot and pinned anchor\<close>

text \<open>
  \<open>trust_crypto/policy.py\<close>, \<open>trust_crypto/snapshot.py\<close> and the pinned anchor of
  \<open>trust_crypto/anchors.py\<close>. The sets of key ids are sorted lists without duplicates. A policy
  file is its JSON value; the path checks of \<open>path_safety.py\<close> are not modelled.
\<close>

record trust_policy =
  allowed_key_ids :: "string list"
  revoked_key_ids :: "string list"
  preferred_key_id :: "string option"
  require_signatures :: bool
  allow_unknown_keys :: bool
  allow_unsigned :: bool

definition as_set :: "string list \<Rightarrow> string list" where
  "as_set xs = sort (remdups xs)"

text \<open>\<open>str(x).strip().lower()\<close>.\<close>

definition key_text :: "string \<Rightarrow> string" where
  "key_text s = py_lower (py_strip s)"

definition assert_key_usable :: "trust_policy \<Rightarrow> string \<Rightarrow> trust_exn + unit" where
  "assert_key_usable P key_id =
     (let kid = key_text key_id in
      if kid = [] then Inl (Trust ''missing_key'')
      else if kid \<in> set (revoked_key_ids P) then Inl (Trust ''revoked_key'')
      else if kid \<notin> set (allowed_key_ids P) \<and> \<not> allow_unknown_keys P then Inl (Trust ''unknown_key'')
      else Inr ())"

definition empty_policy :: "bool \<Rightarrow> trust_policy" where
  "empty_policy require =
     \<lparr>allowed_key_ids = [], revoked_key_ids = [], preferred_key_id = None, require_signatures = require,
      allow_unknown_keys = False, allow_unsigned = \<not> require\<rparr>"

text \<open>\<open>{str(x).strip().lower() for x in (v or []) if str(x).strip()}\<close>; of a dictionary the keys, of a
  text the characters are iterated.\<close>

definition key_set :: "json \<Rightarrow> trust_exn + string list" where
  "key_set v =
     (let keys = (\<lambda>ts. as_set (map key_text (filter (\<lambda>t. py_strip t \<noteq> []) ts))) in
      if \<not> truthy v then Inr (keys [])
      else case v of
        JArr xs \<Rightarrow> Inr (keys (map py_str xs))
      | JObj d \<Rightarrow> Inr (keys (map fst d))
      | JStr s \<Rightarrow> Inr (keys (map (\<lambda>c. [c]) s))
      | _ \<Rightarrow> Inl (Trust_builtin ''TypeError''))"

text \<open>\<open>bool(payload.get(k, default))\<close>.\<close>

definition get_bool :: "dict \<Rightarrow> string \<Rightarrow> bool \<Rightarrow> bool" where
  "get_bool d k dflt = (case map_of d k of None \<Rightarrow> dflt | Some v \<Rightarrow> truthy v)"

definition policy_from_dict :: "dict \<Rightarrow> trust_exn + trust_policy" where
  "policy_from_dict d =
     bindR (check (jget d ''schema'' \<noteq> JStr ''amof.trust_policy/v1'') (Trust ''invalid_policy'')) (\<lambda>_.
     bindR (key_set (jget d ''allowed_key_ids'')) (\<lambda>allowed.
     bindR (key_set (jget d ''revoked_key_ids'')) (\<lambda>revoked.
     let text = key_text (str_or_empty (jget d ''preferred_key_id''));
         require = get_bool d ''require_signatures'' False in
     bindR (check (text \<noteq> [] \<and> text \<notin> set allowed) (Trust ''invalid_policy'')) (\<lambda>_.
     bindR (check (list_ex (\<lambda>k. k \<in> set revoked) allowed) (Trust ''invalid_policy'')) (\<lambda>_.
     Inr \<lparr>allowed_key_ids = allowed, revoked_key_ids = revoked,
          preferred_key_id = (if text = [] then None else Some text), require_signatures = require,
          allow_unknown_keys = get_bool d ''allow_unknown_keys'' False,
          allow_unsigned = (\<not> require \<and> get_bool d ''allow_unsigned'' (\<not> require))\<rparr>)))))"

text \<open>The policy file: missing, or its content.\<close>

definition load_trust_policy :: "rec_file option \<Rightarrow> trust_exn + trust_policy" where
  "load_trust_policy f =
     (case f of
        None \<Rightarrow> Inr (empty_policy False)
      | Some Corrupt \<Rightarrow> Inl (Trust ''invalid_policy'')
      | Some (Parsed (JObj d)) \<Rightarrow> policy_from_dict d
      | Some (Parsed _) \<Rightarrow> Inl (Trust ''invalid_policy''))"

definition policy_payload :: "trust_policy \<Rightarrow> dict" where
  "policy_payload P =
     [(''schema'', JStr ''amof.trust_policy/v1''), (''allowed_key_ids'', str_arr (allowed_key_ids P)),
      (''revoked_key_ids'', str_arr (revoked_key_ids P)),
      (''preferred_key_id'', case preferred_key_id P of None \<Rightarrow> JNull | Some k \<Rightarrow> JStr k),
      (''require_signatures'', JBool (require_signatures P)), (''allow_unknown_keys'', JBool (allow_unknown_keys P)),
      (''allow_unsigned'', JBool (allow_unsigned P))]"

definition write_trust_policy :: "trust_policy \<Rightarrow> rec_file" where
  "write_trust_policy P = Parsed (JObj (policy_payload P))"

definition enroll_key :: "trust_policy \<Rightarrow> string \<Rightarrow> bool \<Rightarrow> trust_policy" where
  "enroll_key P key_id preferred =
     (let kid = key_text key_id in
      P\<lparr>allowed_key_ids := as_set (kid # allowed_key_ids P),
        revoked_key_ids := filter (\<lambda>k. k \<noteq> kid) (revoked_key_ids P),
        preferred_key_id := (if preferred \<or> preferred_key_id P = None then Some kid else preferred_key_id P)\<rparr>)"

definition revoke_key :: "trust_policy \<Rightarrow> string \<Rightarrow> trust_policy" where
  "revoke_key P key_id =
     (let kid = key_text key_id in
      P\<lparr>allowed_key_ids := filter (\<lambda>k. k \<noteq> kid) (allowed_key_ids P),
        revoked_key_ids := as_set (kid # revoked_key_ids P),
        preferred_key_id := (if preferred_key_id P = Some kid then None else preferred_key_id P)\<rparr>)"

subsection \<open>Snapshot\<close>

definition policy_digest :: "cfg \<Rightarrow> trust_policy \<Rightarrow> string" where
  "policy_digest C P = canonical_json_digest C (policy_payload P)"

record snapshot_args =
  sn_run :: string
  sn_key :: string
  sn_fingerprint :: string
  sn_manifest :: string
  sn_evidence :: string
  sn_signature :: string

definition trust_decision :: "trust_policy \<Rightarrow> string \<Rightarrow> string" where
  "trust_decision P kid =
     (if kid \<in> set (revoked_key_ids P) then ''REVOKED''
      else if kid \<in> set (allowed_key_ids P) then ''ALLOWED'' else ''UNKNOWN'')"

definition snapshot_notes :: string where
  "snapshot_notes =
     ''Wire kind TRUST_AT_FINALIZATION is historical. This snapshot is captured at '' @
     ''export packaging under the producer host's then-current trust-policy. '' @
     ''It is not sealed at finalize time. It does not prove future non-revocation '' @
     ''(TRUST_NOW is separate). It is not a verifier authorization root.''"

text \<open>The time is \<open>finalized_at\<close>, or a clock reading.\<close>

definition build_trust_snapshot :: "cfg \<Rightarrow> trust_policy \<Rightarrow> snapshot_args \<Rightarrow> string \<Rightarrow> dict" where
  "build_trust_snapshot C P a at =
     (let kid = key_text (sn_key a) in
      [(''schema'', JStr ''amof.trust_snapshot/v1''), (''kind'', JStr ''TRUST_AT_FINALIZATION''),
       (''run_id'', JStr (sn_run a)), (''trusted_key_id'', JStr kid),
       (''public_key_fingerprint'', JStr (key_text (sn_fingerprint a))),
       (''trust_decision'', JStr (trust_decision P kid)), (''policy_schema'', JStr ''amof.trust_policy/v1''),
       (''policy_digest'', JStr (policy_digest C P)),
       (''revoked_at_finalization'', JBool (kid \<in> set (revoked_key_ids P))),
       (''allowed_at_finalization'', JBool (kid \<in> set (allowed_key_ids P))),
       (''require_signatures_at_finalization'', JBool (require_signatures P)), (''finalized_at'', JStr at),
       (''manifest_digest'', JStr (key_text (sn_manifest a))), (''evidence_digest'', JStr (key_text (sn_evidence a))),
       (''signature_digest'', JStr (key_text (sn_signature a))), (''notes'', JStr snapshot_notes)])"

definition snapshot_field :: "dict \<Rightarrow> string \<Rightarrow> string \<Rightarrow> bool" where
  "snapshot_field s k v \<longleftrightarrow> py_lower (str_or_empty (jget s k)) = py_lower v"

definition verify_trust_snapshot :: "dict \<Rightarrow> snapshot_args \<Rightarrow> trust_exn + unit" where
  "verify_trust_snapshot s a =
     bindR (check (jget s ''schema'' \<noteq> JStr ''amof.trust_snapshot/v1'') (Trust ''invalid_trust_snapshot'')) (\<lambda>_.
     bindR (check (jget s ''kind'' \<noteq> JStr ''TRUST_AT_FINALIZATION'') (Trust ''invalid_trust_snapshot'')) (\<lambda>_.
     bindR (check (str_or_empty (jget s ''run_id'') \<noteq> sn_run a) (Trust ''snapshot_mismatch'')) (\<lambda>_.
     bindR (check (\<not> snapshot_field s ''trusted_key_id'' (sn_key a)) (Trust ''snapshot_mismatch'')) (\<lambda>_.
     bindR (check (\<not> snapshot_field s ''public_key_fingerprint'' (sn_fingerprint a)) (Trust ''snapshot_mismatch'')) (\<lambda>_.
     bindR (check (\<not> snapshot_field s ''manifest_digest'' (sn_manifest a)) (Trust ''snapshot_mismatch'')) (\<lambda>_.
     bindR (check (\<not> snapshot_field s ''evidence_digest'' (sn_evidence a)) (Trust ''snapshot_mismatch'')) (\<lambda>_.
     bindR (check (\<not> snapshot_field s ''signature_digest'' (sn_signature a)) (Trust ''snapshot_mismatch'')) (\<lambda>_.
     bindR (check (jget s ''trust_decision'' \<noteq> JStr ''ALLOWED'') (Trust ''snapshot_untrusted'')) (\<lambda>_.
     bindR (check (truthy (jget s ''revoked_at_finalization'')) (Trust ''snapshot_untrusted'')) (\<lambda>_.
     check (\<not> truthy (jget s ''allowed_at_finalization'')) (Trust ''snapshot_untrusted'')))))))))))"

definition evaluate_trust_now :: "trust_policy option \<Rightarrow> string \<Rightarrow> string" where
  "evaluate_trust_now P key_id = (case P of None \<Rightarrow> ''SKIPPED'' | Some p \<Rightarrow> trust_decision p (key_text key_id))"

subsection \<open>Pinned anchor\<close>

definition anchor_notes :: string where
  "anchor_notes =
     ''Local pin only. Proves the export carries the signer public key '' @
     ''that verified the signature at packaging time. Not a transparency proof.''"

definition build_local_pinned_trust_anchor :: "cfg \<Rightarrow> string \<Rightarrow> bytes \<Rightarrow> dict" where
  "build_local_pinned_trust_anchor C key_id raw =
     [(''schema'', JStr ''amof.local_pinned_trust_anchor/v1''), (''anchor_kind'', JStr ''local_pinned''),
      (''algorithm'', JStr algorithm), (''public_key_id'', JStr (key_text key_id)),
      (''public_key_fingerprint'', JStr (hexdigest C raw)), (''public_key_raw_b64'', JStr (b64encode raw)),
      (''network'', JBool False), (''notes'', JStr anchor_notes)]"

definition verify_package_identity :: "cfg \<Rightarrow> string \<Rightarrow> bytes \<Rightarrow> dict \<Rightarrow> trust_exn + unit" where
  "verify_package_identity C key_id raw m =
     (let pinned_id = key_text (str_or_empty (jget m ''public_key_id'')) in
      bindR (check (jget m ''schema'' \<noteq> JStr ''amof.local_pinned_trust_anchor/v1'') (Trust ''invalid_trust_anchor'')) (\<lambda>_.
      bindR (check (pinned_id \<noteq> key_text key_id) (Trust ''trust_anchor_mismatch'')) (\<lambda>_.
      bindR (case b64decode (py_strip (str_or_empty (jget m ''public_key_raw_b64''))) of
               None \<Rightarrow> Inl (Trust ''invalid_trust_anchor'') | Some k \<Rightarrow> Inr k) (\<lambda>pinned_raw.
      bindR (check (pinned_raw \<noteq> raw) (Trust ''trust_anchor_mismatch'')) (\<lambda>_.
      check (hexdigest C raw \<noteq> pinned_id) (Trust ''key_id_mismatch''))))))"

end
