(* ===== verification/Trust_Policy_Laws.thy ===== *)
theory Trust_Policy_Laws
  imports Trust_Policy Transparency_Laws
begin

section \<open>Laws of the trust policy\<close>

text \<open>
  Every policy that is loaded, and every one enrolments and revocations make of it, is well formed;
  a well-formed policy is read back from its file; the last word on a key decides; a snapshot
  verifies exactly when its policy allowed the key, a pinned anchor when the key has its id.
\<close>

subsection \<open>Key ids\<close>

lemma char_nat: "c = d \<longleftrightarrow> (of_char c :: nat) = of_char d"
  by simp

lemma space_codes: "py_space c \<longleftrightarrow> (of_char c :: nat) \<in> {9, 10, 11, 12, 13, 28, 29, 30, 31, 32, 133, 160}"
  unfolding py_space_def by (simp add: char_nat [of c] del: of_char_eq_iff) blast

lemma lower_code:
  "of_char (lower_char c) = (let n = of_char c :: nat in
     if (65 \<le> n \<and> n \<le> 90) \<or> (192 \<le> n \<and> n \<le> 222 \<and> n \<noteq> 215) then n + 32 else n)"
  by (auto simp: lower_char_def Let_def)

lemma lower_space [simp]: "py_space (lower_char c) = py_space c"
  unfolding space_codes lower_code Let_def by auto

lemma lower_lower [simp]: "lower_char (lower_char c) = lower_char c"
  unfolding char_nat [of "lower_char (lower_char c)"] lower_code Let_def by auto

lemma py_lower_idem [simp]: "py_lower (py_lower s) = py_lower s"
  by (simp add: py_lower_def)

lemma strip_lower: "py_strip (py_lower s) = py_lower (py_strip s)"
proof -
  have d: "dropWhile py_space (map lower_char t) = map lower_char (dropWhile py_space t)" for t
    by (induction t) auto
  show ?thesis by (simp add: py_strip_def py_lower_def d rev_map)
qed

lemma key_text_idem [simp]: "key_text (key_text s) = key_text s"
  by (simp add: key_text_def strip_lower)

lemma key_text_lower [simp]: "py_lower (key_text s) = key_text s"
  by (simp add: key_text_def)

lemma key_text_empty [simp]: "key_text s = [] \<longleftrightarrow> py_strip s = []"
  by (simp add: key_text_def py_lower_def)

lemma key_text_empty' [simp]: "[] = key_text s \<longleftrightarrow> py_strip s = []"
  using key_text_empty [of s] by (metis (no_types))

lemma as_set_set [simp]: "set (as_set xs) = set xs"
  by (simp add: as_set_def)

lemma as_set_as_set [simp]: "as_set (as_set xs) = as_set xs"
  by (simp add: as_set_def distinct_remdups_id sorted_sort_id)

lemma as_set_filter: "as_set xs = xs \<Longrightarrow> as_set (filter p xs) = filter p xs"
proof -
  assume xs: "as_set xs = xs"
  then have "sorted xs" "distinct xs" by (metis as_set_def sorted_sort, metis as_set_def distinct_remdups distinct_sort)
  then show "as_set (filter p xs) = filter p xs"
    by (simp add: as_set_def distinct_remdups_id sorted_sort_id sorted_wrt_filter)
qed

subsection \<open>Well-formed policies\<close>

definition good_keys :: "string list \<Rightarrow> bool" where
  "good_keys ks \<longleftrightarrow> as_set ks = ks \<and> list_all (\<lambda>k. k \<noteq> [] \<and> key_text k = k) ks"

definition policy_ok :: "trust_policy \<Rightarrow> bool" where
  "policy_ok P \<longleftrightarrow> good_keys (allowed_key_ids P) \<and> good_keys (revoked_key_ids P) \<and>
     list_all (\<lambda>k. k \<notin> set (revoked_key_ids P)) (allowed_key_ids P) \<and>
     (case preferred_key_id P of None \<Rightarrow> True | Some k \<Rightarrow> k \<in> set (allowed_key_ids P)) \<and>
     \<not> (require_signatures P \<and> allow_unsigned P)"

lemma policy_ok_empty: "policy_ok (empty_policy r)"
  by (simp add: policy_ok_def empty_policy_def good_keys_def as_set_def)

lemma good_insert: "good_keys ks \<Longrightarrow> key_text k \<noteq> [] \<Longrightarrow> good_keys (as_set (key_text k # ks))"
  by (auto simp: good_keys_def list_all_iff)

lemma good_filter: "good_keys ks \<Longrightarrow> good_keys (filter p ks)"
  by (auto simp: good_keys_def list_all_iff as_set_filter)

lemma policy_ok_enroll: "policy_ok P \<Longrightarrow> key_text k \<noteq> [] \<Longrightarrow> policy_ok (enroll_key P k pref)"
  by (auto simp: policy_ok_def enroll_key_def Let_def good_insert good_filter list_all_iff simp del: key_text_empty
      split: option.splits)

lemma policy_ok_revoke: "policy_ok P \<Longrightarrow> key_text k \<noteq> [] \<Longrightarrow> policy_ok (revoke_key P k)"
  by (auto simp: policy_ok_def revoke_key_def Let_def good_insert good_filter list_all_iff simp del: key_text_empty
      split: option.splits)

lemma good_key_set: "key_set v = Inr ks \<Longrightarrow> good_keys ks"
  by (auto simp: key_set_def good_keys_def Let_def list_all_iff split: if_splits json.splits)

lemma policy_from_dict_ok:
  assumes "policy_from_dict d = Inr P"
  shows "policy_ok P"
  using assms good_key_set
  by (auto simp: policy_from_dict_def bindR_Inr_iff Let_def policy_ok_def list_ex_iff list_all_iff split: if_splits)

lemma load_trust_policy_ok: "load_trust_policy f = Inr P \<Longrightarrow> policy_ok P"
  using policy_from_dict_ok policy_ok_empty
  by (auto simp: load_trust_policy_def split: option.splits rec_file.splits json.splits)

lemma key_set_str_arr: "good_keys ks \<Longrightarrow> key_set (str_arr ks) = Inr ks"
proof -
  assume g: "good_keys ks"
  have "py_strip k \<noteq> []" "key_text k = k" if "k \<in> set ks" for k
    using g that by (auto simp: good_keys_def list_all_iff) (metis key_text_empty)
  then have "filter (\<lambda>t. py_strip t \<noteq> []) ks = ks" "map key_text ks = ks" by (simp_all add: map_idI)
  with g show ?thesis by (cases ks) (auto simp: key_set_def str_arr_def good_keys_def o_def Let_def)
qed

lemma policy_read_back:
  assumes "policy_ok P"
  shows "load_trust_policy (Some (write_trust_policy P)) = Inr P"
proof -
  have g: "key_set (str_arr (allowed_key_ids P)) = Inr (allowed_key_ids P)"
    "key_set (str_arr (revoked_key_ids P)) = Inr (revoked_key_ids P)"
    using assms key_set_str_arr by (auto simp: policy_ok_def)
  have f: "jget (policy_payload P) ''schema'' = JStr ''amof.trust_policy/v1''"
    "jget (policy_payload P) ''allowed_key_ids'' = str_arr (allowed_key_ids P)"
    "jget (policy_payload P) ''revoked_key_ids'' = str_arr (revoked_key_ids P)"
    "jget (policy_payload P) ''preferred_key_id'' = (case preferred_key_id P of None \<Rightarrow> JNull | Some k \<Rightarrow> JStr k)"
    "get_bool (policy_payload P) ''require_signatures'' x = require_signatures P"
    "get_bool (policy_payload P) ''allow_unknown_keys'' x = allow_unknown_keys P"
    "get_bool (policy_payload P) ''allow_unsigned'' x = allow_unsigned P" for x
    by (simp_all add: policy_payload_def jget_def get_bool_def)
  let ?pref = "case preferred_key_id P of None \<Rightarrow> [] | Some k \<Rightarrow> k"
  have p: "key_text (str_or_empty (case preferred_key_id P of None \<Rightarrow> JNull | Some k \<Rightarrow> JStr k)) = ?pref"
    "(if ?pref = [] then None else Some ?pref) = preferred_key_id P" "?pref \<noteq> [] \<Longrightarrow> ?pref \<in> set (allowed_key_ids P)"
    using assms by (auto simp: policy_ok_def good_keys_def list_all_iff split: option.splits)
  have u: "(\<not> require_signatures P \<and> allow_unsigned P) = allow_unsigned P"
    and o: "\<not> list_ex (\<lambda>k. k \<in> set (revoked_key_ids P)) (allowed_key_ids P)"
    using assms by (auto simp: policy_ok_def list_ex_iff list_all_iff)
  have "policy_from_dict (policy_payload P) = Inr \<lparr>allowed_key_ids = allowed_key_ids P, revoked_key_ids = revoked_key_ids P,
      preferred_key_id = preferred_key_id P, require_signatures = require_signatures P,
      allow_unknown_keys = allow_unknown_keys P, allow_unsigned = allow_unsigned P\<rparr>"
    unfolding policy_from_dict_def f g bindR_simps Let_def p(1,2) u using p(3) o by (auto simp: bindR_check)
  then show ?thesis by (simp add: load_trust_policy_def write_trust_policy_def)
qed

subsection \<open>The last word on a key\<close>

datatype authority_act = Enroll string bool | Revoke string

fun apply_act :: "trust_policy \<Rightarrow> authority_act \<Rightarrow> trust_policy" where
  "apply_act P (Enroll k pref) = enroll_key P k pref"
| "apply_act P (Revoke k) = revoke_key P k"

fun act_key :: "authority_act \<Rightarrow> string" where
  "act_key (Enroll k pref) = key_text k"
| "act_key (Revoke k) = key_text k"

text \<open>What the last action naming the key said: enrolled, revoked, or nothing.\<close>

fun last_word :: "string \<Rightarrow> authority_act list \<Rightarrow> bool option" where
  "last_word k [] = None"
| "last_word k (act # acts) =
     (case last_word k acts of
        Some b \<Rightarrow> Some b
      | None \<Rightarrow> if act_key act = k then Some (case act of Enroll _ _ \<Rightarrow> True | Revoke _ \<Rightarrow> False) else None)"

lemma allowed_after:
  "(k \<in> set (allowed_key_ids (foldl apply_act P acts)) \<longleftrightarrow>
      (case last_word k acts of Some b \<Rightarrow> b | None \<Rightarrow> k \<in> set (allowed_key_ids P))) \<and>
   (k \<in> set (revoked_key_ids (foldl apply_act P acts)) \<longleftrightarrow>
      (case last_word k acts of Some b \<Rightarrow> \<not> b | None \<Rightarrow> k \<in> set (revoked_key_ids P)))"
proof (induction acts arbitrary: P)
  case (Cons act acts)
  have "k \<in> set (allowed_key_ids (apply_act P act)) \<longleftrightarrow>
      (if act_key act = k then (case act of Enroll _ _ \<Rightarrow> True | Revoke _ \<Rightarrow> False) else k \<in> set (allowed_key_ids P))"
    "k \<in> set (revoked_key_ids (apply_act P act)) \<longleftrightarrow>
      (if act_key act = k then (case act of Enroll _ _ \<Rightarrow> False | Revoke _ \<Rightarrow> True) else k \<in> set (revoked_key_ids P))"
    by (cases act; auto simp: enroll_key_def revoke_key_def Let_def)+
  with Cons [of "apply_act P act"] show ?case
    by (cases act) (auto split: option.splits)
qed simp

lemma unknown_after: "allow_unknown_keys (foldl apply_act P acts) = allow_unknown_keys P"
proof (induction acts arbitrary: P)
  case (Cons act acts)
  have "allow_unknown_keys (apply_act P act) = allow_unknown_keys P"
    by (cases act) (simp_all add: enroll_key_def revoke_key_def Let_def)
  with Cons show ?case by simp
qed simp

lemma policy_ok_after:
  "policy_ok P \<Longrightarrow> list_all (\<lambda>act. act_key act \<noteq> []) acts \<Longrightarrow> policy_ok (foldl apply_act P acts)"
proof (induction acts arbitrary: P)
  case (Cons act acts)
  then have "policy_ok (apply_act P act)" by (cases act) (auto intro: policy_ok_enroll policy_ok_revoke)
  with Cons show ?case by simp
qed simp

lemma usable_after:
  "assert_key_usable (foldl apply_act P acts) key =
     (if key_text key = [] then Inl (Trust ''missing_key'')
      else case last_word (key_text key) acts of
        Some True \<Rightarrow> Inr ()
      | Some False \<Rightarrow> Inl (Trust ''revoked_key'')
      | None \<Rightarrow> assert_key_usable P key)"
  using allowed_after [of "key_text key" P acts]
  by (auto simp: assert_key_usable_def Let_def unknown_after split: option.splits bool.splits)

subsection \<open>Snapshot and anchor\<close>

text \<open>The arguments as the builder of a snapshot writes them.\<close>

definition written_args :: "snapshot_args \<Rightarrow> snapshot_args" where
  "written_args a =
     a\<lparr>sn_key := key_text (sn_key a), sn_fingerprint := key_text (sn_fingerprint a),
       sn_manifest := key_text (sn_manifest a), sn_evidence := key_text (sn_evidence a),
       sn_signature := key_text (sn_signature a)\<rparr>"

lemma snapshot_fields:
  fixes C P a at
  defines "s \<equiv> build_trust_snapshot C P a at"
  shows "jget s ''schema'' = JStr ''amof.trust_snapshot/v1''" "jget s ''kind'' = JStr ''TRUST_AT_FINALIZATION''"
    "jget s ''run_id'' = JStr (sn_run a)" "jget s ''trusted_key_id'' = JStr (key_text (sn_key a))"
    "jget s ''public_key_fingerprint'' = JStr (key_text (sn_fingerprint a))"
    "jget s ''trust_decision'' = JStr (trust_decision P (key_text (sn_key a)))"
    "jget s ''manifest_digest'' = JStr (key_text (sn_manifest a))"
    "jget s ''evidence_digest'' = JStr (key_text (sn_evidence a))"
    "jget s ''signature_digest'' = JStr (key_text (sn_signature a))"
    "jget s ''revoked_at_finalization'' = JBool (key_text (sn_key a) \<in> set (revoked_key_ids P))"
    "jget s ''allowed_at_finalization'' = JBool (key_text (sn_key a) \<in> set (allowed_key_ids P))"
  by (simp_all add: s_def build_trust_snapshot_def Let_def jget_def)

lemma snapshot_verifies_iff:
  "verify_trust_snapshot (build_trust_snapshot C P a at) (written_args a) =
     (if trust_decision P (key_text (sn_key a)) = ''ALLOWED'' then Inr () else Inl (Trust ''snapshot_untrusted''))"
  by (auto simp: verify_trust_snapshot_def snapshot_fields snapshot_field_def written_args_def bindR_check check_def
      trust_decision_def split: if_splits)

lemma anchor_verifies_iff:
  "verify_package_identity C key raw (build_local_pinned_trust_anchor C key raw) =
     (if hexdigest C raw = key_text key then Inr () else Inl (Trust ''key_id_mismatch''))"
  by (auto simp: verify_package_identity_def build_local_pinned_trust_anchor_def jget_def Let_def bindR_check check_def)

lemma anchor_pins:
  assumes "verify_package_identity C key raw m = Inr ()" "verify_package_identity C key' raw' m = Inr ()"
  shows "raw = raw' \<and> key_text key = key_text key' \<and> hexdigest C raw = key_text key"
  using assms unfolding verify_package_identity_def Let_def bindR_Inr_iff check_Inr_iff case_json_iff
  by (elim exE conjE) simp

end
