(* ===== verification/Loop_Budget.thy ===== *)
theory Loop_Budget
  imports Kube_Store
begin

section \<open>The loop budget of the native agent\<close>

text \<open>
  \<open>execution_backends/native_loop_budget.py\<close>: the policy, the fingerprint of observed progress,
  its comparison with a checkpoint, and the decisions to extend a run, to ask for a synthesis or
  to stop. A \<open>ValueError\<close> is its text. The sets of observation keys are lists without duplicates.
\<close>

subsection \<open>Searching a text\<close>

text \<open>\<open>re.search\<close>: the first position at which a match starts.\<close>

fun first_match :: "(string \<Rightarrow> 'a option) \<Rightarrow> string \<Rightarrow> 'a option" where
  "first_match f [] = f []"
| "first_match f (c # cs) = (case f (c # cs) of Some x \<Rightarrow> Some x | None \<Rightarrow> first_match f cs)"

definition found :: "(string \<Rightarrow> bool) \<Rightarrow> string \<Rightarrow> bool" where
  "found p s \<longleftrightarrow> first_match (\<lambda>t. if p t then Some () else None) s \<noteq> None"

text \<open>\<open>_PATH_NOISE_RE\<close>; the dot of \<open>path .* outside\<close> does not match the end of a line.\<close>

definition path_noise_re :: "string \<Rightarrow> bool" where
  "path_noise_re text \<longleftrightarrow>
     (let t = py_lower text in
      list_ex (\<lambda>p. found (\<lambda>s. starts_with s p) t)
        [''enoent'', ''no such file'', ''not a file'', ''not a directory'', ''package.json'', ''node_modules''] \<or>
      list_ex (found (\<lambda>s. starts_with s ''path '' \<and> found (\<lambda>r. starts_with r '' outside'') (drop 5 s)))
        (py_split CHR 0x0A t))"

text \<open>\<open>_EXIT_CODE_RE\<close> and \<open>int\<close> of its group, which refuses more than 4300 digits.\<close>

definition exit_code_here :: "string \<Rightarrow> string option" where
  "exit_code_here s =
     (if \<not> starts_with (py_lower s) ''exit_code'' then None
      else case dropWhile py_space (drop 9 s) of
        [] \<Rightarrow> None
      | c # r \<Rightarrow>
          if c \<noteq> CHR ''='' then None
          else
            let t = dropWhile py_space r;
                sign = (if starts_with t ''-'' then ''-'' else []);
                digits = takeWhile is_digit (drop (length sign) t) in
            if digits = [] then None else Some (sign @ digits))"

definition shell_exit_code :: "string \<Rightarrow> int option" where
  "shell_exit_code output =
     (case first_match exit_code_here output of
        None \<Rightarrow> None
      | Some g \<Rightarrow>
          let neg = starts_with g ''-''; digits = (if neg then drop 1 g else g) in
          if 4300 < length digits then None
          else Some (if neg then - int (num_val digits) else int (num_val digits)))"

text \<open>\<open>(?m)^FILE_SHA256: ([0-9a-f]{64})$\<close>.\<close>

definition file_sha256_line :: "string \<Rightarrow> string option" where
  "file_sha256_line line =
     (let h = drop 13 line in
      if starts_with line ''FILE_SHA256: '' \<and> length h = 64 \<and> list_all (\<lambda>c. c \<in> set hex_chars) h then Some h
      else None)"

fun first_some :: "('a \<Rightarrow> 'b option) \<Rightarrow> 'a list \<Rightarrow> 'b option" where
  "first_some f [] = None"
| "first_some f (x # xs) = (case f x of Some y \<Rightarrow> Some y | None \<Rightarrow> first_some f xs)"

definition file_sha256 :: "string \<Rightarrow> string option" where
  "file_sha256 output = first_some file_sha256_line (py_split CHR 0x0A output)"

subsection \<open>Policy\<close>

record loop_policy =
  lp_schema :: string
  lp_version :: string
  base_turn_limit :: int
  extension_increment :: int
  max_extension_count :: int
  absolute_turn_limit :: int

definition validate_policy :: "loop_policy \<Rightarrow> string + unit" where
  "validate_policy p =
     bindR (check (base_turn_limit p < 1) ''base_turn_limit must be >= 1'') (\<lambda>_.
     bindR (check (extension_increment p < 1) ''extension_increment must be >= 1'') (\<lambda>_.
     bindR (check (max_extension_count p < 0) ''max_extension_count must be >= 0'') (\<lambda>_.
     bindR (check (absolute_turn_limit p < base_turn_limit p) ''absolute_turn_limit must be >= base_turn_limit'') (\<lambda>_.
     check (base_turn_limit p * 3 < absolute_turn_limit p)
       ''absolute_turn_limit too large relative to base (boundedness)''))))"

definition default_policy :: loop_policy where
  "default_policy =
     \<lparr>lp_schema = ''amof.native_loop_budget/v1'', lp_version = ''native-loop-budget-v1.1'',
      base_turn_limit = 12, extension_increment = 3, max_extension_count = 2, absolute_turn_limit = 18\<rparr>"

definition workspace_code_policy :: loop_policy where
  "workspace_code_policy =
     default_policy\<lparr>lp_version := ''native-workspace-code-budget-v1'', base_turn_limit := 24,
       extension_increment := 8, max_extension_count := 3, absolute_turn_limit := 48\<rparr>"

subsection \<open>Fingerprint\<close>

record fingerprint =
  grant_tree_digest :: string
  write_digest :: string
  shell_exit_fingerprint :: string
  failure_signature :: string
  tool_outcome_signature :: string
  successful_write_count :: nat
  successful_shell_count :: nat
  failed_shell_count :: nat
  path_noise_count :: nat
  phase :: string
  evidence_coverage_digest :: string
  successful_evidence_count :: nat

definition empty_fingerprint :: fingerprint where
  "empty_fingerprint =
     \<lparr>grant_tree_digest = [], write_digest = [], shell_exit_fingerprint = [], failure_signature = [],
      tool_outcome_signature = [], successful_write_count = 0, successful_shell_count = 0,
      failed_shell_count = 0, path_noise_count = 0, phase = ''init'', evidence_coverage_digest = [],
      successful_evidence_count = 0\<rparr>"

definition fp_payload :: "fingerprint \<Rightarrow> json" where
  "fp_payload fp = JObj
     [(''grant_tree_digest'', JStr (grant_tree_digest fp)), (''write_digest'', JStr (write_digest fp)),
      (''shell_exit_fingerprint'', JStr (shell_exit_fingerprint fp)), (''failure_signature'', JStr (failure_signature fp)),
      (''tool_outcome_signature'', JStr (tool_outcome_signature fp)),
      (''successful_write_count'', JInt (int (successful_write_count fp))),
      (''successful_shell_count'', JInt (int (successful_shell_count fp))),
      (''failed_shell_count'', JInt (int (failed_shell_count fp))),
      (''path_noise_count'', JInt (int (path_noise_count fp))), (''phase'', JStr (phase fp)),
      (''evidence_coverage_digest'', JStr (evidence_coverage_digest fp)),
      (''successful_evidence_count'', JInt (int (successful_evidence_count fp)))]"

definition fp_digest :: "cfg \<Rightarrow> fingerprint \<Rightarrow> string" where
  "fp_digest C fp = take 16 (hexdigest C (dumps (fp_payload fp)))"

definition stable_hash :: "cfg \<Rightarrow> string \<Rightarrow> string" where
  "stable_hash C s = take 12 (hexdigest C s)"

definition digest_grant_tree :: "cfg \<Rightarrow> (string \<times> string) list \<Rightarrow> string" where
  "digest_grant_tree C paths =
     take 16 (hexdigest C (dumps (JArr (map (\<lambda>(k, h). JArr [JStr k, JStr h])
       (sort (map (\<lambda>(k, v). (k, stable_hash C v)) paths))))))"

subsection \<open>One tool observation\<close>

definition evidence_tools :: "string list" where
  "evidence_tools = [''read_file'', ''list_dir'', ''glob'']"

definition observation_key :: "string \<Rightarrow> dict \<Rightarrow> string option" where
  "observation_key name arguments =
     (let path =
        (if name = ''read_file'' then Some (py_strip (str_or_empty (jget arguments ''path'')))
         else if name = ''list_dir'' then
           (let raw = jget arguments ''path'';
                p = py_strip (if truthy raw then py_str raw else ''.'') in
            Some (if p = [] then ''.'' else p))
         else if name = ''glob'' then
           (let pat = jget arguments ''pattern'' in
            Some (py_strip (if truthy pat then py_str pat else str_or_empty (jget arguments ''path''))))
         else None) in
      case path of
        None \<Rightarrow> None
      | Some p \<Rightarrow>
          if p = [] \<or> CHR 0x00 \<in> set p \<or> CHR 0x5C \<in> set p then None
          else if starts_with p ''/'' \<or> list_ex (\<lambda>part. part = ''..'') (py_split CHR ''/'' p) then None
          else Some (name @ '':'' @ p))"

datatype failure_class = Path_noise | Shell_unknown | Shell_ok | Shell_fail int | Tool_error | Class_ok

fun class_text :: "failure_class \<Rightarrow> string" where
  "class_text Path_noise = ''path_noise''"
| "class_text Shell_unknown = ''shell_unknown''"
| "class_text Shell_ok = ''shell_ok''"
| "class_text (Shell_fail code) = ''shell_fail_'' @ int_str code"
| "class_text Tool_error = ''tool_error''"
| "class_text Class_ok = ''ok''"

text \<open>An error is the text \<open>error or ""\<close>.\<close>

definition classify_tool_failure :: "string \<Rightarrow> string \<Rightarrow> string \<Rightarrow> failure_class" where
  "classify_tool_failure name output error =
     (if path_noise_re (error @ [CHR 0x0A] @ output) then Path_noise
      else if name = ''run_shell'' then
        (case shell_exit_code output of
           None \<Rightarrow> Shell_unknown
         | Some code \<Rightarrow> if code = 0 then Shell_ok else Shell_fail code)
      else if error \<noteq> [] then Tool_error else Class_ok)"

text \<open>The first part: the signature of outcomes, and coverage by a read that succeeded.\<close>

definition note_evidence ::
  "cfg \<Rightarrow> string \<Rightarrow> dict \<Rightarrow> failure_class \<Rightarrow> string \<Rightarrow> fingerprint \<Rightarrow> string list \<Rightarrow> fingerprint \<times> string list" where
  "note_evidence C name arguments fc error fp keys =
     (if fc = Class_ok \<and> error = [] \<and> name \<in> set evidence_tools then
        (case observation_key name arguments of
           None \<Rightarrow> (fp, keys)
         | Some key \<Rightarrow>
             if key \<in> set keys then (fp, keys)
             else
               let keys' = keys @ [key] in
               (fp\<lparr>successful_evidence_count := length keys',
                   evidence_coverage_digest := stable_hash C (py_join ''|'' (sort keys')),
                   phase := (if phase fp = ''init'' then ''evidence'' else phase fp)\<rparr>, keys'))
      else (fp, keys))"

definition note_outcome ::
  "cfg \<Rightarrow> string \<Rightarrow> dict \<Rightarrow> string \<Rightarrow> failure_class \<Rightarrow> string \<Rightarrow> string \<Rightarrow> fingerprint \<Rightarrow> fingerprint" where
  "note_outcome C name arguments args_key fc output error fp =
     (let h = stable_hash C; out = h (take 400 output) in
      case fc of
        Path_noise \<Rightarrow>
          fp\<lparr>path_noise_count := path_noise_count fp + 1,
             failure_signature := h (failure_signature fp @ '':path_noise:'' @ name @ '':'' @ args_key)\<rparr>
      | Shell_fail code \<Rightarrow>
          fp\<lparr>failed_shell_count := failed_shell_count fp + 1,
             failure_signature := h (failure_signature fp @ '':'' @ class_text fc @ '':'' @ h args_key),
             shell_exit_fingerprint := h (shell_exit_fingerprint fp @ '':'' @ int_str code @ '':'' @ out)\<rparr>
      | Shell_ok \<Rightarrow>
          fp\<lparr>successful_shell_count := successful_shell_count fp + 1,
             shell_exit_fingerprint := h (shell_exit_fingerprint fp @ '':0:'' @ out), phase := ''validation_ok''\<rparr>
      | _ \<Rightarrow>
          if name = ''replace_text'' \<and> error = [] \<and> fc = Class_ok then
            (case file_sha256 output of
               Some digest \<Rightarrow>
                 if digest \<noteq> str_or_empty (jget arguments ''expected_file_sha256'') then
                   fp\<lparr>successful_write_count := successful_write_count fp + 1,
                      write_digest := h (write_digest fp @ '':'' @ str_or_empty (jget arguments ''path'') @ '':'' @ digest),
                      phase := ''implementation''\<rparr>
                 else fp
             | None \<Rightarrow> fp)
          else if name = ''write_file'' \<and> error = [] then
            fp\<lparr>successful_write_count := successful_write_count fp + 1,
               write_digest := h (write_digest fp @ '':'' @ str_or_empty (jget arguments ''path'') @ '':'' @
                 h (str_or_empty (jget arguments ''content''))),
               phase := ''implementation''\<rparr>
          else if error \<noteq> [] then
            fp\<lparr>failure_signature := h (failure_signature fp @ '':error:'' @ name @ '':'' @ args_key)\<rparr>
          else fp)"

definition observe_tool_result ::
  "cfg \<Rightarrow> string \<Rightarrow> dict \<Rightarrow> string \<Rightarrow> string \<Rightarrow> string option \<Rightarrow> fingerprint \<times> string list \<Rightarrow> fingerprint \<times> string list" where
  "observe_tool_result C name arguments output error grant_digest seen =
     (let (fp, keys) = seen;
          args_key = dumps (JObj arguments);
          fc = classify_tool_failure name output error;
          bits = name @ ''|'' @ args_key @ ''|'' @ class_text fc @ ''|'' @ take 240 output;
          fp1 = fp\<lparr>tool_outcome_signature := stable_hash C (tool_outcome_signature fp @ '':'' @ bits)\<rparr>;
          (fp2, keys') = note_evidence C name arguments fc error fp1 keys;
          fp3 = note_outcome C name arguments args_key fc output error fp2 in
      (case grant_digest of None \<Rightarrow> fp3 | Some g \<Rightarrow> fp3\<lparr>grant_tree_digest := g\<rparr>, keys'))"

subsection \<open>Comparison with a checkpoint\<close>

datatype progress_verdict = MATERIAL_PROGRESS | PARTIAL_PROGRESS | EVIDENCE_PROGRESS | NO_PROGRESS | UNKNOWN

fun verdict_text :: "progress_verdict \<Rightarrow> string" where
  "verdict_text MATERIAL_PROGRESS = ''MATERIAL_PROGRESS''"
| "verdict_text PARTIAL_PROGRESS = ''PARTIAL_PROGRESS''"
| "verdict_text EVIDENCE_PROGRESS = ''EVIDENCE_PROGRESS''"
| "verdict_text NO_PROGRESS = ''NO_PROGRESS''"
| "verdict_text UNKNOWN = ''UNKNOWN''"

record progress_eval =
  pe_verdict :: progress_verdict
  pe_evidence :: "string list"
  pe_current :: string
  pe_baseline :: string

text \<open>The comparisons made between two fingerprints.\<close>

record movement =
  write_advanced :: bool
  grant_advanced :: bool
  shell_advanced :: bool
  failure_evolved :: bool
  writes_increased :: bool
  shells_ok_increased :: bool
  evidence_advanced :: bool
  noise_increased :: bool
  failed_increased :: bool

definition movement_of :: "fingerprint \<Rightarrow> fingerprint \<Rightarrow> movement" where
  "movement_of cur base =
     \<lparr>write_advanced = write_digest cur \<noteq> write_digest base,
      grant_advanced = grant_tree_digest cur \<noteq> grant_tree_digest base \<and> grant_tree_digest cur \<noteq> [],
      shell_advanced = shell_exit_fingerprint cur \<noteq> shell_exit_fingerprint base,
      failure_evolved = failure_signature cur \<noteq> failure_signature base,
      writes_increased = successful_write_count base < successful_write_count cur,
      shells_ok_increased = successful_shell_count base < successful_shell_count cur,
      evidence_advanced = successful_evidence_count base < successful_evidence_count cur \<and>
        evidence_coverage_digest cur \<noteq> evidence_coverage_digest base,
      noise_increased = path_noise_count base < path_noise_count cur,
      failed_increased = failed_shell_count base < failed_shell_count cur\<rparr>"

text \<open>Nothing was written, granted, validated or newly read.\<close>

definition standing :: "movement \<Rightarrow> bool" where
  "standing m \<longleftrightarrow>
     \<not> write_advanced m \<and> \<not> grant_advanced m \<and> \<not> shells_ok_increased m \<and> \<not> evidence_advanced m"

definition material_bits :: "fingerprint \<Rightarrow> fingerprint \<Rightarrow> movement \<Rightarrow> string list" where
  "material_bits cur base m =
     (if (write_advanced m \<or> grant_advanced m \<or> writes_increased m) \<and>
         (shells_ok_increased m \<or> shell_advanced m \<or> failure_evolved m)
      then [''implementation_plus_validation_movement''] else []) @
     (if shells_ok_increased m \<and> (write_advanced m \<or> grant_advanced m)
      then [''validation_improved_after_implementation''] else []) @
     (if phase cur = ''validation_ok'' \<and> phase base \<noteq> ''validation_ok''
      then [''reached_validation_ok_phase''] else [])"

definition compare_progress :: "fingerprint \<Rightarrow> fingerprint \<Rightarrow> progress_verdict \<times> string list" where
  "compare_progress cur base =
     (let m = movement_of cur base; bits = material_bits cur base m in
      if noise_increased m \<and> standing m \<and> failed_shell_count base \<le> failed_shell_count cur then
        (NO_PROGRESS, [''path_noise_without_material_state_change''])
      else if failure_evolved m \<and> standing m \<and> (failed_increased m \<or> noise_increased m) then
        (NO_PROGRESS, [''failure_churn_without_implementation_or_validation_gain''])
      else if bits \<noteq> [] then
        (MATERIAL_PROGRESS,
         bits @ (if write_advanced m \<or> grant_advanced m then [''relevant_diff_advanced''] else []) @
         (if shells_ok_increased m \<or> shell_advanced m then [''test_or_shell_state_changed''] else []))
      else if write_advanced m \<or> grant_advanced m \<or> writes_increased m then
        (PARTIAL_PROGRESS, [''implementation_state_changed''])
      else if shell_advanced m then (PARTIAL_PROGRESS, [''shell_result_changed''])
      else if evidence_advanced m then (EVIDENCE_PROGRESS, [''new_successful_observation_coverage''])
      else (NO_PROGRESS, [''no_material_machine_observable_delta'']))"

definition evaluate_progress ::
  "cfg \<Rightarrow> fingerprint \<Rightarrow> fingerprint option \<Rightarrow> string list \<Rightarrow> progress_eval" where
  "evaluate_progress C cur baseline recent =
     (let d = fp_digest C cur in
      case baseline of
        None \<Rightarrow> \<lparr>pe_verdict = UNKNOWN, pe_evidence = [''no_baseline_fingerprint''], pe_current = d, pe_baseline = []\<rparr>
      | Some base \<Rightarrow>
          let b = fp_digest C base;
              (v, ev) =
                (if d \<in> set (butlast recent) then (NO_PROGRESS, [''oscillating_state_digest'', d])
                 else if d = b then (NO_PROGRESS, [''identical_progress_fingerprint''])
                 else compare_progress cur base) in
          \<lparr>pe_verdict = v, pe_evidence = ev, pe_current = d, pe_baseline = b\<rparr>)"

subsection \<open>State and decisions\<close>

record ext_decision =
  ed_granted :: bool
  ed_at_turn :: int
  ed_verdict :: progress_verdict
  ed_evidence :: "string list"
  ed_turns :: int
  ed_count_after :: int
  ed_absolute :: int
  ed_reason :: string

record progress_check =
  pc_at_turn :: int
  pc_readonly :: bool
  pc_eval :: progress_eval

record budget =
  bu_policy :: loop_policy
  turns_used :: int
  effective_turn_limit :: int
  extension_count :: int
  extensions :: "ext_decision list"
  progress_checks :: "progress_check list"
  denied_extensions :: "ext_decision list"
  bu_fingerprint :: fingerprint
  checkpoint_fingerprint :: "fingerprint option"
  recent_state_digests :: "string list"
  last_stop_reason :: "string option"
  observed_evidence_keys :: "string list"
  synthesis_required :: bool
  synthesis_consumed :: bool
  continuation_request :: "(string \<times> string \<times> string) option"

text \<open>\<open>LoopBudgetState(policy=p)\<close>, whose \<open>__post_init__\<close> validates the policy.\<close>

definition new_budget :: "loop_policy \<Rightarrow> string + budget" where
  "new_budget p =
     bindR (validate_policy p) (\<lambda>_.
     Inr \<lparr>bu_policy = p, turns_used = 0, effective_turn_limit = base_turn_limit p, extension_count = 0,
          extensions = [], progress_checks = [], denied_extensions = [], bu_fingerprint = empty_fingerprint,
          checkpoint_fingerprint = None, recent_state_digests = [], last_stop_reason = None,
          observed_evidence_keys = [], synthesis_required = False, synthesis_consumed = False,
          continuation_request = None\<rparr>)"

definition workspace_write_extension_eligible :: "budget \<Rightarrow> string \<Rightarrow> string list \<Rightarrow> bool" where
  "workspace_write_extension_eligible b workspace exposed \<longleftrightarrow>
     workspace \<noteq> [] \<and> ''run_shell'' \<notin> set exposed \<and> ''run_tests'' \<notin> set exposed \<and>
     (case checkpoint_fingerprint b of
        None \<Rightarrow> False
      | Some base \<Rightarrow>
          successful_write_count base < successful_write_count (bu_fingerprint b) \<and>
          write_digest (bu_fingerprint b) \<noteq> write_digest base)"

definition decision :: "budget \<Rightarrow> int \<Rightarrow> progress_eval \<Rightarrow> bool \<Rightarrow> int \<Rightarrow> string \<Rightarrow> ext_decision" where
  "decision b at_turn e granted turns why =
     \<lparr>ed_granted = granted, ed_at_turn = at_turn, ed_verdict = pe_verdict e, ed_evidence = pe_evidence e,
      ed_turns = turns, ed_count_after = extension_count b, ed_absolute = absolute_turn_limit (bu_policy b),
      ed_reason = why\<rparr>"

definition deny :: "int \<Rightarrow> progress_eval \<Rightarrow> string \<Rightarrow> budget \<Rightarrow> ext_decision \<times> budget" where
  "deny at_turn e why b =
     (let d = decision b at_turn e False 0 (''extension_denied:'' @ why) in
      (d, b\<lparr>denied_extensions := denied_extensions b @ [d]\<rparr>))"

definition decide_extension :: "cfg \<Rightarrow> int \<Rightarrow> bool \<Rightarrow> budget \<Rightarrow> ext_decision \<times> budget" where
  "decide_extension C at_turn require_material b0 =
     (let e = evaluate_progress C (bu_fingerprint b0) (checkpoint_fingerprint b0) (recent_state_digests b0);
          b = b0\<lparr>progress_checks := progress_checks b0 @ [\<lparr>pc_at_turn = at_turn, pc_readonly = False, pc_eval = e\<rparr>]\<rparr>;
          p = bu_policy b;
          next_limit = min (effective_turn_limit b + extension_increment p) (absolute_turn_limit p);
          granted_turns = next_limit - effective_turn_limit b in
      if \<not> (pe_verdict e = MATERIAL_PROGRESS \<or> (\<not> require_material \<and> pe_verdict e = PARTIAL_PROGRESS)) then
        deny at_turn e (verdict_text (pe_verdict e)) b
      else if max_extension_count p \<le> extension_count b then deny at_turn e ''max_extension_count'' b
      else if granted_turns \<le> 0 then deny at_turn e ''already_at_absolute'' b
      else
        let b' = b\<lparr>effective_turn_limit := next_limit, extension_count := extension_count b + 1,
                   checkpoint_fingerprint := Some (bu_fingerprint b)\<rparr>;
            d = decision b' at_turn e True granted_turns (''extension_granted:'' @ verdict_text (pe_verdict e)) in
        (d, b'\<lparr>extensions := extensions b' @ [d]\<rparr>))"

definition stop_base_no_progress :: string where
  "stop_base_no_progress = ''amof_native_base_budget_no_progress''"

definition stop_extension_no_progress :: string where
  "stop_extension_no_progress = ''amof_native_extension_budget_no_progress''"

definition stop_absolute_turn_limit :: string where
  "stop_absolute_turn_limit = ''amof_native_absolute_turn_limit''"

definition stop_synthesis_not_completed :: string where
  "stop_synthesis_not_completed = ''amof_native_synthesis_not_completed''"

definition termination_after_denied_extension :: "budget \<Rightarrow> string" where
  "termination_after_denied_extension b =
     (if extension_count b = 0 then stop_base_no_progress
      else if absolute_turn_limit (bu_policy b) \<le> turns_used b then stop_absolute_turn_limit
      else stop_extension_no_progress)"

definition note_turn_complete :: "cfg \<Rightarrow> int \<Rightarrow> budget \<Rightarrow> budget" where
  "note_turn_complete C n b =
     (let recent = recent_state_digests b @ [fp_digest C (bu_fingerprint b)];
          window = (if 6 < length recent then drop (length recent - 6) recent else recent);
          p = bu_policy b in
      b\<lparr>turns_used := n, recent_state_digests := window,
        checkpoint_fingerprint :=
          (if checkpoint_fingerprint b = None \<and> max 1 (base_turn_limit p - extension_increment p) \<le> n
           then Some (bu_fingerprint b) else checkpoint_fingerprint b)\<rparr>)"

definition lifetime_evidence_evaluation :: "cfg \<Rightarrow> budget \<Rightarrow> progress_eval" where
  "lifetime_evidence_evaluation C b = evaluate_progress C (bu_fingerprint b) (Some empty_fingerprint) []"

text \<open>Whether a synthesis turn is required; otherwise the stop reason is \<open>stop_base_no_progress\<close>.\<close>

definition decide_readonly_synthesis :: "cfg \<Rightarrow> int \<Rightarrow> budget \<Rightarrow> bool \<times> budget" where
  "decide_readonly_synthesis C at_turn b0 =
     (let e = lifetime_evidence_evaluation C b0;
          b = b0\<lparr>progress_checks := progress_checks b0 @ [\<lparr>pc_at_turn = at_turn, pc_readonly = True, pc_eval = e\<rparr>]\<rparr>;
          next_limit = min (at_turn + 1) (absolute_turn_limit (bu_policy b)) in
      if \<not> (0 < successful_evidence_count (bu_fingerprint b) \<and>
             pe_verdict e \<in> set [EVIDENCE_PROGRESS, PARTIAL_PROGRESS, MATERIAL_PROGRESS])
         \<or> next_limit \<le> effective_turn_limit b
      then (False, b\<lparr>last_stop_reason := Some stop_base_no_progress\<rparr>)
      else (True, b\<lparr>synthesis_required := True, effective_turn_limit := next_limit\<rparr>))"

definition model_budget_notice :: "budget \<Rightarrow> int \<Rightarrow> string" where
  "model_budget_notice b n =
     ''Runtime work budget: turn '' @ int_str n @ '' of '' @ int_str (effective_turn_limit b) @ ''; '' @
     int_str (effective_turn_limit b - n + 1) @ '' permitted turns remain in the current block; absolute ceiling '' @
     int_str (absolute_turn_limit (bu_policy b)) @ ''. The host alone may grant up to '' @
     int_str (max_extension_count (bu_policy b)) @ '' extensions of '' @
     int_str (extension_increment (bu_policy b)) @ '' turns on verified useful progress, '' @
     ''subject to time and monetary limits. To request continuation, include '' @
     ''AMOF_CONTINUE_REQUEST: completed=<fact>; remaining=<task>; reason=<need> '' @
     ''in your response. Your request grants nothing. Finish the task early; '' @
     ''when fewer than three turns remain, complete or give a truthful '' @
     ''checkpoint with the current candidate and specific remaining blocker.''"

end
