(* ===== verification/Model_Loop.thy ===== *)
theory Model_Loop
  imports Loop_Budget
begin

section \<open>The model loop of the native agent\<close>

text \<open>
  \<open>_run_model_loop\<close> of \<open>execution_backends/amof_native.py\<close> under the loop budget. What the model,
  the tools, the clock and the campaign do is the input of each turn, under no assumption: the
  decoded reply, what each tool call returned, whether the deadline had passed. The profile of the
  run (what may be written, a first file to write or edit) is a \<open>loop_conf\<close>. The messages, the event
  log and the usage accounting are not kept; the tools offered in each turn are.
\<close>

record loop_conf =
  lc_writable :: bool
  lc_exact_document :: bool
  lc_exact_code :: bool
  lc_workspace :: string
  lc_first_write :: "string option"
  lc_first_edit :: "(string \<times> string) option"
  lc_stall_gate :: bool

text \<open>What a tool call came to: its output, the text of an \<open>AmofNativeBackendError\<close>, or another exception.\<close>

datatype tool_outcome = Tool_output string | Tool_refused string | Tool_crash string

datatype tool_call = Not_a_call | Tool_call string dict tool_outcome string

text \<open>The last component of a call is the digest of the granted tree after it.\<close>

datatype model_reply =
    Reply_timeout string
  | Reply_error string
  | Reply string "(string \<times> string \<times> string) option" "tool_call list"

record turn_in =
  ti_late :: bool
  ti_reply :: model_reply
  ti_late_again :: bool
  ti_budget_open :: bool

datatype loop_exit = Returned string string string | Raised string

record loop_state =
  ls_budget :: budget
  ls_findings :: "string list"
  ls_edit_done :: bool
  ls_reads :: "string list"
  ls_repeated :: nat
  ls_write_turn :: bool
  ls_offers :: "string list list"

type_synonym 'a lrun = "(loop_state, loop_exit, 'a) op"

subsection \<open>Tools offered\<close>

definition all_tools :: "string list" where
  "all_tools = [''replace_text'', ''read_file'', ''write_file'', ''list_dir'', ''glob'']"

definition only :: "bool \<Rightarrow> string list \<Rightarrow> string list \<Rightarrow> string list" where
  "only b keep tools = (if b then filter (\<lambda>t. t \<in> set keep) tools else tools)"

definition tool_specs :: "loop_conf \<Rightarrow> string list" where
  "tool_specs K =
     only (lc_workspace K \<noteq> []) [''read_file'', ''list_dir'', ''write_file'', ''replace_text'']
       (only (lc_exact_code K) [''read_file'', ''write_file'', ''replace_text'']
          (only (lc_exact_document K) [''write_file'']
             (only (\<not> lc_writable K) [''read_file'', ''list_dir'', ''glob''] all_tools)))"

definition workspace_code :: "loop_conf \<Rightarrow> bool" where
  "workspace_code K \<longleftrightarrow> lc_writable K \<and> lc_workspace K \<noteq> []"

definition read_stall_gate :: "loop_conf \<Rightarrow> bool" where
  "read_stall_gate K \<longleftrightarrow> workspace_code K \<and> lc_stall_gate K"

definition stalled :: "loop_conf \<Rightarrow> loop_state \<Rightarrow> bool" where
  "stalled K s \<longleftrightarrow> read_stall_gate K \<and> 6 \<le> ls_repeated s"

definition active_tools :: "loop_conf \<Rightarrow> int \<Rightarrow> loop_state \<Rightarrow> string list" where
  "active_tools K n s =
     (if synthesis_required (ls_budget s) then []
      else if stalled K s then only True [''write_file'', ''replace_text''] (tool_specs K)
      else if lc_first_edit K \<noteq> None \<and> n = 1 then only True [''replace_text''] (tool_specs K)
      else if lc_first_write K \<noteq> None \<and> n = 1 then only True [''write_file''] (tool_specs K)
      else tool_specs K)"

subsection \<open>Leaving the loop\<close>

definition publish :: "string \<Rightarrow> loop_state \<Rightarrow> loop_state" where
  "publish stop s = s\<lparr>ls_budget := (ls_budget s)\<lparr>last_stop_reason := Some stop\<rparr>\<rparr>"

definition joined :: "loop_state \<Rightarrow> string" where
  "joined s = py_join [CHR 0x0A] (ls_findings s)"

text \<open>\<open>_publish_budget(reason)\<close> and \<open>return status, reason, text\<close>.\<close>

definition leave_with :: "string \<Rightarrow> string \<Rightarrow> string \<Rightarrow> 'a lrun" where
  "leave_with status why text = bindM (writes (publish why)) (\<lambda>_. throw (Returned status why text))"

definition leave :: "string \<Rightarrow> string \<Rightarrow> 'a lrun" where
  "leave status why = bindM (reads joined) (\<lambda>text. leave_with status why text)"

definition leave_if :: "bool \<Rightarrow> string \<Rightarrow> unit lrun" where
  "leave_if b why = (if b then leave ''failed'' why else ret ())"

definition on_budget :: "(budget \<Rightarrow> budget) \<Rightarrow> loop_state \<Rightarrow> loop_state" where
  "on_budget f s = s\<lparr>ls_budget := f (ls_budget s)\<rparr>"

subsection \<open>Tool calls\<close>

text \<open>A call refused before it reaches the tool.\<close>

definition refused_call :: "loop_conf \<Rightarrow> int \<Rightarrow> string \<Rightarrow> dict \<Rightarrow> loop_state \<Rightarrow> string option" where
  "refused_call K n name arguments s =
     (if ls_write_turn s \<and> name \<notin> set [''write_file'', ''replace_text'']
      then Some ''workspace read-stall turn requires a write or checkpoint''
      else if n = 1 \<and> (case lc_first_write K of None \<Rightarrow> False | Some p \<Rightarrow>
                name \<noteq> ''write_file'' \<or> jget arguments ''path'' \<noteq> JStr p)
      then Some ''first-write turn is limited to the declared new file''
      else if n = 1 \<and> (case lc_first_edit K of None \<Rightarrow> False | Some (p, h) \<Rightarrow>
                name \<noteq> ''replace_text'' \<or> jget arguments ''path'' \<noteq> JStr p \<or>
                jget arguments ''expected_file_sha256'' \<noteq> JStr h)
      then Some ''first-edit turn is limited to the declared file and hash''
      else None)"

definition observe ::
  "cfg \<Rightarrow> string \<Rightarrow> dict \<Rightarrow> string \<Rightarrow> string \<Rightarrow> string \<Rightarrow> budget \<Rightarrow> budget" where
  "observe C name arguments output error grant b =
     (let (fp, keys) = observe_tool_result C name arguments output error (Some grant)
                         (bu_fingerprint b, observed_evidence_keys b) in
      b\<lparr>bu_fingerprint := fp, observed_evidence_keys := keys\<rparr>)"

definition add_finding :: "string \<Rightarrow> loop_state \<Rightarrow> loop_state" where
  "add_finding t s = s\<lparr>ls_findings := ls_findings s @ [t]\<rparr>"

text \<open>The count of repeated reads; the key of a read is only compared.\<close>

definition count_read :: "loop_conf \<Rightarrow> string \<Rightarrow> dict \<Rightarrow> loop_state \<Rightarrow> loop_state" where
  "count_read K name arguments s =
     (if \<not> read_stall_gate K then s
      else if name \<in> set [''write_file'', ''replace_text''] then
        s\<lparr>ls_reads := [], ls_repeated := 0, ls_write_turn := False\<rparr>
      else if name \<in> set [''read_file'', ''list_dir''] then
        let key = dumps (JArr [JStr name, JObj arguments]) in
        s\<lparr>ls_repeated := (if key \<in> set (ls_reads s) then ls_repeated s + 1 else ls_repeated s),
          ls_reads := key # ls_reads s\<rparr>
      else s)"

definition note_edit :: "loop_conf \<Rightarrow> int \<Rightarrow> string \<Rightarrow> loop_state \<Rightarrow> loop_state" where
  "note_edit K n name s =
     (if lc_first_edit K \<noteq> None \<and> n = 1 \<and> name = ''replace_text'' then s\<lparr>ls_edit_done := True\<rparr> else s)"

definition call_step :: "cfg \<Rightarrow> loop_conf \<Rightarrow> int \<Rightarrow> tool_call \<Rightarrow> unit lrun" where
  "call_step C K n call =
     (case call of
        Not_a_call \<Rightarrow> ret ()
      | Tool_call name arguments outcome grant \<Rightarrow>
          bindM (reads (refused_call K n name arguments)) (\<lambda>refusal.
          case (case refusal of Some e \<Rightarrow> Tool_refused e | None \<Rightarrow> outcome) of
            Tool_crash e \<Rightarrow> throw (Raised e)
          | Tool_refused e \<Rightarrow>
              writes (\<lambda>s. on_budget (observe C name arguments (''ERROR: '' @ e) e grant) (add_finding (''ERROR: '' @ e) s))
          | Tool_output output \<Rightarrow>
              bindM (writes (\<lambda>s. on_budget (observe C name arguments output [] grant)
                (note_edit K n name (count_read K name arguments (add_finding output s))))) (\<lambda>_.
              if lc_exact_document K \<and> name = ''write_file'' then leave ''completed'' ''exact_document_written''
              else ret ())))"

subsection \<open>The gate after a turn with tool calls\<close>

definition readonly_gate :: "cfg \<Rightarrow> int \<Rightarrow> unit lrun" where
  "readonly_gate C n =
     bindM (reads (\<lambda>s. decide_readonly_synthesis C n (ls_budget s))) (\<lambda>(go, b).
     bindM (writes (\<lambda>s. s\<lparr>ls_budget := b\<rparr>)) (\<lambda>_.
     if go then ret () else leave ''failed'' stop_base_no_progress))"

definition extension_gate :: "cfg \<Rightarrow> loop_conf \<Rightarrow> int \<Rightarrow> unit lrun" where
  "extension_gate C K n =
     bindM (reads (\<lambda>s.
       let eligible = workspace_write_extension_eligible (ls_budget s) (lc_workspace K) (tool_specs K) in
       decide_extension C n (\<not> eligible) (ls_budget s))) (\<lambda>(d, b).
     bindM (writes (\<lambda>s. s\<lparr>ls_budget := b\<rparr>)) (\<lambda>_.
     if ed_granted d then ret () else leave ''failed'' (termination_after_denied_extension b)))"

definition turn_gate :: "cfg \<Rightarrow> loop_conf \<Rightarrow> turn_in \<Rightarrow> int \<Rightarrow> unit lrun" where
  "turn_gate C K i n =
     bindM (reads ls_budget) (\<lambda>b.
     if absolute_turn_limit (bu_policy b) < n + 1 then leave ''failed'' stop_absolute_turn_limit
     else if n + 1 \<le> effective_turn_limit b then ret ()
     else if ti_late_again i then leave ''failed'' ''timeout''
     else if synthesis_required b then leave ''failed'' stop_synthesis_not_completed
     else if \<not> lc_writable K then readonly_gate C n
     else if \<not> ti_budget_open i then leave ''failed'' ''campaign_budget_unavailable_for_extension''
     else extension_gate C K n)"

subsection \<open>Turns\<close>

definition tools_turn :: "cfg \<Rightarrow> loop_conf \<Rightarrow> turn_in \<Rightarrow> int \<Rightarrow> tool_call list \<Rightarrow> unit lrun" where
  "tools_turn C K i n calls =
     bindM (foldM_op (\<lambda>call _. call_step C K n call) calls ()) (\<lambda>_.
     bindM (reads (\<lambda>s. lc_first_edit K \<noteq> None \<and> n = 1 \<and> \<not> ls_edit_done s)) (\<lambda>unedited.
     bindM (leave_if unedited ''first_edit_not_completed'') (\<lambda>_.
     bindM (reads ls_write_turn) (\<lambda>unwritten.
     bindM (leave_if unwritten ''workspace_read_stall_checkpoint'') (\<lambda>_.
     bindM (writes (on_budget (note_turn_complete C n))) (\<lambda>_.
     turn_gate C K i n))))))"

text \<open>A reply without tool calls ends the loop; its text or else the findings are the result.\<close>

definition final_turn :: "cfg \<Rightarrow> loop_conf \<Rightarrow> int \<Rightarrow> string \<Rightarrow> unit lrun" where
  "final_turn C K n content =
     bindM (reads (\<lambda>s. (s, if content \<noteq> [] then content else joined s))) (\<lambda>(s, text).
     if ls_write_turn s then leave_with ''failed'' ''workspace_read_stall_checkpoint'' text
     else if lc_first_edit K \<noteq> None \<and> n = 1 then leave_with ''failed'' ''first_edit_not_requested'' text
     else if synthesis_required (ls_budget s) \<and> content = [] then leave ''failed'' stop_synthesis_not_completed
     else
       bindM (writes (\<lambda>s. on_budget (note_turn_complete C n) (if content \<noteq> [] then add_finding content s else s))) (\<lambda>_.
       leave_with ''completed'' ''completed'' text))"

definition enter_turn :: "loop_conf \<Rightarrow> int \<Rightarrow> loop_state \<Rightarrow> loop_state" where
  "enter_turn K n s =
     s\<lparr>ls_offers := ls_offers s @ [active_tools K n s],
       ls_write_turn := (ls_write_turn s \<or> stalled K s),
       ls_budget := (ls_budget s)\<lparr>synthesis_consumed :=
         (synthesis_consumed (ls_budget s) \<or> synthesis_required (ls_budget s))\<rparr>\<rparr>"

definition note_continuation :: "(string \<times> string \<times> string) option \<Rightarrow> budget \<Rightarrow> budget" where
  "note_continuation c b =
     (case c of
        None \<Rightarrow> b
      | Some (x, y, z) \<Rightarrow>
          let short = (\<lambda>t. take 200 (py_strip t)) in b\<lparr>continuation_request := Some (short x, short y, short z)\<rparr>)"

definition reply_turn ::
  "cfg \<Rightarrow> loop_conf \<Rightarrow> turn_in \<Rightarrow> int \<Rightarrow> string \<Rightarrow> (string \<times> string \<times> string) option \<Rightarrow> tool_call list \<Rightarrow> unit lrun"
where
  "reply_turn C K i n content continuation calls =
     bindM (writes (on_budget (note_continuation continuation))) (\<lambda>_.
     bindM (reads (\<lambda>s. synthesis_required (ls_budget s))) (\<lambda>synthesis.
     if calls \<noteq> [] then
       bindM (leave_if synthesis stop_synthesis_not_completed) (\<lambda>_. tools_turn C K i n calls)
     else final_turn C K n (py_strip content)))"

definition loop_turn :: "cfg \<Rightarrow> loop_conf \<Rightarrow> turn_in \<Rightarrow> int \<Rightarrow> unit lrun" where
  "loop_turn C K i n =
     bindM (leave_if (ti_late i) ''timeout'') (\<lambda>_.
     bindM (reads (\<lambda>s. effective_turn_limit (ls_budget s) < n)) (\<lambda>beyond.
     bindM (leave_if beyond stop_absolute_turn_limit) (\<lambda>_.
     bindM (writes (enter_turn K n)) (\<lambda>_.
     case ti_reply i of
       Reply_timeout e \<Rightarrow> bindM (writes (publish ''remote_ial_total_timeout'')) (\<lambda>_. throw (Raised e))
     | Reply_error e \<Rightarrow> throw (Raised e)
     | Reply content continuation calls \<Rightarrow> reply_turn C K i n content continuation calls))))"

text \<open>\<open>for turn_index in range(absolute)\<close>, over the turn numbers that are left.\<close>

fun loop_over :: "cfg \<Rightarrow> loop_conf \<Rightarrow> (int \<Rightarrow> turn_in) \<Rightarrow> int list \<Rightarrow> loop_state \<Rightarrow> loop_exit \<times> loop_state" where
  "loop_over C K I [] s = (Returned ''failed'' stop_absolute_turn_limit (joined s), publish stop_absolute_turn_limit s)"
| "loop_over C K I (n # ns) s =
     (case loop_turn C K (I n) n s of
        (Inl x, s') \<Rightarrow> (x, s')
      | (Inr _, s') \<Rightarrow> loop_over C K I ns s')"

definition loop_policy_of :: "loop_conf \<Rightarrow> loop_policy" where
  "loop_policy_of K = (if workspace_code K then workspace_code_policy else default_policy)"

definition start_loop :: "budget \<Rightarrow> loop_state" where
  "start_loop b =
     \<lparr>ls_budget = b, ls_findings = [], ls_edit_done = False, ls_reads = [], ls_repeated = 0, ls_write_turn = False,
      ls_offers = []\<rparr>"

definition run_model_loop :: "cfg \<Rightarrow> loop_conf \<Rightarrow> (int \<Rightarrow> turn_in) \<Rightarrow> string + loop_exit \<times> loop_state" where
  "run_model_loop C K I =
     bindR (new_budget (loop_policy_of K)) (\<lambda>b.
     Inr (loop_over C K I [1..absolute_turn_limit (bu_policy b)] (start_loop b)))"

end
