(* ===== verification/Model_Loop_Laws.thy ===== *)
theory Model_Loop_Laws
  imports Model_Loop
begin

section \<open>The model loop stays within its budget\<close>

text \<open>
  What every step keeps of the limits, the invariant of the loop, and with it: the number of
  turns, what a stop reason says, when a run is extended, and that what the model writes beside
  its tool calls decides nothing.
\<close>

subsection \<open>The decisions\<close>

definition valid_policy :: "loop_policy \<Rightarrow> bool" where
  "valid_policy p \<longleftrightarrow> 1 \<le> base_turn_limit p \<and> 1 \<le> extension_increment p \<and> 0 \<le> max_extension_count p \<and>
     base_turn_limit p \<le> absolute_turn_limit p \<and> absolute_turn_limit p \<le> 3 * base_turn_limit p"

lemma validate_policy_iff: "validate_policy p = Inr () \<longleftrightarrow> valid_policy p"
  by (auto simp: validate_policy_def valid_policy_def bindR_Inr_iff)

lemma policies_valid: "valid_policy (loop_policy_of K)"
  by (simp add: valid_policy_def loop_policy_of_def default_policy_def workspace_code_policy_def)

lemma decide_extension_granted:
  assumes "decide_extension C n m b = (d, b')" "ed_granted d"
  shows "pe_verdict (evaluate_progress C (bu_fingerprint b) (checkpoint_fingerprint b) (recent_state_digests b)) = ed_verdict d"
    "ed_verdict d = MATERIAL_PROGRESS \<or> \<not> m \<and> ed_verdict d = PARTIAL_PROGRESS"
    "extension_count b < max_extension_count (bu_policy b)"
    "effective_turn_limit b < effective_turn_limit b'"
    "effective_turn_limit b' = min (effective_turn_limit b + extension_increment (bu_policy b)) (absolute_turn_limit (bu_policy b))"
    "extension_count b' = extension_count b + 1" "extensions b' = extensions b @ [d]"
    "checkpoint_fingerprint b' = Some (bu_fingerprint b)" "bu_fingerprint b' = bu_fingerprint b"
    "bu_policy b' = bu_policy b" "synthesis_required b' = synthesis_required b"
    "recent_state_digests b' = recent_state_digests b"
  using assms by (auto simp: decide_extension_def deny_def decision_def Let_def split: if_splits)

lemma decide_extension_denied:
  assumes "decide_extension C n m b = (d, b')" "\<not> ed_granted d"
  shows "effective_turn_limit b' = effective_turn_limit b" "extension_count b' = extension_count b"
    "extensions b' = extensions b" "bu_policy b' = bu_policy b" "synthesis_required b' = synthesis_required b"
    "turns_used b' = turns_used b"
  using assms by (auto simp: decide_extension_def deny_def decision_def Let_def split: if_splits)

text \<open>Progress that has earned an extension does not earn another.\<close>

lemma same_fingerprint_no_progress:
  "pe_verdict (evaluate_progress C fp (Some fp) recent) = NO_PROGRESS"
  by (simp add: evaluate_progress_def Let_def)

lemma stale_progress:
  assumes "decide_extension C n m b = (d, b')" "ed_granted d"
  shows "\<not> ed_granted (fst (decide_extension C n' m' b'))"
  using decide_extension_granted(8,9) [OF assms] same_fingerprint_no_progress [of C "bu_fingerprint b"]
  by (simp add: decide_extension_def Let_def deny_def decision_def)

subsection \<open>What the steps of a turn keep\<close>

definition limits :: "budget \<Rightarrow> loop_policy \<times> int \<times> int \<times> ext_decision list \<times> bool" where
  "limits b = (bu_policy b, effective_turn_limit b, extension_count b, extensions b, synthesis_required b)"

definition same_limits :: "loop_state \<Rightarrow> loop_state \<Rightarrow> bool" where
  "same_limits s t \<longleftrightarrow> limits (ls_budget s) = limits (ls_budget t) \<and> ls_offers s = ls_offers t"

interpretation lim: state_order same_limits
  by unfold_locales (auto simp: same_limits_def)

lemma keeps_writes: "(\<And>s. R s (f s)) \<Longrightarrow> keeps R (writes f)"
  by (simp add: keeps_def writes_def)

lemma limits_observe [simp]: "limits (observe C name arguments output error grant b) = limits b"
  by (simp add: observe_def limits_def split: prod.splits)

lemma limits_continuation [simp]: "limits (note_continuation c b) = limits b"
  by (cases c) (auto simp: note_continuation_def limits_def Let_def)

lemma limits_complete [simp]: "limits (note_turn_complete C n b) = limits b"
  by (simp add: note_turn_complete_def limits_def Let_def)

lemma limits_publish [simp]: "same_limits s (publish why s)"
  by (simp add: publish_def same_limits_def limits_def)

lemma call_effects [simp]:
  "ls_budget (count_read K name arguments s) = ls_budget s" "ls_offers (count_read K name arguments s) = ls_offers s"
  "ls_budget (note_edit K n name s) = ls_budget s" "ls_offers (note_edit K n name s) = ls_offers s"
  "ls_budget (add_finding t s) = ls_budget s" "ls_offers (add_finding t s) = ls_offers s"
  by (simp_all add: count_read_def note_edit_def add_finding_def Let_def)

lemma keeps_leave [simp]: "keeps same_limits (leave status why)" "keeps same_limits (leave_with status why text)"
  "keeps same_limits (leave_if b why)"
  by (auto simp: leave_def leave_with_def leave_if_def intro!: lim.keeps_rules keeps_writes)

lemma keeps_call: "keeps same_limits (call_step C K n call)"
  by (cases call) (auto simp: call_step_def on_budget_def same_limits_def split: tool_outcome.splits option.splits
      intro!: lim.keeps_rules keeps_writes)

lemma keeps_final: "keeps same_limits (final_turn C K n text)"
  by (auto simp: final_turn_def on_budget_def same_limits_def split: prod.splits intro!: lim.keeps_rules keeps_writes)

subsection \<open>The invariant of the loop\<close>

definition earned :: "loop_conf \<Rightarrow> ext_decision \<Rightarrow> bool" where
  "earned K d \<longleftrightarrow> ed_granted d \<and>
     (ed_verdict d = MATERIAL_PROGRESS \<or> ed_verdict d = PARTIAL_PROGRESS \<and> workspace_code K)"

definition within :: "loop_conf \<Rightarrow> budget \<Rightarrow> bool" where
  "within K b \<longleftrightarrow>
     (let p = loop_policy_of K in
      bu_policy b = p \<and> base_turn_limit p \<le> effective_turn_limit b \<and> effective_turn_limit b \<le> absolute_turn_limit p \<and>
      extension_count b = int (length (extensions b)) \<and> extension_count b \<le> max_extension_count p \<and>
      effective_turn_limit b \<le> base_turn_limit p + extension_increment p * extension_count b + of_bool (synthesis_required b) \<and>
      list_all (earned K) (extensions b) \<and> (if lc_writable K then \<not> synthesis_required b else extension_count b = 0))"

lemma within_limits: "limits b = limits b' \<Longrightarrow> within K b \<longleftrightarrow> within K b'"
  by (simp add: within_def limits_def)

text \<open>A stop reason says how the run stood.\<close>

definition stop_agrees :: "string \<Rightarrow> string \<Rightarrow> budget \<Rightarrow> int \<Rightarrow> bool" where
  "stop_agrees status why b n \<longleftrightarrow>
     (if why = stop_absolute_turn_limit then status = ''failed'' \<and> n = absolute_turn_limit (bu_policy b)
      else if why = stop_base_no_progress then
        status = ''failed'' \<and> n = effective_turn_limit b \<and> n = base_turn_limit (bu_policy b)
      else if why = stop_extension_no_progress then
        status = ''failed'' \<and> n = effective_turn_limit b \<and> 0 < extension_count b \<and> n < absolute_turn_limit (bu_policy b)
      else if why = stop_synthesis_not_completed then status = ''failed'' \<and> synthesis_required b \<and> n = effective_turn_limit b
      else status = (if why \<in> set [''completed'', ''exact_document_written''] then ''completed'' else ''failed''))"

definition plain_exit :: "loop_exit \<Rightarrow> bool" where
  "plain_exit x \<longleftrightarrow>
     (case x of
        Raised _ \<Rightarrow> True
      | Returned status why _ \<Rightarrow>
          why \<notin> set [stop_absolute_turn_limit, stop_base_no_progress, stop_extension_no_progress, stop_synthesis_not_completed] \<and>
          status = (if why \<in> set [''completed'', ''exact_document_written''] then ''completed'' else ''failed''))"

lemma stop_agrees_limits: "limits b = limits b' \<Longrightarrow> stop_agrees status why b n \<longleftrightarrow> stop_agrees status why b' n"
  by (simp add: stop_agrees_def limits_def)

lemma within_base:
  "within K b \<Longrightarrow> extension_count b = 0 \<Longrightarrow> \<not> synthesis_required b \<Longrightarrow> effective_turn_limit b = base_turn_limit (bu_policy b)"
  by (auto simp: within_def Let_def)

text \<open>The synthesis turn was offered no tools.\<close>

definition tools_stripped :: "loop_state \<Rightarrow> bool" where
  "tools_stripped s \<longleftrightarrow>
     (synthesis_required (ls_budget s) \<and> int (length (ls_offers s)) = effective_turn_limit (ls_budget s) \<longrightarrow>
      last (ls_offers s) = [])"

text \<open>In turn \<open>n\<close>, and before turn \<open>n\<close>.\<close>

definition during :: "loop_conf \<Rightarrow> int \<Rightarrow> loop_state \<Rightarrow> bool" where
  "during K n s \<longleftrightarrow> within K (ls_budget s) \<and> n \<le> effective_turn_limit (ls_budget s) \<and>
     (synthesis_required (ls_budget s) \<longrightarrow> n = effective_turn_limit (ls_budget s)) \<and> int (length (ls_offers s)) = n \<and> tools_stripped s"

definition prior :: "loop_conf \<Rightarrow> int \<Rightarrow> loop_state \<Rightarrow> bool" where
  "prior K n s \<longleftrightarrow> within K (ls_budget s) \<and> n \<le> effective_turn_limit (ls_budget s) \<and>
     (synthesis_required (ls_budget s) \<longrightarrow> n = effective_turn_limit (ls_budget s)) \<and> int (length (ls_offers s)) = n - 1"

definition left_well :: "loop_conf \<Rightarrow> loop_exit \<Rightarrow> loop_state \<Rightarrow> bool" where
  "left_well K x s \<longleftrightarrow> within K (ls_budget s) \<and> int (length (ls_offers s)) \<le> effective_turn_limit (ls_budget s) \<and>
     tools_stripped s \<and>
     (case x of
        Raised _ \<Rightarrow> True
      | Returned status why _ \<Rightarrow> stop_agrees status why (ls_budget s) (int (length (ls_offers s))))"

lemma plain_left_well:
  "plain_exit x \<Longrightarrow> tools_stripped s \<Longrightarrow> within K (ls_budget s) \<Longrightarrow> int (length (ls_offers s)) \<le> effective_turn_limit (ls_budget s) \<Longrightarrow>
   left_well K x s"
  by (auto simp: plain_exit_def left_well_def stop_agrees_def split: loop_exit.splits)

lemma during_same: "same_limits s t \<Longrightarrow> during K n s \<Longrightarrow> during K n t"
  using within_limits [of "ls_budget s" "ls_budget t" K] by (simp add: during_def same_limits_def limits_def tools_stripped_def)

definition exits :: "('e \<Rightarrow> bool) \<Rightarrow> ('s, 'e, 'a) op \<Rightarrow> bool" where
  "exits p m \<longleftrightarrow> (\<forall>s x t. m s = (Inl x, t) \<longrightarrow> p x)"

lemma exits_basic [simp]: "exits p (ret a)" "exits p (reads f)" "exits p (writes g)" "exits p (throw e) \<longleftrightarrow> p e"
  by (auto simp: exits_def op_simps)

lemma exits_bind: "exits p m \<Longrightarrow> (\<And>a. exits p (f a)) \<Longrightarrow> exits p (bindM m f)"
  unfolding exits_def bindM_Inl_iff by blast

lemma exits_fold: "(\<And>x a. exits p (f x a)) \<Longrightarrow> exits p (foldM_op f xs a)"
  by (induction xs arbitrary: a) (auto intro: exits_bind)

lemma exits_leave:
  "(\<And>text. p (Returned status why text)) \<Longrightarrow> exits p (leave status why)"
  "p (Returned status why text) \<Longrightarrow> exits p (leave_with status why text)"
  "(\<And>text. b \<Longrightarrow> p (Returned ''failed'' why text)) \<Longrightarrow> exits p (leave_if b why)"
  by (auto simp: leave_def leave_with_def leave_if_def intro!: exits_bind)

lemmas stop_reasons = stop_absolute_turn_limit_def stop_base_no_progress_def stop_extension_no_progress_def
  stop_synthesis_not_completed_def

lemma plain_reasons [simp]:
  "plain_exit (Returned ''failed'' ''timeout'' t)" "plain_exit (Returned ''completed'' ''exact_document_written'' t)"
  "plain_exit (Returned ''completed'' ''completed'' t)" "plain_exit (Returned ''failed'' ''first_edit_not_completed'' t)"
  "plain_exit (Returned ''failed'' ''first_edit_not_requested'' t)" "plain_exit (Raised e)"
  "plain_exit (Returned ''failed'' ''workspace_read_stall_checkpoint'' t)"
  "plain_exit (Returned ''failed'' ''campaign_budget_unavailable_for_extension'' t)"
  by (simp_all add: plain_exit_def stop_reasons)

lemma exits_call: "exits plain_exit (call_step C K n call)"
  by (cases call) (auto simp: call_step_def split: tool_outcome.splits option.splits intro!: exits_bind exits_leave)

lemma triple_plain:
  assumes "keeps same_limits m" "exits plain_exit m"
  shows "triple (during K n) m (\<lambda>_. during K n) (left_well K)"
proof (rule tripleI)
  fix s a t
  assume "during K n s" "m s = (Inr a, t)"
  then show "during K n t" using during_same keepsD [OF assms(1)] by blast
next
  fix s x t
  assume "during K n s" and r: "m s = (Inl x, t)"
  then have "during K n t" using during_same keepsD [OF assms(1)] by blast
  moreover have "plain_exit x" using assms(2) r by (auto simp: exits_def)
  ultimately show "left_well K x t" by (auto intro: plain_left_well simp: during_def)
qed

subsection \<open>The gate\<close>

definition gated :: "loop_conf \<Rightarrow> int \<Rightarrow> loop_state \<Rightarrow> bool" where
  "gated K n s \<longleftrightarrow> during K n s \<and> turns_used (ls_budget s) = n"

lemma leave_run: "leave status why s = (Inl (Returned status why (joined s)), publish why s)"
  by (simp add: leave_def leave_with_def bindM_def reads_def writes_def throw_def)

lemma leave_well:
  assumes "within K (ls_budget s)" "int (length (ls_offers s)) \<le> effective_turn_limit (ls_budget s)" "tools_stripped s"
    and "stop_agrees status why (ls_budget s) (int (length (ls_offers s)))"
    and "leave status why s = (r, t)"
  shows "\<exists>x. r = Inl x \<and> left_well K x t"
proof -
  have t: "r = Inl (Returned status why (joined s))" "t = publish why s" using assms(5) by (simp_all add: leave_run)
  have l: "limits (ls_budget t) = limits (ls_budget s)" "ls_offers t = ls_offers s"
    by (simp_all add: t publish_def limits_def)
  then have "within K (ls_budget t)" using assms(1) within_limits by blast
  moreover have "stop_agrees status why (ls_budget t) (int (length (ls_offers t)))"
    using assms(4) l stop_agrees_limits by metis
  ultimately show ?thesis using l assms(2,3) by (simp add: t(1) left_well_def limits_def tools_stripped_def)
qed

lemma readonly_gate_well:
  assumes g: "gated K n s" and c: "effective_turn_limit (ls_budget s) < n + 1" "\<not> synthesis_required (ls_budget s)"
    "\<not> lc_writable K" "n + 1 \<le> absolute_turn_limit (bu_policy (ls_budget s))"
    and r: "readonly_gate C n s = (r, t)"
  shows "case r of Inl x \<Rightarrow> left_well K x t | Inr _ \<Rightarrow> prior K (n + 1) t"
proof -
  let ?b = "ls_budget s"
  obtain go b where d: "decide_readonly_synthesis C n ?b = (go, b)" by fastforce
  have n: "n = effective_turn_limit ?b" "int (length (ls_offers s)) = n" "within K ?b" "tools_stripped s"
    using g c(1) by (auto simp: gated_def during_def)
  then have "extension_count ?b = 0" using c(3) by (auto simp: within_def Let_def)
  with within_base [OF n(3)] n(1) c(2) have base: "n = base_turn_limit (bu_policy ?b)" by simp
  have run: "readonly_gate C n s = (if go then ret () else leave ''failed'' stop_base_no_progress) (s\<lparr>ls_budget := b\<rparr>)"
    by (simp add: readonly_gate_def bindM_def reads_def writes_def d)
  show ?thesis
  proof (cases go)
    case True
    then have "effective_turn_limit b = n + 1" "synthesis_required b" "bu_policy b = bu_policy ?b"
      "extension_count b = extension_count ?b" "extensions b = extensions ?b"
      using d n c by (auto simp: decide_readonly_synthesis_def Let_def min_def split: if_splits)
    then show ?thesis using n base c r run True by (auto simp: prior_def within_def Let_def ret_def)
  next
    case False
    then have "limits b = limits ?b" using d by (auto simp: decide_readonly_synthesis_def limits_def Let_def split: if_splits)
    then have "within K b" using within_limits n(3) by blast
    with \<open>limits b = limits ?b\<close> n have b: "within K b" "effective_turn_limit b = n" "bu_policy b = bu_policy ?b"
      by (simp_all add: limits_def)
    moreover have "tools_stripped (s\<lparr>ls_budget := b\<rparr>)"
      using \<open>limits b = limits ?b\<close> c(2) by (simp add: tools_stripped_def limits_def)
    ultimately show ?thesis
      using leave_well [of K "s\<lparr>ls_budget := b\<rparr>" "''failed''" stop_base_no_progress r t] n base r run False
      by (auto simp: stop_agrees_def stop_reasons)
  qed
qed

lemma extension_gate_well:
  assumes g: "gated K n s" and c: "effective_turn_limit (ls_budget s) < n + 1" "\<not> synthesis_required (ls_budget s)"
    "lc_writable K" "n + 1 \<le> absolute_turn_limit (bu_policy (ls_budget s))"
    and r: "extension_gate C K n s = (r, t)"
  shows "case r of Inl x \<Rightarrow> left_well K x t | Inr _ \<Rightarrow> prior K (n + 1) t"
proof -
  let ?b = "ls_budget s"
  let ?m = "\<not> workspace_write_extension_eligible ?b (lc_workspace K) (tool_specs K)"
  obtain d b where d: "decide_extension C n ?m ?b = (d, b)" by fastforce
  have n: "n = effective_turn_limit ?b" "int (length (ls_offers s)) = n" "within K ?b" "turns_used ?b = n" "tools_stripped s"
    using g c(1) by (auto simp: gated_def during_def)
  have run: "extension_gate C K n s =
      (if ed_granted d then ret () else leave ''failed'' (termination_after_denied_extension b)) (s\<lparr>ls_budget := b\<rparr>)"
    by (simp add: extension_gate_def bindM_def reads_def writes_def Let_def d)
  show ?thesis
  proof (cases "ed_granted d")
    case True
    note e = decide_extension_granted [OF d True]
    have "earned K d" using e(2) True c(3) by (auto simp: earned_def workspace_code_def workspace_write_extension_eligible_def)
    moreover have "n + 1 \<le> effective_turn_limit b" using e(4) n by simp
    ultimately have "prior K (n + 1) (s\<lparr>ls_budget := b\<rparr>)"
      using e n c by (auto simp: prior_def within_def Let_def distrib_left)
    then show ?thesis using r run True by (auto simp: ret_def)
  next
    case False
    note e = decide_extension_denied [OF d False]
    then have l: "limits b = limits ?b" by (simp add: limits_def)
    have "within K b" using within_limits [OF l] n(3) by blast
    with n e have b: "within K b" "effective_turn_limit b = n" "turns_used b = n" "bu_policy b = bu_policy ?b"
      by simp_all
    have "0 \<le> extension_count b" using b(1) by (simp add: within_def Let_def)
    moreover have "extension_count b = 0 \<Longrightarrow> n = base_turn_limit (bu_policy b)"
      using within_base [OF b(1)] b(2) c(2) e(5) by simp
    moreover have "n < absolute_turn_limit (bu_policy b)" using c(4) b(4) by simp
    ultimately have "stop_agrees ''failed'' (termination_after_denied_extension b) b n"
      using b(2,3) by (cases "extension_count b = 0")
        (simp_all add: stop_agrees_def termination_after_denied_extension_def stop_reasons)
    moreover have "tools_stripped (s\<lparr>ls_budget := b\<rparr>)"
      using l c(2) by (simp add: tools_stripped_def limits_def)
    ultimately show ?thesis
      using leave_well [of K "s\<lparr>ls_budget := b\<rparr>" "''failed''" "termination_after_denied_extension b" r t] n b r run False
      by auto
  qed
qed

lemma turn_gate_well: "triple (gated K n) (turn_gate C K i n) (\<lambda>_. prior K (n + 1)) (left_well K)"
proof -
  have main: "case r of Inl x \<Rightarrow> left_well K x t | Inr _ \<Rightarrow> prior K (n + 1) t"
    if g: "gated K n s" and r: "turn_gate C K i n s = (r, t)" for s r t
  proof -
    let ?b = "ls_budget s"
    have n: "n \<le> effective_turn_limit ?b" "int (length (ls_offers s)) = n" "within K ?b"
      "synthesis_required ?b \<Longrightarrow> n = effective_turn_limit ?b" "tools_stripped s"
      using g by (auto simp: gated_def during_def)
    then have abs: "n \<le> absolute_turn_limit (bu_policy ?b)" by (auto simp: within_def Let_def)
    have stop: "case r of Inl x \<Rightarrow> left_well K x t | Inr _ \<Rightarrow> prior K (n + 1) t"
      if "stop_agrees ''failed'' why ?b n" "leave ''failed'' why s = (r, t)" for why
      using leave_well [OF n(3) _ n(5) _ that(2)] n that(1) by auto
    have run: "turn_gate C K i n s =
       (if absolute_turn_limit (bu_policy ?b) < n + 1 then leave ''failed'' stop_absolute_turn_limit
        else if n + 1 \<le> effective_turn_limit ?b then ret ()
        else if ti_late_again i then leave ''failed'' ''timeout''
        else if synthesis_required ?b then leave ''failed'' stop_synthesis_not_completed
        else if \<not> lc_writable K then readonly_gate C n
        else if \<not> ti_budget_open i then leave ''failed'' ''campaign_budget_unavailable_for_extension''
        else extension_gate C K n) s"
      by (simp add: turn_gate_def bindM_def reads_def)
    consider (absolute) "absolute_turn_limit (bu_policy ?b) < n + 1"
      | (go) "n + 1 \<le> absolute_turn_limit (bu_policy ?b)" "n + 1 \<le> effective_turn_limit ?b"
      | (gate) "n + 1 \<le> absolute_turn_limit (bu_policy ?b)" "effective_turn_limit ?b < n + 1"
      by linarith
    then show ?thesis
    proof cases
      case absolute
      with r run abs show ?thesis by (intro stop [of stop_absolute_turn_limit]) (auto simp: stop_agrees_def)
    next
      case go
      with r run n show ?thesis by (auto simp: ret_def prior_def)
    next
      case gate
      have agree: "stop_agrees ''failed'' ''timeout'' ?b n" "synthesis_required ?b \<Longrightarrow> stop_agrees ''failed'' stop_synthesis_not_completed ?b n"
        "stop_agrees ''failed'' ''campaign_budget_unavailable_for_extension'' ?b n"
        using n(4) by (simp_all add: stop_agrees_def stop_reasons)
      show ?thesis
      proof (cases "ti_late_again i \<or> synthesis_required ?b \<or> lc_writable K \<and> \<not> ti_budget_open i")
        case True
        with gate r run have "leave ''failed'' ''timeout'' s = (r, t) \<or>
            synthesis_required ?b \<and> leave ''failed'' stop_synthesis_not_completed s = (r, t) \<or>
            leave ''failed'' ''campaign_budget_unavailable_for_extension'' s = (r, t)"
          by (auto split: if_splits)
        then show ?thesis using stop agree by blast
      next
        case False
        with gate r run readonly_gate_well [OF g gate(2)] extension_gate_well [OF g gate(2)] show ?thesis
          by (auto split: if_splits)
      qed
    qed
  qed
  show ?thesis by (rule tripleI) (use main in fastforce)+
qed

subsection \<open>Turns\<close>

lemma during_left_well:
  assumes "during K n s" "same_limits s t" "synthesis_required (ls_budget s)"
  shows "left_well K (Returned ''failed'' stop_synthesis_not_completed text) t"
proof -
  have "during K n t" "synthesis_required (ls_budget t)"
    using assms during_same by (auto simp: same_limits_def limits_def)
  then show ?thesis by (auto simp: during_def left_well_def stop_agrees_def stop_reasons)
qed

lemma final_turn_exit:
  assumes "final_turn C K n text s = (r, t)"
  shows "\<exists>x. r = Inl x \<and> (plain_exit x \<or> synthesis_required (ls_budget s) \<and> (\<exists>u. x = Returned ''failed'' stop_synthesis_not_completed u))"
  using assms
  by (auto simp: final_turn_def bindM_def reads_def writes_def leave_run leave_with_def throw_def split: if_splits)

lemma final_turn_well: "triple (during K n) (final_turn C K n text) (\<lambda>_ _. False) (left_well K)"
proof (rule tripleI)
  fix s and a :: unit and t
  assume "final_turn C K n text s = (Inr a, t)"
  from final_turn_exit [OF this] show False by simp
next
  fix s x t
  assume d: "during K n s" and r: "final_turn C K n text s = (Inl x, t)"
  have same: "same_limits s t" using keepsD [OF keeps_final r] .
  from final_turn_exit [OF r] show "left_well K x t"
  proof (elim exE conjE disjE)
    fix y
    assume "Inl x = Inl y" "plain_exit y"
    then show ?thesis using during_same [OF same d] by (auto intro: plain_left_well simp: during_def)
  qed (use during_left_well [OF d same] in auto)
qed

lemma tools_turn_well: "triple (during K n) (tools_turn C K i n calls) (\<lambda>_. prior K (n + 1)) (left_well K)"
proof -
  have f: "triple (during K n) (foldM_op (\<lambda>call _. call_step C K n call) calls ()) (\<lambda>_. during K n) (left_well K)"
    by (rule triple_plain) (auto intro!: lim.keeps_foldM exits_fold keeps_call exits_call)
  have l: "triple (during K n) (leave_if b why) (\<lambda>_. during K n) (left_well K)"
    if "why = ''first_edit_not_completed'' \<or> why = ''workspace_read_stall_checkpoint''" for b why
    by (rule triple_plain) (use that in \<open>auto intro!: exits_leave(3)\<close>)
  have d: "triple (during K n) (reads g) (\<lambda>_. during K n) (left_well K)" for g :: "loop_state \<Rightarrow> bool"
    by (rule triple_plain) (auto intro: lim.keeps_reads)
  have w: "triple (during K n) (writes (on_budget (note_turn_complete C n))) (\<lambda>_. gated K n) (left_well K)"
  proof (rule tripleI)
    fix s and a :: unit and t
    assume "during K n s" "writes (on_budget (note_turn_complete C n)) s = (Inr a, t)"
    then have t: "t = on_budget (note_turn_complete C n) s" "during K n s" by (simp_all add: writes_iff)
    then have "same_limits s t" by (simp add: on_budget_def same_limits_def)
    then have "during K n t" using during_same t by blast
    then show "gated K n t" by (simp add: t gated_def on_budget_def note_turn_complete_def Let_def)
  qed (simp add: writes_iff)
  show ?thesis unfolding tools_turn_def
    by (rule triple_bind [OF f] triple_bind [OF d] triple_bind [OF l] triple_bind [OF w] turn_gate_well | simp)+
qed

lemma enter_turn_during:
  assumes "prior K n s"
  shows "during K n (enter_turn K n s)"
proof -
  have "limits (ls_budget (enter_turn K n s)) = limits (ls_budget s)" by (simp add: enter_turn_def limits_def)
  with within_limits [OF this] assms show ?thesis
    by (auto simp: prior_def during_def limits_def tools_stripped_def) (auto simp: enter_turn_def active_tools_def)
qed

lemma reply_well:
  "triple (during K n)
     (case ti_reply i of
        Reply_timeout e \<Rightarrow> bindM (writes (publish ''remote_ial_total_timeout'')) (\<lambda>_. throw (Raised e))
      | Reply_error e \<Rightarrow> throw (Raised e)
      | Reply content continuation calls \<Rightarrow> reply_turn C K i n content continuation calls)
     (\<lambda>_. prior K (n + 1)) (left_well K)"
proof (cases "ti_reply i")
  case (Reply content continuation calls)
  have w: "triple (during K n) (writes (on_budget (note_continuation continuation))) (\<lambda>_. during K n) (left_well K)"
    by (rule triple_plain) (auto intro!: keeps_writes simp: on_budget_def same_limits_def)
  have d: "triple (during K n) (reads (\<lambda>s. synthesis_required (ls_budget s)))
      (\<lambda>b s. during K n s \<and> b = synthesis_required (ls_budget s)) (left_well K)"
    by (simp add: triple_def reads_def)
  have l: "triple (\<lambda>s. during K n s \<and> b = synthesis_required (ls_budget s)) (leave_if b stop_synthesis_not_completed)
      (\<lambda>_. during K n) (left_well K)" for b
  proof (rule tripleI)
    fix s x t
    assume s: "during K n s \<and> b = synthesis_required (ls_budget s)"
      and r: "leave_if b stop_synthesis_not_completed s = (Inl x, t)"
    then have b: "b" "x = Returned ''failed'' stop_synthesis_not_completed (joined s)" "t = publish stop_synthesis_not_completed s"
      by (auto simp: leave_if_def leave_run ret_def split: if_splits)
    then show "left_well K x t" using during_left_well s limits_publish by auto
  qed (auto simp: leave_if_def leave_run ret_def split: if_splits)
  show ?thesis unfolding Reply model_reply.case reply_turn_def
  proof (rule triple_bind [OF w], rule triple_bind [OF d])
    fix synthesis
    show "triple (\<lambda>s. during K n s \<and> synthesis = synthesis_required (ls_budget s))
        (if calls \<noteq> [] then bindM (leave_if synthesis stop_synthesis_not_completed) (\<lambda>_. tools_turn C K i n calls)
         else final_turn C K n (py_strip content)) (\<lambda>_. prior K (n + 1)) (left_well K)"
    proof (cases "calls = []")
      case True
      then show ?thesis by simp (rule triple_conseq [OF final_turn_well]; simp)
    next
      case False
      then show ?thesis by simp (rule triple_bind [OF l tools_turn_well])
    qed
  qed
next
  case (Reply_timeout e)
  have "left_well K (Raised e) (publish why s)" if "during K n s" for why s
    using during_same [OF limits_publish that] by (auto intro: plain_left_well simp: during_def)
  then show ?thesis by (simp add: Reply_timeout triple_def bindM_def writes_def throw_def)
next
  case (Reply_error e)
  then show ?thesis by (auto simp: triple_def throw_def during_def intro: plain_left_well)
qed

lemma loop_turn_well: "triple (prior K n) (loop_turn C K i n) (\<lambda>_. prior K (n + 1)) (left_well K)"
proof -
  have p: "left_well K x (publish why s)" if "prior K n s" "plain_exit x" for x why s
  proof -
    have "limits (ls_budget (publish why s)) = limits (ls_budget s)" "ls_offers (publish why s) = ls_offers s"
      by (simp_all add: publish_def limits_def)
    then show ?thesis using that within_limits [of "ls_budget (publish why s)" "ls_budget s" K]
      by (intro plain_left_well) (auto simp: prior_def limits_def tools_stripped_def)
  qed
  have late: "triple (prior K n) (leave_if (ti_late i) ''timeout'') (\<lambda>_. prior K n) (left_well K)"
    by (auto simp: triple_def leave_if_def leave_run ret_def p)
  have beyond: "triple (prior K n) (reads (\<lambda>s. effective_turn_limit (ls_budget s) < n)) (\<lambda>b s. prior K n s \<and> \<not> b) (left_well K)"
    by (auto simp: triple_def reads_def prior_def)
  have never: "triple (\<lambda>s. prior K n s \<and> \<not> b) (leave_if b stop_absolute_turn_limit) (\<lambda>_. prior K n) (left_well K)" for b
    by (auto simp: triple_def leave_if_def ret_def)
  have enter: "triple (prior K n) (writes (enter_turn K n)) (\<lambda>_. during K n) (left_well K)"
    by (simp add: triple_def writes_def enter_turn_during)
  show ?thesis unfolding loop_turn_def
    by (rule triple_bind [OF late] triple_bind [OF beyond] triple_bind [OF never] triple_bind [OF enter] reply_well)+
qed

subsection \<open>Runs\<close>

lemma loop_over_well:
  "prior K n s \<Longrightarrow> n \<le> absolute_turn_limit (loop_policy_of K) + 1 \<Longrightarrow>
   loop_over C K I [n..absolute_turn_limit (loop_policy_of K)] s = (x, t) \<Longrightarrow> left_well K x t"
proof (induction "[n..absolute_turn_limit (loop_policy_of K)]" arbitrary: n s)
  case Nil
  then have "absolute_turn_limit (loop_policy_of K) < n" by (metis upto_Nil2)
  moreover have "n \<le> absolute_turn_limit (loop_policy_of K)"
    using Nil(2) by (auto simp: prior_def within_def Let_def)
  ultimately show ?case by simp
next
  case (Cons m ns)
  then have n: "n \<le> absolute_turn_limit (loop_policy_of K)" by (metis list.distinct(1) upto_Nil2 not_le)
  then have ns: "m = n" "ns = [n + 1..absolute_turn_limit (loop_policy_of K)]"
    using Cons(2) by (simp_all add: upto_rec1)
  obtain r u where r: "loop_turn C K (I n) n s = (r, u)" by fastforce
  show ?case
  proof (cases r)
    case (Inl y)
    then have "x = y \<and> t = u" using Cons(5) n r by (simp add: upto_rec1)
    then show ?thesis using triple_Inl [OF loop_turn_well Cons(3)] r Inl by blast
  next
    case (Inr v)
    then have "prior K (n + 1) u" using triple_Inr [OF loop_turn_well Cons(3)] r by blast
    moreover have "loop_over C K I [n + 1..absolute_turn_limit (loop_policy_of K)] u = (x, t)"
      using Cons(5) n r Inr by (simp add: upto_rec1)
    ultimately show ?thesis using Cons(1) [OF ns(2)] n by simp
  qed
qed

lemma run_model_loop_well:
  obtains x t where "run_model_loop C K I = Inr (x, t)" "left_well K x t"
proof -
  obtain b where b: "new_budget (loop_policy_of K) = Inr b" "prior K 1 (start_loop b)" "bu_policy b = loop_policy_of K"
    using policies_valid [of K]
    by (auto simp: new_budget_def bindR_Inr_iff validate_policy_iff prior_def within_def Let_def start_loop_def valid_policy_def)
  obtain x t where "loop_over C K I [1..absolute_turn_limit (loop_policy_of K)] (start_loop b) = (x, t)" by fastforce
  moreover have "1 \<le> absolute_turn_limit (loop_policy_of K) + 1" using policies_valid [of K] by (simp add: valid_policy_def)
  ultimately show ?thesis using that [of x t] loop_over_well [OF b(2)] b by (simp add: run_model_loop_def)
qed

lemma limits_of_profile:
  "within K b \<Longrightarrow> effective_turn_limit b \<le> (if workspace_code K then 48 else if lc_writable K then 18 else 13)"
  by (auto simp: within_def Let_def loop_policy_of_def default_policy_def workspace_code_policy_def workspace_code_def
      of_bool_def split: if_splits)

lemma extensions_of_profile:
  "within K b \<Longrightarrow> extension_count b \<le> (if workspace_code K then 3 else if lc_writable K then 2 else 0)"
  by (auto simp: within_def Let_def loop_policy_of_def default_policy_def workspace_code_policy_def workspace_code_def
      split: if_splits)

end
