(* ===== verification/Model_Loop_Prose.thy ===== *)
theory Model_Loop_Prose
  imports Model_Loop_Laws
begin

section \<open>What the model says decides nothing; what counts as movement\<close>

text \<open>
  Two runs whose inputs differ only in what the model wrote beside its tool calls end alike. And
  two facts of the fingerprint: writing the same file again and one refused call are counted as an
  implementation with its validation, and a write of \<open>package.json\<close> is not counted.
\<close>

subsection \<open>Runs that differ in what the model wrote\<close>

definition hush :: "budget \<Rightarrow> budget" where
  "hush b = b\<lparr>continuation_request := None\<rparr>"

definition erase :: "loop_state \<Rightarrow> loop_state" where
  "erase s = s\<lparr>ls_budget := hush (ls_budget s)\<rparr>"

definition agrees :: "'a lrun \<Rightarrow> 'a lrun \<Rightarrow> bool" where
  "agrees m m' \<longleftrightarrow>
     (\<forall>s s'. erase s = erase s' \<longrightarrow> fst (m s) = fst (m' s') \<and> erase (snd (m s)) = erase (snd (m' s')))"

lemma agrees_bind:
  assumes "agrees m m'" "\<And>a. agrees (f a) (f' a)"
  shows "agrees (bindM m f) (bindM m' f')"
  unfolding agrees_def
proof (intro allI impI)
  fix s s'
  assume "erase s = erase s'"
  with assms(1) have "fst (m s) = fst (m' s')" "erase (snd (m s)) = erase (snd (m' s'))"
    by (simp_all add: agrees_def)
  then show "fst (bindM m f s) = fst (bindM m' f' s') \<and> erase (snd (bindM m f s)) = erase (snd (bindM m' f' s'))"
    using assms(2) by (cases "m s"; cases "m' s'") (auto simp: bindM_def agrees_def split: sum.splits)
qed

lemma agrees_basic: "agrees (ret a) (ret a)" "agrees (throw e) (throw e)"
  by (simp_all add: agrees_def ret_def throw_def)

lemma agrees_reads: "(\<And>s. f s = f (erase s)) \<Longrightarrow> agrees (reads f) (reads f)"
  unfolding agrees_def reads_def by (metis fst_conv snd_conv)

lemma agrees_writes: "(\<And>s. erase (f s) = f (erase s)) \<Longrightarrow> agrees (writes f) (writes f)"
  by (simp add: agrees_def writes_def)

lemma agrees_fold: "(\<And>x a. agrees (f x a) (f x a)) \<Longrightarrow> agrees (foldM_op f xs a) (foldM_op f xs a)"
  by (induction xs arbitrary: a) (auto intro: agrees_basic agrees_bind)

lemma erase_fields [simp]:
  "ls_findings (erase s) = ls_findings s" "ls_edit_done (erase s) = ls_edit_done s" "ls_reads (erase s) = ls_reads s"
  "ls_repeated (erase s) = ls_repeated s" "ls_write_turn (erase s) = ls_write_turn s" "ls_offers (erase s) = ls_offers s"
  "ls_budget (erase s) = hush (ls_budget s)"
  by (simp_all add: erase_def)

lemma hush_fields [simp]:
  "bu_policy (hush b) = bu_policy b" "turns_used (hush b) = turns_used b" "extensions (hush b) = extensions b"
  "effective_turn_limit (hush b) = effective_turn_limit b" "extension_count (hush b) = extension_count b"
  "progress_checks (hush b) = progress_checks b" "denied_extensions (hush b) = denied_extensions b"
  "bu_fingerprint (hush b) = bu_fingerprint b" "checkpoint_fingerprint (hush b) = checkpoint_fingerprint b"
  "recent_state_digests (hush b) = recent_state_digests b" "last_stop_reason (hush b) = last_stop_reason b"
  "observed_evidence_keys (hush b) = observed_evidence_keys b" "synthesis_required (hush b) = synthesis_required b"
  "synthesis_consumed (hush b) = synthesis_consumed b" "hush (hush b) = hush b"
  by (simp_all add: hush_def)

text \<open>The operations on the budget neither read the request nor set it.\<close>

lemma hush_commutes [simp]:
  "hush (observe C name arguments output error grant b) = observe C name arguments output error grant (hush b)"
  "hush (note_turn_complete C n b) = note_turn_complete C n (hush b)"
  "hush (note_continuation c b) = hush b"
  "hush (snd (decide_readonly_synthesis C n b)) = snd (decide_readonly_synthesis C n (hush b))"
  "fst (decide_readonly_synthesis C n (hush b)) = fst (decide_readonly_synthesis C n b)"
  "hush (snd (decide_extension C n m b)) = snd (decide_extension C n m (hush b))"
  "fst (decide_extension C n m (hush b)) = fst (decide_extension C n m b)"
  "termination_after_denied_extension (hush b) = termination_after_denied_extension b"
  "workspace_write_extension_eligible (hush b) w e = workspace_write_extension_eligible b w e"
  by (simp_all add: observe_def note_turn_complete_def note_continuation_def Let_def decide_readonly_synthesis_def
      lifetime_evidence_evaluation_def decide_extension_def deny_def decision_def termination_after_denied_extension_def
      workspace_write_extension_eligible_def hush_def split: prod.splits option.splits)

lemma erase_commutes:
  "erase (on_budget (observe C name arguments output error grant) s) =
     on_budget (observe C name arguments output error grant) (erase s)"
  "erase (on_budget (note_turn_complete C n) s) = on_budget (note_turn_complete C n) (erase s)"
  "erase (on_budget (note_continuation c) s) = erase s"
  "erase (publish why s) = publish why (erase s)" "joined (erase s) = joined s"
  "erase (enter_turn K n s) = enter_turn K n (erase s)"
  "erase (add_finding t s) = add_finding t (erase s)" "erase (note_edit K n name s) = note_edit K n name (erase s)"
  "erase (count_read K name arguments s) = count_read K name arguments (erase s)"
  "refused_call K n name arguments (erase s) = refused_call K n name arguments s"
  subgoal by (simp add: erase_def on_budget_def)
  subgoal by (simp add: erase_def on_budget_def)
  subgoal by (simp add: erase_def on_budget_def)
  subgoal by (simp add: erase_def publish_def hush_def)
  subgoal by (simp add: joined_def)
  subgoal by (simp add: erase_def enter_turn_def active_tools_def stalled_def hush_def)
  subgoal by (simp add: erase_def add_finding_def)
  subgoal by (cases "lc_first_edit K") (simp_all add: erase_def note_edit_def)
  subgoal by (simp add: erase_def count_read_def Let_def)
  subgoal by (simp add: refused_call_def)
  done

lemma agrees_leave:
  "agrees (leave status why) (leave status why)" "agrees (leave_with status why t) (leave_with status why t)"
  "agrees (leave_if b why) (leave_if b why)"
  by (auto simp: leave_def leave_with_def leave_if_def erase_commutes
      intro!: agrees_bind agrees_basic agrees_reads agrees_writes)

lemma agrees_call: "agrees (call_step C K n call) (call_step C K n call)"
  by (auto simp: call_step_def erase_commutes split: tool_call.splits option.splits tool_outcome.splits
      intro!: agrees_bind agrees_basic agrees_reads agrees_writes agrees_leave)

text \<open>The gates, with what they decide read apart from the budget they leave.\<close>

lemma readonly_gate_steps:
  "readonly_gate C n =
     bindM (reads (\<lambda>s. fst (decide_readonly_synthesis C n (ls_budget s)))) (\<lambda>go.
     bindM (writes (\<lambda>s. s\<lparr>ls_budget := snd (decide_readonly_synthesis C n (ls_budget s))\<rparr>)) (\<lambda>_.
     if go then ret () else leave ''failed'' stop_base_no_progress))"
  by (simp add: fun_eq_iff readonly_gate_def bindM_def reads_def writes_def split_beta)

definition extension_asked :: "cfg \<Rightarrow> loop_conf \<Rightarrow> int \<Rightarrow> budget \<Rightarrow> ext_decision \<times> budget" where
  "extension_asked C K n b =
     decide_extension C n (\<not> workspace_write_extension_eligible b (lc_workspace K) (tool_specs K)) b"

lemma extension_gate_steps:
  "extension_gate C K n =
     bindM (reads (\<lambda>s. ed_granted (fst (extension_asked C K n (ls_budget s))))) (\<lambda>go.
     bindM (writes (\<lambda>s. s\<lparr>ls_budget := snd (extension_asked C K n (ls_budget s))\<rparr>)) (\<lambda>_.
     if go then ret () else
       bindM (reads (\<lambda>s. termination_after_denied_extension (ls_budget s))) (\<lambda>why. leave ''failed'' why)))"
  by (simp add: fun_eq_iff extension_gate_def extension_asked_def Let_def bindM_def reads_def writes_def split_beta)

lemma extension_asked_hush [simp]:
  "hush (snd (extension_asked C K n b)) = snd (extension_asked C K n (hush b))"
  "fst (extension_asked C K n (hush b)) = fst (extension_asked C K n b)"
  by (simp_all add: extension_asked_def)

lemma erase_set: "erase (s\<lparr>ls_budget := b\<rparr>) = (erase s)\<lparr>ls_budget := hush b\<rparr>"
  by (simp add: erase_def)

lemma agrees_gates:
  "agrees (readonly_gate C n) (readonly_gate C n)" "agrees (extension_gate C K n) (extension_gate C K n)"
  unfolding readonly_gate_steps extension_gate_steps
  by (auto simp: erase_set intro!: agrees_bind agrees_basic agrees_reads agrees_writes agrees_leave)

lemma agrees_if: "agrees m m' \<Longrightarrow> agrees k k' \<Longrightarrow> agrees (if b then m else k) (if b then m' else k')"
  by simp

lemma turn_gate_steps:
  "turn_gate C K i n =
     bindM (reads (\<lambda>s. absolute_turn_limit (bu_policy (ls_budget s)) < n + 1)) (\<lambda>b1.
     bindM (reads (\<lambda>s. n + 1 \<le> effective_turn_limit (ls_budget s))) (\<lambda>b2.
     bindM (reads (\<lambda>s. synthesis_required (ls_budget s))) (\<lambda>b3.
     if b1 then leave ''failed'' stop_absolute_turn_limit
     else if b2 then ret ()
     else if ti_late_again i then leave ''failed'' ''timeout''
     else if b3 then leave ''failed'' stop_synthesis_not_completed
     else if \<not> lc_writable K then readonly_gate C n
     else if \<not> ti_budget_open i then leave ''failed'' ''campaign_budget_unavailable_for_extension''
     else extension_gate C K n)))"
  by (simp add: fun_eq_iff turn_gate_def bindM_def reads_def)

lemma agrees_turn_gate: "agrees (turn_gate C K i n) (turn_gate C K i n)"
  unfolding turn_gate_steps
  by (intro agrees_bind agrees_reads agrees_if agrees_leave agrees_gates agrees_basic) simp_all

lemma agrees_tools: "agrees (tools_turn C K i n calls) (tools_turn C K i n calls)"
  unfolding tools_turn_def
  by (intro agrees_bind agrees_reads agrees_writes agrees_fold agrees_leave agrees_call agrees_turn_gate)
    (simp_all add: erase_commutes)

lemma final_turn_steps:
  "final_turn C K n content =
     bindM (reads ls_write_turn) (\<lambda>w.
     bindM (reads (\<lambda>s. synthesis_required (ls_budget s))) (\<lambda>b.
     bindM (reads (\<lambda>s. if content \<noteq> [] then content else joined s)) (\<lambda>t.
     if w then leave_with ''failed'' ''workspace_read_stall_checkpoint'' t
     else if lc_first_edit K \<noteq> None \<and> n = 1 then leave_with ''failed'' ''first_edit_not_requested'' t
     else if b \<and> content = [] then leave ''failed'' stop_synthesis_not_completed
     else
       bindM (writes (\<lambda>s. on_budget (note_turn_complete C n) (if content \<noteq> [] then add_finding content s else s))) (\<lambda>_.
       leave_with ''completed'' ''completed'' t))))"
  by (simp add: fun_eq_iff final_turn_def bindM_def reads_def)

lemma agrees_final: "agrees (final_turn C K n content) (final_turn C K n content)"
  unfolding final_turn_steps
  by (intro agrees_bind agrees_reads agrees_writes agrees_if agrees_leave) (simp_all add: erase_commutes)

text \<open>A turn without what the model wrote beside its tool calls.\<close>

definition silent :: "turn_in \<Rightarrow> turn_in" where
  "silent i =
     (case ti_reply i of
        Reply content continuation (call # calls) \<Rightarrow> i\<lparr>ti_reply := Reply [] None (call # calls)\<rparr>
      | _ \<Rightarrow> i)"

lemma agrees_continuation: "agrees (writes (on_budget (note_continuation c))) (writes (on_budget (note_continuation c')))"
  by (simp add: agrees_def writes_def erase_commutes)

lemma tools_turn_reply [simp]: "tools_turn C K (i\<lparr>ti_reply := r\<rparr>) n calls = tools_turn C K i n calls"
proof -
  have f: "ti_late_again (i\<lparr>ti_reply := r\<rparr>) = ti_late_again i" "ti_budget_open (i\<lparr>ti_reply := r\<rparr>) = ti_budget_open i"
    by simp_all
  show ?thesis by (simp only: tools_turn_def turn_gate_def f)
qed

lemma agrees_turn: "agrees (loop_turn C K (silent i) n) (loop_turn C K i n)"
proof -
  have i: "ti_late (silent i) = ti_late i" "ti_late_again (silent i) = ti_late_again i"
    "ti_budget_open (silent i) = ti_budget_open i"
    by (auto simp: silent_def reply_turn_def split: model_reply.splits list.splits)
  show ?thesis
    unfolding loop_turn_def i
    by (intro agrees_bind agrees_leave agrees_reads agrees_writes; (simp add: erase_commutes)?)
      (auto simp: silent_def reply_turn_def split: model_reply.splits list.splits
        intro!: agrees_bind agrees_basic agrees_reads agrees_writes agrees_leave agrees_tools agrees_final
          agrees_continuation simp: erase_commutes)
qed

lemma agrees_loop:
  "erase s = erase s' \<Longrightarrow>
   fst (loop_over C K (silent \<circ> I) ns s) = fst (loop_over C K I ns s') \<and>
   erase (snd (loop_over C K (silent \<circ> I) ns s)) = erase (snd (loop_over C K I ns s'))"
proof (induction ns arbitrary: s s')
  case Nil
  then have "joined s = joined s'" by (metis erase_commutes(5))
  with Nil show ?case by (simp add: erase_commutes)
next
  case (Cons n ns)
  have "fst (loop_turn C K (silent (I n)) n s) = fst (loop_turn C K (I n) n s') \<and>
      erase (snd (loop_turn C K (silent (I n)) n s)) = erase (snd (loop_turn C K (I n) n s'))"
    using agrees_turn Cons.prems by (simp add: agrees_def)
  then show ?case using Cons.IH
    by (cases "loop_turn C K (silent (I n)) n s"; cases "loop_turn C K (I n) n s'") (auto split: sum.splits)
qed

lemma run_silent:
  "map_sum id (map_prod id erase) (run_model_loop C K (silent \<circ> I)) =
   map_sum id (map_prod id erase) (run_model_loop C K I)"
proof (cases "new_budget (loop_policy_of K)")
  case (Inr b)
  let ?ns = "[1..absolute_turn_limit (bu_policy b)]"
  have "map_prod id erase (loop_over C K (silent \<circ> I) ?ns (start_loop b)) =
      map_prod id erase (loop_over C K I ?ns (start_loop b))"
    using agrees_loop [OF refl, of C K I ?ns "start_loop b"] by (simp add: prod_eq_iff)
  then show ?thesis by (simp add: run_model_loop_def Inr)
qed (simp add: run_model_loop_def)

subsection \<open>What counts as movement\<close>

definition args_of_write :: "string \<Rightarrow> string \<Rightarrow> dict" where
  "args_of_write path content = [(''path'', JStr path), (''content'', JStr content)]"

text \<open>A write of the file, whatever it held, and a call that a tool refused.\<close>

definition rewrite_and_slip :: "cfg \<Rightarrow> string \<Rightarrow> string \<Rightarrow> string \<Rightarrow> fingerprint \<times> string list \<Rightarrow> fingerprint \<times> string list" where
  "rewrite_and_slip C content e g seen =
     observe_tool_result C ''list_dir'' [] (''ERROR: '' @ e) e (Some g)
       (observe_tool_result C ''write_file'' (args_of_write ''a.py'' content) ''wrote a.py'' [] (Some g) seen)"

lemma observe_written:
  assumes "classify_tool_failure ''write_file'' out [] = Class_ok"
    and "observe_tool_result C ''write_file'' arguments out [] (Some g) seen = (fp, keys)"
  shows "successful_write_count fp = successful_write_count (fst seen) + 1"
    "failed_shell_count fp = failed_shell_count (fst seen)" "path_noise_count fp = path_noise_count (fst seen)"
    "failure_signature fp = failure_signature (fst seen)"
  using assms by (auto simp: observe_tool_result_def note_evidence_def evidence_tools_def note_outcome_def Let_def split: prod.splits)

lemma observe_error:
  assumes "classify_tool_failure name out e = Tool_error" "e \<noteq> []"
    and "observe_tool_result C name arguments out e (Some g) seen = (fp, keys)"
  shows "successful_write_count fp = successful_write_count (fst seen)"
    "failed_shell_count fp = failed_shell_count (fst seen)" "path_noise_count fp = path_noise_count (fst seen)"
    "failure_signature fp = stable_hash C (failure_signature (fst seen) @ '':error:'' @ name @ '':'' @ dumps (JObj arguments))"
  using assms by (auto simp: observe_tool_result_def note_evidence_def note_outcome_def Let_def split: prod.splits)

lemma observe_noise:
  assumes "classify_tool_failure name out e = Path_noise"
    and "observe_tool_result C name arguments out e (Some g) seen = (fp, keys)"
  shows "successful_write_count fp = successful_write_count (fst seen)" "write_digest fp = write_digest (fst seen)"
    "path_noise_count fp = path_noise_count (fst seen) + 1" "keys = snd seen"
    "successful_evidence_count fp = successful_evidence_count (fst seen)"
  using assms by (auto simp: observe_tool_result_def note_evidence_def note_outcome_def Let_def split: prod.splits)

lemma rewrite_and_slip_material:
  assumes r: "rewrite_and_slip C content e g (fp, keys) = (fp', keys')"
    and e: "\<not> path_noise_re (e @ [CHR 0x0A] @ ''ERROR: '' @ e)" "e \<noteq> []"
  shows "fst (compare_progress fp' fp) = MATERIAL_PROGRESS \<or> failure_signature fp' = failure_signature fp"
proof -
  obtain f k where o: "observe_tool_result C ''write_file'' (args_of_write ''a.py'' content) ''wrote a.py'' [] (Some g) (fp, keys) = (f, k)"
    by fastforce
  with r have o': "observe_tool_result C ''list_dir'' [] (''ERROR: '' @ e) e (Some g) (f, k) = (fp', keys')"
    by (simp only: rewrite_and_slip_def)
  have "\<not> path_noise_re ([] @ [CHR 0x0A] @ ''wrote a.py'')" by code_simp
  then have "classify_tool_failure ''write_file'' ''wrote a.py'' [] = Class_ok" by (simp add: classify_tool_failure_def)
  note w = observe_written [OF this o]
  have "classify_tool_failure ''list_dir'' (''ERROR: '' @ e) e = Tool_error" using e unfolding classify_tool_failure_def by simp
  note x = observe_error [OF this e(2) o']
  let ?m = "movement_of fp' fp"
  have m: "writes_increased ?m" "\<not> noise_increased ?m" "\<not> failed_increased ?m"
    using w x by (simp_all add: movement_of_def)
  show ?thesis
  proof (cases "failure_evolved ?m")
    case True
    with m show ?thesis by (simp add: compare_progress_def Let_def material_bits_def)
  next
    case False
    then show ?thesis by (simp add: movement_of_def)
  qed
qed

end
