(* ===== verification/Spec2Isabelle.thy ===== *)
theory Spec2Isabelle
  imports Contracts Audit_Demo Kube_Authority Transparency_Demo Trust_Policy_Laws Model_Loop_Prose
begin

text \<open>
  A verification library of the write-scope authority of AMOF (\<open>scripts/amof\<close>), of the Kubernetes
  capability beside it, of the trust layer that anchors run packages, and of the loop that bounds
  the native worker. The definitions are executable and follow the code function by function; the
  theorems are about them.

  \<^bold>\<open>The program.\<close> An operator approves a proposed scope of paths for a limited time; a run binds the
  approval to a worktree and a commit; what the run changed is classified against the scope, what
  lies outside is restored, a receipt is written, the binding ends and the approval is spent. A
  recovery ends bindings left over; an audit reports what authority is left. Records are JSON files
  whose names are digests of their contents, in one directory per kind. The Kubernetes capability
  repeats this for one cluster operation handed to an executor. Run packages are signed and
  recorded in an append-only log whose receipts are verified offline. The worker loop alternates
  model turns and tool calls under a budget that is only extended for observed progress.

  \<^bold>\<open>Basis.\<close> \<open>Py_Prelude\<close>: texts as Python treats them, results (a sum of exception and value), runs
  (\<open>bindM\<close>, \<open>catchM\<close>, \<open>lift_res\<close> over a state), the predicates \<open>keeps\<close>, \<open>stays\<close> and \<open>triple\<close> on runs,
  the locale \<open>state_order\<close>. \<open>Py_Json\<close>: JSON values, \<open>json.dumps\<close>, \<open>str\<close>, \<open>repr\<close>, truthiness.
  \<open>Py_Time\<close>: \<open>fromisoformat\<close> and its inverse with the calendar. \<open>Faults\<close>: the exception classes and
  their messages. \<open>Host\<close>: what the code observes of the machine (record \<open>env\<close>: clock readings, git,
  real paths, runs) and the state it changes (record \<open>world\<close>: record files, event log, restore
  actions, warnings, number of readings). \<open>Stores\<close>: the locale of a record store, with what it means
  that stored records only move along a lifecycle (\<open>evolves\<close>) and that a step writes only certain
  kinds of files (\<open>writes_only\<close>).

  \<^bold>\<open>The write scope.\<close> \<open>Proposals\<close> models \<open>write_scope_proposals.py\<close> (bodies, scope paths, persistence
  from a worker result), \<open>Approvals\<close> \<open>write_scope_approvals.py\<close> (durations, expiry, grants,
  revocations), \<open>Bindings\<close> \<open>write_scope_bindings.py\<close> (lifecycle, roots, workspace, the bind gate),
  \<open>Enforcement\<close> \<open>write_scope_enforcement.py\<close> (paths in scope, restoration, receipts, terminal
  enforcement, the guardrail of write tools), \<open>Recovery\<close> \<open>write_scope_recovery.py\<close>, \<open>Scope_Audit\<close>
  \<open>write_scope_audit.py\<close> and \<open>write_scope_migration.py\<close>. A \<open>_Laws\<close> theory holds what is proved of one
  of them. \<open>Custody\<close> has the invariant of all stores together (every approval is of a stored
  proposal, every binding of a stored approval, bindings are exclusive), \<open>System\<close> the calls of an
  installation as a step relation with its runs, \<open>Contracts\<close> what each gate promises when it returns
  and when it raises, \<open>Corner_Cases\<close> behaviours nobody asked for. \<open>Demo\<close> and \<open>Audit_Demo\<close> hold the
  concrete world of the witnesses.

  \<^bold>\<open>Kubernetes.\<close> \<open>Kube_Body\<close> models the bodies of \<open>capability.py\<close> and the patches, operations and the
  comparison with a grant of \<open>kubernetes_capability.py\<close>; \<open>Kube_Store\<close> its proposals, approvals and
  bindings; \<open>Kube_Execute\<close> attempts, receipts, audit and the in-process executor. The executor is a
  parameter with a state of its own. \<open>Kube_Laws\<close>, \<open>Kube_System\<close>, \<open>Kube_Contracts\<close> and \<open>Kube_Runs\<close> lead
  to the theorems of \<open>Kube_Authority\<close>.

  \<^bold>\<open>Trust.\<close> \<open>Merkle\<close> and \<open>Transparency\<close> model \<open>trust_crypto/transparency.py\<close> and \<open>ed25519_provider.py\<close>
  (leaves, inclusion proofs, the log, receipts and their verification), \<open>Trust_Policy\<close> models
  \<open>policy.py\<close>, \<open>snapshot.py\<close> and \<open>anchors.py\<close>. SHA-256 is a parameter from texts to 256-bit words and
  Ed25519 a record of functions with the hypothesis \<open>signs\<close>: what a key signs verifies under it.

  \<^bold>\<open>The worker loop.\<close> \<open>Loop_Budget\<close> models \<open>execution_backends/native_loop_budget.py\<close> (signatures,
  progress, extensions, phases), \<open>Model_Loop\<close> the function \<open>_run_model_loop\<close> of \<open>amof_native.py\<close>: each
  turn gets a reply, tool outcomes and clock readings, all arbitrary. \<open>Model_Loop_Laws\<close> bounds its
  turns and explains its stop reasons, \<open>Model_Loop_Prose\<close> shows what the wording of replies cannot
  decide.

  \<^bold>\<open>What is shown.\<close> Of the authority as a whole: exclusivity, custody and lifecycles over all
  sequences of calls (C1 to C3, C5 to C7, C22), and the contracts of single operations (C4, C15 to
  C21, C28, C29, C40). Of scopes: exact conditions (C23 to C27, C36). Of records: round trips, normal
  forms, frozen bodies (C30 to C32, C37), durations and expiry (C38, C39). Of receipts: completeness,
  soundness up to collisions, persistence, and the one field nothing signs (C10 to C12, C34). Of
  policies: C13 and C14. Of the loop: termination with bounds, stop reasons, noninterference and
  miscounted progress (C8, C9, C33, C35). Every loop of the code is a recursion whose termination is
  proved; no definition has fuel.

  \<^bold>\<open>How the model departs from the code.\<close> Characters are below 256 and written as they are; a record
  file is a JSON value or not JSON, a file that is not UTF-8 counting as not JSON. The directories of
  the stores are in the configuration. Files do not change under a running call: locks, concurrent
  processes, operating-system errors of reading and writing, temporary files and file modes are left
  out. Clock readings are arbitrary and need not increase. A path that cannot be resolved is a
  partiality of \<open>realpath\<close>. A restoration is recorded as the action taken (the directory and pathspec
  of \<open>git restore\<close>, the path removed); what git answers may depend on the actions before. Errors of
  the Kubernetes and trust modules are their codes, those of bodies the statement that raises.
  \<open>int()\<close> of a float with an exponent is not computed. Base64 and its strict mode are those of
  Python from 3.11. The run directories an audit reads are lists in the environment. The loop keeps
  the budget, the results of tools and what is returned, and not the messages, the event log, usage
  counts, or the check of the first-write markers; sets of observation keys and key ids are lists;
  a log file is the list of its lines.

  \<^bold>\<open>What is not modelled.\<close> The command line and HTTP layers, the orchestrator and its queues, intake,
  the other execution backends, MCP servers, bundles and exports, generated build files, the live
  Kubernetes client and the reference services. They call the parts above or are independent of
  them, and are mostly input and output; each is listed with its reason in the manifest.
\<close>

section \<open>The authority as a whole\<close>

text \<open>C1: whatever calls an installation serves, in whatever order, at most one live binding
  exists per target and at most one live binding per stored approval, however it is referred to;
  and at most one blocking binding, live or completed, per approval reference as it was written.
  An alias of the reference is another reference: once the first binding has completed, the same
  approval can be bound again under it.\<close>

theorem exclusive_always:
  assumes "runs C cs w w'" and "files w = [] \<or> custody C w"
  shows "one_live_per_target C w' \<and> one_live_per_approval C w' \<and> one_blocking_per_reference C w'"
proof -
  have "custody C w'"
    using runs_custody [OF assms(1)] custody_empty [of w C] assms(2) by (auto simp: custody_kept_def)
  then show ?thesis by (auto simp: custody_def bindings_exclusive_def intro: one_live_approval)
qed

lemma exclusive_always_witness:
  "\<exists>w. runs demo_cfg [Move_binding (demo_id ''wsb-'') ''completed'' None None] demo_world w \<and>
     one_live_per_target demo_cfg w \<and> one_live_per_approval demo_cfg w \<and> one_blocking_per_reference demo_cfg w \<and>
     (\<exists>p b. binding_at demo_cfg w p = Some b \<and> wb_status b = Completed)"
proof -
  obtain w c where r: "runs demo_cfg [Move_binding (demo_id ''wsb-'') ''completed'' None None] demo_world w"
    "held_at demo_cfg w (demo_id ''wsb-'') c" "wb_status c = Completed"
    using demo_completes by blast
  then show ?thesis using exclusive_always [OF r(1)] demo_custody by (auto simp: held_at_def)
qed

text \<open>C2: whatever calls are served, every stored approval is of a stored proposal with the
  same body, hash and run, and every stored binding is of a stored approval with its hash,
  target and base commit.\<close>

theorem chain_always:
  assumes "runs C cs w w'" and "files w = [] \<or> custody C w"
  shows "approvals_backed C w' \<and> bindings_backed C w'"
  using runs_custody [OF assms(1)] custody_empty [of w C] assms(2)
  by (auto simp: custody_kept_def custody_def)

lemma chain_always_witness:
  "\<exists>w. runs demo_cfg [Move_binding (demo_id ''wsb-'') ''completed'' None None] demo_world w \<and>
     approvals_backed demo_cfg w \<and> bindings_backed demo_cfg w \<and>
     (\<exists>p b. binding_at demo_cfg w p = Some b \<and> wb_status b = Completed)"
proof -
  obtain w c where r: "runs demo_cfg [Move_binding (demo_id ''wsb-'') ''completed'' None None] demo_world w"
    "held_at demo_cfg w (demo_id ''wsb-'') c" "wb_status c = Completed"
    using demo_completes by blast
  then show ?thesis using chain_always [OF r(1)] demo_custody by (auto simp: held_at_def)
qed

text \<open>C3: between any two moments of a run the records only follow their lifecycles: an
  approval leaves \<open>approved\<close> once, a binding takes only allowed statuses, nothing else of a
  record changes and none disappears. A run without a grant adds no approval, a run without a
  bind no binding.\<close>

theorem records_follow_lifecycle:
  assumes "runs C cs w w'"
  shows "approvals_evolve (list_ex grants cs) C w w' \<and> bindings_evolve (list_ex binds cs) C w w'"
  using assms by (blast intro: runs_approvals runs_bindings)

lemma records_follow_lifecycle_witness:
  "\<exists>w. runs demo_cfg [Move_binding (demo_id ''wsb-'') ''completed'' None None] demo_world w \<and>
     bindings_evolve False demo_cfg demo_world w \<and>
     (\<exists>p b. binding_at demo_cfg w p = Some b \<and> wb_status b = Completed)"
proof -
  obtain w c where r: "runs demo_cfg [Move_binding (demo_id ''wsb-'') ''completed'' None None] demo_world w"
    "held_at demo_cfg w (demo_id ''wsb-'') c" "wb_status c = Completed"
    using demo_completes by blast
  then show ?thesis using records_follow_lifecycle [OF r(1)] demo_custody by (auto simp: held_at_def)
qed

text \<open>C4: an enforcement that returns has settled the authority: the receipt is stored, the
  binding has ended, the approval is spent after a mutation in scope or a breach, and success
  within the scope completes the binding and consumes the approval.\<close>

theorem enforcement_contract:
  "triple (\<lambda>w. approvals_placed (cfg_of E) w \<and> bindings_placed (cfg_of E) w)
     (enforce_write_scope_mutations E i q)
     (\<lambda>o' w'. enforcement_settled (cfg_of E) i o' w') (\<lambda>e w'. True)"
  by (rule tripleI) (auto intro: enforce_settles)

text \<open>C15: a bind that returns found an approved approval before its expiry, the target asked for
  to be the one approved, the required capability, the workspace the manifest or the caller names
  with HEAD at the approved commit, every allowed and denied root of the body below it, no live
  binding of the target and no blocking one of the reference; what it returns is stored, and when
  it is new it is active over exactly these roots. A refused bind adds no authority.\<close>

theorem binding_contract:
  "triple (\<lambda>s. s = w \<and> approvals_placed (cfg_of E) s \<and> bindings_placed (cfg_of E) s)
     (create_binding E i q) (bind_contract E i q w) (\<lambda>e w'. authority_evolves (cfg_of E) w w')"
  by (rule bind_meets)

text \<open>C16: a grant that returns is of the stored proposal, by a named operator, for the parsed
  duration; a refused one writes no record.\<close>

theorem granting_contract:
  "triple (\<lambda>s. s = w) (approve_proposal E pid ttl who src prov at now)
     (grant_contract (cfg_of E) pid ttl who prov w) (\<lambda>e w'. same_files w w')"
  by (rule grant_meets)

text \<open>C17: a recovery that returns either asks for an operator or has ended the binding, which
  is then not completed; and no decision completes a binding, whether it returns or raises.\<close>

theorem recovery_contract:
  "triple (\<lambda>w. bindings_placed (cfg_of E) w) (recover_binding E i dec)
     (\<lambda>rc w'. recovery_settled (cfg_of E) i rc w') (\<lambda>e w'. True) \<and>
   keeps (no_completion (cfg_of E)) (recover_binding E i dec)"
  by (intro conjI recover_no_completion tripleI) (auto intro: recover_settles)

text \<open>C18: checkpoints, enforcement, its merge into a result, diagnosis, recovery and
  audit add no approval and no binding and only move the stored ones along their lifecycles, also when they
  raise.\<close>

theorem no_new_authority:
  "keeps (authority_evolves (cfg_of E)) (check_authority_checkpoint E b ws sha now) \<and>
   keeps (authority_evolves (cfg_of E)) (enforce_write_scope_mutations E i q) \<and>
   keeps (authority_evolves (cfg_of E)) (apply_enforcement_to_result E j ob wsp rf) \<and>
   keeps (authority_evolves (cfg_of E)) (diagnose_binding_recovery E i) \<and>
   keeps (authority_evolves (cfg_of E)) (recover_binding E i dec) \<and>
   keeps (authority_evolves (cfg_of E)) (audit_write_scope E i)"
  by (intro conjI enforce_rules apply_rules diagnose_rules recover_rules checkpoint_rules audit_authority.keeps_audit)

text \<open>C19: a checkpoint without a stop reason found a live binding, an approved and unexpired
  approval and, when asked for, an unmoved HEAD.\<close>

theorem checkpoint_passed:
  "triple (\<lambda>s. approvals_placed (cfg_of E) s) (check_authority_checkpoint E b ws sha now)
     (checkpoint_contract E b ws sha) (\<lambda>e w'. True)"
  by (rule checkpoint_meets)

text \<open>C21: an audit, from a world in custody, of anything but a receipt reports a stored proposal,
  approval and binding of one chain: the binding with the hash, target and commit of the approval,
  the approval with the body, hash and run of the proposal. Unless it was of a run, the receipt it
  reports is of that binding. Whatever it is of, it only moves approvals along their lifecycle.\<close>

theorem audit_one_chain:
  "triple (\<lambda>s. s = w \<and> custody (cfg_of E) s) (audit_write_scope E i)
     (audit_contract (cfg_of E) i w) (\<lambda>e w'. authority_evolves (cfg_of E) w w')"
  by (rule audit_meets)

text \<open>C20: an approval audited without residual authority cannot be bound any more by the identifier
  it was audited by, whoever binds it and whatever their clock reads; and when the approval itself is
  expired, revoked or consumed, not by any reference that leads to its file. What is left is an
  approval still approved with a completed binding, which an alias of its identifier can bind.\<close>

theorem audited_none_unbindable:
  assumes "audit_write_scope E i w = (Inr rep, w')" "custody (cfg_of E) w"
    and "starts_with (py_strip i) ''wsa-''" "plain_ref (py_strip i)"
    and "ts_residual (ar_state rep) = No_authority" "cfg_of E' = cfg_of E"
    and "record_path (approvals_dir (cfg_of E)) (py_strip r) = record_path (approvals_dir (cfg_of E)) (py_strip i)"
    and "py_strip r = py_strip i \<or> (\<exists>a. ar_approval rep = Some a \<and> wa_status a \<noteq> Approved)"
  shows "\<exists>e. fst (create_binding E' r q w') = Inl e"
  using assms by (rule no_residual_no_bind)

lemma audited_none_unbindable_witness:
  "\<forall>q. \<exists>e. fst (create_binding lost_env (demo_id ''wsa-'') q demo_world) = Inl e"
proof
  fix q
  obtain rep where r: "audit_write_scope demo_env (demo_id ''wsa-'') demo_world = (Inr rep, demo_world)"
    "ts_residual (ar_state rep) = No_authority"
    using demo_audit by blast
  have "custody (cfg_of demo_env) demo_world" "cfg_of lost_env = cfg_of demo_env"
    by (simp_all add: demo_dirs demo_custody)
  moreover have "starts_with (py_strip (demo_id ''wsa-'')) ''wsa-''" "plain_ref (py_strip (demo_id ''wsa-''))"
    by code_simp+
  ultimately show "\<exists>e. fst (create_binding lost_env (demo_id ''wsa-'') q demo_world) = Inl e"
    using audited_none_unbindable [OF r(1) _ _ _ r(2) _ refl] by blast
qed

text \<open>C28: a scan of the stores counts exactly the files that verify, lists exactly the others,
  fabricates no approval and changes nothing.\<close>

theorem scan_exact:
  "triple (\<lambda>s. s = w) (scan_write_scope_store C evs)
     (\<lambda>s w'. w' = w \<and> ms_fabricated s = 0 \<and>
        ms_proposals s = scan_counts verify_proposal_record C (proposals_dir C) ''wsp-'' w \<and>
        ms_approvals s = scan_counts verify_approval_base C (approvals_dir C) ''wsa-'' w \<and>
        ms_bindings s = scan_counts verify_binding_record C (bindings_dir C) ''wsb-'' w \<and>
        ms_receipts s = scan_counts verify_receipt_record C (receipts_dir C) ''wmr-'' w \<and>
        map sc_path (ms_corrupt s) =
          refused_paths verify_proposal_record C (proposals_dir C) ''wsp-'' w @
          refused_paths verify_approval_base C (approvals_dir C) ''wsa-'' w @
          refused_paths verify_binding_record C (bindings_dir C) ''wsb-'' w @
          refused_paths verify_receipt_record C (receipts_dir C) ''wmr-'' w)
     (\<lambda>e w'. True)"
  by (rule tripleI) (use scan_store_exact in blast)+

section \<open>Scopes\<close>

text \<open>C24: a path is in scope exactly when its real path lies in the workspace, under an allowed
  root and under no denied root; and splitting the changed paths equals judging each on its own,
  keeping the first verdict of each name, and sorting both sides.\<close>

theorem scope_admits_iff:
  "(path_is_within_effective_scope E p S = Inr (True, rel, err) \<longleftrightarrow>
     err = None \<and>
     (\<exists>ws absolute. real_inside E (sr_workspace S) p ws absolute \<and>
        list_ex (under absolute) (sr_allowed S) \<and> \<not> list_ex (under absolute) (sr_denied S) \<and>
        rel = Some (as_posix (path_str ([], drop (length (snd ws)) (snd absolute)))))) \<and>
   classify_changed_paths E changed S =
     bindR (mapR (scope_verdict E S) changed) (\<lambda>vs. Inr (split_verdicts (first_verdicts [] vs)))"
  by (intro conjI within_scope_iff classify_reference)

text \<open>C25: a write tool is let through exactly when no root restricts it, or its real path lies
  under a writable root and under no denied one, inside the workspace when one is given.\<close>

theorem write_tool_admits_iff:
  "guardrail_write_allowed E p writable denied workspace = Inr None \<longleftrightarrow>
     writable = [] \<or>
     (\<exists>roots dn absolute. mapR (\<lambda>r. resolve_path E (py_path r)) writable = Inr roots \<and>
        mapR (\<lambda>r. resolve_path E (py_path r)) denied = Inr dn \<and> guarded_path E workspace p absolute \<and>
        list_ex (under absolute) roots \<and> \<not> list_ex (under absolute) dn)"
  by (rule guardrail_iff)

text \<open>C26: enforcing a result marks it, and enforcing it again changes neither the result nor
  the world; a failed enforcement turns the result into a failure with a nonzero exit code.\<close>

theorem enforcement_reported:
  "triple (\<lambda>w. True) (apply_enforcement_to_result E j (Some b) ws rf)
     (\<lambda>j' w'. apply_enforcement_to_result E j' (Some b) ws2 rf2 w' = (Inr j', w')) (\<lambda>e w'. True) \<and>
   jget (merge_outcome r b' (o'\<lparr>eo_failed := True\<rparr>)) ''status'' = JStr ''failed'' \<and>
   int_nonzero (jget (merge_outcome r b' (o'\<lparr>eo_failed := True\<rparr>)) ''exit_code'')"
  by (intro conjI merge_outcome_failed tripleI) (auto dest!: apply_enforcement_marks simp: apply_enforcement_again)

text \<open>C27: a restoration judges every requested name once, in order: \<open>git restore\<close> runs in the root
  exactly for the names git tracks and finds dirty, a link or file is unlinked and a directory
  removed exactly at the root joined with an untracked name that is still there, every other name
  called for nothing, and the names reported are those with an action. It writes no record. What
  \<open>git restore\<close> then touches is what git matches with the name as a pathspec.\<close>

theorem restoration_contract:
  "triple (\<lambda>s. s = w) (restore_paths E ws paths) (restore_contract E ws paths w) (\<lambda>e w'. same_files w w')"
  by (rule restore_meets)

text \<open>C29: preparing an execution yields naked roots without a binding, or the roots of a new
  bind without naked roots; the two authorities never mix.\<close>

theorem preparation_contract:
  "triple (\<lambda>s. s = w) (prepare_execution_write_scope E approval naked q)
     (prepare_contract E approval naked q w) (\<lambda>e w'. authority_evolves (cfg_of E) w w')"
  by (rule prepare_meets)

section \<open>Records\<close>

text \<open>C30: what a verified record of each kind is written back as verifies to the same record; and
  an approval, a binding and a receipt verify from their own records exactly when they are well
  formed: identifier and hash recomputed from the fields, body frozen, operator named, roots
  absolute, texts clean.\<close>

theorem records_round_trip:
  "bindR (verify_proposal_record C j) (\<lambda>r. verify_proposal_record C (proposal_json r)) = verify_proposal_record C j \<and>
   bindR (verify_approval_base C j) (\<lambda>r. verify_approval_base C (approval_json r)) = verify_approval_base C j \<and>
   bindR (verify_revocation_record C j) (\<lambda>r. verify_revocation_record C (revocation_json r)) =
     verify_revocation_record C j \<and>
   bindR (verify_binding_record C j) (\<lambda>r. verify_binding_record C (binding_json r)) = verify_binding_record C j \<and>
   bindR (verify_receipt_record C j) (\<lambda>r. verify_receipt_record C (receipt_json r)) = verify_receipt_record C j \<and>
   (verify_approval_base C (approval_json a) = Inr a \<longleftrightarrow> approval_ok C a) \<and>
   (verify_binding_record C (binding_json b) = Inr b \<longleftrightarrow> binding_ok C b) \<and>
   (verify_receipt_record C (receipt_json r) = Inr r \<longleftrightarrow> receipt_ok C r)"
proof -
  have "(verify_approval_base C (approval_json a) = Inr a \<longleftrightarrow> approval_ok C a) \<and>
     (verify_binding_record C (binding_json b) = Inr b \<longleftrightarrow> binding_ok C b) \<and>
     (verify_receipt_record C (receipt_json r) = Inr r \<longleftrightarrow> receipt_ok C r)"
    using verify_approval_ok verify_approval_json verify_binding_ok verify_binding_json
      verify_receipt_ok verify_receipt_json by blast
  moreover have "bindR (verify_proposal_record C j) (\<lambda>r. verify_proposal_record C (proposal_json r)) = verify_proposal_record C j \<and>
     bindR (verify_approval_base C j) (\<lambda>r. verify_approval_base C (approval_json r)) = verify_approval_base C j \<and>
     bindR (verify_revocation_record C j) (\<lambda>r. verify_revocation_record C (revocation_json r)) =
       verify_revocation_record C j \<and>
     bindR (verify_binding_record C j) (\<lambda>r. verify_binding_record C (binding_json r)) = verify_binding_record C j \<and>
     bindR (verify_receipt_record C j) (\<lambda>r. verify_receipt_record C (receipt_json r)) = verify_receipt_record C j"
    by (intro conjI bindR_same; rule ps.reverify approvals.reverify revocations.reverify bindings.reverify
        receipts.reverify)
  ultimately show ?thesis by blast
qed

text \<open>C31: a normalized scope path is a safe relative path and a fixed point; a normalized body is
  frozen, claims no approval of its own, and is a fixed point; and two bodies have one canonical
  hash payload exactly when they agree on every field but the free-text reason.\<close>

theorem bodies_normal:
  "Option.bind (normalize_scope_path s) normalize_scope_path = normalize_scope_path s \<and>
   pred_option safe_scope_path (normalize_scope_path s) \<and>
   Option.bind (normalize_write_scope_body v) (\<lambda>b. normalize_write_scope_body (body_json b)) =
     normalize_write_scope_body v \<and>
   pred_option (\<lambda>b. frozen b \<and> \<not> contains_hostile_approval_claim (body_json b)) (normalize_write_scope_body v) \<and>
   (dumps (body_payload a) = dumps (body_payload b) \<longleftrightarrow> a\<lparr>reason := r\<rparr> = b\<lparr>reason := r\<rparr>)"
proof (intro conjI)
  show "dumps (body_payload a) = dumps (body_payload b) \<longleftrightarrow> a\<lparr>reason := r\<rparr> = b\<lparr>reason := r\<rparr>"
  proof
    assume "a\<lparr>reason := r\<rparr> = b\<lparr>reason := r\<rparr>"
    then have "body_payload (a\<lparr>reason := r\<rparr>) = body_payload (b\<lparr>reason := r\<rparr>)" by simp
    then show "dumps (body_payload a) = dumps (body_payload b)" by (simp add: body_payload_def)
  qed (rule dumps_payload_inj)
qed (cases "normalize_scope_path s"; cases "normalize_write_scope_body v";
    auto intro: normalize_scope_path_idem normalize_scope_path_safe normalize_idem normalize_frozen)+

text \<open>C36: an approvable body for documents reaches only paths under \<open>docs\<close>.\<close>

theorem documents_only:
  "validate_approval_body j = Inr b \<Longrightarrow> docs_only b \<Longrightarrow>
   list_all (\<lambda>r. path_is_under_docs r \<and> safe_scope_path r) (allowed_roots b)"
  by (rule docs_only_reach)

lemma documents_only_witness:
  "list_all (\<lambda>r. path_is_under_docs r \<and> safe_scope_path r) [''docs'']"
  using documents_only [OF demo_frozen] by (simp add: demo_body_def)

section \<open>Time\<close>

text \<open>C38: a duration is accepted exactly when it is a sequence of positive amounts with
  strictly descending units, and it is then the sum of its tokens.\<close>

theorem ttl_grammar:
  "parse_ttl_duration v = Inr t \<longleftrightarrow>
     (\<exists>toks. py_lower (py_strip v) = ttl_text toks \<and> toks \<noteq> [] \<and> list_all ttl_token_ok toks \<and>
       sorted_wrt (<) (map snd toks) \<and> t = ttl_sum toks \<and> t < max_delta_seconds)"
  by (rule parse_ttl_iff)

text \<open>A time stamp the code writes is read back as the same second.\<close>

theorem stamp_read_back:
  "0 \<le> t \<Longrightarrow> t < max_micros \<Longrightarrow> parse_iso_utc C (stamp t) = Inr (t div 1000000 * 1000000)"
  by (rule stamp_props)

lemma stamp_read_back_witness:
  "\<forall>C. parse_iso_utc C (stamp 63000000000000000) = Inr 63000000000000000"
  using stamp_read_back [of 63000000000000000] by (simp add: max_micros_def max_ordinal_def)

text \<open>C39: an approved approval is evaluated as expired from its expiry on, and not before.\<close>

theorem expiry_boundary:
  "wa_status a = Approved \<Longrightarrow> parse_iso_utc (cfg_of E) (wa_expires a) = Inr x \<Longrightarrow>
   \<exists>w'. evaluate_expiry E (Some t) persist a w =
     (Inr (if t < x then a else a\<lparr>wa_status := Expired\<rparr>), w')"
  by (rule expiry_at)

lemma expiry_boundary_witness:
  "\<exists>x a. \<forall>w. \<exists>w'. evaluate_expiry demo_env (Some x) False a w = (Inr (a\<lparr>wa_status := Expired\<rparr>), w') \<and>
     wa_status a = Approved"
proof -
  define a where "a = demo_approval\<lparr>wa_status := Approved, wa_expires := stamp 63000000000000000\<rparr>"
  have a: "wa_status a = Approved" "parse_iso_utc (cfg_of demo_env) (wa_expires a) = Inr 63000000000000000"
    by (simp_all add: a_def stamp_props max_micros_def max_ordinal_def)
  have "\<exists>w'. evaluate_expiry demo_env (Some 63000000000000000) False a w = (Inr (a\<lparr>wa_status := Expired\<rparr>), w')" for w
    using expiry_boundary [OF a, of 63000000000000000 False w] by simp
  with a(1) show ?thesis by blast
qed

section \<open>Lifecycles\<close>

text \<open>C37: what is done twice is done once: a proposal saved again, as it was returned, is returned
  again and nothing changes; a revoked approval revoked again is returned with its first revocation
  and nothing is written; and persisting the proposals of a worker result only adds record files.\<close>

theorem saving_idempotent:
  "triple (\<lambda>w. True) (save_proposal E j)
     (\<lambda>p w'. save_proposal E (proposal_json p) w' = (Inr p, w')) (\<lambda>e w'. True) \<and>
   triple (\<lambda>s. s = w \<and> approval_at (cfg_of E) s (record_path (approvals_dir (cfg_of E)) (py_strip i)) = Some a \<and>
       wa_status a = Revoked)
     (revoke_approval E i why who prov at now)
     (\<lambda>v w'. (case v of (c, rv, again) \<Rightarrow> again \<and> c = a \<and>
        stored verify_revocation_record (cfg_of E) w
          (record_path (revocations_dir (cfg_of E)) (py_strip (the (wa_revocation a)))) = Some rv) \<and>
        same_files w w')
     (\<lambda>e w'. same_files w w') \<and>
   keeps only_adds (persist_write_scope_proposals_from_result E result run_id created_at)"
  by (intro conjI adds_persist; rule tripleI) (auto intro: save_again dest: revoke_revoked)

text \<open>C40: a loaded binding is moved to a status exactly when its lifecycle allows it: the call then
  returns the binding with this status, the time it ended and the reason given and nothing else
  changed, and has stored it in its file and no other; otherwise it raises and has written nothing.\<close>

theorem transition_iff_allowed:
  assumes "load_binding E i w = (Inr b, w)"
    and "transition_binding_status E i (binding_status_text t) why at w = (r, w')"
  shows "if t \<in> set (binding_transitions (Some (wb_status b)))
    then \<exists>v. r = Inr v \<and> moved_to b t why at v \<and>
      binding_at (cfg_of E) w' (binding_path (cfg_of E) (wb_id b)) = Some v \<and>
      same_files (write_file (binding_path (cfg_of E) (wb_id b)) (binding_json v) w) w'
    else (\<exists>e. r = Inl e) \<and> same_files w w'"
  using assms by (rule transition_exact)

lemma transition_iff_allowed_witness:
  "\<exists>v w'. transition_binding_status demo_env (demo_id ''wsb-'') (binding_status_text Suspended) None None
     demo_world = (Inr v, w') \<and> wb_status v = Suspended \<and>
     binding_at demo_cfg w' (binding_path demo_cfg (wb_id demo_binding)) = Some v"
proof -
  have ld: "load_binding demo_env (demo_id ''wsb-'') demo_world = (Inr demo_binding, demo_world)"
    by (rule held_load) (simp add: demo_dirs demo_held)
  obtain r w' where run: "transition_binding_status demo_env (demo_id ''wsb-'') (binding_status_text Suspended) None None
     demo_world = (r, w')" by fastforce
  have "wb_status demo_binding = Active" by (simp add: demo_binding_def)
  with transition_iff_allowed [OF ld run] run show ?thesis by (auto simp: moved_to_def demo_dirs)
qed

text \<open>Listing returns exactly the stored bindings that match, by bind time and identifier.\<close>

theorem listing_exact:
  "triple (\<lambda>s. s = w \<and> bindings_placed (cfg_of E) s) (list_bindings E a r t st)
     (\<lambda>bs w'. w' = w \<and> sorted (map (\<lambda>b. (wb_bound_at b, wb_id b)) bs) \<and>
        set bs = {b. binding_at (cfg_of E) w (binding_path (cfg_of E) (wb_id b)) = Some b \<and>
                    binding_matches a r t st b})
     (\<lambda>e w'. False)"
  by (rule list_bindings_meets)

section \<open>Corner cases\<close>

text \<open>The automatic recovery of an active binding whose workspace cannot be read suspends the
  binding and then raises on its own recommendation.\<close>

theorem unreadable_workspace:
  assumes "held_at (cfg_of E) w i b" and "wb_status b = Active"
    and "readable_at (cfg_of E) w (wb_approval b) a"
    and "expanduser E (py_path (wb_workspace b)) = Inr ws"
    and "workspace_dirty_paths E ws = Inl (RecoveryError f)"
  shows "\<exists>w' c. recover_binding E i ''auto'' w = (Inl (RecoveryError (V_decision ''auto'')), w') \<and>
    held_at (cfg_of E) w' i c \<and> wb_status c = Suspended"
  using assms by (rule recover_unreadable)

lemma unreadable_workspace_witness:
  "\<exists>w' c. recover_binding lost_env (demo_id ''wsb-'') ''auto'' demo_world =
     (Inl (RecoveryError (V_decision ''auto'')), w') \<and> held_at demo_cfg w' (demo_id ''wsb-'') c \<and>
     wb_status c = Suspended"
proof -
  have "expanduser lost_env (py_path (wb_workspace demo_binding)) = Inr (''/'', [''w''])"
    by code_simp
  moreover have "\<exists>f. workspace_dirty_paths lost_env (''/'', [''w'']) = Inl (RecoveryError f)"
    by (rule exI) code_simp
  ultimately show ?thesis
    using unreadable_workspace [of lost_env demo_world "demo_id ''wsb-''" demo_binding demo_approval]
      demo_held demo_readable by (auto simp: demo_dirs demo_binding_def)
qed

text \<open>An enforcement whose approval is missing raises after the checkpoint and the scope
  survived its absence; the binding keeps its status and no receipt is written.\<close>

theorem missing_approval:
  assumes "held_at (cfg_of E) w i b" and "binding_live b" and "py_strip (wb_approval b) \<noteq> []"
    and "file_at w (record_path (approvals_dir (cfg_of E)) (py_strip (wb_approval b))) = None"
    and "full_path E (binding_workspace b (eq_workspace q)) = Inr ws" and "eq_changed q = []"
  shows "\<exists>w'. enforce_write_scope_mutations E i q w =
      (Inl (ApprovalError (A_not_found (py_strip (wb_approval b)))), w') \<and>
    held_at (cfg_of E) w' i b \<and> same_files w w'"
  using assms by (rule enforce_missing_approval)

lemma missing_approval_witness:
  "\<exists>w'. enforce_write_scope_mutations demo_env (demo_id ''wsb-'') idle_request orphan_world =
      (Inl (ApprovalError (A_not_found (demo_id ''wsa-''))), w') \<and>
    held_at demo_cfg w' (demo_id ''wsb-'') demo_binding"
proof -
  have "full_path demo_env (binding_workspace demo_binding (eq_workspace idle_request)) = Inr (''/'', [''w''])"
    by code_simp
  moreover have "wb_approval demo_binding = demo_id ''wsa-''" "binding_live demo_binding" "eq_changed idle_request = []"
    by (simp_all add: demo_binding_def binding_live_def idle_request_def)
  ultimately show ?thesis
    using missing_approval [of demo_env orphan_world "demo_id ''wsb-''" demo_binding idle_request]
      orphan_held orphan_missing by (auto simp: demo_dirs demo_clean)
qed

text \<open>A file whose name contains a backslash is reported under the name of another file, out
  of scope when alone and unseen behind it.\<close>

theorem backslash_name_hidden:
  "classify_changed_paths demo_env [sly_name] docs_scope = Inr ([], [''docs/guide'']) \<and>
   classify_changed_paths demo_env [''docs/guide'', sly_name] docs_scope = Inr ([''docs/guide''], [])"
  by (intro conjI sly_name_hidden)

section \<open>Transparency log\<close>

text \<open>C10: a record appended to a log gets a receipt of its row, and the receipt verifies, with the
  index of the row and the digest of the record.\<close>

theorem receipts_verify:
  assumes "log_ok t" "tl_public t = Some pub" "tl_private t = Some priv" "signs X pub priv"
  shows "\<exists>receipt i t'. append_hashedrekord C X a now t = (Inr receipt, t') \<and>
     i < length (tl_lines t') \<and> row_digest (tl_lines t' ! i) = binding_digest C a \<and>
     jget receipt ''log_index'' = JInt (int i) \<and>
     verify_external_anchor C X receipt a =
       Inr \<lparr>an_kind = JStr ''append_only_hashedrekord'', an_index = int i, an_digest = binding_digest C a\<rparr>"
  using assms by (rule appended_receipt_verifies)

lemma receipts_verify_witness:
  "\<forall>C a now. \<exists>receipt i t'. append_hashedrekord C demo_crypto a now demo_log = (Inr receipt, t') \<and>
     verify_external_anchor C demo_crypto receipt a =
       Inr \<lparr>an_kind = JStr ''append_only_hashedrekord'', an_index = int i, an_digest = binding_digest C a\<rparr>"
  using receipts_verify [OF demo_log_ok demo_log_keys demo_signs] by blast

text \<open>C12: the log only grows, and a record is in it once: whatever is appended after it, appending
  it again leaves the log as it is and gives the same index and time.\<close>

theorem appended_records_stay:
  assumes "log_ok t" "tl_public t = Some pub" "tl_private t = Some priv" "signs X pub priv"
    and "append_hashedrekord C X a now t = (Inr receipt, t1)"
  shows "(\<exists>receipt'. append_hashedrekord C X a now' (run_appends C X rs t1) = (Inr receipt', run_appends C X rs t1) \<and>
       jget receipt' ''log_index'' = jget receipt ''log_index'' \<and>
       jget receipt' ''integrated_time'' = jget receipt ''integrated_time'') \<and>
     log_ok (run_appends C X rs t1) \<and> (\<exists>ls. run_appends C X rs t1 = t1\<lparr>tl_lines := tl_lines t1 @ ls\<rparr>)"
  using appended_once [OF assms] run_appends_grows [of t1 C X rs] append_grows [OF assms(1), of C X a now] assms(5) by simp

lemma appended_records_stay_witness:
  "\<forall>C a b. \<exists>receipt t1 receipt'. append_hashedrekord C demo_crypto a ''now'' demo_log = (Inr receipt, t1) \<and>
     append_hashedrekord C demo_crypto a ''later'' (run_appends C demo_crypto [(b, ''then'')] t1) =
       (Inr receipt', run_appends C demo_crypto [(b, ''then'')] t1) \<and>
     jget receipt' ''log_index'' = jget receipt ''log_index''"
proof (intro allI)
  fix C a b
  obtain receipt t1 where r: "append_hashedrekord C demo_crypto a ''now'' demo_log = (Inr receipt, t1)"
    using relabelled_receipt [of C a "''now''"] by blast
  from appended_records_stay [OF demo_log_ok demo_log_keys demo_signs r, of "''later''" "[(b, ''then'')]"] r
  show "\<exists>receipt t1 receipt'. append_hashedrekord C demo_crypto a ''now'' demo_log = (Inr receipt, t1) \<and>
     append_hashedrekord C demo_crypto a ''later'' (run_appends C demo_crypto [(b, ''then'')] t1) =
       (Inr receipt', run_appends C demo_crypto [(b, ''then'')] t1) \<and>
     jget receipt' ''log_index'' = jget receipt ''log_index''"
    by blast
qed

text \<open>C11: a receipt that verifies is of a body with the fields asked for and of a checkpoint signed
  with the key it names; and against the root and the size of a log, its index is of a row with its
  digest, or two different hashed strings have one digest.\<close>

theorem accepted_receipts_sound:
  assumes "verify_external_anchor C X r a = Inr res"
    and "jget r ''checkpoint'' = JObj cp" "jget cp ''root_hash'' = JStr (bytes_hex (merkle_root C (log_leaves C t)))"
    and "jget r ''inclusion'' = JObj inc" "jget inc ''tree_size'' = JInt (int (length (tl_lines t)))"
  shows "(\<exists>b pub sig. jget r ''body'' = JObj b \<and> list_all (\<lambda>(k, v). jget b k = v) (rekord_body a) \<and>
       an_digest res = canonical_json_digest C b \<and> hexdigest C pub = str_or_empty (jget cp ''log_key_id'') \<and>
       ed_valid X pub sig (canonical_payload (checkpoint_json (jget cp ''origin'') (jget cp ''tree_size'')
         (jget cp ''root_hash'') (jget cp ''log_key_id'')))) \<and>
     0 \<le> an_index res \<and> an_index res < int (length (tl_lines t)) \<and>
     (row_digest (tl_lines t ! nat (an_index res)) = an_digest res \<or>
      (\<exists>pf. collides C (map (\<lambda>f. CHR 0x00 # row_digest f) (tl_lines t) @ tree_inputs C (log_leaves C t))
         ((CHR 0x00 # an_digest res) #
          climb_inputs C (digest C (CHR 0x00 # an_digest res)) (nat (an_index res)) (length (tl_lines t)) pf)))"
  using accepted_receipt_signed [OF assms(1,2)] accepted_receipt_of_log [OF assms] by blast

lemma accepted_receipts_sound_witness:
  "\<forall>C a. \<exists>receipt t' b. append_hashedrekord C demo_crypto a ''now'' demo_log = (Inr receipt, t') \<and>
     jget receipt ''body'' = JObj b \<and> list_all (\<lambda>(k, v). jget b k = v) (rekord_body a)"
proof (intro allI)
  fix C a
  obtain receipt t' where r: "append_hashedrekord C demo_crypto a ''now'' demo_log = (Inr receipt, t')"
    "verify_external_anchor C demo_crypto receipt a =
       Inr \<lparr>an_kind = JStr ''append_only_hashedrekord'', an_index = 2, an_digest = binding_digest C a\<rparr>"
    using relabelled_receipt [of C a "''now''"] by blast
  obtain cp inc where c: "jget receipt ''checkpoint'' = JObj cp"
    "jget cp ''root_hash'' = JStr (bytes_hex (merkle_root C (log_leaves C t')))" "jget receipt ''inclusion'' = JObj inc"
    "jget inc ''tree_size'' = JInt (int (length (tl_lines t')))"
    using appended_receipt_names [OF demo_log_ok demo_log_keys r(1) demo_signs] by blast
  show "\<exists>receipt t' b. append_hashedrekord C demo_crypto a ''now'' demo_log = (Inr receipt, t') \<and>
     jget receipt ''body'' = JObj b \<and> list_all (\<lambda>(k, v). jget b k = v) (rekord_body a)"
    using accepted_receipts_sound [OF r(2) c] r(1) by blast
qed

text \<open>C34: the index of a receipt is not bound by what is signed. Any receipt that verifies and is of
  the last row of its tree verifies as well with twice its index in a tree of matching size, and that
  wrong index is returned: the size is taken from the inclusion and never compared with the signed
  checkpoint.\<close>

theorem index_not_bound:
  assumes "verify_external_anchor C X receipt a = Inr res"
    and "jget receipt ''inclusion'' = JObj inc" and "trust_int (jget inc ''tree_size'') = Inr (an_index res + 1)"
  shows "verify_external_anchor C X (relabel receipt (2 * an_index res) (2 * an_index res + 1)) a =
    Inr (res\<lparr>an_index := 2 * an_index res\<rparr>)"
  using assms by (rule relabelled_verifies)

lemma index_not_bound_witness:
  "\<forall>C a. \<exists>receipt t' res. append_hashedrekord C demo_crypto a ''now'' demo_log = (Inr receipt, t') \<and>
     length (tl_lines t') = 3 \<and> verify_external_anchor C demo_crypto receipt a = Inr res \<and> an_index res = 2 \<and>
     verify_external_anchor C demo_crypto (relabel receipt 4 5) a = Inr (res\<lparr>an_index := 4\<rparr>)"
proof (intro allI)
  fix C a
  obtain receipt t' where r: "append_hashedrekord C demo_crypto a ''now'' demo_log = (Inr receipt, t')"
    "length (tl_lines t') = 3" "verify_external_anchor C demo_crypto receipt a =
       Inr \<lparr>an_kind = JStr ''append_only_hashedrekord'', an_index = 2, an_digest = binding_digest C a\<rparr>"
    using relabelled_receipt [of C a "''now''"] by blast
  obtain inc where inc: "jget receipt ''inclusion'' = JObj inc" "jget inc ''tree_size'' = JInt 3"
    using appended_receipt_names [OF demo_log_ok demo_log_keys r(1) demo_signs] r(2) by auto
  from index_not_bound [OF r(3) inc(1)] inc(2) r
  show "\<exists>receipt t' res. append_hashedrekord C demo_crypto a ''now'' demo_log = (Inr receipt, t') \<and>
     length (tl_lines t') = 3 \<and> verify_external_anchor C demo_crypto receipt a = Inr res \<and> an_index res = 2 \<and>
     verify_external_anchor C demo_crypto (relabel receipt 4 5) a = Inr (res\<lparr>an_index := 4\<rparr>)"
    by auto
qed

section \<open>Trust policy\<close>

text \<open>C14: a policy that was loaded and then changed by any enrolments and revocations of named keys
  is well formed, and its file is read back as it was written.\<close>

theorem policy_files_read_back:
  assumes "load_trust_policy f = Inr P" "list_all (\<lambda>act. act_key act \<noteq> []) acts"
  shows "policy_ok (foldl apply_act P acts) \<and>
     load_trust_policy (Some (write_trust_policy (foldl apply_act P acts))) = Inr (foldl apply_act P acts)"
  using policy_ok_after [OF load_trust_policy_ok [OF assms(1)] assms(2)] policy_read_back by blast

lemma policy_files_read_back_witness:
  "load_trust_policy (Some (write_trust_policy (revoke_key (enroll_key (empty_policy False) ''K1'' True) ''k2''))) =
     Inr (revoke_key (enroll_key (empty_policy False) ''K1'' True) ''k2'')"
proof -
  have "list_all (\<lambda>act. act_key act \<noteq> []) [Enroll ''K1'' True, Revoke ''k2'']" by code_simp
  moreover have "load_trust_policy None = Inr (empty_policy False)" by (simp add: load_trust_policy_def)
  ultimately show ?thesis using policy_files_read_back [of None "empty_policy False" "[Enroll ''K1'' True, Revoke ''k2'']"] by simp
qed

text \<open>C13: the last enrolment or revocation that names a key decides whether it is usable; a snapshot
  verifies exactly when its policy allowed the key; a pinned anchor verifies the key it was built
  for exactly when the key has its own id.\<close>

theorem last_word_decides:
  "assert_key_usable (foldl apply_act P acts) key =
     (if key_text key = [] then Inl (Trust ''missing_key'')
      else case last_word (key_text key) acts of
        Some True \<Rightarrow> Inr ()
      | Some False \<Rightarrow> Inl (Trust ''revoked_key'')
      | None \<Rightarrow> assert_key_usable P key) \<and>
   verify_trust_snapshot (build_trust_snapshot C P a at) (written_args a) =
     (if trust_decision P (key_text (sn_key a)) = ''ALLOWED'' then Inr () else Inl (Trust ''snapshot_untrusted'')) \<and>
   verify_package_identity C key raw (build_local_pinned_trust_anchor C key raw) =
     (if hexdigest C raw = key_text key then Inr () else Inl (Trust ''key_id_mismatch''))"
  by (intro conjI usable_after snapshot_verifies_iff anchor_verifies_iff)

section \<open>The native model loop\<close>

text \<open>C8: whatever the model, the tools, the clock and the campaign do, the loop returns, within its
  effective turn limit: 48 turns and three extensions in a workspace, 18 and two elsewhere, and
  without extension 13 when nothing may be written, the last of them without tools.\<close>

theorem model_loop_returns:
  "\<exists>x s. run_model_loop C K I = Inr (x, s) \<and>
     int (length (ls_offers s)) \<le> effective_turn_limit (ls_budget s) \<and>
     effective_turn_limit (ls_budget s) \<le> (if workspace_code K then 48 else if lc_writable K then 18 else 13) \<and>
     extension_count (ls_budget s) \<le> (if workspace_code K then 3 else if lc_writable K then 2 else 0) \<and>
     tools_stripped s"
proof -
  obtain x s where r: "run_model_loop C K I = Inr (x, s)" "left_well K x s" by (rule run_model_loop_well)
  then have "within K (ls_budget s)" by (simp add: left_well_def)
  note w = limits_of_profile [OF this] extensions_of_profile [OF this]
  from r w show ?thesis by (intro exI [of _ x] exI [of _ s]) (simp add: left_well_def)
qed

text \<open>C9: a stop reason says how the run stood; every extension was earned by machine-observed
  progress, partial progress being enough only in a workspace; and progress that earned an
  extension does not earn another.\<close>

theorem model_loop_stops:
  "(\<exists>x s. run_model_loop C K I = Inr (x, s) \<and> list_all (earned K) (extensions (ls_budget s)) \<and>
      (case x of
         Raised _ \<Rightarrow> True
       | Returned status why _ \<Rightarrow> stop_agrees status why (ls_budget s) (int (length (ls_offers s))))) \<and>
   \<not> (ed_granted (fst (decide_extension C n m b)) \<and>
      ed_granted (fst (decide_extension C n' m' (snd (decide_extension C n m b)))))"
proof (intro conjI notI)
  obtain x s where r: "run_model_loop C K I = Inr (x, s)" "left_well K x s" by (rule run_model_loop_well)
  then show "\<exists>x s. run_model_loop C K I = Inr (x, s) \<and> list_all (earned K) (extensions (ls_budget s)) \<and>
      (case x of
         Raised _ \<Rightarrow> True
       | Returned status why _ \<Rightarrow> stop_agrees status why (ls_budget s) (int (length (ls_offers s))))"
    by (intro exI [of _ x] exI [of _ s]) (simp add: left_well_def within_def Let_def)
next
  assume "ed_granted (fst (decide_extension C n m b)) \<and>
      ed_granted (fst (decide_extension C n' m' (snd (decide_extension C n m b))))"
  then show False using stale_progress by (metis prod.collapse)
qed

text \<open>C33: what the model writes beside its tool calls, requests for more turns included, decides
  nothing: without it the run ends in the same way and leaves the same state, but for the last
  request kept.\<close>

theorem prose_decides_nothing:
  "map_sum id (map_prod id erase) (run_model_loop C K (silent \<circ> I)) =
   map_sum id (map_prod id erase) (run_model_loop C K I)"
  by (rule run_silent)

text \<open>C35: writing a file again with the content it had, and one refused call, count as an
  implementation with its validation, unless two failure signatures collide; a write of
  \<open>package.json\<close> is counted as path noise and not as a write.\<close>

theorem movement_miscounted:
  "(fst (compare_progress (fst (rewrite_and_slip C content ''refused'' g seen)) (fst seen)) = MATERIAL_PROGRESS \<or>
    failure_signature (fst (rewrite_and_slip C content ''refused'' g seen)) = failure_signature (fst seen)) \<and>
   (let after = fst (observe_tool_result C ''write_file'' (args_of_write ''package.json'' content)
                       ''wrote package.json'' [] (Some g) seen) in
    successful_write_count after = successful_write_count (fst seen) \<and> write_digest after = write_digest (fst seen) \<and>
    path_noise_count after = path_noise_count (fst seen) + 1)"
proof
  have "\<not> path_noise_re (''refused'' @ [CHR 0x0A] @ ''ERROR: '' @ ''refused'')" by code_simp
  then show "fst (compare_progress (fst (rewrite_and_slip C content ''refused'' g seen)) (fst seen)) = MATERIAL_PROGRESS \<or>
      failure_signature (fst (rewrite_and_slip C content ''refused'' g seen)) = failure_signature (fst seen)"
    using rewrite_and_slip_material [of C content "''refused''" g "fst seen" "snd seen"] by (metis list.distinct(1) prod.collapse)
  have "classify_tool_failure ''write_file'' ''wrote package.json'' [] = Path_noise" by code_simp
  from observe_noise [OF this, of C "args_of_write ''package.json'' content" g seen]
  show "let after = fst (observe_tool_result C ''write_file'' (args_of_write ''package.json'' content)
                       ''wrote package.json'' [] (Some g) seen) in
    successful_write_count after = successful_write_count (fst seen) \<and> write_digest after = write_digest (fst seen) \<and>
    path_noise_count after = path_noise_count (fst seen) + 1"
    by (metis prod.collapse)
qed

end
